(* ===== verification/Prelude.thy ===== *)
theory Prelude
  imports Main "HOL-Library.Multiset" "HOL-Library.List_Lexorder" "HOL-Library.Char_ord"
begin

text \<open>
  What every component of the development shares:

  \<^item> \<open>outcome\<close> and the monad \<open>('s, 'a) go\<close>: a Go function call that threads a state and
    either returns or panics (a nil pointer dereference). A panic keeps the state it happened
    in, because Go runs the deferred functions of the caller on it;
  \<^item> \<open>wp\<close>, the weakest precondition of such a call, with one simp rule per combinator, so that
    a fact about a body is proved by unfolding the body and splitting its branches;
  \<^item> \<open>sort_slice\<close>, Go's \<open>sort.Slice\<close>, with its contract as a locale: the properties of the
    callers use that the result is an ordered permutation and nothing else.
\<close>

named_theorems wp_simps \<open>weakest precondition of the monad's combinators\<close>

section \<open>Calls that return or panic\<close>

datatype 'a outcome = Returns 'a | Panics

type_synonym ('s, 'a) go = "'s \<Rightarrow> 'a outcome \<times> 's"

definition ret :: "'a \<Rightarrow> ('s, 'a) go" where
  "ret a = (\<lambda>s. (Returns a, s))"

definition panic :: "('s, 'a) go" where
  "panic = (\<lambda>s. (Panics, s))"

definition bind :: "('s, 'a) go \<Rightarrow> ('a \<Rightarrow> ('s, 'b) go) \<Rightarrow> ('s, 'b) go" where
  "bind m k = (\<lambda>s. case m s of
      (Returns a, s') \<Rightarrow> k a s'
    | (Panics, s') \<Rightarrow> (Panics, s'))"

abbreviation andthen :: "('s, unit) go \<Rightarrow> ('s, 'b) go \<Rightarrow> ('s, 'b) go" where
  "andthen m n \<equiv> bind m (\<lambda>_. n)"

definition gets :: "('s \<Rightarrow> 'a) \<Rightarrow> ('s, 'a) go" where
  "gets f = (\<lambda>s. (Returns (f s), s))"

definition modify :: "('s \<Rightarrow> 's) \<Rightarrow> ('s, unit) go" where
  "modify f = (\<lambda>s. (Returns (), f s))"

text \<open>Reading through a pointer: nil panics.\<close>

definition deref :: "'a option \<Rightarrow> ('s, 'a) go" where
  "deref p = (case p of None \<Rightarrow> panic | Some a \<Rightarrow> ret a)"

text \<open>
  \<open>defer func() { ... }()\<close>: the deferred function runs when the body returns, where it may
  replace the named results, and when the body panics, where only its effects remain.
\<close>

definition deferred :: "('s, 'a) go \<Rightarrow> ('a \<Rightarrow> ('s, 'a) go) \<Rightarrow> ('s, 'b) go \<Rightarrow> ('s, 'a) go" where
  "deferred body on_return on_panic = (\<lambda>s. case body s of
      (Returns a, s') \<Rightarrow> on_return a s'
    | (Panics, s') \<Rightarrow> (Panics, snd (on_panic s')))"

definition wp :: "('s, 'a) go \<Rightarrow> ('a outcome \<Rightarrow> 's \<Rightarrow> bool) \<Rightarrow> 's \<Rightarrow> bool" where
  "wp m Q s = (case m s of (r, s') \<Rightarrow> Q r s')"

text \<open>The continuation of a \<open>bind\<close> as a postcondition.\<close>

definition and_then :: "('a \<Rightarrow> ('s, 'b) go) \<Rightarrow> ('b outcome \<Rightarrow> 's \<Rightarrow> bool) \<Rightarrow> 'a outcome \<Rightarrow> 's \<Rightarrow> bool" where
  "and_then k Q r s = (case r of Returns a \<Rightarrow> wp (k a) Q s | Panics \<Rightarrow> Q Panics s)"

lemma and_then_simps [simp, wp_simps]:
  "and_then k Q (Returns a) s = wp (k a) Q s"
  "and_then k Q Panics s = Q Panics s"
  by (simp_all add: and_then_def)

lemma wp_ret [simp, wp_simps]: "wp (ret a) Q s = Q (Returns a) s"
  by (simp add: wp_def ret_def)

lemma wp_panic [simp, wp_simps]: "wp panic Q s = Q Panics s"
  by (simp add: wp_def panic_def)

lemma wp_gets [simp, wp_simps]: "wp (gets f) Q s = Q (Returns (f s)) s"
  by (simp add: wp_def gets_def)

lemma wp_modify [simp, wp_simps]: "wp (modify f) Q s = Q (Returns ()) (f s)"
  by (simp add: wp_def modify_def)

lemma wp_bind [simp, wp_simps]: "wp (bind m k) Q s = wp m (and_then k Q) s"
  by (auto simp: wp_def bind_def and_then_def split: prod.split outcome.split)

lemma wp_deref [simp, wp_simps]:
  "wp (deref p) Q s = (case p of None \<Rightarrow> Q Panics s | Some a \<Rightarrow> Q (Returns a) s)"
  by (simp add: deref_def split: option.split)

lemma wp_deferred [wp_simps]:
  "wp (deferred body d p) Q s =
     wp body (\<lambda>r s'. case r of Returns a \<Rightarrow> wp (d a) Q s' | Panics \<Rightarrow> Q Panics (snd (p s'))) s"
  by (auto simp: wp_def deferred_def split: prod.split outcome.split)

lemma wp_run: "m s = (r, s') \<Longrightarrow> wp m Q s = Q r s'"
  by (simp add: wp_def)

lemma wpD: "wp m Q s \<Longrightarrow> m s = (r, s') \<Longrightarrow> Q r s'"
  by (simp add: wp_def)

lemma wp_mono:
  assumes "wp m Q s" and "\<And>r s'. Q r s' \<Longrightarrow> R r s'"
  shows "wp m R s"
  using assms by (auto simp: wp_def split: prod.splits)

lemma wp_conj: "wp m (\<lambda>r s'. Q r s' \<and> R r s') s \<longleftrightarrow> wp m Q s \<and> wp m R s"
  by (auto simp: wp_def split: prod.splits)

text \<open>The monad laws.\<close>

lemma ret_bind [simp]: "bind (ret a) k = k a"
  by (simp add: bind_def ret_def)

lemma panic_bind [simp]: "bind panic k = panic"
  by (simp add: bind_def panic_def)

lemma bind_ret [simp]: "bind m ret = m"
  by (auto simp: bind_def ret_def fun_eq_iff split: prod.split outcome.split)

lemma bind_bind: "bind (bind m k) l = bind m (\<lambda>a. bind (k a) l)"
  by (auto simp: bind_def fun_eq_iff split: prod.split outcome.split)

lemma deref_Some [simp]: "deref (Some a) = ret a"
  by (simp add: deref_def)

lemma deref_None [simp]: "deref None = panic"
  by (simp add: deref_def)

section \<open>Go's \<open>sort.Slice\<close>\<close>

text \<open>
  For at most twelve elements \<open>sort.Slice\<close> is insertion sort: each element moves left past
  the elements it is less than. \<open>sift_left\<close> moves one element into the sorted prefix, which is
  kept reversed. Longer slices are sorted by another algorithm, which orders elements that the
  comparison does not separate in some unspecified way; no property below depends on that order.
\<close>

fun sift_left :: "('a \<Rightarrow> 'a \<Rightarrow> bool) \<Rightarrow> 'a \<Rightarrow> 'a list \<Rightarrow> 'a list" where
  "sift_left lt x [] = [x]"
| "sift_left lt x (y # ys) = (if lt x y then y # sift_left lt x ys else x # y # ys)"

definition sort_slice :: "('a \<Rightarrow> 'a \<Rightarrow> bool) \<Rightarrow> 'a list \<Rightarrow> 'a list" where
  "sort_slice lt xs = rev (foldl (\<lambda>prefix x. sift_left lt x prefix) [] xs)"

locale slice_sort =
  fixes sort_by :: "('a \<Rightarrow> 'a \<Rightarrow> bool) \<Rightarrow> 'a list \<Rightarrow> 'a list"
    and key :: "'a \<Rightarrow> 'k::linorder"
    and lt :: "'a \<Rightarrow> 'a \<Rightarrow> bool"
  assumes perm: "mset (sort_by lt xs) = mset xs"
    and ordered: "sorted_wrt (\<lambda>a b. key a \<le> key b) (sort_by lt xs)"
begin

lemma set_sort_by [simp]: "set (sort_by lt xs) = set xs"
  by (metis perm set_mset_mset)

lemma length_sort_by [simp]: "length (sort_by lt xs) = length xs"
  by (metis perm size_mset)

lemma sorted_keys: "sorted (map key (sort_by lt xs))"
  using ordered [of xs] by (simp add: sorted_wrt_map)

lemma mset_keys: "mset (map f (sort_by lt xs)) = mset (map f xs)"
  by (simp add: perm)

lemma distinct_sort_by: "distinct (map f (sort_by lt xs)) = distinct (map f xs)"
  using mset_keys mset_eq_imp_distinct_iff by blast

text \<open>The first element of a sorted slice with a property has the least key among them.\<close>

lemma find_least:
  assumes "find P (sort_by lt xs) = Some c"
  shows "c \<in> set xs \<and> P c \<and> (\<forall>d \<in> set xs. P d \<longrightarrow> key c \<le> key d)"
proof -
  from assms obtain i where i: "i < length (sort_by lt xs)" "c = sort_by lt xs ! i" "P c"
    and before: "\<forall>j<i. \<not> P (sort_by lt xs ! j)"
    by (auto simp: find_Some_iff)
  have "key c \<le> key d" if "d \<in> set xs" "P d" for d
  proof -
    from \<open>d \<in> set xs\<close> have "d \<in> set (sort_by lt xs)" by simp
    then obtain j where j: "j < length (sort_by lt xs)" "d = sort_by lt xs ! j"
      by (metis in_set_conv_nth)
    with before \<open>P d\<close> have "i \<le> j" by (meson not_less)
    with i j ordered [of xs] show ?thesis
      by (metis order_le_less order_refl sorted_wrt_iff_nth_less)
  qed
  with i show ?thesis
    by (metis nth_mem set_sort_by)
qed

lemma find_sort_None: "find P (sort_by lt xs) = None \<longleftrightarrow> (\<forall>c \<in> set xs. \<not> P c)"
  by (auto simp: find_None_iff)

end

lemma mset_sift_left: "mset (sift_left lt x ys) = add_mset x (mset ys)"
  by (induction ys) auto

lemma set_sift_left [simp]: "set (sift_left lt x ys) = insert x (set ys)"
  by (induction ys) auto

lemma mset_sort_slice: "mset (sort_slice lt xs) = mset xs"
proof -
  have "mset (foldl (\<lambda>prefix x. sift_left lt x prefix) ys xs) = mset ys + mset xs" for ys
    by (induction xs arbitrary: ys) (auto simp: mset_sift_left)
  then show ?thesis by (simp add: sort_slice_def)
qed

lemma sorted_sift_left:
  assumes "\<And>a b. lt a b \<longleftrightarrow> key a < (key b :: 'k::linorder)"
  shows "sorted_wrt (\<lambda>a b. key b \<le> key a) ys \<Longrightarrow> sorted_wrt (\<lambda>a b. key b \<le> key a) (sift_left lt x ys)"
  by (induction ys) (auto simp: assms not_less intro: order_trans)

lemma sorted_sort_slice:
  assumes "\<And>a b. lt a b \<longleftrightarrow> key a < (key b :: 'k::linorder)"
  shows "sorted_wrt (\<lambda>a b. key a \<le> key b) (sort_slice lt xs)"
proof -
  have "sorted_wrt (\<lambda>a b. key b \<le> key a) (foldl (\<lambda>prefix x. sift_left lt x prefix) ys xs)"
    if "sorted_wrt (\<lambda>a b. key b \<le> key a) ys" for ys
    using that by (induction xs arbitrary: ys) (auto simp: sorted_sift_left assms)
  then show ?thesis by (simp add: sort_slice_def sorted_wrt_rev)
qed

section \<open>Lists and options\<close>

lemma find_Some_mem: "find P xs = Some x \<Longrightarrow> x \<in> set xs \<and> P x"
  by (auto simp: find_Some_iff)

lemma find_key_unique:
  assumes "distinct (map f xs)" and "x \<in> set xs"
  shows "find (\<lambda>y. f y = f x) xs = Some x"
  using assms by (induction xs) force+

lemma find_key_iff:
  assumes "distinct (map f xs)"
  shows "find (\<lambda>y. f y = k) xs = Some x \<longleftrightarrow> x \<in> set xs \<and> f x = k"
  using assms find_key_unique [of f xs x] by (auto dest: find_Some_mem)

lemma find_eq_None_set: "find (\<lambda>y. f y = k) xs = None \<longleftrightarrow> k \<notin> f ` set xs"
  by (auto simp: find_None_iff)

end
