(* ===== verification/Go_Errors.thy ===== *)
theory Go_Errors
  imports Prelude
begin

text \<open>
  Go's error values and the part of package fmt that builds them. An \<open>error\<close> is a chain: a
  \<open>fmt.Errorf\<close> with the verb \<open>%w\<close> and the two error types of
  internal/controller/accounts/errors.go wrap another error, which \<open>errors.As\<close> (here a
  recursive search) finds again. \<open>sprintf\<close> follows fmt's scanner on the verbs the program uses
  and on text that is no format at all, because the program passes error texts as formats.
\<close>

section \<open>Results of a reconciliation\<close>

text \<open>controller-runtime's \<open>ctrl.Result\<close>; durations are nanoseconds.\<close>

record ctrl_result =
  requeue :: bool
  requeue_after :: int

definition zero_result :: ctrl_result where
  "zero_result = \<lparr>requeue = False, requeue_after = 0\<rparr>"

definition requeue_result :: ctrl_result where
  "requeue_result = \<lparr>requeue = True, requeue_after = 0\<rparr>"

definition requeue_after_result :: "int \<Rightarrow> ctrl_result" where
  "requeue_after_result d = \<lparr>requeue = False, requeue_after = d\<rparr>"

definition result_is_zero :: "ctrl_result \<Rightarrow> bool" where
  "result_is_zero r = (r = zero_result)"

definition second :: int where
  "second = 1000000000"

lemma result_is_zero_simps [simp]:
  "result_is_zero zero_result"
  "\<not> result_is_zero requeue_result"
  "result_is_zero r \<longleftrightarrow> r = zero_result"
  by (auto simp: result_is_zero_def zero_result_def requeue_result_def)

lemma requeue_result_ne [simp]:
  "requeue_result \<noteq> zero_result"
  "zero_result \<noteq> requeue_result"
  "requeue_after_result second \<noteq> zero_result"
  "requeue_result \<noteq> requeue_after_result d"
  by (simp_all add: zero_result_def requeue_result_def requeue_after_result_def second_def)

section \<open>Error values\<close>

text \<open>
  The reasons of an API server's status error that the program asks for. \<open>StatusError\<close> is
  \<open>*errors.StatusError\<close> of apimachinery, \<open>ErrorString\<close> an error with nothing wrapped
  (\<open>errors.New\<close>, \<open>fmt.Errorf\<close> without \<open>%w\<close>, an error of a library), \<open>WrapError\<close> the
  result of \<open>fmt.Errorf\<close> with \<open>%w\<close>, \<open>MultiError\<close> that of \<open>multierr.Append\<close>.
  \<open>ConditionError\<close> and \<open>ResultError\<close> are \<open>*conditionError\<close> and \<open>*resultError\<close> of
  errors.go, their fields in the source's order (\<open>resultError\<close>: result, cause).
\<close>

datatype api_reason = NotFound | Conflict | BadRequest | OtherReason string

datatype error =
    ErrorString string
  | WrapError string error
  | StatusError api_reason string
  | ConditionError bool string error
  | ResultError ctrl_result error
  | MultiError error error

text \<open>The method \<open>Error()\<close>.\<close>

fun error_text :: "error \<Rightarrow> string" where
  "error_text (ErrorString m) = m"
| "error_text (WrapError m _) = m"
| "error_text (StatusError _ m) = m"
| "error_text (ConditionError _ _ e) = error_text e"
| "error_text (ResultError _ e) = error_text e"
| "error_text (MultiError e f) = error_text e @ ''; '' @ error_text f"

text \<open>The name \<open>%T\<close> prints.\<close>

fun error_type :: "error \<Rightarrow> string" where
  "error_type (ErrorString _) = ''*errors.errorString''"
| "error_type (WrapError _ _) = ''*fmt.wrapError''"
| "error_type (StatusError _ _) = ''*errors.StatusError''"
| "error_type (ConditionError _ _ _) = ''*controllers.conditionError''"
| "error_type (ResultError _ _) = ''*controllers.resultError''"
| "error_type (MultiError _ _) = ''*multierr.multiError''"

text \<open>
  apimachinery's \<open>ReasonForError\<close>: the reason of the outermost status error in the chain,
  and \<open>errors.IsNotFound\<close>, \<open>errors.IsConflict\<close> on top of it.
\<close>

fun reason_for_error :: "error \<Rightarrow> api_reason option" where
  "reason_for_error (ErrorString _) = None"
| "reason_for_error (WrapError _ e) = reason_for_error e"
| "reason_for_error (StatusError r _) = Some r"
| "reason_for_error (ConditionError _ _ e) = reason_for_error e"
| "reason_for_error (ResultError _ e) = reason_for_error e"
| "reason_for_error (MultiError e f) =
     (case reason_for_error e of None \<Rightarrow> reason_for_error f | Some r \<Rightarrow> Some r)"

definition is_not_found :: "error \<Rightarrow> bool" where
  "is_not_found e = (reason_for_error e = Some NotFound)"

definition is_conflict :: "error \<Rightarrow> bool" where
  "is_conflict e = (reason_for_error e = Some Conflict)"

text \<open>controller-runtime's \<open>client.IgnoreNotFound\<close>.\<close>

definition ignore_not_found :: "error \<Rightarrow> error option" where
  "ignore_not_found e = (if is_not_found e then None else Some e)"

section \<open>Formatting\<close>

text \<open>
  Arguments of a format: strings (also values whose \<open>String()\<close> method fmt calls), integers,
  errors, and objects of which only the type is printed.
\<close>

datatype fmt_arg = AStr string | AInt int | AErr error | AObj string

fun digits_of :: "nat \<Rightarrow> string" where
  "digits_of n =
     (if n < 10 then [char_of (48 + n)] else digits_of (n div 10) @ [char_of (48 + n mod 10)])"

declare digits_of.simps [simp del]

definition show_int :: "int \<Rightarrow> string" where
  "show_int i = (if i < 0 then CHR ''-'' # digits_of (nat (- i)) else digits_of (nat i))"

text \<open>\<open>strconv.Quote\<close> on printable ASCII: a double quote and a backslash are escaped.\<close>

definition quote :: "string \<Rightarrow> string" where
  "quote s = CHR 0x22 # concat (map (\<lambda>c. if c = CHR 0x22 \<or> c = CHR 0x5C then [CHR 0x5C, c] else [c]) s)
     @ [CHR 0x22]"

fun arg_type :: "fmt_arg \<Rightarrow> string" where
  "arg_type (AStr _) = ''string''"
| "arg_type (AInt _) = ''int''"
| "arg_type (AErr e) = error_type e"
| "arg_type (AObj t) = t"

fun arg_text :: "fmt_arg \<Rightarrow> string" where
  "arg_text (AStr s) = s"
| "arg_text (AInt i) = show_int i"
| "arg_text (AErr e) = error_text e"
| "arg_text (AObj t) = t"

text \<open>
  What fmt prints for a verb that does not fit its argument. For an error it prints the fields
  of the underlying struct; the address of a wrapped error's struct is not modelled.
\<close>

fun raw_text :: "fmt_arg \<Rightarrow> string" where
  "raw_text (AErr (ErrorString m)) = ''&{'' @ m @ ''}''"
| "raw_text (AErr (WrapError m _)) = ''&{'' @ m @ '' 0x0}''"
| "raw_text a = arg_text a"

definition bad_verb :: "char \<Rightarrow> fmt_arg \<Rightarrow> string" where
  "bad_verb v a = ''%!'' @ [v] @ ''('' @ arg_type a @ ''='' @ raw_text a @ '')''"

text \<open>One verb with its argument; \<open>w\<close> tells \<open>fmt.Errorf\<close>, which knows \<open>%w\<close>, from the rest.\<close>

definition format_verb :: "bool \<Rightarrow> char \<Rightarrow> fmt_arg \<Rightarrow> string" where
  "format_verb w v a =
     (if v = CHR ''v'' then arg_text a
      else if v = CHR ''T'' then arg_type a
      else case a of
        AStr s \<Rightarrow> (if v = CHR ''s'' then s else if v = CHR ''q'' then quote s else bad_verb v a)
      | AInt i \<Rightarrow> (if v = CHR ''d'' then show_int i else bad_verb v a)
      | AErr e \<Rightarrow>
          (if v = CHR ''s'' \<or> v = CHR ''w'' \<and> w then error_text e
           else if v = CHR ''q'' then quote (error_text e) else bad_verb v a)
      | AObj t \<Rightarrow> bad_verb v a)"

text \<open>
  Between the percent sign and the verb fmt skips flags, a width and a precision. The formats
  of the program that have arguments use none of the three, so their effect on an argument is
  not modelled; explicit argument indexes and \<open>*\<close> are read as verbs.
\<close>

definition is_flag :: "char \<Rightarrow> bool" where
  "is_flag c = (c \<in> set ''#0+- '')"

definition is_digit :: "char \<Rightarrow> bool" where
  "is_digit c = (c \<in> set ''0123456789'')"

definition skip_spec :: "string \<Rightarrow> string" where
  "skip_spec cs = (case dropWhile is_digit (dropWhile is_flag cs) of
       [] \<Rightarrow> []
     | c # ds \<Rightarrow> if c = CHR ''.'' then dropWhile is_digit ds else c # ds)"

lemma length_skip_spec: "length (skip_spec cs) \<le> length cs"
proof -
  have "length (dropWhile is_digit (dropWhile is_flag cs)) \<le> length cs"
    by (meson le_trans length_dropWhile_le)
  then show ?thesis
    by (auto simp: skip_spec_def split: list.split)
      (meson Suc_leD le_trans length_dropWhile_le)
qed

lemma length_skip_spec_Cons [termination_simp]:
  "skip_spec cs = v # rest \<Longrightarrow> length rest < Suc (length cs)"
  using length_skip_spec [of cs] by simp

text \<open>
  The scanner: the text, the arguments left over, and the errors that \<open>%w\<close> wrapped, in order.
\<close>

fun do_format :: "bool \<Rightarrow> string \<Rightarrow> fmt_arg list \<Rightarrow> string \<times> fmt_arg list \<times> error list" where
  "do_format w [] as = ([], as, [])"
| "do_format w (c # cs) as =
     (if c \<noteq> CHR ''%''
      then (case do_format w cs as of (t, l, es) \<Rightarrow> (c # t, l, es))
      else case skip_spec cs of
        [] \<Rightarrow> (''%!(NOVERB)'', as, [])
      | v # rest \<Rightarrow>
          (if v = CHR ''%''
           then (case do_format w rest as of (t, l, es) \<Rightarrow> (CHR ''%'' # t, l, es))
           else case as of
             [] \<Rightarrow> (case do_format w rest [] of (t, l, es) \<Rightarrow>
                     (''%!'' @ [v] @ ''(MISSING)'' @ t, l, es))
           | a # as' \<Rightarrow> (case do_format w rest as' of (t, l, es) \<Rightarrow>
                     (format_verb w v a @ t, l,
                      (case a of AErr e \<Rightarrow> if v = CHR ''w'' \<and> w then e # es else es | _ \<Rightarrow> es)))))"

fun extra_args :: "fmt_arg list \<Rightarrow> string" where
  "extra_args [] = []"
| "extra_args [a] = arg_type a @ ''='' @ arg_text a"
| "extra_args (a # as) = arg_type a @ ''='' @ arg_text a @ '', '' @ extra_args as"

definition format_all :: "bool \<Rightarrow> string \<Rightarrow> fmt_arg list \<Rightarrow> string \<times> error list" where
  "format_all w f as = (case do_format w f as of (t, l, es) \<Rightarrow>
     (if l = [] then t else t @ ''%!(EXTRA '' @ extra_args l @ '')'', es))"

definition sprintf :: "string \<Rightarrow> fmt_arg list \<Rightarrow> string" where
  "sprintf f as = fst (format_all False f as)"

definition errorf :: "string \<Rightarrow> fmt_arg list \<Rightarrow> error" where
  "errorf f as = (case format_all True f as of
       (t, []) \<Rightarrow> ErrorString t
     | (t, e # _) \<Rightarrow> WrapError t e)"

text \<open>A text without a percent sign is printed as it is.\<close>

lemma do_format_plain:
  "CHR ''%'' \<notin> set f \<Longrightarrow> do_format w f as = (f, as, [])"
  by (induction f) auto

lemma sprintf_plain [simp]: "CHR ''%'' \<notin> set f \<Longrightarrow> sprintf f [] = f"
  by (simp add: sprintf_def format_all_def do_format_plain)

lemma errorf_plain: "CHR ''%'' \<notin> set f \<Longrightarrow> errorf f [] = ErrorString f"
  by (simp add: errorf_def format_all_def do_format_plain)

text \<open>Formats of the program's shapes: plain text around one verb.\<close>

lemma do_format_append_plain:
  assumes "CHR ''%'' \<notin> set f"
  shows "do_format w (f @ g) as = (case do_format w g as of (t, l, es) \<Rightarrow> (f @ t, l, es))"
  using assms by (induction f) (auto split: prod.split)

end
