(* ===== verification/Conditions.thy ===== *)
theory Conditions
  imports Go_Errors
begin

text \<open>
  pkg/apis: conditions and the condition manager (condition_types.go, condition_set.go,
  volatile_time.go).

  A \<open>ConditionManager\<close> is a \<open>ConditionSet\<close> together with an accessor, a pointer to a status that
  holds the conditions. The operations here work on the pair of the conditions behind the accessor
  and a clock \<open>'c\<close>, read by \<open>now :: 'c \<Rightarrow> int \<times> 'c\<close> (\<open>time.Now\<close>, in nanoseconds); they return
  the pair updated. Every \<open>Manage\<close> call of the program passes the address of a status, so the
  accessor is never nil and the guards \<open>r.accessor == nil\<close> never fire; they have no counterpart
  here. The statuses put these operations behind their own getters and setters in Lifecycle.
\<close>

section \<open>Conditions\<close>

type_synonym condition_type = string
type_synonym condition_status = string

definition ConditionReady :: condition_type where "ConditionReady = ''Ready''"
definition ConditionSucceeded :: condition_type where "ConditionSucceeded = ''Succeeded''"

definition ConditionSeverityError :: string where "ConditionSeverityError = ''''"
definition ConditionSeverityWarning :: string where "ConditionSeverityWarning = ''Warning''"
definition ConditionSeverityInfo :: string where "ConditionSeverityInfo = ''Info''"

text \<open>The constants of k8s.io/api/core/v1 the program compares a status with.\<close>

definition ConditionTrue :: condition_status where "ConditionTrue = ''True''"
definition ConditionFalse :: condition_status where "ConditionFalse = ''False''"
definition ConditionUnknown :: condition_status where "ConditionUnknown = ''Unknown''"

lemma condition_status_distinct [simp]:
  "ConditionTrue \<noteq> ConditionFalse" "ConditionFalse \<noteq> ConditionTrue"
  "ConditionTrue \<noteq> ConditionUnknown" "ConditionUnknown \<noteq> ConditionTrue"
  "ConditionFalse \<noteq> ConditionUnknown" "ConditionUnknown \<noteq> ConditionFalse"
  by (simp_all add: ConditionTrue_def ConditionFalse_def ConditionUnknown_def)

lemma severity_distinct [simp]:
  "ConditionSeverityError \<noteq> ConditionSeverityInfo" "ConditionSeverityInfo \<noteq> ConditionSeverityError"
  by (simp_all add: ConditionSeverityError_def ConditionSeverityInfo_def)

record condition =
  cond_type :: condition_type
  cond_status :: condition_status
  cond_severity :: string
  last_transition_time :: int
  cond_reason :: string
  cond_message :: string

type_synonym conditions = "condition list"

text \<open>A composite literal \<open>Condition{...}\<close> leaves the fields it does not name at their zero value.\<close>

definition zero_time :: int where "zero_time = 0"

definition new_condition :: "condition_type \<Rightarrow> condition_status \<Rightarrow> string \<Rightarrow> string \<Rightarrow> string \<Rightarrow> condition" where
  "new_condition t st sev reason msg =
     \<lparr>cond_type = t, cond_status = st, cond_severity = sev, last_transition_time = zero_time,
      cond_reason = reason, cond_message = msg\<rparr>"

lemma new_condition_sel [simp]:
  "cond_type (new_condition t st sev rs m) = t"
  "cond_status (new_condition t st sev rs m) = st"
  "cond_severity (new_condition t st sev rs m) = sev"
  "cond_reason (new_condition t st sev rs m) = rs"
  "cond_message (new_condition t st sev rs m) = m"
  by (simp_all add: new_condition_def)

text \<open>The methods of \<open>*Condition\<close>; nil is None.\<close>

definition is_true :: "condition option \<Rightarrow> bool" where
  "is_true c = (case c of None \<Rightarrow> False | Some c \<Rightarrow> cond_status c = ConditionTrue)"

definition is_false :: "condition option \<Rightarrow> bool" where
  "is_false c = (case c of None \<Rightarrow> False | Some c \<Rightarrow> cond_status c = ConditionFalse)"

definition is_unknown :: "condition option \<Rightarrow> bool" where
  "is_unknown c = (case c of None \<Rightarrow> True | Some c \<Rightarrow> cond_status c = ConditionUnknown)"

definition get_reason :: "condition option \<Rightarrow> string" where
  "get_reason c = (case c of None \<Rightarrow> [] | Some c \<Rightarrow> cond_reason c)"

definition get_message :: "condition option \<Rightarrow> string" where
  "get_message c = (case c of None \<Rightarrow> [] | Some c \<Rightarrow> cond_message c)"

lemma is_true_simps [simp]:
  "is_true (Some c) \<longleftrightarrow> cond_status c = ConditionTrue" "\<not> is_true None"
  "is_false (Some c) \<longleftrightarrow> cond_status c = ConditionFalse" "\<not> is_false None"
  "is_unknown (Some c) \<longleftrightarrow> cond_status c = ConditionUnknown" "is_unknown None"
  by (simp_all add: is_true_def is_false_def is_unknown_def)

text \<open>
  volatile_time.go registers a function that makes any two \<open>VolatileTime\<close>s semantically equal,
  so \<open>equality.Semantic.DeepEqual\<close> on conditions ignores the transition times and nothing else.
\<close>

definition volatile_time_equal :: "int \<Rightarrow> int \<Rightarrow> bool" where
  "volatile_time_equal a b = True"

definition condition_semantic_equal :: "condition \<Rightarrow> condition \<Rightarrow> bool" where
  "condition_semantic_equal a b =
     (cond_type a = cond_type b \<and> cond_status a = cond_status b \<and>
      cond_severity a = cond_severity b \<and>
      volatile_time_equal (last_transition_time a) (last_transition_time b) \<and>
      cond_reason a = cond_reason b \<and> cond_message a = cond_message b)"

definition conditions_semantic_equal :: "conditions \<Rightarrow> conditions \<Rightarrow> bool" where
  "conditions_semantic_equal = list_all2 condition_semantic_equal"

section \<open>Condition sets\<close>

record condition_set =
  happy :: condition_type
  dependents :: "condition_type list"

fun contains :: "condition_type list \<Rightarrow> condition_type \<Rightarrow> bool" where
  "contains [] t = False"
| "contains (c # ct) t = (if c = t then True else contains ct t)"

definition new_condition_set :: "condition_type \<Rightarrow> condition_type list \<Rightarrow> condition_set" where
  "new_condition_set h ds =
     \<lparr>happy = h,
      dependents = foldl (\<lambda>deps d. if d = h \<or> contains deps d then deps else deps @ [d]) [] ds\<rparr>"

definition new_living_condition_set :: "condition_type list \<Rightarrow> condition_set" where
  "new_living_condition_set d = new_condition_set ConditionReady d"

definition new_batch_condition_set :: "condition_type list \<Rightarrow> condition_set" where
  "new_batch_condition_set d = new_condition_set ConditionSucceeded d"

definition get_top_level_condition_type :: "condition_set \<Rightarrow> condition_type" where
  "get_top_level_condition_type r = happy r"

lemma contains_iff [simp]: "contains ct t \<longleftrightarrow> t \<in> set ct"
  by (induction ct) auto

section \<open>The condition manager\<close>

definition get_condition :: "condition_type \<Rightarrow> conditions \<Rightarrow> condition option" where
  "get_condition t cs = find (\<lambda>c. cond_type c = t) cs"

definition get_top_level_condition :: "condition_set \<Rightarrow> conditions \<Rightarrow> condition option" where
  "get_top_level_condition r cs = get_condition (happy r) cs"

definition is_happy :: "condition_set \<Rightarrow> conditions \<Rightarrow> bool" where
  "is_happy r cs = is_true (get_top_level_condition r cs)"

text \<open>
  The loop of \<open>SetCondition\<close>: the conditions of another type, or None when it returns early
  because a condition of this type differs at most in its transition time.
\<close>

fun other_conditions :: "condition \<Rightarrow> conditions \<Rightarrow> conditions option" where
  "other_conditions cond [] = Some []"
| "other_conditions cond (c # cs) =
     (if cond_type c \<noteq> cond_type cond then map_option ((#) c) (other_conditions cond cs)
      else if cond\<lparr>last_transition_time := last_transition_time c\<rparr> = c then None
      else other_conditions cond cs)"

definition by_type :: "condition \<Rightarrow> condition \<Rightarrow> bool" where
  "by_type a b = (cond_type a < cond_type b)"

definition set_condition ::
  "('c \<Rightarrow> int \<times> 'c) \<Rightarrow> condition \<Rightarrow> conditions \<times> 'c \<Rightarrow> conditions \<times> 'c" where
  "set_condition now cond = (\<lambda>(cs, k).
     (case other_conditions cond cs of
        None \<Rightarrow> (cs, k)
      | Some others \<Rightarrow>
          (case now k of (t, k') \<Rightarrow>
             (sort_slice by_type (others @ [cond\<lparr>last_transition_time := t\<rparr>]), k'))))"

definition is_terminal :: "condition_set \<Rightarrow> condition_type \<Rightarrow> bool" where
  "is_terminal r t = (t \<in> set (dependents r) \<or> t = happy r)"

definition severity :: "condition_set \<Rightarrow> condition_type \<Rightarrow> string" where
  "severity r t = (if is_terminal r t then ConditionSeverityError else ConditionSeverityInfo)"

text \<open>\<open>ClearCondition\<close> returns an error for a terminal condition.\<close>

definition clear_condition :: "condition_set \<Rightarrow> condition_type \<Rightarrow> conditions \<Rightarrow> error option \<times> conditions" where
  "clear_condition r t cs =
     (if is_terminal r t
      then (Some (errorf ''clearing terminal conditions not implemented'' []), cs)
      else case get_condition t cs of
        None \<Rightarrow> (None, cs)
      | Some _ \<Rightarrow> (None, sort_slice by_type (filter (\<lambda>c. cond_type c \<noteq> t) cs)))"

definition later :: "condition \<Rightarrow> condition \<Rightarrow> bool" where
  "later a b = (last_transition_time a > last_transition_time b)"

definition find_unhappy_dependent :: "condition_set \<Rightarrow> conditions \<Rightarrow> condition option" where
  "find_unhappy_dependent r all =
     (if length (dependents r) = 0 then None
      else
        let cs = sort_slice later
              (filter (\<lambda>c. cond_severity c = ConditionSeverityError \<and> cond_type c \<noteq> happy r) all)
        in case find (\<lambda>c. is_false (Some c)) cs of
          Some c \<Rightarrow> Some c
        | None \<Rightarrow>
            (case find (\<lambda>c. is_unknown (Some c)) cs of
               Some c \<Rightarrow> Some c
             | None \<Rightarrow>
                 if length (dependents r) > length cs
                 then Some (new_condition [] ConditionUnknown [] [] [])
                 else None))"

definition recompute_happiness ::
  "('c \<Rightarrow> int \<times> 'c) \<Rightarrow> condition_set \<Rightarrow> condition_type \<Rightarrow> conditions \<times> 'c \<Rightarrow> conditions \<times> 'c" where
  "recompute_happiness now r t st =
     (case find_unhappy_dependent r (fst st) of
        Some c \<Rightarrow> set_condition now
          (new_condition (happy r) (cond_status c) (severity r (happy r)) (cond_reason c) (cond_message c)) st
      | None \<Rightarrow>
          if t \<noteq> happy r
          then set_condition now (new_condition (happy r) ConditionTrue (severity r (happy r)) [] []) st
          else st)"

definition mark_true ::
  "('c \<Rightarrow> int \<times> 'c) \<Rightarrow> condition_set \<Rightarrow> condition_type \<Rightarrow> conditions \<times> 'c \<Rightarrow> conditions \<times> 'c" where
  "mark_true now r t st =
     recompute_happiness now r t (set_condition now (new_condition t ConditionTrue (severity r t) [] []) st)"

definition mark_true_with_reason ::
  "('c \<Rightarrow> int \<times> 'c) \<Rightarrow> condition_set \<Rightarrow> condition_type \<Rightarrow> string \<Rightarrow> string \<Rightarrow> fmt_arg list
     \<Rightarrow> conditions \<times> 'c \<Rightarrow> conditions \<times> 'c" where
  "mark_true_with_reason now r t reason f as st =
     recompute_happiness now r t
       (set_condition now (new_condition t ConditionTrue (severity r t) reason (sprintf f as)) st)"

text \<open>\<open>types\<close> holds \<open>t\<close> and, once for every dependent equal to \<open>t\<close>, the happy condition.\<close>

definition mark_false ::
  "('c \<Rightarrow> int \<times> 'c) \<Rightarrow> condition_set \<Rightarrow> condition_type \<Rightarrow> string \<Rightarrow> string \<Rightarrow> fmt_arg list
     \<Rightarrow> conditions \<times> 'c \<Rightarrow> conditions \<times> 'c" where
  "mark_false now r t reason f as st =
     (let types = t # map (\<lambda>_. happy r) (filter (\<lambda>cond. cond = t) (dependents r))
      in foldl (\<lambda>st t. set_condition now
           (new_condition t ConditionFalse (severity r t) reason (sprintf f as)) st) st types)"

text \<open>The loop of \<open>MarkUnknown\<close> over the dependents, and what follows it.\<close>

fun mark_unknown_scan ::
  "('c \<Rightarrow> int \<times> 'c) \<Rightarrow> condition_set \<Rightarrow> condition_type \<Rightarrow> string \<Rightarrow> string \<Rightarrow> fmt_arg list
     \<Rightarrow> condition_type list \<Rightarrow> bool \<Rightarrow> conditions \<times> 'c \<Rightarrow> conditions \<times> 'c" where
  "mark_unknown_scan now r t reason f as [] is_dependent st =
     (if is_dependent
      then set_condition now
        (new_condition (happy r) ConditionUnknown (severity r (happy r)) reason (sprintf f as)) st
      else st)"
| "mark_unknown_scan now r t reason f as (cond # ds) is_dependent st =
     (if is_false (get_condition cond (fst st))
      then (if \<not> is_false (get_condition (happy r) (fst st))
            then mark_false now r (happy r) reason f as st
            else st)
      else mark_unknown_scan now r t reason f as ds (cond = t \<or> is_dependent) st)"

definition mark_unknown ::
  "('c \<Rightarrow> int \<times> 'c) \<Rightarrow> condition_set \<Rightarrow> condition_type \<Rightarrow> string \<Rightarrow> string \<Rightarrow> fmt_arg list
     \<Rightarrow> conditions \<times> 'c \<Rightarrow> conditions \<times> 'c" where
  "mark_unknown now r t reason f as st =
     mark_unknown_scan now r t reason f as (dependents r) False
       (set_condition now (new_condition t ConditionUnknown (severity r t) reason (sprintf f as)) st)"

definition initialize_terminal_condition ::
  "('c \<Rightarrow> int \<times> 'c) \<Rightarrow> condition_status \<Rightarrow> condition_type \<Rightarrow> conditions \<times> 'c \<Rightarrow> conditions \<times> 'c" where
  "initialize_terminal_condition now status t st =
     (case get_condition t (fst st) of
        Some c \<Rightarrow> st
      | None \<Rightarrow> set_condition now (new_condition t status ConditionSeverityError [] []) st)"

definition initialize_conditions ::
  "('c \<Rightarrow> int \<times> 'c) \<Rightarrow> condition_set \<Rightarrow> conditions \<times> 'c \<Rightarrow> conditions \<times> 'c" where
  "initialize_conditions now r st =
     (let init = new_condition (happy r) ConditionUnknown ConditionSeverityError [] [];
          (h, st1) = (case get_condition (happy r) (fst st) of
              Some h \<Rightarrow> (h, st)
            | None \<Rightarrow> (init, set_condition now init st));
          status = (if cond_status h = ConditionTrue then ConditionTrue else ConditionUnknown)
      in foldl (\<lambda>st t. initialize_terminal_condition now status t st) st1 (dependents r))"

section \<open>Facts about the operations\<close>

subsection \<open>Sorting\<close>

interpretation by_type_sort: slice_sort sort_slice cond_type by_type
  by unfold_locales (auto simp: mset_sort_slice by_type_def intro!: sorted_sort_slice)

interpretation later_sort: slice_sort sort_slice "\<lambda>c. - last_transition_time c" later
proof
  show "sorted_wrt (\<lambda>a b. - last_transition_time a \<le> - last_transition_time b) (sort_slice later xs)" for xs
    by (rule sorted_sort_slice) (simp add: later_def)
qed (simp add: mset_sort_slice)

subsection \<open>\<open>SetCondition\<close>\<close>

lemma same_but_time:
  "c\<lparr>last_transition_time := t\<rparr> = d \<Longrightarrow> cond_type d = cond_type c \<and> cond_status d = cond_status c
     \<and> cond_severity d = cond_severity c \<and> cond_reason d = cond_reason c \<and> cond_message d = cond_message c"
  by auto

lemma other_conditions_Some:
  "other_conditions cond cs = Some others \<Longrightarrow> others = filter (\<lambda>c. cond_type c \<noteq> cond_type cond) cs"
  by (induction cs arbitrary: others) (auto split: if_splits)

lemma other_conditions_None:
  "other_conditions cond cs = None \<longleftrightarrow>
     (\<exists>c \<in> set cs. cond\<lparr>last_transition_time := last_transition_time c\<rparr> = c)"
  by (induction cs) (auto dest: same_but_time)

lemma set_condition_same:
  assumes "c \<in> set cs" and "cond\<lparr>last_transition_time := last_transition_time c\<rparr> = c"
  shows "set_condition now cond (cs, k) = (cs, k)"
proof -
  from assms have "other_conditions cond cs = None" by (auto simp: other_conditions_None)
  then show ?thesis by (simp add: set_condition_def)
qed

lemma set_condition_new:
  assumes "\<And>c. c \<in> set cs \<Longrightarrow> cond\<lparr>last_transition_time := last_transition_time c\<rparr> \<noteq> c"
  shows "set_condition now cond (cs, k) =
    (sort_slice by_type (filter (\<lambda>c. cond_type c \<noteq> cond_type cond) cs
       @ [cond\<lparr>last_transition_time := fst (now k)\<rparr>]), snd (now k))"
proof -
  from assms have "other_conditions cond cs \<noteq> None" by (auto simp: other_conditions_None)
  then obtain others where "other_conditions cond cs = Some others" by blast
  then show ?thesis
    by (auto simp: set_condition_def dest: other_conditions_Some split: prod.split)
qed

lemma set_condition_cases:
  obtains (same) c where "c \<in> set cs" "cond\<lparr>last_transition_time := last_transition_time c\<rparr> = c"
      "set_condition now cond (cs, k) = (cs, k)"
    | (new) "\<And>c. c \<in> set cs \<Longrightarrow> cond\<lparr>last_transition_time := last_transition_time c\<rparr> \<noteq> c"
      "set_condition now cond (cs, k) =
         (sort_slice by_type (filter (\<lambda>c. cond_type c \<noteq> cond_type cond) cs
            @ [cond\<lparr>last_transition_time := fst (now k)\<rparr>]), snd (now k))"
  by (metis set_condition_same set_condition_new)

text \<open>Conditions stored in order, at most one of each type.\<close>

definition ordered_conditions :: "conditions \<Rightarrow> bool" where
  "ordered_conditions cs = (sorted (map cond_type cs) \<and> distinct (map cond_type cs))"

lemma ordered_Nil [simp]: "ordered_conditions []"
  by (simp add: ordered_conditions_def)

lemma get_condition_iff:
  "ordered_conditions cs \<Longrightarrow> get_condition t cs = Some c \<longleftrightarrow> c \<in> set cs \<and> cond_type c = t"
  by (simp add: get_condition_def ordered_conditions_def find_key_iff)

lemma get_condition_None: "get_condition t cs = None \<longleftrightarrow> t \<notin> cond_type ` set cs"
  by (simp add: get_condition_def find_eq_None_set)

lemma get_condition_type: "get_condition t cs = Some c \<Longrightarrow> cond_type c = t \<and> c \<in> set cs"
  by (auto simp: get_condition_def dest: find_Some_mem)

lemma set_condition_ordered:
  assumes "ordered_conditions cs"
  shows "ordered_conditions (fst (set_condition now cond (cs, k)))"
proof (cases rule: set_condition_cases [of cs cond now k])
  case same
  with assms show ?thesis by simp
next
  case new
  have "distinct (map cond_type (filter (\<lambda>c. cond_type c \<noteq> cond_type cond) cs
      @ [cond\<lparr>last_transition_time := fst (now k)\<rparr>]))"
    using assms by (auto simp: ordered_conditions_def distinct_map_filter)
  with new show ?thesis
    by (simp add: ordered_conditions_def by_type_sort.sorted_keys by_type_sort.distinct_sort_by
        del: distinct_append map_append)
qed

lemma set_condition_types:
  "cond_type ` set (fst (set_condition now cond (cs, k))) = insert (cond_type cond) (cond_type ` set cs)"
proof (cases rule: set_condition_cases [of cs cond now k])
  case (same c)
  from same(1,2) have "cond_type cond \<in> cond_type ` set cs"
    by (metis condition.select_convs(1) condition.surjective condition.update_convs(4) imageI)
  with same show ?thesis by auto
next
  case new
  then show ?thesis by auto
qed

lemma set_condition_members:
  "d \<in> set (fst (set_condition now cond (cs, k))) \<Longrightarrow>
     d \<in> set cs \<or> (\<exists>t. d = cond\<lparr>last_transition_time := t\<rparr>)"
  by (cases rule: set_condition_cases [of cs cond now k]) auto

lemma get_set_other:
  assumes "ordered_conditions cs" and "t \<noteq> cond_type cond"
  shows "get_condition t (fst (set_condition now cond (cs, k))) = get_condition t cs"
proof (cases rule: set_condition_cases [of cs cond now k])
  case same
  then show ?thesis by simp
next
  case new
  have ord: "ordered_conditions (fst (set_condition now cond (cs, k)))"
    using assms(1) by (rule set_condition_ordered)
  have "get_condition t (fst (set_condition now cond (cs, k))) = Some c \<longleftrightarrow> get_condition t cs = Some c" for c
    unfolding get_condition_iff [OF ord] get_condition_iff [OF assms(1)]
    using assms(2) new by auto
  then show ?thesis by (metis option.exhaust)
qed

lemma get_set_same:
  assumes "ordered_conditions cs"
  obtains t where
    "get_condition (cond_type cond) (fst (set_condition now cond (cs, k))) = Some (cond\<lparr>last_transition_time := t\<rparr>)"
proof (cases rule: set_condition_cases [of cs cond now k])
  case (same c)
  from same(2) have "cond_type c = cond_type cond" by (auto dest: same_but_time)
  with same assms have "get_condition (cond_type cond) cs = Some c"
    by (simp add: get_condition_iff)
  with same that show ?thesis by (metis fst_conv)
next
  case new
  have ord: "ordered_conditions (fst (set_condition now cond (cs, k)))"
    using assms by (rule set_condition_ordered)
  have "get_condition (cond_type cond) (fst (set_condition now cond (cs, k)))
      = Some (cond\<lparr>last_transition_time := fst (now k)\<rparr>)"
    unfolding get_condition_iff [OF ord] using new by auto
  with that show ?thesis .
qed

text \<open>
  What the manager promises of the stored conditions: a map from types to contents. The view
  forgets the order and the transition times.
\<close>

definition content :: "condition \<Rightarrow> string \<times> string \<times> string \<times> string" where
  "content c = (cond_status c, cond_severity c, cond_reason c, cond_message c)"

definition view :: "conditions \<Rightarrow> condition_type \<rightharpoonup> string \<times> string \<times> string \<times> string" where
  "view cs = (\<lambda>t. map_option content (get_condition t cs))"

lemma content_time [simp]: "content (c\<lparr>last_transition_time := t\<rparr>) = content c"
  by (simp add: content_def)

lemma view_set_condition:
  assumes "ordered_conditions cs"
  shows "view (fst (set_condition now cond (cs, k))) = (view cs)(cond_type cond \<mapsto> content cond)"
proof
  fix t
  show "view (fst (set_condition now cond (cs, k))) t = ((view cs)(cond_type cond \<mapsto> content cond)) t"
  proof (cases "t = cond_type cond")
    case True
    obtain t' where
      "get_condition (cond_type cond) (fst (set_condition now cond (cs, k))) = Some (cond\<lparr>last_transition_time := t'\<rparr>)"
      using assms by (rule get_set_same)
    with True show ?thesis by (simp add: view_def)
  next
    case False
    with assms show ?thesis by (simp add: view_def get_set_other)
  qed
qed

text \<open>Setting a condition a second time writes nothing and does not read the clock.\<close>

lemma set_condition_idem:
  assumes "ordered_conditions cs"
  shows "set_condition now' cond (fst (set_condition now cond (cs, k)), k') = (fst (set_condition now cond (cs, k)), k')"
proof -
  obtain t where
    "get_condition (cond_type cond) (fst (set_condition now cond (cs, k))) = Some (cond\<lparr>last_transition_time := t\<rparr>)"
    using assms by (rule get_set_same)
  then have "cond\<lparr>last_transition_time := t\<rparr> \<in> set (fst (set_condition now cond (cs, k)))"
    by (auto dest: get_condition_type)
  then show ?thesis by (rule set_condition_same) simp
qed

section \<open>Properties\<close>

text \<open>A clock for concrete runs: the time is a counter.\<close>

definition tick :: "int \<Rightarrow> int \<times> int" where
  "tick k = (k, k + 1)"

text \<open>C11: \<open>SetCondition\<close> implements a map update. On stored conditions that are in order with one
  condition per type, the content of the condition's type becomes the given one, every other type
  keeps its content, and the stored conditions stay in order; setting the same condition again
  writes nothing and does not read the clock.\<close>

theorem set_condition_refines:
  assumes "ordered_conditions cs"
  shows "view (fst (set_condition now cond (cs, k))) = (view cs)(cond_type cond \<mapsto> content cond)
    \<and> ordered_conditions (fst (set_condition now cond (cs, k)))
    \<and> set_condition now cond (fst (set_condition now cond (cs, k)), k') = (fst (set_condition now cond (cs, k)), k')"
  using assms by (simp add: view_set_condition set_condition_ordered set_condition_idem)

theorem set_condition_refines_witness:
  "view (fst (set_condition tick (new_condition ''B'' ConditionTrue [] [] []) ([new_condition ''A'' ConditionFalse [] [] []], 3)))
     = (view [new_condition ''A'' ConditionFalse [] [] []])(''B'' \<mapsto> (ConditionTrue, [], [], []))"
  using set_condition_refines [of "[new_condition ''A'' ConditionFalse [] [] []]" tick
      "new_condition ''B'' ConditionTrue [] [] []" 3]
  by (simp add: ordered_conditions_def content_def)

end
