(* ===== verification/Happiness.thy ===== *)
theory Happiness
  imports Conditions
begin

text \<open>
  What the condition manager is for: the happy condition summarises the dependents. The
  abstract specification is \<open>overall\<close>: False when a dependent is False, otherwise Unknown when a
  dependent is Unknown or missing, otherwise True. \<open>managed_run\<close> is the state machine of a
  status: initialised once, then marked any number of times. In every state it reaches the happy
  condition has the status \<open>overall\<close> asks for, although each operation updates it from a different
  part of the stored conditions.
\<close>

section \<open>Condition sets are well formed\<close>

definition set_wf :: "condition_set \<Rightarrow> bool" where
  "set_wf r = (happy r \<notin> set (dependents r) \<and> distinct (dependents r))"

lemma dependents_fold:
  defines "step h deps d \<equiv> if d = h \<or> contains deps d then deps else deps @ [d]"
  assumes "h \<notin> set acc" and "distinct acc"
  shows "h \<notin> set (foldl (step h) acc ds) \<and> distinct (foldl (step h) acc ds)
    \<and> set (foldl (step h) acc ds) = set acc \<union> (set ds - {h})"
  using assms(2,3)
proof (induction ds arbitrary: acc)
  case Nil
  then show ?case by auto
next
  case (Cons d ds)
  have "h \<notin> set (step h acc d)" "distinct (step h acc d)"
    "set (step h acc d) = set acc \<union> ({d} - {h})"
    using Cons.prems by (auto simp: step_def)
  with Cons.IH [of "step h acc d"] show ?case by auto
qed

lemma new_condition_set_wf: "set_wf (new_condition_set h ds)"
  using dependents_fold [of h "[]" ds] by (simp add: new_condition_set_def set_wf_def)

lemma new_condition_set_dependents: "set (dependents (new_condition_set h ds)) = set ds - {h}"
  using dependents_fold [of h "[]" ds] by (simp add: new_condition_set_def)

lemma new_condition_set_happy [simp]: "happy (new_condition_set h ds) = h"
  by (simp add: new_condition_set_def)

lemma severity_terminal [simp]:
  "t \<in> set (dependents r) \<Longrightarrow> severity r t = ConditionSeverityError"
  "severity r (happy r) = ConditionSeverityError"
  by (simp_all add: severity_def is_terminal_def)

section \<open>The specification\<close>

definition overall :: "condition_set \<Rightarrow> conditions \<Rightarrow> condition_status" where
  "overall r cs =
     (if \<exists>d \<in> set (dependents r). is_false (get_condition d cs) then ConditionFalse
      else if \<exists>d \<in> set (dependents r). is_unknown (get_condition d cs) then ConditionUnknown
      else ConditionTrue)"

definition known_status :: "condition_status \<Rightarrow> bool" where
  "known_status s = (s \<in> {ConditionTrue, ConditionFalse, ConditionUnknown})"

text \<open>Every terminal type has exactly one condition, of severity Error and a known status.\<close>

definition well_kept :: "condition \<Rightarrow> bool" where
  "well_kept c = (cond_severity c = ConditionSeverityError \<and> known_status (cond_status c))"

definition managed :: "condition_set \<Rightarrow> conditions \<Rightarrow> bool" where
  "managed r cs =
     (ordered_conditions cs \<and> cond_type ` set cs = insert (happy r) (set (dependents r))
      \<and> (\<forall>c \<in> set cs. well_kept c))"

definition settled :: "condition_set \<Rightarrow> conditions \<Rightarrow> bool" where
  "settled r cs = (\<exists>h. get_condition (happy r) cs = Some h \<and> cond_status h = overall r cs)"

lemma known_simps [simp]:
  "known_status ConditionTrue" "known_status ConditionFalse" "known_status ConditionUnknown"
  by (simp_all add: known_status_def)

lemma well_kept_simps [simp]:
  "well_kept (new_condition t s sev rs m) \<longleftrightarrow> sev = ConditionSeverityError \<and> known_status s"
  "well_kept (c\<lparr>last_transition_time := x\<rparr>) = well_kept c"
  by (simp_all add: well_kept_def)

lemma known_overall [simp]: "known_status (overall r cs)"
  by (simp add: overall_def)

lemma managed_ordered: "managed r cs \<Longrightarrow> ordered_conditions cs"
  by (simp add: managed_def)

lemma managed_get:
  assumes "managed r cs" and "t \<in> insert (happy r) (set (dependents r))"
  obtains c where "get_condition t cs = Some c" "c \<in> set cs" "cond_type c = t" "well_kept c"
proof -
  from assms have "t \<in> cond_type ` set cs" by (simp add: managed_def)
  then obtain c where "c \<in> set cs" "cond_type c = t" by auto
  with assms that show ?thesis by (auto simp: managed_def get_condition_iff)
qed

lemma managed_get_known:
  assumes "managed r cs" and "t \<in> set (dependents r)"
  obtains c where "get_condition t cs = Some c" "known_status (cond_status c)"
  using managed_get [OF assms(1), of t] assms(2) by (auto simp: well_kept_def)

lemma get_condition_mem: "get_condition t cs = Some c \<Longrightarrow> t \<in> cond_type ` set cs"
  by (auto dest: get_condition_type)

lemma managed_set:
  assumes "managed r (fst st)" and "cond_type c \<in> insert (happy r) (set (dependents r))" and "well_kept c"
  shows "managed r (fst (set_condition now c st))"
  using assms by (cases st)
    (auto simp: managed_def set_condition_ordered set_condition_types dest!: set_condition_members)

lemma overall_cong:
  assumes "\<And>d. d \<in> set (dependents r) \<Longrightarrow> get_condition d cs = get_condition d cs'"
  shows "overall r cs = overall r cs'"
  using assms by (auto simp: overall_def)

lemma overall_set_happy:
  assumes "set_wf r" and "ordered_conditions (fst st)" and "cond_type c = happy r"
  shows "overall r (fst (set_condition now c st)) = overall r (fst st)"
proof (rule overall_cong)
  fix d assume "d \<in> set (dependents r)"
  with assms have "d \<noteq> cond_type c" by (auto simp: set_wf_def)
  with assms(2) show "get_condition d (fst (set_condition now c st)) = get_condition d (fst st)"
    by (cases st) (auto simp: get_set_other)
qed

lemma get_set_status:
  assumes "ordered_conditions (fst st)"
  shows "\<exists>h. get_condition (cond_type c) (fst (set_condition now c st)) = Some h \<and> content h = content c"
proof -
  obtain cs k where st: "st = (cs, k)" by (cases st)
  with assms have ord: "ordered_conditions cs" by simp
  obtain t where
    "get_condition (cond_type c) (fst (set_condition now c (cs, k))) = Some (c\<lparr>last_transition_time := t\<rparr>)"
    by (rule get_set_same [OF ord])
  with st show ?thesis by auto
qed

text \<open>Writing the summary into the happy condition settles a status.\<close>

lemma settle:
  assumes "set_wf r" and "managed r (fst st)"
    and "cond_type c = happy r" and "cond_status c = overall r (fst st)"
    and "cond_severity c = ConditionSeverityError"
  shows "managed r (fst (set_condition now c st)) \<and> settled r (fst (set_condition now c st))"
proof
  have ord: "ordered_conditions (fst st)" using assms(2) by (rule managed_ordered)
  show "managed r (fst (set_condition now c st))"
    using assms by (intro managed_set) (auto simp: well_kept_def)
  obtain h where "get_condition (cond_type c) (fst (set_condition now c st)) = Some h" "content h = content c"
    using get_set_status [OF ord, of c now] by blast
  with assms ord show "settled r (fst (set_condition now c st))"
    by (simp add: settled_def overall_set_happy content_def)
qed

section \<open>The unhappy dependent\<close>

definition terminal_conditions :: "condition_set \<Rightarrow> conditions \<Rightarrow> conditions" where
  "terminal_conditions r cs =
     filter (\<lambda>c. cond_severity c = ConditionSeverityError \<and> cond_type c \<noteq> happy r) cs"

lemma terminal_conditions_set:
  assumes "managed r cs" and "set_wf r"
  shows "set (terminal_conditions r cs) = {c \<in> set cs. cond_type c \<in> set (dependents r)}"
  using assms by (auto simp: terminal_conditions_def managed_def well_kept_def set_wf_def)

lemma terminal_conditions_length:
  assumes "managed r cs" and "set_wf r"
  shows "length (terminal_conditions r cs) = length (dependents r)"
proof -
  have d: "distinct (map cond_type (terminal_conditions r cs))"
    using assms(1) by (simp add: terminal_conditions_def managed_def ordered_conditions_def distinct_map_filter)
  have "cond_type ` set (terminal_conditions r cs) = set (dependents r)"
    unfolding terminal_conditions_set [OF assms] using assms(1) by (auto simp: managed_def)
  then have "set (map cond_type (terminal_conditions r cs)) = set (dependents r)" by simp
  with d assms(2) show ?thesis
    by (metis distinct_card length_map set_wf_def)
qed

lemma exists_dependent:
  assumes "managed r cs" and "set_wf r"
  shows "(\<exists>d \<in> set (dependents r). case get_condition d cs of None \<Rightarrow> False | Some c \<Rightarrow> P c)
    \<longleftrightarrow> (\<exists>c \<in> set (terminal_conditions r cs). P c)" (is "?L = ?R")
proof
  assume ?L
  then obtain d c where "d \<in> set (dependents r)" "get_condition d cs = Some c" "P c"
    by (auto split: option.splits)
  then show ?R
    unfolding terminal_conditions_set [OF assms] by (auto dest: get_condition_type)
next
  assume ?R
  then obtain c where c: "c \<in> set cs" "cond_type c \<in> set (dependents r)" "P c"
    unfolding terminal_conditions_set [OF assms] by auto
  then have "get_condition (cond_type c) cs = Some c"
    using assms(1) by (simp add: managed_def get_condition_iff)
  with c show ?L by (intro bexI [of _ "cond_type c"]) auto
qed

lemma overall_terminal:
  assumes "managed r cs" and "set_wf r"
  shows "overall r cs =
     (if \<exists>c \<in> set (terminal_conditions r cs). cond_status c = ConditionFalse then ConditionFalse
      else if \<exists>c \<in> set (terminal_conditions r cs). cond_status c = ConditionUnknown then ConditionUnknown
      else ConditionTrue)"
proof -
  have "is_unknown (get_condition d cs) =
      (case get_condition d cs of None \<Rightarrow> False | Some c \<Rightarrow> cond_status c = ConditionUnknown)"
    if "d \<in> set (dependents r)" for d
    by (rule managed_get_known [OF assms(1) that]) simp
  then show ?thesis
    unfolding overall_def is_false_def by (simp add: exists_dependent [OF assms])
qed

text \<open>
  \<open>findUnhappyDependent\<close> returns a dependent with the overall status, among those the one whose
  condition changed last, and nil exactly when every dependent is fine.
\<close>

lemma find_unhappy_dependent_cases:
  assumes "managed r cs" and "set_wf r"
  obtains (fine) "find_unhappy_dependent r cs = None" "overall r cs = ConditionTrue"
    | (unhappy) c where "find_unhappy_dependent r cs = Some c" "c \<in> set cs"
      "cond_type c \<in> set (dependents r)" "cond_status c = overall r cs" "overall r cs \<noteq> ConditionTrue"
      "\<And>d. d \<in> set cs \<Longrightarrow> cond_type d \<in> set (dependents r) \<Longrightarrow> cond_status d = overall r cs
         \<Longrightarrow> last_transition_time d \<le> last_transition_time c"
proof -
  let ?ts = "sort_slice later (terminal_conditions r cs)"
  let ?F = "\<lambda>c. cond_status c = ConditionFalse" and ?U = "\<lambda>c. cond_status c = ConditionUnknown"
  note in_ts = terminal_conditions_set [OF assms] and ov = overall_terminal [OF assms]
  have len: "length ?ts = length (dependents r)"
    using terminal_conditions_length [OF assms] by simp
  then have "dependents r = [] \<Longrightarrow> ?ts = []" by (metis length_0_conv)
  with len have eq: "find_unhappy_dependent r cs = (case find ?F ?ts of Some c \<Rightarrow> Some c | None \<Rightarrow> find ?U ?ts)"
    unfolding find_unhappy_dependent_def terminal_conditions_def [symmetric] Let_def is_true_simps
    by (auto split: option.split)
  show ?thesis
  proof (cases "find ?F ?ts")
    case (Some c)
    from later_sort.find_least [OF Some] have least: "c \<in> set (terminal_conditions r cs)"
      "cond_status c = ConditionFalse"
      "\<forall>d \<in> set (terminal_conditions r cs). cond_status d = ConditionFalse
         \<longrightarrow> last_transition_time d \<le> last_transition_time c" by auto
    then have "overall r cs = ConditionFalse" by (auto simp: ov)
    moreover have "find_unhappy_dependent r cs = Some c" by (simp add: eq Some)
    ultimately show ?thesis
      using least by (intro unhappy [of c]) (auto simp: in_ts)
  next
    case noF: None
    show ?thesis
    proof (cases "find ?U ?ts")
      case (Some c)
      from later_sort.find_least [OF Some] have least: "c \<in> set (terminal_conditions r cs)"
        "cond_status c = ConditionUnknown"
        "\<forall>d \<in> set (terminal_conditions r cs). cond_status d = ConditionUnknown
           \<longrightarrow> last_transition_time d \<le> last_transition_time c" by auto
      with noF have "overall r cs = ConditionUnknown"
        by (auto simp: ov later_sort.find_sort_None)
      moreover have "find_unhappy_dependent r cs = Some c" by (simp add: eq noF Some)
      ultimately show ?thesis
        using least by (intro unhappy [of c]) (auto simp: in_ts)
    next
      case None
      then have "find_unhappy_dependent r cs = None" by (simp add: eq noF)
      moreover from None noF have "overall r cs = ConditionTrue"
        by (auto simp: ov later_sort.find_sort_None)
      ultimately show ?thesis by (rule fine)
    qed
  qed
qed

section \<open>Every operation keeps the summary\<close>

lemma recompute_settles:
  assumes "set_wf r" and "managed r (fst st)" and "t \<in> set (dependents r)"
  shows "managed r (fst (recompute_happiness now r t st)) \<and> settled r (fst (recompute_happiness now r t st))"
proof -
  from assms have "t \<noteq> happy r" by (auto simp: set_wf_def)
  show ?thesis
  proof (cases rule: find_unhappy_dependent_cases [OF assms(2,1), case_names fine unhappy])
    case fine
    with \<open>t \<noteq> happy r\<close> assms show ?thesis
      by (simp add: recompute_happiness_def settle)
  next
    case (unhappy c)
    with assms show ?thesis
      by (simp add: recompute_happiness_def settle)
  qed
qed

lemma mark_true_settles:
  assumes "set_wf r" and "managed r (fst st)" and "t \<in> set (dependents r)"
  shows "managed r (fst (mark_true now r t st)) \<and> settled r (fst (mark_true now r t st))"
  unfolding mark_true_def using assms
  by (intro recompute_settles) (simp_all add: managed_set)

lemma mark_true_with_reason_settles:
  assumes "set_wf r" and "managed r (fst st)" and "t \<in> set (dependents r)"
  shows "managed r (fst (mark_true_with_reason now r t reason f as st))
    \<and> settled r (fst (mark_true_with_reason now r t reason f as st))"
  unfolding mark_true_with_reason_def using assms
  by (intro recompute_settles) (simp_all add: managed_set)

text \<open>On a dependent, \<open>MarkFalse\<close> writes the dependent and then the happy condition.\<close>

lemma filter_eq_distinct: "distinct xs \<Longrightarrow> filter (\<lambda>x. x = t) xs = (if t \<in> set xs then [t] else [])"
  by (induction xs) auto

lemma mark_false_dependent:
  assumes "set_wf r" and "t \<in> set (dependents r)"
  shows "mark_false now r t reason f as st =
    set_condition now (new_condition (happy r) ConditionFalse ConditionSeverityError reason (sprintf f as))
      (set_condition now (new_condition t ConditionFalse ConditionSeverityError reason (sprintf f as)) st)"
  using assms by (simp add: mark_false_def Let_def set_wf_def filter_eq_distinct)

lemma mark_false_happy:
  assumes "set_wf r"
  shows "mark_false now r (happy r) reason f as st =
    set_condition now (new_condition (happy r) ConditionFalse ConditionSeverityError reason (sprintf f as)) st"
proof -
  have "filter (\<lambda>cond. cond = happy r) (dependents r) = []"
    using assms by (auto simp: set_wf_def filter_empty_conv)
  then show ?thesis by (simp add: mark_false_def)
qed

lemma overall_falseI:
  assumes "d \<in> set (dependents r)" and "is_false (get_condition d cs)"
  shows "overall r cs = ConditionFalse"
  using assms by (auto simp: overall_def)

lemma mark_false_settles:
  assumes "set_wf r" and "managed r (fst st)" and "t \<in> set (dependents r)"
  shows "managed r (fst (mark_false now r t reason f as st))
    \<and> settled r (fst (mark_false now r t reason f as st))"
proof -
  let ?c = "new_condition t ConditionFalse ConditionSeverityError reason (sprintf f as)"
  have ord: "ordered_conditions (fst st)" using assms(2) by (rule managed_ordered)
  have "overall r (fst (set_condition now ?c st)) = ConditionFalse"
    using get_set_status [OF ord, of ?c now] assms(3)
    by (auto intro!: overall_falseI [of t] simp: content_def)
  then show ?thesis
    unfolding mark_false_dependent [OF assms(1,3)] using assms
    by (intro settle) (simp_all add: managed_set)
qed

lemma mark_unknown_scan_settles:
  assumes "set_wf r" and "managed r (fst st)"
    and "set ds \<subseteq> set (dependents r)"
    and "is_dep \<or> t \<in> set ds"
    and "\<forall>d \<in> set (dependents r) - set ds. \<not> is_false (get_condition d (fst st))"
    and "t \<in> set (dependents r)" and "is_unknown (get_condition t (fst st))"
  shows "managed r (fst (mark_unknown_scan now r t reason f as ds is_dep st))
    \<and> settled r (fst (mark_unknown_scan now r t reason f as ds is_dep st))"
  using assms(3-5)
proof (induction ds arbitrary: is_dep)
  case Nil
  then have "overall r (fst st) = ConditionUnknown"
    using assms(6,7) by (auto simp: overall_def)
  with Nil.prems assms(1,2) show ?case by (simp add: settle)
next
  case (Cons d ds)
  show ?case
  proof (cases "is_false (get_condition d (fst st))")
    case True
    with Cons.prems have ov: "overall r (fst st) = ConditionFalse"
      by (intro overall_falseI [of d]) auto
    show ?thesis
    proof (cases "is_false (get_condition (happy r) (fst st))")
      case True
      with \<open>is_false (get_condition d (fst st))\<close> ov assms(2) show ?thesis
        by (auto simp: settled_def is_false_def split: option.splits)
    next
      case False
      with True ov assms(1,2) show ?thesis
        by (simp add: mark_false_happy settle)
    qed
  next
    case False
    with Cons.prems have "managed r (fst (mark_unknown_scan now r t reason f as ds (d = t \<or> is_dep) st))
      \<and> settled r (fst (mark_unknown_scan now r t reason f as ds (d = t \<or> is_dep) st))"
      by (intro Cons.IH) auto
    with False show ?thesis by simp
  qed
qed

lemma mark_unknown_settles:
  assumes "set_wf r" and "managed r (fst st)" and "t \<in> set (dependents r)"
  shows "managed r (fst (mark_unknown now r t reason f as st))
    \<and> settled r (fst (mark_unknown now r t reason f as st))"
proof -
  let ?c = "new_condition t ConditionUnknown ConditionSeverityError reason (sprintf f as)"
  have ord: "ordered_conditions (fst st)" using assms(2) by (rule managed_ordered)
  have "is_unknown (get_condition t (fst (set_condition now ?c st)))"
    using get_set_status [OF ord, of ?c now] by (auto simp: content_def)
  with assms show ?thesis
    unfolding mark_unknown_def
    by (intro mark_unknown_scan_settles) (simp_all add: managed_set)
qed

section \<open>Initialisation\<close>

text \<open>
  \<open>InitializeConditions\<close> leaves every condition that is set as it is and adds the missing ones.
  \<open>extends\<close> is what it does to the stored conditions.
\<close>

definition extends :: "conditions \<Rightarrow> conditions \<Rightarrow> bool" where
  "extends cs cs' = (\<forall>t c. get_condition t cs = Some c \<longrightarrow> get_condition t cs' = Some c)"

lemma extends_refl [simp]: "extends cs cs"
  by (simp add: extends_def)

lemma extends_trans: "extends cs cs' \<Longrightarrow> extends cs' cs'' \<Longrightarrow> extends cs cs''"
  by (auto simp: extends_def)

lemma set_missing_extends:
  assumes "ordered_conditions (fst st)" and "get_condition (cond_type c) (fst st) = None"
  shows "extends (fst st) (fst (set_condition now c st))"
  unfolding extends_def
proof (intro allI impI)
  fix t d assume d: "get_condition t (fst st) = Some d"
  with assms(2) have "t \<noteq> cond_type c" by auto
  with d assms(1) show "get_condition t (fst (set_condition now c st)) = Some d"
    by (cases st) (simp add: get_set_other)
qed

lemma initialize_terminal_condition_facts:
  assumes "ordered_conditions (fst st)" and st'_def: "st' = initialize_terminal_condition now s t st"
  shows "ordered_conditions (fst st') \<and> extends (fst st) (fst st')
    \<and> cond_type ` set (fst st') = insert t (cond_type ` set (fst st))
    \<and> (\<forall>c \<in> set (fst st'). c \<in> set (fst st)
         \<or> content c = content (new_condition t s ConditionSeverityError [] []))"
proof (cases "get_condition t (fst st)")
  case (Some c)
  then have "t \<in> cond_type ` set (fst st)" by (rule get_condition_mem)
  with Some assms show ?thesis by (auto simp: initialize_terminal_condition_def)
next
  case None
  let ?c = "new_condition t s ConditionSeverityError [] []"
  have "st' = set_condition now ?c st"
    using None by (simp add: st'_def initialize_terminal_condition_def)
  moreover have "extends (fst st) (fst (set_condition now ?c st))"
    using assms(1) None by (intro set_missing_extends) auto
  ultimately show ?thesis
    using assms(1) by (cases st)
      (auto simp: set_condition_ordered set_condition_types dest: set_condition_members)
qed

lemma initialize_fold:
  assumes "ordered_conditions (fst st)"
    and st'_def: "st' = foldl (\<lambda>st t. initialize_terminal_condition now s t st) st ds"
  shows "ordered_conditions (fst st') \<and> extends (fst st) (fst st')
    \<and> cond_type ` set (fst st') = set ds \<union> cond_type ` set (fst st)
    \<and> (\<forall>c \<in> set (fst st'). c \<in> set (fst st)
         \<or> (\<exists>t \<in> set ds. content c = content (new_condition t s ConditionSeverityError [] [])))"
  using assms(1) unfolding st'_def
proof (induction ds arbitrary: st)
  case Nil
  then show ?case by simp
next
  case (Cons d ds)
  note one = initialize_terminal_condition_facts [OF Cons.prems refl, of now s d]
  note rest = Cons.IH [of "initialize_terminal_condition now s d st"]
  from one rest show ?case
    by (auto intro: extends_trans)
qed

definition initial_status :: "condition_set \<Rightarrow> conditions \<Rightarrow> condition_status" where
  "initial_status r cs = (if is_happy r cs then ConditionTrue else ConditionUnknown)"

lemma initialize_conditions_facts:
  assumes "ordered_conditions (fst st)" and st'_def: "st' = initialize_conditions now r st"
  shows "ordered_conditions (fst st') \<and> extends (fst st) (fst st')
    \<and> cond_type ` set (fst st') = insert (happy r) (set (dependents r)) \<union> cond_type ` set (fst st)
    \<and> (\<forall>c \<in> set (fst st'). c \<in> set (fst st)
         \<or> cond_severity c = ConditionSeverityError \<and> cond_status c = initial_status r (fst st))"
proof (cases "get_condition (happy r) (fst st)")
  case (Some h)
  then have h: "happy r \<in> cond_type ` set (fst st)" by (rule get_condition_mem)
  have st': "st' = foldl (\<lambda>s t. initialize_terminal_condition now (initial_status r (fst st)) t s)
      st (dependents r)"
    using Some by (simp add: st'_def initialize_conditions_def initial_status_def is_happy_def
        get_top_level_condition_def Let_def)
  from initialize_fold [OF assms(1) refl, of now "initial_status r (fst st)" "dependents r"] h show ?thesis
    unfolding st' by (auto simp: content_def)
next
  case None
  let ?i = "new_condition (happy r) ConditionUnknown ConditionSeverityError [] []"
  have init: "initial_status r (fst st) = ConditionUnknown"
    using None by (simp add: initial_status_def is_happy_def get_top_level_condition_def)
  have st': "st' = foldl (\<lambda>s t. initialize_terminal_condition now ConditionUnknown t s)
      (set_condition now ?i st) (dependents r)"
    using None by (simp add: st'_def initialize_conditions_def Let_def)
  obtain cs k where st: "st = (cs, k)" by (cases st)
  have one: "ordered_conditions (fst (set_condition now ?i st))"
    "extends (fst st) (fst (set_condition now ?i st))"
    "cond_type ` set (fst (set_condition now ?i st)) = insert (happy r) (cond_type ` set (fst st))"
    "\<forall>c \<in> set (fst (set_condition now ?i st)). c \<in> set (fst st) \<or> content c = content ?i"
    using assms(1) None set_missing_extends [of st ?i now] unfolding st
    by (auto simp: set_condition_ordered set_condition_types dest: set_condition_members)
  from initialize_fold [OF one(1) refl, of now ConditionUnknown "dependents r"] one show ?thesis
    unfolding st' init by (auto simp: content_def intro: extends_trans)
qed

lemma initialize_managed:
  assumes "managed r (fst st)"
  shows "initialize_conditions now r st = st"
proof -
  obtain h where h: "get_condition (happy r) (fst st) = Some h"
    using assms by (rule managed_get) auto
  have "foldl (\<lambda>st t. initialize_terminal_condition now s t st) st ds = st"
    if "set ds \<subseteq> set (dependents r)" for s ds
    using that
  proof (induction ds)
    case (Cons d ds)
    then obtain c where "get_condition d (fst st) = Some c"
      using managed_get [OF assms, of d] by auto
    with Cons show ?case by (simp add: initialize_terminal_condition_def)
  qed simp
  with h show ?thesis by (simp add: initialize_conditions_def Let_def)
qed

lemma initialize_empty:
  assumes "dependents r \<noteq> []"
  shows "managed r (fst (initialize_conditions now r ([], k)))
    \<and> settled r (fst (initialize_conditions now r ([], k)))"
proof -
  let ?cs = "fst (initialize_conditions now r ([], k))"
  have facts: "ordered_conditions ?cs" "cond_type ` set ?cs = insert (happy r) (set (dependents r))"
    "\<forall>c \<in> set ?cs. cond_severity c = ConditionSeverityError \<and> cond_status c = ConditionUnknown"
    using initialize_conditions_facts [OF _ refl, of "([], k)" now r]
    by (auto simp: initial_status_def is_happy_def get_top_level_condition_def get_condition_def)
  then have m: "managed r ?cs" by (auto simp: managed_def well_kept_def)
  have unknown: "\<exists>c. get_condition t ?cs = Some c \<and> cond_status c = ConditionUnknown"
    if "t \<in> insert (happy r) (set (dependents r))" for t
    using managed_get [OF m that] facts(3) by metis
  then have "is_unknown (get_condition d ?cs) \<and> \<not> is_false (get_condition d ?cs)"
    if "d \<in> set (dependents r)" for d
    using that by force
  with assms have "overall r ?cs = ConditionUnknown"
    by (cases "dependents r") (auto simp: overall_def)
  with unknown [of "happy r"] have "settled r ?cs" by (auto simp: settled_def)
  with m show ?thesis ..
qed

section \<open>The life of a status\<close>

text \<open>
  The operations a lifecycle method applies to the conditions of its status, each to a dependent.
\<close>

datatype mark_op =
    OpTrue condition_type
  | OpTrueWithReason condition_type string string "fmt_arg list"
  | OpFalse condition_type string string "fmt_arg list"
  | OpUnknown condition_type string string "fmt_arg list"

fun mark_target :: "mark_op \<Rightarrow> condition_type" where
  "mark_target (OpTrue t) = t"
| "mark_target (OpTrueWithReason t _ _ _) = t"
| "mark_target (OpFalse t _ _ _) = t"
| "mark_target (OpUnknown t _ _ _) = t"

fun run_mark ::
  "('c \<Rightarrow> int \<times> 'c) \<Rightarrow> condition_set \<Rightarrow> mark_op \<Rightarrow> conditions \<times> 'c \<Rightarrow> conditions \<times> 'c" where
  "run_mark now r (OpTrue t) = mark_true now r t"
| "run_mark now r (OpTrueWithReason t reason f as) = mark_true_with_reason now r t reason f as"
| "run_mark now r (OpFalse t reason f as) = mark_false now r t reason f as"
| "run_mark now r (OpUnknown t reason f as) = mark_unknown now r t reason f as"

text \<open>
  A status starts without conditions; every reconciliation initialises them and marks some. The
  clock is free between two steps, as the conditions are stored in the cluster meanwhile.
\<close>

inductive managed_run :: "('c \<Rightarrow> int \<times> 'c) \<Rightarrow> condition_set \<Rightarrow> conditions \<Rightarrow> bool"
  for now r where
  created: "managed_run now r (fst (initialize_conditions now r ([], k)))"
| initialized: "managed_run now r cs \<Longrightarrow> managed_run now r (fst (initialize_conditions now r (cs, k)))"
| marked: "managed_run now r cs \<Longrightarrow> mark_target op \<in> set (dependents r)
     \<Longrightarrow> managed_run now r (fst (run_mark now r op (cs, k)))"

lemma run_mark_settles:
  assumes "set_wf r" and "managed r (fst st)" and "mark_target op \<in> set (dependents r)"
  shows "managed r (fst (run_mark now r op st)) \<and> settled r (fst (run_mark now r op st))"
  using assms by (cases op)
    (simp_all add: mark_true_settles mark_true_with_reason_settles mark_false_settles mark_unknown_settles)

lemma managed_run_settled:
  assumes "managed_run now r cs" and "set_wf r" and "dependents r \<noteq> []"
  shows "managed r cs \<and> settled r cs"
  using assms(1)
proof induction
  case (created k)
  show ?case using assms(3) by (rule initialize_empty)
next
  case (initialized cs k)
  then show ?case by (simp add: initialize_managed)
next
  case (marked cs op k)
  with assms(2) show ?case by (simp add: run_mark_settles)
qed

text \<open>
  In a settled status the happy condition is True exactly when every dependent is.
\<close>

lemma settled_happy_iff:
  assumes "managed r cs" and "settled r cs"
  shows "is_happy r cs \<longleftrightarrow> (\<forall>d \<in> set (dependents r). is_true (get_condition d cs))"
proof -
  have "is_true (get_condition d cs) \<longleftrightarrow>
      \<not> is_false (get_condition d cs) \<and> \<not> is_unknown (get_condition d cs)"
    if "d \<in> set (dependents r)" for d
    by (rule managed_get_known [OF assms(1) that]) (auto simp: known_status_def)
  with assms(2) show ?thesis
    by (auto simp: settled_def is_happy_def get_top_level_condition_def overall_def split: if_splits)
qed

section \<open>Properties\<close>

text \<open>C12: the happy condition is the summary of the dependents. In every state a status reaches from
  \<open>InitializeConditions\<close> by any sequence of \<open>MarkTrue\<close>, \<open>MarkTrueWithReason\<close>, \<open>MarkFalse\<close> and
  \<open>MarkUnknown\<close> on dependents, the happy condition exists, is False when a dependent is False, else
  Unknown when one is Unknown, else True; and \<open>IsHappy\<close> holds exactly when all dependents are True.\<close>

theorem happiness_summary:
  assumes "managed_run now (new_condition_set h ds) cs" and "\<not> set ds \<subseteq> {h}"
  shows "(\<exists>c. get_top_level_condition (new_condition_set h ds) cs = Some c
      \<and> cond_status c = overall (new_condition_set h ds) cs)
    \<and> (is_happy (new_condition_set h ds) cs \<longleftrightarrow> (\<forall>d \<in> set ds - {h}. is_true (get_condition d cs)))"
proof -
  let ?r = "new_condition_set h ds"
  have "set (dependents ?r) \<noteq> {}" unfolding new_condition_set_dependents using assms(2) by blast
  then have "dependents ?r \<noteq> []" by force
  then have m: "managed ?r cs" and st: "settled ?r cs"
    using managed_run_settled [OF assms(1) new_condition_set_wf] by blast+
  have "is_happy ?r cs \<longleftrightarrow> (\<forall>d \<in> set ds - {h}. is_true (get_condition d cs))"
    unfolding settled_happy_iff [OF m st] new_condition_set_dependents ..
  moreover obtain c where "get_condition (happy ?r) cs = Some c" "cond_status c = overall ?r cs"
    using st unfolding settled_def by blast
  ultimately show ?thesis unfolding get_top_level_condition_def by blast
qed

theorem happiness_summary_witness:
  "let r = new_living_condition_set [''A'', ''B''];
       cs = fst (run_mark tick r (OpTrue ''B'') (fst (initialize_conditions tick r ([], 1)), 7))
   in is_happy r cs \<longleftrightarrow> (\<forall>d \<in> {''A'', ''B''} - {''Ready''}. is_true (get_condition d cs))"
proof -
  let ?r = "new_condition_set ''Ready'' [''A'', ''B'']"
  let ?cs = "fst (run_mark tick ?r (OpTrue ''B'') (fst (initialize_conditions tick ?r ([], 1)), 7))"
  have "managed_run tick ?r ?cs"
    by (intro managed_run.marked managed_run.created) (simp add: new_condition_set_dependents)
  from happiness_summary [OF this] show ?thesis
    unfolding Let_def new_living_condition_set_def ConditionReady_def by simp
qed

text \<open>When marking a dependent True leaves the resource unhappy, the happy condition names the
  cause: it carries the status, reason and message of a dependent that is False (of one that is
  Unknown when none is False), and among those the dependent whose condition changed last.\<close>

theorem unhappy_cause:
  assumes "set_wf r" and "managed r cs" and "t \<in> set (dependents r)"
    and "cs' = fst (mark_true now r t (cs, k))" and "\<not> is_happy r cs'"
  shows "\<exists>h c. get_top_level_condition r cs' = Some h \<and> c \<in> set cs' \<and> cond_type c \<in> set (dependents r)
    \<and> cond_status c = cond_status h \<and> cond_reason c = cond_reason h \<and> cond_message c = cond_message h
    \<and> (\<forall>d \<in> set cs'. cond_type d \<in> set (dependents r) \<and> cond_status d = cond_status h
         \<longrightarrow> last_transition_time d \<le> last_transition_time c)"
proof -
  define st where "st = set_condition now (new_condition t ConditionTrue (severity r t) [] []) (cs, k)"
  have m: "managed r (fst st)" unfolding st_def using assms(2,3) by (intro managed_set) auto
  then have ord: "ordered_conditions (fst st)" by (rule managed_ordered)
  have t: "t \<noteq> happy r" using assms(1,3) by (auto simp: set_wf_def)
  have cs': "cs' = fst (recompute_happiness now r t st)" by (simp add: assms(4) mark_true_def st_def)
  have same: "d \<in> set (fst (set_condition now c st)) \<longleftrightarrow> d \<in> set (fst st)"
    if "cond_type c = happy r" "cond_type d \<in> set (dependents r)" for c d
  proof -
    have "cond_type d \<noteq> cond_type c" using that assms(1) by (auto simp: set_wf_def)
    then have "get_condition (cond_type d) (fst (set_condition now c st)) = get_condition (cond_type d) (fst st)"
      using ord by (cases st) (simp add: get_set_other)
    moreover have "ordered_conditions (fst (set_condition now c st))"
      using ord by (cases st) (simp add: set_condition_ordered)
    ultimately show ?thesis using ord get_condition_iff by metis
  qed
  show ?thesis
  proof (cases rule: find_unhappy_dependent_cases [OF m assms(1), case_names fine unhappy])
    case fine
    let ?c = "new_condition (happy r) ConditionTrue ConditionSeverityError [] []"
    have "cs' = fst (set_condition now ?c st)" using fine t by (simp add: cs' recompute_happiness_def)
    then have "is_happy r cs'"
      using get_set_status [OF ord, of ?c now]
      by (auto simp: is_happy_def get_top_level_condition_def content_def)
    with assms(5) show ?thesis by simp
  next
    case (unhappy c)
    let ?c = "new_condition (happy r) (cond_status c) ConditionSeverityError (cond_reason c) (cond_message c)"
    have eq: "cs' = fst (set_condition now ?c st)" using unhappy by (simp add: cs' recompute_happiness_def)
    then obtain h where h: "get_top_level_condition r cs' = Some h" "content h = content ?c"
      using get_set_status [OF ord, of ?c now] by (auto simp: get_top_level_condition_def)
    with unhappy same [of ?c] show ?thesis
      unfolding eq by (intro exI [of _ h] exI [of _ c]) (auto simp: content_def)
  qed
qed

theorem unhappy_cause_witness:
  "let r = new_living_condition_set [''A'', ''B''];
       cs = fst (initialize_conditions tick r ([], 1));
       cs' = fst (mark_true tick r ''B'' (cs, 9))
   in \<exists>h c. get_top_level_condition r cs' = Some h \<and> c \<in> set cs' \<and> cond_status c = cond_status h"
proof -
  let ?r = "new_condition_set ''Ready'' [''A'', ''B'']"
  let ?cs = "fst (initialize_conditions tick ?r ([], 1))"
  let ?cs' = "fst (mark_true tick ?r ''B'' (?cs, 9))"
  have "managed ?r ?cs"
    using initialize_empty [of ?r] new_condition_set_dependents [of "''Ready''" "[''A'', ''B'']"] by force
  moreover have "\<not> is_happy ?r ?cs'" by code_simp
  ultimately show ?thesis
    using unhappy_cause [of ?r ?cs "''B''" ?cs' tick 9]
    unfolding Let_def new_living_condition_set_def ConditionReady_def
    by (auto simp: new_condition_set_wf new_condition_set_dependents)
qed

text \<open>\<open>InitializeConditions\<close> only adds. It keeps every condition that is stored, adds exactly the
  missing terminal types, and the conditions it adds are True when the happy condition already was
  True and Unknown otherwise, with severity Error. Run on a status in use it changes nothing.\<close>

theorem initialize_conditions_adds:
  assumes "ordered_conditions cs"
  shows "(let cs' = fst (initialize_conditions now r (cs, k)) in
      ordered_conditions cs'
      \<and> (\<forall>t c. get_condition t cs = Some c \<longrightarrow> get_condition t cs' = Some c)
      \<and> cond_type ` set cs' = insert (happy r) (set (dependents r)) \<union> cond_type ` set cs
      \<and> (\<forall>c \<in> set cs' - set cs. cond_severity c = ConditionSeverityError
           \<and> cond_status c = (if is_happy r cs then ConditionTrue else ConditionUnknown)))
    \<and> (managed r cs \<longrightarrow> initialize_conditions now r (cs, k) = (cs, k))"
  using initialize_conditions_facts [OF _ refl, of "(cs, k)" now r] initialize_managed [of r "(cs, k)" now] assms
  by (auto simp: Let_def extends_def initial_status_def)

theorem initialize_conditions_adds_witness:
  "cond_type ` set (fst (initialize_conditions tick (new_living_condition_set [''A''])
     ([new_condition ''Z'' ConditionTrue [] [] []], 0))) = {''Ready'', ''A'', ''Z''}"
  using initialize_conditions_adds [of "[new_condition ''Z'' ConditionTrue [] [] []]" tick
      "new_living_condition_set [''A'']" 0]
  by (auto simp: ordered_conditions_def Let_def new_living_condition_set_def new_condition_set_dependents
      ConditionReady_def)

end
