(* ===== verification/Api_Types.thy ===== *)
theory Api_Types
  imports Conditions "HOL-Library.Finite_Map"
begin

text \<open>
  The resources of api/accounts/v1alpha1 (account_types.go, operator_types.go, user_types.go,
  signingkey_types.go, common_types.go, status_types.go, keypairable_types.go, constants.go,
  groupversion_info.go) and the Kubernetes objects the controllers handle besides them.

  A pointer field is an \<open>option\<close>, nil being None. A nil map or slice and an empty one are the
  same value: the program tells them apart only to allocate a map before it writes to it, and
  Kubernetes' semantic equality treats them alike. Byte slices are strings. The fields of
  Kubernetes' own structs are those the program reads or writes.
\<close>

section \<open>Kubernetes objects\<close>

type_synonym labels = "(string, string) fmap"

record gvk =
  gvk_group :: string
  gvk_version :: string
  gvk_kind :: string

record owner_reference =
  or_api_version :: string
  or_kind :: string
  or_name :: string
  or_uid :: string

record object_meta =
  m_name :: string
  m_namespace :: string
  m_uid :: string
  m_labels :: labels
  m_finalizers :: "string list"
  m_deletion_timestamp :: "int option"
  m_owner_references :: "owner_reference list"
  m_resource_version :: string

definition empty_meta :: object_meta where
  "empty_meta = \<lparr>m_name = [], m_namespace = [], m_uid = [], m_labels = fmempty, m_finalizers = [],
     m_deletion_timestamp = None, m_owner_references = [], m_resource_version = []\<rparr>"

record secret =
  s_meta :: object_meta
  s_data :: "(string, string) fmap"
  s_string_data :: "(string, string) fmap"
  s_immutable :: "bool option"

record k8s_namespace =
  ns_meta :: object_meta

text \<open>\<open>metav1.LabelSelector\<close>: labels to match and expressions (key, operator, values).\<close>

record label_selector =
  match_labels :: labels
  match_expressions :: "(string \<times> string \<times> string list) list"

text \<open>
  \<open>labels.Selector\<close> and \<open>nkeys.KeyPair\<close> are interfaces of other modules; a value of such an
  interface is the record of what its methods return.
\<close>

record selector =
  sel_matches :: "labels \<Rightarrow> bool"
  sel_empty :: bool
  sel_string :: string

record keypair =
  kp_seed :: "error + string"
  kp_public_key :: "error + string"

section \<open>Constants\<close>

definition Group :: string where "Group = ''accounts.nats.io''"
definition Version :: string where "Version = ''v1alpha1''"

definition group_version_with_kind :: "string \<Rightarrow> gvk" where
  "group_version_with_kind k = \<lparr>gvk_group = Group, gvk_version = Version, gvk_kind = k\<rparr>"

definition ReasonUnsupportedIssuer :: string where "ReasonUnsupportedIssuer = ''UnsupportedIssuer''"
definition ReasonInvalidSigningKeyOwner :: string where "ReasonInvalidSigningKeyOwner = ''InvalidSigningKeyOwner''"
definition ReasonNotReady :: string where "ReasonNotReady = ''NotReady''"
definition ReasonNotFound :: string where "ReasonNotFound = ''NotFound''"
definition ReasonNotAllowed :: string where "ReasonNotAllowed = ''NotAllowed''"
definition ReasonUnknownError :: string where "ReasonUnknownError = ''UnknownError''"
definition ReasonMalformedSeedSecret :: string where "ReasonMalformedSeedSecret = ''MalformedSeedSecret''"
definition ReasonIssuerSeedError :: string where "ReasonIssuerSeedError = ''IssuerSeedError''"
definition ReasonPublicKeyMismatch :: string where "ReasonPublicKeyMismatch = ''PublicKeyMismatch''"
definition ReasonInvalidSeedSecret :: string where "ReasonInvalidSeedSecret = ''InvalidSeedSecret''"
definition ReasonInvalidJWTSecret :: string where "ReasonInvalidJWTSecret = ''InvalidJWTSecret''"
definition ReasonInvalidCredentialsSecret :: string where
  "ReasonInvalidCredentialsSecret = ''InvalidCredentialsSecret''"
definition ReasonJWTPushError :: string where "ReasonJWTPushError = ''JWTPushError''"

definition NatsSecretTypeSeed :: string where "NatsSecretTypeSeed = ''seed''"
definition NatsSecretTypeJWT :: string where "NatsSecretTypeJWT = ''jwt''"
definition NatsSecretTypeSKey :: string where "NatsSecretTypeSKey = ''skey''"

definition NatsSecretJWTKey :: string where "NatsSecretJWTKey = ''nats.jwt''"
definition NatsSecretCredsKey :: string where "NatsSecretCredsKey = ''nats.creds''"
definition NatsCAKey :: string where "NatsCAKey = ''ca.crt''"
definition NatsSecretSeedKey :: string where "NatsSecretSeedKey = ''seed.nk''"
definition NatsSecretPublicKeyKey :: string where "NatsSecretPublicKeyKey = ''public.nk''"

lemmas secret_key_defs =
  NatsSecretJWTKey_def NatsSecretCredsKey_def NatsCAKey_def NatsSecretSeedKey_def NatsSecretPublicKeyKey_def

definition SigningKeyTypeOperator :: string where "SigningKeyTypeOperator = ''Operator''"
definition SigningKeyTypeAccount :: string where "SigningKeyTypeAccount = ''Account''"

definition ImportExportTypeStream :: string where "ImportExportTypeStream = ''stream''"
definition ImportExportTypeService :: string where "ImportExportTypeService = ''service''"

definition ResponseTypeSingleton :: string where "ResponseTypeSingleton = ''singleton''"
definition ResponseTypeStream :: string where "ResponseTypeStream = ''stream''"
definition ResponseTypeChunked :: string where "ResponseTypeChunked = ''chunked''"

section \<open>References and key pairs\<close>

record inferred_object_reference =
  ior_namespace :: string
  ior_name :: string

record typed_object_reference =
  tor_api_version :: string
  tor_kind :: string
  tor_name :: string
  tor_namespace :: string
  tor_uid :: string

record identity =
  id_id :: string
  id_proof :: string

record key_pair =
  public_key :: string
  seed_secret_name :: string

record signing_key_embedded_status =
  ske_name :: string
  ske_key_pair :: key_pair

record issuer_reference =
  issuer_ref :: typed_object_reference

record signing_key_owner_reference =
  sko_api_version :: string
  sko_kind :: string
  sko_name :: string

record key_pair_reference =
  kpr_ref :: inferred_object_reference
  kpr_public_key :: string

record status =
  st_conditions :: conditions

definition get_conditions :: "status \<Rightarrow> conditions" where
  "get_conditions s = st_conditions s"

definition set_conditions :: "conditions \<Rightarrow> status \<Rightarrow> status" where
  "set_conditions cs s = s\<lparr>st_conditions := cs\<rparr>"

section \<open>Operator\<close>

text \<open>\<open>CAFile\<close> is a \<open>*v1.SecretKeySelector\<close>: the name of a secret and a key in it.\<close>

record secret_key_selector =
  sks_name :: string
  sks_key :: string

record tls_config =
  ca_file :: "secret_key_selector option"

record operator_spec =
  op_jwt_secret_name :: string
  op_seed_secret_name :: string
  accounts_namespace_selector :: "label_selector option"
  accounts_selector :: "label_selector option"
  op_signing_keys_selector :: "label_selector option"
  system_account_ref :: string
  op_tls_config :: "tls_config option"
  account_server_url :: string
  operator_service_urls :: "string list"

record operator_status =
  ops_status :: status
  ops_key_pair :: "key_pair option"
  ops_signing_keys :: "signing_key_embedded_status list"
  ops_resolved_system_account :: "key_pair_reference option"

definition operator_get_conditions :: "operator_status \<Rightarrow> conditions" where
  "operator_get_conditions os = st_conditions (ops_status os)"

definition operator_set_conditions :: "conditions \<Rightarrow> operator_status \<Rightarrow> operator_status" where
  "operator_set_conditions cs os = os\<lparr>ops_status := (ops_status os)\<lparr>st_conditions := cs\<rparr>\<rparr>"

record operator =
  op_gvk :: gvk
  op_meta :: object_meta
  op_spec :: operator_spec
  op_status :: operator_status

definition operator_get_status :: "operator \<Rightarrow> status" where
  "operator_get_status o' = ops_status (op_status o')"

definition operator_get_key_pair :: "operator \<Rightarrow> key_pair option" where
  "operator_get_key_pair o' = ops_key_pair (op_status o')"

section \<open>Account\<close>

record account_import =
  imp_name :: string
  imp_subject :: string
  imp_account :: string
  imp_token :: string
  imp_to :: string
  imp_type :: string

record account_service_latency =
  asl_sampling :: int
  asl_results :: string

record account_export =
  exp_name :: string
  exp_subject :: string
  exp_type :: string
  exp_token_req :: bool
  exp_response_type :: string
  exp_service_latency :: "account_service_latency option"
  exp_account_token_position :: nat

record nats_limits =
  nl_subs :: "int option"
  nl_data :: "int option"
  nl_payload :: "int option"

record account_limits =
  al_imports :: "int option"
  al_exports :: "int option"
  al_wildcard_exports :: "bool option"
  al_disallow_bearer :: bool
  al_conn :: "int option"
  al_leaf_node_conn :: "int option"

record jetstream_limits =
  js_memory_storage :: int
  js_disk_storage :: int
  js_streams :: int
  js_consumer :: int
  js_max_ack_pending :: int
  js_memory_max_stream_bytes :: int
  js_disk_max_stream_bytes :: int
  js_max_bytes_required :: bool

record operator_limits =
  ol_nats :: nats_limits
  ol_account :: account_limits
  ol_jetstream :: jetstream_limits

record account_spec =
  acc_issuer :: issuer_reference
  users_namespace_selector :: "label_selector option"
  users_selector :: "label_selector option"
  acc_jwt_secret_name :: string
  acc_seed_secret_name :: string
  acc_signing_keys_selector :: "label_selector option"
  acc_imports :: "account_import list"
  acc_exports :: "account_export list"
  acc_limits :: "operator_limits option"

record account_status =
  accs_status :: status
  accs_key_pair :: "key_pair option"
  accs_signing_keys :: "signing_key_embedded_status list"
  accs_operator_ref :: "inferred_object_reference option"

definition account_get_conditions :: "account_status \<Rightarrow> conditions" where
  "account_get_conditions s = get_conditions (accs_status s)"

definition account_set_conditions :: "conditions \<Rightarrow> account_status \<Rightarrow> account_status" where
  "account_set_conditions cs s = s\<lparr>accs_status := set_conditions cs (accs_status s)\<rparr>"

record operator_ref =
  oref_name :: string
  oref_namespace :: string

record account =
  acc_gvk :: gvk
  acc_meta :: object_meta
  acc_spec :: account_spec
  acc_status :: account_status

definition account_get_status :: "account \<Rightarrow> status" where
  "account_get_status a = accs_status (acc_status a)"

definition account_get_key_pair :: "account \<Rightarrow> key_pair option" where
  "account_get_key_pair a = accs_key_pair (acc_status a)"

section \<open>User\<close>

record permission =
  perm_allow :: "string list"
  perm_deny :: "string list"

text \<open>\<open>TTL\<close> is a \<open>metav1.Duration\<close>, here its nanoseconds.\<close>

record resp_permission =
  resp_max_msgs :: int
  resp_ttl :: int

record user_permissions =
  up_pub :: permission
  up_sub :: permission
  up_resp :: "resp_permission option"

record start_end_time =
  set_start :: string
  set_end :: string

record user_limits =
  ul_nats_limits :: nats_limits
  ul_src :: "string list"
  ul_times :: "start_end_time list"
  ul_locale :: string

record user_spec =
  usr_issuer :: issuer_reference
  usr_jwt_secret_name :: string
  usr_seed_secret_name :: string
  usr_credentials_secret_name :: string
  usr_permissions :: "user_permissions option"
  usr_limits :: user_limits
  usr_bearer_token :: "bool option"

record user_status =
  usrs_status :: status
  usrs_key_pair :: "key_pair option"
  usrs_account_ref :: "inferred_object_reference option"

definition user_get_conditions :: "user_status \<Rightarrow> conditions" where
  "user_get_conditions s = st_conditions (usrs_status s)"

definition user_set_conditions :: "conditions \<Rightarrow> user_status \<Rightarrow> user_status" where
  "user_set_conditions cs s = s\<lparr>usrs_status := (usrs_status s)\<lparr>st_conditions := cs\<rparr>\<rparr>"

record user =
  usr_gvk :: gvk
  usr_meta :: object_meta
  usr_spec :: user_spec
  usr_status :: user_status

section \<open>SigningKey\<close>

record signing_key_spec =
  sk_seed_secret_name :: string
  sk_owner_ref :: signing_key_owner_reference

record signing_key_status =
  sks_status :: status
  sks_key_pair :: "key_pair option"
  sks_owner_ref :: "typed_object_reference option"

definition signing_key_get_conditions :: "signing_key_status \<Rightarrow> conditions" where
  "signing_key_get_conditions s = get_conditions (sks_status s)"

definition signing_key_set_conditions :: "conditions \<Rightarrow> signing_key_status \<Rightarrow> signing_key_status" where
  "signing_key_set_conditions cs s = s\<lparr>sks_status := set_conditions cs (sks_status s)\<rparr>"

record signing_key =
  sk_gvk :: gvk
  sk_meta :: object_meta
  sk_spec :: signing_key_spec
  sk_status :: signing_key_status

definition signing_key_get_key_pair :: "signing_key \<Rightarrow> key_pair option" where
  "signing_key_get_key_pair s = sks_key_pair (sk_status s)"

definition signing_key_get_status :: "signing_key \<Rightarrow> status" where
  "signing_key_get_status s = sks_status (sk_status s)"

section \<open>Lists\<close>

text \<open>\<open>metav1.ListMeta\<close> and the four list types, which differ in the type of the items.\<close>

record list_meta =
  lm_resource_version :: string
  lm_continue :: string
  lm_remaining_item_count :: "int option"

record 'a resource_list =
  rl_gvk :: gvk
  rl_meta :: list_meta
  rl_items :: "'a list"

type_synonym account_list = "account resource_list"
type_synonym operator_list = "operator resource_list"
type_synonym signing_key_list = "signing_key resource_list"
type_synonym user_list = "user resource_list"

section \<open>Zero values\<close>

text \<open>What \<open>&v1alpha1.Account{}\<close> and the like point to: every field has the zero value of its type.\<close>

definition zero_gvk :: gvk where
  "zero_gvk = \<lparr>gvk_group = [], gvk_version = [], gvk_kind = []\<rparr>"

definition zero_status :: status where
  "zero_status = \<lparr>st_conditions = []\<rparr>"

definition zero_issuer :: issuer_reference where
  "zero_issuer = \<lparr>issuer_ref = \<lparr>tor_api_version = [], tor_kind = [], tor_name = [], tor_namespace = [],
     tor_uid = []\<rparr>\<rparr>"

definition zero_operator :: operator where
  "zero_operator =
     \<lparr>op_gvk = zero_gvk, op_meta = empty_meta,
      op_spec = \<lparr>op_jwt_secret_name = [], op_seed_secret_name = [], accounts_namespace_selector = None,
        accounts_selector = None, op_signing_keys_selector = None, system_account_ref = [],
        op_tls_config = None, account_server_url = [], operator_service_urls = []\<rparr>,
      op_status = \<lparr>ops_status = zero_status, ops_key_pair = None, ops_signing_keys = [],
        ops_resolved_system_account = None\<rparr>\<rparr>"

definition zero_account :: account where
  "zero_account =
     \<lparr>acc_gvk = zero_gvk, acc_meta = empty_meta,
      acc_spec = \<lparr>acc_issuer = zero_issuer, users_namespace_selector = None, users_selector = None,
        acc_jwt_secret_name = [], acc_seed_secret_name = [], acc_signing_keys_selector = None,
        acc_imports = [], acc_exports = [], acc_limits = None\<rparr>,
      acc_status = \<lparr>accs_status = zero_status, accs_key_pair = None, accs_signing_keys = [],
        accs_operator_ref = None\<rparr>\<rparr>"

definition zero_signing_key :: signing_key where
  "zero_signing_key =
     \<lparr>sk_gvk = zero_gvk, sk_meta = empty_meta,
      sk_spec = \<lparr>sk_seed_secret_name = [],
        sk_owner_ref = \<lparr>sko_api_version = [], sko_kind = [], sko_name = []\<rparr>\<rparr>,
      sk_status = \<lparr>sks_status = zero_status, sks_key_pair = None, sks_owner_ref = None\<rparr>\<rparr>"

definition zero_user :: user where
  "zero_user =
     \<lparr>usr_gvk = zero_gvk, usr_meta = empty_meta,
      usr_spec = \<lparr>usr_issuer = zero_issuer, usr_jwt_secret_name = [], usr_seed_secret_name = [],
        usr_credentials_secret_name = [], usr_permissions = None,
        usr_limits = \<lparr>ul_nats_limits = \<lparr>nl_subs = None, nl_data = None, nl_payload = None\<rparr>, ul_src = [],
          ul_times = [], ul_locale = []\<rparr>,
        usr_bearer_token = None\<rparr>,
      usr_status = \<lparr>usrs_status = zero_status, usrs_key_pair = None, usrs_account_ref = None\<rparr>\<rparr>"

definition zero_list :: "'a resource_list" where
  "zero_list = \<lparr>rl_gvk = zero_gvk,
     rl_meta = \<lparr>lm_resource_version = [], lm_continue = [], lm_remaining_item_count = None\<rparr>, rl_items = []\<rparr>"

section \<open>The interfaces the controllers see\<close>

text \<open>
  \<open>client.Object\<close>: one of the four resources or a Kubernetes object of another type, of which
  only the metadata and the type matter.
\<close>

datatype client_object =
    ObjOperator operator
  | ObjAccount account
  | ObjSigningKey signing_key
  | ObjUser user
  | ObjOther gvk object_meta

fun object_get_meta :: "client_object \<Rightarrow> object_meta" where
  "object_get_meta (ObjOperator o') = op_meta o'"
| "object_get_meta (ObjAccount a) = acc_meta a"
| "object_get_meta (ObjSigningKey s) = sk_meta s"
| "object_get_meta (ObjUser u) = usr_meta u"
| "object_get_meta (ObjOther g m) = m"

fun object_get_gvk :: "client_object \<Rightarrow> gvk" where
  "object_get_gvk (ObjOperator o') = op_gvk o'"
| "object_get_gvk (ObjAccount a) = acc_gvk a"
| "object_get_gvk (ObjSigningKey s) = sk_gvk s"
| "object_get_gvk (ObjUser u) = usr_gvk u"
| "object_get_gvk (ObjOther g m) = g"

text \<open>The name \<open>%T\<close> prints for the object.\<close>

fun object_type :: "client_object \<Rightarrow> string" where
  "object_type (ObjOperator _) = ''*v1alpha1.Operator''"
| "object_type (ObjAccount _) = ''*v1alpha1.Account''"
| "object_type (ObjSigningKey _) = ''*v1alpha1.SigningKey''"
| "object_type (ObjUser _) = ''*v1alpha1.User''"
| "object_type (ObjOther g _) = ''*'' @ gvk_kind g"

text \<open>\<open>KeyPairable\<close>: the three resources that can issue JWTs.\<close>

datatype key_pairable =
    KPOperator operator
  | KPAccount account
  | KPSigningKey signing_key

fun key_pairable_object :: "key_pairable \<Rightarrow> client_object" where
  "key_pairable_object (KPOperator o') = ObjOperator o'"
| "key_pairable_object (KPAccount a) = ObjAccount a"
| "key_pairable_object (KPSigningKey s) = ObjSigningKey s"

fun as_key_pairable :: "client_object \<Rightarrow> key_pairable option" where
  "as_key_pairable (ObjOperator o') = Some (KPOperator o')"
| "as_key_pairable (ObjAccount a) = Some (KPAccount a)"
| "as_key_pairable (ObjSigningKey s) = Some (KPSigningKey s)"
| "as_key_pairable _ = None"

fun get_key_pair :: "key_pairable \<Rightarrow> key_pair option" where
  "get_key_pair (KPOperator o') = operator_get_key_pair o'"
| "get_key_pair (KPAccount a) = account_get_key_pair a"
| "get_key_pair (KPSigningKey s) = signing_key_get_key_pair s"

fun get_status :: "key_pairable \<Rightarrow> status" where
  "get_status (KPOperator o') = operator_get_status o'"
| "get_status (KPAccount a) = account_get_status a"
| "get_status (KPSigningKey s) = signing_key_get_status s"

abbreviation get_meta :: "key_pairable \<Rightarrow> object_meta" where
  "get_meta k \<equiv> object_get_meta (key_pairable_object k)"

end
