(* ===== verification/Lifecycle.thy ===== *)
theory Lifecycle
  imports Happiness Api_Types
begin

text \<open>
  The lifecycle methods of the four statuses (operator_lifecycle.go, account_lifecycle.go,
  user_lifecycle.go, signingkey_lifecycle.go). Each method sets or clears a field of its status and
  then marks a condition through the condition manager; a method takes and returns the status
  together with the clock.

  \<open>conditions_accessor\<close> is the interface \<open>apis.ConditionsAccessor\<close>, \<open>status_lifecycle\<close> the
  contract of a lifecycle: which field backs which condition. Its client proves once that a
  status in use always has the fields its True conditions promise, and that a ready status has all
  of them; the four resources interpret it.
\<close>

section \<open>The accessor\<close>

text \<open>\<open>conditionSet.Manage(status)\<close> followed by an operation of the manager.\<close>

definition manage ::
  "('s \<Rightarrow> conditions) \<Rightarrow> (conditions \<Rightarrow> 's \<Rightarrow> 's) \<Rightarrow> (conditions \<times> 'c \<Rightarrow> conditions \<times> 'c)
     \<Rightarrow> 's \<times> 'c \<Rightarrow> 's \<times> 'c" where
  "manage get put f = (\<lambda>(s, k). case f (get s, k) of (cs, k') \<Rightarrow> (put cs s, k'))"

locale conditions_accessor =
  fixes get :: "'s \<Rightarrow> conditions"
    and put :: "conditions \<Rightarrow> 's \<Rightarrow> 's"
  assumes get_put [simp]: "get (put cs s) = cs"
    and put_get [simp]: "put (get s) s = s"
    and put_put [simp]: "put cs (put cs' s) = put cs s"
begin

lemma get_manage [simp]: "get (fst (manage get put f (s, k))) = fst (f (get s, k))"
  by (simp add: manage_def split: prod.split)

lemma clock_manage: "snd (manage get put f (s, k)) = snd (f (get s, k))"
  by (simp add: manage_def split: prod.split)

lemma manage_put: "fst (manage get put f (s, k)) = put (fst (f (get s, k))) s"
  by (simp add: manage_def split: prod.split)

lemma manage_id: "(\<And>st. f st = st) \<Longrightarrow> manage get put f (s, k) = (s, k)"
  by (simp add: manage_def)

end

section \<open>Condition types and condition sets\<close>

definition KeyPairableConditionSeedSecretReady :: condition_type where
  "KeyPairableConditionSeedSecretReady = ''SeedSecretReady''"

definition OperatorConditionReady :: condition_type where "OperatorConditionReady = ConditionReady"
definition OperatorConditionSystemAccountResolved :: condition_type where "OperatorConditionSystemAccountResolved = ''SystemAccountResolved''"
definition OperatorConditionSigningKeysUpdated :: condition_type where "OperatorConditionSigningKeysUpdated = ''SigningKeysUpdated''"
definition OperatorConditionJWTSecretReady :: condition_type where "OperatorConditionJWTSecretReady = ''JWTSecretReady''"
definition OperatorConditionSeedSecretReady :: condition_type where "OperatorConditionSeedSecretReady = ''SeedSecretReady''"

definition operator_condition_set :: condition_set where
  "operator_condition_set = new_living_condition_set [
     OperatorConditionReady,
     KeyPairableConditionSeedSecretReady,
     OperatorConditionSystemAccountResolved,
     OperatorConditionSigningKeysUpdated,
     OperatorConditionJWTSecretReady,
     OperatorConditionSeedSecretReady]"

lemmas operator_condition_defs =
  OperatorConditionReady_def OperatorConditionSystemAccountResolved_def OperatorConditionSigningKeysUpdated_def OperatorConditionJWTSecretReady_def OperatorConditionSeedSecretReady_def KeyPairableConditionSeedSecretReady_def

definition AccountConditionReady :: condition_type where "AccountConditionReady = ConditionReady"
definition AccountConditionOperatorResolved :: condition_type where "AccountConditionOperatorResolved = ''OperatorResolved''"
definition AccountConditionIssuerResolved :: condition_type where "AccountConditionIssuerResolved = ''IssuerResolved''"
definition AccountConditionSigningKeysUpdated :: condition_type where "AccountConditionSigningKeysUpdated = ''SigningKeysUpdated''"
definition AccountConditionJWTSecretReady :: condition_type where "AccountConditionJWTSecretReady = ''JWTSecretReady''"
definition AccountConditionJWTPushed :: condition_type where "AccountConditionJWTPushed = ''JWTPushed''"

definition account_condition_set :: condition_set where
  "account_condition_set = new_living_condition_set [
     AccountConditionReady,
     KeyPairableConditionSeedSecretReady,
     AccountConditionOperatorResolved,
     AccountConditionIssuerResolved,
     AccountConditionSigningKeysUpdated,
     AccountConditionJWTSecretReady,
     AccountConditionJWTPushed]"

lemmas account_condition_defs =
  AccountConditionReady_def AccountConditionOperatorResolved_def AccountConditionIssuerResolved_def AccountConditionSigningKeysUpdated_def AccountConditionJWTSecretReady_def AccountConditionJWTPushed_def KeyPairableConditionSeedSecretReady_def

definition UserConditionReady :: condition_type where "UserConditionReady = ConditionReady"
definition UserConditionAccountResolved :: condition_type where "UserConditionAccountResolved = ''AccountResolved''"
definition UserConditionIssuerResolved :: condition_type where "UserConditionIssuerResolved = ''IssuerResolved''"
definition UserConditionJWTSecretReady :: condition_type where "UserConditionJWTSecretReady = ''JWTSecretReady''"
definition UserConditionCredentialsSecretReady :: condition_type where "UserConditionCredentialsSecretReady = ''CredentialsSecretReady''"

definition user_condition_set :: condition_set where
  "user_condition_set = new_living_condition_set [
     UserConditionReady,
     KeyPairableConditionSeedSecretReady,
     UserConditionAccountResolved,
     UserConditionIssuerResolved,
     UserConditionJWTSecretReady,
     UserConditionCredentialsSecretReady]"

lemmas user_condition_defs =
  UserConditionReady_def UserConditionAccountResolved_def UserConditionIssuerResolved_def UserConditionJWTSecretReady_def UserConditionCredentialsSecretReady_def KeyPairableConditionSeedSecretReady_def

definition SigningKeyConditionReady :: condition_type where "SigningKeyConditionReady = ConditionReady"
definition SigningKeyConditionSeedSecretReady :: condition_type where "SigningKeyConditionSeedSecretReady = ''SeedSecretReady''"
definition SigningKeyConditionOwnerResolved :: condition_type where "SigningKeyConditionOwnerResolved = ''OwnerResolved''"

definition signing_key_condition_set :: condition_set where
  "signing_key_condition_set = new_living_condition_set [
     SigningKeyConditionReady,
     SigningKeyConditionSeedSecretReady,
     SigningKeyConditionOwnerResolved]"

lemmas signing_key_condition_defs =
  SigningKeyConditionReady_def SigningKeyConditionSeedSecretReady_def SigningKeyConditionOwnerResolved_def KeyPairableConditionSeedSecretReady_def

section \<open>Operator\<close>

definition operator_get_condition :: "condition_type \<Rightarrow> operator_status \<Rightarrow> condition option" where
  "operator_get_condition t s = get_condition t (operator_get_conditions s)"

definition operator_is_ready :: "operator_status \<Rightarrow> bool" where
  "operator_is_ready s = is_happy operator_condition_set (operator_get_conditions s)"

abbreviation operator_manage ::
  "(conditions \<times> 'c \<Rightarrow> conditions \<times> 'c) \<Rightarrow> operator_status \<times> 'c \<Rightarrow> operator_status \<times> 'c" where
  "operator_manage \<equiv> manage operator_get_conditions operator_set_conditions"

definition operator_initialize_conditions ::
  "('c \<Rightarrow> int \<times> 'c) \<Rightarrow> operator_status \<times> 'c \<Rightarrow> operator_status \<times> 'c" where
  "operator_initialize_conditions now = operator_manage (initialize_conditions now operator_condition_set)"

definition operator_mark_system_account_resolved ::
  "('c \<Rightarrow> int \<times> 'c) \<Rightarrow> key_pair_reference \<Rightarrow> operator_status \<times> 'c \<Rightarrow> operator_status \<times> 'c" where
  "operator_mark_system_account_resolved now v = (\<lambda>(s, k).
     operator_manage (mark_true now operator_condition_set OperatorConditionSystemAccountResolved)
       (s\<lparr>ops_resolved_system_account := Some v\<rparr>, k))"

definition operator_mark_system_account_resolve_failed ::
  "('c \<Rightarrow> int \<times> 'c) \<Rightarrow> string \<Rightarrow> string \<Rightarrow> fmt_arg list \<Rightarrow> operator_status \<times> 'c \<Rightarrow> operator_status \<times> 'c" where
  "operator_mark_system_account_resolve_failed now reason f as = (\<lambda>(s, k).
     operator_manage (mark_false now operator_condition_set OperatorConditionSystemAccountResolved reason f as)
       (s\<lparr>ops_resolved_system_account := None\<rparr>, k))"

definition operator_mark_system_account_resolve_unknown ::
  "('c \<Rightarrow> int \<times> 'c) \<Rightarrow> string \<Rightarrow> string \<Rightarrow> fmt_arg list \<Rightarrow> operator_status \<times> 'c \<Rightarrow> operator_status \<times> 'c" where
  "operator_mark_system_account_resolve_unknown now reason f as = (\<lambda>(s, k).
     operator_manage (mark_unknown now operator_condition_set OperatorConditionSystemAccountResolved reason f as)
       (s\<lparr>ops_resolved_system_account := None\<rparr>, k))"

definition operator_mark_signing_keys_updated ::
  "('c \<Rightarrow> int \<times> 'c) \<Rightarrow> signing_key_embedded_status list \<Rightarrow> operator_status \<times> 'c \<Rightarrow> operator_status \<times> 'c" where
  "operator_mark_signing_keys_updated now sks = (\<lambda>(s, k).
     operator_manage (mark_true_with_reason now operator_condition_set OperatorConditionSigningKeysUpdated
         OperatorConditionSigningKeysUpdated ''Found %d signing keys'' [AInt (int (length sks))])
       (s\<lparr>ops_signing_keys := sks\<rparr>, k))"

definition operator_mark_signing_keys_update_failed ::
  "('c \<Rightarrow> int \<times> 'c) \<Rightarrow> string \<Rightarrow> string \<Rightarrow> fmt_arg list \<Rightarrow> operator_status \<times> 'c \<Rightarrow> operator_status \<times> 'c" where
  "operator_mark_signing_keys_update_failed now reason f as = (\<lambda>(s, k).
     operator_manage (mark_false now operator_condition_set OperatorConditionSigningKeysUpdated reason f as)
       (s\<lparr>ops_signing_keys := []\<rparr>, k))"

definition operator_mark_signing_keys_update_unknown ::
  "('c \<Rightarrow> int \<times> 'c) \<Rightarrow> string \<Rightarrow> string \<Rightarrow> fmt_arg list \<Rightarrow> operator_status \<times> 'c \<Rightarrow> operator_status \<times> 'c" where
  "operator_mark_signing_keys_update_unknown now reason f as = (\<lambda>(s, k).
     operator_manage (mark_unknown now operator_condition_set OperatorConditionSigningKeysUpdated reason f as)
       (s\<lparr>ops_signing_keys := []\<rparr>, k))"

definition operator_mark_jwt_secret_ready ::
  "('c \<Rightarrow> int \<times> 'c) \<Rightarrow> operator_status \<times> 'c \<Rightarrow> operator_status \<times> 'c" where
  "operator_mark_jwt_secret_ready now = operator_manage (mark_true now operator_condition_set OperatorConditionJWTSecretReady)"

definition operator_mark_jwt_secret_failed ::
  "('c \<Rightarrow> int \<times> 'c) \<Rightarrow> string \<Rightarrow> string \<Rightarrow> fmt_arg list \<Rightarrow> operator_status \<times> 'c \<Rightarrow> operator_status \<times> 'c" where
  "operator_mark_jwt_secret_failed now reason f as =
     operator_manage (mark_false now operator_condition_set OperatorConditionJWTSecretReady reason f as)"

definition operator_mark_jwt_secret_unknown ::
  "('c \<Rightarrow> int \<times> 'c) \<Rightarrow> string \<Rightarrow> string \<Rightarrow> fmt_arg list \<Rightarrow> operator_status \<times> 'c \<Rightarrow> operator_status \<times> 'c" where
  "operator_mark_jwt_secret_unknown now reason f as =
     operator_manage (mark_unknown now operator_condition_set OperatorConditionJWTSecretReady reason f as)"

definition operator_mark_seed_secret_ready ::
  "('c \<Rightarrow> int \<times> 'c) \<Rightarrow> key_pair \<Rightarrow> operator_status \<times> 'c \<Rightarrow> operator_status \<times> 'c" where
  "operator_mark_seed_secret_ready now v = (\<lambda>(s, k).
     operator_manage (mark_true now operator_condition_set OperatorConditionSeedSecretReady)
       (s\<lparr>ops_key_pair := Some v\<rparr>, k))"

definition operator_mark_seed_secret_failed ::
  "('c \<Rightarrow> int \<times> 'c) \<Rightarrow> string \<Rightarrow> string \<Rightarrow> fmt_arg list \<Rightarrow> operator_status \<times> 'c \<Rightarrow> operator_status \<times> 'c" where
  "operator_mark_seed_secret_failed now reason f as = (\<lambda>(s, k).
     operator_manage (mark_false now operator_condition_set OperatorConditionSeedSecretReady reason f as)
       (s\<lparr>ops_key_pair := None\<rparr>, k))"

definition operator_mark_seed_secret_unknown ::
  "('c \<Rightarrow> int \<times> 'c) \<Rightarrow> string \<Rightarrow> string \<Rightarrow> fmt_arg list \<Rightarrow> operator_status \<times> 'c \<Rightarrow> operator_status \<times> 'c" where
  "operator_mark_seed_secret_unknown now reason f as = (\<lambda>(s, k).
     operator_manage (mark_unknown now operator_condition_set OperatorConditionSeedSecretReady reason f as)
       (s\<lparr>ops_key_pair := None\<rparr>, k))"

text \<open>The methods as calls, for the runs of a status below.\<close>

datatype operator_method =
    OperatorMarkSystemAccountResolved key_pair_reference
  | OperatorMarkSystemAccountResolveFailed string string "fmt_arg list"
  | OperatorMarkSystemAccountResolveUnknown string string "fmt_arg list"
  | OperatorMarkSigningKeysUpdated "signing_key_embedded_status list"
  | OperatorMarkSigningKeysUpdateFailed string string "fmt_arg list"
  | OperatorMarkSigningKeysUpdateUnknown string string "fmt_arg list"
  | OperatorMarkJwtSecretReady
  | OperatorMarkJwtSecretFailed string string "fmt_arg list"
  | OperatorMarkJwtSecretUnknown string string "fmt_arg list"
  | OperatorMarkSeedSecretReady key_pair
  | OperatorMarkSeedSecretFailed string string "fmt_arg list"
  | OperatorMarkSeedSecretUnknown string string "fmt_arg list"

fun operator_call ::
  "('c \<Rightarrow> int \<times> 'c) \<Rightarrow> operator_method \<Rightarrow> operator_status \<times> 'c \<Rightarrow> operator_status \<times> 'c" where
  "operator_call now (OperatorMarkSystemAccountResolved v) = operator_mark_system_account_resolved now v"
| "operator_call now (OperatorMarkSystemAccountResolveFailed reason f as) = operator_mark_system_account_resolve_failed now reason f as"
| "operator_call now (OperatorMarkSystemAccountResolveUnknown reason f as) = operator_mark_system_account_resolve_unknown now reason f as"
| "operator_call now (OperatorMarkSigningKeysUpdated sks) = operator_mark_signing_keys_updated now sks"
| "operator_call now (OperatorMarkSigningKeysUpdateFailed reason f as) = operator_mark_signing_keys_update_failed now reason f as"
| "operator_call now (OperatorMarkSigningKeysUpdateUnknown reason f as) = operator_mark_signing_keys_update_unknown now reason f as"
| "operator_call now OperatorMarkJwtSecretReady = operator_mark_jwt_secret_ready now"
| "operator_call now (OperatorMarkJwtSecretFailed reason f as) = operator_mark_jwt_secret_failed now reason f as"
| "operator_call now (OperatorMarkJwtSecretUnknown reason f as) = operator_mark_jwt_secret_unknown now reason f as"
| "operator_call now (OperatorMarkSeedSecretReady v) = operator_mark_seed_secret_ready now v"
| "operator_call now (OperatorMarkSeedSecretFailed reason f as) = operator_mark_seed_secret_failed now reason f as"
| "operator_call now (OperatorMarkSeedSecretUnknown reason f as) = operator_mark_seed_secret_unknown now reason f as"

lemmas operator_method_defs =
  operator_mark_system_account_resolved_def
  operator_mark_system_account_resolve_failed_def
  operator_mark_system_account_resolve_unknown_def
  operator_mark_signing_keys_updated_def
  operator_mark_signing_keys_update_failed_def
  operator_mark_signing_keys_update_unknown_def
  operator_mark_jwt_secret_ready_def
  operator_mark_jwt_secret_failed_def
  operator_mark_jwt_secret_unknown_def
  operator_mark_seed_secret_ready_def
  operator_mark_seed_secret_failed_def
  operator_mark_seed_secret_unknown_def

section \<open>Account\<close>

definition account_get_condition :: "condition_type \<Rightarrow> account_status \<Rightarrow> condition option" where
  "account_get_condition t s = get_condition t (account_get_conditions s)"

definition account_is_ready :: "account_status \<Rightarrow> bool" where
  "account_is_ready s = is_happy account_condition_set (account_get_conditions s)"

abbreviation account_manage ::
  "(conditions \<times> 'c \<Rightarrow> conditions \<times> 'c) \<Rightarrow> account_status \<times> 'c \<Rightarrow> account_status \<times> 'c" where
  "account_manage \<equiv> manage account_get_conditions account_set_conditions"

definition account_initialize_conditions ::
  "('c \<Rightarrow> int \<times> 'c) \<Rightarrow> account_status \<times> 'c \<Rightarrow> account_status \<times> 'c" where
  "account_initialize_conditions now = account_manage (initialize_conditions now account_condition_set)"

definition account_mark_operator_resolved ::
  "('c \<Rightarrow> int \<times> 'c) \<Rightarrow> inferred_object_reference \<Rightarrow> account_status \<times> 'c \<Rightarrow> account_status \<times> 'c" where
  "account_mark_operator_resolved now v = (\<lambda>(s, k).
     account_manage (mark_true now account_condition_set AccountConditionOperatorResolved)
       (s\<lparr>accs_operator_ref := Some v\<rparr>, k))"

definition account_mark_operator_resolve_failed ::
  "('c \<Rightarrow> int \<times> 'c) \<Rightarrow> string \<Rightarrow> string \<Rightarrow> fmt_arg list \<Rightarrow> account_status \<times> 'c \<Rightarrow> account_status \<times> 'c" where
  "account_mark_operator_resolve_failed now reason f as = (\<lambda>(s, k).
     account_manage (mark_false now account_condition_set AccountConditionOperatorResolved reason f as)
       (s\<lparr>accs_operator_ref := None\<rparr>, k))"

definition account_mark_operator_resolve_unknown ::
  "('c \<Rightarrow> int \<times> 'c) \<Rightarrow> string \<Rightarrow> string \<Rightarrow> fmt_arg list \<Rightarrow> account_status \<times> 'c \<Rightarrow> account_status \<times> 'c" where
  "account_mark_operator_resolve_unknown now reason f as = (\<lambda>(s, k).
     account_manage (mark_unknown now account_condition_set AccountConditionOperatorResolved reason f as)
       (s\<lparr>accs_operator_ref := None\<rparr>, k))"

definition account_mark_issuer_resolved ::
  "('c \<Rightarrow> int \<times> 'c) \<Rightarrow> account_status \<times> 'c \<Rightarrow> account_status \<times> 'c" where
  "account_mark_issuer_resolved now = account_manage (mark_true now account_condition_set AccountConditionIssuerResolved)"

definition account_mark_issuer_resolve_failed ::
  "('c \<Rightarrow> int \<times> 'c) \<Rightarrow> string \<Rightarrow> string \<Rightarrow> fmt_arg list \<Rightarrow> account_status \<times> 'c \<Rightarrow> account_status \<times> 'c" where
  "account_mark_issuer_resolve_failed now reason f as =
     account_manage (mark_false now account_condition_set AccountConditionIssuerResolved reason f as)"

definition account_mark_issuer_resolve_unknown ::
  "('c \<Rightarrow> int \<times> 'c) \<Rightarrow> string \<Rightarrow> string \<Rightarrow> fmt_arg list \<Rightarrow> account_status \<times> 'c \<Rightarrow> account_status \<times> 'c" where
  "account_mark_issuer_resolve_unknown now reason f as =
     account_manage (mark_unknown now account_condition_set AccountConditionIssuerResolved reason f as)"

definition account_mark_signing_keys_updated ::
  "('c \<Rightarrow> int \<times> 'c) \<Rightarrow> signing_key_embedded_status list \<Rightarrow> account_status \<times> 'c \<Rightarrow> account_status \<times> 'c" where
  "account_mark_signing_keys_updated now sks = (\<lambda>(s, k).
     account_manage (mark_true_with_reason now account_condition_set AccountConditionSigningKeysUpdated
         ''Signing keys updated'' ''Found %d signing keys'' [AInt (int (length sks))])
       (s\<lparr>accs_signing_keys := sks\<rparr>, k))"

definition account_mark_signing_keys_update_failed ::
  "('c \<Rightarrow> int \<times> 'c) \<Rightarrow> string \<Rightarrow> string \<Rightarrow> fmt_arg list \<Rightarrow> account_status \<times> 'c \<Rightarrow> account_status \<times> 'c" where
  "account_mark_signing_keys_update_failed now reason f as = (\<lambda>(s, k).
     account_manage (mark_false now account_condition_set AccountConditionSigningKeysUpdated reason f as)
       (s\<lparr>accs_signing_keys := []\<rparr>, k))"

definition account_mark_signing_keys_update_unknown ::
  "('c \<Rightarrow> int \<times> 'c) \<Rightarrow> string \<Rightarrow> string \<Rightarrow> fmt_arg list \<Rightarrow> account_status \<times> 'c \<Rightarrow> account_status \<times> 'c" where
  "account_mark_signing_keys_update_unknown now reason f as = (\<lambda>(s, k).
     account_manage (mark_unknown now account_condition_set AccountConditionSigningKeysUpdated reason f as)
       (s\<lparr>accs_signing_keys := []\<rparr>, k))"

definition account_mark_jwt_secret_ready ::
  "('c \<Rightarrow> int \<times> 'c) \<Rightarrow> account_status \<times> 'c \<Rightarrow> account_status \<times> 'c" where
  "account_mark_jwt_secret_ready now = account_manage (mark_true now account_condition_set AccountConditionJWTSecretReady)"

definition account_mark_jwt_secret_failed ::
  "('c \<Rightarrow> int \<times> 'c) \<Rightarrow> string \<Rightarrow> string \<Rightarrow> fmt_arg list \<Rightarrow> account_status \<times> 'c \<Rightarrow> account_status \<times> 'c" where
  "account_mark_jwt_secret_failed now reason f as =
     account_manage (mark_false now account_condition_set AccountConditionJWTSecretReady reason f as)"

definition account_mark_jwt_secret_unknown ::
  "('c \<Rightarrow> int \<times> 'c) \<Rightarrow> string \<Rightarrow> string \<Rightarrow> fmt_arg list \<Rightarrow> account_status \<times> 'c \<Rightarrow> account_status \<times> 'c" where
  "account_mark_jwt_secret_unknown now reason f as =
     account_manage (mark_unknown now account_condition_set AccountConditionJWTSecretReady reason f as)"

definition account_mark_seed_secret_ready ::
  "('c \<Rightarrow> int \<times> 'c) \<Rightarrow> key_pair \<Rightarrow> account_status \<times> 'c \<Rightarrow> account_status \<times> 'c" where
  "account_mark_seed_secret_ready now v = (\<lambda>(s, k).
     account_manage (mark_true now account_condition_set KeyPairableConditionSeedSecretReady)
       (s\<lparr>accs_key_pair := Some v\<rparr>, k))"

definition account_mark_seed_secret_failed ::
  "('c \<Rightarrow> int \<times> 'c) \<Rightarrow> string \<Rightarrow> string \<Rightarrow> fmt_arg list \<Rightarrow> account_status \<times> 'c \<Rightarrow> account_status \<times> 'c" where
  "account_mark_seed_secret_failed now reason f as = (\<lambda>(s, k).
     account_manage (mark_false now account_condition_set KeyPairableConditionSeedSecretReady reason f as)
       (s\<lparr>accs_key_pair := None\<rparr>, k))"

definition account_mark_seed_secret_unknown ::
  "('c \<Rightarrow> int \<times> 'c) \<Rightarrow> string \<Rightarrow> string \<Rightarrow> fmt_arg list \<Rightarrow> account_status \<times> 'c \<Rightarrow> account_status \<times> 'c" where
  "account_mark_seed_secret_unknown now reason f as = (\<lambda>(s, k).
     account_manage (mark_unknown now account_condition_set KeyPairableConditionSeedSecretReady reason f as)
       (s\<lparr>accs_key_pair := None\<rparr>, k))"

definition account_mark_jwt_pushed ::
  "('c \<Rightarrow> int \<times> 'c) \<Rightarrow> account_status \<times> 'c \<Rightarrow> account_status \<times> 'c" where
  "account_mark_jwt_pushed now = account_manage (mark_true now account_condition_set AccountConditionJWTPushed)"

definition account_mark_jwt_push_failed ::
  "('c \<Rightarrow> int \<times> 'c) \<Rightarrow> string \<Rightarrow> string \<Rightarrow> fmt_arg list \<Rightarrow> account_status \<times> 'c \<Rightarrow> account_status \<times> 'c" where
  "account_mark_jwt_push_failed now reason f as =
     account_manage (mark_false now account_condition_set AccountConditionJWTPushed reason f as)"

definition account_mark_jwt_push_unknown ::
  "('c \<Rightarrow> int \<times> 'c) \<Rightarrow> string \<Rightarrow> string \<Rightarrow> fmt_arg list \<Rightarrow> account_status \<times> 'c \<Rightarrow> account_status \<times> 'c" where
  "account_mark_jwt_push_unknown now reason f as =
     account_manage (mark_unknown now account_condition_set AccountConditionJWTPushed reason f as)"

text \<open>The methods as calls, for the runs of a status below.\<close>

datatype account_method =
    AccountMarkOperatorResolved inferred_object_reference
  | AccountMarkOperatorResolveFailed string string "fmt_arg list"
  | AccountMarkOperatorResolveUnknown string string "fmt_arg list"
  | AccountMarkIssuerResolved
  | AccountMarkIssuerResolveFailed string string "fmt_arg list"
  | AccountMarkIssuerResolveUnknown string string "fmt_arg list"
  | AccountMarkSigningKeysUpdated "signing_key_embedded_status list"
  | AccountMarkSigningKeysUpdateFailed string string "fmt_arg list"
  | AccountMarkSigningKeysUpdateUnknown string string "fmt_arg list"
  | AccountMarkJwtSecretReady
  | AccountMarkJwtSecretFailed string string "fmt_arg list"
  | AccountMarkJwtSecretUnknown string string "fmt_arg list"
  | AccountMarkSeedSecretReady key_pair
  | AccountMarkSeedSecretFailed string string "fmt_arg list"
  | AccountMarkSeedSecretUnknown string string "fmt_arg list"
  | AccountMarkJwtPushed
  | AccountMarkJwtPushFailed string string "fmt_arg list"
  | AccountMarkJwtPushUnknown string string "fmt_arg list"

fun account_call ::
  "('c \<Rightarrow> int \<times> 'c) \<Rightarrow> account_method \<Rightarrow> account_status \<times> 'c \<Rightarrow> account_status \<times> 'c" where
  "account_call now (AccountMarkOperatorResolved v) = account_mark_operator_resolved now v"
| "account_call now (AccountMarkOperatorResolveFailed reason f as) = account_mark_operator_resolve_failed now reason f as"
| "account_call now (AccountMarkOperatorResolveUnknown reason f as) = account_mark_operator_resolve_unknown now reason f as"
| "account_call now AccountMarkIssuerResolved = account_mark_issuer_resolved now"
| "account_call now (AccountMarkIssuerResolveFailed reason f as) = account_mark_issuer_resolve_failed now reason f as"
| "account_call now (AccountMarkIssuerResolveUnknown reason f as) = account_mark_issuer_resolve_unknown now reason f as"
| "account_call now (AccountMarkSigningKeysUpdated sks) = account_mark_signing_keys_updated now sks"
| "account_call now (AccountMarkSigningKeysUpdateFailed reason f as) = account_mark_signing_keys_update_failed now reason f as"
| "account_call now (AccountMarkSigningKeysUpdateUnknown reason f as) = account_mark_signing_keys_update_unknown now reason f as"
| "account_call now AccountMarkJwtSecretReady = account_mark_jwt_secret_ready now"
| "account_call now (AccountMarkJwtSecretFailed reason f as) = account_mark_jwt_secret_failed now reason f as"
| "account_call now (AccountMarkJwtSecretUnknown reason f as) = account_mark_jwt_secret_unknown now reason f as"
| "account_call now (AccountMarkSeedSecretReady v) = account_mark_seed_secret_ready now v"
| "account_call now (AccountMarkSeedSecretFailed reason f as) = account_mark_seed_secret_failed now reason f as"
| "account_call now (AccountMarkSeedSecretUnknown reason f as) = account_mark_seed_secret_unknown now reason f as"
| "account_call now AccountMarkJwtPushed = account_mark_jwt_pushed now"
| "account_call now (AccountMarkJwtPushFailed reason f as) = account_mark_jwt_push_failed now reason f as"
| "account_call now (AccountMarkJwtPushUnknown reason f as) = account_mark_jwt_push_unknown now reason f as"

lemmas account_method_defs =
  account_mark_operator_resolved_def
  account_mark_operator_resolve_failed_def
  account_mark_operator_resolve_unknown_def
  account_mark_issuer_resolved_def
  account_mark_issuer_resolve_failed_def
  account_mark_issuer_resolve_unknown_def
  account_mark_signing_keys_updated_def
  account_mark_signing_keys_update_failed_def
  account_mark_signing_keys_update_unknown_def
  account_mark_jwt_secret_ready_def
  account_mark_jwt_secret_failed_def
  account_mark_jwt_secret_unknown_def
  account_mark_seed_secret_ready_def
  account_mark_seed_secret_failed_def
  account_mark_seed_secret_unknown_def
  account_mark_jwt_pushed_def
  account_mark_jwt_push_failed_def
  account_mark_jwt_push_unknown_def

section \<open>User\<close>

definition user_get_condition :: "condition_type \<Rightarrow> user_status \<Rightarrow> condition option" where
  "user_get_condition t s = get_condition t (user_get_conditions s)"

definition user_is_ready :: "user_status \<Rightarrow> bool" where
  "user_is_ready s = is_happy user_condition_set (user_get_conditions s)"

abbreviation user_manage ::
  "(conditions \<times> 'c \<Rightarrow> conditions \<times> 'c) \<Rightarrow> user_status \<times> 'c \<Rightarrow> user_status \<times> 'c" where
  "user_manage \<equiv> manage user_get_conditions user_set_conditions"

definition user_initialize_conditions ::
  "('c \<Rightarrow> int \<times> 'c) \<Rightarrow> user_status \<times> 'c \<Rightarrow> user_status \<times> 'c" where
  "user_initialize_conditions now = user_manage (initialize_conditions now user_condition_set)"

definition user_mark_account_resolved ::
  "('c \<Rightarrow> int \<times> 'c) \<Rightarrow> inferred_object_reference \<Rightarrow> user_status \<times> 'c \<Rightarrow> user_status \<times> 'c" where
  "user_mark_account_resolved now v = (\<lambda>(s, k).
     user_manage (mark_true now user_condition_set UserConditionAccountResolved)
       (s\<lparr>usrs_account_ref := Some v\<rparr>, k))"

definition user_mark_account_resolve_failed ::
  "('c \<Rightarrow> int \<times> 'c) \<Rightarrow> string \<Rightarrow> string \<Rightarrow> fmt_arg list \<Rightarrow> user_status \<times> 'c \<Rightarrow> user_status \<times> 'c" where
  "user_mark_account_resolve_failed now reason f as = (\<lambda>(s, k).
     user_manage (mark_false now user_condition_set UserConditionAccountResolved reason f as)
       (s\<lparr>usrs_account_ref := None\<rparr>, k))"

definition user_mark_account_resolve_unknown ::
  "('c \<Rightarrow> int \<times> 'c) \<Rightarrow> string \<Rightarrow> string \<Rightarrow> fmt_arg list \<Rightarrow> user_status \<times> 'c \<Rightarrow> user_status \<times> 'c" where
  "user_mark_account_resolve_unknown now reason f as = (\<lambda>(s, k).
     user_manage (mark_unknown now user_condition_set UserConditionAccountResolved reason f as)
       (s\<lparr>usrs_account_ref := None\<rparr>, k))"

definition user_mark_issuer_resolved ::
  "('c \<Rightarrow> int \<times> 'c) \<Rightarrow> user_status \<times> 'c \<Rightarrow> user_status \<times> 'c" where
  "user_mark_issuer_resolved now = user_manage (mark_true now user_condition_set UserConditionIssuerResolved)"

definition user_mark_issuer_resolve_failed ::
  "('c \<Rightarrow> int \<times> 'c) \<Rightarrow> string \<Rightarrow> string \<Rightarrow> fmt_arg list \<Rightarrow> user_status \<times> 'c \<Rightarrow> user_status \<times> 'c" where
  "user_mark_issuer_resolve_failed now reason f as =
     user_manage (mark_false now user_condition_set UserConditionIssuerResolved reason f as)"

definition user_mark_issuer_resolve_unknown ::
  "('c \<Rightarrow> int \<times> 'c) \<Rightarrow> string \<Rightarrow> string \<Rightarrow> fmt_arg list \<Rightarrow> user_status \<times> 'c \<Rightarrow> user_status \<times> 'c" where
  "user_mark_issuer_resolve_unknown now reason f as =
     user_manage (mark_unknown now user_condition_set UserConditionIssuerResolved reason f as)"

definition user_mark_jwt_secret_ready ::
  "('c \<Rightarrow> int \<times> 'c) \<Rightarrow> user_status \<times> 'c \<Rightarrow> user_status \<times> 'c" where
  "user_mark_jwt_secret_ready now = user_manage (mark_true now user_condition_set UserConditionJWTSecretReady)"

definition user_mark_jwt_secret_failed ::
  "('c \<Rightarrow> int \<times> 'c) \<Rightarrow> string \<Rightarrow> string \<Rightarrow> fmt_arg list \<Rightarrow> user_status \<times> 'c \<Rightarrow> user_status \<times> 'c" where
  "user_mark_jwt_secret_failed now reason f as =
     user_manage (mark_false now user_condition_set UserConditionJWTSecretReady reason f as)"

definition user_mark_jwt_secret_unknown ::
  "('c \<Rightarrow> int \<times> 'c) \<Rightarrow> string \<Rightarrow> string \<Rightarrow> fmt_arg list \<Rightarrow> user_status \<times> 'c \<Rightarrow> user_status \<times> 'c" where
  "user_mark_jwt_secret_unknown now reason f as =
     user_manage (mark_unknown now user_condition_set UserConditionJWTSecretReady reason f as)"

definition user_mark_seed_secret_ready ::
  "('c \<Rightarrow> int \<times> 'c) \<Rightarrow> key_pair \<Rightarrow> user_status \<times> 'c \<Rightarrow> user_status \<times> 'c" where
  "user_mark_seed_secret_ready now v = (\<lambda>(s, k).
     user_manage (mark_true now user_condition_set KeyPairableConditionSeedSecretReady)
       (s\<lparr>usrs_key_pair := Some v\<rparr>, k))"

definition user_mark_seed_secret_failed ::
  "('c \<Rightarrow> int \<times> 'c) \<Rightarrow> string \<Rightarrow> string \<Rightarrow> fmt_arg list \<Rightarrow> user_status \<times> 'c \<Rightarrow> user_status \<times> 'c" where
  "user_mark_seed_secret_failed now reason f as = (\<lambda>(s, k).
     user_manage (mark_false now user_condition_set KeyPairableConditionSeedSecretReady reason f as)
       (s\<lparr>usrs_key_pair := None\<rparr>, k))"

definition user_mark_seed_secret_unknown ::
  "('c \<Rightarrow> int \<times> 'c) \<Rightarrow> string \<Rightarrow> string \<Rightarrow> fmt_arg list \<Rightarrow> user_status \<times> 'c \<Rightarrow> user_status \<times> 'c" where
  "user_mark_seed_secret_unknown now reason f as = (\<lambda>(s, k).
     user_manage (mark_unknown now user_condition_set KeyPairableConditionSeedSecretReady reason f as)
       (s\<lparr>usrs_key_pair := None\<rparr>, k))"

definition user_mark_credentials_secret_ready ::
  "('c \<Rightarrow> int \<times> 'c) \<Rightarrow> user_status \<times> 'c \<Rightarrow> user_status \<times> 'c" where
  "user_mark_credentials_secret_ready now = user_manage (mark_true now user_condition_set UserConditionCredentialsSecretReady)"

definition user_mark_credentials_secret_failed ::
  "('c \<Rightarrow> int \<times> 'c) \<Rightarrow> string \<Rightarrow> string \<Rightarrow> fmt_arg list \<Rightarrow> user_status \<times> 'c \<Rightarrow> user_status \<times> 'c" where
  "user_mark_credentials_secret_failed now reason f as =
     user_manage (mark_false now user_condition_set UserConditionCredentialsSecretReady reason f as)"

definition user_mark_credentials_secret_unknown ::
  "('c \<Rightarrow> int \<times> 'c) \<Rightarrow> string \<Rightarrow> string \<Rightarrow> fmt_arg list \<Rightarrow> user_status \<times> 'c \<Rightarrow> user_status \<times> 'c" where
  "user_mark_credentials_secret_unknown now reason f as =
     user_manage (mark_unknown now user_condition_set UserConditionCredentialsSecretReady reason f as)"

text \<open>The methods as calls, for the runs of a status below.\<close>

datatype user_method =
    UserMarkAccountResolved inferred_object_reference
  | UserMarkAccountResolveFailed string string "fmt_arg list"
  | UserMarkAccountResolveUnknown string string "fmt_arg list"
  | UserMarkIssuerResolved
  | UserMarkIssuerResolveFailed string string "fmt_arg list"
  | UserMarkIssuerResolveUnknown string string "fmt_arg list"
  | UserMarkJwtSecretReady
  | UserMarkJwtSecretFailed string string "fmt_arg list"
  | UserMarkJwtSecretUnknown string string "fmt_arg list"
  | UserMarkSeedSecretReady key_pair
  | UserMarkSeedSecretFailed string string "fmt_arg list"
  | UserMarkSeedSecretUnknown string string "fmt_arg list"
  | UserMarkCredentialsSecretReady
  | UserMarkCredentialsSecretFailed string string "fmt_arg list"
  | UserMarkCredentialsSecretUnknown string string "fmt_arg list"

fun user_call ::
  "('c \<Rightarrow> int \<times> 'c) \<Rightarrow> user_method \<Rightarrow> user_status \<times> 'c \<Rightarrow> user_status \<times> 'c" where
  "user_call now (UserMarkAccountResolved v) = user_mark_account_resolved now v"
| "user_call now (UserMarkAccountResolveFailed reason f as) = user_mark_account_resolve_failed now reason f as"
| "user_call now (UserMarkAccountResolveUnknown reason f as) = user_mark_account_resolve_unknown now reason f as"
| "user_call now UserMarkIssuerResolved = user_mark_issuer_resolved now"
| "user_call now (UserMarkIssuerResolveFailed reason f as) = user_mark_issuer_resolve_failed now reason f as"
| "user_call now (UserMarkIssuerResolveUnknown reason f as) = user_mark_issuer_resolve_unknown now reason f as"
| "user_call now UserMarkJwtSecretReady = user_mark_jwt_secret_ready now"
| "user_call now (UserMarkJwtSecretFailed reason f as) = user_mark_jwt_secret_failed now reason f as"
| "user_call now (UserMarkJwtSecretUnknown reason f as) = user_mark_jwt_secret_unknown now reason f as"
| "user_call now (UserMarkSeedSecretReady v) = user_mark_seed_secret_ready now v"
| "user_call now (UserMarkSeedSecretFailed reason f as) = user_mark_seed_secret_failed now reason f as"
| "user_call now (UserMarkSeedSecretUnknown reason f as) = user_mark_seed_secret_unknown now reason f as"
| "user_call now UserMarkCredentialsSecretReady = user_mark_credentials_secret_ready now"
| "user_call now (UserMarkCredentialsSecretFailed reason f as) = user_mark_credentials_secret_failed now reason f as"
| "user_call now (UserMarkCredentialsSecretUnknown reason f as) = user_mark_credentials_secret_unknown now reason f as"

lemmas user_method_defs =
  user_mark_account_resolved_def
  user_mark_account_resolve_failed_def
  user_mark_account_resolve_unknown_def
  user_mark_issuer_resolved_def
  user_mark_issuer_resolve_failed_def
  user_mark_issuer_resolve_unknown_def
  user_mark_jwt_secret_ready_def
  user_mark_jwt_secret_failed_def
  user_mark_jwt_secret_unknown_def
  user_mark_seed_secret_ready_def
  user_mark_seed_secret_failed_def
  user_mark_seed_secret_unknown_def
  user_mark_credentials_secret_ready_def
  user_mark_credentials_secret_failed_def
  user_mark_credentials_secret_unknown_def

section \<open>SigningKey\<close>

definition signing_key_get_condition :: "condition_type \<Rightarrow> signing_key_status \<Rightarrow> condition option" where
  "signing_key_get_condition t s = get_condition t (signing_key_get_conditions s)"

definition signing_key_is_ready :: "signing_key_status \<Rightarrow> bool" where
  "signing_key_is_ready s = is_happy signing_key_condition_set (signing_key_get_conditions s)"

abbreviation signing_key_manage ::
  "(conditions \<times> 'c \<Rightarrow> conditions \<times> 'c) \<Rightarrow> signing_key_status \<times> 'c \<Rightarrow> signing_key_status \<times> 'c" where
  "signing_key_manage \<equiv> manage signing_key_get_conditions signing_key_set_conditions"

definition signing_key_initialize_conditions ::
  "('c \<Rightarrow> int \<times> 'c) \<Rightarrow> signing_key_status \<times> 'c \<Rightarrow> signing_key_status \<times> 'c" where
  "signing_key_initialize_conditions now = signing_key_manage (initialize_conditions now signing_key_condition_set)"

definition signing_key_mark_seed_secret_ready ::
  "('c \<Rightarrow> int \<times> 'c) \<Rightarrow> string \<Rightarrow> string \<Rightarrow> signing_key_status \<times> 'c \<Rightarrow> signing_key_status \<times> 'c" where
  "signing_key_mark_seed_secret_ready now pk name = (\<lambda>(s, k).
     signing_key_manage (mark_true now signing_key_condition_set SigningKeyConditionSeedSecretReady)
       (s\<lparr>sks_key_pair := Some \<lparr>public_key = pk, seed_secret_name = name\<rparr>\<rparr>, k))"

definition signing_key_mark_seed_secret_failed ::
  "('c \<Rightarrow> int \<times> 'c) \<Rightarrow> string \<Rightarrow> string \<Rightarrow> fmt_arg list \<Rightarrow> signing_key_status \<times> 'c \<Rightarrow> signing_key_status \<times> 'c" where
  "signing_key_mark_seed_secret_failed now reason f as = (\<lambda>(s, k).
     signing_key_manage (mark_false now signing_key_condition_set SigningKeyConditionSeedSecretReady reason f as)
       (s\<lparr>sks_key_pair := None\<rparr>, k))"

definition signing_key_mark_seed_secret_unknown ::
  "('c \<Rightarrow> int \<times> 'c) \<Rightarrow> string \<Rightarrow> string \<Rightarrow> fmt_arg list \<Rightarrow> signing_key_status \<times> 'c \<Rightarrow> signing_key_status \<times> 'c" where
  "signing_key_mark_seed_secret_unknown now reason f as = (\<lambda>(s, k).
     signing_key_manage (mark_unknown now signing_key_condition_set SigningKeyConditionSeedSecretReady reason f as)
       (s\<lparr>sks_key_pair := None\<rparr>, k))"

definition signing_key_mark_owner_resolved ::
  "('c \<Rightarrow> int \<times> 'c) \<Rightarrow> typed_object_reference \<Rightarrow> signing_key_status \<times> 'c \<Rightarrow> signing_key_status \<times> 'c" where
  "signing_key_mark_owner_resolved now v = (\<lambda>(s, k).
     signing_key_manage (mark_true now signing_key_condition_set SigningKeyConditionOwnerResolved)
       (s\<lparr>sks_owner_ref := Some v\<rparr>, k))"

definition signing_key_mark_owner_resolve_failed ::
  "('c \<Rightarrow> int \<times> 'c) \<Rightarrow> string \<Rightarrow> string \<Rightarrow> fmt_arg list \<Rightarrow> signing_key_status \<times> 'c \<Rightarrow> signing_key_status \<times> 'c" where
  "signing_key_mark_owner_resolve_failed now reason f as = (\<lambda>(s, k).
     signing_key_manage (mark_false now signing_key_condition_set SigningKeyConditionOwnerResolved reason f as)
       (s\<lparr>sks_owner_ref := None\<rparr>, k))"

definition signing_key_mark_owner_resolve_unknown ::
  "('c \<Rightarrow> int \<times> 'c) \<Rightarrow> string \<Rightarrow> string \<Rightarrow> fmt_arg list \<Rightarrow> signing_key_status \<times> 'c \<Rightarrow> signing_key_status \<times> 'c" where
  "signing_key_mark_owner_resolve_unknown now reason f as = (\<lambda>(s, k).
     signing_key_manage (mark_unknown now signing_key_condition_set SigningKeyConditionOwnerResolved reason f as)
       (s\<lparr>sks_owner_ref := None\<rparr>, k))"

text \<open>The methods as calls, for the runs of a status below.\<close>

datatype signing_key_method =
    SigningKeyMarkSeedSecretReady string string
  | SigningKeyMarkSeedSecretFailed string string "fmt_arg list"
  | SigningKeyMarkSeedSecretUnknown string string "fmt_arg list"
  | SigningKeyMarkOwnerResolved typed_object_reference
  | SigningKeyMarkOwnerResolveFailed string string "fmt_arg list"
  | SigningKeyMarkOwnerResolveUnknown string string "fmt_arg list"

fun signing_key_call ::
  "('c \<Rightarrow> int \<times> 'c) \<Rightarrow> signing_key_method \<Rightarrow> signing_key_status \<times> 'c \<Rightarrow> signing_key_status \<times> 'c" where
  "signing_key_call now (SigningKeyMarkSeedSecretReady pk name) = signing_key_mark_seed_secret_ready now pk name"
| "signing_key_call now (SigningKeyMarkSeedSecretFailed reason f as) = signing_key_mark_seed_secret_failed now reason f as"
| "signing_key_call now (SigningKeyMarkSeedSecretUnknown reason f as) = signing_key_mark_seed_secret_unknown now reason f as"
| "signing_key_call now (SigningKeyMarkOwnerResolved v) = signing_key_mark_owner_resolved now v"
| "signing_key_call now (SigningKeyMarkOwnerResolveFailed reason f as) = signing_key_mark_owner_resolve_failed now reason f as"
| "signing_key_call now (SigningKeyMarkOwnerResolveUnknown reason f as) = signing_key_mark_owner_resolve_unknown now reason f as"

lemmas signing_key_method_defs =
  signing_key_mark_seed_secret_ready_def
  signing_key_mark_seed_secret_failed_def
  signing_key_mark_seed_secret_unknown_def
  signing_key_mark_owner_resolved_def
  signing_key_mark_owner_resolve_failed_def
  signing_key_mark_owner_resolve_unknown_def

end
