(* ===== verification/Result_Errors.thy ===== *)
theory Result_Errors
  imports Api_Types
begin

text \<open>
  internal/controller/accounts/errors.go and utils.go: how an error of a sub-reconciler decides
  the result of a reconciliation (\<open>as_result\<close>) and the condition it leaves behind
  (\<open>mark_condition\<close>). \<open>errors.Into\<close> of go-faster/errors is \<open>errors.As\<close>: it returns the
  outermost error of the wanted type in the chain of wrapped errors.
\<close>

section \<open>Searching the chain\<close>

fun into_result_error :: "error \<Rightarrow> (ctrl_result \<times> error) option" where
  "into_result_error (ErrorString _) = None"
| "into_result_error (WrapError _ e) = into_result_error e"
| "into_result_error (StatusError _ _) = None"
| "into_result_error (ConditionError _ _ e) = into_result_error e"
| "into_result_error (ResultError res e) = Some (res, e)"
| "into_result_error (MultiError e f) =
     (case into_result_error e of None \<Rightarrow> into_result_error f | Some r \<Rightarrow> Some r)"

fun into_condition_error :: "error \<Rightarrow> (bool \<times> string \<times> error) option" where
  "into_condition_error (ErrorString _) = None"
| "into_condition_error (WrapError _ e) = into_condition_error e"
| "into_condition_error (StatusError _ _) = None"
| "into_condition_error (ConditionError failure reason e) = Some (failure, reason, e)"
| "into_condition_error (ResultError _ e) = into_condition_error e"
| "into_condition_error (MultiError e f) =
     (case into_condition_error e of None \<Rightarrow> into_condition_error f | Some c \<Rightarrow> Some c)"

section \<open>Results\<close>

definition as_result :: "error option \<Rightarrow> ctrl_result \<times> error option" where
  "as_result err = (case err of
       None \<Rightarrow> (zero_result, None)
     | Some e \<Rightarrow>
         (case into_result_error e of
            Some (res, _) \<Rightarrow> (res, None)
          | None \<Rightarrow> (zero_result, Some e)))"

definition new_result_error :: "ctrl_result \<Rightarrow> error option \<Rightarrow> error option" where
  "new_result_error res err = map_option (ResultError res) err"

definition terminal_error :: "error \<Rightarrow> error" where
  "terminal_error e = ResultError zero_result e"

definition temporary_error :: "error \<Rightarrow> error" where
  "temporary_error e = ResultError requeue_result e"

section \<open>Conditions\<close>

definition condition_failed :: "string \<Rightarrow> string \<Rightarrow> fmt_arg list \<Rightarrow> error" where
  "condition_failed reason f as = ConditionError True reason (errorf f as)"

definition condition_unknown :: "string \<Rightarrow> string \<Rightarrow> fmt_arg list \<Rightarrow> error" where
  "condition_unknown reason f as = ConditionError False reason (errorf f as)"

text \<open>
  The method \<open>MarkCondition\<close> of \<open>*conditionError\<close> and the function of the same name. The error's
  text is passed as the format of the message, without arguments.
\<close>

definition condition_error_mark ::
  "bool \<times> string \<times> error \<Rightarrow> (string \<Rightarrow> string \<Rightarrow> fmt_arg list \<Rightarrow> 'm)
     \<Rightarrow> (string \<Rightarrow> string \<Rightarrow> fmt_arg list \<Rightarrow> 'm) \<Rightarrow> 'm" where
  "condition_error_mark c failure unknown = (case c of (fails, reason, e) \<Rightarrow>
     if fails then failure reason (error_text e) [] else unknown reason (error_text e) [])"

definition mark_condition ::
  "error \<Rightarrow> (string \<Rightarrow> string \<Rightarrow> fmt_arg list \<Rightarrow> 'm)
     \<Rightarrow> (string \<Rightarrow> string \<Rightarrow> fmt_arg list \<Rightarrow> 'm) \<Rightarrow> 'm" where
  "mark_condition err failure unknown =
     (case into_condition_error err of
        Some c \<Rightarrow> condition_error_mark c failure unknown
      | None \<Rightarrow> unknown ReasonUnknownError (error_text err) [])"

lemmas result_error_defs = terminal_error_def temporary_error_def condition_failed_def condition_unknown_def

section \<open>utils.go\<close>

definition errInternalNotFound :: error where
  "errInternalNotFound = ErrorString ''resource not found''"

definition is_equal_unordered :: "string list \<Rightarrow> string list \<Rightarrow> bool" where
  "is_equal_unordered s1 s2 =
     (if length s1 \<noteq> length s2 then False else list_all (\<lambda>elem. elem \<in> set s2) s1)"

section \<open>Facts\<close>

text \<open>Contexts that wrap an error without deciding the result.\<close>

inductive wraps :: "error \<Rightarrow> error \<Rightarrow> bool" where
  wraps_refl: "wraps e e"
| wraps_text: "wraps d e \<Longrightarrow> wraps (WrapError m d) e"
| wraps_condition: "wraps d e \<Longrightarrow> wraps (ConditionError f r d) e"

lemma into_result_wraps: "wraps d e \<Longrightarrow> into_result_error d = into_result_error e"
  by (induction rule: wraps.induct) simp_all

inductive wraps_result :: "error \<Rightarrow> error \<Rightarrow> bool" where
  wraps_result_refl: "wraps_result e e"
| wraps_result_text: "wraps_result d e \<Longrightarrow> wraps_result (WrapError m d) e"
| wraps_result_result: "wraps_result d e \<Longrightarrow> wraps_result (ResultError r d) e"

lemma into_condition_wraps: "wraps_result d e \<Longrightarrow> into_condition_error d = into_condition_error e"
  by (induction rule: wraps_result.induct) simp_all

lemma into_simps [simp]:
  "into_result_error (terminal_error e) = Some (zero_result, e)"
  "into_result_error (temporary_error e) = Some (requeue_result, e)"
  "into_condition_error (terminal_error e) = into_condition_error e"
  "into_condition_error (temporary_error e) = into_condition_error e"
  by (simp_all add: terminal_error_def temporary_error_def)

lemma as_result_simps [simp]:
  "as_result None = (zero_result, None)"
  "as_result (Some (terminal_error e)) = (zero_result, None)"
  "as_result (Some (temporary_error e)) = (requeue_result, None)"
  by (simp_all add: as_result_def)

lemma is_equal_unordered_mset:
  assumes "distinct s1"
  shows "is_equal_unordered s1 s2 \<longleftrightarrow> mset s1 = mset s2"
proof
  assume "mset s1 = mset s2"
  then have "length s1 = length s2" "set s1 = set s2"
    using mset_eq_length mset_eq_setD by blast+
  then show "is_equal_unordered s1 s2"
    by (simp add: is_equal_unordered_def list_all_iff)
next
  assume eq: "is_equal_unordered s1 s2"
  then have len: "length s1 = length s2" and sub: "set s1 \<subseteq> set s2"
    by (auto simp: is_equal_unordered_def list_all_iff split: if_splits)
  have "card (set s1) = length s2" using assms len by (simp add: distinct_card)
  then have "set s1 = set s2" "distinct s2"
    using sub card_length [of s2] card_seteq [of "set s2" "set s1"] card_distinct [of s2] by auto
  then show "mset s1 = mset s2" using assms by (simp add: set_eq_iff_mset_eq_distinct)
qed

section \<open>Properties\<close>

text \<open>What a reconciliation returns for an error. \<open>AsResult\<close> never returns both a result and an
  error: the outermost result error in the chain decides the result and hides the error (an empty
  result for a terminal error, a requeue for a temporary one, however often it was wrapped), and
  an error without one is reported with an empty result.\<close>

theorem as_result_decides:
  "(fst (as_result err) = zero_result \<or> snd (as_result err) = None)
   \<and> as_result None = (zero_result, None)
   \<and> (wraps d (terminal_error e) \<longrightarrow> as_result (Some d) = (zero_result, None))
   \<and> (wraps d (temporary_error e) \<longrightarrow> as_result (Some d) = (requeue_result, None))
   \<and> (into_result_error d = None \<longrightarrow> as_result (Some d) = (zero_result, Some d))"
proof -
  have "fst (as_result err) = zero_result \<or> snd (as_result err) = None"
    by (auto simp: as_result_def split: option.split prod.split)
  moreover have "as_result (Some d) = as_result (Some f)" if "wraps d f" "into_result_error f \<noteq> None" for f
    using that into_result_wraps [OF that(1)] by (auto simp: as_result_def)
  ultimately show ?thesis by (auto simp: as_result_def dest: into_result_wraps)
qed

theorem as_result_decides_witness:
  "as_result (Some (WrapError ''outer'' (ConditionError True ''R'' (temporary_error (ErrorString ''inner'')))))
     = (requeue_result, None)"
proof -
  let ?e = "temporary_error (ErrorString ''inner'')"
  have "wraps (WrapError ''outer'' (ConditionError True ''R'' ?e)) ?e"
    by (intro wraps.intros)
  then show ?thesis
    using as_result_decides [of None "WrapError ''outer'' (ConditionError True ''R'' ?e)" "ErrorString ''inner''"]
    by blast
qed

text \<open>C37: the condition an error leaves behind. The outermost condition error in the chain, through
  any result errors and wrappers, chooses failure or unknown and the reason; without one the
  condition becomes unknown with the reason UnknownError. In every case the error's text is handed
  on as the format of the message, so the message equals it when it has no percent sign.\<close>

theorem mark_condition_chooses:
  assumes "wraps_result d e"
  shows "mark_condition d failure unknown =
    (case e of
       ConditionError fails reason c \<Rightarrow> (if fails then failure else unknown) reason (error_text c) []
     | _ \<Rightarrow> mark_condition d failure unknown)
    \<and> (into_condition_error d = None \<longrightarrow>
         mark_condition d failure unknown = unknown ReasonUnknownError (error_text d) [])
    \<and> (CHR ''%'' \<notin> set (error_text d) \<longrightarrow> sprintf (error_text d) [] = error_text d)"
  using into_condition_wraps [OF assms]
  by (auto simp: mark_condition_def condition_error_mark_def split: error.split)

theorem mark_condition_chooses_witness:
  "mark_condition (temporary_error (WrapError ''w'' (condition_failed ''NotReady'' ''wait'' []))) (\<lambda>r f a. (True, r, f)) (\<lambda>r f a. (False, r, f))
     = (True, ''NotReady'', ''wait'')"
proof -
  let ?c = "ConditionError True ''NotReady'' (ErrorString ''wait'')"
  have "wraps_result (ResultError requeue_result (WrapError ''w'' ?c)) ?c"
    by (intro wraps_result.intros)
  from mark_condition_chooses [OF this, of "\<lambda>r f a. (True, r, f)" "\<lambda>r f a. (False, r, f)"] show ?thesis
    by (simp add: temporary_error_def condition_failed_def errorf_plain)
qed

text \<open>\<open>isEqualUnordered\<close> is equality of multisets when the first slice has no duplicates, and only
  then: with a duplicate it accepts slices with different elements.\<close>

theorem is_equal_unordered_distinct:
  "(distinct s1 \<longrightarrow> is_equal_unordered s1 s2 = (mset s1 = mset s2))
   \<and> (\<not> distinct s1 \<longrightarrow> (\<exists>s2. is_equal_unordered s1 s2 \<and> mset s1 \<noteq> mset s2))"
proof -
  have "\<exists>s2. is_equal_unordered s1 s2 \<and> mset s1 \<noteq> mset s2" if dup: "\<not> distinct s1"
  proof -
    obtain xs ys zs y where s1: "s1 = xs @ y # ys @ y # zs"
      using dup not_distinct_decomp by fastforce
    obtain z where "z \<notin> set s1" using ex_new_if_finite [OF infinite_UNIV_listI, of "set s1"] by auto
    then have "count (mset (z # xs @ y # ys @ zs)) z \<noteq> count (mset s1) z" by (auto simp: s1)
    then have "mset s1 \<noteq> mset (z # xs @ y # ys @ zs)" by metis
    moreover have "is_equal_unordered s1 (z # xs @ y # ys @ zs)"
      by (auto simp: is_equal_unordered_def list_all_iff s1)
    ultimately show ?thesis by blast
  qed
  then show ?thesis by (simp add: is_equal_unordered_mset)
qed

theorem is_equal_unordered_distinct_witness:
  "is_equal_unordered [''a'', ''b''] [''b'', ''a'']"
  using is_equal_unordered_distinct [of "[''a'', ''b'']" "[''b'', ''a'']"] by simp

end
