(* ===== verification/Env.thy ===== *)
theory Env
  imports Lifecycle Result_Errors
begin

text \<open>
  The world the controllers run in. Code that is not part of the repository (the Kubernetes
  clients and the machinery around them, nkeys, jwt, nats.go) is a record of functions, a
  parameter \<open>E\<close> of every definition that uses it; a call that has an effect takes and returns the
  external world \<open>'x\<close>, of which nothing is assumed. Hypotheses on these functions are named in the
  theorems that need them.

  The state of a controller's call is the external world, the object under reconciliation (the
  Go code passes a pointer to it everywhere and the deferred status update reads it at the end)
  and the \<open>trace\<close> of all external calls made so far with their outcomes. \<open>emits\<close> and \<open>logs\<close> state
  what a piece of code adds to the trace, whatever the world answers; they are proved
  compositionally by the rules collected in \<open>emits_rules\<close>.
\<close>

section \<open>Data of package jwt\<close>

text \<open>
  The structs of nats-io/jwt that the program builds, with the fields it sets. A field \<open>*_rest\<close>
  stands for the struct's other fields, which the program leaves as the library made them; it is
  empty when they are all zero.
\<close>

record claims_data =
  cd_audience :: string
  cd_expires :: int
  cd_id :: string
  cd_issued_at :: int
  cd_issuer :: string
  cd_name :: string
  cd_not_before :: int
  cd_subject :: string

datatype export_type = Unknown | Stream | Service

datatype jwt_response_type = NoResponseType | ResponseSingleton | ResponseStream | ResponseChunked

record service_latency =
  sl_sampling :: int
  sl_results :: string

record jwt_import =
  ji_name :: string
  ji_subject :: string
  ji_account :: string
  ji_token :: string
  ji_to :: string
  ji_type :: export_type
  ji_rest :: string

record jwt_export =
  je_name :: string
  je_subject :: string
  je_type :: export_type
  je_token_req :: bool
  je_response_type :: jwt_response_type
  je_latency :: "service_latency option"
  je_account_token_position :: nat
  je_rest :: string

record jwt_nats_limits =
  jn_subs :: int
  jn_data :: int
  jn_payload :: int

record jwt_account_limits =
  ja_imports :: int
  ja_exports :: int
  ja_wildcard_exports :: bool
  ja_disallow_bearer :: bool
  ja_conn :: int
  ja_leaf_node_conn :: int

record jwt_operator_limits =
  jo_nats :: jwt_nats_limits
  jo_account :: jwt_account_limits
  jo_jetstream :: jetstream_limits
  jo_rest :: string

record account_claims =
  ac_data :: claims_data
  ac_imports :: "jwt_import list"
  ac_exports :: "jwt_export list"
  ac_limits :: jwt_operator_limits
  ac_signing_keys :: "(string, string) fmap"
  ac_rest :: string

text \<open>The part \<open>jwt.Operator\<close> of the operator claims; \<open>jop_type\<close> and \<open>jop_rest\<close> are its \<open>GenericFields\<close>.\<close>

record jwt_operator =
  jop_signing_keys :: "string list"
  jop_account_server_url :: string
  jop_operator_service_urls :: "string list"
  jop_system_account :: string
  jop_type :: string
  jop_rest :: string

record operator_claims =
  oc_data :: claims_data
  oc_operator :: jwt_operator

record jwt_permission =
  jp_allow :: "string list"
  jp_deny :: "string list"

record response_permission =
  rp_max_msgs :: int
  rp_expires :: int

record jwt_permissions =
  jps_pub :: jwt_permission
  jps_sub :: jwt_permission
  jps_resp :: "response_permission option"

record time_range =
  tr_start :: string
  tr_end :: string

record jwt_limits =
  jl_src :: "string list"
  jl_times :: "time_range list"
  jl_locale :: string
  jl_nats :: jwt_nats_limits

record user_permission_limits =
  upl_permissions :: jwt_permissions
  upl_limits :: jwt_limits
  upl_bearer_token :: bool
  upl_allowed_connection_types :: "string list"

record user_claims =
  uc_data :: claims_data
  uc_permission_limits :: user_permission_limits
  uc_issuer_account :: string
  uc_rest :: string

record generic_claims =
  gc_data :: claims_data
  gc_map :: "(string, string list) fmap"

text \<open>What \<open>jwt.Decode\<close> returns: claims of one of the kinds.\<close>

datatype claims =
    OperatorClaims operator_claims
  | AccountClaims account_claims
  | UserClaims user_claims
  | OtherClaims string

section \<open>Data of package nats and the server's reply\<close>

record nats_options =
  no_tls_min_version :: "nat option"
  no_root_cas :: "(error + string) option"
  no_secure :: bool
  no_user_jwt :: "(string \<times> string) option"
  no_name :: string

type_synonym nats_option = "nats_options \<Rightarrow> error + nats_options"

text \<open>pkg/nsc/internal/responses.go.\<close>

record server_info =
  si_name :: string
  si_host :: string
  si_id :: string
  si_cluster :: string
  si_domain :: string
  si_version :: string
  si_tags :: "string list"
  si_seq :: nat
  si_jetstream :: bool
  si_time :: int

record error_info =
  ei_code :: int
  ei_description :: string
  ei_account :: string

record update_response_data =
  urd_code :: int
  urd_message :: string
  urd_account :: string

record update_response =
  ur_server :: server_info
  ur_error :: "error_info option"
  ur_data :: update_response_data

section \<open>The external functions\<close>

datatype object_kind = KindOperator | KindAccount | KindSigningKey | KindUser | KindOther string

text \<open>\<open>runtime.Scheme.New\<close>: a new object of a kind, or a \<open>runtime.Object\<close> that is no \<open>client.Object\<close>.\<close>

datatype scheme_object = NewObject object_kind | NewRuntimeObject string

record 'x kube =
  time_now :: "'x \<Rightarrow> int \<times> 'x"
  cl_get_operator :: "string \<Rightarrow> string \<Rightarrow> 'x \<Rightarrow> (error + operator) \<times> 'x"
  cl_get_account :: "string \<Rightarrow> string \<Rightarrow> 'x \<Rightarrow> (error + account) \<times> 'x"
  cl_get_signing_key :: "string \<Rightarrow> string \<Rightarrow> 'x \<Rightarrow> (error + signing_key) \<times> 'x"
  cl_get_user :: "string \<Rightarrow> string \<Rightarrow> 'x \<Rightarrow> (error + user) \<times> 'x"
  cl_get_other :: "string \<Rightarrow> string \<Rightarrow> string \<Rightarrow> 'x \<Rightarrow> (error + gvk \<times> object_meta) \<times> 'x"
  cl_update_account :: "account \<Rightarrow> 'x \<Rightarrow> (error option \<times> account) \<times> 'x"
  cl_update_signing_key :: "signing_key \<Rightarrow> 'x \<Rightarrow> (error option \<times> signing_key) \<times> 'x"
  cl_update_user :: "user \<Rightarrow> 'x \<Rightarrow> (error option \<times> user) \<times> 'x"
  cl_status_operator :: "operator \<Rightarrow> 'x \<Rightarrow> (error option \<times> operator) \<times> 'x"
  cl_status_account :: "account \<Rightarrow> 'x \<Rightarrow> (error option \<times> account) \<times> 'x"
  cl_status_signing_key :: "signing_key \<Rightarrow> 'x \<Rightarrow> (error option \<times> signing_key) \<times> 'x"
  cl_status_user :: "user \<Rightarrow> 'x \<Rightarrow> (error option \<times> user) \<times> 'x"
  cl_create_secret :: "secret \<Rightarrow> 'x \<Rightarrow> (error option \<times> secret) \<times> 'x"
  cl_update_secret :: "secret \<Rightarrow> 'x \<Rightarrow> (error option \<times> secret) \<times> 'x"
  cl_delete_secret :: "secret \<Rightarrow> 'x \<Rightarrow> error option \<times> 'x"
  cl_list_accounts :: "string option \<Rightarrow> labels \<Rightarrow> 'x \<Rightarrow> (error + account list) \<times> 'x"
  cl_list_signing_keys :: "string option \<Rightarrow> labels \<Rightarrow> 'x \<Rightarrow> (error + signing_key list) \<times> 'x"
  cl_list_users :: "string option \<Rightarrow> labels \<Rightarrow> 'x \<Rightarrow> (error + user list) \<times> 'x"
  cs_get_secret :: "string \<Rightarrow> string \<Rightarrow> 'x \<Rightarrow> (error + secret) \<times> 'x"
  cs_create_secret :: "string \<Rightarrow> secret \<Rightarrow> 'x \<Rightarrow> error option \<times> 'x"
  cs_update_secret :: "string \<Rightarrow> secret \<Rightarrow> 'x \<Rightarrow> error option \<times> 'x"
  cs_get_namespace :: "string \<Rightarrow> 'x \<Rightarrow> (error + k8s_namespace) \<times> 'x"
  cs_get_operator :: "string \<Rightarrow> string \<Rightarrow> 'x \<Rightarrow> (error + operator) \<times> 'x"
  cs_get_account :: "string \<Rightarrow> string \<Rightarrow> 'x \<Rightarrow> (error + account) \<times> 'x"
  cs_list_signing_keys :: "string \<Rightarrow> string \<Rightarrow> 'x \<Rightarrow> (error + signing_key list) \<times> 'x"

text \<open>
  \<open>controllerutil\<close> reads and writes the finalizers and the owner references of an object through
  its getters and setters; its functions are given by the new value of that field.
\<close>

record machinery =
  scheme_new :: "gvk \<Rightarrow> error + scheme_object"
  set_controller_reference :: "client_object \<Rightarrow> object_meta \<Rightarrow> error + owner_reference list"
  contains_finalizer :: "string list \<Rightarrow> string \<Rightarrow> bool"
  add_finalizer :: "string list \<Rightarrow> string \<Rightarrow> string list"
  remove_finalizer :: "string list \<Rightarrow> string \<Rightarrow> string list"
  label_selector_as_selector :: "label_selector \<Rightarrow> error + selector"
  labels_everything :: selector
  gvk_string :: "gvk \<Rightarrow> string"
  from_api_version_and_kind :: "string \<Rightarrow> string \<Rightarrow> gvk"
  to_api_version_and_kind :: "gvk \<Rightarrow> string \<times> string"

record 'x nkeys_lib =
  create_operator_key :: "'x \<Rightarrow> (error + keypair) \<times> 'x"
  create_account_key :: "'x \<Rightarrow> (error + keypair) \<times> 'x"
  create_user_key :: "'x \<Rightarrow> (error + keypair) \<times> 'x"
  from_seed :: "string \<Rightarrow> error + keypair"
  decode_seed :: "string \<Rightarrow> error + nat"
  parse_decorated_nkey :: "string \<Rightarrow> error + keypair"
  prefix_string :: "nat \<Rightarrow> string"
  PrefixByteOperator :: nat
  PrefixByteAccount :: nat

record 'x jwt_lib =
  new_operator_claims :: "string \<Rightarrow> operator_claims"
  new_account_claims :: "string \<Rightarrow> account_claims"
  new_user_claims :: "string \<Rightarrow> user_claims"
  new_generic_claims :: "string \<Rightarrow> generic_claims"
  encode_operator :: "operator_claims \<Rightarrow> keypair \<Rightarrow> 'x \<Rightarrow> (error + operator_claims \<times> string) \<times> 'x"
  encode_account :: "account_claims \<Rightarrow> keypair \<Rightarrow> 'x \<Rightarrow> (error + account_claims \<times> string) \<times> 'x"
  encode_user :: "user_claims \<Rightarrow> keypair \<Rightarrow> 'x \<Rightarrow> (error + user_claims \<times> string) \<times> 'x"
  encode_generic :: "generic_claims \<Rightarrow> keypair \<Rightarrow> 'x \<Rightarrow> (error + generic_claims \<times> string) \<times> 'x"
  jwt_decode :: "string \<Rightarrow> error + claims"
  decode_operator_claims :: "string \<Rightarrow> error + operator_claims"
  imports_add :: "jwt_import list \<Rightarrow> jwt_import list \<Rightarrow> jwt_import list"
  signing_keys_add :: "string \<Rightarrow> (string, string) fmap \<Rightarrow> (string, string) fmap"
  OperatorClaim :: string
  format_user_config :: "string \<Rightarrow> string \<Rightarrow> error + string"

record 'x nats_lib =
  opt_user_jwt_and_seed :: "string \<Rightarrow> string \<Rightarrow> nats_option"
  opt_name :: "string \<Rightarrow> nats_option"
  certs_from_pem :: "string \<Rightarrow> string option"
  nats_connect :: "string \<Rightarrow> nats_option list \<Rightarrow> 'x \<Rightarrow> (error + nat) \<times> 'x"
  nats_request :: "nat \<Rightarrow> string \<Rightarrow> string \<Rightarrow> 'x \<Rightarrow> (error + string) \<times> 'x"
  nats_close :: "nat \<Rightarrow> 'x \<Rightarrow> 'x"
  unmarshal_update_response :: "string \<Rightarrow> error + update_response"

text \<open>\<open>e_range\<close> is the order in which Go ranges over the one map the program ranges over.\<close>

record 'x env =
  e_kube :: "'x kube"
  e_mach :: machinery
  e_nkeys :: "'x nkeys_lib"
  e_jwt :: "'x jwt_lib"
  e_nats :: "'x nats_lib"
  e_range :: "(string, signing_key_embedded_status) fmap \<Rightarrow> signing_key_embedded_status list"

section \<open>The state and its trace\<close>

text \<open>The external calls, each with the answer it got (an error or None, an error or a value).\<close>

datatype call =
    SecretGet string string "error + secret"
  | SecretCreate secret "error option"
  | SecretUpdate secret "error option"
  | SecretDelete secret "error option"
  | NamespaceGet string "error + k8s_namespace"
  | ObjectGet object_kind string string "error + client_object"
  | SigningKeysList string string "error + signing_key list"
  | ObjectsList object_kind "string option" labels
  | ObjectUpdate client_object "error option"
  | StatusUpdate client_object "error option"
  | EventSent client_object string string string
  | KeyCreate "error + keypair"
  | JwtEncode string keypair "error + string"
  | NatsConnect string "error + nat"
  | NatsRequest nat string string "error + string"
  | NatsClose nat

record ('x, 'o) st =
  ext :: 'x
  cur :: 'o
  trace :: "call list"

text \<open>A call to the outside, logged with its answer.\<close>

definition external ::
  "('x \<Rightarrow> 'a \<times> 'x) \<Rightarrow> ('a \<Rightarrow> call) \<Rightarrow> (('x, 'o) st, 'a) go" where
  "external f c = (\<lambda>s. case f (ext s) of
      (a, x) \<Rightarrow> (Returns a, s\<lparr>ext := x, trace := trace s @ [c a]\<rparr>))"

definition log_call :: "call \<Rightarrow> (('x, 'o) st, unit) go" where
  "log_call c = modify (\<lambda>s. s\<lparr>trace := trace s @ [c]\<rparr>)"

definition get_cur :: "(('x, 'o) st, 'o) go" where
  "get_cur = gets cur"

definition set_cur :: "'o \<Rightarrow> (('x, 'o) st, unit) go" where
  "set_cur c = modify (\<lambda>s. s\<lparr>cur := c\<rparr>)"

text \<open>Reading the clock leaves no trace: every condition that is set does it.\<close>

definition with_clock :: "('a \<times> 'x \<Rightarrow> 'a \<times> 'x) \<Rightarrow> 'a \<Rightarrow> (('x, 'o) st, 'a) go" where
  "with_clock f a = (\<lambda>s. case f (a, ext s) of (a', x) \<Rightarrow> (Returns a', s\<lparr>ext := x\<rparr>))"

lemma wp_external [simp, wp_simps]:
  "wp (external f c) Q s = (case f (ext s) of
     (a, x) \<Rightarrow> Q (Returns a) (s\<lparr>ext := x, trace := trace s @ [c a]\<rparr>))"
  by (simp add: wp_def external_def split: prod.split)

lemma wp_log_call [simp, wp_simps]:
  "wp (log_call c) Q s = Q (Returns ()) (s\<lparr>trace := trace s @ [c]\<rparr>)"
  by (simp add: log_call_def)

lemma wp_get_cur [simp, wp_simps]: "wp get_cur Q s = Q (Returns (cur s)) s"
  by (simp add: get_cur_def)

lemma wp_set_cur [simp, wp_simps]: "wp (set_cur c) Q s = Q (Returns ()) (s\<lparr>cur := c\<rparr>)"
  by (simp add: set_cur_def)

lemma wp_with_clock [simp, wp_simps]:
  "wp (with_clock f a) Q s = (case f (a, ext s) of (a', x) \<Rightarrow> Q (Returns a') (s\<lparr>ext := x\<rparr>))"
  by (simp add: wp_def with_clock_def split: prod.split)

end
