(* ===== verification/Cluster.thy ===== *)
theory Cluster
  imports Env
begin

text \<open>
  The external calls of the controllers, one definition for each method they use, and the two
  judgements about the calls a piece of code makes: \<open>emits m P\<close>, every call \<open>m\<close> adds to the trace
  satisfies \<open>P\<close>, and \<open>logs m R\<close>, the outcome of \<open>m\<close> and the calls it adds are related by \<open>R\<close>.
\<close>

section \<open>What a piece of code adds to the trace\<close>

definition logs :: "(('x, 'o) st, 'a) go \<Rightarrow> ('a outcome \<Rightarrow> call list \<Rightarrow> bool) \<Rightarrow> bool" where
  "logs m R = (\<forall>s. wp m (\<lambda>r s'. \<exists>l. trace s' = trace s @ l \<and> R r l) s)"

definition emits :: "(('x, 'o) st, 'a) go \<Rightarrow> (call \<Rightarrow> bool) \<Rightarrow> bool" where
  "emits m P = logs m (\<lambda>r l. \<forall>c \<in> set l. P c)"

named_theorems emits_rules \<open>rules for the judgement emits\<close>

lemma logsI: "(\<And>s. wp m (\<lambda>r s'. \<exists>l. trace s' = trace s @ l \<and> R r l) s) \<Longrightarrow> logs m R"
  by (simp add: logs_def)

lemma logsD:
  assumes "logs m R" and "m s = (r, s')"
  obtains l where "trace s' = trace s @ l" "R r l"
proof -
  have "wp m (\<lambda>r s'. \<exists>l. trace s' = trace s @ l \<and> R r l) s" using assms(1) by (simp add: logs_def)
  with assms(2) that show ?thesis by (auto simp: wp_run)
qed

lemma logs_mono: "logs m R \<Longrightarrow> (\<And>r l. R r l \<Longrightarrow> S r l) \<Longrightarrow> logs m S"
  unfolding logs_def by (blast intro: wp_mono)

lemma logs_ret: "R (Returns a) [] \<Longrightarrow> logs (ret a) R"
  by (auto intro!: logsI)

lemma logs_panic: "R Panics [] \<Longrightarrow> logs panic R"
  by (auto intro!: logsI)

lemma logs_external: "(\<And>a. R (Returns a) [c a]) \<Longrightarrow> logs (external f c) R"
  by (auto intro!: logsI split: prod.split)

text \<open>
  A call in front of a continuation: the continuation is judged with what the call has logged in
  front of its own calls.
\<close>

lemma logs_seq:
  assumes "logs m Q" and "\<And>l. Q Panics l \<Longrightarrow> R Panics l"
    and "\<And>a l. Q (Returns a) l \<Longrightarrow> logs (k a) (\<lambda>r l'. R r (l @ l'))"
  shows "logs (bind m k) R"
proof (rule logsI)
  fix s :: "('a, 'b) st"
  obtain r s1 where m: "m s = (r, s1)" by (cases "m s")
  then obtain l where l: "trace s1 = trace s @ l" "Q r l" using assms(1) by (blast elim: logsD)
  show "wp (bind m k) (\<lambda>r s'. \<exists>l. trace s' = trace s @ l \<and> R r l) s"
  proof (cases r)
    case Panics
    then have "\<exists>l. trace s1 = trace s @ l \<and> R Panics l" using l assms(2) by blast
    with Panics m show ?thesis by (simp add: wp_run)
  next
    case (Returns a)
    have "wp (k a) (\<lambda>r s'. \<exists>l'. trace s' = trace s1 @ l' \<and> R r (l @ l')) s1"
      using assms(3) Returns l(2) by (simp add: logs_def)
    then have "wp (k a) (\<lambda>r s'. \<exists>l. trace s' = trace s @ l \<and> R r l) s1"
      by (rule wp_mono) (use l(1) in auto)
    with m Returns show ?thesis by (simp add: wp_run)
  qed
qed

lemma logs_bind:
  assumes "logs m Q" and "\<And>a. logs (k a) (S a)"
    and "\<And>l. Q Panics l \<Longrightarrow> R Panics l"
    and "\<And>a r l l'. Q (Returns a) l \<Longrightarrow> S a r l' \<Longrightarrow> R r (l @ l')"
  shows "logs (bind m k) R"
proof (rule logs_seq [OF assms(1)])
  show "R Panics l" if "Q Panics l" for l using that by (rule assms(3))
  show "logs (k a) (\<lambda>r l'. R r (l @ l'))" if "Q (Returns a) l" for a l
    by (rule logs_mono [OF assms(2)]) (rule assms(4) [OF that])
qed

named_theorems logs_rules \<open>rules for the judgement logs\<close>

declare logs_ret [logs_rules] logs_panic [logs_rules] logs_external [logs_rules]

lemma logs_bind_external [logs_rules]:
  assumes "\<And>a. logs (k a) (\<lambda>r l. R r (c a # l))"
  shows "logs (bind (external f c) k) R"
  by (rule logs_seq [where Q = "\<lambda>r l. \<exists>a. r = Returns a \<and> l = [c a]", OF logs_external])
    (use assms in auto)

lemma logs_bind_log_call [logs_rules]:
  assumes "logs (k ()) (\<lambda>r l. R r (c # l))"
  shows "logs (bind (log_call c) k) R"
proof -
  have "logs (log_call c) (\<lambda>r l. r = Returns () \<and> l = [c])" by (auto intro!: logsI)
  then show ?thesis by (rule logs_seq) (use assms in auto)
qed

lemma logs_bind_silent:
  assumes "logs m (\<lambda>r l. r \<noteq> Panics \<and> l = [])" and "\<And>a. logs (k a) R"
  shows "logs (bind m k) R"
  using assms(1) by (rule logs_seq) (use assms(2) in auto)

lemma logs_bind_get_cur [logs_rules]: "(\<And>a. logs (k a) R) \<Longrightarrow> logs (bind get_cur k) R"
  by (rule logs_bind_silent) (auto intro!: logsI)

lemma logs_bind_set_cur [logs_rules]: "logs (k ()) R \<Longrightarrow> logs (bind (set_cur c) k) R"
  by (rule logs_bind_silent) (auto intro!: logsI)

lemma logs_bind_with_clock [logs_rules]: "(\<And>a. logs (k a) R) \<Longrightarrow> logs (bind (with_clock f x) k) R"
  by (rule logs_bind_silent) (auto intro!: logsI split: prod.split)

lemma logs_bind_deref [logs_rules]:
  "(p = None \<Longrightarrow> R Panics []) \<Longrightarrow> (\<And>a. p = Some a \<Longrightarrow> logs (k a) R) \<Longrightarrow> logs (bind (deref p) k) R"
  by (cases p) (auto intro: logs_panic)

lemma logs_bind_assoc [logs_rules]:
  "logs (bind m (\<lambda>a. bind (k a) h)) R \<Longrightarrow> logs (bind (bind m k) h) R"
  by (simp add: bind_bind)

lemma logs_if [logs_rules]: "(b \<Longrightarrow> logs m R) \<Longrightarrow> (\<not> b \<Longrightarrow> logs n R) \<Longrightarrow> logs (if b then m else n) R"
  by simp

lemma logs_option [logs_rules]:
  "(x = None \<Longrightarrow> logs m R) \<Longrightarrow> (\<And>a. x = Some a \<Longrightarrow> logs (k a) R) \<Longrightarrow>
     logs (case x of None \<Rightarrow> m | Some a \<Rightarrow> k a) R"
  by (cases x) simp_all

lemma logs_sum [logs_rules]:
  "(\<And>e. x = Inl e \<Longrightarrow> logs (m e) R) \<Longrightarrow> (\<And>a. x = Inr a \<Longrightarrow> logs (k a) R) \<Longrightarrow>
     logs (case x of Inl e \<Rightarrow> m e | Inr a \<Rightarrow> k a) R"
  by (cases x) simp_all

lemma logs_prod [logs_rules]:
  "(\<And>a b. x = (a, b) \<Longrightarrow> logs (k a b) R) \<Longrightarrow> logs (case x of (a, b) \<Rightarrow> k a b) R"
  by (cases x) simp

lemma logs_bind_ret [logs_rules]: "logs (k a) R \<Longrightarrow> logs (bind (ret a) k) R"
  by simp

lemma logs_scheme_object [logs_rules]:
  "(\<And>t. k = NewObject t \<Longrightarrow> logs (m1 t) R) \<Longrightarrow> (\<And>t. k = NewRuntimeObject t \<Longrightarrow> logs (m2 t) R) \<Longrightarrow>
     logs (case k of NewObject t \<Rightarrow> m1 t | NewRuntimeObject t \<Rightarrow> m2 t) R"
  by (cases k) simp_all

lemma logs_client_object [logs_rules]:
  "(\<And>t. k = ObjOperator t \<Longrightarrow> logs (m1 t) R) \<Longrightarrow> (\<And>t. k = ObjAccount t \<Longrightarrow> logs (m2 t) R) \<Longrightarrow>
   (\<And>t. k = ObjSigningKey t \<Longrightarrow> logs (m3 t) R) \<Longrightarrow> (\<And>t. k = ObjUser t \<Longrightarrow> logs (m4 t) R) \<Longrightarrow>
   (\<And>g t. k = ObjOther g t \<Longrightarrow> logs (m5 g t) R) \<Longrightarrow>
     logs (case k of ObjOperator t \<Rightarrow> m1 t | ObjAccount t \<Rightarrow> m2 t | ObjSigningKey t \<Rightarrow> m3 t
              | ObjUser t \<Rightarrow> m4 t | ObjOther g t \<Rightarrow> m5 g t) R"
  by (cases k) simp_all

lemma logs_key_pairable [logs_rules]:
  "(\<And>t. k = KPOperator t \<Longrightarrow> logs (m1 t) R) \<Longrightarrow> (\<And>t. k = KPAccount t \<Longrightarrow> logs (m2 t) R) \<Longrightarrow>
   (\<And>t. k = KPSigningKey t \<Longrightarrow> logs (m3 t) R) \<Longrightarrow>
     logs (case k of KPOperator t \<Rightarrow> m1 t | KPAccount t \<Rightarrow> m2 t | KPSigningKey t \<Rightarrow> m3 t) R"
  by (cases k) simp_all

lemma logs_let [logs_rules]: "(\<And>a. a = x \<Longrightarrow> logs (k a) R) \<Longrightarrow> logs (let a = x in k a) R"
  by simp

lemma emits_mono: "emits m P \<Longrightarrow> (\<And>c. P c \<Longrightarrow> Q c) \<Longrightarrow> emits m Q"
  unfolding emits_def by (erule logs_mono) auto

lemma emits_ret [emits_rules, simp]: "emits (ret a) P"
  unfolding emits_def by (rule logs_ret) simp

lemma emits_panic [emits_rules, simp]: "emits panic P"
  unfolding emits_def by (rule logs_panic) simp

lemma emits_bind [emits_rules]:
  "emits m P \<Longrightarrow> (\<And>a. emits (k a) P) \<Longrightarrow> emits (bind m k) P"
  unfolding emits_def
  by (rule logs_bind [where Q = "\<lambda>r l. \<forall>c \<in> set l. P c" and S = "\<lambda>a r l. \<forall>c \<in> set l. P c"]) auto

lemma emits_external [emits_rules]: "(\<And>a. P (c a)) \<Longrightarrow> emits (external f c) P"
  unfolding emits_def by (rule logs_external) simp

lemma emits_log_call [emits_rules]: "P c \<Longrightarrow> emits (log_call c) P"
  unfolding emits_def by (auto intro!: logsI)

lemma emits_get_cur [emits_rules, simp]: "emits get_cur P"
  unfolding emits_def by (auto intro!: logsI)

lemma emits_set_cur [emits_rules, simp]: "emits (set_cur c) P"
  unfolding emits_def by (auto intro!: logsI)

lemma emits_with_clock [emits_rules, simp]: "emits (with_clock f a) P"
  unfolding emits_def by (auto intro!: logsI split: prod.split)

lemma emits_deref [emits_rules, simp]: "emits (deref p) P"
  by (cases p) simp_all

lemma emits_if [emits_rules]: "(b \<Longrightarrow> emits m P) \<Longrightarrow> (\<not> b \<Longrightarrow> emits n P) \<Longrightarrow> emits (if b then m else n) P"
  by simp

lemma emits_option [emits_rules]:
  "(x = None \<Longrightarrow> emits m P) \<Longrightarrow> (\<And>a. x = Some a \<Longrightarrow> emits (k a) P) \<Longrightarrow>
     emits (case x of None \<Rightarrow> m | Some a \<Rightarrow> k a) P"
  by (cases x) simp_all

lemma emits_sum [emits_rules]:
  "(\<And>e. x = Inl e \<Longrightarrow> emits (m e) P) \<Longrightarrow> (\<And>a. x = Inr a \<Longrightarrow> emits (k a) P) \<Longrightarrow>
     emits (case x of Inl e \<Rightarrow> m e | Inr a \<Rightarrow> k a) P"
  by (cases x) simp_all

lemma emits_prod [emits_rules]:
  "(\<And>a b. x = (a, b) \<Longrightarrow> emits (k a b) P) \<Longrightarrow> emits (case x of (a, b) \<Rightarrow> k a b) P"
  by (cases x) simp

lemma emits_let [emits_rules]: "(\<And>a. a = x \<Longrightarrow> emits (k a) P) \<Longrightarrow> emits (let a = x in k a) P"
  by simp

lemma emits_kind [emits_rules]:
  "emits (m1) P \<Longrightarrow> emits m2 P \<Longrightarrow> emits m3 P \<Longrightarrow> emits m4 P \<Longrightarrow> (\<And>t. emits (m5 t) P) \<Longrightarrow>
     emits (case k of KindOperator \<Rightarrow> m1 | KindAccount \<Rightarrow> m2 | KindSigningKey \<Rightarrow> m3 | KindUser \<Rightarrow> m4
              | KindOther t \<Rightarrow> m5 t) P"
  by (cases k) simp_all

lemma emits_scheme_object [emits_rules]:
  "(\<And>t. emits (m1 t) P) \<Longrightarrow> (\<And>t. emits (m2 t) P) \<Longrightarrow>
     emits (case k of NewObject t \<Rightarrow> m1 t | NewRuntimeObject t \<Rightarrow> m2 t) P"
  by (cases k) simp_all

lemma emits_client_object [emits_rules]:
  "(\<And>t. emits (m1 t) P) \<Longrightarrow> (\<And>t. emits (m2 t) P) \<Longrightarrow> (\<And>t. emits (m3 t) P) \<Longrightarrow> (\<And>t. emits (m4 t) P)
     \<Longrightarrow> (\<And>g t. emits (m5 g t) P) \<Longrightarrow>
     emits (case k of ObjOperator t \<Rightarrow> m1 t | ObjAccount t \<Rightarrow> m2 t | ObjSigningKey t \<Rightarrow> m3 t
              | ObjUser t \<Rightarrow> m4 t | ObjOther g t \<Rightarrow> m5 g t) P"
  by (cases k) simp_all

lemma emits_key_pairable [emits_rules]:
  "(\<And>t. emits (m1 t) P) \<Longrightarrow> (\<And>t. emits (m2 t) P) \<Longrightarrow> (\<And>t. emits (m3 t) P) \<Longrightarrow>
     emits (case k of KPOperator t \<Rightarrow> m1 t | KPAccount t \<Rightarrow> m2 t | KPSigningKey t \<Rightarrow> m3 t) P"
  by (cases k) simp_all

section \<open>Secrets and namespaces\<close>

definition get_secret :: "'x env \<Rightarrow> string \<Rightarrow> string \<Rightarrow> (('x, 'o) st, error + secret) go" where
  "get_secret E ns name = external (cs_get_secret (e_kube E) ns name) (SecretGet ns name)"

definition create_secret :: "'x env \<Rightarrow> secret \<Rightarrow> (('x, 'o) st, error option \<times> secret) go" where
  "create_secret E sec = external (cl_create_secret (e_kube E) sec) (\<lambda>(err, _). SecretCreate sec err)"

definition update_secret :: "'x env \<Rightarrow> secret \<Rightarrow> (('x, 'o) st, error option \<times> secret) go" where
  "update_secret E sec = external (cl_update_secret (e_kube E) sec) (\<lambda>(err, _). SecretUpdate sec err)"

definition delete_secret :: "'x env \<Rightarrow> secret \<Rightarrow> (('x, 'o) st, error option) go" where
  "delete_secret E sec = external (cl_delete_secret (e_kube E) sec) (SecretDelete sec)"

definition clientset_create_secret :: "'x env \<Rightarrow> string \<Rightarrow> secret \<Rightarrow> (('x, 'o) st, error option) go" where
  "clientset_create_secret E ns sec = external (cs_create_secret (e_kube E) ns sec) (SecretCreate sec)"

definition clientset_update_secret :: "'x env \<Rightarrow> string \<Rightarrow> secret \<Rightarrow> (('x, 'o) st, error option) go" where
  "clientset_update_secret E ns sec = external (cs_update_secret (e_kube E) ns sec) (SecretUpdate sec)"

definition get_namespace :: "'x env \<Rightarrow> string \<Rightarrow> (('x, 'o) st, error + k8s_namespace) go" where
  "get_namespace E name = external (cs_get_namespace (e_kube E) name) (NamespaceGet name)"

section \<open>Resources\<close>

definition get_operator :: "'x env \<Rightarrow> string \<Rightarrow> string \<Rightarrow> (('x, 'o) st, error + operator) go" where
  "get_operator E ns name = external (cl_get_operator (e_kube E) ns name)
     (\<lambda>r. ObjectGet KindOperator ns name (map_sum id ObjOperator r))"

definition get_account :: "'x env \<Rightarrow> string \<Rightarrow> string \<Rightarrow> (('x, 'o) st, error + account) go" where
  "get_account E ns name = external (cl_get_account (e_kube E) ns name)
     (\<lambda>r. ObjectGet KindAccount ns name (map_sum id ObjAccount r))"

definition get_signing_key :: "'x env \<Rightarrow> string \<Rightarrow> string \<Rightarrow> (('x, 'o) st, error + signing_key) go" where
  "get_signing_key E ns name = external (cl_get_signing_key (e_kube E) ns name)
     (\<lambda>r. ObjectGet KindSigningKey ns name (map_sum id ObjSigningKey r))"

definition get_user :: "'x env \<Rightarrow> string \<Rightarrow> string \<Rightarrow> (('x, 'o) st, error + user) go" where
  "get_user E ns name = external (cl_get_user (e_kube E) ns name)
     (\<lambda>r. ObjectGet KindUser ns name (map_sum id ObjUser r))"

definition get_other :: "'x env \<Rightarrow> string \<Rightarrow> string \<Rightarrow> string \<Rightarrow> (('x, 'o) st, error + gvk \<times> object_meta) go" where
  "get_other E k ns name = external (cl_get_other (e_kube E) k ns name)
     (\<lambda>r. ObjectGet (KindOther k) ns name (map_sum id (\<lambda>(g, m). ObjOther g m) r))"

text \<open>\<open>client.Get\<close> into an object whose type the scheme chose.\<close>

definition get_object ::
  "'x env \<Rightarrow> object_kind \<Rightarrow> string \<Rightarrow> string \<Rightarrow> (('x, 'o) st, error + client_object) go" where
  "get_object E k ns name = (case k of
       KindOperator \<Rightarrow> bind (get_operator E ns name) (\<lambda>r. ret (map_sum id ObjOperator r))
     | KindAccount \<Rightarrow> bind (get_account E ns name) (\<lambda>r. ret (map_sum id ObjAccount r))
     | KindSigningKey \<Rightarrow> bind (get_signing_key E ns name) (\<lambda>r. ret (map_sum id ObjSigningKey r))
     | KindUser \<Rightarrow> bind (get_user E ns name) (\<lambda>r. ret (map_sum id ObjUser r))
     | KindOther t \<Rightarrow> bind (get_other E t ns name) (\<lambda>r. ret (map_sum id (\<lambda>(g, m). ObjOther g m) r)))"

definition clientset_get_operator :: "'x env \<Rightarrow> string \<Rightarrow> string \<Rightarrow> (('x, 'o) st, error + operator) go" where
  "clientset_get_operator E ns name = external (cs_get_operator (e_kube E) ns name)
     (\<lambda>r. ObjectGet KindOperator ns name (map_sum id ObjOperator r))"

definition clientset_get_account :: "'x env \<Rightarrow> string \<Rightarrow> string \<Rightarrow> (('x, 'o) st, error + account) go" where
  "clientset_get_account E ns name = external (cs_get_account (e_kube E) ns name)
     (\<lambda>r. ObjectGet KindAccount ns name (map_sum id ObjAccount r))"

definition list_signing_keys :: "'x env \<Rightarrow> string \<Rightarrow> string \<Rightarrow> (('x, 'o) st, error + signing_key list) go" where
  "list_signing_keys E ns sel = external (cs_list_signing_keys (e_kube E) ns sel) (SigningKeysList ns sel)"

text \<open>
  \<open>Update\<close> and \<open>Status().Update\<close> of the object under reconciliation. They decode the server's
  answer into the object, so the object afterwards is what the client returns.
\<close>

definition write_cur ::
  "('o \<Rightarrow> 'x \<Rightarrow> (error option \<times> 'o) \<times> 'x) \<Rightarrow> ('o \<Rightarrow> error option \<Rightarrow> call) \<Rightarrow> (('x, 'o) st, error option) go" where
  "write_cur f c =
     bind get_cur (\<lambda>obj.
     bind (external (f obj) (\<lambda>(err, _). c obj err)) (\<lambda>(err, obj').
     bind (set_cur obj') (\<lambda>_. ret err)))"

definition update_account :: "'x env \<Rightarrow> (('x, account) st, error option) go" where
  "update_account E = write_cur (cl_update_account (e_kube E)) (\<lambda>a. ObjectUpdate (ObjAccount a))"

definition update_signing_key :: "'x env \<Rightarrow> (('x, signing_key) st, error option) go" where
  "update_signing_key E = write_cur (cl_update_signing_key (e_kube E)) (\<lambda>a. ObjectUpdate (ObjSigningKey a))"

definition update_user :: "'x env \<Rightarrow> (('x, user) st, error option) go" where
  "update_user E = write_cur (cl_update_user (e_kube E)) (\<lambda>a. ObjectUpdate (ObjUser a))"

definition update_operator_status :: "'x env \<Rightarrow> (('x, operator) st, error option) go" where
  "update_operator_status E = write_cur (cl_status_operator (e_kube E)) (\<lambda>a. StatusUpdate (ObjOperator a))"

definition update_account_status :: "'x env \<Rightarrow> (('x, account) st, error option) go" where
  "update_account_status E = write_cur (cl_status_account (e_kube E)) (\<lambda>a. StatusUpdate (ObjAccount a))"

definition update_signing_key_status :: "'x env \<Rightarrow> (('x, signing_key) st, error option) go" where
  "update_signing_key_status E =
     write_cur (cl_status_signing_key (e_kube E)) (\<lambda>a. StatusUpdate (ObjSigningKey a))"

definition update_user_status :: "'x env \<Rightarrow> (('x, user) st, error option) go" where
  "update_user_status E = write_cur (cl_status_user (e_kube E)) (\<lambda>a. StatusUpdate (ObjUser a))"

section \<open>Events and keys\<close>

definition EventTypeNormal :: string where "EventTypeNormal = ''Normal''"
definition EventTypeWarning :: string where "EventTypeWarning = ''Warning''"

definition eventf ::
  "client_object \<Rightarrow> string \<Rightarrow> string \<Rightarrow> string \<Rightarrow> fmt_arg list \<Rightarrow> (('x, 'o) st, unit) go" where
  "eventf obj ty reason f as = log_call (EventSent obj ty reason (sprintf f as))"

definition event :: "client_object \<Rightarrow> string \<Rightarrow> string \<Rightarrow> string \<Rightarrow> (('x, 'o) st, unit) go" where
  "event obj ty reason msg = log_call (EventSent obj ty reason msg)"

definition create_key :: "('x \<Rightarrow> (error + keypair) \<times> 'x) \<Rightarrow> (('x, 'o) st, error + keypair) go" where
  "create_key new_kp = external new_kp KeyCreate"

lemmas call_defs = get_secret_def create_secret_def update_secret_def delete_secret_def
  clientset_create_secret_def clientset_update_secret_def get_namespace_def get_operator_def
  get_account_def get_signing_key_def get_user_def get_other_def clientset_get_operator_def
  clientset_get_account_def list_signing_keys_def eventf_def event_def create_key_def

lemmas write_defs = update_account_def update_signing_key_def update_user_def
  update_operator_status_def update_account_status_def update_signing_key_status_def update_user_status_def

text \<open>The rules of \<open>emits\<close> for the calls: what is logged satisfies the predicate.\<close>

lemma emits_calls [emits_rules]:
  "(\<And>r. P (SecretGet ns name r)) \<Longrightarrow> emits (get_secret E ns name) P"
  "(\<And>r. P (SecretCreate sec r)) \<Longrightarrow> emits (create_secret E sec) P"
  "(\<And>r. P (SecretUpdate sec r)) \<Longrightarrow> emits (update_secret E sec) P"
  "(\<And>r. P (SecretDelete sec r)) \<Longrightarrow> emits (delete_secret E sec) P"
  "(\<And>r. P (SecretCreate sec r)) \<Longrightarrow> emits (clientset_create_secret E ns sec) P"
  "(\<And>r. P (SecretUpdate sec r)) \<Longrightarrow> emits (clientset_update_secret E ns sec) P"
  "(\<And>r. P (NamespaceGet name r)) \<Longrightarrow> emits (get_namespace E name) P"
  "(\<And>r. P (ObjectGet KindOperator ns name r)) \<Longrightarrow> emits (get_operator E ns name) P"
  "(\<And>r. P (ObjectGet KindAccount ns name r)) \<Longrightarrow> emits (get_account E ns name) P"
  "(\<And>r. P (ObjectGet KindSigningKey ns name r)) \<Longrightarrow> emits (get_signing_key E ns name) P"
  "(\<And>r. P (ObjectGet KindUser ns name r)) \<Longrightarrow> emits (get_user E ns name) P"
  "(\<And>r. P (ObjectGet (KindOther k) ns name r)) \<Longrightarrow> emits (get_other E k ns name) P"
  "(\<And>r. P (ObjectGet KindOperator ns name r)) \<Longrightarrow> emits (clientset_get_operator E ns name) P"
  "(\<And>r. P (ObjectGet KindAccount ns name r)) \<Longrightarrow> emits (clientset_get_account E ns name) P"
  "(\<And>r. P (SigningKeysList ns sel r)) \<Longrightarrow> emits (list_signing_keys E ns sel) P"
  "P (EventSent obj ty reason (sprintf f as)) \<Longrightarrow> emits (eventf obj ty reason f as) P"
  "P (EventSent obj ty reason msg) \<Longrightarrow> emits (event obj ty reason msg) P"
  "(\<And>r. P (KeyCreate r)) \<Longrightarrow> emits (create_key nk) P"
  by (auto simp: call_defs intro!: emits_rules)

lemma emits_write_cur [emits_rules]: "(\<And>obj err. P (c obj err)) \<Longrightarrow> emits (write_cur f c) P"
  unfolding write_cur_def by (intro emits_rules) (auto split: prod.split)

lemma emits_get_object [emits_rules]: "(\<And>r. P (ObjectGet k ns name r)) \<Longrightarrow> emits (get_object E k ns name) P"
  unfolding get_object_def by (cases k) (auto intro!: emits_rules)

text \<open>The same calls in front of a continuation, for the judgement \<open>logs\<close>.\<close>

lemma logs_bind_calls [logs_rules]:
  "(\<And>a. logs (k1 a) (\<lambda>r l. R r (SecretGet ns name a # l))) \<Longrightarrow> logs (bind (get_secret E ns name) k1) R"
  "(\<And>a. logs (k2 a) (\<lambda>r l. R r (SecretCreate sec (fst a) # l))) \<Longrightarrow> logs (bind (create_secret E sec) k2) R"
  "(\<And>a. logs (k2 a) (\<lambda>r l. R r (SecretUpdate sec (fst a) # l))) \<Longrightarrow> logs (bind (update_secret E sec) k2) R"
  "(\<And>a. logs (k3 a) (\<lambda>r l. R r (SecretDelete sec a # l))) \<Longrightarrow> logs (bind (delete_secret E sec) k3) R"
  "(\<And>a. logs (k3 a) (\<lambda>r l. R r (SecretCreate sec a # l))) \<Longrightarrow> logs (bind (clientset_create_secret E ns sec) k3) R"
  "(\<And>a. logs (k3 a) (\<lambda>r l. R r (SecretUpdate sec a # l))) \<Longrightarrow> logs (bind (clientset_update_secret E ns sec) k3) R"
  "(\<And>a. logs (k4 a) (\<lambda>r l. R r (NamespaceGet name a # l))) \<Longrightarrow> logs (bind (get_namespace E name) k4) R"
  "(\<And>a. logs (k5 a) (\<lambda>r l. R r (ObjectGet KindOperator ns name (map_sum id ObjOperator a) # l))) \<Longrightarrow>
     logs (bind (get_operator E ns name) k5) R"
  "(\<And>a. logs (k6 a) (\<lambda>r l. R r (ObjectGet KindAccount ns name (map_sum id ObjAccount a) # l))) \<Longrightarrow>
     logs (bind (get_account E ns name) k6) R"
  "(\<And>a. logs (k7 a) (\<lambda>r l. R r (ObjectGet KindSigningKey ns name (map_sum id ObjSigningKey a) # l))) \<Longrightarrow>
     logs (bind (get_signing_key E ns name) k7) R"
  "(\<And>a. logs (k8 a) (\<lambda>r l. R r (ObjectGet KindUser ns name (map_sum id ObjUser a) # l))) \<Longrightarrow>
     logs (bind (get_user E ns name) k8) R"
  "(\<And>a. logs (k5 a) (\<lambda>r l. R r (ObjectGet KindOperator ns name (map_sum id ObjOperator a) # l))) \<Longrightarrow>
     logs (bind (clientset_get_operator E ns name) k5) R"
  "(\<And>a. logs (k6 a) (\<lambda>r l. R r (ObjectGet KindAccount ns name (map_sum id ObjAccount a) # l))) \<Longrightarrow>
     logs (bind (clientset_get_account E ns name) k6) R"
  "(\<And>a. logs (k9 a) (\<lambda>r l. R r (SigningKeysList ns sel a # l))) \<Longrightarrow> logs (bind (list_signing_keys E ns sel) k9) R"
  "logs (k10 ()) (\<lambda>r l. R r (EventSent obj ty reason (sprintf f as) # l)) \<Longrightarrow>
     logs (bind (eventf obj ty reason f as) k10) R"
  "logs (k10 ()) (\<lambda>r l. R r (EventSent obj ty reason msg # l)) \<Longrightarrow> logs (bind (event obj ty reason msg) k10) R"
  "(\<And>a. logs (k11 a) (\<lambda>r l. R r (KeyCreate a # l))) \<Longrightarrow> logs (bind (create_key nk) k11) R"
  unfolding call_defs
  by (rule logs_bind_external logs_bind_log_call, simp add: case_prod_beta)+

lemma logs_bind_get_object [logs_rules]:
  assumes "\<And>a. logs (k a) (\<lambda>r l. R r (ObjectGet kind ns name a # l))"
  shows "logs (bind (get_object E kind ns name) k) R"
  using assms unfolding get_object_def call_defs
  by (cases kind) (auto intro!: logs_bind_external simp: bind_bind)

lemma logs_bind_write_cur [logs_rules]:
  assumes "\<And>obj err. logs (k err) (\<lambda>r l. R r (c obj err # l))"
  shows "logs (bind (write_cur f c) k) R"
  unfolding write_cur_def bind_bind
  by (intro logs_rules) (auto simp: bind_bind case_prod_beta intro!: logs_rules assms)

end
