(* ===== verification/Secrets.thy ===== *)
theory Secrets
  imports Cluster
begin

text \<open>
  internal/controller/accounts/resources: the builders of the secrets the operator owns
  (constants.go, options.go, jwtsecret.go, keypairsecret.go, usercredentialsecret.go), and
  internal/controller/accounts/secrets.go, the options of \<open>NewSecret\<close>.

  A builder holds a secret, empty or a copy of an existing one, and \<open>Build\<close> fills it in. The
  controllers build the desired secret from the existing one and write it when the two differ,
  so the contract (\<open>secret_builder\<close>) is that building from a built secret changes nothing: the
  write happens once and not on every reconciliation.
\<close>

section \<open>Constants\<close>

definition LabelSecretType :: string where "LabelSecretType = ''nats.accounts.io/secret-type''"
definition LabelSecretTypeSeed :: string where "LabelSecretTypeSeed = ''seed''"
definition LabelSecretTypeJWT :: string where "LabelSecretTypeJWT = ''jwt''"
definition LabelSecretTypeCredentials :: string where "LabelSecretTypeCredentials = ''credentials''"
definition LabelSecretJWTType :: string where "LabelSecretJWTType = ''nats.accounts.io/jwt-type''"
definition LabelSecretSeedType :: string where "LabelSecretSeedType = ''nats.accounts.io/seed-type''"
definition LabelSecretTypeOperator :: string where "LabelSecretTypeOperator = ''Operator''"
definition LabelSecretTypeSigningKey :: string where "LabelSecretTypeSigningKey = ''SigningKey''"
definition LabelSecretTypeAccount :: string where "LabelSecretTypeAccount = ''Account''"
definition LabelSecretTypeUser :: string where "LabelSecretTypeUser = ''User''"
definition LabelSubject :: string where "LabelSubject = ''accounts.nats.io/subject''"
definition LabelOperatorName :: string where "LabelOperatorName = ''accounts.nats.io/operator''"
definition LabelSigningKeyName :: string where "LabelSigningKeyName = ''accounts.nats.io/signing-key''"
definition LabelAccountName :: string where "LabelAccountName = ''accounts.nats.io/account''"
definition LabelUserName :: string where "LabelUserName = ''accounts.nats.io/user''"

lemmas label_defs = LabelSecretType_def LabelSecretTypeSeed_def LabelSecretTypeJWT_def
  LabelSecretTypeCredentials_def LabelSecretJWTType_def LabelSecretSeedType_def LabelSubject_def
  LabelOperatorName_def LabelSigningKeyName_def LabelAccountName_def LabelUserName_def
  LabelSecretTypeOperator_def LabelSecretTypeSigningKey_def LabelSecretTypeAccount_def LabelSecretTypeUser_def

definition DeletionPrevention :: string where
  "DeletionPrevention = ''accounts.versori.io/deletion-prevention''"

section \<open>Options\<close>

definition empty_secret :: secret where
  "empty_secret = \<lparr>s_meta = empty_meta, s_data = fmempty, s_string_data = fmempty, s_immutable = None\<rparr>"

type_synonym secret_option = "secret \<Rightarrow> error + secret"

definition immutable :: secret_option where
  "immutable s = Inr (s\<lparr>s_immutable := Some True\<rparr>)"

definition with_deletion_prevention :: "machinery \<Rightarrow> secret_option" where
  "with_deletion_prevention M s = Inr (s\<lparr>s_meta := (s_meta s)
     \<lparr>m_finalizers := add_finalizer M (m_finalizers (s_meta s)) DeletionPrevention\<rparr>\<rparr>)"

text \<open>The loop over the options that the builders share.\<close>

fun apply_options :: "secret_option list \<Rightarrow> secret \<Rightarrow> error + secret" where
  "apply_options [] s = Inr s"
| "apply_options (opt # opts) s = (case opt s of
     Inl e \<Rightarrow> Inl (errorf ''failed to apply option: %w'' [AErr e])
   | Inr s' \<Rightarrow> apply_options opts s')"

definition set_label :: "string \<Rightarrow> string \<Rightarrow> secret \<Rightarrow> secret" where
  "set_label k v s = s\<lparr>s_meta := (s_meta s)\<lparr>m_labels := fmupd k v (m_labels (s_meta s))\<rparr>\<rparr>"

definition set_name :: "string \<Rightarrow> secret \<Rightarrow> secret" where
  "set_name n s = s\<lparr>s_meta := (s_meta s)\<lparr>m_name := n\<rparr>\<rparr>"

text \<open>The end of every \<open>Build\<close>: namespace, data and the controller reference.\<close>

definition finish_secret ::
  "machinery \<Rightarrow> client_object \<Rightarrow> (string, string) fmap \<Rightarrow> secret \<Rightarrow> error + secret" where
  "finish_secret M owner d s =
     (let s = s\<lparr>s_meta := (s_meta s)\<lparr>m_namespace := m_namespace (object_get_meta owner)\<rparr>, s_data := d\<rparr>
      in case set_controller_reference M owner (s_meta s) of
        Inl e \<Rightarrow> Inl (errorf ''failed to set owner reference: %w'' [AErr e])
      | Inr refs \<Rightarrow> Inr (s\<lparr>s_meta := (s_meta s)\<lparr>m_owner_references := refs\<rparr>\<rparr>))"

section \<open>Builders\<close>

definition new_jwt_secret_builder :: secret where
  "new_jwt_secret_builder = empty_secret"

definition new_jwt_secret_builder_from_secret :: "secret \<Rightarrow> secret" where
  "new_jwt_secret_builder_from_secret s = s"

definition jwt_secret_build ::
  "machinery \<Rightarrow> secret \<Rightarrow> client_object \<Rightarrow> string \<Rightarrow> secret_option list \<Rightarrow> error + secret" where
  "jwt_secret_build M b obj jwt opts = (case apply_options opts b of
       Inl e \<Rightarrow> Inl e
     | Inr s \<Rightarrow>
         (let s = set_label LabelSecretType LabelSecretTypeJWT s;
              d = fmupd NatsSecretJWTKey jwt fmempty
          in case obj of
            ObjOperator v \<Rightarrow> finish_secret M obj d
              (set_label LabelOperatorName (m_name (op_meta v))
                (set_label LabelSecretJWTType LabelSecretTypeOperator
                  (set_name (op_jwt_secret_name (op_spec v)) s)))
          | ObjAccount v \<Rightarrow> finish_secret M obj d
              (set_label LabelAccountName (m_name (acc_meta v))
                (set_label LabelSecretJWTType LabelSecretTypeAccount
                  (set_name (acc_jwt_secret_name (acc_spec v)) s)))
          | ObjUser v \<Rightarrow> finish_secret M obj d
              (set_label LabelUserName (m_name (usr_meta v))
                (set_label LabelSecretJWTType LabelSecretTypeUser
                  (set_name (usr_jwt_secret_name (usr_spec v)) s)))
          | _ \<Rightarrow> Inl (errorf ''unknown object type for JWT secret owner: %T'' [AObj (object_type obj)])))"

definition new_key_pair_secret_builder :: secret where
  "new_key_pair_secret_builder = empty_secret"

definition new_key_pair_secret_builder_from_secret :: "secret \<Rightarrow> secret" where
  "new_key_pair_secret_builder_from_secret s = s"

definition key_pair_secret_build ::
  "machinery \<Rightarrow> secret \<Rightarrow> client_object \<Rightarrow> keypair \<Rightarrow> secret_option list \<Rightarrow> error + secret" where
  "key_pair_secret_build M b obj kp opts = (case apply_options opts b of
       Inl e \<Rightarrow> Inl e
     | Inr s \<Rightarrow> (case kp_seed kp of
         Inl e \<Rightarrow> Inl e
       | Inr seed \<Rightarrow> (case kp_public_key kp of
           Inl e \<Rightarrow> Inl e
         | Inr pubkey \<Rightarrow>
             (let s = set_label LabelSubject pubkey (set_label LabelSecretType LabelSecretTypeSeed s);
                  d = fmupd NatsSecretPublicKeyKey pubkey (fmupd NatsSecretSeedKey seed fmempty)
              in case obj of
                ObjOperator v \<Rightarrow> finish_secret M obj d
                  (set_label LabelOperatorName (m_name (op_meta v))
                    (set_label LabelSecretSeedType LabelSecretTypeOperator
                      (set_name (op_seed_secret_name (op_spec v)) s)))
              | ObjSigningKey v \<Rightarrow> finish_secret M obj d
                  (set_label LabelSigningKeyName (m_name (sk_meta v))
                    (set_label LabelSecretSeedType LabelSecretTypeSigningKey
                      (set_name (sk_seed_secret_name (sk_spec v)) s)))
              | ObjAccount v \<Rightarrow> finish_secret M obj d
                  (set_label LabelAccountName (m_name (acc_meta v))
                    (set_label LabelSecretSeedType LabelSecretTypeAccount
                      (set_name (acc_seed_secret_name (acc_spec v)) s)))
              | ObjUser v \<Rightarrow> finish_secret M obj d
                  (set_label LabelUserName (m_name (usr_meta v))
                    (set_label LabelSecretSeedType LabelSecretTypeUser
                      (set_name (usr_seed_secret_name (usr_spec v)) s)))
              | _ \<Rightarrow> Inl (errorf ''unknown object type for JWT secret owner: %T'' [AObj (object_type obj)])))))"

record user_credential_secret_builder =
  ucb_secret :: secret
  ucb_ca :: string

definition new_user_credential_secret_builder :: "string \<Rightarrow> user_credential_secret_builder" where
  "new_user_credential_secret_builder ca = \<lparr>ucb_secret = empty_secret, ucb_ca = ca\<rparr>"

definition new_user_credential_secret_builder_from_secret ::
  "secret \<Rightarrow> string \<Rightarrow> user_credential_secret_builder" where
  "new_user_credential_secret_builder_from_secret s ca = \<lparr>ucb_secret = s, ucb_ca = ca\<rparr>"

text \<open>
  The public key of the seed, empty when there is none: errors are ignored. \<open>PublicKey\<close> returns
  the empty string with an error.
\<close>

definition subject_of_seed :: "'x nkeys_lib \<Rightarrow> string \<Rightarrow> string" where
  "subject_of_seed N seed = (case from_seed N seed of
       Inl _ \<Rightarrow> []
     | Inr kp \<Rightarrow> (case kp_public_key kp of Inl _ \<Rightarrow> [] | Inr pk \<Rightarrow> pk))"

definition user_credential_secret_build ::
  "'x env \<Rightarrow> user_credential_secret_builder \<Rightarrow> user \<Rightarrow> string \<Rightarrow> string \<Rightarrow> error + secret" where
  "user_credential_secret_build E b usr ujwt seed =
     (case format_user_config (e_jwt E) ujwt seed of
        Inl e \<Rightarrow> Inl e
      | Inr creds \<Rightarrow>
          finish_secret (e_mach E) (ObjUser usr)
            (fmupd NatsCAKey (ucb_ca b) (fmupd NatsSecretCredsKey creds fmempty))
            (set_label LabelSecretJWTType LabelSecretTypeUser
              (set_label LabelSecretType LabelSecretTypeCredentials
                (set_label LabelSubject (subject_of_seed (e_nkeys E) seed)
                  (set_name (usr_credentials_secret_name (usr_spec usr)) (ucb_secret b))))))"

section \<open>secrets.go\<close>

text \<open>\<open>WithStringData\<close> and \<open>WithAnnotations\<close> are not used; annotations are not modelled.\<close>

type_synonym secret_opt = "secret \<Rightarrow> secret"

definition with_data :: "(string, string) fmap \<Rightarrow> secret_opt" where
  "with_data d s = s\<lparr>s_data := d\<rparr>"

definition with_string_data :: "(string, string) fmap \<Rightarrow> secret_opt" where
  "with_string_data d s = s\<lparr>s_string_data := d\<rparr>"

definition with_immutable :: "bool \<Rightarrow> secret_opt" where
  "with_immutable i s = s\<lparr>s_immutable := Some i\<rparr>"

definition with_labels :: "labels \<Rightarrow> secret_opt" where
  "with_labels l s = s\<lparr>s_meta := (s_meta s)\<lparr>m_labels := l\<rparr>\<rparr>"

definition new_secret :: "string \<Rightarrow> string \<Rightarrow> secret_opt list \<Rightarrow> secret" where
  "new_secret name ns opts =
     foldl (\<lambda>s opt. opt s) (empty_secret\<lparr>s_meta := empty_meta\<lparr>m_name := name, m_namespace := ns\<rparr>\<rparr>) opts"

section \<open>The contract of a builder\<close>

text \<open>
  Documented behaviour of controllerutil: adding a finalizer that is present and setting a
  controller reference that is set change nothing.
\<close>

definition machinery_laws :: "machinery \<Rightarrow> bool" where
  "machinery_laws M =
     ((\<forall>fs f. add_finalizer M (add_finalizer M fs f) f = add_finalizer M fs f)
      \<and> (\<forall>ob m refs. set_controller_reference M ob m = Inr refs \<longrightarrow>
            set_controller_reference M ob (m\<lparr>m_owner_references := refs\<rparr>) = Inr refs))"

lemma machinery_lawsD:
  assumes "machinery_laws M"
  shows "add_finalizer M (add_finalizer M fs f) f = add_finalizer M fs f"
    and "set_controller_reference M ob m = Inr refs \<Longrightarrow>
      set_controller_reference M ob (m\<lparr>m_owner_references := refs\<rparr>) = Inr refs"
  using assms by (simp_all add: machinery_laws_def)

locale secret_builder =
  fixes laws :: bool
    and build :: "secret \<Rightarrow> error + secret"
    and meant :: "secret \<Rightarrow> bool"
  assumes build_meant: "build s = Inr w \<Longrightarrow> meant w"
    and build_again: "laws \<Longrightarrow> build s = Inr w \<Longrightarrow> build w = Inr w"
begin

text \<open>Whether the existing secret has to be written, as the controllers decide it.\<close>

lemma converges:
  assumes "laws" and "build got = Inr want"
  shows "\<exists>again. build want = Inr again \<and> again = want \<and> meant want"
  using assms build_again build_meant by blast

lemma up_to_date_meant: "build got = Inr got \<Longrightarrow> meant got"
  by (rule build_meant)

end

text \<open>The labels of a secret as a map, and what setting them again does.\<close>

definition secret_label :: "secret \<Rightarrow> string \<Rightarrow> string option" where
  "secret_label s k = fmlookup (m_labels (s_meta s)) k"

lemma secret_label_simps [simp]:
  "secret_label (set_label k v s) = (secret_label s)(k \<mapsto> v)"
  "secret_label (set_name n s) = secret_label s"
  "s_data (set_label k v s) = s_data s" "s_data (set_name n s) = s_data s"
  "m_name (s_meta (set_label k v s)) = m_name (s_meta s)" "m_name (s_meta (set_name n s)) = n"
  "m_finalizers (s_meta (set_label k v s)) = m_finalizers (s_meta s)"
  "m_finalizers (s_meta (set_name n s)) = m_finalizers (s_meta s)"
  "s_immutable (set_label k v s) = s_immutable s" "s_immutable (set_name n s) = s_immutable s"
  by (auto simp: set_label_def set_name_def secret_label_def)

lemma fmupd_same: "fmlookup m k = Some v \<Longrightarrow> fmupd k v m = m"
  by (rule fmap_ext) auto

lemma set_label_id: "secret_label s k = Some v \<Longrightarrow> set_label k v s = s"
  by (simp add: set_label_def secret_label_def fmupd_same)

lemma set_name_id: "m_name (s_meta s) = n \<Longrightarrow> set_name n s = s"
  by (auto simp: set_name_def)

lemma finish_secret_facts:
  assumes "finish_secret M ob d s = Inr w"
  shows "secret_label w = secret_label s" and "s_data w = d" and "m_name (s_meta w) = m_name (s_meta s)"
    and "m_namespace (s_meta w) = m_namespace (object_get_meta ob)"
    and "m_finalizers (s_meta w) = m_finalizers (s_meta s)" and "s_immutable w = s_immutable s"
  using assms by (auto simp: finish_secret_def Let_def secret_label_def split: sum.splits)

lemma finish_secret_again:
  assumes "machinery_laws M" and "finish_secret M ob d s = Inr w"
  shows "finish_secret M ob d w = Inr w"
proof -
  let ?ns = "m_namespace (object_get_meta ob)"
  obtain refs where refs: "set_controller_reference M ob ((s_meta s)\<lparr>m_namespace := ?ns\<rparr>) = Inr refs"
    and w: "w = s\<lparr>s_meta := (s_meta s)\<lparr>m_namespace := ?ns, m_owner_references := refs\<rparr>, s_data := d\<rparr>"
    using assms(2) by (auto simp: finish_secret_def Let_def split: sum.splits)
  have swap: "(s_meta s)\<lparr>m_owner_references := refs, m_namespace := ?ns\<rparr>
      = (s_meta s)\<lparr>m_namespace := ?ns, m_owner_references := refs\<rparr>"
    by simp
  have "set_controller_reference M ob (s_meta w) = Inr refs"
    using machinery_lawsD(2) [OF assms(1) refs] by (simp add: w)
  then show ?thesis unfolding w by (simp add: finish_secret_def swap)
qed

text \<open>The two lists of options the program passes.\<close>

definition program_options :: "machinery \<Rightarrow> secret_option list set" where
  "program_options M = {[], [immutable, with_deletion_prevention M]}"

definition options_hold :: "machinery \<Rightarrow> secret_option list \<Rightarrow> secret \<Rightarrow> bool" where
  "options_hold M opts s = (opts \<noteq> [] \<longrightarrow> s_immutable s = Some True
     \<and> add_finalizer M (m_finalizers (s_meta s)) DeletionPrevention = m_finalizers (s_meta s))"

lemma apply_options_again:
  assumes "opts \<in> program_options M" and "options_hold M opts w"
  shows "apply_options opts w = Inr w"
  using assms by (auto simp: program_options_def options_hold_def immutable_def with_deletion_prevention_def)

lemma apply_options_hold:
  assumes "opts \<in> program_options M" and "machinery_laws M" and "apply_options opts s = Inr s'"
  shows "options_hold M opts s'"
  using assms by (auto simp: program_options_def options_hold_def immutable_def with_deletion_prevention_def
      machinery_lawsD)

lemma label_keys [simp]:
  "LabelSecretType \<noteq> LabelSecretJWTType" "LabelSecretType \<noteq> LabelSecretSeedType" "LabelSecretType \<noteq> LabelSubject"
  "LabelSecretType \<noteq> LabelOperatorName" "LabelSecretType \<noteq> LabelSigningKeyName"
  "LabelSecretType \<noteq> LabelAccountName" "LabelSecretType \<noteq> LabelUserName"
  "LabelSecretJWTType \<noteq> LabelSecretType" "LabelSecretJWTType \<noteq> LabelSubject"
  "LabelSecretJWTType \<noteq> LabelOperatorName" "LabelSecretJWTType \<noteq> LabelAccountName" "LabelSecretJWTType \<noteq> LabelUserName"
  "LabelSecretSeedType \<noteq> LabelOperatorName" "LabelSecretSeedType \<noteq> LabelSigningKeyName"
  "LabelSecretSeedType \<noteq> LabelAccountName" "LabelSecretSeedType \<noteq> LabelUserName"
  "LabelSubject \<noteq> LabelSecretType" "LabelSubject \<noteq> LabelSecretJWTType" "LabelSubject \<noteq> LabelSecretSeedType"
  "LabelSubject \<noteq> LabelOperatorName" "LabelSubject \<noteq> LabelSigningKeyName"
  "LabelSubject \<noteq> LabelAccountName" "LabelSubject \<noteq> LabelUserName"
  by (simp_all add: label_defs)

text \<open>
  What the type switch of a builder takes from the owner: the secret's name, the value of the
  type label, the key of the owner label and the owner's name.
\<close>

fun jwt_owner :: "client_object \<Rightarrow> (string \<times> string \<times> string \<times> string) option" where
  "jwt_owner (ObjOperator v) =
     Some (op_jwt_secret_name (op_spec v), LabelSecretTypeOperator, LabelOperatorName, m_name (op_meta v))"
| "jwt_owner (ObjAccount v) =
     Some (acc_jwt_secret_name (acc_spec v), LabelSecretTypeAccount, LabelAccountName, m_name (acc_meta v))"
| "jwt_owner (ObjUser v) =
     Some (usr_jwt_secret_name (usr_spec v), LabelSecretTypeUser, LabelUserName, m_name (usr_meta v))"
| "jwt_owner _ = None"

fun seed_owner :: "client_object \<Rightarrow> (string \<times> string \<times> string \<times> string) option" where
  "seed_owner (ObjOperator v) =
     Some (op_seed_secret_name (op_spec v), LabelSecretTypeOperator, LabelOperatorName, m_name (op_meta v))"
| "seed_owner (ObjSigningKey v) =
     Some (sk_seed_secret_name (sk_spec v), LabelSecretTypeSigningKey, LabelSigningKeyName, m_name (sk_meta v))"
| "seed_owner (ObjAccount v) =
     Some (acc_seed_secret_name (acc_spec v), LabelSecretTypeAccount, LabelAccountName, m_name (acc_meta v))"
| "seed_owner (ObjUser v) =
     Some (usr_seed_secret_name (usr_spec v), LabelSecretTypeUser, LabelUserName, m_name (usr_meta v))"
| "seed_owner _ = None"

text \<open>The secrets that \<open>Build\<close> promises.\<close>

definition owned_secret ::
  "client_object \<Rightarrow> (string \<times> string \<times> string \<times> string) option \<Rightarrow> string \<Rightarrow> secret \<Rightarrow> bool" where
  "owned_secret ob owner type_key s = (\<exists>name ty key owner_name. owner = Some (name, ty, key, owner_name)
     \<and> m_name (s_meta s) = name \<and> m_namespace (s_meta s) = m_namespace (object_get_meta ob)
     \<and> secret_label s type_key = Some ty \<and> secret_label s key = Some owner_name)"

definition jwt_secret_meant :: "client_object \<Rightarrow> string \<Rightarrow> secret \<Rightarrow> bool" where
  "jwt_secret_meant ob jwt s = (owned_secret ob (jwt_owner ob) LabelSecretJWTType s
     \<and> secret_label s LabelSecretType = Some LabelSecretTypeJWT
     \<and> s_data s = fmupd NatsSecretJWTKey jwt fmempty)"

definition key_pair_secret_meant :: "client_object \<Rightarrow> keypair \<Rightarrow> secret \<Rightarrow> bool" where
  "key_pair_secret_meant ob kp s = (\<exists>seed pk. kp_seed kp = Inr seed \<and> kp_public_key kp = Inr pk
     \<and> owned_secret ob (seed_owner ob) LabelSecretSeedType s
     \<and> secret_label s LabelSecretType = Some LabelSecretTypeSeed \<and> secret_label s LabelSubject = Some pk
     \<and> s_data s = fmupd NatsSecretPublicKeyKey pk (fmupd NatsSecretSeedKey seed fmempty))"

lemma jwt_secret_build_Inr:
  assumes "jwt_secret_build M b ob jwt opts = Inr w"
  obtains s n ty key own where "apply_options opts b = Inr s" "jwt_owner ob = Some (n, ty, key, own)"
    "finish_secret M ob (fmupd NatsSecretJWTKey jwt fmempty)
       (set_label key own (set_label LabelSecretJWTType ty (set_name n
         (set_label LabelSecretType LabelSecretTypeJWT s)))) = Inr w"
  using assms by (auto simp: jwt_secret_build_def Let_def split: sum.splits client_object.splits)

lemma key_pair_secret_build_Inr:
  assumes "key_pair_secret_build M b ob kp opts = Inr w"
  obtains s n ty key own seed pk where "apply_options opts b = Inr s" "seed_owner ob = Some (n, ty, key, own)"
    "kp_seed kp = Inr seed" "kp_public_key kp = Inr pk"
    "finish_secret M ob (fmupd NatsSecretPublicKeyKey pk (fmupd NatsSecretSeedKey seed fmempty))
       (set_label key own (set_label LabelSecretSeedType ty (set_name n
         (set_label LabelSubject pk (set_label LabelSecretType LabelSecretTypeSeed s))))) = Inr w"
  using assms by (auto simp: key_pair_secret_build_def Let_def split: sum.splits client_object.splits)

lemma jwt_owner_keys:
  "jwt_owner ob = Some (n, ty, key, own) \<Longrightarrow> LabelSecretType \<noteq> key \<and> LabelSecretJWTType \<noteq> key"
  by (cases ob) (auto simp: label_defs)

lemma seed_owner_keys:
  "seed_owner ob = Some (n, ty, key, own) \<Longrightarrow>
     LabelSecretType \<noteq> key \<and> LabelSecretSeedType \<noteq> key \<and> LabelSubject \<noteq> key"
  by (cases ob) (auto simp: label_defs)

lemma options_hold_finish:
  assumes "options_hold M opts s" and "finish_secret M ob d s' = Inr w"
    and "m_finalizers (s_meta s') = m_finalizers (s_meta s)" and "s_immutable s' = s_immutable s"
  shows "options_hold M opts w"
  using assms finish_secret_facts [OF assms(2)] by (simp add: options_hold_def)

lemma jwt_secret_build_eq:
  "apply_options opts b = Inr s \<Longrightarrow> jwt_owner ob = Some (n, ty, key, own) \<Longrightarrow>
     jwt_secret_build M b ob jwt opts = finish_secret M ob (fmupd NatsSecretJWTKey jwt fmempty)
       (set_label key own (set_label LabelSecretJWTType ty (set_name n
         (set_label LabelSecretType LabelSecretTypeJWT s))))"
  by (cases ob) (auto simp: jwt_secret_build_def Let_def)

lemma key_pair_secret_build_eq:
  "apply_options opts b = Inr s \<Longrightarrow> seed_owner ob = Some (n, ty, key, own) \<Longrightarrow>
   kp_seed kp = Inr seed \<Longrightarrow> kp_public_key kp = Inr pk \<Longrightarrow>
     key_pair_secret_build M b ob kp opts =
     finish_secret M ob (fmupd NatsSecretPublicKeyKey pk (fmupd NatsSecretSeedKey seed fmempty))
       (set_label key own (set_label LabelSecretSeedType ty (set_name n
         (set_label LabelSubject pk (set_label LabelSecretType LabelSecretTypeSeed s)))))"
  by (cases ob) (auto simp: key_pair_secret_build_def Let_def)

interpretation jwt_builder: secret_builder "machinery_laws M \<and> opts \<in> program_options M"
  "\<lambda>s. jwt_secret_build M s ob jwt opts" "jwt_secret_meant ob jwt"
  for M opts ob jwt
proof
  fix b w
  assume "jwt_secret_build M b ob jwt opts = Inr w"
  then obtain s n ty key own where opt: "apply_options opts b = Inr s"
    and own: "jwt_owner ob = Some (n, ty, key, own)"
    and fin: "finish_secret M ob (fmupd NatsSecretJWTKey jwt fmempty)
       (set_label key own (set_label LabelSecretJWTType ty (set_name n
         (set_label LabelSecretType LabelSecretTypeJWT s)))) = Inr w"
    by (rule jwt_secret_build_Inr)
  note facts = finish_secret_facts [OF fin] and keys = jwt_owner_keys [OF own]
  from facts own keys show "jwt_secret_meant ob jwt w"
    by (auto simp: jwt_secret_meant_def owned_secret_def)
  assume laws: "machinery_laws M \<and> opts \<in> program_options M"
  have "options_hold M opts s" using laws opt by (blast intro: apply_options_hold)
  then have "apply_options opts w = Inr w"
    using laws fin by (intro apply_options_again) (auto intro: options_hold_finish)
  moreover have "set_label key own (set_label LabelSecretJWTType ty (set_name n
      (set_label LabelSecretType LabelSecretTypeJWT w))) = w"
    using facts keys by (simp add: set_label_id set_name_id)
  ultimately show "jwt_secret_build M w ob jwt opts = Inr w"
    using laws fin by (simp add: jwt_secret_build_eq [OF _ own] finish_secret_again)
qed

interpretation key_pair_builder: secret_builder "machinery_laws M \<and> opts \<in> program_options M"
  "\<lambda>s. key_pair_secret_build M s ob kp opts" "key_pair_secret_meant ob kp"
  for M opts ob kp
proof
  fix b w
  assume "key_pair_secret_build M b ob kp opts = Inr w"
  then obtain s n ty key own seed pk where opt: "apply_options opts b = Inr s"
    and own: "seed_owner ob = Some (n, ty, key, own)" and kp: "kp_seed kp = Inr seed" "kp_public_key kp = Inr pk"
    and fin: "finish_secret M ob (fmupd NatsSecretPublicKeyKey pk (fmupd NatsSecretSeedKey seed fmempty))
       (set_label key own (set_label LabelSecretSeedType ty (set_name n
         (set_label LabelSubject pk (set_label LabelSecretType LabelSecretTypeSeed s))))) = Inr w"
    by (rule key_pair_secret_build_Inr)
  note facts = finish_secret_facts [OF fin] and keys = seed_owner_keys [OF own]
  from facts own keys kp show "key_pair_secret_meant ob kp w"
    by (auto simp: key_pair_secret_meant_def owned_secret_def)
  assume laws: "machinery_laws M \<and> opts \<in> program_options M"
  have "options_hold M opts s" using laws opt by (blast intro: apply_options_hold)
  then have "apply_options opts w = Inr w"
    using laws fin by (intro apply_options_again) (auto intro: options_hold_finish)
  moreover have "set_label key own (set_label LabelSecretSeedType ty (set_name n
      (set_label LabelSubject pk (set_label LabelSecretType LabelSecretTypeSeed w)))) = w"
    using facts keys by (simp add: set_label_id set_name_id)
  ultimately show "key_pair_secret_build M w ob kp opts = Inr w"
    using laws fin by (simp add: key_pair_secret_build_eq [OF _ own kp] finish_secret_again)
qed

definition credential_secret_meant :: "'x env \<Rightarrow> user \<Rightarrow> string \<Rightarrow> string \<Rightarrow> string \<Rightarrow> secret \<Rightarrow> bool" where
  "credential_secret_meant E usr ujwt seed ca s =
     (\<exists>creds. format_user_config (e_jwt E) ujwt seed = Inr creds
       \<and> m_name (s_meta s) = usr_credentials_secret_name (usr_spec usr)
       \<and> m_namespace (s_meta s) = m_namespace (usr_meta usr)
       \<and> secret_label s LabelSubject = Some (subject_of_seed (e_nkeys E) seed)
       \<and> secret_label s LabelSecretType = Some LabelSecretTypeCredentials
       \<and> secret_label s LabelSecretJWTType = Some LabelSecretTypeUser
       \<and> s_data s = fmupd NatsCAKey ca (fmupd NatsSecretCredsKey creds fmempty))"

interpretation credential_builder: secret_builder "machinery_laws (e_mach E)"
  "\<lambda>s. user_credential_secret_build E (new_user_credential_secret_builder_from_secret s ca) usr ujwt seed"
  "credential_secret_meant E usr ujwt seed ca"
  for E :: "'x env" and ca usr ujwt seed
proof
  fix b w
  let ?stamp = "\<lambda>s. set_label LabelSecretJWTType LabelSecretTypeUser
      (set_label LabelSecretType LabelSecretTypeCredentials
        (set_label LabelSubject (subject_of_seed (e_nkeys E) seed)
          (set_name (usr_credentials_secret_name (usr_spec usr)) s)))"
  assume "user_credential_secret_build E (new_user_credential_secret_builder_from_secret b ca) usr ujwt seed = Inr w"
  then obtain creds where creds: "format_user_config (e_jwt E) ujwt seed = Inr creds"
    and fin: "finish_secret (e_mach E) (ObjUser usr) (fmupd NatsCAKey ca (fmupd NatsSecretCredsKey creds fmempty))
      (?stamp b) = Inr w"
    by (auto simp: user_credential_secret_build_def new_user_credential_secret_builder_from_secret_def
        split: sum.splits)
  note facts = finish_secret_facts [OF fin]
  from facts creds show "credential_secret_meant E usr ujwt seed ca w"
    by (auto simp: credential_secret_meant_def)
  assume laws: "machinery_laws (e_mach E)"
  have "?stamp w = w" using facts by (simp add: set_label_id set_name_id)
  then show "user_credential_secret_build E (new_user_credential_secret_builder_from_secret w ca) usr ujwt seed = Inr w"
    using creds finish_secret_again [OF laws fin]
    by (simp add: user_credential_secret_build_def new_user_credential_secret_builder_from_secret_def)
qed

section \<open>Properties\<close>

text \<open>A machinery for concrete runs, as controller-runtime documents it.\<close>

definition sample_scheme :: "gvk \<Rightarrow> error + scheme_object" where
  "sample_scheme g = (if gvk_kind g = ''Operator'' then Inr (NewObject KindOperator)
     else if gvk_kind g = ''Account'' then Inr (NewObject KindAccount)
     else if gvk_kind g = ''SigningKey'' then Inr (NewObject KindSigningKey)
     else if gvk_kind g = ''User'' then Inr (NewObject KindUser)
     else Inl (ErrorString ''no kind is registered''))"

definition plain_machinery :: machinery where
  "plain_machinery = \<lparr>scheme_new = sample_scheme,
     set_controller_reference = (\<lambda>ob m. Inr [\<lparr>or_api_version = [], or_kind = gvk_kind (object_get_gvk ob),
        or_name = m_name (object_get_meta ob), or_uid = m_uid (object_get_meta ob)\<rparr>]),
     contains_finalizer = (\<lambda>fs f. f \<in> set fs), add_finalizer = (\<lambda>fs f. if f \<in> set fs then fs else fs @ [f]),
     remove_finalizer = (\<lambda>fs f. filter (\<lambda>g. g \<noteq> f) fs),
     label_selector_as_selector = (\<lambda>s. Inr \<lparr>sel_matches = (\<lambda>l. match_labels s = l), sel_empty = False, sel_string = ''s''\<rparr>),
     labels_everything = \<lparr>sel_matches = (\<lambda>_. True), sel_empty = True, sel_string = []\<rparr>,
     gvk_string = gvk_kind, from_api_version_and_kind = (\<lambda>a k. \<lparr>gvk_group = [], gvk_version = a, gvk_kind = k\<rparr>),
     to_api_version_and_kind = (\<lambda>g. (gvk_version g, gvk_kind g))\<rparr>"

lemma plain_machinery_laws: "machinery_laws plain_machinery"
  by (simp add: machinery_laws_def plain_machinery_def)

text \<open>The seed secret converges. A secret built from an existing one has the name, namespace and
  labels of its owner and carries the key pair's seed and public key; and, with the machinery as
  documented, building it again from the result gives the result, so the reconciler's comparison
  finds nothing to update the second time.\<close>

theorem key_pair_secret_converges:
  assumes "key_pair_secret_build M got ob kp opts = Inr want"
  shows "key_pair_secret_meant ob kp want
    \<and> (machinery_laws M \<and> opts \<in> program_options M \<longrightarrow> key_pair_secret_build M want ob kp opts = Inr want)"
  using key_pair_builder.build_meant [OF assms] key_pair_builder.build_again [OF _ assms] by blast

definition sample_account :: account where
  "sample_account = \<lparr>acc_gvk = group_version_with_kind ''Account'',
     acc_meta = empty_meta\<lparr>m_name := ''acc'', m_namespace := ''ns'', m_uid := ''u1''\<rparr>,
     acc_spec = \<lparr>acc_issuer = \<lparr>issuer_ref = \<lparr>tor_api_version = [], tor_kind = ''Operator'', tor_name = ''op'',
         tor_namespace = [], tor_uid = []\<rparr>\<rparr>, users_namespace_selector = None, users_selector = None,
       acc_jwt_secret_name = ''jwt'', acc_seed_secret_name = ''seed'', acc_signing_keys_selector = None,
       acc_imports = [], acc_exports = [], acc_limits = None\<rparr>,
     acc_status = \<lparr>accs_status = \<lparr>st_conditions = []\<rparr>, accs_key_pair = None, accs_signing_keys = [],
       accs_operator_ref = None\<rparr>\<rparr>"

definition sample_key :: keypair where
  "sample_key = \<lparr>kp_seed = Inr ''SA'', kp_public_key = Inr ''A''\<rparr>"

theorem key_pair_secret_converges_witness:
  "\<exists>want. key_pair_secret_build plain_machinery empty_secret (ObjAccount sample_account) sample_key
       [immutable, with_deletion_prevention plain_machinery] = Inr want
     \<and> key_pair_secret_meant (ObjAccount sample_account) sample_key want
     \<and> key_pair_secret_build plain_machinery want (ObjAccount sample_account) sample_key
       [immutable, with_deletion_prevention plain_machinery] = Inr want"
proof -
  obtain want where want: "key_pair_secret_build plain_machinery empty_secret (ObjAccount sample_account) sample_key
       [immutable, with_deletion_prevention plain_machinery] = Inr want"
    by (simp add: key_pair_secret_build_def sample_key_def immutable_def with_deletion_prevention_def
        finish_secret_def plain_machinery_def Let_def)
  from key_pair_secret_converges [OF this] plain_machinery_laws show ?thesis
    by (auto simp: want program_options_def)
qed

text \<open>The JWT secret converges in the same way: a built secret belongs to the object and carries
  exactly the token, and building it again from the result changes nothing.\<close>

theorem jwt_secret_converges:
  assumes "jwt_secret_build M got ob jwt opts = Inr want"
  shows "jwt_secret_meant ob jwt want
    \<and> (machinery_laws M \<and> opts \<in> program_options M \<longrightarrow> jwt_secret_build M want ob jwt opts = Inr want)"
  using jwt_builder.build_meant [OF assms] jwt_builder.build_again [OF _ assms] by blast

theorem jwt_secret_converges_witness:
  "\<exists>want. jwt_secret_build plain_machinery empty_secret (ObjAccount sample_account) ''token'' [] = Inr want
     \<and> jwt_secret_meant (ObjAccount sample_account) ''token'' want
     \<and> jwt_secret_build plain_machinery want (ObjAccount sample_account) ''token'' [] = Inr want"
proof -
  obtain want where want: "jwt_secret_build plain_machinery empty_secret (ObjAccount sample_account) ''token'' [] = Inr want"
    by (simp add: jwt_secret_build_def finish_secret_def plain_machinery_def Let_def)
  from jwt_secret_converges [OF this] plain_machinery_laws show ?thesis
    by (auto simp: want program_options_def)
qed

end
