(* ===== verification/Samples.thy ===== *)
theory Samples
  imports Secrets
begin

text \<open>
  Concrete libraries and a concrete cluster, for the instances that show that the hypotheses of
  the properties can hold. The cluster of \<open>sample_kube\<close> is empty and accepts every write; a
  scenario replaces the functions it needs. Seeds start with the letter of their kind, tokens name
  their subject. No property depends on this theory.
\<close>

definition missing :: error where
  "missing = StatusError NotFound ''not found''"

lemma missing_not_found [simp]: "is_not_found missing"
  by (simp add: missing_def is_not_found_def)

definition sample_kube :: "unit kube" where
  "sample_kube = \<lparr>time_now = (\<lambda>x. (1, x)),
     cl_get_operator = (\<lambda>_ _ x. (Inl missing, x)), cl_get_account = (\<lambda>_ _ x. (Inl missing, x)),
     cl_get_signing_key = (\<lambda>_ _ x. (Inl missing, x)), cl_get_user = (\<lambda>_ _ x. (Inl missing, x)),
     cl_get_other = (\<lambda>_ _ _ x. (Inl missing, x)),
     cl_update_account = (\<lambda>a x. ((None, a), x)), cl_update_signing_key = (\<lambda>a x. ((None, a), x)),
     cl_update_user = (\<lambda>a x. ((None, a), x)),
     cl_status_operator = (\<lambda>a x. ((None, a), x)), cl_status_account = (\<lambda>a x. ((None, a), x)),
     cl_status_signing_key = (\<lambda>a x. ((None, a), x)), cl_status_user = (\<lambda>a x. ((None, a), x)),
     cl_create_secret = (\<lambda>s x. ((None, s), x)), cl_update_secret = (\<lambda>s x. ((None, s), x)),
     cl_delete_secret = (\<lambda>_ x. (None, x)),
     cl_list_accounts = (\<lambda>_ _ x. (Inr [], x)), cl_list_signing_keys = (\<lambda>_ _ x. (Inr [], x)),
     cl_list_users = (\<lambda>_ _ x. (Inr [], x)),
     cs_get_secret = (\<lambda>_ _ x. (Inl missing, x)), cs_create_secret = (\<lambda>_ _ x. (None, x)),
     cs_update_secret = (\<lambda>_ _ x. (None, x)), cs_get_namespace = (\<lambda>_ x. (Inl missing, x)),
     cs_get_operator = (\<lambda>_ _ x. (Inl missing, x)), cs_get_account = (\<lambda>_ _ x. (Inl missing, x)),
     cs_list_signing_keys = (\<lambda>_ _ x. (Inr [], x))\<rparr>"

definition key_of_seed :: "string \<Rightarrow> keypair" where
  "key_of_seed seed = \<lparr>kp_seed = Inr seed, kp_public_key = Inr (''pub-'' @ seed)\<rparr>"

lemma key_of_seed_sel [simp]:
  "kp_seed (key_of_seed seed) = Inr seed" "kp_public_key (key_of_seed seed) = Inr (''pub-'' @ seed)"
  by (simp_all add: key_of_seed_def)

definition sample_nkeys :: "unit nkeys_lib" where
  "sample_nkeys = \<lparr>create_operator_key = (\<lambda>x. (Inr (key_of_seed ''O''), x)),
     create_account_key = (\<lambda>x. (Inr (key_of_seed ''A''), x)),
     create_user_key = (\<lambda>x. (Inr (key_of_seed ''U''), x)),
     from_seed = (\<lambda>s. Inr (key_of_seed s)),
     decode_seed = (\<lambda>s. Inr (if s = ''O'' then 1 else 2)),
     parse_decorated_nkey = (\<lambda>s. Inr (key_of_seed s)),
     prefix_string = (\<lambda>_. ''prefix''), PrefixByteOperator = 1, PrefixByteAccount = 2\<rparr>"

definition sample_data :: "string \<Rightarrow> claims_data" where
  "sample_data subject = \<lparr>cd_audience = [], cd_expires = 0, cd_id = [], cd_issued_at = 0, cd_issuer = [],
     cd_name = [], cd_not_before = 0, cd_subject = subject\<rparr>"

definition no_nats_limits :: jwt_nats_limits where
  "no_nats_limits = \<lparr>jn_subs = -1, jn_data = -1, jn_payload = -1\<rparr>"

definition sample_jwt :: "unit jwt_lib" where
  "sample_jwt = \<lparr>new_operator_claims = (\<lambda>s. \<lparr>oc_data = sample_data s,
       oc_operator = \<lparr>jop_signing_keys = [], jop_account_server_url = [], jop_operator_service_urls = [],
         jop_system_account = [], jop_type = [], jop_rest = []\<rparr>\<rparr>),
     new_account_claims = (\<lambda>s. \<lparr>ac_data = sample_data s, ac_imports = [], ac_exports = [],
       ac_limits = \<lparr>jo_nats = no_nats_limits, jo_account = \<lparr>ja_imports = -1, ja_exports = -1,
           ja_wildcard_exports = True, ja_disallow_bearer = False, ja_conn = -1, ja_leaf_node_conn = -1\<rparr>,
         jo_jetstream = \<lparr>js_memory_storage = 0, js_disk_storage = 0, js_streams = 0, js_consumer = 0,
           js_max_ack_pending = 0, js_memory_max_stream_bytes = 0, js_disk_max_stream_bytes = 0,
           js_max_bytes_required = False\<rparr>, jo_rest = []\<rparr>,
       ac_signing_keys = fmempty, ac_rest = []\<rparr>),
     new_user_claims = (\<lambda>s. \<lparr>uc_data = sample_data s,
       uc_permission_limits = \<lparr>upl_permissions = \<lparr>jps_pub = \<lparr>jp_allow = [], jp_deny = []\<rparr>,
           jps_sub = \<lparr>jp_allow = [], jp_deny = []\<rparr>, jps_resp = None\<rparr>,
         upl_limits = \<lparr>jl_src = [], jl_times = [], jl_locale = [], jl_nats = no_nats_limits\<rparr>,
         upl_bearer_token = False, upl_allowed_connection_types = []\<rparr>,
       uc_issuer_account = [], uc_rest = []\<rparr>),
     new_generic_claims = (\<lambda>s. \<lparr>gc_data = sample_data s, gc_map = fmempty\<rparr>),
     encode_operator = (\<lambda>c _ x. (Inr (c, ''jwt-'' @ cd_subject (oc_data c)), x)),
     encode_account = (\<lambda>c _ x. (Inr (c, ''jwt-'' @ cd_subject (ac_data c)), x)),
     encode_user = (\<lambda>c _ x. (Inr (c, ''jwt-'' @ cd_subject (uc_data c)), x)),
     encode_generic = (\<lambda>c _ x. (Inr (c, ''jwt-'' @ cd_subject (gc_data c)), x)),
     jwt_decode = (\<lambda>_. Inl (ErrorString ''no token'')),
     decode_operator_claims = (\<lambda>_. Inl (ErrorString ''no token'')),
     imports_add = (\<lambda>is js. is @ js),
     signing_keys_add = (\<lambda>k m. fmupd k [] m),
     OperatorClaim = ''operator'',
     format_user_config = (\<lambda>j s. Inr (j @ s))\<rparr>"

definition sample_nats :: "unit nats_lib" where
  "sample_nats = \<lparr>opt_user_jwt_and_seed = (\<lambda>j s o'. Inr (o'\<lparr>no_user_jwt := Some (j, s)\<rparr>)),
     opt_name = (\<lambda>n o'. Inr (o'\<lparr>no_name := n\<rparr>)),
     certs_from_pem = Some,
     nats_connect = (\<lambda>_ _ x. (Inr 0, x)),
     nats_request = (\<lambda>_ _ _ x. (Inr ''ok'', x)),
     nats_close = (\<lambda>_ x. x),
     unmarshal_update_response = (\<lambda>_. Inr \<lparr>ur_server = \<lparr>si_name = [], si_host = [], si_id = [], si_cluster = [],
         si_domain = [], si_version = [], si_tags = [], si_seq = 0, si_jetstream = False, si_time = 0\<rparr>,
       ur_error = None, ur_data = \<lparr>urd_code = 200, urd_message = [], urd_account = []\<rparr>\<rparr>)\<rparr>"

definition by_name_order :: "(string, signing_key_embedded_status) fmap \<Rightarrow> signing_key_embedded_status list" where
  "by_name_order m = map (\<lambda>n. the (fmlookup m n)) (sorted_list_of_set (fmdom' m))"

definition sample_env :: "unit env" where
  "sample_env = \<lparr>e_kube = sample_kube, e_mach = plain_machinery,
     e_nkeys = sample_nkeys, e_jwt = sample_jwt, e_nats = sample_nats, e_range = by_name_order\<rparr>"

definition start :: "'o \<Rightarrow> (unit, 'o) st" where
  "start ob = \<lparr>ext = (), cur = ob, trace = []\<rparr>"

lemmas sample_defs = sample_env_def sample_kube_def sample_nkeys_def sample_jwt_def sample_nats_def

end
