(* ===== verification/Claims.thy ===== *)
theory Claims
  imports Samples
begin

text \<open>
  pkg/nsc: from the specs of the resources to JWT claims (conversions.go, helpers.go,
  createoperator.go, createaccount.go, createuser.go) and the equality that decides whether a
  stored JWT is still good (equality.go).

  The claims a library constructor returns, adding to them and encoding them are parameters;
  encoding takes the claims and returns them as it left them (it sets the issuer, the ID and the
  time of issue), together with the token.
\<close>

section \<open>Conversions\<close>

definition get_default_from_ptr :: "'a option \<Rightarrow> 'a \<Rightarrow> 'a" where
  "get_default_from_ptr v d = (case v of None \<Rightarrow> d | Some a \<Rightarrow> a)"

definition convert_to_nats_export_type :: "string \<Rightarrow> export_type" where
  "convert_to_nats_export_type t =
     (if t = ImportExportTypeStream then Stream
      else if t = ImportExportTypeService then Service
      else Unknown)"

definition convert_to_nats_service_latency :: "account_service_latency option \<Rightarrow> service_latency option" where
  "convert_to_nats_service_latency latency = (case latency of
       None \<Rightarrow> None
     | Some l \<Rightarrow> Some \<lparr>sl_sampling = asl_sampling l, sl_results = asl_results l\<rparr>)"

definition convert_to_nats_response_type :: "string \<Rightarrow> jwt_response_type" where
  "convert_to_nats_response_type t =
     (if t = ResponseTypeSingleton then ResponseSingleton
      else if t = ResponseTypeStream then ResponseStream
      else if t = ResponseTypeChunked then ResponseChunked
      else NoResponseType)"

definition convert_to_nats_imports :: "'x jwt_lib \<Rightarrow> account_import list \<Rightarrow> jwt_import list" where
  "convert_to_nats_imports J imports = imports_add J []
     (map (\<lambda>i. \<lparr>ji_name = imp_name i, ji_subject = imp_subject i, ji_account = imp_account i,
                ji_token = imp_token i, ji_to = imp_to i,
                ji_type = convert_to_nats_export_type (imp_type i), ji_rest = []\<rparr>) imports)"

definition convert_to_nats_exports :: "account_export list \<Rightarrow> jwt_export list" where
  "convert_to_nats_exports exports =
     map (\<lambda>e. \<lparr>je_name = exp_name e, je_subject = exp_subject e,
               je_type = convert_to_nats_export_type (exp_type e), je_token_req = exp_token_req e,
               je_response_type = convert_to_nats_response_type (exp_response_type e),
               je_latency = convert_to_nats_service_latency (exp_service_latency e),
               je_account_token_position = exp_account_token_position e, je_rest = []\<rparr>) exports"

definition convert_to_nats_limits :: "nats_limits \<Rightarrow> jwt_nats_limits \<Rightarrow> jwt_nats_limits" where
  "convert_to_nats_limits i d =
     \<lparr>jn_subs = get_default_from_ptr (nl_subs i) (jn_subs d),
      jn_data = get_default_from_ptr (nl_data i) (jn_data d),
      jn_payload = get_default_from_ptr (nl_payload i) (jn_payload d)\<rparr>"

definition convert_to_account_limits :: "account_limits \<Rightarrow> jwt_account_limits \<Rightarrow> jwt_account_limits" where
  "convert_to_account_limits i d =
     \<lparr>ja_imports = get_default_from_ptr (al_imports i) (ja_imports d),
      ja_exports = get_default_from_ptr (al_exports i) (ja_exports d),
      ja_wildcard_exports = get_default_from_ptr (al_wildcard_exports i) (ja_wildcard_exports d),
      ja_disallow_bearer = al_disallow_bearer i,
      ja_conn = get_default_from_ptr (al_conn i) (ja_conn d),
      ja_leaf_node_conn = get_default_from_ptr (al_leaf_node_conn i) (ja_leaf_node_conn d)\<rparr>"

definition convert_to_nats_time_ranges :: "start_end_time list \<Rightarrow> time_range list" where
  "convert_to_nats_time_ranges ts = map (\<lambda>v. \<lparr>tr_start = set_start v, tr_end = set_end v\<rparr>) ts"

section \<open>Operator claims\<close>

definition read_clock :: "'x env \<Rightarrow> (('x, 'o) st, int) go" where
  "read_clock E = with_clock (\<lambda>(_, x). time_now (e_kube E) x) 0"

definition set_data_name :: "string \<Rightarrow> claims_data \<Rightarrow> claims_data" where
  "set_data_name n d = d\<lparr>cd_name := n\<rparr>"

text \<open>The claims \<open>CreateOperatorClaims\<close> encodes, at the time \<open>t\<close> in nanoseconds.\<close>

definition operator_claims_of ::
  "'x jwt_lib \<Rightarrow> operator \<Rightarrow> key_pair \<Rightarrow> key_pair_reference \<Rightarrow> int \<Rightarrow> operator_claims" where
  "operator_claims_of J resource kp sys t =
     (let claims = new_operator_claims J (public_key kp)
      in claims\<lparr>oc_data := (set_data_name (m_name (op_meta resource)) (oc_data claims))\<lparr>cd_issued_at := t div second\<rparr>,
                oc_operator := \<lparr>
                  jop_signing_keys = map (\<lambda>sk. public_key (ske_key_pair sk)) (ops_signing_keys (op_status resource)),
                  jop_account_server_url = account_server_url (op_spec resource),
                  jop_operator_service_urls = operator_service_urls (op_spec resource),
                  jop_system_account = kpr_public_key sys,
                  jop_type = OperatorClaim J,
                  jop_rest = []\<rparr>\<rparr>)"

definition create_operator_claims ::
  "'x env \<Rightarrow> operator \<Rightarrow> keypair \<Rightarrow> (('x, 'o) st, error + operator_claims \<times> string) go" where
  "create_operator_claims E resource signing =
     (case ops_resolved_system_account (op_status resource) of
        None \<Rightarrow> ret (Inl (errorf ''cannot create operator without a resolved system account'' []))
      | Some sys \<Rightarrow>
          (case ops_key_pair (op_status resource) of
             None \<Rightarrow> ret (Inl (errorf ''cannot create operator without a key pair'' []))
           | Some kp \<Rightarrow>
               bind (read_clock E) (\<lambda>t.
               bind (external (encode_operator (e_jwt E) (operator_claims_of (e_jwt E) resource kp sys t) signing)
                      (\<lambda>r. JwtEncode (public_key kp) signing (map_sum id snd r))) (\<lambda>r.
               case r of
                 Inl e \<Rightarrow> ret (Inl (errorf ''failed to encode operator claims: %w'' [AErr e]))
               | Inr (claims, ojwt) \<Rightarrow> ret (Inr (claims, ojwt))))))"

section \<open>Account claims\<close>

definition account_claims_of :: "'x jwt_lib \<Rightarrow> account \<Rightarrow> key_pair \<Rightarrow> account_claims" where
  "account_claims_of J resource kp =
     (let claims = new_account_claims J (public_key kp);
          spec = acc_spec resource;
          claims = claims\<lparr>ac_data := set_data_name (m_name (acc_meta resource)) (ac_data claims),
                          ac_exports := convert_to_nats_exports (acc_exports spec),
                          ac_imports := convert_to_nats_imports J (acc_imports spec)\<rparr>;
          claims = (case acc_limits spec of
              None \<Rightarrow> claims
            | Some l \<Rightarrow> claims\<lparr>ac_limits := \<lparr>
                jo_nats = convert_to_nats_limits (ol_nats l) (jo_nats (ac_limits claims)),
                jo_account = convert_to_account_limits (ol_account l) (jo_account (ac_limits claims)),
                jo_jetstream = ol_jetstream l,
                jo_rest = []\<rparr>\<rparr>)
      in foldl (\<lambda>c sk. c\<lparr>ac_signing_keys :=
              signing_keys_add J (public_key (ske_key_pair sk)) (ac_signing_keys c)\<rparr>)
           claims (accs_signing_keys (acc_status resource)))"

definition create_account_claims ::
  "'x env \<Rightarrow> account \<Rightarrow> keypair \<Rightarrow> (('x, 'o) st, error + account_claims \<times> string) go" where
  "create_account_claims E resource signing =
     bind (deref (accs_key_pair (acc_status resource))) (\<lambda>kp.
     bind (external (encode_account (e_jwt E) (account_claims_of (e_jwt E) resource kp) signing)
            (\<lambda>r. JwtEncode (public_key kp) signing (map_sum id snd r))) (\<lambda>r.
     case r of
       Inl e \<Rightarrow> ret (Inl (errorf ''failed to encode account claims: %w'' [AErr e]))
     | Inr (claims, ajwt) \<Rightarrow> ret (Inr (claims, ajwt))))"

section \<open>User claims\<close>

definition zero_nats_limits :: jwt_nats_limits where
  "zero_nats_limits = \<lparr>jn_subs = 0, jn_data = 0, jn_payload = 0\<rparr>"

definition zero_limits :: jwt_limits where
  "zero_limits = \<lparr>jl_src = [], jl_times = [], jl_locale = [], jl_nats = zero_nats_limits\<rparr>"

definition user_permission_limits_of :: "user_permissions \<Rightarrow> user_permission_limits" where
  "user_permission_limits_of p =
     \<lparr>upl_permissions = \<lparr>jps_pub = \<lparr>jp_allow = perm_allow (up_pub p), jp_deny = perm_deny (up_pub p)\<rparr>,
                         jps_sub = \<lparr>jp_allow = perm_allow (up_sub p), jp_deny = perm_deny (up_sub p)\<rparr>,
                         jps_resp = None\<rparr>,
      upl_limits = zero_limits, upl_bearer_token = False, upl_allowed_connection_types = []\<rparr>"

text \<open>The permission limits, written in the order of the source: the permissions come last.\<close>

definition user_limits_of :: "user_spec \<Rightarrow> user_permission_limits \<Rightarrow> user_permission_limits" where
  "user_limits_of spec upl =
     (let l = usr_limits spec;
          upl = upl\<lparr>upl_limits := \<lparr>jl_src = ul_src l, jl_times = convert_to_nats_time_ranges (ul_times l),
                    jl_locale = ul_locale l,
                    jl_nats = convert_to_nats_limits (ul_nats_limits l) (jl_nats (upl_limits upl))\<rparr>\<rparr>;
          upl = (case usr_bearer_token spec of None \<Rightarrow> upl | Some b \<Rightarrow> upl\<lparr>upl_bearer_token := b\<rparr>)
      in case usr_permissions spec of
        None \<Rightarrow> upl
      | Some p \<Rightarrow>
          (let upl = user_permission_limits_of p
           in case up_resp p of
             None \<Rightarrow> upl
           | Some rp \<Rightarrow> upl\<lparr>upl_permissions := (upl_permissions upl)\<lparr>
               jps_resp := Some \<lparr>rp_max_msgs = resp_max_msgs rp, rp_expires = resp_ttl rp\<rparr>\<rparr>\<rparr>))"

definition issuer_account_of :: "account \<Rightarrow> string \<Rightarrow> string \<Rightarrow> string" where
  "issuer_account_of acc sk_pub previous = (case accs_key_pair (acc_status acc) of
       None \<Rightarrow> previous
     | Some kp \<Rightarrow> if public_key kp \<noteq> sk_pub then public_key kp else previous)"

definition user_claims_of :: "'x jwt_lib \<Rightarrow> user \<Rightarrow> account \<Rightarrow> key_pair \<Rightarrow> string \<Rightarrow> user_claims" where
  "user_claims_of J resource acc kp sk_pub =
     (let claims = new_user_claims J (public_key kp)
      in claims\<lparr>uc_data := set_data_name (m_name (usr_meta resource)) (uc_data claims),
                uc_permission_limits := user_limits_of (usr_spec resource) (uc_permission_limits claims),
                uc_issuer_account := issuer_account_of acc sk_pub (uc_issuer_account claims)\<rparr>)"

definition create_user_claims ::
  "'x env \<Rightarrow> user \<Rightarrow> account \<Rightarrow> keypair \<Rightarrow> (('x, 'o) st, error + user_claims \<times> string) go" where
  "create_user_claims E resource acc signing =
     bind (deref (usrs_key_pair (usr_status resource))) (\<lambda>kp.
     case kp_public_key signing of
       Inl e \<Rightarrow> ret (Inl (errorf ''failed to get public key from key pair: %w'' [AErr e]))
     | Inr sk_pub \<Rightarrow>
         bind (external (encode_user (e_jwt E) (user_claims_of (e_jwt E) resource acc kp sk_pub) signing)
                (\<lambda>r. JwtEncode (public_key kp) signing (map_sum id snd r))) (\<lambda>r.
         case r of
           Inl e \<Rightarrow> ret (Inl (errorf ''failed to encode user claims: %w'' [AErr e]))
         | Inr (claims, ujwt) \<Rightarrow> ret (Inr (claims, ujwt))))"

section \<open>Equality\<close>

definition claims_data_equal :: "claims_data \<Rightarrow> claims_data \<Rightarrow> bool" where
  "claims_data_equal a b =
     (a\<lparr>cd_id := [], cd_issued_at := 0\<rparr> = b\<lparr>cd_id := [], cd_issued_at := 0\<rparr>)"

text \<open>\<open>Equality.DeepEqual\<close>: structural, with the function above for the embedded \<open>ClaimsData\<close>.\<close>

fun claims_equal :: "claims \<Rightarrow> claims \<Rightarrow> bool" where
  "claims_equal (OperatorClaims a) (OperatorClaims b) =
     (claims_data_equal (oc_data a) (oc_data b) \<and> oc_operator a = oc_operator b)"
| "claims_equal (AccountClaims a) (AccountClaims b) =
     (claims_data_equal (ac_data a) (ac_data b) \<and> ac_imports a = ac_imports b \<and> ac_exports a = ac_exports b
      \<and> ac_limits a = ac_limits b \<and> ac_signing_keys a = ac_signing_keys b \<and> ac_rest a = ac_rest b)"
| "claims_equal (UserClaims a) (UserClaims b) =
     (claims_data_equal (uc_data a) (uc_data b) \<and> uc_permission_limits a = uc_permission_limits b
      \<and> uc_issuer_account a = uc_issuer_account b \<and> uc_rest a = uc_rest b)"
| "claims_equal (OtherClaims a) (OtherClaims b) = (a = b)"
| "claims_equal _ _ = False"

section \<open>Facts\<close>

lemma emits_create_claims [emits_rules]:
  "(\<And>s r. P (JwtEncode s kp r)) \<Longrightarrow> emits (create_operator_claims E opr kp) P"
  "(\<And>s r. P (JwtEncode s kp r)) \<Longrightarrow> emits (create_account_claims E acc kp) P"
  "(\<And>s r. P (JwtEncode s kp r)) \<Longrightarrow> emits (create_user_claims E usr acc kp) P"
  unfolding create_operator_claims_def create_account_claims_def create_user_claims_def read_clock_def
  by (intro emits_rules; assumption)+

text \<open>Claims up to the two fields that change with every encoding.\<close>

fun normal_claims :: "claims \<Rightarrow> claims" where
  "normal_claims (OperatorClaims a) = OperatorClaims (a\<lparr>oc_data := (oc_data a)\<lparr>cd_id := [], cd_issued_at := 0\<rparr>\<rparr>)"
| "normal_claims (AccountClaims a) = AccountClaims (a\<lparr>ac_data := (ac_data a)\<lparr>cd_id := [], cd_issued_at := 0\<rparr>\<rparr>)"
| "normal_claims (UserClaims a) = UserClaims (a\<lparr>uc_data := (uc_data a)\<lparr>cd_id := [], cd_issued_at := 0\<rparr>\<rparr>)"
| "normal_claims (OtherClaims a) = OtherClaims a"

lemma claims_equal_normal: "claims_equal a b \<longleftrightarrow> normal_claims a = normal_claims b"
proof (cases a; cases b)
  fix x y :: operator_claims
  assume "a = OperatorClaims x" "b = OperatorClaims y"
  then show ?thesis by (cases x; cases y) (auto simp: claims_data_equal_def)
next
  fix x y :: account_claims
  assume "a = AccountClaims x" "b = AccountClaims y"
  then show ?thesis by (cases x; cases y) (auto simp: claims_data_equal_def)
next
  fix x y :: user_claims
  assume "a = UserClaims x" "b = UserClaims y"
  then show ?thesis by (cases x; cases y) (auto simp: claims_data_equal_def)
qed simp_all

section \<open>Properties\<close>


text \<open>The issuer account of a user's claims. It is set to the public key of the account exactly
  when the user is signed by another key, a signing key of the account; signed by the account
  itself the field stays as the library made it. The subject's key and the name are the user's.\<close>

theorem user_claims_issuer_account:
  assumes "accs_key_pair (acc_status acc) = Some akp"
  shows "uc_issuer_account (user_claims_of J usr acc kp sk_pub) =
      (if public_key akp = sk_pub then uc_issuer_account (new_user_claims J (public_key kp)) else public_key akp)
    \<and> cd_name (uc_data (user_claims_of J usr acc kp sk_pub)) = m_name (usr_meta usr)"
  using assms by (simp add: user_claims_of_def issuer_account_of_def set_data_name_def Let_def)

definition samples_account :: "key_pair option \<Rightarrow> account" where
  "samples_account kp = sample_account\<lparr>acc_status := (acc_status sample_account)\<lparr>accs_key_pair := kp,
     accs_signing_keys := [\<lparr>ske_name = ''k'', ske_key_pair = \<lparr>public_key = ''pub-k'', seed_secret_name = ''s''\<rparr>\<rparr>]\<rparr>\<rparr>"

theorem user_claims_issuer_account_witness:
  "\<forall>usr. uc_issuer_account (user_claims_of sample_jwt usr
      (samples_account (Some \<lparr>public_key = ''A'', seed_secret_name = ''s''\<rparr>)) \<lparr>public_key = ''U'', seed_secret_name = ''s''\<rparr> ''pub-k'') = ''A''"
proof -
  have "accs_key_pair (acc_status (samples_account kp)) = kp" for kp by (simp add: samples_account_def)
  from user_claims_issuer_account [OF this, of sample_jwt _ "\<lparr>public_key = ''A'', seed_secret_name = ''s''\<rparr>"
      "\<lparr>public_key = ''U'', seed_secret_name = ''s''\<rparr>" "''pub-k''"]
  show ?thesis by simp
qed


definition sample_spec :: user_spec where
  "sample_spec = \<lparr>usr_issuer = \<lparr>issuer_ref = \<lparr>tor_api_version = [], tor_kind = [], tor_name = [], tor_namespace = [], tor_uid = []\<rparr>\<rparr>,
     usr_jwt_secret_name = ''j'', usr_seed_secret_name = ''s'', usr_credentials_secret_name = ''c'',
     usr_permissions = Some \<lparr>up_pub = \<lparr>perm_allow = [''a''], perm_deny = []\<rparr>, up_sub = \<lparr>perm_allow = [], perm_deny = []\<rparr>, up_resp = None\<rparr>,
     usr_limits = \<lparr>ul_nats_limits = \<lparr>nl_subs = Some 7, nl_data = None, nl_payload = None\<rparr>, ul_src = [''10.0.0.0/8''], ul_times = [], ul_locale = []\<rparr>,
     usr_bearer_token = Some True\<rparr>"


text \<open>An account's claims list the public keys of exactly the signing keys in its status (next to
  those of the new claims), and its limits are the library's defaults unless the spec has limits.
  The hypothesis is what the library documents of \<open>SigningKeys.Add\<close>: the key becomes an element.\<close>

theorem account_claims_signing_keys:
  assumes "\<And>k m. fmdom' (signing_keys_add J k m) = insert k (fmdom' m)"
  shows "fmdom' (ac_signing_keys (account_claims_of J acc kp)) =
      fmdom' (ac_signing_keys (new_account_claims J (public_key kp)))
      \<union> (\<lambda>sk. public_key (ske_key_pair sk)) ` set (accs_signing_keys (acc_status acc))
    \<and> (acc_limits (acc_spec acc) = None \<longrightarrow>
         ac_limits (account_claims_of J acc kp) = ac_limits (new_account_claims J (public_key kp)))"
proof -
  let ?add = "\<lambda>c sk. c\<lparr>ac_signing_keys := signing_keys_add J (public_key (ske_key_pair sk)) (ac_signing_keys c)\<rparr>"
  have keys: "fmdom' (ac_signing_keys (foldl ?add c sks)) =
      fmdom' (ac_signing_keys c) \<union> (\<lambda>sk. public_key (ske_key_pair sk)) ` set sks" for c :: account_claims and sks
    by (induction sks arbitrary: c) (auto simp: assms)
  have lim: "ac_limits (foldl ?add c sks) = ac_limits c" for c :: account_claims and sks
    by (induction sks arbitrary: c) auto
  show ?thesis by (simp add: account_claims_of_def Let_def keys lim split: option.split)
qed

theorem account_claims_signing_keys_witness:
  "fmdom' (ac_signing_keys (account_claims_of sample_jwt (samples_account None)
      \<lparr>public_key = ''A'', seed_secret_name = ''s''\<rparr>)) = {''pub-k''}"
proof -
  have "fmdom' (signing_keys_add sample_jwt k m) = insert k (fmdom' m)" for k m
    by (simp add: sample_jwt_def)
  from account_claims_signing_keys [OF this] show ?thesis
    by (simp add: sample_jwt_def samples_account_def)
qed

end
