(* ===== verification/Nats_Client.thy ===== *)
theory Nats_Client
  imports Claims
begin

text \<open>
  pkg/nsc: the client that pushes and deletes account JWTs on the NATS server (client.go), the
  option for a CA bundle (options.go) and the loader of the system account's seed
  (systemaccount.go). A connection is the number the library returned for it.
\<close>

section \<open>Options\<close>

text \<open>
  \<open>RootCAsCB\<close> is a closure; what it returns when the library calls it is stored in its place.
  \<open>TLSVersion12\<close> is crypto/tls's \<open>VersionTLS12\<close>.
\<close>

definition TLSVersion12 :: nat where "TLSVersion12 = 0x0303"

definition ca_bundle :: "'x nats_lib \<Rightarrow> string \<Rightarrow> nats_option" where
  "ca_bundle N cert options =
     (let rootCAsCB = (case certs_from_pem N cert of
              None \<Rightarrow> Inl (errorf ''failed to parse root certificate from bundle'' [])
            | Some pool \<Rightarrow> Inr pool);
          options = (if no_tls_min_version options = None
                     then options\<lparr>no_tls_min_version := Some TLSVersion12\<rparr> else options)
      in Inr (options\<lparr>no_root_cas := Some rootCAsCB, no_secure := True\<rparr>))"

section \<open>The client\<close>

definition RequestSubjectClaimsUpdate :: string where
  "RequestSubjectClaimsUpdate = ''$SYS.REQ.CLAIMS.UPDATE''"

definition RequestSubjectClaimsDelete :: string where
  "RequestSubjectClaimsDelete = ''$SYS.REQ.CLAIMS.DELETE''"

record nats_client =
  nc_conn :: nat
  nc_operator :: keypair
  nc_operator_subject :: string

definition make_temporary_user :: "'x env \<Rightarrow> string \<Rightarrow> (('x, 'o) st, error + string \<times> string) go" where
  "make_temporary_user E account_seed =
     (case from_seed (e_nkeys E) account_seed of
        Inl e \<Rightarrow> ret (Inl e)
      | Inr sys_kp \<Rightarrow>
          bind (create_key (create_user_key (e_nkeys E))) (\<lambda>r.
          case r of
            Inl e \<Rightarrow> ret (Inl e)
          | Inr user_kp \<Rightarrow>
              (case kp_public_key user_kp of
                 Inl e \<Rightarrow> ret (Inl e)
               | Inr user_pubkey \<Rightarrow>
                   (let claims = new_user_claims (e_jwt E) user_pubkey;
                        claims = claims\<lparr>uc_data := set_data_name ''k8s-operator-tmp-user'' (uc_data claims)\<rparr>
                    in bind (external (encode_user (e_jwt E) claims sys_kp)
                              (\<lambda>r. JwtEncode user_pubkey sys_kp (map_sum id snd r))) (\<lambda>r.
                    case r of
                      Inl e \<Rightarrow> ret (Inl e)
                    | Inr (_, ujwt) \<Rightarrow>
                        (case kp_seed user_kp of
                           Inl e \<Rightarrow> ret (Inl e)
                         | Inr user_seed \<Rightarrow> ret (Inr (ujwt, user_seed))))))))"

definition connect ::
  "'x env \<Rightarrow> string \<Rightarrow> keypair \<Rightarrow> string \<Rightarrow> nats_option list \<Rightarrow> (('x, 'o) st, error + nats_client) go" where
  "connect E url operator_kp system_account_seed opts =
     bind (make_temporary_user E system_account_seed) (\<lambda>r.
     case r of
       Inl e \<Rightarrow> ret (Inl (errorf ''failed to create temporary system account user: %w'' [AErr e]))
     | Inr (ujwt, useed) \<Rightarrow>
         (case kp_public_key operator_kp of
            Inl e \<Rightarrow> ret (Inl (errorf ''failed to get operator public key: %w'' [AErr e]))
          | Inr operator_pubkey \<Rightarrow>
              bind (external (nats_connect (e_nats E) url
                      (opts @ [opt_user_jwt_and_seed (e_nats E) ujwt useed,
                               opt_name (e_nats E) ''nats-account-operator''])) (NatsConnect url)) (\<lambda>r.
              case r of
                Inl e \<Rightarrow> ret (Inl e)
              | Inr conn \<Rightarrow> ret (Inr \<lparr>nc_conn = conn, nc_operator = operator_kp,
                                   nc_operator_subject = operator_pubkey\<rparr>))))"

definition client_do ::
  "'x env \<Rightarrow> nats_client \<Rightarrow> string \<Rightarrow> string \<Rightarrow> (('x, 'o) st, error + update_response) go" where
  "client_do E c subj data =
     bind (external (nats_request (e_nats E) (nc_conn c) subj data) (NatsRequest (nc_conn c) subj data)) (\<lambda>r.
     case r of
       Inl e \<Rightarrow> ret (Inl e)
     | Inr resp \<Rightarrow>
         (case unmarshal_update_response (e_nats E) resp of
            Inl e \<Rightarrow> ret (Inl (errorf ''failed to json unmarshal response: %w'' [AErr e]))
          | Inr reply \<Rightarrow> ret (Inr reply)))"

definition client_push :: "'x env \<Rightarrow> nats_client \<Rightarrow> string \<Rightarrow> (('x, 'o) st, error option) go" where
  "client_push E c jwt =
     bind (client_do E c RequestSubjectClaimsUpdate jwt) (\<lambda>r.
     case r of
       Inl e \<Rightarrow> ret (Some e)
     | Inr resp \<Rightarrow>
         (case ur_error resp of
            Some e \<Rightarrow> ret (Some (errorf ''nats push failed: %s'' [AStr (ei_description e)]))
          | None \<Rightarrow> ret None))"

definition client_delete :: "'x env \<Rightarrow> nats_client \<Rightarrow> string \<Rightarrow> (('x, 'o) st, error option) go" where
  "client_delete E c subject =
     (let claims = new_generic_claims (e_jwt E) (nc_operator_subject c);
          claims = claims\<lparr>gc_map := fmupd ''accounts'' [subject] (gc_map claims)\<rparr>
      in bind (external (encode_generic (e_jwt E) claims (nc_operator c))
                (\<lambda>r. JwtEncode (nc_operator_subject c) (nc_operator c) (map_sum id snd r))) (\<lambda>r.
      case r of
        Inl e \<Rightarrow> ret (Some (errorf ''failed to encode jwt with operator key pair: %w'' [AErr e]))
      | Inr (_, payload) \<Rightarrow>
          bind (client_do E c RequestSubjectClaimsDelete payload) (\<lambda>r.
          case r of
            Inl e \<Rightarrow> ret (Some e)
          | Inr resp \<Rightarrow>
              (case ur_error resp of
                 Some e \<Rightarrow> ret (Some (errorf ''nats delete failed: %s'' [AStr (ei_description e)]))
               | None \<Rightarrow> ret None))))"

definition client_close :: "'x env \<Rightarrow> nats_client \<Rightarrow> (('x, 'o) st, unit) go" where
  "client_close E c = external (\<lambda>x. ((), nats_close (e_nats E) (nc_conn c) x)) (\<lambda>_. NatsClose (nc_conn c))"

section \<open>The system account's seed\<close>

definition system_account_load :: "'x env \<Rightarrow> operator \<Rightarrow> (('x, 'o) st, error + string) go" where
  "system_account_load E opr =
     (case ops_resolved_system_account (op_status opr) of
        None \<Rightarrow> ret (Inl (errorf ''operator %s/%s does not have a resolved system account''
                  [AStr (m_namespace (op_meta opr)), AStr (m_name (op_meta opr))]))
      | Some sys \<Rightarrow>
          bind (clientset_get_account E (m_namespace (op_meta opr)) (ior_name (kpr_ref sys))) (\<lambda>r.
          case r of
            Inl e \<Rightarrow> ret (Inl e)
          | Inr acc \<Rightarrow>
              (case accs_key_pair (acc_status acc) of
                 None \<Rightarrow> ret (Inl (errorf ''system account %s/%s does not have a keypair''
                           [AStr (m_namespace (acc_meta acc)), AStr (m_name (acc_meta acc))]))
               | Some kp \<Rightarrow>
                   bind (get_secret E (m_namespace (acc_meta acc)) (seed_secret_name kp)) (\<lambda>r.
                   case r of
                     Inl e \<Rightarrow> ret (Inl e)
                   | Inr sec \<Rightarrow>
                       (case fmlookup (s_data sec) NatsSecretSeedKey of
                          None \<Rightarrow> ret (Inl (errorf ''secret %s/%s is invalid, missing field: %s''
                                    [AStr (m_namespace (s_meta sec)), AStr (m_name (s_meta sec)), AStr NatsSecretSeedKey]))
                        | Some seed \<Rightarrow> ret (Inr seed))))))"

section \<open>Facts\<close>

text \<open>
  The calls of a push and of a delete: one request on the client's connection. When the result is
  nil the server has answered without an error.
\<close>

definition accepted :: "'x env \<Rightarrow> string \<Rightarrow> string \<Rightarrow> call \<Rightarrow> bool" where
  "accepted E subj data c = (\<exists>conn reply resp. c = NatsRequest conn subj data (Inr reply)
     \<and> unmarshal_update_response (e_nats E) reply = Inr resp \<and> ur_error resp = None)"

lemma client_push_logs:
  "logs (client_push E c jwt) (\<lambda>r l. \<exists>reply. l = [NatsRequest (nc_conn c) RequestSubjectClaimsUpdate jwt reply]
     \<and> (r = Returns None \<longrightarrow> accepted E RequestSubjectClaimsUpdate jwt (hd l)))"
  by (rule logsI) (auto simp: client_push_def client_do_def accepted_def split: prod.split sum.split option.split)

lemma client_delete_logs:
  "logs (client_delete E c subject) (\<lambda>r l. r = Returns None \<longrightarrow>
     (\<exists>payload. JwtEncode (nc_operator_subject c) (nc_operator c) (Inr payload) \<in> set l
        \<and> (\<exists>call \<in> set l. accepted E RequestSubjectClaimsDelete payload call)))"
  by (rule logsI)
    (auto simp: client_delete_def client_do_def accepted_def Let_def split: prod.split sum.split option.split)

text \<open>Everything the package does apart from the two requests: it writes nothing to the cluster.\<close>

definition nats_call :: "call \<Rightarrow> bool" where
  "nats_call c = (case c of
       SecretGet _ _ _ \<Rightarrow> True | ObjectGet _ _ _ _ \<Rightarrow> True | KeyCreate _ \<Rightarrow> True | JwtEncode _ _ _ \<Rightarrow> True
     | NatsConnect _ _ \<Rightarrow> True | NatsRequest _ _ _ _ \<Rightarrow> True | NatsClose _ \<Rightarrow> True | _ \<Rightarrow> False)"

lemma nats_call_simps [simp]:
  "nats_call (SecretGet a b c)" "nats_call (ObjectGet d e f g)" "nats_call (KeyCreate h)"
  "nats_call (JwtEncode i j k)" "nats_call (NatsConnect l m)" "nats_call (NatsRequest n p q r)" "nats_call (NatsClose s)"
  by (simp_all add: nats_call_def)

lemma make_temporary_user_emits: "emits (make_temporary_user E seed) nats_call"
  unfolding make_temporary_user_def by (intro emits_rules) simp_all

lemma connect_emits: "emits (connect E url kp seed opts) nats_call"
  unfolding connect_def by (intro emits_rules make_temporary_user_emits) simp_all

lemma client_emits:
  "emits (client_push E c jwt) nats_call" "emits (client_delete E c subject) nats_call"
  "emits (client_close E c) nats_call" "emits (system_account_load E opr) nats_call"
  unfolding client_push_def client_delete_def client_close_def client_do_def system_account_load_def
  by (intro emits_rules; simp)+

end
