(* ===== verification/Lifecycle_Runs.thy ===== *)
theory Lifecycle_Runs
  imports Lifecycle
begin

text \<open>
  The life of a status under its lifecycle methods. A status is created without conditions and
  without the fields that conditions promise (\<open>lifecycle_run\<close>); every reconciliation initialises
  its conditions and calls methods. The contract of a lifecycle (\<open>status_lifecycle\<close>) is that each
  method stores its field and then marks the condition the field belongs to. Its consequence,
  proved once: in every state of such a run the happy condition summarises the others, and a field
  is set exactly when its condition is True. The controllers read \<open>Status.KeyPair\<close>,
  \<open>Status.OperatorRef\<close> and the like through pointers after looking at a condition; these facts say
  which of those reads cannot panic.
\<close>

section \<open>What a mark leaves alone\<close>

lemma get_set_ne:
  "ordered_conditions (fst st) \<Longrightarrow> t \<noteq> cond_type c \<Longrightarrow>
     get_condition t (fst (set_condition now c st)) = get_condition t (fst st)"
  by (cases st) (simp add: get_set_other)

lemma ordered_set [simp]:
  "ordered_conditions (fst st) \<Longrightarrow> ordered_conditions (fst (set_condition now c st))"
  by (cases st) (simp add: set_condition_ordered)

lemma recompute_other:
  assumes "ordered_conditions (fst st)" and "t \<noteq> happy r"
  shows "get_condition t (fst (recompute_happiness now r u st)) = get_condition t (fst st)"
  using assms by (simp add: recompute_happiness_def get_set_ne split: option.split)

lemma mark_unknown_scan_other:
  assumes "set_wf r" and "ordered_conditions (fst st)" and "t \<noteq> happy r"
  shows "get_condition t (fst (mark_unknown_scan now r u reason f as ds b st)) = get_condition t (fst st)"
  using assms by (induction ds arbitrary: b) (simp_all add: get_set_ne mark_false_happy)

lemma run_mark_other:
  assumes "set_wf r" and "ordered_conditions (fst st)"
    and "mark_target op \<in> set (dependents r)" and "t \<noteq> mark_target op" and "t \<noteq> happy r"
  shows "get_condition t (fst (run_mark now r op st)) = get_condition t (fst st)"
  using assms by (cases op)
    (simp_all add: mark_true_def mark_true_with_reason_def mark_unknown_def mark_false_dependent
      recompute_other mark_unknown_scan_other get_set_ne)

fun marks_true :: "mark_op \<Rightarrow> bool" where
  "marks_true (OpTrue _) = True"
| "marks_true (OpTrueWithReason _ _ _ _) = True"
| "marks_true (OpFalse _ _ _ _) = False"
| "marks_true (OpUnknown _ _ _ _) = False"

lemma is_true_set_same:
  assumes "ordered_conditions (fst st)" and "cond_type c = t"
  shows "is_true (get_condition t (fst (set_condition now c st))) \<longleftrightarrow> cond_status c = ConditionTrue"
  using get_set_status [OF assms(1), of c now] assms(2) by (auto simp: content_def)

lemma run_mark_target:
  assumes "set_wf r" and "ordered_conditions (fst st)" and "mark_target op \<in> set (dependents r)"
  shows "is_true (get_condition (mark_target op) (fst (run_mark now r op st))) \<longleftrightarrow> marks_true op"
proof -
  have "mark_target op \<noteq> happy r" using assms(1,3) by (auto simp: set_wf_def)
  with assms show ?thesis
    by (cases op)
      (simp_all add: mark_true_def mark_true_with_reason_def mark_unknown_def mark_false_dependent
        recompute_other mark_unknown_scan_other get_set_ne is_true_set_same)
qed

section \<open>The contract of a lifecycle\<close>

text \<open>
  One call of a lifecycle method: the fields are stored first, then a condition is marked. Only
  the field of the marked condition may change, and it is set exactly by the methods that mark
  their condition True. \<open>backs\<close> are the conditions that promise a field.
\<close>

definition stores ::
  "('s \<Rightarrow> conditions) \<Rightarrow> condition_set \<Rightarrow> condition_type set \<Rightarrow> (condition_type \<Rightarrow> 's \<Rightarrow> bool)
     \<Rightarrow> condition_type \<Rightarrow> bool \<Rightarrow> 's \<Rightarrow> 's \<Rightarrow> bool" where
  "stores get r backs backed t present s s' =
     (t \<in> set (dependents r) \<and> get s' = get s
      \<and> (\<forall>u \<in> backs. backed u s' = (if u = t then present else backed u s)))"

inductive lifecycle_step ::
  "('s \<Rightarrow> conditions) \<Rightarrow> (conditions \<Rightarrow> 's \<Rightarrow> 's) \<Rightarrow> ('c \<Rightarrow> int \<times> 'c) \<Rightarrow> condition_set
     \<Rightarrow> condition_type set \<Rightarrow> (condition_type \<Rightarrow> 's \<Rightarrow> bool) \<Rightarrow> 's \<times> 'c \<Rightarrow> 's \<times> 'c \<Rightarrow> bool"
  for get put now r backs backed where
  step_true: "stores get r backs backed t True s s' \<Longrightarrow>
     lifecycle_step get put now r backs backed (s, k) (manage get put (mark_true now r t) (s', k))"
| step_true_with_reason: "stores get r backs backed t True s s' \<Longrightarrow>
     lifecycle_step get put now r backs backed (s, k)
       (manage get put (mark_true_with_reason now r t reason f as) (s', k))"
| step_false: "stores get r backs backed t False s s' \<Longrightarrow>
     lifecycle_step get put now r backs backed (s, k) (manage get put (mark_false now r t reason f as) (s', k))"
| step_unknown: "stores get r backs backed t False s s' \<Longrightarrow>
     lifecycle_step get put now r backs backed (s, k) (manage get put (mark_unknown now r t reason f as) (s', k))"

lemmas lifecycle_steps = step_true step_true_with_reason step_false step_unknown

lemma lifecycle_step_mark:
  assumes "lifecycle_step get put now r backs backed (s, k) out"
  obtains s' op where "stores get r backs backed (mark_target op) (marks_true op) s s'"
    and "out = manage get put (run_mark now r op) (s', k)"
  using assms
proof cases
  case (step_true t s')
  then show ?thesis using that [of "OpTrue t" s'] by simp
next
  case (step_true_with_reason t s' reason f as)
  then show ?thesis using that [of "OpTrueWithReason t reason f as" s'] by simp
next
  case (step_false t s' reason f as)
  then show ?thesis using that [of "OpFalse t reason f as" s'] by simp
next
  case (step_unknown t s' reason f as)
  then show ?thesis using that [of "OpUnknown t reason f as" s'] by simp
qed

inductive lifecycle_run ::
  "('s \<times> 'c \<Rightarrow> 's \<times> 'c) \<Rightarrow> ('m \<Rightarrow> 's \<times> 'c \<Rightarrow> 's \<times> 'c) \<Rightarrow> ('s \<Rightarrow> bool) \<Rightarrow> 's \<Rightarrow> bool"
  for init call fresh where
  created: "fresh s \<Longrightarrow> lifecycle_run init call fresh (fst (init (s, k)))"
| initialized: "lifecycle_run init call fresh s \<Longrightarrow> lifecycle_run init call fresh (fst (init (s, k)))"
| called: "lifecycle_run init call fresh s \<Longrightarrow> lifecycle_run init call fresh (fst (call m (s, k)))"

text \<open>A status before the first reconciliation.\<close>

definition fresh_status ::
  "('s \<Rightarrow> conditions) \<Rightarrow> condition_type set \<Rightarrow> (condition_type \<Rightarrow> 's \<Rightarrow> bool) \<Rightarrow> 's \<Rightarrow> bool" where
  "fresh_status get backs backed s = (get s = [] \<and> (\<forall>t \<in> backs. \<not> backed t s))"

locale status_lifecycle = conditions_accessor get put
  for get :: "'s \<Rightarrow> conditions" and put :: "conditions \<Rightarrow> 's \<Rightarrow> 's" +
  fixes now :: "'c \<Rightarrow> int \<times> 'c"
    and r :: condition_set
    and init :: "'s \<times> 'c \<Rightarrow> 's \<times> 'c"
    and call :: "'m \<Rightarrow> 's \<times> 'c \<Rightarrow> 's \<times> 'c"
    and backs :: "condition_type set"
    and backed :: "condition_type \<Rightarrow> 's \<Rightarrow> bool"
  assumes wf: "set_wf r"
    and dependents_nonempty: "dependents r \<noteq> []"
    and backs_dependents: "backs \<subseteq> set (dependents r)"
    and backed_put: "t \<in> backs \<Longrightarrow> backed t (put cs s) = backed t s"
    and init_def: "init = manage get put (initialize_conditions now r)"
    and call_steps: "lifecycle_step get put now r backs backed (s, k) (call m (s, k))"
begin

definition consistent :: "'s \<Rightarrow> bool" where
  "consistent s = (managed r (get s) \<and> settled r (get s)
     \<and> (\<forall>t \<in> backs. backed t s \<longleftrightarrow> is_true (get_condition t (get s))))"

lemma fresh_consistent:
  assumes "fresh_status get backs backed s"
  shows "consistent (fst (init (s, k)))"
proof -
  let ?cs = "fst (initialize_conditions now r ([], k))"
  have facts: "\<forall>c \<in> set ?cs. cond_status c = ConditionUnknown"
    using initialize_conditions_facts [OF _ refl, of "([], k)" now r]
    by (auto simp: initial_status_def is_happy_def get_top_level_condition_def get_condition_def)
  then have "\<not> is_true (get_condition t ?cs)" for t
    by (auto simp: is_true_def dest: get_condition_type split: option.split)
  with assms show ?thesis
    unfolding consistent_def init_def get_manage manage_put
    using initialize_empty [OF dependents_nonempty, of now k] by (auto simp: fresh_status_def backed_put)
qed

lemma init_consistent:
  assumes "consistent s"
  shows "fst (init (s, k)) = s"
  using assms initialize_managed [of r "(get s, k)" now]
  by (simp add: consistent_def init_def manage_put)

lemma call_consistent:
  assumes "consistent s"
  shows "consistent (fst (call m (s, k)))"
proof -
  obtain s' op where st: "stores get r backs backed (mark_target op) (marks_true op) s s'"
    and out: "call m (s, k) = manage get put (run_mark now r op) (s', k)"
    using call_steps by (rule lifecycle_step_mark)
  let ?cs = "fst (run_mark now r op (get s, k))"
  have target: "mark_target op \<in> set (dependents r)" and g: "get s' = get s"
    using st by (auto simp: stores_def)
  have m: "managed r (get s)" using assms by (simp add: consistent_def)
  then have ord: "ordered_conditions (fst (get s, k))" by (simp add: managed_ordered)
  have "managed r ?cs \<and> settled r ?cs"
    using run_mark_settles [OF wf _ target, of "(get s, k)"] m by simp
  moreover have "backed t s' \<longleftrightarrow> is_true (get_condition t ?cs)" if "t \<in> backs" for t
  proof (cases "t = mark_target op")
    case True
    then show ?thesis using st that run_mark_target [OF wf ord target, of now]
      by (auto simp: stores_def)
  next
    case False
    have "t \<noteq> happy r" using that backs_dependents wf by (auto simp: set_wf_def)
    then have "get_condition t ?cs = get_condition t (get s)"
      using run_mark_other [OF wf ord target False] by simp
    then show ?thesis using st that False assms by (auto simp: stores_def consistent_def)
  qed
  ultimately show ?thesis
    by (simp add: consistent_def out manage_put g backed_put)
qed

lemma run_consistent:
  "lifecycle_run init call (fresh_status get backs backed) s \<Longrightarrow> consistent s"
  by (induction rule: lifecycle_run.induct)
    (simp_all add: fresh_consistent init_consistent call_consistent)

lemma run_summary:
  "lifecycle_run init call (fresh_status get backs backed) s \<Longrightarrow>
     \<exists>h. get_condition (happy r) (get s) = Some h \<and> cond_status h = overall r (get s)"
  using run_consistent by (auto simp: consistent_def settled_def)

lemma run_happy_iff:
  "lifecycle_run init call (fresh_status get backs backed) s \<Longrightarrow>
     is_happy r (get s) \<longleftrightarrow> (\<forall>d \<in> set (dependents r). is_true (get_condition d (get s)))"
  using run_consistent by (auto simp: consistent_def settled_happy_iff)

lemma run_backed_iff:
  "lifecycle_run init call (fresh_status get backs backed) s \<Longrightarrow> t \<in> backs \<Longrightarrow>
     backed t s \<longleftrightarrow> is_true (get_condition t (get s))"
  using run_consistent by (simp add: consistent_def)

lemma ready_backed:
  "lifecycle_run init call (fresh_status get backs backed) s \<Longrightarrow> is_happy r (get s) \<Longrightarrow> t \<in> backs \<Longrightarrow> backed t s"
  using run_backed_iff run_happy_iff backs_dependents by blast

end

section \<open>The four resources\<close>

interpretation operator_accessor: conditions_accessor operator_get_conditions operator_set_conditions
  by unfold_locales (simp_all add: operator_get_conditions_def operator_set_conditions_def)

interpretation account_accessor: conditions_accessor account_get_conditions account_set_conditions
  by unfold_locales
    (simp_all add: account_get_conditions_def account_set_conditions_def get_conditions_def set_conditions_def)

interpretation user_accessor: conditions_accessor user_get_conditions user_set_conditions
  by unfold_locales (simp_all add: user_get_conditions_def user_set_conditions_def)

interpretation signing_key_accessor: conditions_accessor signing_key_get_conditions signing_key_set_conditions
  by unfold_locales
    (simp_all add: signing_key_get_conditions_def signing_key_set_conditions_def get_conditions_def set_conditions_def)

text \<open>Which condition promises which field.\<close>

definition operator_backed :: "condition_type \<Rightarrow> operator_status \<Rightarrow> bool" where
  "operator_backed t s =
     (if t = OperatorConditionSeedSecretReady then ops_key_pair s \<noteq> None
      else ops_resolved_system_account s \<noteq> None)"

definition account_backed :: "condition_type \<Rightarrow> account_status \<Rightarrow> bool" where
  "account_backed t s =
     (if t = KeyPairableConditionSeedSecretReady then accs_key_pair s \<noteq> None
      else accs_operator_ref s \<noteq> None)"

definition user_backed :: "condition_type \<Rightarrow> user_status \<Rightarrow> bool" where
  "user_backed t s =
     (if t = KeyPairableConditionSeedSecretReady then usrs_key_pair s \<noteq> None
      else usrs_account_ref s \<noteq> None)"

definition signing_key_backed :: "condition_type \<Rightarrow> signing_key_status \<Rightarrow> bool" where
  "signing_key_backed t s =
     (if t = SigningKeyConditionSeedSecretReady then sks_key_pair s \<noteq> None
      else sks_owner_ref s \<noteq> None)"

lemma operator_dependents:
  "set (dependents operator_condition_set) =
     {KeyPairableConditionSeedSecretReady, OperatorConditionSystemAccountResolved,
      OperatorConditionSigningKeysUpdated, OperatorConditionJWTSecretReady}"
  by (auto simp: operator_condition_set_def new_living_condition_set_def new_condition_set_dependents
      operator_condition_defs ConditionReady_def)

lemma account_dependents:
  "set (dependents account_condition_set) =
     {KeyPairableConditionSeedSecretReady, AccountConditionOperatorResolved, AccountConditionIssuerResolved,
      AccountConditionSigningKeysUpdated, AccountConditionJWTSecretReady, AccountConditionJWTPushed}"
  by (auto simp: account_condition_set_def new_living_condition_set_def new_condition_set_dependents
      account_condition_defs ConditionReady_def)

lemma user_dependents:
  "set (dependents user_condition_set) =
     {KeyPairableConditionSeedSecretReady, UserConditionAccountResolved, UserConditionIssuerResolved,
      UserConditionJWTSecretReady, UserConditionCredentialsSecretReady}"
  by (auto simp: user_condition_set_def new_living_condition_set_def new_condition_set_dependents
      user_condition_defs ConditionReady_def)

lemma signing_key_dependents:
  "set (dependents signing_key_condition_set) =
     {SigningKeyConditionSeedSecretReady, SigningKeyConditionOwnerResolved}"
  by (auto simp: signing_key_condition_set_def new_living_condition_set_def new_condition_set_dependents
      signing_key_condition_defs ConditionReady_def)

lemma condition_sets_wf [simp]:
  "set_wf operator_condition_set" "set_wf account_condition_set"
  "set_wf user_condition_set" "set_wf signing_key_condition_set"
  by (simp_all add: operator_condition_set_def account_condition_set_def user_condition_set_def
      signing_key_condition_set_def new_living_condition_set_def new_condition_set_wf)

lemma dependents_nonempty [simp]:
  "dependents operator_condition_set \<noteq> []" "dependents account_condition_set \<noteq> []"
  "dependents user_condition_set \<noteq> []" "dependents signing_key_condition_set \<noteq> []"
  using operator_dependents account_dependents user_dependents signing_key_dependents by force+

definition operator_backs :: "condition_type set" where
  "operator_backs = {OperatorConditionSeedSecretReady, OperatorConditionSystemAccountResolved}"

definition account_backs :: "condition_type set" where
  "account_backs = {KeyPairableConditionSeedSecretReady, AccountConditionOperatorResolved}"

definition user_backs :: "condition_type set" where
  "user_backs = {KeyPairableConditionSeedSecretReady, UserConditionAccountResolved}"

definition signing_key_backs :: "condition_type set" where
  "signing_key_backs = {SigningKeyConditionSeedSecretReady, SigningKeyConditionOwnerResolved}"

interpretation operator_life: status_lifecycle operator_get_conditions operator_set_conditions now
  operator_condition_set "operator_initialize_conditions now" "operator_call now" operator_backs operator_backed
  for now :: "'c \<Rightarrow> int \<times> 'c"
proof
  show "lifecycle_step operator_get_conditions operator_set_conditions now operator_condition_set
      operator_backs operator_backed (s, k) (operator_call now m (s, k))" for s m and k :: 'c
    by (cases m)
      (auto simp: operator_method_defs stores_def operator_dependents operator_backs_def operator_backed_def
        operator_get_conditions_def operator_condition_defs intro!: lifecycle_steps)
qed (auto simp: operator_initialize_conditions_def operator_backed_def operator_set_conditions_def
    operator_backs_def operator_dependents operator_condition_defs)

interpretation account_life: status_lifecycle account_get_conditions account_set_conditions now
  account_condition_set "account_initialize_conditions now" "account_call now" account_backs account_backed
  for now :: "'c \<Rightarrow> int \<times> 'c"
proof
  show "lifecycle_step account_get_conditions account_set_conditions now account_condition_set
      account_backs account_backed (s, k) (account_call now m (s, k))" for s m and k :: 'c
    by (cases m)
      (auto simp: account_method_defs stores_def account_dependents account_backs_def account_backed_def
        account_get_conditions_def account_condition_defs intro!: lifecycle_steps)
qed (auto simp: account_initialize_conditions_def account_backed_def account_set_conditions_def
    account_backs_def account_dependents)

interpretation user_life: status_lifecycle user_get_conditions user_set_conditions now
  user_condition_set "user_initialize_conditions now" "user_call now" user_backs user_backed
  for now :: "'c \<Rightarrow> int \<times> 'c"
proof
  show "lifecycle_step user_get_conditions user_set_conditions now user_condition_set
      user_backs user_backed (s, k) (user_call now m (s, k))" for s m and k :: 'c
    by (cases m)
      (auto simp: user_method_defs stores_def user_dependents user_backs_def user_backed_def
        user_get_conditions_def user_condition_defs intro!: lifecycle_steps)
qed (auto simp: user_initialize_conditions_def user_backed_def user_set_conditions_def
    user_backs_def user_dependents)

interpretation signing_key_life: status_lifecycle signing_key_get_conditions signing_key_set_conditions now
  signing_key_condition_set "signing_key_initialize_conditions now" "signing_key_call now"
  signing_key_backs signing_key_backed
  for now :: "'c \<Rightarrow> int \<times> 'c"
proof
  show "lifecycle_step signing_key_get_conditions signing_key_set_conditions now signing_key_condition_set
      signing_key_backs signing_key_backed (s, k) (signing_key_call now m (s, k))" for s m and k :: 'c
    by (cases m)
      (auto simp: signing_key_method_defs stores_def signing_key_dependents signing_key_backs_def
        signing_key_backed_def signing_key_get_conditions_def signing_key_condition_defs intro!: lifecycle_steps)
qed (auto simp: signing_key_initialize_conditions_def signing_key_backed_def signing_key_set_conditions_def
    signing_key_backs_def signing_key_dependents)

text \<open>The runs of the four statuses.\<close>

definition operator_run :: "('c \<Rightarrow> int \<times> 'c) \<Rightarrow> operator_status \<Rightarrow> bool" where
  "operator_run now = lifecycle_run (operator_initialize_conditions now) (operator_call now)
     (fresh_status operator_get_conditions operator_backs operator_backed)"

definition account_run :: "('c \<Rightarrow> int \<times> 'c) \<Rightarrow> account_status \<Rightarrow> bool" where
  "account_run now = lifecycle_run (account_initialize_conditions now) (account_call now)
     (fresh_status account_get_conditions account_backs account_backed)"

definition user_run :: "('c \<Rightarrow> int \<times> 'c) \<Rightarrow> user_status \<Rightarrow> bool" where
  "user_run now = lifecycle_run (user_initialize_conditions now) (user_call now)
     (fresh_status user_get_conditions user_backs user_backed)"

definition signing_key_run :: "('c \<Rightarrow> int \<times> 'c) \<Rightarrow> signing_key_status \<Rightarrow> bool" where
  "signing_key_run now = lifecycle_run (signing_key_initialize_conditions now) (signing_key_call now)
     (fresh_status signing_key_get_conditions signing_key_backs signing_key_backed)"

text \<open>The consequences of the contract, in the terms of each resource.\<close>

lemma operator_run_fields:
  assumes "operator_run now s"
  shows "ops_key_pair s \<noteq> None \<longleftrightarrow> is_true (operator_get_condition OperatorConditionSeedSecretReady s)"
    and "ops_resolved_system_account s \<noteq> None
      \<longleftrightarrow> is_true (operator_get_condition OperatorConditionSystemAccountResolved s)"
  using operator_life.run_backed_iff [OF assms [unfolded operator_run_def], of OperatorConditionSeedSecretReady]
    operator_life.run_backed_iff [OF assms [unfolded operator_run_def], of OperatorConditionSystemAccountResolved]
  by (simp_all add: operator_backs_def operator_backed_def operator_get_condition_def operator_condition_defs)

lemma account_run_fields:
  assumes "account_run now s"
  shows "accs_key_pair s \<noteq> None \<longleftrightarrow> is_true (account_get_condition KeyPairableConditionSeedSecretReady s)"
    and "accs_operator_ref s \<noteq> None \<longleftrightarrow> is_true (account_get_condition AccountConditionOperatorResolved s)"
  using account_life.run_backed_iff [OF assms [unfolded account_run_def], of KeyPairableConditionSeedSecretReady]
    account_life.run_backed_iff [OF assms [unfolded account_run_def], of AccountConditionOperatorResolved]
  by (simp_all add: account_backs_def account_backed_def account_get_condition_def account_condition_defs)

lemma user_run_fields:
  assumes "user_run now s"
  shows "usrs_key_pair s \<noteq> None \<longleftrightarrow> is_true (user_get_condition KeyPairableConditionSeedSecretReady s)"
    and "usrs_account_ref s \<noteq> None \<longleftrightarrow> is_true (user_get_condition UserConditionAccountResolved s)"
  using user_life.run_backed_iff [OF assms [unfolded user_run_def], of KeyPairableConditionSeedSecretReady]
    user_life.run_backed_iff [OF assms [unfolded user_run_def], of UserConditionAccountResolved]
  by (simp_all add: user_backs_def user_backed_def user_get_condition_def user_condition_defs)

lemma signing_key_run_fields:
  assumes "signing_key_run now s"
  shows "sks_key_pair s \<noteq> None \<longleftrightarrow> is_true (signing_key_get_condition SigningKeyConditionSeedSecretReady s)"
    and "sks_owner_ref s \<noteq> None \<longleftrightarrow> is_true (signing_key_get_condition SigningKeyConditionOwnerResolved s)"
  using signing_key_life.run_backed_iff [OF assms [unfolded signing_key_run_def], of SigningKeyConditionSeedSecretReady]
    signing_key_life.run_backed_iff [OF assms [unfolded signing_key_run_def], of SigningKeyConditionOwnerResolved]
  by (simp_all add: signing_key_backs_def signing_key_backed_def signing_key_get_condition_def signing_key_condition_defs)

lemma signing_key_ready_iff:
  assumes "signing_key_run now s"
  shows "signing_key_is_ready s \<longleftrightarrow> is_true (signing_key_get_condition SigningKeyConditionSeedSecretReady s)
    \<and> is_true (signing_key_get_condition SigningKeyConditionOwnerResolved s)"
  using signing_key_life.run_happy_iff [OF assms [unfolded signing_key_run_def]]
  by (simp add: signing_key_is_ready_def signing_key_get_condition_def signing_key_dependents)

lemma signing_key_ready_fields:
  assumes "signing_key_run now s" and "signing_key_is_ready s"
  shows "sks_key_pair s \<noteq> None" and "sks_owner_ref s \<noteq> None"
  using assms signing_key_ready_iff [OF assms(1)] signing_key_run_fields [OF assms(1)] by blast+

section \<open>Properties\<close>

text \<open>An Operator's status, in every state its lifecycle methods reach: it is ready exactly when
  all four conditions are True; its key pair is set exactly when the seed secret is ready, and the
  system account exactly when it is resolved.\<close>

theorem operator_status_consistent:
  assumes "operator_run now s"
  shows "(operator_is_ready s \<longleftrightarrow> (\<forall>t \<in> {OperatorConditionSeedSecretReady, OperatorConditionSystemAccountResolved,
        OperatorConditionSigningKeysUpdated, OperatorConditionJWTSecretReady}. is_true (operator_get_condition t s)))
    \<and> (ops_key_pair s \<noteq> None \<longleftrightarrow> is_true (operator_get_condition OperatorConditionSeedSecretReady s))
    \<and> (ops_resolved_system_account s \<noteq> None
        \<longleftrightarrow> is_true (operator_get_condition OperatorConditionSystemAccountResolved s))"
  using operator_run_fields [OF assms] operator_life.run_happy_iff [OF assms [unfolded operator_run_def]]
  by (simp add: operator_is_ready_def operator_get_condition_def operator_dependents
      KeyPairableConditionSeedSecretReady_def OperatorConditionSeedSecretReady_def)

definition new_operator_status :: operator_status where
  "new_operator_status = \<lparr>ops_status = \<lparr>st_conditions = []\<rparr>, ops_key_pair = None, ops_signing_keys = [],
     ops_resolved_system_account = None\<rparr>"

theorem operator_status_consistent_witness:
  "let s = fst (operator_call tick (OperatorMarkSeedSecretReady \<lparr>public_key = ''O1'', seed_secret_name = ''s''\<rparr>)
         (fst (operator_initialize_conditions tick (new_operator_status, 0)), 9))
   in ops_key_pair s \<noteq> None \<longleftrightarrow> is_true (operator_get_condition OperatorConditionSeedSecretReady s)"
proof -
  have "operator_run tick (fst (operator_call tick
      (OperatorMarkSeedSecretReady \<lparr>public_key = ''O1'', seed_secret_name = ''s''\<rparr>)
      (fst (operator_initialize_conditions tick (new_operator_status, 0)), 9)))"
    unfolding operator_run_def
    by (intro lifecycle_run.called lifecycle_run.created)
      (simp add: fresh_status_def new_operator_status_def operator_get_conditions_def operator_backed_def)
  from operator_status_consistent [OF this] show ?thesis unfolding Let_def by blast
qed

text \<open>An Account's status, in every state its lifecycle methods reach: it is ready exactly when all
  six conditions are True; its key pair is set exactly when the seed secret is ready, and the
  operator reference exactly when the operator is resolved.\<close>

theorem account_status_consistent:
  assumes "account_run now s"
  shows "(account_is_ready s \<longleftrightarrow> (\<forall>t \<in> {KeyPairableConditionSeedSecretReady, AccountConditionOperatorResolved,
        AccountConditionIssuerResolved, AccountConditionSigningKeysUpdated, AccountConditionJWTSecretReady,
        AccountConditionJWTPushed}. is_true (account_get_condition t s)))
    \<and> (accs_key_pair s \<noteq> None \<longleftrightarrow> is_true (account_get_condition KeyPairableConditionSeedSecretReady s))
    \<and> (accs_operator_ref s \<noteq> None \<longleftrightarrow> is_true (account_get_condition AccountConditionOperatorResolved s))"
  using account_run_fields [OF assms] account_life.run_happy_iff [OF assms [unfolded account_run_def]]
  by (simp add: account_is_ready_def account_get_condition_def account_dependents)

definition new_account_status :: account_status where
  "new_account_status = \<lparr>accs_status = \<lparr>st_conditions = []\<rparr>, accs_key_pair = None, accs_signing_keys = [],
     accs_operator_ref = None\<rparr>"

lemma new_account_status_fresh: "fresh_status account_get_conditions account_backs account_backed new_account_status"
  by (simp add: fresh_status_def new_account_status_def account_get_conditions_def get_conditions_def account_backed_def)

theorem account_status_consistent_witness:
  "let s = fst (account_call tick (AccountMarkOperatorResolveFailed ''NotFound'' ''gone'' [])
         (fst (account_initialize_conditions tick (new_account_status, 0)), 9))
   in accs_operator_ref s \<noteq> None \<longleftrightarrow> is_true (account_get_condition AccountConditionOperatorResolved s)"
proof -
  have "account_run tick (fst (account_call tick (AccountMarkOperatorResolveFailed ''NotFound'' ''gone'' [])
      (fst (account_initialize_conditions tick (new_account_status, 0)), 9)))"
    unfolding account_run_def by (intro lifecycle_run.called lifecycle_run.created new_account_status_fresh)
  from account_status_consistent [OF this] show ?thesis unfolding Let_def by blast
qed

text \<open>A User's status, in every state its lifecycle methods reach: it is ready exactly when all
  five conditions are True; its key pair is set exactly when the seed secret is ready, and the
  account reference exactly when the account is resolved.\<close>

theorem user_status_consistent:
  assumes "user_run now s"
  shows "(user_is_ready s \<longleftrightarrow> (\<forall>t \<in> {KeyPairableConditionSeedSecretReady, UserConditionAccountResolved,
        UserConditionIssuerResolved, UserConditionJWTSecretReady, UserConditionCredentialsSecretReady}.
        is_true (user_get_condition t s)))
    \<and> (usrs_key_pair s \<noteq> None \<longleftrightarrow> is_true (user_get_condition KeyPairableConditionSeedSecretReady s))
    \<and> (usrs_account_ref s \<noteq> None \<longleftrightarrow> is_true (user_get_condition UserConditionAccountResolved s))"
  using user_run_fields [OF assms] user_life.run_happy_iff [OF assms [unfolded user_run_def]]
  by (simp add: user_is_ready_def user_get_condition_def user_dependents)

definition new_user_status :: user_status where
  "new_user_status = \<lparr>usrs_status = \<lparr>st_conditions = []\<rparr>, usrs_key_pair = None, usrs_account_ref = None\<rparr>"

theorem user_status_consistent_witness:
  "let s = fst (user_call tick (UserMarkAccountResolved \<lparr>ior_namespace = ''n'', ior_name = ''a''\<rparr>)
         (fst (user_initialize_conditions tick (new_user_status, 0)), 9))
   in usrs_account_ref s \<noteq> None \<longleftrightarrow> is_true (user_get_condition UserConditionAccountResolved s)"
proof -
  have "user_run tick (fst (user_call tick (UserMarkAccountResolved \<lparr>ior_namespace = ''n'', ior_name = ''a''\<rparr>)
      (fst (user_initialize_conditions tick (new_user_status, 0)), 9)))"
    unfolding user_run_def
    by (intro lifecycle_run.called lifecycle_run.created)
      (simp add: fresh_status_def new_user_status_def user_get_conditions_def user_backed_def)
  from user_status_consistent [OF this] show ?thesis unfolding Let_def by blast
qed

text \<open>A SigningKey's status, in every state its lifecycle methods reach: it is ready exactly when
  its seed secret is ready and its owner resolved; its key pair and its owner reference are set
  exactly when those conditions are True. So whoever finds a signing key ready may read both.\<close>

theorem signing_key_status_consistent:
  assumes "signing_key_run now s"
  shows "(signing_key_is_ready s \<longleftrightarrow> (\<forall>t \<in> {SigningKeyConditionSeedSecretReady, SigningKeyConditionOwnerResolved}.
        is_true (signing_key_get_condition t s)))
    \<and> (sks_key_pair s \<noteq> None \<longleftrightarrow> is_true (signing_key_get_condition SigningKeyConditionSeedSecretReady s))
    \<and> (sks_owner_ref s \<noteq> None \<longleftrightarrow> is_true (signing_key_get_condition SigningKeyConditionOwnerResolved s))
    \<and> (signing_key_is_ready s \<longrightarrow> sks_key_pair s \<noteq> None \<and> sks_owner_ref s \<noteq> None)"
  using signing_key_run_fields [OF assms] signing_key_ready_iff [OF assms] by simp

definition new_signing_key_status :: signing_key_status where
  "new_signing_key_status = \<lparr>sks_status = \<lparr>st_conditions = []\<rparr>, sks_key_pair = None, sks_owner_ref = None\<rparr>"

lemma new_signing_key_status_fresh:
  "fresh_status signing_key_get_conditions signing_key_backs signing_key_backed new_signing_key_status"
  by (simp add: fresh_status_def new_signing_key_status_def signing_key_get_conditions_def get_conditions_def
      signing_key_backed_def)

theorem signing_key_status_consistent_witness:
  "let s = fst (signing_key_call tick (SigningKeyMarkSeedSecretReady ''A1'' ''seed'')
         (fst (signing_key_initialize_conditions tick (new_signing_key_status, 0)), 9))
   in sks_key_pair s \<noteq> None \<longleftrightarrow> is_true (signing_key_get_condition SigningKeyConditionSeedSecretReady s)"
proof -
  have "signing_key_run tick (fst (signing_key_call tick (SigningKeyMarkSeedSecretReady ''A1'' ''seed'')
      (fst (signing_key_initialize_conditions tick (new_signing_key_status, 0)), 9)))"
    unfolding signing_key_run_def by (intro lifecycle_run.called lifecycle_run.created new_signing_key_status_fresh)
  from signing_key_status_consistent [OF this] show ?thesis unfolding Let_def by blast
qed

end
