(* ===== verification/Helpers.thy ===== *)
theory Helpers
  imports Samples Lifecycle_Runs
begin

text \<open>
  pkg/helpers: which namespaces a selector admits (selectors.go), the next list of signing keys of
  a resource (signingkeys.go) and the test for the system account (systemaccount.go).

  \<open>next_signing_keys\<close> ranges over a Go map, whose order is not specified; the order is the
  parameter \<open>iter\<close>, of which only \<open>ranges\<close> is assumed: it enumerates the values once each.
\<close>

section \<open>Selectors\<close>

definition match_namespace_selector ::
  "machinery \<Rightarrow> object_meta \<Rightarrow> k8s_namespace \<Rightarrow> label_selector option \<Rightarrow> error + bool" where
  "match_namespace_selector M parent child_ns selector = (case selector of
       None \<Rightarrow> Inr (m_namespace parent = m_name (ns_meta child_ns))
     | Some sel \<Rightarrow>
         (case label_selector_as_selector M sel of
            Inl e \<Rightarrow> Inl (errorf ''failed to compile label selector: %w'' [AErr e])
          | Inr s \<Rightarrow> Inr (sel_matches s (m_labels (ns_meta child_ns)))))"

definition is_system_account :: "account \<Rightarrow> operator \<Rightarrow> bool" where
  "is_system_account acc opr =
     (m_namespace (acc_meta acc) = m_namespace (op_meta opr)
      \<and> m_name (acc_meta acc) = system_account_ref (op_spec opr))"

section \<open>\<open>NextSigningKeys\<close>\<close>

text \<open>
  The loop that fills \<open>nextSKsByName\<close>: reading \<open>OwnerRef\<close> or \<open>KeyPair\<close> of a ready signing key
  that has none panics.
\<close>

fun next_by_name ::
  "string \<Rightarrow> signing_key list \<Rightarrow> (string, signing_key_embedded_status) fmap
     \<Rightarrow> (string, signing_key_embedded_status) fmap outcome" where
  "next_by_name uid [] m = Returns m"
| "next_by_name uid (sk # sks) m =
     (if \<not> signing_key_is_ready (sk_status sk) then next_by_name uid sks m
      else case sks_owner_ref (sk_status sk) of
        None \<Rightarrow> Panics
      | Some r \<Rightarrow>
          (if tor_uid r \<noteq> uid then next_by_name uid sks m
           else case sks_key_pair (sk_status sk) of
             None \<Rightarrow> Panics
           | Some kp \<Rightarrow> next_by_name uid sks
               (fmupd (m_name (sk_meta sk)) \<lparr>ske_name = m_name (sk_meta sk), ske_key_pair = kp\<rparr> m)))"

text \<open>The loop over the current keys: the ones that stay and the map without them.\<close>

fun keep_current ::
  "signing_key_embedded_status list \<Rightarrow> (string, signing_key_embedded_status) fmap
     \<Rightarrow> signing_key_embedded_status list \<times> (string, signing_key_embedded_status) fmap" where
  "keep_current [] m = ([], m)"
| "keep_current (existing # current) m = (case fmlookup m (ske_name existing) of
     None \<Rightarrow> keep_current current m
   | Some next \<Rightarrow> (case keep_current current (fmdrop (ske_name existing) m) of
       (kept, rest) \<Rightarrow> (next # kept, rest)))"

text \<open>The map \<open>existingSKs\<close> of the source is written and never read.\<close>

definition next_signing_keys ::
  "((string, signing_key_embedded_status) fmap \<Rightarrow> signing_key_embedded_status list)
     \<Rightarrow> string \<Rightarrow> signing_key_embedded_status list \<Rightarrow> signing_key list
     \<Rightarrow> signing_key_embedded_status list outcome" where
  "next_signing_keys iter uid current next = (case next_by_name uid next fmempty of
       Panics \<Rightarrow> Panics
     | Returns m \<Rightarrow> (case keep_current current m of (kept, rest) \<Rightarrow> Returns (kept @ iter rest)))"

section \<open>Facts\<close>

definition ranges ::
  "((string, signing_key_embedded_status) fmap \<Rightarrow> signing_key_embedded_status list) \<Rightarrow> bool" where
  "ranges iter = (\<forall>m. (\<forall>n e. fmlookup m n = Some e \<longrightarrow> ske_name e = n) \<longrightarrow>
     distinct (map ske_name (iter m)) \<and> (\<forall>e. e \<in> set (iter m) \<longleftrightarrow> fmlookup m (ske_name e) = Some e))"

definition named :: "(string, signing_key_embedded_status) fmap \<Rightarrow> bool" where
  "named m = (\<forall>n e. fmlookup m n = Some e \<longrightarrow> ske_name e = n)"

lemma rangesD:
  assumes "ranges iter" and "named m"
  shows "distinct (map ske_name (iter m))"
    and "e \<in> set (iter m) \<longleftrightarrow> fmlookup m (ske_name e) = Some e"
  using assms by (auto simp: ranges_def named_def)

lemma named_empty [simp]: "named fmempty"
  by (simp add: named_def)

lemma named_drop [simp]: "named m \<Longrightarrow> named (fmdrop n m)"
  by (auto simp: named_def split: if_splits)

text \<open>The signing keys of a resource that are in use, and what the status stores of them.\<close>

definition in_use :: "string \<Rightarrow> signing_key \<Rightarrow> bool" where
  "in_use uid sk = (signing_key_is_ready (sk_status sk)
     \<and> (\<exists>r. sks_owner_ref (sk_status sk) = Some r \<and> tor_uid r = uid))"

definition embedded :: "signing_key \<Rightarrow> signing_key_embedded_status" where
  "embedded sk = \<lparr>ske_name = m_name (sk_meta sk), ske_key_pair = the (sks_key_pair (sk_status sk))\<rparr>"

definition active_keys :: "string \<Rightarrow> signing_key list \<Rightarrow> signing_key_embedded_status list" where
  "active_keys uid sks = map embedded (filter (in_use uid) sks)"

lemma ske_name_embedded [simp]: "ske_name (embedded sk) = m_name (sk_meta sk)"
  by (simp add: embedded_def)

lemma next_by_name_skip:
  "next_by_name uid (sk # sks) m = Returns m' \<Longrightarrow> \<not> in_use uid sk \<Longrightarrow> next_by_name uid sks m = Returns m'"
  by (auto simp: in_use_def split: if_splits option.splits)

lemma next_by_name_take:
  "next_by_name uid (sk # sks) m = Returns m' \<Longrightarrow> in_use uid sk \<Longrightarrow>
     sks_key_pair (sk_status sk) \<noteq> None
     \<and> next_by_name uid sks (fmupd (m_name (sk_meta sk)) (embedded sk) m) = Returns m'"
  by (auto simp: in_use_def embedded_def split: option.splits)

lemma next_by_name_lookup:
  assumes "next_by_name uid sks m = Returns m'"
  shows "fmlookup m' = fmlookup m ++ map_of (rev (map (\<lambda>e. (ske_name e, e)) (active_keys uid sks)))"
  using assms
proof (induction sks arbitrary: m)
  case Nil
  then show ?case by (simp add: active_keys_def)
next
  case (Cons sk sks)
  show ?case
  proof (cases "in_use uid sk")
    case False
    with Cons.IH [OF next_by_name_skip [OF Cons.prems False]] show ?thesis
      by (simp add: active_keys_def)
  next
    case True
    with Cons.IH [OF next_by_name_take [OF Cons.prems True, THEN conjunct2]] show ?thesis
      by (simp add: active_keys_def map_add_def fun_eq_iff split: option.split)
  qed
qed

text \<open>Kubernetes names are unique in a namespace.\<close>

definition distinct_names :: "signing_key list \<Rightarrow> bool" where
  "distinct_names sks = distinct (map (\<lambda>sk. m_name (sk_meta sk)) sks)"

lemma next_by_name_active:
  assumes "next_by_name uid sks fmempty = Returns m"
  shows "named m" and "distinct_names sks \<Longrightarrow> fmlookup m (ske_name e) = Some e \<longleftrightarrow> e \<in> set (active_keys uid sks)"
    and "distinct_names sks \<Longrightarrow> fmlookup m n = None \<longleftrightarrow> n \<notin> ske_name ` set (active_keys uid sks)"
proof -
  let ?kvs = "rev (map (\<lambda>e. (ske_name e, e)) (active_keys uid sks))"
  have look: "fmlookup m = map_of ?kvs"
    using next_by_name_lookup [OF assms] by (simp add: map_add_def fun_eq_iff split: option.split)
  show "named m" by (auto simp: named_def look dest!: map_of_SomeD)
  assume "distinct_names sks"
  then have "distinct (map fst ?kvs)"
    by (simp add: distinct_names_def active_keys_def rev_map [symmetric] comp_def distinct_map_filter)
  then show "fmlookup m (ske_name e) = Some e \<longleftrightarrow> e \<in> set (active_keys uid sks)"
    by (auto simp: look)
  show "fmlookup m n = None \<longleftrightarrow> n \<notin> ske_name ` set (active_keys uid sks)"
    by (auto simp: look map_of_eq_None_iff image_image)
qed

lemma keep_current_facts:
  assumes "named m" and "keep_current current m = (kept, rest)"
  shows "named rest \<and> distinct (map ske_name kept)
    \<and> (distinct (map ske_name current) \<longrightarrow>
         map ske_name kept = filter (\<lambda>n. fmlookup m n \<noteq> None) (map ske_name current))
    \<and> (\<forall>e. e \<in> set kept \<longleftrightarrow> fmlookup m (ske_name e) = Some e \<and> ske_name e \<in> ske_name ` set current)
    \<and> (\<forall>n. fmlookup rest n = (if n \<in> ske_name ` set current then None else fmlookup m n))"
  using assms
proof (induction current m arbitrary: kept rest rule: keep_current.induct)
  case (1 m)
  then show ?case by simp
next
  case (2 existing current m)
  show ?case
  proof (cases "fmlookup m (ske_name existing)")
    case None
    with 2 show ?thesis by (auto split: if_splits)
  next
    case (Some nx)
    then have nm: "ske_name nx = ske_name existing" using 2(3) by (simp add: named_def)
    obtain kept' where k: "keep_current current (fmdrop (ske_name existing) m) = (kept', rest)" "kept = nx # kept'"
      using 2(4) Some by (auto split: prod.splits)
    from 2(2) [OF Some _ k(1)] 2(3) have IH: "named rest" "distinct (map ske_name kept')"
      "distinct (map ske_name current) \<Longrightarrow> map ske_name kept' =
         filter (\<lambda>n. fmlookup (fmdrop (ske_name existing) m) n \<noteq> None) (map ske_name current)"
      "\<And>e. e \<in> set kept' \<longleftrightarrow> fmlookup (fmdrop (ske_name existing) m) (ske_name e) = Some e
         \<and> ske_name e \<in> ske_name ` set current"
      "\<And>n. fmlookup rest n = (if n \<in> ske_name ` set current then None
         else fmlookup (fmdrop (ske_name existing) m) n)"
      by simp_all
    have "distinct (map ske_name kept)" using IH(2,4) k(2) nm by (auto split: if_splits)
    moreover have "e \<in> set kept \<longleftrightarrow> fmlookup m (ske_name e) = Some e \<and> ske_name e \<in> ske_name ` set (existing # current)"
      for e using IH(4) k(2) Some nm by (auto split: if_splits)
    moreover have "map ske_name kept = filter (\<lambda>n. fmlookup m n \<noteq> None) (map ske_name (existing # current))"
      if d: "distinct (map ske_name (existing # current))"
    proof -
      have "filter (\<lambda>n. fmlookup (fmdrop (ske_name existing) m) n \<noteq> None) (map ske_name current)
          = filter (\<lambda>n. fmlookup m n \<noteq> None) (map ske_name current)"
        using d by (intro filter_cong) (auto simp: image_iff)
      with d IH(3) k(2) Some nm show ?thesis by simp
    qed
    ultimately show ?thesis using IH(1,5) by auto
  qed
qed

lemma iter_empty:
  assumes "ranges iter" and "\<And>n. fmlookup m n = None"
  shows "iter m = []"
proof -
  have "named m" using assms(2) by (simp add: named_def)
  then have "e \<notin> set (iter m)" for e using rangesD(2) [OF assms(1)] assms(2) by simp
  then show ?thesis by (metis list.set_intros(1) neq_Nil_conv)
qed

lemma next_signing_keys_facts:
  assumes "ranges iter" and "distinct_names sks" and "next_signing_keys iter uid current sks = Returns ks"
  shows "set ks = set (active_keys uid sks) \<and> distinct (map ske_name ks)
    \<and> (distinct (map ske_name current) \<longrightarrow> (\<exists>new. map ske_name ks =
         filter (\<lambda>n. n \<in> ske_name ` set (active_keys uid sks)) (map ske_name current) @ new))"
proof -
  from assms(3) obtain m kept rest where m: "next_by_name uid sks fmempty = Returns m"
    and k: "keep_current current m = (kept, rest)" and ks: "ks = kept @ iter rest"
    by (auto simp: next_signing_keys_def split: outcome.splits prod.splits)
  note act = next_by_name_active [OF m]
  have keep: "named rest" "distinct (map ske_name kept)"
    "distinct (map ske_name current) \<Longrightarrow>
       map ske_name kept = filter (\<lambda>n. fmlookup m n \<noteq> None) (map ske_name current)"
    "\<And>e. e \<in> set kept \<longleftrightarrow> fmlookup m (ske_name e) = Some e \<and> ske_name e \<in> ske_name ` set current"
    "\<And>n. fmlookup rest n = (if n \<in> ske_name ` set current then None else fmlookup m n)"
    using keep_current_facts [OF act(1) k] by simp_all
  have rest: "distinct (map ske_name (iter rest))"
    "\<And>e. e \<in> set (iter rest) \<longleftrightarrow> e \<in> set (active_keys uid sks) \<and> ske_name e \<notin> ske_name ` set current"
    using rangesD [OF assms(1) keep(1)] keep(5) act(2) [OF assms(2)] by simp_all
  have kept: "\<And>e. e \<in> set kept \<longleftrightarrow> e \<in> set (active_keys uid sks) \<and> ske_name e \<in> ske_name ` set current"
    using keep(4) act(2) [OF assms(2)] by simp
  have "set ks = set (active_keys uid sks)"
    using kept rest(2) by (auto simp only: ks set_append)
  moreover have "set (map ske_name kept) \<inter> set (map ske_name (iter rest)) = {}"
    using kept rest(2) by fastforce
  then have "distinct (map ske_name ks)"
    using keep(2) rest(1) by (simp only: ks map_append distinct_append)
  moreover have "map ske_name ks =
      filter (\<lambda>n. n \<in> ske_name ` set (active_keys uid sks)) (map ske_name current) @ map ske_name (iter rest)"
    if "distinct (map ske_name current)"
    using keep(3) [OF that] act(3) [OF assms(2)] by (simp add: ks del: not_None_eq)
  ultimately show ?thesis by blast
qed

lemma same_names_same_list:
  assumes "map f xs = map f ys" and "set xs \<subseteq> S" and "set ys \<subseteq> S" and "inj_on f S"
  shows "xs = ys"
  using assms by (metis inj_on_map_eq_map inj_on_subset Un_least)

lemma next_signing_keys_again:
  assumes "ranges iter" and "distinct_names sks" and "next_signing_keys iter uid current sks = Returns ks"
  shows "next_signing_keys iter uid ks sks = Returns ks"
proof -
  note one = next_signing_keys_facts [OF assms]
  from assms(3) obtain m where m: "next_by_name uid sks fmempty = Returns m"
    by (auto simp: next_signing_keys_def split: outcome.splits)
  obtain kept rest where k: "keep_current ks m = (kept, rest)" by fastforce
  note act = next_by_name_active [OF m]
  have keep: "map ske_name kept = filter (\<lambda>n. fmlookup m n \<noteq> None) (map ske_name ks)"
    "\<And>e. e \<in> set kept \<longleftrightarrow> fmlookup m (ske_name e) = Some e \<and> ske_name e \<in> ske_name ` set ks"
    "\<And>n. fmlookup rest n = (if n \<in> ske_name ` set ks then None else fmlookup m n)"
    using keep_current_facts [OF act(1) k] one by simp_all
  have ks: "set ks = set (active_keys uid sks)" "distinct (map ske_name ks)" using one by blast+
  have "filter (\<lambda>n. fmlookup m n \<noteq> None) (map ske_name ks) = map ske_name ks"
    using act(3) [OF assms(2)] ks(1) by (simp add: filter_id_conv del: not_None_eq)
  then have names: "map ske_name kept = map ske_name ks" using keep(1) by simp
  have "set kept \<subseteq> set ks" using keep(2) act(2) [OF assms(2)] ks(1) by auto
  moreover have "inj_on ske_name (set ks)" using ks(2) by (simp add: distinct_map)
  ultimately have "kept = ks" using names same_names_same_list [of ske_name kept ks "set ks"] by blast
  moreover have "iter rest = []"
    using keep(3) ks(1) act(3) [OF assms(2)] by (intro iter_empty [OF assms(1)]) auto
  ultimately show ?thesis by (simp add: next_signing_keys_def m k)
qed

lemma next_by_name_returns:
  assumes "\<forall>sk \<in> set sks. signing_key_run now (sk_status sk)"
  shows "next_by_name uid sks m \<noteq> Panics"
  using assms
proof (induction uid sks m rule: next_by_name.induct)
  case (2 uid sk sks m)
  have "sks_owner_ref (sk_status sk) \<noteq> None \<and> sks_key_pair (sk_status sk) \<noteq> None"
    if "signing_key_is_ready (sk_status sk)"
    using signing_key_ready_fields [of now "sk_status sk"] 2(4) that by simp
  with 2 show ?case by (auto split: option.split)
qed simp

section \<open>Properties\<close>

text \<open>C38: \<open>NextSigningKeys\<close>. The result embeds exactly the listed signing keys that are ready and owned
  by the resource, each once; the keys that stay keep their order and come first, new ones are
  appended; and computing it again from the result gives the result, whatever the order in which
  Go ranges over its map, so an unchanged list causes no update.\<close>

theorem next_signing_keys_stable:
  assumes "ranges iter" and "distinct_names sks" and "next_signing_keys iter uid current sks = Returns ks"
  shows "set ks = set (active_keys uid sks) \<and> distinct (map ske_name ks)
    \<and> (distinct (map ske_name current) \<longrightarrow> (\<exists>new. map ske_name ks =
         filter (\<lambda>n. n \<in> ske_name ` set (active_keys uid sks)) (map ske_name current) @ new))
    \<and> (ranges iter' \<longrightarrow> next_signing_keys iter' uid ks sks = Returns ks)"
proof -
  have "next_signing_keys iter' uid ks sks = Returns ks" if "ranges iter'"
  proof -
    from next_signing_keys_again [OF assms] obtain m kept rest where
      k: "next_by_name uid sks fmempty = Returns m" "keep_current ks m = (kept, rest)" "kept @ iter rest = ks"
      by (auto simp: next_signing_keys_def split: outcome.splits prod.splits)
    have n: "named m" by (rule next_by_name_active(1) [OF k(1)])
    note keep = keep_current_facts [OF n k(2)]
    note iter = rangesD(2) [OF assms(1) keep [THEN conjunct1]]
    have none: "e \<notin> set (iter rest)" for e
    proof
      assume e: "e \<in> set (iter rest)"
      then have "ske_name e \<in> ske_name ` set ks" using k(3) by (metis UnCI image_eqI set_append)
      moreover have "fmlookup rest (ske_name e) = Some e" using e iter by blast
      ultimately show False using keep by simp
    qed
    then have "iter rest = []" by (metis list.set_intros(1) neq_Nil_conv)
    with k(3) have kept: "kept = ks" by simp
    have "fmlookup rest x = None" for x
    proof (rule ccontr)
      assume "fmlookup rest x \<noteq> None"
      then obtain e where e: "fmlookup rest x = Some e" by blast
      then have "ske_name e = x" using keep [THEN conjunct1] unfolding named_def by blast
      with e have "e \<in> set (iter rest)" using iter by simp
      then show False using none by simp
    qed
    then have "iter' rest = []" by (rule iter_empty [OF that])
    with k kept show ?thesis by (simp add: next_signing_keys_def)
  qed
  with next_signing_keys_facts [OF assms] show ?thesis by blast
qed

text \<open>The order of the concrete runs, by name.\<close>

lemma by_name_order_ranges: "ranges by_name_order"
  unfolding ranges_def
proof (intro allI impI)
  fix m :: "(string, signing_key_embedded_status) fmap"
  assume named: "\<forall>n e. fmlookup m n = Some e \<longrightarrow> ske_name e = n"
  have some: "\<exists>e. fmlookup m n = Some e \<and> ske_name e = n" if "n \<in> fmdom' m" for n
    using that named by (metis fmlookup_dom'_iff)
  have "map ske_name (by_name_order m) = map (\<lambda>n. n) (sorted_list_of_set (fmdom' m))"
    unfolding by_name_order_def map_map comp_def
  proof (intro map_cong refl)
    fix n
    assume "n \<in> set (sorted_list_of_set (fmdom' m))"
    then have "n \<in> fmdom' m" by simp
    from some [OF this] show "ske_name (the (fmlookup m n)) = n" by force
  qed
  then have "distinct (map ske_name (by_name_order m))" by simp
  moreover have "e \<in> set (by_name_order m) \<longleftrightarrow> fmlookup m (ske_name e) = Some e" for e
  proof
    assume "e \<in> set (by_name_order m)"
    then obtain n where n: "n \<in> fmdom' m" "e = the (fmlookup m n)"
      by (auto simp: by_name_order_def)
    from some [OF n(1)] n(2) show "fmlookup m (ske_name e) = Some e" by force
  next
    assume e: "fmlookup m (ske_name e) = Some e"
    then have "ske_name e \<in> fmdom' m" by (rule fmdom'I)
    then have "the (fmlookup m (ske_name e)) \<in> (\<lambda>n. the (fmlookup m n)) ` set (sorted_list_of_set (fmdom' m))"
      by simp
    then show "e \<in> set (by_name_order m)" using e by (simp add: by_name_order_def)
  qed
  ultimately show "distinct (map ske_name (by_name_order m))
      \<and> (\<forall>e. e \<in> set (by_name_order m) \<longleftrightarrow> fmlookup m (ske_name e) = Some e)" by blast
qed

definition sample_signing_key :: "string \<Rightarrow> signing_key" where
  "sample_signing_key name = \<lparr>sk_gvk = group_version_with_kind ''SigningKey'',
     sk_meta = empty_meta\<lparr>m_name := name\<rparr>,
     sk_spec = \<lparr>sk_seed_secret_name = ''s'', sk_owner_ref = \<lparr>sko_api_version = [], sko_kind = ''Account'', sko_name = ''a''\<rparr>\<rparr>,
     sk_status = \<lparr>sks_status = \<lparr>st_conditions = [new_condition ConditionReady ConditionTrue [] [] []]\<rparr>,
       sks_key_pair = Some \<lparr>public_key = ''A'' @ name, seed_secret_name = ''s''\<rparr>,
       sks_owner_ref = Some \<lparr>tor_api_version = [], tor_kind = ''Account'', tor_name = ''a'', tor_namespace = [], tor_uid = ''u''\<rparr>\<rparr>\<rparr>"

lemma sample_signing_key_ready: "signing_key_is_ready (sk_status (sample_signing_key n))"
proof -
  have "st_conditions (sks_status (sk_status (sample_signing_key n))) =
      [new_condition ConditionReady ConditionTrue [] [] []]"
    by (simp add: sample_signing_key_def)
  moreover have "happy signing_key_condition_set = ConditionReady"
    by (simp add: signing_key_condition_set_def new_living_condition_set_def)
  ultimately show ?thesis
    by (simp add: signing_key_is_ready_def signing_key_get_conditions_def get_conditions_def is_happy_def
        get_top_level_condition_def get_condition_def is_true_def new_condition_def)
qed

theorem next_signing_keys_stable_witness:
  "\<exists>ks. next_signing_keys by_name_order ''u'' [] [sample_signing_key ''k''] = Returns ks
     \<and> next_signing_keys by_name_order ''u'' ks [sample_signing_key ''k''] = Returns ks"
proof -
  obtain ks where ks: "next_signing_keys by_name_order ''u'' [] [sample_signing_key ''k''] = Returns ks"
    using sample_signing_key_ready [of "''k''"]
    by (simp add: next_signing_keys_def) (simp add: sample_signing_key_def)
  from next_signing_keys_stable [OF by_name_order_ranges _ this] by_name_order_ranges ks show ?thesis
    by (auto simp: distinct_names_def)
qed

text \<open>\<open>NextSigningKeys\<close> reads \<open>OwnerRef\<close> and \<open>KeyPair\<close> of ready signing keys through pointers; when
  the statuses of the listed keys were written by the lifecycle methods, it does not panic.\<close>

theorem next_signing_keys_returns:
  assumes "\<forall>sk \<in> set sks. signing_key_run now (sk_status sk)"
  shows "\<exists>ks. next_signing_keys iter uid current sks = Returns ks"
proof -
  obtain m where "next_by_name uid sks fmempty = Returns m"
    using next_by_name_returns [OF assms, of uid fmempty] by (cases "next_by_name uid sks fmempty") auto
  then show ?thesis by (auto simp: next_signing_keys_def split: prod.split)
qed

theorem next_signing_keys_returns_witness:
  "let s = fst (signing_key_initialize_conditions tick (new_signing_key_status, 0))
   in \<exists>ks. next_signing_keys by_name_order ''u'' [] [(sample_signing_key ''k'')\<lparr>sk_status := s\<rparr>] = Returns ks"
proof -
  have "signing_key_run tick (fst (signing_key_initialize_conditions tick (new_signing_key_status, 0)))"
    unfolding signing_key_run_def by (intro lifecycle_run.created new_signing_key_status_fresh)
  then show ?thesis
    unfolding Let_def by (intro next_signing_keys_returns [of _ tick]) simp
qed

text \<open>Without a selector a namespace is admitted exactly when it is the parent's own; with one, by
  its labels; a selector that cannot be compiled is an error and never admits.\<close>

theorem match_namespace_selector_admits:
  "match_namespace_selector M parent ns sel = Inr True \<longleftrightarrow>
     (sel = None \<and> m_namespace parent = m_name (ns_meta ns)
      \<or> (\<exists>s compiled. sel = Some s \<and> label_selector_as_selector M s = Inr compiled
           \<and> sel_matches compiled (m_labels (ns_meta ns))))"
  by (auto simp: match_namespace_selector_def split: option.split sum.split)

end
