(* ===== verification/Base_Reconciler.thy ===== *)
theory Base_Reconciler
  imports Nats_Client Helpers
begin

text \<open>
  internal/controller/accounts/base_controller.go: what the reconcilers of the resources share. The
  secrets with the seeds and the JWTs are kept up to date here, and the issuer of a JWT is resolved
  and its seed loaded. A pair of a value and an error is a sum; where the code returns a value, a
  \<open>reconcile.Result\<close> and an error together, so does the model.
\<close>

section \<open>The seed secret\<close>

text \<open>Reading a key of \<open>Data\<close> that is not there gives no bytes.\<close>

definition secret_bytes :: "secret \<Rightarrow> string \<Rightarrow> string" where
  "secret_bytes sec key = (case fmlookup (s_data sec) key of None \<Rightarrow> [] | Some b \<Rightarrow> b)"

definition fails :: "(error \<Rightarrow> error) \<Rightarrow> string \<Rightarrow> string \<Rightarrow> fmt_arg list \<Rightarrow> error" where
  "fails kind reason f as = kind (condition_failed reason f as)"

definition unknown :: "(error \<Rightarrow> error) \<Rightarrow> string \<Rightarrow> string \<Rightarrow> fmt_arg list \<Rightarrow> error" where
  "unknown kind reason f as = kind (condition_unknown reason f as)"

definition create_seed_secret ::
  "'x env \<Rightarrow> client_object \<Rightarrow> ('x \<Rightarrow> (error + keypair) \<times> 'x) \<Rightarrow> secret_option list
     \<Rightarrow> (('x, 'o) st, key_pair option \<times> string \<times> error option) go" where
  "create_seed_secret E obj new_kp opts =
     bind (create_key new_kp) (\<lambda>r.
     case r of
       Inl e \<Rightarrow> ret (None, [], Some (fails temporary_error ReasonUnknownError
                 ''failed to generate new KeyPair: %w'' [AErr e]))
     | Inr kp \<Rightarrow> (case kp_seed kp of
         Inl e \<Rightarrow> ret (None, [], Some (fails terminal_error ReasonUnknownError
                   ''failed to get Seed from nkey.KeyPair: %w'' [AErr e]))
       | Inr seed \<Rightarrow> (case kp_public_key kp of
           Inl e \<Rightarrow> ret (None, [], Some (fails terminal_error ReasonMalformedSeedSecret
                     ''failed to get PublicKey from nkey.KeyPair: %w'' [AErr e]))
         | Inr pubkey \<Rightarrow> (case key_pair_secret_build (e_mach E) new_key_pair_secret_builder obj kp opts of
             Inl e \<Rightarrow> ret (None, [], Some (fails temporary_error ReasonUnknownError
                       ''failed to build seed secret: %w'' [AErr e]))
           | Inr sec \<Rightarrow>
               bind (create_secret E sec) (\<lambda>(err, sec').
               case err of
                 Some e \<Rightarrow> ret (None, [], Some (fails temporary_error ReasonUnknownError
                           ''failed to create seed secret: %w'' [AErr e]))
               | None \<Rightarrow>
                   bind (eventf obj EventTypeNormal ''SeedSecretCreated'' ''created secret: %s/%s''
                          [AStr (m_namespace (s_meta sec')), AStr (m_name (s_meta sec'))]) (\<lambda>_.
                   ret (Some \<lparr>public_key = pubkey, seed_secret_name = m_name (s_meta sec')\<rparr>, seed, None)))))))"

definition ensure_seed_secret_up_to_date ::
  "'x env \<Rightarrow> client_object \<Rightarrow> secret \<Rightarrow> secret_option list
     \<Rightarrow> (('x, 'o) st, key_pair option \<times> ctrl_result \<times> error option) go" where
  "ensure_seed_secret_up_to_date E owner got opts =
     (case fmlookup (s_data got) NatsSecretSeedKey of
        None \<Rightarrow> ret (None, zero_result, Some (fails terminal_error ReasonInvalidSeedSecret
                  ''seed secret does not contain seed data, delete the secret for a new keypair'' []))
      | Some seed \<Rightarrow> (case from_seed (e_nkeys E) seed of
          Inl e \<Rightarrow> ret (None, zero_result, Some (fails terminal_error ReasonInvalidSeedSecret
                    ''failed to parse seed: %w'' [AErr e]))
        | Inr kp \<Rightarrow> (case kp_public_key kp of
            Inl e \<Rightarrow> ret (None, zero_result, Some (fails terminal_error ReasonMalformedSeedSecret
                      ''failed to get PublicKey from KeyPair: %w'' [AErr e]))
          | Inr pubkey \<Rightarrow>
              (case key_pair_secret_build (e_mach E) (new_key_pair_secret_builder_from_secret got) owner kp opts of
                 Inl e \<Rightarrow> ret (None, zero_result, Some (fails terminal_error ReasonUnknownError
                           ''failed to build seed secret from existing secret: %w'' [AErr e]))
               | Inr want \<Rightarrow>
                   (if got \<noteq> want
                    then bind (update_secret E want) (\<lambda>(err, want').
                      case err of
                        Some e \<Rightarrow> ret (None, zero_result, Some (fails temporary_error ReasonUnknownError
                                  ''failed to update seed secret: %w'' [AErr e]))
                      | None \<Rightarrow>
                          bind (eventf owner EventTypeNormal ''SeedSecretUpdated'' ''updated secret: %s/%s''
                                 [AStr (m_namespace (s_meta want')), AStr (m_name (s_meta want'))]) (\<lambda>_.
                          ret (Some \<lparr>public_key = pubkey, seed_secret_name = m_name (s_meta got)\<rparr>,
                               requeue_result, None)))
                    else ret (Some \<lparr>public_key = pubkey, seed_secret_name = m_name (s_meta got)\<rparr>,
                              zero_result, None))))))"

definition reconcile_seed_secret ::
  "'x env \<Rightarrow> client_object \<Rightarrow> ('x \<Rightarrow> (error + keypair) \<times> 'x) \<Rightarrow> string \<Rightarrow> secret_option list
     \<Rightarrow> (('x, 'o) st, key_pair option \<times> string \<times> ctrl_result \<times> error option) go" where
  "reconcile_seed_secret E owner new_kp secret_name opts =
     bind (get_secret E (m_namespace (object_get_meta owner)) secret_name) (\<lambda>r.
     case r of
       Inl e \<Rightarrow>
         (if is_not_found e
          then bind (create_seed_secret E owner new_kp opts) (\<lambda>(kp, seed, err).
               ret (kp, seed, requeue_result, err))
          else ret (None, [], zero_result, Some (unknown temporary_error ReasonUnknownError
                 ''failed to get seed secret: %w'' [AErr e])))
     | Inr got \<Rightarrow>
         bind (ensure_seed_secret_up_to_date E owner got opts) (\<lambda>(kp, result, err).
         ret (kp, secret_bytes got NatsSecretSeedKey, result, err)))"

section \<open>The JWT secret\<close>

definition create_jwt_secret :: "'x env \<Rightarrow> client_object \<Rightarrow> string \<Rightarrow> (('x, 'o) st, error option) go" where
  "create_jwt_secret E obj jwt =
     (case jwt_secret_build (e_mach E) new_jwt_secret_builder obj jwt [] of
        Inl e \<Rightarrow> ret (Some (fails terminal_error ReasonUnknownError
                  ''failed to build account keypair secret: %w'' [AErr e]))
      | Inr sec \<Rightarrow>
          bind (create_secret E sec) (\<lambda>(err, sec').
          case err of
            Some e \<Rightarrow> ret (Some (fails temporary_error ReasonUnknownError
                      ''failed to create account JWT secret: %w'' [AErr e]))
          | None \<Rightarrow>
              bind (eventf obj EventTypeNormal ''JWTSecretCreated'' ''created secret: %s/%s''
                     [AStr (m_namespace (s_meta sec')), AStr (m_name (s_meta sec'))]) (\<lambda>_.
              ret None)))"

text \<open>The existing secret has no JWT: it is replaced when it belongs to the object.\<close>

definition replace_jwt_secret ::
  "'x env \<Rightarrow> client_object \<Rightarrow> secret \<Rightarrow> string \<Rightarrow> (('x, 'o) st, string \<times> ctrl_result \<times> error option) go" where
  "replace_jwt_secret E acc got next_jwt =
     (if list_ex (\<lambda>ref. or_uid ref = m_uid (object_get_meta acc)) (m_owner_references (s_meta got))
      then bind (delete_secret E got) (\<lambda>err.
        case err of
          Some e \<Rightarrow> ret ([], zero_result, Some (unknown temporary_error ReasonUnknownError
                    ''failed to delete invalid JWT secret: %w'' [AErr e]))
        | None \<Rightarrow>
            bind (eventf acc EventTypeNormal ''JWTSecretDeleted'' ''deleted secret: %s/%s''
                   [AStr (m_namespace (s_meta got)), AStr (m_name (s_meta got))]) (\<lambda>_.
            bind (create_jwt_secret E acc next_jwt) (\<lambda>err.
            ret (next_jwt, requeue_result, err))))
      else ret ([], zero_result, Some (fails terminal_error ReasonInvalidJWTSecret
             ''JWT secret does not contain JWT data and is not owned by this controller'' [])))"

definition update_jwt_secret ::
  "'x env \<Rightarrow> client_object \<Rightarrow> secret \<Rightarrow> string \<Rightarrow> (('x, 'o) st, string \<times> ctrl_result \<times> error option) go" where
  "update_jwt_secret E acc got next_jwt =
     (case jwt_secret_build (e_mach E) (new_jwt_secret_builder_from_secret got) acc next_jwt [] of
        Inl e \<Rightarrow> ret ([], zero_result, Some (fails terminal_error ReasonUnknownError
                  ''failed to build desired JWT secret: %w'' [AErr e]))
      | Inr want \<Rightarrow>
          bind (update_secret E want) (\<lambda>(err, want').
          case err of
            Some e \<Rightarrow>
              (if is_not_found e
               then bind (create_jwt_secret E acc next_jwt) (\<lambda>err. ret (next_jwt, requeue_result, err))
               else ret ([], zero_result, Some (fails temporary_error ReasonUnknownError
                      ''failed to update JWT secret: %w'' [AErr e])))
          | None \<Rightarrow>
              bind (eventf acc EventTypeNormal ''JWTSecretUpdated'' ''updated secret: %s/%s''
                     [AStr (m_namespace (s_meta want')), AStr (m_name (s_meta want'))]) (\<lambda>_.
              ret (next_jwt, requeue_result, None))))"

definition ensure_jwt_secret_up_to_date ::
  "'x env \<Rightarrow> client_object \<Rightarrow> claims \<Rightarrow> secret \<Rightarrow> string
     \<Rightarrow> (('x, 'o) st, string \<times> ctrl_result \<times> error option) go" where
  "ensure_jwt_secret_up_to_date E acc want_claims got next_jwt =
     (case fmlookup (s_data got) NatsSecretJWTKey of
        None \<Rightarrow> replace_jwt_secret E acc got next_jwt
      | Some got_jwt \<Rightarrow> (case jwt_decode (e_jwt E) got_jwt of
          Inl e \<Rightarrow> update_jwt_secret E acc got next_jwt
        | Inr got_claims \<Rightarrow>
            (if \<not> claims_equal got_claims want_claims
             then update_jwt_secret E acc got next_jwt
             else ret (got_jwt, zero_result, None))))"

section \<open>The issuer\<close>

fun key_pairable_condition_set :: "key_pairable \<Rightarrow> condition_set" where
  "key_pairable_condition_set (KPOperator _) = operator_condition_set"
| "key_pairable_condition_set (KPAccount _) = account_condition_set"
| "key_pairable_condition_set (KPSigningKey _) = signing_key_condition_set"

text \<open>\<open>GetStatus\<close> returns a pointer into the object; this writes through it.\<close>

fun set_status :: "status \<Rightarrow> key_pairable \<Rightarrow> key_pairable" where
  "set_status s (KPOperator o') = KPOperator (o'\<lparr>op_status := (op_status o')\<lparr>ops_status := s\<rparr>\<rparr>)"
| "set_status s (KPAccount a) = KPAccount (a\<lparr>acc_status := (acc_status a)\<lparr>accs_status := s\<rparr>\<rparr>)"
| "set_status s (KPSigningKey k) = KPSigningKey (k\<lparr>sk_status := (sk_status k)\<lparr>sks_status := s\<rparr>\<rparr>)"

definition key_pairable_initialize_conditions :: "'x env \<Rightarrow> key_pairable \<Rightarrow> (('x, 'o) st, key_pairable) go" where
  "key_pairable_initialize_conditions E kp =
     bind (with_clock (manage get_conditions set_conditions
             (initialize_conditions (time_now (e_kube E)) (key_pairable_condition_set kp))) (get_status kp)) (\<lambda>s.
     ret (set_status s kp))"

definition key_pairable_is_ready :: "key_pairable \<Rightarrow> bool" where
  "key_pairable_is_ready kp =
     is_true (get_top_level_condition (key_pairable_condition_set kp) (get_conditions (get_status kp)))"

definition get_group_version_kind :: "machinery \<Rightarrow> typed_object_reference \<Rightarrow> gvk" where
  "get_group_version_kind M r = from_api_version_and_kind M (tor_api_version r) (tor_kind r)"

definition resolve_issuer ::
  "'x env \<Rightarrow> issuer_reference \<Rightarrow> string \<Rightarrow> (('x, 'o) st, error + key_pairable) go" where
  "resolve_issuer E issuer fallback_namespace =
     (let r = issuer_ref issuer;
          issuer_gvk = get_group_version_kind (e_mach E) r
      in case scheme_new (e_mach E) issuer_gvk of
        Inl e \<Rightarrow> ret (Inl (fails terminal_error ReasonUnsupportedIssuer
                  ''unsupported GroupVersionKind: %s'' [AStr (error_text e)]))
      | Inr (NewRuntimeObject t) \<Rightarrow> ret (Inl (fails terminal_error ReasonUnsupportedIssuer
                  ''runtime.Object cannot be converted to client.Object: %s''
                  [AStr (gvk_string (e_mach E) issuer_gvk)]))
      | Inr (NewObject k) \<Rightarrow>
          (let ns = (if tor_namespace r \<noteq> [] then tor_namespace r else fallback_namespace)
           in bind (get_object E k ns (tor_name r)) (\<lambda>got.
              case got of
                Inl e \<Rightarrow>
                  (if is_not_found e
                   then ret (Inl (fails temporary_error ReasonNotFound ''%s, %s/%s: not found''
                          [AStr (gvk_string (e_mach E) issuer_gvk), AStr ns, AStr (tor_name r)]))
                   else ret (Inl (unknown id ReasonUnknownError
                          ''failed to get issuer object from client: %w'' [AErr e])))
              | Inr obj \<Rightarrow>
                  (case as_key_pairable obj of
                     None \<Rightarrow> ret (Inl (fails terminal_error ReasonUnsupportedIssuer
                               ''issuer does not implement KeyPairable interface'' []))
                   | Some kp \<Rightarrow>
                       bind (key_pairable_initialize_conditions E kp) (\<lambda>kp.
                       if \<not> key_pairable_is_ready kp
                       then ret (Inl (fails temporary_error ReasonNotReady
                              ''issuer seed secret is not ready'' []))
                       else ret (Inr kp))))))"

definition resolve_signing_key_owner ::
  "'x env \<Rightarrow> signing_key \<Rightarrow> (('x, 'o) st, error + client_object) go" where
  "resolve_signing_key_owner E sk =
     (if \<not> is_true (signing_key_get_condition SigningKeyConditionOwnerResolved (sk_status sk))
      then ret (Inl (unknown temporary_error ReasonNotReady ''signing key owner has not been resolved'' []))
      else bind (deref (sks_owner_ref (sk_status sk))) (\<lambda>r.
        let g = get_group_version_kind (e_mach E) r
        in case scheme_new (e_mach E) g of
          Inl e \<Rightarrow> ret (Inl (fails temporary_error ReasonInvalidSigningKeyOwner
                    ''unsupported GroupVersionKind: %s'' [AStr (error_text e)]))
        | Inr (NewRuntimeObject t) \<Rightarrow> ret (Inl (fails temporary_error ReasonInvalidSigningKeyOwner
                    ''runtime.Object cannot be converted to client.Object: %s'' [AStr (gvk_string (e_mach E) g)]))
        | Inr (NewObject k) \<Rightarrow>
            bind (get_object E k (tor_namespace r) (tor_name r)) (\<lambda>got.
            case got of
              Inl e \<Rightarrow>
                (if is_not_found e
                 then ret (Inl (fails temporary_error ReasonNotFound ''%s, %s/%s: not found''
                        [AStr (gvk_string (e_mach E) g), AStr (tor_namespace r), AStr (tor_name r)]))
                 else ret (Inl (unknown id ReasonUnknownError
                        ''failed to get owner object from client: %w'' [AErr e])))
            | Inr owner \<Rightarrow> ret (Inr owner))))"

definition load_issuer_seed ::
  "'x env \<Rightarrow> key_pairable \<Rightarrow> nat \<Rightarrow> (('x, 'o) st, error + keypair) go" where
  "load_issuer_seed E issuer want_prefix =
     (case get_key_pair issuer of
        None \<Rightarrow> ret (Inl (fails id ReasonUnknownError ''issuer KeyPair is nil'' []))
      | Some key_pair \<Rightarrow>
          bind (get_secret E (m_namespace (get_meta issuer)) (seed_secret_name key_pair)) (\<lambda>r.
          case r of
            Inl e \<Rightarrow>
              (if is_not_found e
               then ret (Inl (fails temporary_error ReasonNotFound ''core/v1; Secret, %s/%s: not found''
                      [AStr (m_namespace (get_meta issuer)), AStr (m_name (get_meta issuer))]))
               else ret (Inl (unknown id ReasonIssuerSeedError ''failed to get issuer seed: %s''
                      [AStr (error_text e)])))
          | Inr sec \<Rightarrow> (case fmlookup (s_data sec) NatsSecretSeedKey of
              None \<Rightarrow> ret (Inl (fails terminal_error ReasonMalformedSeedSecret
                        ''secret missing required field: %s'' [AStr NatsSecretSeedKey]))
            | Some seed \<Rightarrow> (case decode_seed (e_nkeys E) seed of
                Inl e \<Rightarrow> ret (Inl (fails terminal_error ReasonMalformedSeedSecret
                          ''failed to parse seed: %s'' [AStr (error_text e)]))
              | Inr prefix \<Rightarrow>
                  (if prefix \<noteq> want_prefix
                   then ret (Inl (fails terminal_error ReasonMalformedSeedSecret
                          ''unexpected seed prefix, wanted %q but got %q''
                          [AStr (prefix_string (e_nkeys E) want_prefix), AStr (prefix_string (e_nkeys E) prefix)]))
                   else case from_seed (e_nkeys E) seed of
                     Inl _ \<Rightarrow> panic
                   | Inr kp \<Rightarrow> (case kp_public_key kp of
                       Inl e \<Rightarrow> ret (Inl (fails terminal_error ReasonUnknownError
                                 ''failed to get public key from seed: %s'' [AStr (error_text e)]))
                     | Inr pk \<Rightarrow>
                         (if pk \<noteq> public_key key_pair
                          then ret (Inl (fails terminal_error ReasonPublicKeyMismatch
                                 ''public key mismatch, wanted %q but got %q''
                                 [AStr (public_key key_pair), AStr pk]))
                          else ret (Inr kp))))))))"

section \<open>Facts: the seed secret\<close>

text \<open>Documented behaviour of nkeys: the key pair of a seed has that seed.\<close>

definition seed_law :: "'x env \<Rightarrow> bool" where
  "seed_law E = (\<forall>seed kp. from_seed (e_nkeys E) seed = Inr kp \<longrightarrow> kp_seed kp = Inr seed)"

text \<open>
  The calls that keeping the seed secret up to date may make, after the secret \<open>got\<close> was read:
  the only write is an update that keeps the seed.
\<close>

definition keeps_seed :: "secret \<Rightarrow> call \<Rightarrow> bool" where
  "keeps_seed got c = (case c of
       SecretUpdate sec _ \<Rightarrow> fmlookup (s_data sec) NatsSecretSeedKey = fmlookup (s_data got) NatsSecretSeedKey
     | EventSent _ _ _ _ \<Rightarrow> True
     | _ \<Rightarrow> False)"

lemma secret_keys_distinct [simp]:
  "NatsSecretSeedKey \<noteq> NatsSecretPublicKeyKey" "NatsSecretPublicKeyKey \<noteq> NatsSecretSeedKey"
  by (simp_all add: secret_key_defs)

lemma key_pair_secret_seed:
  assumes "key_pair_secret_build M b ob kp opts = Inr w" and "kp_seed kp = Inr seed"
  shows "fmlookup (s_data w) NatsSecretSeedKey = Some seed"
  using key_pair_builder.build_meant [OF assms(1)] assms(2) by (auto simp: key_pair_secret_meant_def)

lemma ensure_seed_keeps:
  assumes "seed_law E"
  shows "emits (ensure_seed_secret_up_to_date E owner got opts) (keeps_seed got)"
  unfolding ensure_seed_secret_up_to_date_def
  by (intro emits_rules)
    (use assms in \<open>auto simp: keeps_seed_def seed_law_def new_key_pair_secret_builder_from_secret_def
        dest: key_pair_secret_seed\<close>)

lemma create_seed_emits:
  "emits (create_seed_secret E obj nk opts)
     (\<lambda>c. case c of KeyCreate _ \<Rightarrow> True | SecretCreate _ _ \<Rightarrow> True | EventSent _ _ _ _ \<Rightarrow> True | _ \<Rightarrow> False)"
  unfolding create_seed_secret_def by (intro emits_rules) simp_all

text \<open>
  What a reconciliation of the seed secret does, from the answer to its first call: nothing when
  the secret could not be read, an update that keeps the seed when it exists, and a new secret
  only when the server said that there is none.
\<close>

definition seed_protocol :: "string \<Rightarrow> string \<Rightarrow> call list \<Rightarrow> bool" where
  "seed_protocol ns name l = (\<exists>answer rest. l = SecretGet ns name answer # rest \<and>
     (case answer of
        Inr got \<Rightarrow> \<forall>c \<in> set rest. keeps_seed got c
      | Inl e \<Rightarrow> if is_not_found e
          then \<forall>c \<in> set rest. \<forall>sec r. c \<noteq> SecretUpdate sec r \<and> c \<noteq> SecretDelete sec r
          else rest = []))"

lemma emits_logs: "emits m P \<Longrightarrow> logs m (\<lambda>r l. \<forall>c \<in> set l. P c)"
  by (simp add: emits_def)

lemma reconcile_seed_protocol:
  assumes "seed_law E"
  shows "logs (reconcile_seed_secret E owner nk name opts)
     (\<lambda>r l. seed_protocol (m_namespace (object_get_meta owner)) name l)"
  unfolding reconcile_seed_secret_def
proof (rule logs_bind_calls(1))
  fix a :: "error + secret"
  let ?R = "\<lambda>r l. seed_protocol (m_namespace (object_get_meta owner)) name
      (SecretGet (m_namespace (object_get_meta owner)) name a # l)"
  show "logs (case a of
        Inl e \<Rightarrow> if is_not_found e
          then bind (create_seed_secret E owner nk opts) (\<lambda>(kp, seed, err). ret (kp, seed, requeue_result, err))
          else ret (None, [], zero_result, Some (unknown temporary_error ReasonUnknownError
                 ''failed to get seed secret: %w'' [AErr e]))
      | Inr got \<Rightarrow> bind (ensure_seed_secret_up_to_date E owner got opts)
          (\<lambda>(kp, result, err). ret (kp, secret_bytes got NatsSecretSeedKey, result, err))) ?R"
  proof (cases a)
    case (Inr got)
    have "emits (bind (ensure_seed_secret_up_to_date E owner got opts)
        (\<lambda>(kp, result, err). ret (kp, secret_bytes got NatsSecretSeedKey, result, err))) (keeps_seed got)"
      by (intro emits_rules ensure_seed_keeps assms)
    then show ?thesis unfolding Inr by (auto simp: seed_protocol_def dest!: emits_logs elim!: logs_mono)
  next
    case (Inl e)
    have "emits (bind (create_seed_secret E owner nk opts) (\<lambda>(kp, seed, err). ret (kp, seed, requeue_result, err)))
        (\<lambda>c. \<forall>sec r. c \<noteq> SecretUpdate sec r \<and> c \<noteq> SecretDelete sec r)"
      by (intro emits_rules emits_mono [OF create_seed_emits]) (auto split: call.splits)
    then show ?thesis unfolding Inl
      by (auto simp: seed_protocol_def intro!: logs_ret dest!: emits_logs elim!: logs_mono)
  qed
qed

text \<open>
  A reconciliation of the seed that neither fails nor asks for another one has read the secret
  and written nothing: the seed, the public key and the labels are the ones meant.
\<close>

lemma reconcile_seed_settled:
  "logs (reconcile_seed_secret E owner nk name opts) (\<lambda>r l. \<forall>kp seed.
     r = Returns (kp, seed, zero_result, None) \<longrightarrow>
     (\<exists>got k pk. l = [SecretGet (m_namespace (object_get_meta owner)) name (Inr got)]
        \<and> fmlookup (s_data got) NatsSecretSeedKey = Some seed
        \<and> from_seed (e_nkeys E) seed = Inr k \<and> kp_public_key k = Inr pk
        \<and> kp = Some \<lparr>public_key = pk, seed_secret_name = m_name (s_meta got)\<rparr>
        \<and> key_pair_secret_meant owner k got))"
  unfolding reconcile_seed_secret_def ensure_seed_secret_up_to_date_def create_seed_secret_def
  by (rule logsI)
    (auto simp: call_defs secret_bytes_def new_key_pair_secret_builder_from_secret_def
      split: prod.split sum.split option.split dest: key_pair_builder.up_to_date_meant)

text \<open>Every result without an error comes with a key pair, so the controllers may read it.\<close>

lemma reconcile_seed_returns:
  "logs (reconcile_seed_secret E owner nk name opts) (\<lambda>r l. \<exists>kp seed res err.
     r = Returns (kp, seed, res, err) \<and> (err = None \<longrightarrow> kp \<noteq> None))"
  unfolding reconcile_seed_secret_def ensure_seed_secret_up_to_date_def create_seed_secret_def
  by (rule logsI) (auto simp: call_defs split: prod.split sum.split option.split)

section \<open>Facts: the JWT secret\<close>

definition written_jwt :: "client_object \<Rightarrow> string \<Rightarrow> call \<Rightarrow> bool" where
  "written_jwt ob jwt c = (\<exists>sec. (c = SecretUpdate sec None \<or> c = SecretCreate sec None) \<and> jwt_secret_meant ob jwt sec)"

text \<open>
  The writes to the JWT secret \<open>got\<close>: the new token in the secret the object asks for, and a
  deletion only of a secret that has no token and that the object owns.
\<close>

definition jwt_write_ok :: "client_object \<Rightarrow> secret \<Rightarrow> string \<Rightarrow> call \<Rightarrow> bool" where
  "jwt_write_ok ob got jwt c = (case c of
       SecretUpdate sec _ \<Rightarrow> jwt_secret_meant ob jwt sec
     | SecretCreate sec _ \<Rightarrow> jwt_secret_meant ob jwt sec
     | SecretDelete sec _ \<Rightarrow> sec = got \<and> fmlookup (s_data got) NatsSecretJWTKey = None
         \<and> (\<exists>ref \<in> set (m_owner_references (s_meta got)). or_uid ref = m_uid (object_get_meta ob))
     | EventSent ob' _ _ _ \<Rightarrow> ob' = ob
     | _ \<Rightarrow> False)"

lemma create_jwt_emits:
  assumes "\<And>sec r. jwt_secret_meant ob jwt sec \<Longrightarrow> P (SecretCreate sec r)"
    and "\<And>ty reason msg. P (EventSent ob ty reason msg)"
  shows "emits (create_jwt_secret E ob jwt) P"
  unfolding create_jwt_secret_def
  by (intro emits_rules) (auto intro: assms dest: jwt_builder.build_meant)

lemma ensure_jwt_writes:
  "emits (ensure_jwt_secret_up_to_date E ob want got next_jwt) (jwt_write_ok ob got next_jwt)"
  unfolding ensure_jwt_secret_up_to_date_def replace_jwt_secret_def update_jwt_secret_def
  by (intro emits_rules create_jwt_emits)
    (auto simp: jwt_write_ok_def list_ex_iff new_jwt_secret_builder_from_secret_def
      dest: jwt_builder.build_meant)

lemma create_jwt_logs:
  "logs (create_jwt_secret E ob jwt) (\<lambda>r l. \<exists>err. r = Returns err \<and> (err = None \<longrightarrow> (\<exists>c \<in> set l. written_jwt ob jwt c)))"
  unfolding create_jwt_secret_def
  by (rule logsI) (auto simp: call_defs written_jwt_def split: prod.split sum.split option.split
      dest: jwt_builder.build_meant)

text \<open>
  When it reports no error, either the stored token still says what is wanted and nothing is
  written, or the new token has been written and the reconciliation is repeated.
\<close>

definition jwt_settled :: "'x env \<Rightarrow> client_object \<Rightarrow> claims \<Rightarrow> secret \<Rightarrow> string
    \<Rightarrow> (string \<times> ctrl_result \<times> error option) outcome \<Rightarrow> call list \<Rightarrow> bool" where
  "jwt_settled E ob want got next_jwt r l = (\<exists>jwt res err. r = Returns (jwt, res, err)
     \<and> (err = None \<longrightarrow>
         (res = zero_result \<and> l = [] \<and> fmlookup (s_data got) NatsSecretJWTKey = Some jwt
          \<and> (\<exists>c. jwt_decode (e_jwt E) jwt = Inr c \<and> claims_equal c want))
         \<or> (res = requeue_result \<and> jwt = next_jwt \<and> (\<exists>c \<in> set l. written_jwt ob next_jwt c))))"

lemma jwt_settled_error: "err \<noteq> None \<Longrightarrow> jwt_settled E ob want got next_jwt (Returns (jwt, res, err)) l"
  by (auto simp: jwt_settled_def)

lemma jwt_settled_written:
  "(\<And>err. err = None \<Longrightarrow> \<exists>c \<in> set l. written_jwt ob next_jwt c) \<Longrightarrow>
     jwt_settled E ob want got next_jwt (Returns (next_jwt, requeue_result, err)) l"
  by (simp add: jwt_settled_def)

lemma create_jwt_settled:
  "logs (bind (create_jwt_secret E ob next_jwt) (\<lambda>err. ret (next_jwt, requeue_result, err)))
     (\<lambda>r l. jwt_settled E ob want got next_jwt r (front @ l))"
  by (rule logs_seq [OF create_jwt_logs]) (auto intro!: logs_ret simp: jwt_settled_def)

lemma replace_jwt_settled:
  "logs (replace_jwt_secret E ob got next_jwt) (jwt_settled E ob want got next_jwt)"
  unfolding replace_jwt_secret_def
  by (intro logs_rules create_jwt_settled [of _ _ _ _ _ "[_, _]", simplified])
    (simp_all add: jwt_settled_def)

lemma update_jwt_settled:
  "logs (update_jwt_secret E ob got next_jwt) (jwt_settled E ob want got next_jwt)"
  unfolding update_jwt_secret_def
  by (intro logs_rules create_jwt_settled [of _ _ _ _ _ "[_]", simplified])
    (auto simp: jwt_settled_def written_jwt_def new_jwt_secret_builder_from_secret_def
      dest: jwt_builder.build_meant)

lemma ensure_jwt_settled:
  "logs (ensure_jwt_secret_up_to_date E ob want got next_jwt) (jwt_settled E ob want got next_jwt)"
  unfolding ensure_jwt_secret_up_to_date_def
  by (intro logs_rules replace_jwt_settled update_jwt_settled) (simp add: jwt_settled_def)

section \<open>Facts: the issuer\<close>

lemma set_status_same [simp]:
  "get_key_pair (set_status s kp) = get_key_pair kp" "get_meta (set_status s kp) = get_meta kp"
  "key_pairable_condition_set (set_status s kp) = key_pairable_condition_set kp"
  by (cases kp; simp add: operator_get_key_pair_def account_get_key_pair_def signing_key_get_key_pair_def)+

text \<open>An issuer is only returned when it is ready; it was read once, by the reference of the spec.\<close>

lemma resolve_issuer_logs:
  "logs (resolve_issuer E issuer ns) (\<lambda>r l. \<exists>x. r = Returns x \<and> (\<forall>kp. x = Inr kp \<longrightarrow>
     key_pairable_is_ready kp
     \<and> (\<exists>k obj kp0. as_key_pairable obj = Some kp0 \<and> get_key_pair kp = get_key_pair kp0 \<and> get_meta kp = get_meta kp0
        \<and> l = [ObjectGet k (if tor_namespace (issuer_ref issuer) \<noteq> [] then tor_namespace (issuer_ref issuer) else ns)
                (tor_name (issuer_ref issuer)) (Inr obj)])))"
  unfolding resolve_issuer_def key_pairable_initialize_conditions_def Let_def
  by (intro logs_rules) (auto simp: bind_bind)

lemma resolve_issuer_emits:
  "emits (resolve_issuer E issuer ns) (\<lambda>c. \<exists>k n m r. c = ObjectGet k n m r)"
  unfolding resolve_issuer_def key_pairable_initialize_conditions_def Let_def
  by (intro emits_rules) auto

lemma resolve_signing_key_owner_emits:
  "emits (resolve_signing_key_owner E sk) (\<lambda>c. \<exists>k n m r. c = ObjectGet k n m r)"
  unfolding resolve_signing_key_owner_def Let_def
  by (intro emits_rules) auto

text \<open>What makes a seed the issuer's: its prefix and its public key.\<close>

definition issuer_key :: "'x env \<Rightarrow> key_pair \<Rightarrow> nat \<Rightarrow> secret \<Rightarrow> keypair \<Rightarrow> bool" where
  "issuer_key E kpr prefix sec kp = (\<exists>seed. fmlookup (s_data sec) NatsSecretSeedKey = Some seed
     \<and> decode_seed (e_nkeys E) seed = Inr prefix \<and> from_seed (e_nkeys E) seed = Inr kp
     \<and> kp_public_key kp = Inr (public_key kpr))"

lemma load_issuer_seed_logs:
  "logs (load_issuer_seed E issuer prefix) (\<lambda>r l. \<forall>kp. r = Returns (Inr kp) \<longleftrightarrow>
     (\<exists>kpr sec. get_key_pair issuer = Some kpr
        \<and> l = [SecretGet (m_namespace (get_meta issuer)) (seed_secret_name kpr) (Inr sec)]
        \<and> issuer_key E kpr prefix sec kp))"
  unfolding load_issuer_seed_def
  by (rule logsI) (auto simp: call_defs issuer_key_def split: prod.split sum.split option.split)

lemma load_issuer_seed_emits:
  "emits (load_issuer_seed E issuer prefix) (\<lambda>c. \<exists>n m r. c = SecretGet n m r)"
  unfolding load_issuer_seed_def by (intro emits_rules) auto

end
