(* ===== verification/Reconciler.thy ===== *)
theory Reconciler
  imports Base_Reconciler
begin

text \<open>
  The frame of the four \<open>Reconcile\<close> methods: the object is fetched, its conditions are initialised,
  and a deferred function writes the status back when it has changed, whether the body returned or
  panicked. \<open>status_deferral\<close> is that function; \<open>status_reconciler\<close> is the contract of the frame,
  interpreted by every controller: an object that is gone is left alone, and a reconciliation
  writes the status at most once, as its last call, and exactly when it differs from the status
  that was read.
\<close>

section \<open>Calls on the object under reconciliation\<close>

text \<open>A lifecycle method called on the status of the current object.\<close>

definition on_status ::
  "('o \<Rightarrow> 's) \<Rightarrow> ('s \<Rightarrow> 'o \<Rightarrow> 'o) \<Rightarrow> ('s \<times> 'x \<Rightarrow> 's \<times> 'x) \<Rightarrow> (('x, 'o) st, unit) go" where
  "on_status status_of put_status f =
     bind get_cur (\<lambda>obj.
     bind (with_clock f (status_of obj)) (\<lambda>s.
     set_cur (put_status s obj)))"

text \<open>A missing label reads as the empty string.\<close>

definition label_value :: "object_meta \<Rightarrow> string \<Rightarrow> string" where
  "label_value m k = (case fmlookup (m_labels m) k of None \<Rightarrow> [] | Some v \<Rightarrow> v)"

definition put_label :: "string \<Rightarrow> string \<Rightarrow> object_meta \<Rightarrow> object_meta" where
  "put_label k v m = m\<lparr>m_labels := fmupd k v (m_labels m)\<rparr>"

definition of_outcome :: "'a outcome \<Rightarrow> ('s, 'a) go" where
  "of_outcome r = (case r of Returns a \<Rightarrow> ret a | Panics \<Rightarrow> panic)"

lemma wp_on_status [simp, wp_simps]:
  "wp (on_status status_of put_status f) Q s = (case f (status_of (cur s), ext s) of
     (a, x) \<Rightarrow> Q (Returns ()) (s\<lparr>ext := x, cur := put_status a (cur s)\<rparr>))"
  by (simp add: on_status_def split: prod.split)

lemma wp_of_outcome [simp, wp_simps]: "wp (of_outcome r) Q s = Q r s"
  by (cases r) (simp_all add: of_outcome_def)

lemma emits_on_status [emits_rules, simp]: "emits (on_status status_of put_status f) P"
  unfolding on_status_def by (intro emits_rules)

lemma emits_of_outcome [emits_rules, simp]: "emits (of_outcome r) P"
  by (cases r) (simp_all add: of_outcome_def)

lemma logs_bind_on_status [logs_rules]:
  "logs (k ()) R \<Longrightarrow> logs (bind (on_status status_of put_status f) k) R"
  by (rule logs_bind_silent) (auto intro!: logsI split: prod.split)

lemma logs_bind_of_outcome [logs_rules]:
  "(r = Panics \<Longrightarrow> R Panics []) \<Longrightarrow> (\<And>a. r = Returns a \<Longrightarrow> logs (k a) R) \<Longrightarrow> logs (bind (of_outcome r) k) R"
  by (cases r) (auto simp: of_outcome_def intro: logs_panic)

text \<open>Marking a condition from an error adds nothing to the trace.\<close>

lemma emits_mark_condition [emits_rules]:
  assumes "\<And>r f as. emits (failure r f as) P" and "\<And>r f as. emits (unknown' r f as) P"
  shows "emits (mark_condition e failure unknown') P"
  using assms by (auto simp: mark_condition_def condition_error_mark_def split: option.split prod.split)

lemma mark_condition_on_status:
  "mark_condition e (\<lambda>r f as. on_status g p (failure r f as)) (\<lambda>r f as. on_status g p (unknown' r f as)) =
     on_status g p (mark_condition e failure unknown')"
  by (simp add: mark_condition_def condition_error_mark_def split: option.split prod.split)

section \<open>Invariants of the object\<close>

text \<open>A piece of code keeps an invariant of the current object, also when it panics.\<close>

definition modify_cur :: "('o \<Rightarrow> 'o) \<Rightarrow> (('x, 'o) st, unit) go" where
  "modify_cur g = bind get_cur (\<lambda>obj. set_cur (g obj))"

definition preserves :: "('o \<Rightarrow> bool) \<Rightarrow> (('x, 'o) st, 'a) go \<Rightarrow> bool" where
  "preserves I m = (\<forall>s. I (cur s) \<longrightarrow> wp m (\<lambda>r s'. I (cur s')) s)"

named_theorems preserves_rules \<open>rules for the judgement preserves\<close>

lemma wp_modify_cur [simp, wp_simps]: "wp (modify_cur g) Q s = Q (Returns ()) (s\<lparr>cur := g (cur s)\<rparr>)"
  by (simp add: modify_cur_def)

lemma emits_modify_cur [emits_rules, simp]: "emits (modify_cur g) P"
  unfolding modify_cur_def by (intro emits_rules)

lemma logs_bind_modify_cur [logs_rules]: "logs (k ()) R \<Longrightarrow> logs (bind (modify_cur g) k) R"
  by (rule logs_bind_silent) (auto intro!: logsI)

lemma preserves_bind [preserves_rules]:
  "preserves I m \<Longrightarrow> (\<And>a. preserves I (k a)) \<Longrightarrow> preserves I (bind m k)"
  unfolding preserves_def wp_bind and_then_def
  by (intro allI impI, erule allE, drule mp, assumption, erule wp_mono) (auto split: outcome.split)

lemma preserves_simple [preserves_rules, simp]:
  "preserves I (ret a)" "preserves I panic" "preserves I get_cur" "preserves I (external f c)"
  "preserves I (log_call d)" "preserves I (with_clock h b)" "preserves I (deref p)" "preserves I (of_outcome q)"
  by (auto simp: preserves_def split: prod.split option.split)

lemma preserves_calls [preserves_rules, simp]:
  "preserves I (get_secret E ns name)" "preserves I (create_secret E sec)" "preserves I (update_secret E sec)"
  "preserves I (delete_secret E sec)" "preserves I (clientset_create_secret E ns sec)"
  "preserves I (clientset_update_secret E ns sec)" "preserves I (get_namespace E name)"
  "preserves I (get_operator E ns name)" "preserves I (get_account E ns name)"
  "preserves I (get_signing_key E ns name)" "preserves I (get_user E ns name)"
  "preserves I (clientset_get_operator E ns name)" "preserves I (clientset_get_account E ns name)"
  "preserves I (list_signing_keys E ns sel)" "preserves I (eventf ob ty reason f as)"
  "preserves I (event ob ty reason msg)" "preserves I (create_key nk)"
  by (simp_all add: call_defs)

lemma preserves_get_object [preserves_rules, simp]: "preserves I (get_object E k ns name)"
  unfolding get_object_def call_defs by (cases k) (auto intro!: preserves_rules)

lemma preserves_if [preserves_rules]:
  "preserves I m \<Longrightarrow> preserves I n \<Longrightarrow> preserves I (if b then m else n)"
  by simp

lemma preserves_option [preserves_rules]:
  "preserves I m \<Longrightarrow> (\<And>a. preserves I (k a)) \<Longrightarrow> preserves I (case x of None \<Rightarrow> m | Some a \<Rightarrow> k a)"
  by (cases x) simp_all

lemma preserves_sum [preserves_rules]:
  "(\<And>e. preserves I (m e)) \<Longrightarrow> (\<And>a. preserves I (k a)) \<Longrightarrow>
     preserves I (case x of Inl e \<Rightarrow> m e | Inr a \<Rightarrow> k a)"
  by (cases x) simp_all

lemma preserves_prod [preserves_rules]:
  "(\<And>a b. preserves I (k a b)) \<Longrightarrow> preserves I (case x of (a, b) \<Rightarrow> k a b)"
  by (cases x) simp

lemma preserves_let [preserves_rules]: "(\<And>a. preserves I (k a)) \<Longrightarrow> preserves I (let a = x in k a)"
  by simp

lemma preserves_scheme_object [preserves_rules]:
  "(\<And>t. preserves I (m1 t)) \<Longrightarrow> (\<And>t. preserves I (m2 t)) \<Longrightarrow>
     preserves I (case k of NewObject t \<Rightarrow> m1 t | NewRuntimeObject t \<Rightarrow> m2 t)"
  by (cases k) simp_all

lemma preserves_client_object [preserves_rules]:
  "(\<And>t. preserves I (m1 t)) \<Longrightarrow> (\<And>t. preserves I (m2 t)) \<Longrightarrow> (\<And>t. preserves I (m3 t)) \<Longrightarrow>
   (\<And>t. preserves I (m4 t)) \<Longrightarrow> (\<And>g t. preserves I (m5 g t)) \<Longrightarrow>
     preserves I (case k of ObjOperator t \<Rightarrow> m1 t | ObjAccount t \<Rightarrow> m2 t | ObjSigningKey t \<Rightarrow> m3 t
              | ObjUser t \<Rightarrow> m4 t | ObjOther g t \<Rightarrow> m5 g t)"
  by (cases k) simp_all

lemma preserves_key_pairable [preserves_rules]:
  "(\<And>t. preserves I (m1 t)) \<Longrightarrow> (\<And>t. preserves I (m2 t)) \<Longrightarrow> (\<And>t. preserves I (m3 t)) \<Longrightarrow>
     preserves I (case k of KPOperator t \<Rightarrow> m1 t | KPAccount t \<Rightarrow> m2 t | KPSigningKey t \<Rightarrow> m3 t)"
  by (cases k) simp_all

lemma preserves_modify_cur: "(\<And>c. I c \<Longrightarrow> I (g c)) \<Longrightarrow> preserves I (modify_cur g)"
  by (simp add: preserves_def)

lemma preserves_on_status:
  "(\<And>c x. I c \<Longrightarrow> I (put_status (fst (f (status_of c, x))) c)) \<Longrightarrow> preserves I (on_status status_of put_status f)"
  by (auto simp: preserves_def split: prod.split) (metis fst_conv)

lemma preserves_write_cur:
  "(\<And>c x. I c \<Longrightarrow> I (snd (fst (f c x)))) \<Longrightarrow> preserves I (write_cur f c)"
  unfolding preserves_def write_cur_def by (auto split: prod.split) (metis fst_conv snd_conv)

lemma preserves_mark_condition:
  "(\<And>r f as. preserves I (failure r f as)) \<Longrightarrow> (\<And>r f as. preserves I (unknown' r f as)) \<Longrightarrow>
     preserves I (mark_condition e failure unknown')"
  by (auto simp: mark_condition_def condition_error_mark_def split: option.split prod.split)

text \<open>The shared operations never touch the object under reconciliation.\<close>

lemma preserves_base [preserves_rules, simp]:
  "preserves I (reconcile_seed_secret E owner nk name opts)" "preserves I (create_jwt_secret E ob jwt)"
  "preserves I (ensure_jwt_secret_up_to_date E ob want got next_jwt)" "preserves I (resolve_issuer E issuer ns)"
  "preserves I (resolve_signing_key_owner E sk)" "preserves I (load_issuer_seed E kp prefix)"
  unfolding reconcile_seed_secret_def create_seed_secret_def ensure_seed_secret_up_to_date_def
    create_jwt_secret_def ensure_jwt_secret_up_to_date_def replace_jwt_secret_def update_jwt_secret_def
    resolve_issuer_def key_pairable_initialize_conditions_def resolve_signing_key_owner_def load_issuer_seed_def
  by (intro preserves_rules)+

lemma preserves_nsc [preserves_rules, simp]:
  "preserves I (create_operator_claims E opr kp)" "preserves I (create_account_claims E acc kp)"
  "preserves I (create_user_claims E usr acc kp)" "preserves I (connect E url kp seed opts)"
  "preserves I (client_push E c jwt)" "preserves I (client_delete E c subject)" "preserves I (client_close E c)"
  "preserves I (system_account_load E opr)"
  unfolding create_operator_claims_def create_account_claims_def create_user_claims_def read_clock_def
    connect_def make_temporary_user_def client_push_def client_delete_def client_close_def client_do_def
    system_account_load_def
  by (intro preserves_rules)+

text \<open>
  \<open>leads I J m\<close>: from an object with \<open>I\<close> to one with \<open>J\<close>. Writing the object to the cluster replaces
  it by the server's answer, of which less may be known than of what was written.
\<close>

definition leads :: "('o \<Rightarrow> bool) \<Rightarrow> ('o \<Rightarrow> bool) \<Rightarrow> (('x, 'o) st, 'a) go \<Rightarrow> bool" where
  "leads I J m = (\<forall>s. I (cur s) \<longrightarrow> wp m (\<lambda>r s'. J (cur s')) s)"

named_theorems leads_rules \<open>rules for the judgement leads\<close>

lemma leads_keeps: "preserves I m \<Longrightarrow> (\<And>d. I d \<Longrightarrow> J d) \<Longrightarrow> leads I J m"
  unfolding leads_def preserves_def by (blast intro: wp_mono)

lemma leads_bind:
  fixes m :: "(('x, 'o) st, 'a) go"
  assumes "preserves I m" and "\<And>d. I d \<Longrightarrow> J d" and "\<And>a. leads I J (k a)"
  shows "leads I J (bind m k)"
  unfolding leads_def
proof (intro allI impI)
  fix s :: "('x, 'o) st"
  assume "I (cur s)"
  then have "wp m (\<lambda>r s'. I (cur s')) s" using assms(1) by (simp add: preserves_def)
  then have "wp m (and_then k (\<lambda>r s'. J (cur s'))) s"
    by (rule wp_mono) (use assms(2,3) in \<open>auto simp: and_then_def leads_def split: outcome.split\<close>)
  then show "wp (bind m k) (\<lambda>r s'. J (cur s')) s" by simp
qed

lemma leads_ret [leads_rules]: "(\<And>d. I d \<Longrightarrow> J d) \<Longrightarrow> leads I J (ret a)"
  by (simp add: leads_def)

lemma leads_if [leads_rules]: "leads I J m \<Longrightarrow> leads I J n \<Longrightarrow> leads I J (if b then m else n)"
  by simp

lemma leads_option [leads_rules]:
  "leads I J m \<Longrightarrow> (\<And>a. leads I J (k a)) \<Longrightarrow> leads I J (case x of None \<Rightarrow> m | Some a \<Rightarrow> k a)"
  by (cases x) simp_all

lemma leads_sum [leads_rules]:
  "(\<And>e. leads I J (m e)) \<Longrightarrow> (\<And>a. leads I J (k a)) \<Longrightarrow>
     leads I J (case x of Inl e \<Rightarrow> m e | Inr a \<Rightarrow> k a)"
  by (cases x) simp_all

lemma leads_prod [leads_rules]: "(\<And>a b. leads I J (k a b)) \<Longrightarrow> leads I J (case x of (a, b) \<Rightarrow> k a b)"
  by (cases x) simp

lemma leads_let [leads_rules]: "(\<And>a. leads I J (k a)) \<Longrightarrow> leads I J (let a = x in k a)"
  by simp

lemma leads_write_cur:
  "(\<And>d x. I d \<Longrightarrow> J (snd (fst (f d x)))) \<Longrightarrow> leads I J (write_cur f c)"
  unfolding leads_def write_cur_def by (auto split: prod.split) (metis fst_conv snd_conv)

text \<open>The writes are last: what follows keeps what is known of the answer.\<close>

lemma leads_last: "leads I J m \<Longrightarrow> (\<And>a. preserves J (k a)) \<Longrightarrow> leads I J (bind m k)"
  unfolding leads_def preserves_def wp_bind and_then_def
  by (intro allI impI, erule allE, drule mp, assumption, erule wp_mono) (auto split: outcome.split)

lemma preserves_leads: "preserves I m \<longleftrightarrow> leads I I m"
  by (simp add: preserves_def leads_def)

section \<open>Objects written by the controllers, and panics\<close>

text \<open>
  What the cluster has to answer for the pointer reads of the controllers to be safe: objects
  whose statuses are new or were written by these controllers.
\<close>

definition operator_known :: "('x \<Rightarrow> int \<times> 'x) \<Rightarrow> operator_status \<Rightarrow> bool" where
  "operator_known now s =
     (fresh_status operator_get_conditions operator_backs operator_backed s \<or> operator_run now s)"

definition account_known :: "('x \<Rightarrow> int \<times> 'x) \<Rightarrow> account_status \<Rightarrow> bool" where
  "account_known now s =
     (fresh_status account_get_conditions account_backs account_backed s \<or> account_run now s)"

definition user_known :: "('x \<Rightarrow> int \<times> 'x) \<Rightarrow> user_status \<Rightarrow> bool" where
  "user_known now s = (fresh_status user_get_conditions user_backs user_backed s \<or> user_run now s)"

definition signing_key_known :: "('x \<Rightarrow> int \<times> 'x) \<Rightarrow> signing_key_status \<Rightarrow> bool" where
  "signing_key_known now s =
     (fresh_status signing_key_get_conditions signing_key_backs signing_key_backed s \<or> signing_key_run now s)"

fun known_object :: "('x \<Rightarrow> int \<times> 'x) \<Rightarrow> client_object \<Rightarrow> bool" where
  "known_object now (ObjOperator o') = operator_known now (op_status o')"
| "known_object now (ObjAccount a) = account_known now (acc_status a)"
| "known_object now (ObjSigningKey s) = signing_key_known now (sk_status s)"
| "known_object now (ObjUser u) = user_known now (usr_status u)"
| "known_object now (ObjOther g m) = True"

fun known_answer :: "('x \<Rightarrow> int \<times> 'x) \<Rightarrow> call \<Rightarrow> bool" where
  "known_answer now (ObjectGet _ _ _ (Inr ob)) = known_object now ob"
| "known_answer now (SigningKeysList _ _ (Inr sks)) = (\<forall>sk \<in> set sks. known_object now (ObjSigningKey sk))"
| "known_answer now _ = True"

lemma known_signing_key_ready:
  assumes "known_object now (ObjSigningKey sk)" and "signing_key_is_ready (sk_status sk)"
  shows "sks_key_pair (sk_status sk) \<noteq> None" and "sks_owner_ref (sk_status sk) \<noteq> None"
proof -
  have "signing_key_run now (sk_status sk)"
    using assms by (auto simp: signing_key_known_def fresh_status_def signing_key_is_ready_def is_happy_def
        get_top_level_condition_def get_condition_def)
  then show "sks_key_pair (sk_status sk) \<noteq> None" "sks_owner_ref (sk_status sk) \<noteq> None"
    using assms(2) signing_key_ready_fields by blast+
qed

lemma known_signing_key_owner:
  assumes "known_object now (ObjSigningKey sk)"
    and "is_true (signing_key_get_condition SigningKeyConditionOwnerResolved (sk_status sk))"
  shows "sks_owner_ref (sk_status sk) \<noteq> None"
proof -
  have "signing_key_run now (sk_status sk)"
    using assms by (auto simp: signing_key_known_def fresh_status_def signing_key_get_condition_def get_condition_def)
  with assms(2) show ?thesis using signing_key_run_fields(2) by blast
qed

lemma known_account_seed:
  assumes "known_object now (ObjAccount a)"
    and "is_true (account_get_condition KeyPairableConditionSeedSecretReady (acc_status a))"
  shows "accs_key_pair (acc_status a) \<noteq> None"
proof -
  have "account_run now (acc_status a)"
    using assms by (auto simp: account_known_def fresh_status_def account_get_condition_def get_condition_def)
  with assms(2) show ?thesis using account_run_fields(1) by blast
qed

text \<open>
  A piece of code that returns whenever the cluster answers with such objects; \<open>A\<close> is what is
  known already of the answers before it.
\<close>

definition total :: "('x \<Rightarrow> int \<times> 'x) \<Rightarrow> bool \<Rightarrow> (('x, 'o) st, 'a) go \<Rightarrow> bool" where
  "total now A m = logs m (\<lambda>r l. A \<and> (\<forall>c \<in> set l. known_answer now c) \<longrightarrow> r \<noteq> Panics)"

named_theorems total_rules \<open>rules for the judgement total\<close>

lemma total_ret [total_rules, simp]: "total now A (ret a)"
  unfolding total_def by (rule logs_ret) simp

lemma total_external [total_rules, simp]: "total now A (external f c)"
  unfolding total_def by (rule logs_external) simp

lemma total_silent [total_rules, simp]:
  "total now A (log_call c)" "total now A get_cur" "total now A (set_cur a)" "total now A (with_clock f b)"
  "total now A (modify_cur g)" "total now A (on_status p q h)"
  unfolding total_def by (auto intro!: logsI split: prod.split)

lemma total_bind [total_rules]: "total now A m \<Longrightarrow> (\<And>a. total now A (k a)) \<Longrightarrow> total now A (bind m k)"
  unfolding total_def by (rule logs_seq, assumption) (auto elim!: logs_mono intro: logs_mono)

lemma total_deref [total_rules]: "(A \<Longrightarrow> p \<noteq> None) \<Longrightarrow> total now A (deref p)"
  unfolding total_def by (auto intro!: logsI split: option.split)

lemma total_of_outcome [total_rules]: "(A \<Longrightarrow> r \<noteq> Panics) \<Longrightarrow> total now A (of_outcome r)"
  unfolding total_def by (auto intro!: logsI)

lemma total_if [total_rules]: "(b \<Longrightarrow> total now A m) \<Longrightarrow> (\<not> b \<Longrightarrow> total now A n) \<Longrightarrow> total now A (if b then m else n)"
  by simp

lemma total_option [total_rules]:
  "(x = None \<Longrightarrow> total now A m) \<Longrightarrow> (\<And>a. x = Some a \<Longrightarrow> total now A (k a)) \<Longrightarrow>
     total now A (case x of None \<Rightarrow> m | Some a \<Rightarrow> k a)"
  by (cases x) simp_all

lemma total_sum [total_rules]:
  "(\<And>e. x = Inl e \<Longrightarrow> total now A (m e)) \<Longrightarrow> (\<And>a. x = Inr a \<Longrightarrow> total now A (k a)) \<Longrightarrow>
     total now A (case x of Inl e \<Rightarrow> m e | Inr a \<Rightarrow> k a)"
  by (cases x) simp_all

lemma total_prod [total_rules]:
  "(\<And>a b. x = (a, b) \<Longrightarrow> total now A (k a b)) \<Longrightarrow> total now A (case x of (a, b) \<Rightarrow> k a b)"
  by (cases x) simp

lemma total_let [total_rules]: "(\<And>a. a = x \<Longrightarrow> total now A (k a)) \<Longrightarrow> total now A (let a = x in k a)"
  by simp

lemma total_scheme_object [total_rules]:
  "(\<And>t. total now A (m1 t)) \<Longrightarrow> (\<And>t. total now A (m2 t)) \<Longrightarrow>
     total now A (case k of NewObject t \<Rightarrow> m1 t | NewRuntimeObject t \<Rightarrow> m2 t)"
  by (cases k) simp_all

lemma total_client_object [total_rules]:
  "(\<And>t. total now A (m1 t)) \<Longrightarrow> (\<And>t. total now A (m2 t)) \<Longrightarrow> (\<And>t. total now A (m3 t)) \<Longrightarrow> (\<And>t. total now A (m4 t)) \<Longrightarrow>
   (\<And>g t. total now A (m5 g t)) \<Longrightarrow>
     total now A (case k of ObjOperator t \<Rightarrow> m1 t | ObjAccount t \<Rightarrow> m2 t | ObjSigningKey t \<Rightarrow> m3 t
              | ObjUser t \<Rightarrow> m4 t | ObjOther g t \<Rightarrow> m5 g t)"
  by (cases k) simp_all

lemma total_key_pairable [total_rules]:
  "(\<And>t. total now A (m1 t)) \<Longrightarrow> (\<And>t. total now A (m2 t)) \<Longrightarrow> (\<And>t. k = KPSigningKey t \<Longrightarrow> total now A (m3 t)) \<Longrightarrow>
     total now A (case k of KPOperator t \<Rightarrow> m1 t | KPAccount t \<Rightarrow> m2 t | KPSigningKey t \<Rightarrow> m3 t)"
  by (cases k) simp_all

lemma total_mark_condition [total_rules]:
  assumes "\<And>r f as. total now A (failure r f as)" and "\<And>r f as. total now A (unknown' r f as)"
  shows "total now A (mark_condition e failure unknown')"
  using assms by (auto simp: mark_condition_def condition_error_mark_def split: option.split prod.split)

lemma total_calls [total_rules, simp]:
  "total now A (get_secret E ns name)" "total now A (create_secret E sec)" "total now A (update_secret E sec)"
  "total now A (delete_secret E sec)" "total now A (clientset_create_secret E ns sec)"
  "total now A (clientset_update_secret E ns sec)" "total now A (get_namespace E name)"
  "total now A (eventf ob ty reason f as)" "total now A (event ob ty reason msg)" "total now A (create_key nk)"
  by (simp_all add: call_defs)

lemma total_write_cur [total_rules, simp]: "total now A (write_cur f c)"
  unfolding write_cur_def by (intro total_rules)

text \<open>A call whose answer is known to be good.\<close>

lemma total_bind_known:
  assumes "logs m (\<lambda>r l. \<exists>a. r = Returns a \<and> l = [c a])"
    and "\<And>a. total now (A \<and> known_answer now (c a)) (k a)"
  shows "total now A (bind m k)"
  unfolding total_def
proof (rule logs_seq [OF assms(1)])
  fix a and l :: "call list" assume "\<exists>b. Returns a = Returns b \<and> l = [c b]"
  then have "l = [c a]" by simp
  with assms(2) [of a]
  show "logs (k a) (\<lambda>r l'. A \<and> (\<forall>d \<in> set (l @ l'). known_answer now d) \<longrightarrow> r \<noteq> Panics)"
    unfolding total_def by (simp add: conj_ac)
qed auto

lemma total_bind_external:
  "(\<And>a. total now (A \<and> known_answer now (c a)) (k a)) \<Longrightarrow> total now A (bind (external f c) k)"
  by (rule total_bind_known [OF logs_external]) auto

lemma total_bind_gets [total_rules]:
  "(\<And>a. total now (A \<and> known_answer now (ObjectGet kind ns name a)) (k1 a)) \<Longrightarrow>
     total now A (bind (get_object E kind ns name) k1)"
  "(\<And>a. total now (A \<and> known_answer now (ObjectGet KindOperator ns name (map_sum id ObjOperator a))) (k2 a)) \<Longrightarrow>
     total now A (bind (clientset_get_operator E ns name) k2)"
  "(\<And>a. total now (A \<and> known_answer now (ObjectGet KindAccount ns name (map_sum id ObjAccount a))) (k3 a)) \<Longrightarrow>
     total now A (bind (clientset_get_account E ns name) k3)"
  "(\<And>a. total now (A \<and> known_answer now (ObjectGet KindAccount ns name (map_sum id ObjAccount a))) (k3 a)) \<Longrightarrow>
     total now A (bind (get_account E ns name) k3)"
  "(\<And>a. total now (A \<and> known_answer now (SigningKeysList ns sel a)) (k4 a)) \<Longrightarrow>
     total now A (bind (list_signing_keys E ns sel) k4)"
proof -
  have get: "logs (get_object E kind ns name) (\<lambda>r l. \<exists>a. r = Returns a \<and> l = [ObjectGet kind ns name a])"
    by (rule logs_bind_get_object [where k = ret, simplified]) (auto intro: logs_ret)
  show "total now A (bind (get_object E kind ns name) k1)"
    if "\<And>a. total now (A \<and> known_answer now (ObjectGet kind ns name a)) (k1 a)"
    using get that by (rule total_bind_known)
qed (unfold call_defs, auto simp del: known_answer.simps intro!: total_bind_external)

text \<open>The seed is reconciled: without an error there is a key pair.\<close>

lemma total_bind_seed:
  assumes "\<And>kp seed res err. (err = None \<Longrightarrow> kp \<noteq> None) \<Longrightarrow> total now A (k (kp, seed, res, err))"
  shows "total now A (bind (reconcile_seed_secret E owner nk name opts) k)"
  unfolding total_def
proof (rule logs_seq [OF reconcile_seed_returns])
  fix a :: "key_pair option \<times> string \<times> ctrl_result \<times> error option" and l :: "call list"
  assume "\<exists>kp seed res err. Returns a = Returns (kp, seed, res, err) \<and> (err = None \<longrightarrow> kp \<noteq> None)"
  then obtain kp seed res err where a: "a = (kp, seed, res, err)" "err = None \<Longrightarrow> kp \<noteq> None"
    by (cases a) auto
  have "total now A (k (kp, seed, res, err))" by (rule assms) (rule a(2))
  then show "logs (k a) (\<lambda>r l'. A \<and> (\<forall>c \<in> set (l @ l'). known_answer now c) \<longrightarrow> r \<noteq> Panics)"
    unfolding total_def a(1) by (rule logs_mono) auto
qed auto

lemma total_base [total_rules, simp]:
  "total now A (create_jwt_secret E ob jwt)" "total now A (ensure_jwt_secret_up_to_date E ob want got next_jwt)"
  "total now A (resolve_issuer E issuer ns)" "total now A (create_operator_claims E opr kp)"
  "total now A (connect E url kp seed opts)" "total now A (client_push E c jwt)"
  "total now A (client_delete E c subject)" "total now A (client_close E c)" "total now A (system_account_load E opr)"
  unfolding create_jwt_secret_def ensure_jwt_secret_up_to_date_def replace_jwt_secret_def update_jwt_secret_def
    resolve_issuer_def key_pairable_initialize_conditions_def create_operator_claims_def read_clock_def
    connect_def make_temporary_user_def client_push_def client_delete_def client_close_def client_do_def
    system_account_load_def
  by (intro total_rules)+

lemma reconcile_seed_emits:
  assumes "\<And>r. P (SecretGet (m_namespace (object_get_meta owner)) name r)" and "\<And>r. P (KeyCreate r)"
    and "\<And>kp sec r. key_pair_secret_meant owner kp sec \<Longrightarrow> P (SecretCreate sec r)"
    and "\<And>kp sec r. key_pair_secret_meant owner kp sec \<Longrightarrow> P (SecretUpdate sec r)"
    and "\<And>ty reason msg. P (EventSent owner ty reason msg)"
  shows "emits (reconcile_seed_secret E owner nk name opts) P"
  unfolding reconcile_seed_secret_def create_seed_secret_def ensure_seed_secret_up_to_date_def
  by (intro emits_rules) (auto intro: assms dest: key_pair_builder.build_meant)

lemma emits_ensure_jwt:
  assumes "\<And>sec r. P (SecretUpdate sec r)" "\<And>sec r. P (SecretCreate sec r)" "\<And>sec r. P (SecretDelete sec r)"
    and "\<And>a ty reason msg. P (EventSent a ty reason msg)"
  shows "emits (ensure_jwt_secret_up_to_date E ob want got next_jwt) P"
  by (rule emits_mono [OF ensure_jwt_writes]) (auto simp: jwt_write_ok_def assms split: call.splits)

section \<open>The deferred status update\<close>

definition multierr_append :: "error option \<Rightarrow> error \<Rightarrow> error option" where
  "multierr_append err e = (case err of None \<Rightarrow> Some e | Some e' \<Rightarrow> Some (MultiError e' e))"

text \<open>
  \<open>wrap\<close> is what the controller does to the error of the update before it appends it to the
  error of the reconciliation.
\<close>

definition status_deferral ::
  "('o \<Rightarrow> 's) \<Rightarrow> ('s \<Rightarrow> 's \<Rightarrow> bool) \<Rightarrow> (('x, 'o) st, error option) go \<Rightarrow> (error \<Rightarrow> error) \<Rightarrow> 's
     \<Rightarrow> ctrl_result \<times> error option \<Rightarrow> (('x, 'o) st, ctrl_result \<times> error option) go" where
  "status_deferral status_of equal write wrap original = (\<lambda>(result, err).
     bind get_cur (\<lambda>obj.
     if equal original (status_of obj) then ret (result, err)
     else bind write (\<lambda>err2.
       case err2 of
         None \<Rightarrow> ret (result, err)
       | Some e \<Rightarrow>
           (if is_conflict e \<and> err = None then ret (requeue_after_result second, None)
            else ret (result, multierr_append err (wrap e))))))"

definition with_status_deferral ::
  "('o \<Rightarrow> 's) \<Rightarrow> ('s \<Rightarrow> 's \<Rightarrow> bool) \<Rightarrow> (('x, 'o) st, error option) go \<Rightarrow> (error \<Rightarrow> error) \<Rightarrow> 's
     \<Rightarrow> (('x, 'o) st, ctrl_result \<times> error option) go \<Rightarrow> (('x, 'o) st, ctrl_result \<times> error option) go" where
  "with_status_deferral status_of equal write wrap original body =
     deferred body (status_deferral status_of equal write wrap original)
       (status_deferral status_of equal write wrap original (zero_result, None))"

definition status_write :: "call \<Rightarrow> bool" where
  "status_write c = (case c of StatusUpdate _ _ \<Rightarrow> True | _ \<Rightarrow> False)"

lemma status_write_simps [simp]:
  "\<not> status_write (SecretGet a b c)" "\<not> status_write (SecretCreate d e)" "\<not> status_write (SecretUpdate d e)"
  "\<not> status_write (SecretDelete d e)" "\<not> status_write (NamespaceGet f g)" "\<not> status_write (ObjectGet h i j k)"
  "\<not> status_write (SigningKeysList l m n)" "\<not> status_write (ObjectsList h p q)" "\<not> status_write (ObjectUpdate r s)"
  "\<not> status_write (EventSent r t u v)" "\<not> status_write (KeyCreate w)" "\<not> status_write (JwtEncode x y z)"
  "\<not> status_write (NatsConnect x1 x2)" "\<not> status_write (NatsRequest x3 x4 x5 x6)" "\<not> status_write (NatsClose x3)"
  "status_write (StatusUpdate r s)"
  by (simp_all add: status_write_def)

text \<open>The outcome of the frame, from the outcome of the body and the answer to the update.\<close>

fun deferral_outcome ::
  "(error \<Rightarrow> error) \<Rightarrow> (ctrl_result \<times> error option) outcome \<Rightarrow> error option
     \<Rightarrow> (ctrl_result \<times> error option) outcome" where
  "deferral_outcome wrap Panics answer = Panics"
| "deferral_outcome wrap (Returns (result, err)) None = Returns (result, err)"
| "deferral_outcome wrap (Returns (result, err)) (Some e) =
     (if is_conflict e \<and> err = None then Returns (requeue_after_result second, None)
      else Returns (result, multierr_append err (wrap e)))"

lemma deferral_outcome_None [simp]: "deferral_outcome wrap r None = r"
  by (cases r) auto

lemma wp_with_status_deferral:
  "wp (with_status_deferral status_of equal (write_cur writer written) wrap original body) Q s =
     wp body (\<lambda>r s1.
       if equal original (status_of (cur s1)) then Q r s1
       else (case writer (cur s1) (ext s1) of ((answer, obj), x) \<Rightarrow>
         Q (deferral_outcome wrap r answer)
           (s1\<lparr>ext := x, trace := trace s1 @ [written (cur s1) answer], cur := obj\<rparr>))) s"
proof -
  have panics: "wp m (\<lambda>_. Q Panics) s1 = Q Panics (snd (m s1))" for m :: "(('a, 'b) st, ctrl_result \<times> error option) go" and s1
    by (simp add: wp_def split: prod.split)
  show ?thesis
    unfolding with_status_deferral_def wp_deferred panics [symmetric]
    by (rule arg_cong [where f = "\<lambda>q. wp body q s"], intro ext)
      (auto simp: status_deferral_def write_cur_def split: outcome.split prod.split option.split)
qed

section \<open>The contract of a reconciler\<close>

text \<open>
  \<open>fetch\<close> gets the object, \<open>gotten\<close> is its entry in the trace; \<open>write\<close> updates the status and
  \<open>written\<close> is its entry. \<open>prepare\<close> initialises the conditions.
\<close>

locale status_reconciler =
  fixes fetch :: "string \<Rightarrow> string \<Rightarrow> (('x, 'o) st, error + 'o) go"
    and gotten :: "string \<Rightarrow> string \<Rightarrow> error + 'o \<Rightarrow> call"
    and status_of :: "'o \<Rightarrow> 's"
    and equal :: "'s \<Rightarrow> 's \<Rightarrow> bool"
    and prepare :: "(('x, 'o) st, unit) go"
    and body :: "(('x, 'o) st, ctrl_result \<times> error option) go"
    and writer :: "'o \<Rightarrow> 'x \<Rightarrow> (error option \<times> 'o) \<times> 'x"
    and written :: "'o \<Rightarrow> error option \<Rightarrow> call"
    and wrap :: "error \<Rightarrow> error"
    and reconcile :: "string \<Rightarrow> string \<Rightarrow> (('x, 'o) st, ctrl_result \<times> error option) go"
  assumes shape: "reconcile ns name =
      bind (fetch ns name) (\<lambda>r. case r of
        Inl e \<Rightarrow> ret (zero_result, ignore_not_found e)
      | Inr obj \<Rightarrow>
          bind (set_cur obj) (\<lambda>_.
          bind prepare (\<lambda>_.
          with_status_deferral status_of equal (write_cur writer written) wrap (status_of obj) body)))"
    and fetch_logs: "logs (fetch ns name) (\<lambda>r l. \<exists>a. r = Returns a \<and> l = [gotten ns name a])"
    and prepare_silent: "logs prepare (\<lambda>r l. r = Returns () \<and> l = [])"
    and body_no_status: "emits body (\<lambda>c. \<not> status_write c)"
    and written_status: "status_write (written obj err)"
    and gotten_no_status: "\<not> status_write (gotten ns name a)"
begin

lemma gone_left_alone:
  assumes "fetch ns name s = (Returns (Inl e), s')" and "is_not_found e"
  shows "reconcile ns name s = (Returns (zero_result, None), s')"
  using assms by (simp add: shape bind_def ret_def ignore_not_found_def)

lemma unreadable_reported:
  assumes "fetch ns name s = (Returns (Inl e), s')" and "\<not> is_not_found e"
  shows "reconcile ns name s = (Returns (zero_result, Some e), s')"
  using assms by (simp add: shape bind_def ret_def ignore_not_found_def)

text \<open>
  What follows when the object was fetched: the body's calls, and then one status update exactly
  when the status has changed.
\<close>

lemma frame:
  assumes "fetch ns name s = (Returns (Inr obj), s1)"
    and start: "\<And>t. cur t = obj \<Longrightarrow> wp prepare (\<lambda>r t'. I (cur t')) t" and "leads I J body"
  shows "wp (reconcile ns name) (\<lambda>r s'. \<exists>front end. (\<forall>c \<in> set front. \<not> status_write c) \<and> J end \<and>
      (trace s' = trace s1 @ front \<and> cur s' = end \<and> equal (status_of obj) (status_of end)
       \<or> (\<exists>answer br. trace s' = trace s1 @ front @ [written end answer]
            \<and> \<not> equal (status_of obj) (status_of end) \<and> r = deferral_outcome wrap br answer))) s"
proof -
  let ?Q = "\<lambda>r s'. \<exists>front end. (\<forall>c \<in> set front. \<not> status_write c) \<and> J end \<and>
      (trace s' = trace s1 @ front \<and> cur s' = end \<and> equal (status_of obj) (status_of end)
       \<or> (\<exists>answer br. trace s' = trace s1 @ front @ [written end answer]
            \<and> \<not> equal (status_of obj) (status_of end) \<and> r = deferral_outcome wrap br answer))"
  have prep: "wp prepare (\<lambda>r s'. (r = Returns () \<and> trace s' = trace s) \<and> I (cur s')) s" if "cur s = obj" for s
  proof -
    have "wp prepare (\<lambda>r s'. r = Returns () \<and> trace s' = trace s) s"
      using prepare_silent by (simp add: logs_def conj_commute)
    moreover have "wp prepare (\<lambda>r s'. I (cur s')) s" using that by (rule start)
    ultimately show ?thesis by (rule wp_conj [THEN iffD2, OF conjI])
  qed
  have body: "wp body (\<lambda>r s'. (\<exists>l. trace s' = trace s @ l \<and> (\<forall>c \<in> set l. \<not> status_write c)) \<and> J (cur s')) s"
    if "I (cur s)" for s
    using body_no_status assms(3) that unfolding wp_conj leads_def by (simp add: emits_def logs_def)
  have "wp (with_status_deferral status_of equal (write_cur writer written) wrap (status_of obj) body) ?Q s2"
    if "trace s2 = trace s1" "I (cur s2)" for s2
    unfolding wp_with_status_deferral
    by (rule wp_mono [OF body [OF that(2)]]) (auto simp: that split: prod.split; blast)
  then have "wp prepare (and_then (\<lambda>_. with_status_deferral status_of equal (write_cur writer written) wrap
      (status_of obj) body) ?Q) (s1\<lparr>cur := obj\<rparr>)"
    by (intro wp_mono [OF prep]) (auto simp: and_then_def)
  then show ?thesis
    using assms(1) by (simp add: shape wp_run)
qed

end

end
