(* ===== verification/Behaviour.thy ===== *)
theory Behaviour
  imports Reconciler
begin

text \<open>
  The judgement the protocol properties of the controllers are stated with: \<open>does m c R\<close>, started
  on the object \<open>c\<close>, the outcome of \<open>m\<close>, the calls it adds and the object it leaves are related by
  \<open>R\<close>. \<open>logs\<close> is the special case that ignores the object; code that never touches the object is
  judged with \<open>logs\<close> and used here by \<open>does_steady\<close>.
\<close>

section \<open>The judgement\<close>

definition does ::
  "(('x, 'o) st, 'a) go \<Rightarrow> 'o \<Rightarrow> ('a outcome \<Rightarrow> call list \<Rightarrow> 'o \<Rightarrow> bool) \<Rightarrow> bool" where
  "does m c R = (\<forall>s. cur s = c \<longrightarrow> wp m (\<lambda>r s'. \<exists>l. trace s' = trace s @ l \<and> R r l (cur s')) s)"

named_theorems does_rules \<open>rules for the judgement does\<close>

lemma doesI: "(\<And>s. cur s = c \<Longrightarrow> wp m (\<lambda>r s'. \<exists>l. trace s' = trace s @ l \<and> R r l (cur s')) s) \<Longrightarrow> does m c R"
  by (simp add: does_def)

lemma doesD:
  assumes "does m c R" and "m s = (r, s')" and "cur s = c"
  obtains l where "trace s' = trace s @ l" "R r l (cur s')"
proof -
  have "wp m (\<lambda>r s'. \<exists>l. trace s' = trace s @ l \<and> R r l (cur s')) s" using assms(1,3) by (simp add: does_def)
  with assms(2) that show ?thesis by (auto simp: wp_run)
qed

lemma does_wp:
  "does m d R \<Longrightarrow> cur s = d \<Longrightarrow> trace s = t \<Longrightarrow> wp m (\<lambda>r s'. \<exists>l. trace s' = t @ l \<and> R r l (cur s')) s"
  by (auto simp: does_def)

lemma does_mono: "does m c Q \<Longrightarrow> (\<And>r l d. Q r l d \<Longrightarrow> R r l d) \<Longrightarrow> does m c R"
  unfolding does_def by (blast intro: wp_mono)

lemma does_logs: "logs m Q \<Longrightarrow> preserves (\<lambda>d. d = c) m \<Longrightarrow> does m c (\<lambda>r l d. Q r l \<and> d = c)"
proof (rule doesI)
  fix s :: "('a, 'b) st"
  assume m: "logs m Q" "preserves (\<lambda>d. d = c) m" and c: "cur s = c"
  have "wp m (\<lambda>r s'. (\<exists>l. trace s' = trace s @ l \<and> Q r l) \<and> cur s' = c) s"
    using m c unfolding wp_conj by (simp add: logs_def preserves_def)
  then show "wp m (\<lambda>r s'. \<exists>l. trace s' = trace s @ l \<and> Q r l \<and> cur s' = c) s"
    by (rule wp_mono) auto
qed

lemma does_seq:
  assumes "does m c Q" and "\<And>l d. Q Panics l d \<Longrightarrow> R Panics l d"
    and "\<And>a l d. Q (Returns a) l d \<Longrightarrow> does (k a) d (\<lambda>r l'. R r (l @ l'))"
  shows "does (bind m k) c R"
proof (rule doesI)
  fix s :: "('a, 'b) st"
  assume c: "cur s = c"
  obtain r s1 where m: "m s = (r, s1)" by (cases "m s")
  then obtain l where l: "trace s1 = trace s @ l" "Q r l (cur s1)" using assms(1) c by (blast elim: doesD)
  show "wp (bind m k) (\<lambda>r s'. \<exists>l. trace s' = trace s @ l \<and> R r l (cur s')) s"
  proof (cases r)
    case Panics
    then have "\<exists>l. trace s1 = trace s @ l \<and> R Panics l (cur s1)" using l assms(2) by blast
    with Panics m show ?thesis by (simp add: wp_run)
  next
    case (Returns a)
    have "wp (k a) (\<lambda>r s'. \<exists>l'. trace s' = trace s1 @ l' \<and> R r (l @ l') (cur s')) s1"
      using assms(3) Returns l(2) by (simp add: does_def)
    then have "wp (k a) (\<lambda>r s'. \<exists>l. trace s' = trace s @ l \<and> R r l (cur s')) s1"
      by (rule wp_mono) (use l(1) in auto)
    with m Returns show ?thesis by (simp add: wp_run)
  qed
qed

lemma does_conj:
  assumes "does m c Q" and "does m c R"
  shows "does m c (\<lambda>r l d. Q r l d \<and> R r l d)"
proof (rule doesI)
  fix s :: "('a, 'b) st"
  assume "cur s = c"
  with assms have "wp m (\<lambda>r s'. (\<exists>l. trace s' = trace s @ l \<and> Q r l (cur s'))
      \<and> (\<exists>l. trace s' = trace s @ l \<and> R r l (cur s'))) s"
    unfolding wp_conj by (simp add: does_def)
  then show "wp m (\<lambda>r s'. \<exists>l. trace s' = trace s @ l \<and> Q r l (cur s') \<and> R r l (cur s')) s"
    by (rule wp_mono) auto
qed

text \<open>A call that leaves the object as it is, with what is known of it.\<close>

lemma does_bind_steady:
  assumes "logs m Q" and "preserves (\<lambda>d. d = c) m" and "\<And>l. Q Panics l \<Longrightarrow> R Panics l c"
    and "\<And>a l. Q (Returns a) l \<Longrightarrow> does (k a) c (\<lambda>r l'. R r (l @ l'))"
  shows "does (bind m k) c R"
  by (rule does_seq [OF does_logs [OF assms(1,2)]]) (use assms(3,4) in auto)

text \<open>A call that keeps an invariant of the object.\<close>

lemma logs_conj:
  assumes "logs m Q" and "logs m R"
  shows "logs m (\<lambda>r l. Q r l \<and> R r l)"
proof (rule logsI)
  fix s :: "('a, 'b) st"
  have "wp m (\<lambda>r s'. (\<exists>l. trace s' = trace s @ l \<and> Q r l) \<and> (\<exists>l. trace s' = trace s @ l \<and> R r l)) s"
    using assms unfolding wp_conj by (simp add: logs_def)
  then show "wp m (\<lambda>r s'. \<exists>l. trace s' = trace s @ l \<and> Q r l \<and> R r l) s"
    by (rule wp_mono) auto
qed

lemma does_keeps:
  assumes "logs m Q" and "preserves I m" and "I c"
  shows "does m c (\<lambda>r l d. Q r l \<and> I d)"
proof (rule doesI)
  fix s :: "('a, 'b) st"
  assume "cur s = c"
  with assms have "wp m (\<lambda>r s'. (\<exists>l. trace s' = trace s @ l \<and> Q r l) \<and> I (cur s')) s"
    unfolding wp_conj by (simp add: logs_def preserves_def)
  then show "wp m (\<lambda>r s'. \<exists>l. trace s' = trace s @ l \<and> Q r l \<and> I (cur s')) s"
    by (rule wp_mono) auto
qed

lemma does_trace: "logs m Q \<Longrightarrow> (\<And>r l d. Q r l \<Longrightarrow> R r l d) \<Longrightarrow> does m c R"
  unfolding does_def logs_def by (blast intro: wp_mono)

lemma does_bind_keeps:
  assumes "logs m Q" and "preserves I m" and "I c" and "\<And>l d. Q Panics l \<Longrightarrow> I d \<Longrightarrow> R Panics l d"
    and "\<And>a l d. Q (Returns a) l \<Longrightarrow> I d \<Longrightarrow> does (k a) d (\<lambda>r l'. R r (l @ l'))"
  shows "does (bind m k) c R"
  by (rule does_seq [OF does_keeps [OF assms(1-3)]]) (use assms(4,5) in auto)

section \<open>Rules\<close>

lemma does_ret [does_rules]: "R (Returns a) [] c \<Longrightarrow> does (ret a) c R"
  by (auto intro!: doesI)

lemma does_panic [does_rules]: "R Panics [] c \<Longrightarrow> does panic c R"
  by (auto intro!: doesI)

lemma does_bind_ret [does_rules]: "does (k a) c R \<Longrightarrow> does (bind (ret a) k) c R"
  by simp

lemma does_bind_assoc [does_rules]: "does (bind m (\<lambda>a. bind (k a) h)) c R \<Longrightarrow> does (bind (bind m k) h) c R"
  by (simp add: bind_bind)

lemma does_bind_external [does_rules]:
  assumes "\<And>a. does (k a) c (\<lambda>r l. R r (e a # l))"
  shows "does (bind (external f e) k) c R"
  by (rule does_bind_steady [where Q = "\<lambda>r l. \<exists>a. r = Returns a \<and> l = [e a]", OF logs_external])
    (use assms in auto)

lemma does_bind_log_call [does_rules]:
  assumes "does (k ()) c (\<lambda>r l. R r (e # l))"
  shows "does (bind (log_call e) k) c R"
proof -
  have "logs (log_call e) (\<lambda>r l. r = Returns () \<and> l = [e])" by (auto intro!: logsI)
  then show ?thesis by (rule does_bind_steady) (use assms in auto)
qed

lemma does_bind_get_cur [does_rules]: "does (k c) c R \<Longrightarrow> does (bind get_cur k) c R"
  by (auto simp: does_def)

lemma does_bind_set_cur [does_rules]: "does (k ()) d R \<Longrightarrow> does (bind (set_cur d) k) c R"
  by (rule doesI) (simp add: does_wp)

lemma does_bind_modify_cur [does_rules]: "does (k ()) (g c) R \<Longrightarrow> does (bind (modify_cur g) k) c R"
  by (rule doesI) (simp add: does_wp)

lemma does_bind_deref [does_rules]:
  "(p = None \<Longrightarrow> R Panics [] c) \<Longrightarrow> (\<And>a. p = Some a \<Longrightarrow> does (k a) c R) \<Longrightarrow> does (bind (deref p) k) c R"
  by (cases p) (auto intro: does_panic)

lemma does_bind_of_outcome [does_rules]:
  "(p = Panics \<Longrightarrow> R Panics [] c) \<Longrightarrow> (\<And>a. p = Returns a \<Longrightarrow> does (k a) c R) \<Longrightarrow> does (bind (of_outcome p) k) c R"
  by (cases p) (auto simp: of_outcome_def intro: does_panic)

lemma does_bind_on_status:
  assumes "\<And>x. does (k ()) (p (fst (f (g c, x))) c) R"
  shows "does (bind (on_status g p f) k) c R"
proof (rule doesI)
  fix s :: "('a, 'b) st"
  assume c: "cur s = c"
  obtain a x where f: "f (g c, ext s) = (a, x)" by fastforce
  have "does (k ()) (p a c) R" using assms [of "ext s"] f by simp
  then show "wp (bind (on_status g p f) k) (\<lambda>r s'. \<exists>l. trace s' = trace s @ l \<and> R r l (cur s')) s"
    by (simp add: c f does_wp)
qed

lemma does_if [does_rules]:
  "(b \<Longrightarrow> does m c R) \<Longrightarrow> (\<not> b \<Longrightarrow> does n c R) \<Longrightarrow> does (if b then m else n) c R"
  by simp

lemma does_bind_if [does_rules]:
  "(b \<Longrightarrow> does (bind m k) c R) \<Longrightarrow> (\<not> b \<Longrightarrow> does (bind n k) c R) \<Longrightarrow> does (bind (if b then m else n) k) c R"
  by simp

lemma does_option [does_rules]:
  "(x = None \<Longrightarrow> does m c R) \<Longrightarrow> (\<And>a. x = Some a \<Longrightarrow> does (k a) c R) \<Longrightarrow>
     does (case x of None \<Rightarrow> m | Some a \<Rightarrow> k a) c R"
  by (cases x) simp_all

lemma does_sum [does_rules]:
  "(\<And>e. x = Inl e \<Longrightarrow> does (m e) c R) \<Longrightarrow> (\<And>a. x = Inr a \<Longrightarrow> does (k a) c R) \<Longrightarrow>
     does (case x of Inl e \<Rightarrow> m e | Inr a \<Rightarrow> k a) c R"
  by (cases x) simp_all

lemma does_prod [does_rules]:
  "(\<And>a b. x = (a, b) \<Longrightarrow> does (k a b) c R) \<Longrightarrow> does (case x of (a, b) \<Rightarrow> k a b) c R"
  by (cases x) simp

lemma does_let [does_rules]: "(\<And>a. a = x \<Longrightarrow> does (k a) c R) \<Longrightarrow> does (let a = x in k a) c R"
  by simp

lemma does_key_pairable [does_rules]:
  "(\<And>t. k = KPOperator t \<Longrightarrow> does (m1 t) c R) \<Longrightarrow> (\<And>t. k = KPAccount t \<Longrightarrow> does (m2 t) c R) \<Longrightarrow>
   (\<And>t. k = KPSigningKey t \<Longrightarrow> does (m3 t) c R) \<Longrightarrow>
     does (case k of KPOperator t \<Rightarrow> m1 t | KPAccount t \<Rightarrow> m2 t | KPSigningKey t \<Rightarrow> m3 t) c R"
  by (cases k) simp_all

lemma does_client_object [does_rules]:
  "(\<And>t. k = ObjOperator t \<Longrightarrow> does (m1 t) c R) \<Longrightarrow> (\<And>t. k = ObjAccount t \<Longrightarrow> does (m2 t) c R) \<Longrightarrow>
   (\<And>t. k = ObjSigningKey t \<Longrightarrow> does (m3 t) c R) \<Longrightarrow> (\<And>t. k = ObjUser t \<Longrightarrow> does (m4 t) c R) \<Longrightarrow>
   (\<And>g t. k = ObjOther g t \<Longrightarrow> does (m5 g t) c R) \<Longrightarrow>
     does (case k of ObjOperator t \<Rightarrow> m1 t | ObjAccount t \<Rightarrow> m2 t | ObjSigningKey t \<Rightarrow> m3 t
              | ObjUser t \<Rightarrow> m4 t | ObjOther g t \<Rightarrow> m5 g t) c R"
  by (cases k) simp_all

lemma does_scheme_object [does_rules]:
  "(\<And>t. k = NewObject t \<Longrightarrow> does (m1 t) c R) \<Longrightarrow> (\<And>t. k = NewRuntimeObject t \<Longrightarrow> does (m2 t) c R) \<Longrightarrow>
     does (case k of NewObject t \<Rightarrow> m1 t | NewRuntimeObject t \<Rightarrow> m2 t) c R"
  by (cases k) simp_all

lemma does_bind_write_cur [does_rules]:
  assumes "\<And>err d. does (k err) d (\<lambda>r l. R r (e c err # l))"
  shows "does (bind (write_cur f e) k) c R"
  unfolding write_cur_def bind_bind
  by (intro does_rules) (auto simp: bind_bind case_prod_beta intro!: does_rules assms)

text \<open>The calls of the controllers in front of a continuation.\<close>

lemma does_bind_calls [does_rules]:
  "(\<And>a. does (k1 a) c (\<lambda>r l. R r (SecretGet ns name a # l))) \<Longrightarrow> does (bind (get_secret E ns name) k1) c R"
  "(\<And>a. does (k2 a) c (\<lambda>r l. R r (SecretCreate sec (fst a) # l))) \<Longrightarrow> does (bind (create_secret E sec) k2) c R"
  "(\<And>a. does (k2 a) c (\<lambda>r l. R r (SecretUpdate sec (fst a) # l))) \<Longrightarrow> does (bind (update_secret E sec) k2) c R"
  "(\<And>a. does (k3 a) c (\<lambda>r l. R r (SecretDelete sec a # l))) \<Longrightarrow> does (bind (delete_secret E sec) k3) c R"
  "(\<And>a. does (k3 a) c (\<lambda>r l. R r (SecretCreate sec a # l))) \<Longrightarrow> does (bind (clientset_create_secret E ns sec) k3) c R"
  "(\<And>a. does (k3 a) c (\<lambda>r l. R r (SecretUpdate sec a # l))) \<Longrightarrow> does (bind (clientset_update_secret E ns sec) k3) c R"
  "(\<And>a. does (k4 a) c (\<lambda>r l. R r (NamespaceGet name a # l))) \<Longrightarrow> does (bind (get_namespace E name) k4) c R"
  "(\<And>a. does (k5 a) c (\<lambda>r l. R r (ObjectGet KindOperator ns name (map_sum id ObjOperator a) # l))) \<Longrightarrow>
     does (bind (clientset_get_operator E ns name) k5) c R"
  "(\<And>a. does (k6 a) c (\<lambda>r l. R r (ObjectGet KindAccount ns name (map_sum id ObjAccount a) # l))) \<Longrightarrow>
     does (bind (clientset_get_account E ns name) k6) c R"
  "(\<And>a. does (k6 a) c (\<lambda>r l. R r (ObjectGet KindAccount ns name (map_sum id ObjAccount a) # l))) \<Longrightarrow>
     does (bind (get_account E ns name) k6) c R"
  "(\<And>a. does (k9 a) c (\<lambda>r l. R r (SigningKeysList ns sel a # l))) \<Longrightarrow> does (bind (list_signing_keys E ns sel) k9) c R"
  "does (k10 ()) c (\<lambda>r l. R r (EventSent obj ty reason (sprintf f as) # l)) \<Longrightarrow>
     does (bind (eventf obj ty reason f as) k10) c R"
  "does (k10 ()) c (\<lambda>r l. R r (EventSent obj ty reason msg # l)) \<Longrightarrow> does (bind (event obj ty reason msg) k10) c R"
  unfolding call_defs
  by (rule does_bind_external does_bind_log_call, simp add: case_prod_beta)+

lemma does_bind_get_object [does_rules]:
  assumes "\<And>a. does (k a) c (\<lambda>r l. R r (ObjectGet kind ns name a # l))"
  shows "does (bind (get_object E kind ns name) k) c R"
  using assms unfolding get_object_def call_defs
  by (cases kind) (auto intro!: does_bind_external simp: bind_bind)

lemma does_bind_create_key [does_rules]:
  "(\<And>a. does (k a) c (\<lambda>r l. R r (KeyCreate a # l))) \<Longrightarrow> does (bind (create_key q) k) c R"
  unfolding create_key_def by (rule does_bind_external)

text \<open>Code of which only a property of its calls matters.\<close>

lemma does_emits: "emits m P \<Longrightarrow> (\<And>r l d. \<forall>e \<in> set l. P e \<Longrightarrow> R r l d) \<Longrightarrow> does m c R"
  unfolding emits_def logs_def by (rule doesI) (fast elim: wp_mono)

lemma does_bind_emits:
  assumes "emits m P" and "preserves (\<lambda>d. d = c) m" and "\<And>l. \<forall>e \<in> set l. P e \<Longrightarrow> R Panics l c"
    and "\<And>a l. \<forall>e \<in> set l. P e \<Longrightarrow> does (k a) c (\<lambda>r l'. R r (l @ l'))"
  shows "does (bind m k) c R"
  using assms by (intro does_bind_steady [OF emits_logs [OF assms(1)]]) auto

section \<open>Calls that need an earlier one\<close>

text \<open>\<open>guarded B W l\<close>: every call of \<open>l\<close> of the kind \<open>B\<close> comes after calls with the property \<open>W\<close>.\<close>

definition guarded :: "(call \<Rightarrow> bool) \<Rightarrow> (call set \<Rightarrow> bool) \<Rightarrow> call list \<Rightarrow> bool" where
  "guarded B W l = (\<forall>l1 c l2. l = l1 @ c # l2 \<and> B c \<longrightarrow> W (set l1))"

lemma guarded_none: "\<forall>c \<in> set l. \<not> B c \<Longrightarrow> guarded B W l"
  by (auto simp: guarded_def)

lemma guarded_after:
  assumes "guarded B W l1" and "W (set l1) \<or> (\<forall>c \<in> set l2. \<not> B c)" and "\<And>X Y. W X \<Longrightarrow> X \<subseteq> Y \<Longrightarrow> W Y"
  shows "guarded B W (l1 @ l2)"
  unfolding guarded_def
proof (intro allI impI)
  fix m1 c m2
  assume a: "l1 @ l2 = m1 @ c # m2 \<and> B c"
  then consider n where "l1 = m1 @ c # n" | n where "m1 = l1 @ n" "l2 = n @ c # m2"
    by (auto simp: append_eq_append_conv2 append_eq_Cons_conv Cons_eq_append_conv)
  then show "W (set m1)"
  proof cases
    case 1
    with a assms(1) show ?thesis unfolding guarded_def by blast
  next
    case 2
    with a assms(2,3) show ?thesis by auto
  qed
qed

lemma guarded_prefix:
  assumes "guarded B W l" and "\<forall>c \<in> set p. \<not> B c" and "\<And>X Y. W X \<Longrightarrow> X \<subseteq> Y \<Longrightarrow> W Y"
  shows "guarded B W (p @ l)"
  unfolding guarded_def
proof (intro allI impI)
  fix m1 c m2
  assume a: "p @ l = m1 @ c # m2 \<and> B c"
  then consider n where "p = m1 @ c # n" | n where "m1 = p @ n" "l = n @ c # m2"
    by (auto simp: append_eq_append_conv2 append_eq_Cons_conv Cons_eq_append_conv)
  then show "W (set m1)"
  proof cases
    case 1
    with a assms(2) show ?thesis by auto
  next
    case 2
    with a assms(1) have "W (set n)" unfolding guarded_def by blast
    with assms(3) 2 show ?thesis by auto
  qed
qed

lemma guarded_conj: "guarded B W l \<Longrightarrow> guarded B W' l \<Longrightarrow> guarded B (\<lambda>X. W X \<and> W' X) l"
  by (simp add: guarded_def)

text \<open>One requirement was met by earlier calls, the other is met by the code that follows.\<close>

lemma guarded_both:
  assumes "guarded B W l" and "\<forall>c \<in> set p. \<not> B c" and "W' (set p)"
    and "\<And>X Y. W X \<Longrightarrow> X \<subseteq> Y \<Longrightarrow> W Y" and "\<And>X Y. W' X \<Longrightarrow> X \<subseteq> Y \<Longrightarrow> W' Y"
  shows "guarded B (\<lambda>X. W X \<and> W' X) (p @ l)"
proof (rule guarded_conj)
  show "guarded B W (p @ l)" by (rule guarded_prefix [OF assms(1,2,4)])
  show "guarded B W' (p @ l)" by (rule guarded_after [OF guarded_none]) (use assms(2,3,5) in auto)
qed

section \<open>The frame returns when the body does\<close>

lemma deferral_outcome_panics: "deferral_outcome wrap r answer = Panics \<longleftrightarrow> r = Panics"
  by (cases r; cases answer) (auto split: prod.split if_splits)

lemma total_with_status_deferral [total_rules]:
  assumes "total now A body"
  shows "total now A (with_status_deferral status_of equal (write_cur writer written) wrap original body)"
  unfolding total_def logs_def wp_with_status_deferral
proof
  fix s :: "('a, 'b) st"
  have "wp body (\<lambda>r s'. \<exists>l. trace s' = trace s @ l \<and> (A \<and> (\<forall>c \<in> set l. known_answer now c) \<longrightarrow> r \<noteq> Panics)) s"
    using assms by (simp add: total_def logs_def)
  then show "wp body (\<lambda>r s1.
       if equal original (status_of (cur s1))
       then \<exists>l. trace s1 = trace s @ l \<and> (A \<and> (\<forall>c \<in> set l. known_answer now c) \<longrightarrow> r \<noteq> Panics)
       else (case writer (cur s1) (ext s1) of ((answer, obj), x) \<Rightarrow>
         \<exists>l. trace (s1\<lparr>ext := x, trace := trace s1 @ [written (cur s1) answer], cur := obj\<rparr>) = trace s @ l
           \<and> (A \<and> (\<forall>c \<in> set l. known_answer now c) \<longrightarrow> deferral_outcome wrap r answer \<noteq> Panics))) s"
    by (rule wp_mono) (auto simp: deferral_outcome_panics split: prod.split)
qed

text \<open>The same without a condition on the answers.\<close>

lemma returns_with_status_deferral:
  assumes "logs body (\<lambda>r l. r \<noteq> Panics)"
  shows "logs (with_status_deferral status_of equal (write_cur writer written) wrap original body) (\<lambda>r l. r \<noteq> Panics)"
  unfolding logs_def wp_with_status_deferral
proof
  fix s :: "('a, 'b) st"
  have "wp body (\<lambda>r s'. \<exists>l. trace s' = trace s @ l \<and> r \<noteq> Panics) s" using assms by (simp add: logs_def)
  then show "wp body (\<lambda>r s1.
       if equal original (status_of (cur s1))
       then \<exists>l. trace s1 = trace s @ l \<and> r \<noteq> Panics
       else (case writer (cur s1) (ext s1) of ((answer, obj), x) \<Rightarrow>
         \<exists>l. trace (s1\<lparr>ext := x, trace := trace s1 @ [written (cur s1) answer], cur := obj\<rparr>) = trace s @ l
           \<and> deferral_outcome wrap r answer \<noteq> Panics)) s"
    by (rule wp_mono) (auto simp: deferral_outcome_panics split: prod.split)
qed

lemma total_run:
  assumes "total now True m" and "m s = (r, s')" and "trace s' = trace s @ l"
    and "\<forall>c \<in> set l. known_answer now c"
  shows "r \<noteq> Panics"
proof -
  obtain l' where "trace s' = trace s @ l'" "(\<forall>c \<in> set l'. known_answer now c) \<longrightarrow> r \<noteq> Panics"
    using logsD [OF assms(1) [unfolded total_def] assms(2)] by auto
  with assms(3,4) show ?thesis by simp
qed

end
