(* ===== verification/User_Reconciler.thy ===== *)
theory User_Reconciler
  imports Behaviour
begin

text \<open>
  internal/controller/accounts/user_controller.go: the reconciler of Users. A user gets a seed
  secret, a JWT signed by an account or by one of the account's signing keys, if the account's
  selectors admit the user, and a secret with the credentials made of both.
\<close>

section \<open>Operations\<close>

definition set_user_status :: "user_status \<Rightarrow> user \<Rightarrow> user" where
  "set_user_status s u = u\<lparr>usr_status := s\<rparr>"

definition user_do :: "(user_status \<times> 'x \<Rightarrow> user_status \<times> 'x) \<Rightarrow> (('x, user) st, unit) go" where
  "user_do f = on_status usr_status set_user_status f"

definition user_status_equal :: "user_status \<Rightarrow> user_status \<Rightarrow> bool" where
  "user_status_equal a b =
     (conditions_semantic_equal (user_get_conditions a) (user_get_conditions b)
      \<and> usrs_key_pair a = usrs_key_pair b \<and> usrs_account_ref a = usrs_account_ref b)"

definition validate_account_selector :: "'x env \<Rightarrow> account \<Rightarrow> user \<Rightarrow> (('x, 'o) st, error option) go" where
  "validate_account_selector E acc usr =
     bind (get_namespace E (m_namespace (usr_meta usr))) (\<lambda>r.
     case r of
       Inl e \<Rightarrow> ret (Some (temporary_error (errorf ''failed to get user namespace: %w'' [AErr e])))
     | Inr ns \<Rightarrow>
         (case match_namespace_selector (e_mach E) (acc_meta acc) ns (users_namespace_selector (acc_spec acc)) of
            Inl e \<Rightarrow> ret (Some (terminal_error (errorf ''failed to validate users namespace selector: %w'' [AErr e])))
          | Inr valid \<Rightarrow>
              (if \<not> valid
               then ret (Some (fails terminal_error ReasonNotAllowed
                      ''account.spec.usersNamespaceSelector does not match user namespace'' []))
               else case users_selector (acc_spec acc) of
                 None \<Rightarrow> ret None
               | Some sel \<Rightarrow> (case label_selector_as_selector (e_mach E) sel of
                   Inl e \<Rightarrow> ret (Some (terminal_error
                             (errorf ''failed to parse account.spec.usersSelector: %w'' [AErr e])))
                 | Inr ls \<Rightarrow>
                     (if \<not> sel_matches ls (m_labels (usr_meta usr))
                      then ret (Some (fails terminal_error ReasonNotAllowed
                             ''account.spec.usersSelector does not match user labels'' []))
                      else ret None)))))"

definition resolve_account :: "'x env \<Rightarrow> key_pairable \<Rightarrow> (('x, user) st, error + account) go" where
  "resolve_account E key_pair = (let now = time_now (e_kube E) in
     case key_pair of
       KPAccount v \<Rightarrow> ret (Inr v)
     | KPSigningKey v \<Rightarrow>
         bind (resolve_signing_key_owner E v) (\<lambda>r.
         case r of
           Inl e \<Rightarrow>
             bind (mark_condition e
                    (\<lambda>reason f as. user_do (user_mark_account_resolve_failed now reason f as))
                    (\<lambda>reason f as. user_do (user_mark_account_resolve_unknown now reason f as))) (\<lambda>_.
             ret (Inl e))
         | Inr owner \<Rightarrow>
             (case owner of
                ObjAccount acc \<Rightarrow>
                  bind (with_clock (account_initialize_conditions now) (acc_status acc)) (\<lambda>s.
                  if \<not> is_true (account_get_condition AccountConditionReady s)
                  then ret (Inl (unknown temporary_error ReasonNotReady ''signing key owner is not ready'' []))
                  else ret (Inr (acc\<lparr>acc_status := s\<rparr>)))
              | _ \<Rightarrow>
                  bind (user_do (user_mark_account_resolve_failed now ReasonInvalidSigningKeyOwner
                         ''user issuer is not owned by an Account, got: %s''
                         [AStr (gvk_string (e_mach E) (object_get_gvk owner))])) (\<lambda>_.
                  ret (Inl (terminal_error (errorf ''user issuer is not owned by an Account'' []))))))
     | KPOperator v \<Rightarrow>
         bind (user_do (user_mark_account_resolve_failed now ReasonUnsupportedIssuer
                ''invalid keypair, expected Account or SigningKey, got: %s''
                [AStr (gvk_string (e_mach E) (op_gvk v))])) (\<lambda>_.
         ret (Inl (terminal_error (errorf ''invalid keypair, expected Account or SigningKey'' [])))))"

definition user_reconcile_jwt_secret ::
  "'x env \<Rightarrow> account \<Rightarrow> key_pairable \<Rightarrow> (('x, user) st, string \<times> ctrl_result \<times> error option) go" where
  "user_reconcile_jwt_secret E acc key_pairable = (let now = time_now (e_kube E) in
     bind (load_issuer_seed E key_pairable (PrefixByteAccount (e_nkeys E))) (\<lambda>r.
     case r of
       Inl e \<Rightarrow>
         bind (mark_condition e
                (\<lambda>reason f as. user_do (user_mark_issuer_resolve_failed now reason f as))
                (\<lambda>reason f as. user_do (user_mark_issuer_resolve_unknown now reason f as))) (\<lambda>_.
         ret ([], zero_result, Some e))
     | Inr issuer_kp \<Rightarrow>
         bind (user_do (user_mark_issuer_resolved now)) (\<lambda>_.
         bind get_cur (\<lambda>usr.
         bind (create_user_claims E usr acc issuer_kp) (\<lambda>r.
         case r of
           Inl e \<Rightarrow> ret ([], zero_result, Some (fails terminal_error ReasonUnknownError
                     ''failed to create user JWT claims: %w'' [AErr e]))
         | Inr (want_claims, next_jwt) \<Rightarrow>
             bind (get_secret E (m_namespace (usr_meta usr)) (usr_jwt_secret_name (usr_spec usr))) (\<lambda>r.
             case r of
               Inl e \<Rightarrow>
                 (if is_not_found e
                  then bind (create_jwt_secret E (ObjUser usr) next_jwt) (\<lambda>err.
                       ret (next_jwt, requeue_result, err))
                  else ret ([], zero_result, Some (unknown temporary_error ReasonUnknownError
                         ''failed to get JWT secret: %w'' [AErr e])))
             | Inr got \<Rightarrow>
                 ensure_jwt_secret_up_to_date E (ObjUser usr) (UserClaims want_claims) got next_jwt))))))"

section \<open>The credentials\<close>

text \<open>
  \<open>errInternalNotFound\<close> is compared by identity and never leaves \<open>getCAIfExists\<close>; it is the answer
  \<open>Inr None\<close>. The field \<open>CAFile\<close> is read through its pointer.
\<close>

definition get_ca_if_exists :: "'x env \<Rightarrow> account \<Rightarrow> (('x, 'o) st, error + string option) go" where
  "get_ca_if_exists E acc = (case accs_operator_ref (acc_status acc) of
       None \<Rightarrow> ret (Inr None)
     | Some operator_ref \<Rightarrow>
         bind (clientset_get_operator E (ior_namespace operator_ref) (ior_name operator_ref)) (\<lambda>r.
         case r of
           Inl e \<Rightarrow> ret (Inl e)
         | Inr opr \<Rightarrow> (case op_tls_config (op_spec opr) of
             None \<Rightarrow> ret (Inr None)
           | Some tls \<Rightarrow>
               bind (deref (ca_file tls)) (\<lambda>selector.
               bind (get_secret E (m_namespace (op_meta opr)) (sks_name selector)) (\<lambda>r.
               case r of
                 Inl e \<Rightarrow> (if is_not_found e then ret (Inr None) else ret (Inl e))
               | Inr sec \<Rightarrow> ret (Inr (fmlookup (s_data sec) (sks_key selector))))))))"

definition create_credentials_secret ::
  "'x env \<Rightarrow> string \<Rightarrow> string \<Rightarrow> string \<Rightarrow> (('x, user) st, error option) go" where
  "create_credentials_secret E ujwt seed ca = (let
       now = time_now (e_kube E);
       failed = (\<lambda>e. bind (user_do (user_mark_credentials_secret_failed now ReasonUnknownError (error_text e) []))
                  (\<lambda>_. ret (Some e)))
     in bind get_cur (\<lambda>usr.
        case user_credential_secret_build E (new_user_credential_secret_builder ca) usr ujwt seed of
          Inl e \<Rightarrow> failed e
        | Inr sec \<Rightarrow>
            bind (create_secret E sec) (\<lambda>(err, sec').
            case err of
              Some e \<Rightarrow> failed e
            | None \<Rightarrow>
                bind (user_do (user_mark_credentials_secret_ready now)) (\<lambda>_.
                bind get_cur (\<lambda>usr.
                bind (eventf (ObjUser usr) EventTypeNormal ''CredentialsSecretCreated'' ''created secret: %s/%s''
                       [AStr (m_namespace (s_meta sec')), AStr (m_name (s_meta sec'))]) (\<lambda>_.
                ret None))))))"

definition ensure_credentials_secret_up_to_date ::
  "'x env \<Rightarrow> string \<Rightarrow> string \<Rightarrow> secret \<Rightarrow> string \<Rightarrow> (('x, user) st, ctrl_result \<times> error option) go" where
  "ensure_credentials_secret_up_to_date E ujwt seed got ca = (let
       now = time_now (e_kube E);
       failed = (\<lambda>f e. let err = errorf f [AErr e]
                  in bind (user_do (user_mark_credentials_secret_failed now ReasonUnknownError (error_text err) []))
                       (\<lambda>_. ret (zero_result, Some err)))
     in bind get_cur (\<lambda>usr.
        case user_credential_secret_build E (new_user_credential_secret_builder_from_secret got ca) usr ujwt seed of
          Inl e \<Rightarrow> failed ''failed to build desired credentials secret: %w'' e
        | Inr want \<Rightarrow>
            (if got = want
             then bind (user_do (user_mark_credentials_secret_ready now)) (\<lambda>_. ret (zero_result, None))
             else bind (update_secret E want) (\<lambda>(err, want').
               case err of
                 Some e \<Rightarrow> failed ''failed to update credentials secret: %w'' e
               | None \<Rightarrow>
                   bind (eventf (ObjUser usr) EventTypeNormal ''CredentialsSecretUpdated'' ''updated secret: %s/%s''
                          [AStr (m_namespace (s_meta want')), AStr (m_name (s_meta want'))]) (\<lambda>_.
                   bind (user_do (user_mark_credentials_secret_ready now)) (\<lambda>_.
                   ret (requeue_result, None)))))))"

definition reconcile_user_credential_secret ::
  "'x env \<Rightarrow> account \<Rightarrow> string \<Rightarrow> string \<Rightarrow> (('x, user) st, ctrl_result \<times> error option) go" where
  "reconcile_user_credential_secret E acc ujwt seed =
     bind (get_ca_if_exists E acc) (\<lambda>r.
     case r of
       Inl e \<Rightarrow> ret (zero_result, Some e)
     | Inr found \<Rightarrow>
         (let ca = (case found of None \<Rightarrow> [] | Some b \<Rightarrow> b)
          in bind get_cur (\<lambda>usr.
             bind (get_secret E (m_namespace (usr_meta usr)) (usr_credentials_secret_name (usr_spec usr))) (\<lambda>r.
             case r of
               Inl e \<Rightarrow>
                 (if is_not_found e
                  then
                    bind (create_credentials_secret E ujwt seed ca) (\<lambda>err.
                    case err of
                      Some e \<Rightarrow> ret (zero_result, Some e)
                    | None \<Rightarrow> ret (requeue_result, None))
                  else
                    bind (user_do (user_mark_credentials_secret_unknown (time_now (e_kube E)) ReasonUnknownError
                            (error_text e) [])) (\<lambda>_.
                    ret (zero_result, Some e)))
             | Inr got \<Rightarrow> ensure_credentials_secret_up_to_date E ujwt seed got ca))))"

definition user_reconcile_labels :: "'x env \<Rightarrow> (('x, user) st, ctrl_result \<times> error option) go" where
  "user_reconcile_labels E =
     bind get_cur (\<lambda>usr.
     case usrs_account_ref (usr_status usr) of
       None \<Rightarrow> ret (zero_result, None)
     | Some r \<Rightarrow>
         (if label_value (usr_meta usr) LabelAccountName \<noteq> ior_name r
          then
            bind (modify_cur (\<lambda>u. u\<lparr>usr_meta := put_label LabelAccountName (ior_name r) (usr_meta u)\<rparr>)) (\<lambda>_.
            bind (update_user E) (\<lambda>err.
            case err of
              Some e \<Rightarrow> ret (zero_result, Some e)
            | None \<Rightarrow> ret (requeue_result, None)))
          else ret (zero_result, None)))"

section \<open>Reconcile\<close>

text \<open>The end of \<open>Reconcile\<close>, from the last step backwards.\<close>

definition user_finish_credentials ::
  "'x env \<Rightarrow> account \<Rightarrow> string \<Rightarrow> string \<Rightarrow> (('x, user) st, ctrl_result \<times> error option) go" where
  "user_finish_credentials E acc ujwt seed =
     bind (reconcile_user_credential_secret E acc ujwt seed) (\<lambda>(result, err).
     case err of
       Some e \<Rightarrow> ret (result, Some (errorf ''failed to reconcile user credential secret: %w'' [AErr e]))
     | None \<Rightarrow> ret (result, None))"

definition user_finish_jwt ::
  "'x env \<Rightarrow> account \<Rightarrow> key_pairable \<Rightarrow> string \<Rightarrow> (('x, user) st, ctrl_result \<times> error option) go" where
  "user_finish_jwt E acc key_pairable seed = (let now = time_now (e_kube E) in
     bind (user_reconcile_jwt_secret E acc key_pairable) (\<lambda>(ujwt, result, err).
     case err of
       Some e \<Rightarrow>
         bind (mark_condition e
                (\<lambda>reason f as. user_do (user_mark_jwt_secret_failed now reason f as))
                (\<lambda>reason f as. user_do (user_mark_jwt_secret_unknown now reason f as))) (\<lambda>_.
         ret (as_result (Some e)))
     | None \<Rightarrow>
         bind (user_do (user_mark_jwt_secret_ready now)) (\<lambda>_.
         if \<not> result_is_zero result then ret (result, None)
         else user_finish_credentials E acc ujwt seed)))"

text \<open>From \<open>MarkAccountResolved\<close> on: the account admits the user.\<close>

definition user_reconcile_admitted ::
  "'x env \<Rightarrow> account \<Rightarrow> key_pairable \<Rightarrow> string \<Rightarrow> (('x, user) st, ctrl_result \<times> error option) go" where
  "user_reconcile_admitted E acc key_pairable seed =
     bind (user_do (user_mark_account_resolved (time_now (e_kube E))
             \<lparr>ior_namespace = m_namespace (acc_meta acc), ior_name = m_name (acc_meta acc)\<rparr>)) (\<lambda>_.
     bind (user_reconcile_labels E) (\<lambda>(result, err).
     if \<not> result_is_zero result \<or> err \<noteq> None then ret (result, err)
     else user_finish_jwt E acc key_pairable seed))"

definition user_reconcile_body :: "'x env \<Rightarrow> (('x, user) st, ctrl_result \<times> error option) go" where
  "user_reconcile_body E = (let now = time_now (e_kube E) in
     bind get_cur (\<lambda>usr.
     bind (reconcile_seed_secret E (ObjUser usr) (create_user_key (e_nkeys E))
             (usr_seed_secret_name (usr_spec usr)) [])
       (\<lambda>(kp, seed, result, err).
     case err of
       Some e \<Rightarrow>
         bind (mark_condition e
                (\<lambda>reason f as. user_do (user_mark_seed_secret_failed now reason f as))
                (\<lambda>reason f as. user_do (user_mark_seed_secret_unknown now reason f as))) (\<lambda>_.
         ret (as_result (Some e)))
     | None \<Rightarrow>
         bind (deref kp) (\<lambda>kp.
         bind (user_do (user_mark_seed_secret_ready now kp)) (\<lambda>_.
         if \<not> result_is_zero result then ret (result, None)
         else
           bind (resolve_issuer E (usr_issuer (usr_spec usr)) (m_namespace (usr_meta usr))) (\<lambda>r.
           case r of
             Inl e \<Rightarrow>
               bind (mark_condition e
                      (\<lambda>reason f as. user_do (user_mark_issuer_resolve_failed now reason f as))
                      (\<lambda>reason f as. user_do (user_mark_issuer_resolve_unknown now reason f as))) (\<lambda>_.
               ret (as_result (Some e)))
           | Inr key_pairable \<Rightarrow>
               bind (resolve_account E key_pairable) (\<lambda>r.
               case r of
                 Inl e \<Rightarrow> ret (as_result (Some e))
               | Inr acc \<Rightarrow>
                   bind (validate_account_selector E acc usr) (\<lambda>err.
                   case err of
                     Some e \<Rightarrow>
                       bind (mark_condition e
                              (\<lambda>reason f as. user_do (user_mark_account_resolve_failed now reason f as))
                              (\<lambda>reason f as. user_do (user_mark_account_resolve_unknown now reason f as))) (\<lambda>_.
                       ret (as_result (Some e)))
                   | None \<Rightarrow>
                       user_reconcile_admitted E acc key_pairable seed))))))))"

definition user_reconcile ::
  "'x env \<Rightarrow> string \<Rightarrow> string \<Rightarrow> (('x, user) st, ctrl_result \<times> error option) go" where
  "user_reconcile E ns name =
     bind (get_user E ns name) (\<lambda>r.
     case r of
       Inl e \<Rightarrow> ret (zero_result, ignore_not_found e)
     | Inr usr \<Rightarrow>
         bind (set_cur usr) (\<lambda>_.
         bind (user_do (user_initialize_conditions (time_now (e_kube E)))) (\<lambda>_.
         with_status_deferral usr_status user_status_equal (update_user_status E) id
           (usr_status usr) (user_reconcile_body E))))"

section \<open>The contract of the frame\<close>

lemma emits_user_do [emits_rules, simp]: "emits (user_do f) P"
  by (simp add: user_do_def)

lemma logs_bind_user_do [logs_rules]: "logs (k ()) R \<Longrightarrow> logs (bind (user_do f) k) R"
  unfolding user_do_def by (rule logs_bind_on_status)

lemma total_user_do [total_rules, simp]: "total now A (user_do f)"
  by (simp add: user_do_def)

lemma does_user_do [does_rules]:
  "(\<And>s. does (k ()) (set_user_status s c) R) \<Longrightarrow> does (bind (user_do f) k) c R"
  unfolding user_do_def by (rule does_bind_on_status)

lemma mark_condition_user_do:
  "mark_condition e (\<lambda>r f as. user_do (failure r f as)) (\<lambda>r f as. user_do (unknown' r f as)) =
     user_do (mark_condition e failure unknown')"
  unfolding user_do_def by (rule mark_condition_on_status)

lemma set_user_status_sel [simp]:
  "usr_meta (set_user_status s u) = usr_meta u" "usr_spec (set_user_status s u) = usr_spec u"
  "usr_gvk (set_user_status s u) = usr_gvk u" "usr_status (set_user_status s u) = s"
  "set_user_status s (set_user_status t u) = set_user_status s u"
  by (simp_all add: set_user_status_def)

lemma emits_update_user [emits_rules]:
  "(\<And>u err. P (ObjectUpdate (ObjUser u) err)) \<Longrightarrow> emits (update_user E) P"
  unfolding update_user_def by (intro emits_rules)

definition user_call_ok :: "call \<Rightarrow> bool" where
  "user_call_ok c = (case c of
       SecretGet _ _ _ \<Rightarrow> True | SecretCreate _ _ \<Rightarrow> True | SecretUpdate _ _ \<Rightarrow> True | SecretDelete _ _ \<Rightarrow> True
     | NamespaceGet _ _ \<Rightarrow> True | ObjectGet _ _ _ _ \<Rightarrow> True | ObjectUpdate (ObjUser _) _ \<Rightarrow> True
     | EventSent _ _ _ _ \<Rightarrow> True | KeyCreate _ \<Rightarrow> True | JwtEncode _ _ _ \<Rightarrow> True | _ \<Rightarrow> False)"

lemma user_body_emits: "emits (user_reconcile_body E) user_call_ok"
  unfolding user_reconcile_body_def user_reconcile_admitted_def user_finish_jwt_def user_finish_credentials_def resolve_account_def validate_account_selector_def user_reconcile_labels_def
    user_reconcile_jwt_secret_def reconcile_user_credential_secret_def get_ca_if_exists_def
    create_credentials_secret_def ensure_credentials_secret_up_to_date_def Let_def
  by (intro emits_rules reconcile_seed_emits create_jwt_emits emits_ensure_jwt emits_mono [OF resolve_issuer_emits]
      emits_mono [OF resolve_signing_key_owner_emits] emits_mono [OF load_issuer_seed_emits])
    (auto simp: user_call_ok_def)

interpretation user_frame: status_reconciler "get_user E"
  "\<lambda>ns name r. ObjectGet KindUser ns name (map_sum id ObjUser r)"
  usr_status user_status_equal "user_do (user_initialize_conditions (time_now (e_kube E)))"
  "user_reconcile_body E" "cl_status_user (e_kube E)" "\<lambda>u. StatusUpdate (ObjUser u)"
  id "user_reconcile E"
  for E :: "'x env"
proof
  show "emits (user_reconcile_body E) (\<lambda>c. \<not> status_write c)"
    by (rule emits_mono [OF user_body_emits])
      (auto simp: user_call_ok_def status_write_def split: call.splits)
qed (unfold user_reconcile_def update_user_status_def get_user_def user_do_def,
    auto intro!: logs_external logsI split: prod.split)

section \<open>The status the reconciler writes\<close>

lemma preserves_user_do:
  "f = user_call now m \<Longrightarrow> preserves (\<lambda>u. user_run now (usr_status u)) (user_do f)"
  unfolding user_do_def user_run_def
  by (rule preserves_on_status) (simp add: set_user_status_def lifecycle_run.called)

lemmas preserves_user_marks = user_call.simps [symmetric, THEN preserves_user_do]

definition user_update_law :: "'x env \<Rightarrow> bool" where
  "user_update_law E = (\<forall>u x. user_run (time_now (e_kube E)) (usr_status u) \<longrightarrow>
     user_known (time_now (e_kube E)) (usr_status (snd (fst (cl_update_user (e_kube E) u x)))))"

lemma user_run_known: "user_run now s \<Longrightarrow> user_known now s"
  by (simp add: user_known_def)

lemma preserves_user_parts:
  "preserves (\<lambda>u. user_run (time_now (e_kube E)) (usr_status u)) (validate_account_selector E acc usr)"
  "preserves (\<lambda>u. user_run (time_now (e_kube E)) (usr_status u)) (resolve_account E kp)"
  "preserves (\<lambda>u. user_run (time_now (e_kube E)) (usr_status u)) (user_reconcile_jwt_secret E acc kp)"
  "preserves (\<lambda>u. user_run (time_now (e_kube E)) (usr_status u)) (reconcile_user_credential_secret E acc ujwt seed)"
  unfolding validate_account_selector_def resolve_account_def user_reconcile_jwt_secret_def
    reconcile_user_credential_secret_def get_ca_if_exists_def create_credentials_secret_def
    ensure_credentials_secret_up_to_date_def Let_def
  by (intro preserves_rules preserves_mark_condition preserves_user_marks; simp)+

lemma leads_user_labels:
  assumes "user_update_law E"
    and "leads (\<lambda>u. user_run (time_now (e_kube E)) (usr_status u))
      (\<lambda>u. user_known (time_now (e_kube E)) (usr_status u)) m"
  shows "leads (\<lambda>u. user_run (time_now (e_kube E)) (usr_status u))
    (\<lambda>u. user_known (time_now (e_kube E)) (usr_status u))
    (bind (user_reconcile_labels E) (\<lambda>(result, err).
       if \<not> result_is_zero result \<or> err \<noteq> None then ret (result, err) else m))"
  unfolding leads_def
proof (intro allI impI)
  fix s :: "('a, user) st"
  let ?K = "\<lambda>r (s' :: ('a, user) st). user_known (time_now (e_kube E)) (usr_status (cur s'))"
  assume run: "user_run (time_now (e_kube E)) (usr_status (cur s))"
  have m: "wp m ?K s" using assms(2) run by (simp add: leads_def)
  have "user_known (time_now (e_kube E)) (usr_status (snd (fst (cl_update_user (e_kube E)
      ((cur s)\<lparr>usr_meta := t\<rparr>) (ext s)))))" for t
    using assms(1) run by (simp add: user_update_law_def)
  then show "wp (bind (user_reconcile_labels E) (\<lambda>(result, err).
       if \<not> result_is_zero result \<or> err \<noteq> None then ret (result, err) else m)) ?K s"
    using m user_run_known [OF run]
    by (auto simp: user_reconcile_labels_def update_user_def write_cur_def split: option.split prod.split)
      (metis fst_conv snd_conv)+
qed

lemma user_body_leads:
  assumes "user_update_law E"
  shows "leads (\<lambda>u. user_run (time_now (e_kube E)) (usr_status u))
    (\<lambda>u. user_known (time_now (e_kube E)) (usr_status u)) (user_reconcile_body E)"
  unfolding user_reconcile_body_def user_reconcile_admitted_def user_finish_jwt_def user_finish_credentials_def Let_def
  by (intro leads_user_labels [OF assms] leads_rules leads_bind [OF _ user_run_known]
      preserves_rules preserves_user_parts preserves_mark_condition preserves_user_marks user_run_known)

end
