(* ===== verification/Account_Reconciler.thy ===== *)
theory Account_Reconciler
  imports Reconciler
begin

text \<open>
  internal/controller/accounts/account_controller.go: the reconciler of Accounts. An account gets a
  seed secret; its JWT is signed by an operator or one of the operator's signing keys, if the
  operator's selectors admit the account, and pushed to the NATS server. A finalizer deletes the
  account there before the resource goes away.
\<close>

section \<open>Operations on the account\<close>

definition AccountFinalizer :: string where "AccountFinalizer = ''accounts.nats.io/finalizer''"

definition set_account_status :: "account_status \<Rightarrow> account \<Rightarrow> account" where
  "set_account_status s a = a\<lparr>acc_status := s\<rparr>"

definition account_do :: "(account_status \<times> 'x \<Rightarrow> account_status \<times> 'x) \<Rightarrow> (('x, account) st, unit) go" where
  "account_do f = on_status acc_status set_account_status f"

definition account_status_equal :: "account_status \<Rightarrow> account_status \<Rightarrow> bool" where
  "account_status_equal a b =
     (conditions_semantic_equal (account_get_conditions a) (account_get_conditions b)
      \<and> accs_key_pair a = accs_key_pair b \<and> accs_signing_keys a = accs_signing_keys b
      \<and> accs_operator_ref a = accs_operator_ref b)"

definition set_account_meta :: "(object_meta \<Rightarrow> object_meta) \<Rightarrow> account \<Rightarrow> account" where
  "set_account_meta f a = a\<lparr>acc_meta := f (acc_meta a)\<rparr>"

text \<open>\<open>DeletionTimestamp.IsZero()\<close>, also of a nil pointer.\<close>

definition not_deleted :: "object_meta \<Rightarrow> bool" where
  "not_deleted m = (case m_deletion_timestamp m of None \<Rightarrow> True | Some t \<Rightarrow> t = zero_time)"

section \<open>The operator of the account\<close>

definition validate_operator_selector ::
  "'x env \<Rightarrow> operator \<Rightarrow> account \<Rightarrow> (('x, 'o) st, error option) go" where
  "validate_operator_selector E opr acc =
     bind (get_namespace E (m_namespace (acc_meta acc))) (\<lambda>r.
     case r of
       Inl e \<Rightarrow> ret (Some (temporary_error (errorf ''failed to get account namespace: %w'' [AErr e])))
     | Inr ns \<Rightarrow>
         (case match_namespace_selector (e_mach E) (op_meta opr) ns (accounts_namespace_selector (op_spec opr)) of
            Inl e \<Rightarrow> ret (Some (terminal_error
                      (errorf ''failed to validate operator namespace selector: %w'' [AErr e])))
          | Inr valid \<Rightarrow>
              (if \<not> valid
               then ret (Some (fails terminal_error ReasonNotAllowed
                      ''operator.spec.accountsNamespaceSelector does not match account namespace'' []))
               else case accounts_selector (op_spec opr) of
                 None \<Rightarrow> ret None
               | Some sel \<Rightarrow> (case label_selector_as_selector (e_mach E) sel of
                   Inl e \<Rightarrow> ret (Some (terminal_error (errorf ''failed to parse operator selector: %w'' [AErr e])))
                 | Inr ls \<Rightarrow>
                     (if \<not> sel_matches ls (m_labels (acc_meta acc))
                      then ret (Some (fails terminal_error ReasonNotAllowed
                             ''operator.spec.accountsSelector does not match account labels'' []))
                      else ret None)))))"

definition resolve_operator :: "'x env \<Rightarrow> key_pairable \<Rightarrow> (('x, account) st, error + operator) go" where
  "resolve_operator E key_pair = (let now = time_now (e_kube E) in
     case key_pair of
       KPOperator v \<Rightarrow> ret (Inr v)
     | KPSigningKey v \<Rightarrow>
         bind (resolve_signing_key_owner E v) (\<lambda>r.
         case r of
           Inl e \<Rightarrow>
             bind (mark_condition e
                    (\<lambda>reason f as. account_do (account_mark_operator_resolve_failed now reason f as))
                    (\<lambda>reason f as. account_do (account_mark_operator_resolve_unknown now reason f as))) (\<lambda>_.
             ret (Inl e))
         | Inr owner \<Rightarrow>
             (case owner of
                ObjOperator opr \<Rightarrow> ret (Inr opr)
              | _ \<Rightarrow>
                  bind (account_do (account_mark_operator_resolve_failed now ReasonInvalidSigningKeyOwner
                         ''account issuer is not owned by an Operator, got: %s''
                         [AStr (gvk_string (e_mach E) (object_get_gvk owner))])) (\<lambda>_.
                  ret (Inl (terminal_error (errorf ''account issuer is not owned by an Operator'' []))))))
     | KPAccount v \<Rightarrow>
         bind (account_do (account_mark_operator_resolve_failed now ReasonUnsupportedIssuer
                ''invalid keypair, expected Operator or SigningKey, got: %s''
                [AStr (gvk_string (e_mach E) (acc_gvk v))])) (\<lambda>_.
         ret (Inl (terminal_error (errorf ''invalid keypair, expected Operator or SigningKey'' [])))))"

section \<open>Signing keys, labels and the JWT\<close>

definition account_ensure_signing_keys_updated :: "'x env \<Rightarrow> (('x, account) st, error option) go" where
  "account_ensure_signing_keys_updated E =
     bind get_cur (\<lambda>acc.
     bind (case acc_signing_keys_selector (acc_spec acc) of
             None \<Rightarrow> ret (Inr (labels_everything (e_mach E)))
           | Some sel \<Rightarrow> (case label_selector_as_selector (e_mach E) sel of
               Inl e \<Rightarrow>
                 bind (eventf (ObjAccount acc) EventTypeWarning ''InvalidSigningKeysSelector''
                        ''Failed to parse label selector: %s'' [AStr (error_text e)]) (\<lambda>_.
                 ret (Inl e))
             | Inr s \<Rightarrow> ret (Inr s))) (\<lambda>r.
     case r of
       Inl e \<Rightarrow> ret (Some e)
     | Inr selector \<Rightarrow>
         bind (list_signing_keys E (m_namespace (acc_meta acc))
                (if \<not> sel_empty selector then sel_string selector else [])) (\<lambda>r.
         case r of
           Inl e \<Rightarrow> ret (Some (errorf ''failed to list SigningKeys: %w'' [AErr e]))
         | Inr sk_list \<Rightarrow>
             bind (of_outcome (next_signing_keys (e_range E) (m_uid (acc_meta acc))
                    (accs_signing_keys (acc_status acc)) sk_list)) (\<lambda>next_sks.
             bind (if accs_signing_keys (acc_status acc) \<noteq> next_sks
                   then event (ObjAccount acc) EventTypeNormal ''SigningKeysChanged'' [] else ret ()) (\<lambda>_.
             bind (account_do (account_mark_signing_keys_updated (time_now (e_kube E)) next_sks)) (\<lambda>_.
             ret None))))))"

definition account_reconcile_labels :: "'x env \<Rightarrow> (('x, account) st, ctrl_result \<times> error option) go" where
  "account_reconcile_labels E =
     bind get_cur (\<lambda>acc.
     case accs_operator_ref (acc_status acc) of
       None \<Rightarrow> ret (zero_result, None)
     | Some ref \<Rightarrow>
         (if label_value (acc_meta acc) LabelOperatorName \<noteq> ior_name ref
          then
            bind (modify_cur (set_account_meta (put_label LabelOperatorName (ior_name ref)))) (\<lambda>_.
            bind (update_account E) (\<lambda>err.
            case err of
              Some e \<Rightarrow> ret (zero_result, Some e)
            | None \<Rightarrow> ret (requeue_result, None)))
          else ret (zero_result, None)))"

definition account_reconcile_jwt_secret ::
  "'x env \<Rightarrow> keypair \<Rightarrow> (('x, account) st, string \<times> ctrl_result \<times> error option) go" where
  "account_reconcile_jwt_secret E issuer_kp =
     bind get_cur (\<lambda>acc.
     bind (create_account_claims E acc issuer_kp) (\<lambda>r.
     case r of
       Inl e \<Rightarrow> ret ([], zero_result, Some (fails terminal_error ReasonUnknownError
                 ''failed to create account JWT claims: %w'' [AErr e]))
     | Inr (want_claims, next_jwt) \<Rightarrow>
         bind (get_secret E (m_namespace (acc_meta acc)) (acc_jwt_secret_name (acc_spec acc))) (\<lambda>r.
         case r of
           Inl e \<Rightarrow>
             (if is_not_found e
              then bind (create_jwt_secret E (ObjAccount acc) next_jwt) (\<lambda>err.
                   ret (next_jwt, requeue_result, err))
              else ret ([], zero_result, Some (unknown temporary_error ReasonUnknownError
                     ''failed to get JWT secret: %w'' [AErr e])))
         | Inr got \<Rightarrow>
             ensure_jwt_secret_up_to_date E (ObjAccount acc) (AccountClaims want_claims) got next_jwt)))"

definition account_load_issuer_seed ::
  "'x env \<Rightarrow> key_pairable \<Rightarrow> (('x, account) st, keypair option \<times> bool \<times> error option) go" where
  "account_load_issuer_seed E issuer = (let
       now = time_now (e_kube E);
       failed = (\<lambda>reason f as. bind (account_do (account_mark_issuer_resolve_failed now reason f as))
                  (\<lambda>_. ret (None, False, None)))
     in case get_key_pair issuer of
       None \<Rightarrow> failed ReasonUnknownError ''issuer KeyPair is nil'' []
     | Some key_pair \<Rightarrow>
         bind (get_secret E (m_namespace (get_meta issuer)) (seed_secret_name key_pair)) (\<lambda>r.
         case r of
           Inl e \<Rightarrow>
             bind (account_do (account_mark_issuer_resolve_unknown now ReasonIssuerSeedError
                    ''failed to get issuer seed: %s'' [AStr (error_text e)])) (\<lambda>_.
             if is_not_found e then ret (None, False, None) else ret (None, False, Some e))
         | Inr sec \<Rightarrow> (case fmlookup (s_data sec) NatsSecretSeedKey of
             None \<Rightarrow> failed ReasonMalformedSeedSecret ''secret missing required field: %s'' [AStr NatsSecretSeedKey]
           | Some seed \<Rightarrow> (case decode_seed (e_nkeys E) seed of
               Inl e \<Rightarrow> failed ReasonMalformedSeedSecret ''failed to parse seed: %s'' [AStr (error_text e)]
             | Inr prefix \<Rightarrow>
                 (if prefix \<noteq> PrefixByteOperator (e_nkeys E)
                  then failed ReasonMalformedSeedSecret ''unexpected seed prefix, wanted %q but got %q''
                         [AStr (prefix_string (e_nkeys E) (PrefixByteOperator (e_nkeys E))),
                          AStr (prefix_string (e_nkeys E) prefix)]
                  else case from_seed (e_nkeys E) seed of
                    Inl _ \<Rightarrow> panic
                  | Inr kp \<Rightarrow> (case kp_public_key kp of
                      Inl e \<Rightarrow> failed ReasonUnknownError ''failed to get public key from seed: %s'' [AStr (error_text e)]
                    | Inr pk \<Rightarrow>
                        (if pk \<noteq> public_key key_pair
                         then failed ReasonPublicKeyMismatch ''public key mismatch, wanted %q but got %q''
                                [AStr (public_key key_pair), AStr pk]
                         else
                           bind (account_do (account_mark_issuer_resolved now)) (\<lambda>_.
                           ret (Some kp, True, None)))))))))"

section \<open>The NATS server\<close>

definition load_ca_file :: "'x env \<Rightarrow> string \<Rightarrow> secret_key_selector \<Rightarrow> (('x, 'o) st, error + string) go" where
  "load_ca_file E ns selector =
     bind (get_secret E ns (sks_name selector)) (\<lambda>r.
     case r of
       Inl e \<Rightarrow> ret (Inl (errorf ''failed to get caFile secret: %w'' [AErr e]))
     | Inr sec \<Rightarrow>
         (let key = (if sks_key selector \<noteq> [] then sks_key selector else ''ca.crt'')
          in case fmlookup (s_data sec) key of
            None \<Rightarrow> ret (Inl (errorf ''caFile secret missing key %q'' [AStr key]))
          | Some ca \<Rightarrow> ret (Inr ca)))"

definition get_nats_options :: "'x env \<Rightarrow> operator \<Rightarrow> (('x, 'o) st, error + nats_option list) go" where
  "get_nats_options E opr = (case op_tls_config (op_spec opr) of
       None \<Rightarrow> ret (Inr [])
     | Some tls \<Rightarrow> (case ca_file tls of
         Some selector \<Rightarrow>
           bind (load_ca_file E (m_namespace (op_meta opr)) selector) (\<lambda>r.
           case r of
             Inl e \<Rightarrow> ret (Inl (errorf ''failed to load CA file: %w'' [AErr e]))
           | Inr ca \<Rightarrow> ret (Inr [ca_bundle (e_nats E) ca]))
       | None \<Rightarrow> ret (Inl (errorf ''invalid TLS config: missing CA file'' []))))"

text \<open>\<open>defer nscClient.Close()\<close> and the rest of the function.\<close>

definition defer_close :: "'x env \<Rightarrow> nats_client \<Rightarrow> (('x, 'o) st, 'a) go \<Rightarrow> (('x, 'o) st, 'a) go" where
  "defer_close E c body =
     deferred body (\<lambda>r. bind (client_close E c) (\<lambda>_. ret r)) (client_close E c)"

definition ensure_jwt_pushed ::
  "'x env \<Rightarrow> operator \<Rightarrow> keypair \<Rightarrow> string \<Rightarrow> (('x, account) st, error option) go" where
  "ensure_jwt_pushed E opr issuer ajwt = (let
       now = time_now (e_kube E);
       failed = (\<lambda>reason e. bind (account_do (account_mark_jwt_push_failed now reason (error_text e) []))
                  (\<lambda>_. ret (Some e)))
     in bind (system_account_load E opr) (\<lambda>r.
        case r of
          Inl e \<Rightarrow> failed ReasonUnknownError e
        | Inr sys_seed \<Rightarrow>
            bind (get_nats_options E opr) (\<lambda>r.
            case r of
              Inl e \<Rightarrow> failed ReasonUnknownError e
            | Inr opts \<Rightarrow>
                bind (connect E (account_server_url (op_spec opr)) issuer sys_seed opts) (\<lambda>r.
                case r of
                  Inl e \<Rightarrow> failed ReasonUnknownError e
                | Inr client \<Rightarrow>
                    defer_close E client
                      (bind (client_push E client ajwt) (\<lambda>err.
                       case err of
                         Some e \<Rightarrow> failed ReasonJWTPushError e
                       | None \<Rightarrow>
                           bind (account_do (account_mark_jwt_pushed now)) (\<lambda>_.
                           ret None)))))))"

definition finalize_account :: "'x env \<Rightarrow> (('x, account) st, error option) go" where
  "finalize_account E = (let now = time_now (e_kube E) in
     bind get_cur (\<lambda>acc.
     if \<not> is_true (account_get_condition AccountConditionJWTSecretReady (acc_status acc)) then ret None
     else if \<not> is_true (account_get_condition AccountConditionJWTPushed (acc_status acc)) then ret None
     else
       bind (deref (accs_operator_ref (acc_status acc))) (\<lambda>operator_ref.
       bind (clientset_get_operator E (ior_namespace operator_ref) (ior_name operator_ref)) (\<lambda>r.
       case r of
         Inl e \<Rightarrow>
           (if is_not_found e then ret None
            else ret (Some (errorf ''operator could not be loaded: %w'' [AErr e])))
       | Inr opr \<Rightarrow> (case ops_key_pair (op_status opr) of
           None \<Rightarrow> ret (Some (errorf ''operator not ready'' []))
         | Some kp \<Rightarrow>
             bind (get_secret E (m_namespace (op_meta opr)) (seed_secret_name kp)) (\<lambda>r.
             case r of
               Inl e \<Rightarrow> ret (Some (errorf ''unable to load operator seed: %w'' [AErr e]))
             | Inr sec \<Rightarrow> (case fmlookup (s_data sec) NatsSecretSeedKey of
                 None \<Rightarrow> ret (Some (errorf ''operator seed secret missing property, %q'' [AStr NatsSecretSeedKey]))
               | Some seed \<Rightarrow> (case from_seed (e_nkeys E) seed of
                   Inl e \<Rightarrow> ret (Some (errorf ''failed to parse operator seed data: %w'' [AErr e]))
                 | Inr operator_kp \<Rightarrow>
                     bind (system_account_load E opr) (\<lambda>r.
                     case r of
                       Inl e \<Rightarrow> (if is_not_found e then ret None else ret (Some e))
                     | Inr sys_seed \<Rightarrow>
                         bind (get_nats_options E opr) (\<lambda>r.
                         case r of
                           Inl e \<Rightarrow>
                             bind (account_do (account_mark_jwt_push_failed now ReasonUnknownError (error_text e) [])) (\<lambda>_.
                             ret (Some e))
                         | Inr opts \<Rightarrow>
                             bind (connect E (account_server_url (op_spec opr)) operator_kp sys_seed opts) (\<lambda>r.
                             case r of
                               Inl e \<Rightarrow> ret (Some e)
                             | Inr client \<Rightarrow>
                                 defer_close E client
                                   (bind get_cur (\<lambda>acc.
                                    bind (deref (accs_key_pair (acc_status acc))) (\<lambda>acc_kp.
                                    bind (client_delete E client (public_key acc_kp)) (\<lambda>err.
                                    case err of
                                      Some e \<Rightarrow> ret (Some e)
                                    | None \<Rightarrow> ret None)))))))))))))))"

section \<open>Reconcile\<close>

text \<open>The end of \<open>Reconcile\<close>, from \<open>MarkOperatorResolved\<close> on: the operator admits the account.\<close>

definition account_reconcile_admitted ::
  "'x env \<Rightarrow> key_pairable \<Rightarrow> operator \<Rightarrow> (('x, account) st, ctrl_result \<times> error option) go" where
  "account_reconcile_admitted E key_pairable opr = (let now = time_now (e_kube E) in
     bind (account_do (account_mark_operator_resolved now
             \<lparr>ior_namespace = m_namespace (op_meta opr), ior_name = m_name (op_meta opr)\<rparr>)) (\<lambda>_.
     bind (account_reconcile_labels E) (\<lambda>(result, err).
     if \<not> result_is_zero result \<or> err \<noteq> None then ret (result, err)
     else
       bind (account_ensure_signing_keys_updated E) (\<lambda>err.
       case err of
         Some e \<Rightarrow> ret (zero_result, Some e)
       | None \<Rightarrow>
           bind (account_load_issuer_seed E key_pairable) (\<lambda>(issuer_kp, ok, err).
           if err \<noteq> None \<or> \<not> ok
           then (if ok then ret (zero_result, None) else ret (zero_result, err))
           else
             bind (deref issuer_kp) (\<lambda>issuer_kp.
             bind (account_reconcile_jwt_secret E issuer_kp) (\<lambda>(account_jwt, result, err).
             case err of
               Some e \<Rightarrow>
                 bind (mark_condition e
                        (\<lambda>reason f as. account_do (account_mark_jwt_secret_failed now reason f as))
                        (\<lambda>reason f as. account_do (account_mark_jwt_secret_unknown now reason f as))) (\<lambda>_.
                 ret (as_result (Some e)))
             | None \<Rightarrow>
                 bind (account_do (account_mark_jwt_secret_ready now)) (\<lambda>_.
                 if \<not> result_is_zero result then ret (result, None)
                 else
                   bind (ensure_jwt_pushed E opr issuer_kp account_jwt) (\<lambda>err.
                   ret (zero_result, err))))))))))"

text \<open>The part of \<open>Reconcile\<close> for an account that is not being deleted and has the finalizer.\<close>

definition account_reconcile_live :: "'x env \<Rightarrow> (('x, account) st, ctrl_result \<times> error option) go" where
  "account_reconcile_live E = (let now = time_now (e_kube E) in
     bind get_cur (\<lambda>acc.
     bind (reconcile_seed_secret E (ObjAccount acc) (create_account_key (e_nkeys E))
             (acc_seed_secret_name (acc_spec acc)) [immutable, with_deletion_prevention (e_mach E)])
       (\<lambda>(kp, _, result, err).
     case err of
       Some e \<Rightarrow>
         bind (mark_condition e
                (\<lambda>reason f as. account_do (account_mark_seed_secret_failed now reason f as))
                (\<lambda>reason f as. account_do (account_mark_seed_secret_unknown now reason f as))) (\<lambda>_.
         ret (as_result (Some e)))
     | None \<Rightarrow>
         bind (deref kp) (\<lambda>kp.
         bind (account_do (account_mark_seed_secret_ready now kp)) (\<lambda>_.
         if \<not> result_is_zero result then ret (result, None)
         else
           bind (resolve_issuer E (acc_issuer (acc_spec acc)) (m_namespace (acc_meta acc))) (\<lambda>r.
           case r of
             Inl e \<Rightarrow>
               bind (mark_condition e
                      (\<lambda>reason f as. account_do (account_mark_issuer_resolve_failed now reason f as))
                      (\<lambda>reason f as. account_do (account_mark_issuer_resolve_unknown now reason f as))) (\<lambda>_.
               ret (as_result (Some e)))
           | Inr key_pairable \<Rightarrow>
               bind (resolve_operator E key_pairable) (\<lambda>r.
               case r of
                 Inl e \<Rightarrow> ret (as_result (Some e))
               | Inr opr \<Rightarrow>
                   bind (validate_operator_selector E opr acc) (\<lambda>err.
                   case err of
                     Some e \<Rightarrow>
                       bind (mark_condition e
                              (\<lambda>reason f as. account_do (account_mark_operator_resolve_failed now reason f as))
                              (\<lambda>reason f as. account_do (account_mark_operator_resolve_unknown now reason f as))) (\<lambda>_.
                       ret (as_result (Some e)))
                   | None \<Rightarrow>
                       account_reconcile_admitted E key_pairable opr))))))))"

definition account_reconcile_body :: "'x env \<Rightarrow> (('x, account) st, ctrl_result \<times> error option) go" where
  "account_reconcile_body E =
     bind get_cur (\<lambda>acc.
     if not_deleted (acc_meta acc)
     then
       (if \<not> contains_finalizer (e_mach E) (m_finalizers (acc_meta acc)) AccountFinalizer
        then
          bind (modify_cur (set_account_meta
                  (\<lambda>m. m\<lparr>m_finalizers := add_finalizer (e_mach E) (m_finalizers m) AccountFinalizer\<rparr>))) (\<lambda>_.
          bind (update_account E) (\<lambda>err.
          case err of
            Some e \<Rightarrow> ret (zero_result, Some e)
          | None \<Rightarrow> ret (requeue_result, None)))
        else account_reconcile_live E)
     else
       (if contains_finalizer (e_mach E) (m_finalizers (acc_meta acc)) AccountFinalizer
        then
          bind (finalize_account E) (\<lambda>err.
          case err of
            Some e \<Rightarrow>
              bind get_cur (\<lambda>acc.
              bind (event (ObjAccount acc) EventTypeWarning ''FinalizeFailed'' (error_text e)) (\<lambda>_.
              ret (zero_result, Some e)))
          | None \<Rightarrow>
              bind (modify_cur (set_account_meta
                      (\<lambda>m. m\<lparr>m_finalizers := remove_finalizer (e_mach E) (m_finalizers m) AccountFinalizer\<rparr>))) (\<lambda>_.
              bind (update_account E) (\<lambda>err.
              case err of
                Some e \<Rightarrow> ret (zero_result, Some e)
              | None \<Rightarrow> ret (requeue_result, None))))
        else ret (zero_result, None)))"

definition account_reconcile ::
  "'x env \<Rightarrow> string \<Rightarrow> string \<Rightarrow> (('x, account) st, ctrl_result \<times> error option) go" where
  "account_reconcile E ns name =
     bind (get_account E ns name) (\<lambda>r.
     case r of
       Inl e \<Rightarrow> ret (zero_result, ignore_not_found e)
     | Inr acc \<Rightarrow>
         bind (set_cur acc) (\<lambda>_.
         bind (account_do (account_initialize_conditions (time_now (e_kube E)))) (\<lambda>_.
         with_status_deferral acc_status account_status_equal (update_account_status E) id
           (acc_status acc) (account_reconcile_body E))))"

end
