(* ===== verification/Account_Facts.thy ===== *)
theory Account_Facts
  imports Account_Reconciler Behaviour
begin

text \<open>
  Facts about the reconciler of Accounts: the contract of the frame, the statuses it writes, what
  has to happen before a JWT is signed and pushed, and the protocol of the finalizer.
\<close>

section \<open>Rules for the account's combinators\<close>

lemma emits_account_do [emits_rules, simp]: "emits (account_do f) P"
  by (simp add: account_do_def)

lemma logs_bind_account_do [logs_rules]: "logs (k ()) R \<Longrightarrow> logs (bind (account_do f) k) R"
  unfolding account_do_def by (rule logs_bind_on_status)

lemma total_account_do [total_rules, simp]: "total now A (account_do f)"
  by (simp add: account_do_def)

lemma does_account_do [does_rules]:
  "(\<And>s. does (k ()) (set_account_status s c) R) \<Longrightarrow> does (bind (account_do f) k) c R"
  unfolding account_do_def by (rule does_bind_on_status)

lemma mark_condition_account_do:
  "mark_condition e (\<lambda>r f as. account_do (failure r f as)) (\<lambda>r f as. account_do (unknown' r f as)) =
     account_do (mark_condition e failure unknown')"
  unfolding account_do_def by (rule mark_condition_on_status)

lemma set_account_status_sel [simp]:
  "acc_meta (set_account_status s a) = acc_meta a" "acc_spec (set_account_status s a) = acc_spec a"
  "acc_gvk (set_account_status s a) = acc_gvk a" "acc_status (set_account_status s a) = s"
  "set_account_status s (set_account_status t a) = set_account_status s a"
  by (simp_all add: set_account_status_def)

text \<open>\<open>defer Close()\<close>: the connection is closed last, whatever the body does.\<close>

lemma defer_close_wp:
  "wp (defer_close E c body) Q s =
     wp body (\<lambda>r s'. Q r (s'\<lparr>ext := nats_close (e_nats E) (nc_conn c) (ext s'),
       trace := trace s' @ [NatsClose (nc_conn c)]\<rparr>)) s"
proof -
  have "snd (client_close E c s') = s'\<lparr>ext := nats_close (e_nats E) (nc_conn c) (ext s'),
      trace := trace s' @ [NatsClose (nc_conn c)]\<rparr>" for s' :: "('a, 'b) st"
    by (simp add: client_close_def external_def)
  then show ?thesis
    unfolding defer_close_def wp_deferred
    by (intro arg_cong [where f = "\<lambda>q. wp body q s"] ext) (auto simp: client_close_def split: outcome.split)
qed

lemma does_defer_close:
  assumes "does body d Q" and "\<And>r l d'. Q r l d' \<Longrightarrow> R r (l @ [NatsClose (nc_conn c)]) d'"
  shows "does (defer_close E c body) d R"
  using assms(1) unfolding does_def defer_close_wp
  by (auto elim!: wp_mono dest!: assms(2))

lemma logs_defer_close:
  assumes "logs body Q" and "\<And>r l. Q r l \<Longrightarrow> R r (l @ [NatsClose (nc_conn c)])"
  shows "logs (defer_close E c body) R"
  unfolding logs_def defer_close_wp
proof
  fix s :: "('a, 'b) st"
  have "wp body (\<lambda>r s'. \<exists>l. trace s' = trace s @ l \<and> Q r l) s" using assms(1) by (simp add: logs_def)
  then show "wp body (\<lambda>r s'. \<exists>l. trace (s'\<lparr>ext := nats_close (e_nats E) (nc_conn c) (ext s'),
      trace := trace s' @ [NatsClose (nc_conn c)]\<rparr>) = trace s @ l \<and> R r l) s"
    by (rule wp_mono) (auto dest: assms(2))
qed

lemma emits_defer_close [emits_rules]:
  "emits body P \<Longrightarrow> P (NatsClose (nc_conn c)) \<Longrightarrow> emits (defer_close E c body) P"
  unfolding emits_def by (erule logs_defer_close) auto

lemma preserves_defer_close [preserves_rules]: "preserves I body \<Longrightarrow> preserves I (defer_close E c body)"
  unfolding preserves_def defer_close_wp by (auto elim!: wp_mono)

lemma total_defer_close [total_rules]: "total now A body \<Longrightarrow> total now A (defer_close E c body)"
  unfolding total_def by (erule logs_defer_close) auto

section \<open>The contract of the frame\<close>

definition account_call_ok :: "call \<Rightarrow> bool" where
  "account_call_ok c = (case c of StatusUpdate _ _ \<Rightarrow> False | ObjectsList _ _ _ \<Rightarrow> False | _ \<Rightarrow> True)"

lemma account_call_ok_simps [simp]: "account_call_ok c \<longleftrightarrow> \<not> status_write c \<and> (\<forall>k n m. c \<noteq> ObjectsList k n m)"
  by (cases c) (simp_all add: account_call_ok_def)

lemma emits_update_account [emits_rules]:
  "(\<And>a err. P (ObjectUpdate (ObjAccount a) err)) \<Longrightarrow> emits (update_account E) P"
  unfolding update_account_def by (intro emits_rules)

lemma emits_account_nats: "(\<And>c. nats_call c \<Longrightarrow> P c) \<Longrightarrow> emits (ensure_jwt_pushed E opr kp jwt) P"
  unfolding ensure_jwt_pushed_def Let_def get_nats_options_def load_ca_file_def
  by (rule emits_mono [where P = nats_call])
    (intro emits_rules connect_emits client_emits; simp)

lemma emits_finalize_account: "(\<And>c. nats_call c \<Longrightarrow> P c) \<Longrightarrow> emits (finalize_account E) P"
  unfolding finalize_account_def Let_def get_nats_options_def load_ca_file_def
  by (rule emits_mono [where P = nats_call])
    (intro emits_rules connect_emits client_emits; simp)

lemma emits_resolve_operator:
  "(\<And>k n m r. P (ObjectGet k n m r)) \<Longrightarrow> emits (resolve_operator E kp) P"
  unfolding resolve_operator_def Let_def
  by (intro emits_rules emits_mono [OF resolve_signing_key_owner_emits]) auto

lemma emits_account_load:
  "(\<And>n m r. P (SecretGet n m r)) \<Longrightarrow> emits (account_load_issuer_seed E kp) P"
  unfolding account_load_issuer_seed_def Let_def by (intro emits_rules)

lemma nats_call_kind: "nats_call c \<Longrightarrow> \<not> status_write c \<and> (\<forall>k n m. c \<noteq> ObjectsList k n m)"
  by (cases c) (simp_all add: nats_call_def)

lemma account_live_emits:
  "emits (account_reconcile_live E) (\<lambda>c. \<not> status_write c \<and> (\<forall>k n m. c \<noteq> ObjectsList k n m))"
  unfolding account_reconcile_live_def account_reconcile_admitted_def Let_def validate_operator_selector_def account_reconcile_labels_def
    account_ensure_signing_keys_updated_def account_reconcile_jwt_secret_def
  by (intro emits_rules reconcile_seed_emits create_jwt_emits emits_ensure_jwt emits_resolve_operator
      emits_account_load emits_account_nats emits_mono [OF resolve_issuer_emits]) (auto dest: nats_call_kind)

lemma account_body_emits:
  "emits (account_reconcile_body E) (\<lambda>c. \<not> status_write c \<and> (\<forall>k n m. c \<noteq> ObjectsList k n m))"
  unfolding account_reconcile_body_def
  by (intro emits_rules account_live_emits emits_finalize_account) (auto dest: nats_call_kind)

interpretation account_frame: status_reconciler "get_account E"
  "\<lambda>ns name r. ObjectGet KindAccount ns name (map_sum id ObjAccount r)"
  acc_status account_status_equal "account_do (account_initialize_conditions (time_now (e_kube E)))"
  "account_reconcile_body E" "cl_status_account (e_kube E)" "\<lambda>a. StatusUpdate (ObjAccount a)"
  id "account_reconcile E"
  for E :: "'x env"
proof
  show "emits (account_reconcile_body E) (\<lambda>c. \<not> status_write c)"
    by (rule emits_mono [OF account_body_emits]) auto
qed (unfold account_reconcile_def update_account_status_def get_account_def account_do_def,
    auto intro!: logs_external logsI split: prod.split)

section \<open>The status the reconciler writes\<close>

lemma preserves_account_do:
  "f = account_call now m \<Longrightarrow> preserves (\<lambda>a. account_run now (acc_status a)) (account_do f)"
  unfolding account_do_def account_run_def
  by (rule preserves_on_status) (simp add: set_account_status_def lifecycle_run.called)

lemmas preserves_account_marks = account_call.simps [symmetric, THEN preserves_account_do]

lemma preserves_account_meta:
  "preserves (\<lambda>a. account_run now (acc_status a)) (modify_cur (set_account_meta f))"
  by (rule preserves_modify_cur) (simp add: set_account_meta_def)

text \<open>
  The account the server answers an update with: its status is new or was written by this
  controller, because the status is a subresource and an update of the account leaves it alone.
\<close>

definition account_update_law :: "'x env \<Rightarrow> bool" where
  "account_update_law E = (\<forall>a x. account_run (time_now (e_kube E)) (acc_status a) \<longrightarrow>
     account_known (time_now (e_kube E)) (acc_status (snd (fst (cl_update_account (e_kube E) a x)))))"

lemma leads_update_account:
  assumes "account_update_law E"
  shows "leads (\<lambda>a. account_run (time_now (e_kube E)) (acc_status a))
    (\<lambda>a. account_known (time_now (e_kube E)) (acc_status a)) (update_account E)"
  unfolding update_account_def using assms
  by (intro leads_write_cur) (auto simp: account_update_law_def)

lemma account_run_known: "account_run now s \<Longrightarrow> account_known now s"
  by (simp add: account_known_def)

lemma preserves_account_parts:
  "preserves (\<lambda>a. account_run (time_now (e_kube E)) (acc_status a)) (validate_operator_selector E opr acc)"
  "preserves (\<lambda>a. account_run (time_now (e_kube E)) (acc_status a)) (resolve_operator E kp)"
  "preserves (\<lambda>a. account_run (time_now (e_kube E)) (acc_status a)) (account_ensure_signing_keys_updated E)"
  "preserves (\<lambda>a. account_run (time_now (e_kube E)) (acc_status a)) (account_reconcile_jwt_secret E keyp)"
  "preserves (\<lambda>a. account_run (time_now (e_kube E)) (acc_status a)) (account_load_issuer_seed E kp)"
  "preserves (\<lambda>a. account_run (time_now (e_kube E)) (acc_status a)) (ensure_jwt_pushed E opr keyp ajwt)"
  "preserves (\<lambda>a. account_run (time_now (e_kube E)) (acc_status a)) (finalize_account E)"
  unfolding validate_operator_selector_def resolve_operator_def account_ensure_signing_keys_updated_def
    account_reconcile_jwt_secret_def account_load_issuer_seed_def ensure_jwt_pushed_def finalize_account_def Let_def
    get_nats_options_def load_ca_file_def
  by (intro preserves_rules preserves_mark_condition preserves_account_marks; simp)+

text \<open>After the labels have been written the reconciliation ends.\<close>

lemma leads_account_labels:
  assumes "account_update_law E"
    and "leads (\<lambda>a. account_run (time_now (e_kube E)) (acc_status a))
      (\<lambda>a. account_known (time_now (e_kube E)) (acc_status a)) k"
  shows "leads (\<lambda>a. account_run (time_now (e_kube E)) (acc_status a))
    (\<lambda>a. account_known (time_now (e_kube E)) (acc_status a))
    (bind (account_reconcile_labels E) (\<lambda>(result, err).
       if \<not> result_is_zero result \<or> err \<noteq> None then ret (result, err) else k))"
  unfolding leads_def
proof (intro allI impI)
  fix s :: "('a, account) st"
  let ?K = "\<lambda>r (s' :: ('a, account) st). account_known (time_now (e_kube E)) (acc_status (cur s'))"
  assume run: "account_run (time_now (e_kube E)) (acc_status (cur s))"
  have k: "wp k ?K s" using assms(2) run by (simp add: leads_def)
  have "account_known (time_now (e_kube E)) (acc_status (snd (fst (cl_update_account (e_kube E)
      (set_account_meta f (cur s)) (ext s)))))" for f
    using assms(1) run by (simp add: account_update_law_def set_account_meta_def)
  then show "wp (bind (account_reconcile_labels E) (\<lambda>(result, err).
       if \<not> result_is_zero result \<or> err \<noteq> None then ret (result, err) else k)) ?K s"
    using k account_run_known [OF run]
    by (auto simp: account_reconcile_labels_def update_account_def write_cur_def split: option.split prod.split)
      (metis fst_conv snd_conv)+
qed

lemma account_body_leads:
  assumes "account_update_law E"
  shows "leads (\<lambda>a. account_run (time_now (e_kube E)) (acc_status a))
    (\<lambda>a. account_known (time_now (e_kube E)) (acc_status a)) (account_reconcile_body E)"
proof -
  note keeps = leads_bind [OF _ account_run_known]
  note parts = preserves_rules preserves_account_parts preserves_mark_condition preserves_account_marks
    preserves_account_meta account_run_known
  have known: "preserves (\<lambda>a. account_known (time_now (e_kube E)) (acc_status a))
      (case err of None \<Rightarrow> ret (requeue_result, None) | Some e \<Rightarrow> ret (zero_result, Some e))" for err :: "error option"
    by (cases err) simp_all
  have live: "leads (\<lambda>a. account_run (time_now (e_kube E)) (acc_status a))
    (\<lambda>a. account_known (time_now (e_kube E)) (acc_status a)) (account_reconcile_live E)"
    unfolding account_reconcile_live_def account_reconcile_admitted_def Let_def
    by (intro leads_account_labels [OF assms] leads_rules keeps parts) 
  show ?thesis
    unfolding account_reconcile_body_def
    by (intro leads_rules live leads_last [OF leads_update_account [OF assms] known] keeps parts)
qed

end
