(* ===== verification/Base_Properties.thy ===== *)
theory Base_Properties
  imports Reconciler
begin

text \<open>
  The properties of what the reconcilers share (base_controller.go), on runs of the operations
  from any state, whatever the cluster answers.
\<close>

section \<open>Concrete objects\<close>

definition sample_operator :: operator where
  "sample_operator = \<lparr>op_gvk = group_version_with_kind ''Operator'',
     op_meta = empty_meta\<lparr>m_name := ''op'', m_namespace := ''ns'', m_uid := ''u2''\<rparr>,
     op_spec = \<lparr>op_jwt_secret_name = ''ojwt'', op_seed_secret_name = ''oseed'', accounts_namespace_selector = None,
       accounts_selector = None, op_signing_keys_selector = None, system_account_ref = ''sys'', op_tls_config = None,
       account_server_url = ''nats://server'', operator_service_urls = []\<rparr>,
     op_status = \<lparr>ops_status = \<lparr>st_conditions = [new_condition ConditionReady ConditionTrue [] [] []]\<rparr>,
       ops_key_pair = Some \<lparr>public_key = ''pub-O'', seed_secret_name = ''oseed''\<rparr>, ops_signing_keys = [],
       ops_resolved_system_account = None\<rparr>\<rparr>"

text \<open>A secret with a seed that the builder would build again.\<close>

lemma sample_seed_secret:
  obtains sec where "key_pair_secret_build plain_machinery sec (ObjAccount sample_account) (key_of_seed ''A'')
      [immutable, with_deletion_prevention plain_machinery] = Inr sec"
    "fmlookup (s_data sec) NatsSecretSeedKey = Some ''A''"
proof -
  obtain sec where sec: "key_pair_secret_build plain_machinery empty_secret (ObjAccount sample_account) (key_of_seed ''A'')
      [immutable, with_deletion_prevention plain_machinery] = Inr sec"
    by (simp add: key_pair_secret_build_def immutable_def with_deletion_prevention_def finish_secret_def
        plain_machinery_def Let_def)
  have "key_pair_secret_build plain_machinery sec (ObjAccount sample_account) (key_of_seed ''A'')
      [immutable, with_deletion_prevention plain_machinery] = Inr sec"
    by (rule key_pair_builder.build_again [OF _ sec]) (simp add: plain_machinery_laws program_options_def)
  moreover have "fmlookup (s_data sec) NatsSecretSeedKey = Some ''A''"
    using key_pair_secret_seed [OF sec] by simp
  ultimately show ?thesis by (rule that)
qed

lemma sample_account_sel [simp]:
  "m_namespace (acc_meta sample_account) = ''ns''" "m_name (acc_meta sample_account) = ''acc''"
  by (simp_all add: sample_account_def empty_meta_def)

lemma sample_seed_law [simp]: "seed_law sample_env"
  by (simp add: seed_law_def sample_env_def sample_nkeys_def)

text \<open>The sample cluster with one secret, which every read returns.\<close>

definition with_secret :: "secret \<Rightarrow> unit env \<Rightarrow> unit env" where
  "with_secret sec E = E\<lparr>e_kube := (e_kube E)\<lparr>cs_get_secret := (\<lambda>_ _ x. (Inr sec, x))\<rparr>\<rparr>"

lemma with_secret_sel [simp]:
  "cs_get_secret (e_kube (with_secret sec E)) = (\<lambda>_ _ x. (Inr sec, x))" "e_nkeys (with_secret sec E) = e_nkeys E"
  "e_mach (with_secret sec E) = e_mach E" "e_jwt (with_secret sec E) = e_jwt E"
  "e_nats (with_secret sec E) = e_nats E" "seed_law (with_secret sec E) = seed_law E"
  by (simp_all add: with_secret_def seed_law_def)

text \<open>A cluster in which the one account is there; it answers an update with what it was sent.\<close>

definition with_account :: "account \<Rightarrow> unit env \<Rightarrow> unit env" where
  "with_account a E = E\<lparr>e_kube := (e_kube E)\<lparr>cl_get_account := (\<lambda>ns name x. (Inr a, x)),
     cl_update_account := (\<lambda>a x. ((None, a), x))\<rparr>\<rparr>"

text \<open>Documented behaviour of nkeys: a seed whose prefix can be decoded is the seed of a key pair.\<close>

definition seed_decode_law :: "'x env \<Rightarrow> bool" where
  "seed_decode_law E = (\<forall>seed p. decode_seed (e_nkeys E) seed = Inr p \<longrightarrow> (\<exists>kp. from_seed (e_nkeys E) seed = Inr kp))"

lemma load_issuer_seed_returns:
  assumes "seed_decode_law E"
  shows "logs (load_issuer_seed E issuer prefix) (\<lambda>r l. r \<noteq> Panics)"
proof -
  have "\<exists>kp. from_seed (e_nkeys E) seed = Inr kp" if "decode_seed (e_nkeys E) seed = Inr p" for seed p
    using assms that by (simp add: seed_decode_law_def)
  then have no: "from_seed (e_nkeys E) seed \<noteq> Inl e" if "decode_seed (e_nkeys E) seed = Inr p" for seed p e
    using that by fastforce
  show ?thesis
    unfolding load_issuer_seed_def by (intro logs_rules) (use no in auto)
qed

lemma sample_seed_decode_law [simp]: "seed_decode_law sample_env"
  by (simp add: seed_decode_law_def sample_env_def sample_nkeys_def)

section \<open>Properties\<close>

text \<open>C15: a seed is never replaced. When the seed secret could not be read nothing is written; when it
  exists, the only write is an update that leaves the seed in it as it is; a new secret is created
  only after the server said that there is none, and then nothing is updated or deleted.\<close>

theorem seed_never_replaced:
  assumes "seed_law E" and "reconcile_seed_secret E owner nk name opts s = (r, s')"
  shows "\<exists>l. trace s' = trace s @ l \<and> seed_protocol (m_namespace (object_get_meta owner)) name l"
  using logsD [OF reconcile_seed_protocol [OF assms(1)] assms(2)] by blast

theorem seed_never_replaced_witness:
  "seed_protocol ''ns'' ''seed'' (trace (snd (reconcile_seed_secret sample_env (ObjAccount sample_account)
      (create_account_key sample_nkeys) ''seed'' [immutable] (start sample_account))))"
proof -
  obtain r s' where run: "reconcile_seed_secret sample_env (ObjAccount sample_account)
      (create_account_key sample_nkeys) ''seed'' [immutable] (start sample_account) = (r, s')" by fastforce
  from seed_never_replaced [OF sample_seed_law this] run show ?thesis
    by (simp add: start_def sample_account_def empty_meta_def)
qed

text \<open>A reconciliation of the seed that succeeds without asking for another one has read the secret
  and written nothing; the seed it returns is the secret's, the public key is the seed's, and the
  secret has the name, labels and data that the owner asks for.\<close>

theorem seed_secret_settled:
  assumes "reconcile_seed_secret E owner nk name opts s = (Returns (kp, seed, zero_result, None), s')"
  shows "\<exists>got k pk. trace s' = trace s @ [SecretGet (m_namespace (object_get_meta owner)) name (Inr got)]
    \<and> fmlookup (s_data got) NatsSecretSeedKey = Some seed
    \<and> from_seed (e_nkeys E) seed = Inr k \<and> kp_public_key k = Inr pk
    \<and> kp = Some \<lparr>public_key = pk, seed_secret_name = m_name (s_meta got)\<rparr>
    \<and> key_pair_secret_meant owner k got"
  using logsD [OF reconcile_seed_settled assms] by fastforce

theorem seed_secret_settled_witness:
  "\<exists>sec got. trace (snd (reconcile_seed_secret (with_secret sec sample_env) (ObjAccount sample_account)
         (create_account_key sample_nkeys) ''seed'' [immutable, with_deletion_prevention plain_machinery]
         (start sample_account))) = [SecretGet ''ns'' ''seed'' (Inr got)]
     \<and> fmlookup (s_data got) NatsSecretSeedKey = Some ''A''
     \<and> key_pair_secret_meant (ObjAccount sample_account) (key_of_seed ''A'') got"
proof -
  obtain sec where sec: "key_pair_secret_build plain_machinery sec (ObjAccount sample_account) (key_of_seed ''A'')
      [immutable, with_deletion_prevention plain_machinery] = Inr sec"
    "fmlookup (s_data sec) NatsSecretSeedKey = Some ''A''" by (rule sample_seed_secret)
  let ?E = "with_secret sec sample_env"
  have build: "key_pair_secret_build (e_mach ?E) (new_key_pair_secret_builder_from_secret sec)
      (ObjAccount sample_account) (key_of_seed ''A'') [immutable, with_deletion_prevention plain_machinery] = Inr sec"
    using sec(1) by (simp add: sample_env_def new_key_pair_secret_builder_from_secret_def)
  have seed: "from_seed (e_nkeys ?E) ''A'' = Inr (key_of_seed ''A'')" by (simp add: sample_env_def sample_nkeys_def)
  obtain s' where run: "reconcile_seed_secret ?E (ObjAccount sample_account) (create_account_key sample_nkeys) ''seed''
      [immutable, with_deletion_prevention plain_machinery] (start sample_account) =
      (Returns (Some \<lparr>public_key = ''pub-A'', seed_secret_name = m_name (s_meta sec)\<rparr>, ''A'', zero_result, None), s')"
    using build seed sec(2)
    by (simp add: reconcile_seed_secret_def ensure_seed_secret_up_to_date_def get_secret_def bind_def external_def
        ret_def secret_bytes_def)
  from seed_secret_settled [OF this] seed obtain got where
    "trace s' = [SecretGet ''ns'' ''seed'' (Inr got)]" "fmlookup (s_data got) NatsSecretSeedKey = Some ''A''"
    "key_pair_secret_meant (ObjAccount sample_account) (key_of_seed ''A'') got"
    by (auto simp: start_def)
  then show ?thesis by (intro exI [of _ sec] exI [of _ got]) (simp add: run)
qed



text \<open>An issuer is used only when it is ready. It is read once, in the namespace of the reference or
  else in the one of the resource, and it is an operator, an account or a signing key; its key pair
  and its metadata are the ones that were read.\<close>

theorem issuer_is_ready:
  assumes "resolve_issuer E issuer ns s = (Returns (Inr kp), s')"
  shows "key_pairable_is_ready kp
    \<and> (\<exists>k obj kp0. as_key_pairable obj = Some kp0 \<and> get_key_pair kp = get_key_pair kp0 \<and> get_meta kp = get_meta kp0
        \<and> trace s' = trace s @ [ObjectGet k
            (if tor_namespace (issuer_ref issuer) \<noteq> [] then tor_namespace (issuer_ref issuer) else ns)
            (tor_name (issuer_ref issuer)) (Inr obj)])"
  using logsD [OF resolve_issuer_logs assms] by fastforce

definition with_operator :: "operator \<Rightarrow> unit env \<Rightarrow> unit env" where
  "with_operator opr E = E\<lparr>e_kube := (e_kube E)\<lparr>cl_get_operator := (\<lambda>_ _ x. (Inr opr, x)),
     cs_get_operator := (\<lambda>_ _ x. (Inr opr, x))\<rparr>\<rparr>"

lemma sample_operator_ready:
  "key_pairable_is_ready (set_status (fst (manage get_conditions set_conditions
     (initialize_conditions (time_now sample_kube) operator_condition_set)
     (get_status (KPOperator sample_operator), ()))) (KPOperator sample_operator))"
  by code_simp

theorem issuer_is_ready_witness:
  "\<exists>kp s'. resolve_issuer (with_operator sample_operator sample_env) (acc_issuer (acc_spec sample_account)) ''ns''
       (start sample_account) = (Returns (Inr kp), s')
     \<and> key_pairable_is_ready kp \<and> length (trace s') = 1"
proof -
  let ?kp = "set_status (fst (manage get_conditions set_conditions
     (initialize_conditions (time_now sample_kube) operator_condition_set)
     (get_status (KPOperator sample_operator), ()))) (KPOperator sample_operator)"
  have "tor_kind (issuer_ref (acc_issuer (acc_spec sample_account))) = ''Operator''"
    by (simp add: sample_account_def)
  then have "scheme_new (e_mach (with_operator sample_operator sample_env))
      (get_group_version_kind (e_mach (with_operator sample_operator sample_env))
        (issuer_ref (acc_issuer (acc_spec sample_account)))) = Inr (NewObject KindOperator)"
    by (simp add: with_operator_def sample_env_def plain_machinery_def get_group_version_kind_def sample_scheme_def)
  then obtain s' where "resolve_issuer (with_operator sample_operator sample_env) (acc_issuer (acc_spec sample_account))
      ''ns'' (start sample_account) = (Returns (Inr ?kp), s')"
    using sample_operator_ready
    by (simp add: resolve_issuer_def Let_def get_object_def get_operator_def external_def bind_def ret_def
        with_operator_def sample_env_def key_pairable_initialize_conditions_def with_clock_def case_prod_beta)
  with issuer_is_ready [OF this] show ?thesis by (auto simp: start_def)
qed

text \<open>C33: loading an issuer's seed. It returns a key pair exactly when the issuer has a key pair in its
  status and the secret named there, in the issuer's namespace, holds a seed of the wanted kind
  whose public key is the one in the status; every other case is an error, and none panics.\<close>

theorem issuer_seed_loaded:
  assumes "seed_decode_law E" and "load_issuer_seed E issuer prefix s = (r, s')"
  shows "r \<noteq> Panics \<and> (\<exists>l. trace s' = trace s @ l \<and> (\<forall>kp. r = Returns (Inr kp) \<longleftrightarrow>
    (\<exists>kpr sec. get_key_pair issuer = Some kpr
        \<and> l = [SecretGet (m_namespace (get_meta issuer)) (seed_secret_name kpr) (Inr sec)]
        \<and> issuer_key E kpr prefix sec kp)))"
proof -
  have "r \<noteq> Panics" by (rule logsD [OF load_issuer_seed_returns [OF assms(1)] assms(2)])
  moreover from load_issuer_seed_logs assms(2) obtain l where "trace s' = trace s @ l"
    "\<forall>kp. r = Returns (Inr kp) \<longleftrightarrow> (\<exists>kpr sec. get_key_pair issuer = Some kpr
        \<and> l = [SecretGet (m_namespace (get_meta issuer)) (seed_secret_name kpr) (Inr sec)]
        \<and> issuer_key E kpr prefix sec kp)"
    by (rule logsD)
  ultimately show ?thesis by blast
qed

theorem issuer_seed_loaded_witness:
  "\<exists>s'. load_issuer_seed (with_secret (empty_secret\<lparr>s_data := fmupd NatsSecretSeedKey ''O'' fmempty\<rparr>) sample_env)
      (KPOperator sample_operator) 1 (start sample_account) = (Returns (Inr (key_of_seed ''O'')), s')"
proof -
  let ?sec = "empty_secret\<lparr>s_data := fmupd NatsSecretSeedKey ''O'' fmempty\<rparr>"
  let ?E = "with_secret ?sec sample_env"
  let ?m = "load_issuer_seed ?E (KPOperator sample_operator) 1 (start sample_account)"
  obtain r s' where run: "?m = (r, s')" by fastforce
  have law: "seed_decode_law ?E" using sample_seed_decode_law by (simp add: seed_decode_law_def)
  have kp: "get_key_pair (KPOperator sample_operator) = Some \<lparr>public_key = ''pub-O'', seed_secret_name = ''oseed''\<rparr>"
    by (simp add: operator_get_key_pair_def sample_operator_def)
  have "issuer_key ?E \<lparr>public_key = ''pub-O'', seed_secret_name = ''oseed''\<rparr> 1 ?sec (key_of_seed ''O'')"
    by (simp add: issuer_key_def sample_env_def sample_nkeys_def)
  moreover have "trace s' = [SecretGet (m_namespace (get_meta (KPOperator sample_operator))) ''oseed'' (Inr ?sec)]"
    using run kp
    by (simp add: load_issuer_seed_def get_secret_def external_def bind_def ret_def start_def case_prod_beta)
      (auto simp: ret_def panic_def sample_env_def sample_nkeys_def split: if_splits)
  ultimately have "r = Returns (Inr (key_of_seed ''O''))"
    using issuer_seed_loaded [OF law run] kp by (auto simp: start_def)
  with run show ?thesis by simp
qed

end
