(* ===== verification/Pushing_Scenario.thy ===== *)
theory Pushing_Scenario
  imports Account_Facts Base_Properties
begin

text \<open>
  A concrete reconciliation of an account that goes all the way: seed, operator, labels, signing keys
  and JWT are found in order and the stored token is pushed. It is the instance for the properties of
  signing and pushing; no property depends on it.
\<close>

definition push_operator :: operator where
  "push_operator = sample_operator\<lparr>op_status := (op_status sample_operator)\<lparr>
     ops_resolved_system_account := Some \<lparr>kpr_ref = \<lparr>ior_namespace = ''ns'', ior_name = ''sys''\<rparr>,
       kpr_public_key = ''pub-A''\<rparr>\<rparr>\<rparr>"

definition push_account :: account where
  "push_account = set_account_meta (put_label LabelOperatorName ''op'') sample_account"

definition seed_secret :: secret where
  "seed_secret = (case key_pair_secret_build plain_machinery new_key_pair_secret_builder (ObjAccount push_account)
     (key_of_seed ''A'') [immutable, with_deletion_prevention plain_machinery] of Inr sec \<Rightarrow> sec | Inl _ \<Rightarrow> empty_secret)"

definition push_claims :: account_claims where
  "push_claims = account_claims_of sample_jwt push_account \<lparr>public_key = ''pub-A'', seed_secret_name = m_name (s_meta seed_secret)\<rparr>"

definition push_env :: "unit env" where
  "push_env = sample_env\<lparr>e_jwt := sample_jwt\<lparr>jwt_decode := (\<lambda>_. Inr (AccountClaims push_claims))\<rparr>,
     e_kube := sample_kube\<lparr>
       cl_get_operator := (\<lambda>ns name x. (Inr push_operator, x)),
       cs_get_account := (\<lambda>ns name x. (Inr (push_account\<lparr>acc_status := new_account_status\<lparr>accs_key_pair :=
          Some \<lparr>public_key = ''pub-A'', seed_secret_name = ''seed''\<rparr>\<rparr>\<rparr>), x)),
       cs_get_namespace := (\<lambda>name x. (Inr \<lparr>ns_meta = empty_meta\<lparr>m_name := ''ns''\<rparr>\<rparr>, x)),
       cs_get_secret := (\<lambda>ns name x. (Inr (
          if name = ''seed'' then seed_secret
          else if name = ''oseed'' then empty_secret\<lparr>s_data := fmupd NatsSecretSeedKey ''O'' fmempty\<rparr>
          else empty_secret\<lparr>s_data := fmupd NatsSecretJWTKey ''stored'' fmempty\<rparr>), x))\<rparr>\<rparr>"


text \<open>Step by step.\<close>

lemma seed_secret:
  "key_pair_secret_build plain_machinery new_key_pair_secret_builder (ObjAccount push_account)
     (key_of_seed ''A'') [immutable, with_deletion_prevention plain_machinery] = Inr seed_secret"
  by (simp add: seed_secret_def key_pair_secret_build_def immutable_def with_deletion_prevention_def finish_secret_def
      plain_machinery_def Let_def)

lemma seed_secret_again:
  "key_pair_secret_build plain_machinery seed_secret (ObjAccount push_account) (key_of_seed ''A'')
     [immutable, with_deletion_prevention plain_machinery] = Inr seed_secret"
  by (rule key_pair_builder.build_again [OF _ seed_secret]) (simp add: plain_machinery_laws program_options_def)

lemma seed_secret_seed: "fmlookup (s_data seed_secret) NatsSecretSeedKey = Some ''A''"
  using key_pair_secret_seed [OF seed_secret] by simp

lemma push_env_sel [simp]:
  "e_mach push_env = plain_machinery" "e_nkeys push_env = sample_nkeys" "e_nats push_env = sample_nats"
  "e_range push_env = by_name_order" "time_now (e_kube push_env) = time_now sample_kube"
  "cs_get_secret (e_kube push_env) ns ''seed'' x = (Inr seed_secret, x)"
  by (simp_all add: push_env_def sample_env_def)

abbreviation push_key :: key_pair where
  "push_key \<equiv> \<lparr>public_key = ''pub-A'', seed_secret_name = m_name (s_meta seed_secret)\<rparr>"

definition pushable :: "account \<Rightarrow> bool" where
  "pushable a = (acc_meta a = acc_meta push_account \<and> acc_spec a = acc_spec push_account
     \<and> accs_signing_keys (acc_status a) = [] \<and> accs_key_pair (acc_status a) = Some push_key
     \<and> (case accs_operator_ref (acc_status a) of None \<Rightarrow> True | Some r \<Rightarrow> ior_name r = ''op''))"

lemma wp_mark:
  fixes s :: "(unit, account) st"
  assumes "\<And>a x. P a \<Longrightarrow> R (set_account_status (fst (f (acc_status a, x))) a)" and "P (cur s)"
    and "\<And>t. R (cur t) \<Longrightarrow> trace t = trace s \<Longrightarrow> Q (Returns ()) t"
  shows "wp (account_do f) Q s"
  using assms(1) [OF assms(2), of "()"] assms(3) by (auto simp: account_do_def split: prod.split)

lemma pushable_marks:
  "pushable a \<Longrightarrow> pushable (set_account_status (fst (account_mark_operator_resolved now
     \<lparr>ior_namespace = n, ior_name = ''op''\<rparr> (acc_status a, k))) a)"
  "pushable a \<Longrightarrow> pushable (set_account_status (fst (account_mark_issuer_resolved now (acc_status a, k))) a)"
  "pushable a \<Longrightarrow> pushable (set_account_status (fst (account_mark_signing_keys_updated now [] (acc_status a, k))) a)"
  "pushable a \<Longrightarrow> pushable (set_account_status (fst (account_mark_jwt_secret_ready now (acc_status a, k))) a)"
  "pushable a \<Longrightarrow> pushable (set_account_status (fst (account_mark_jwt_pushed now (acc_status a, k))) a)"
  "pushable (set_account_status (fst (account_mark_seed_secret_ready now push_key (acc_status push_account, k))) push_account)"
  by (auto simp: pushable_def set_account_status_def manage_def account_set_conditions_def push_account_def set_account_meta_def
      sample_account_def account_mark_operator_resolved_def account_mark_issuer_resolved_def
      account_mark_signing_keys_updated_def account_mark_jwt_secret_ready_def account_mark_jwt_pushed_def
      account_mark_seed_secret_ready_def split: prod.split option.splits)

lemma seed_step:
  assumes "\<And>t. cur t = cur s \<Longrightarrow> Q (Returns (Some push_key, ''A'', zero_result, None)) t"
  shows "wp (reconcile_seed_secret push_env (ObjAccount push_account) nk ''seed'' [immutable, with_deletion_prevention plain_machinery]) Q s"
  using seed_secret_again seed_secret_seed
  by (auto simp: reconcile_seed_secret_def get_secret_def ensure_seed_secret_up_to_date_def
      sample_nkeys_def new_key_pair_secret_builder_from_secret_def secret_bytes_def intro!: assms)

lemma push_operator_ready:
  "key_pairable_is_ready (set_status (fst (manage get_conditions set_conditions
     (initialize_conditions (time_now sample_kube) operator_condition_set)
     (get_status (KPOperator push_operator), ()))) (KPOperator push_operator))"
  by code_simp

definition ready_operator :: operator where
  "ready_operator = push_operator\<lparr>op_status := (op_status push_operator)\<lparr>ops_status :=
     fst (manage get_conditions set_conditions (initialize_conditions (time_now sample_kube) operator_condition_set)
       (ops_status (op_status push_operator), ()))\<rparr>\<rparr>"

lemma issuer_step:
  assumes "\<And>t. cur t = cur s \<Longrightarrow> Q (Returns (Inr (KPOperator ready_operator))) t"
  shows "wp (resolve_issuer push_env (acc_issuer (acc_spec push_account)) ns) Q s"
proof -
  have "tor_kind (issuer_ref (acc_issuer (acc_spec push_account))) = ''Operator''"
    by (simp add: push_account_def sample_account_def set_account_meta_def)
  then have "scheme_new plain_machinery (get_group_version_kind plain_machinery
        (issuer_ref (acc_issuer (acc_spec push_account)))) = Inr (NewObject KindOperator)"
    by (simp add: plain_machinery_def get_group_version_kind_def sample_scheme_def)
  moreover have "cl_get_operator (e_kube push_env) n m x = (Inr push_operator, x)" for n m x
    by (simp add: push_env_def)
  ultimately show ?thesis
    using push_operator_ready assms
    by (simp add: resolve_issuer_def Let_def get_object_def get_operator_def
        key_pairable_initialize_conditions_def case_prod_beta ready_operator_def operator_get_status_def)
qed

lemma validate_step:
  assumes "\<And>t. cur t = cur s \<Longrightarrow> Q (Returns None) t"
  shows "wp (validate_operator_selector push_env ready_operator push_account) Q s"
  using assms
  by (auto simp: validate_operator_selector_def get_namespace_def push_env_def sample_env_def match_namespace_selector_def
      ready_operator_def push_operator_def sample_operator_def push_account_def set_account_meta_def sample_account_def
      put_label_def empty_meta_def split: prod.split)

lemma labels_step:
  assumes "pushable (cur s)" and "\<And>t. t = s \<Longrightarrow> Q (Returns (zero_result, None)) t"
  shows "wp (account_reconcile_labels push_env) Q s"
  using assms by (auto simp: account_reconcile_labels_def pushable_def push_account_def set_account_meta_def
      label_value_def put_label_def split: option.splits)

lemma keys_step:
  assumes "pushable (cur s)" and "\<And>t. pushable (cur t) \<Longrightarrow> Q (Returns None) t"
  shows "wp (account_ensure_signing_keys_updated push_env) Q s"
proof -
  have none: "next_signing_keys by_name_order u [] [] = Returns []" for u
    by (simp add: next_signing_keys_def by_name_order_def)
  have sks: "cs_list_signing_keys (e_kube push_env) ns sel x = (Inr [], x)" for ns sel x
    by (simp add: push_env_def sample_kube_def)
  have "acc_signing_keys_selector (acc_spec (cur s)) = None" "accs_signing_keys (acc_status (cur s)) = []"
    using assms(1) by (simp_all add: pushable_def push_account_def set_account_meta_def sample_account_def)
  then show ?thesis
    by (simp add: account_ensure_signing_keys_updated_def list_signing_keys_def sks none of_outcome_def
        plain_machinery_def)
      (rule wp_mark [where P = pushable and R = pushable], auto simp: pushable_marks assms)
qed

lemma load_step:
  assumes "pushable (cur s)" and "\<And>t. pushable (cur t) \<Longrightarrow> Q (Returns (Some (key_of_seed ''O''), True, None)) t"
  shows "wp (account_load_issuer_seed push_env (KPOperator ready_operator)) Q s"
proof -
  have kp: "operator_get_key_pair ready_operator = Some \<lparr>public_key = ''pub-O'', seed_secret_name = ''oseed''\<rparr>"
    by (simp add: ready_operator_def push_operator_def sample_operator_def operator_get_key_pair_def)
  have sec: "cs_get_secret (e_kube push_env) ns ''oseed'' x =
      (Inr (empty_secret\<lparr>s_data := fmupd NatsSecretSeedKey ''O'' fmempty\<rparr>), x)" for ns x
    by (simp add: push_env_def)
  show ?thesis
    by (simp add: account_load_issuer_seed_def Let_def kp get_secret_def sec sample_nkeys_def)
      (rule wp_mark [where P = pushable and R = pushable], auto simp: pushable_marks assms)
qed

lemma jwt_step:
  assumes "pushable (cur s)" and "\<And>t. pushable (cur t) \<Longrightarrow> Q (Returns (''stored'', zero_result, None)) t"
  shows "wp (account_reconcile_jwt_secret push_env (key_of_seed ''O'')) Q s"
proof -
  have name: "acc_jwt_secret_name (acc_spec (cur s)) = ''jwt''" and kp: "accs_key_pair (acc_status (cur s)) = Some push_key"
    using assms(1) by (simp_all add: pushable_def push_account_def set_account_meta_def sample_account_def)
  have sec: "cs_get_secret (e_kube push_env) ns ''jwt'' x =
      (Inr (empty_secret\<lparr>s_data := fmupd NatsSecretJWTKey ''stored'' fmempty\<rparr>), x)" for ns x
    by (simp add: push_env_def)
  have "account_claims_of (e_jwt push_env) (cur s) push_key = push_claims"
    using assms(1)
    by (simp add: pushable_def push_claims_def account_claims_of_def Let_def convert_to_nats_imports_def
        push_env_def push_account_def set_account_meta_def sample_account_def)
  moreover have "encode_account (e_jwt push_env) c k x = (Inr (c, ''jwt-'' @ cd_subject (ac_data c)), x)" for c k x
    by (simp add: push_env_def sample_jwt_def)
  moreover have "jwt_decode (e_jwt push_env) t = Inr (AccountClaims push_claims)" for t
    by (simp add: push_env_def)
  moreover have "claims_equal c c" for c by (simp add: claims_equal_normal)
  ultimately show ?thesis
    using assms
    by (simp add: account_reconcile_jwt_secret_def create_account_claims_def kp get_secret_def name sec
        ensure_jwt_secret_up_to_date_def)
qed

definition pushed_call :: call where
  "pushed_call = NatsRequest 0 RequestSubjectClaimsUpdate ''stored'' (Inr ''ok'')"

lemma push_step:
  assumes "pushable (cur s)" and "\<And>t. pushed_call \<in> set (trace t) \<Longrightarrow> Q (Returns None) t"
  shows "wp (ensure_jwt_pushed push_env ready_operator (key_of_seed ''O'') ''stored'') Q s"
proof (rule wp_mono)
  have sys: "ops_resolved_system_account (op_status ready_operator) = Some \<lparr>kpr_ref = \<lparr>ior_namespace = ''ns'', ior_name = ''sys''\<rparr>,
      kpr_public_key = ''pub-A''\<rparr>" "op_tls_config (op_spec ready_operator) = None"
    by (simp_all add: ready_operator_def push_operator_def sample_operator_def)
  obtain acc where acc: "cs_get_account (e_kube push_env) n m x = (Inr acc, x)"
      "accs_key_pair (acc_status acc) = Some \<lparr>public_key = ''pub-A'', seed_secret_name = ''seed''\<rparr>" for n m x
    by (simp add: push_env_def)
  have enc: "encode_user (e_jwt push_env) c k x = (Inr (c, ''jwt-'' @ cd_subject (uc_data c)), x)" for c k x
    by (simp add: push_env_def sample_jwt_def)
  show "wp (ensure_jwt_pushed push_env ready_operator (key_of_seed ''O'') ''stored'')
      (\<lambda>r t. r = Returns None \<and> pushed_call \<in> set (trace t)) s"
    by (simp add: ensure_jwt_pushed_def Let_def system_account_load_def sys clientset_get_account_def acc get_secret_def
        seed_secret_seed get_nats_options_def connect_def make_temporary_user_def create_key_def enc
        defer_close_wp client_push_def client_do_def pushed_call_def account_do_def sample_nkeys_def sample_nats_def
        split: prod.split)
qed (use assms in auto)

lemma ready_operator_meta: "m_name (op_meta ready_operator) = ''op''"
  by (simp add: ready_operator_def push_operator_def sample_operator_def)

lemma pushing_admitted:
  assumes "pushable (cur s)"
  shows "wp (account_reconcile_admitted push_env (KPOperator ready_operator) ready_operator)
    (\<lambda>r t. r = Returns (zero_result, None) \<and> pushed_call \<in> set (trace t)) s"
proof -
  note mark = wp_mark [where P = pushable and R = pushable]
  show ?thesis
    unfolding account_reconcile_admitted_def Let_def wp_bind ready_operator_meta
    by (rule mark [OF pushable_marks(1) assms], assumption, unfold and_then_simps wp_bind,
        rule labels_step, assumption, simp,
        rule keys_step, assumption, simp,
        rule load_step, assumption, simp,
        rule jwt_step, assumption, simp,
        rule mark [OF pushable_marks(4)], assumption, assumption, simp,
        rule push_step, assumption, simp)
qed

lemma pushing_run:
  "wp (account_reconcile_live push_env) (\<lambda>r t. r = Returns (zero_result, None) \<and> pushed_call \<in> set (trace t)) (start push_account)"
proof -
  have sel: "acc_seed_secret_name (acc_spec push_account) = ''seed''" "cur (start push_account) = push_account"
    by (simp_all add: push_account_def set_account_meta_def sample_account_def start_def)
  show ?thesis
    unfolding account_reconcile_live_def Let_def wp_bind get_cur_def wp_gets sel push_env_sel
    by (simp add: sel,
        rule seed_step, simp add: sel,
        rule wp_mark [where P = "\<lambda>a. a = push_account" and R = pushable], simp add: pushable_marks(6), simp add: sel, simp,
        rule issuer_step, simp add: resolve_operator_def,
        rule validate_step, simp add: pushing_admitted)
qed

end
