(* ===== verification/Account_Signing.thy ===== *)
theory Account_Signing
  imports Pushing_Scenario
begin

text \<open>
  The properties of the reconciler of Accounts, on its runs from any state: what has to
  happen before it signs a JWT, and what it pushes to the server.
\<close>

section \<open>The operator's permission\<close>

text \<open>An operator admits the accounts of the namespaces and with the labels its selectors match.\<close>

definition operator_admits :: "machinery \<Rightarrow> operator \<Rightarrow> account \<Rightarrow> k8s_namespace \<Rightarrow> bool" where
  "operator_admits M opr acc ns =
     (match_namespace_selector M (op_meta opr) ns (accounts_namespace_selector (op_spec opr)) = Inr True
      \<and> (case accounts_selector (op_spec opr) of
           None \<Rightarrow> True
         | Some sel \<Rightarrow> (case label_selector_as_selector M sel of
             Inl _ \<Rightarrow> False
           | Inr s \<Rightarrow> sel_matches s (m_labels (acc_meta acc)))))"

lemma validate_operator_logs:
  "logs (validate_operator_selector E opr acc) (\<lambda>r l. r \<noteq> Panics
     \<and> (\<exists>a. l = [NamespaceGet (m_namespace (acc_meta acc)) a]
        \<and> (r = Returns None \<longleftrightarrow> (\<exists>ns. a = Inr ns \<and> operator_admits (e_mach E) opr acc ns))))"
  unfolding validate_operator_selector_def
  by (rule logsI) (auto simp: get_namespace_def operator_admits_def split: prod.split sum.split option.split)

text \<open>The operator of an issuer was read from the cluster, or is the issuer.\<close>

definition same_operator :: "operator \<Rightarrow> operator \<Rightarrow> bool" where
  "same_operator a b = (op_meta a = op_meta b \<and> op_spec a = op_spec b)"

definition operator_read :: "operator \<Rightarrow> call set \<Rightarrow> bool" where
  "operator_read opr X = (\<exists>k n m opr0. ObjectGet k n m (Inr (ObjOperator opr0)) \<in> X \<and> same_operator opr opr0)"

lemma operator_read_Un [simp]: "operator_read opr (X \<union> Y) \<longleftrightarrow> operator_read opr X \<or> operator_read opr Y"
  by (auto simp: operator_read_def)

lemma set_status_operator:
  "set_status s kp = KPOperator v \<longleftrightarrow>
     (\<exists>v0. kp = KPOperator v0 \<and> v = v0\<lparr>op_status := (op_status v0)\<lparr>ops_status := s\<rparr>\<rparr>)"
  by (cases kp) auto

lemma as_key_pairable_operator: "as_key_pairable obj = Some (KPOperator v) \<longleftrightarrow> obj = ObjOperator v"
  by (cases obj) auto

lemma resolve_issuer_operator:
  "logs (resolve_issuer E issuer ns) (\<lambda>r l. \<forall>v. r = Returns (Inr (KPOperator v)) \<longrightarrow> operator_read v (set l))"
  unfolding resolve_issuer_def key_pairable_initialize_conditions_def Let_def operator_read_def
  by (intro logs_rules) (auto simp: set_status_operator as_key_pairable_operator same_operator_def)

lemma resolve_owner_logs:
  "logs (resolve_signing_key_owner E sk) (\<lambda>r l. (\<forall>c \<in> set l. \<exists>k n m r. c = ObjectGet k n m r)
     \<and> (\<forall>ob. r = Returns (Inr ob) \<longrightarrow> (\<exists>k n m. ObjectGet k n m (Inr ob) \<in> set l)))"
  unfolding resolve_signing_key_owner_def Let_def by (intro logs_rules) auto

lemma resolve_operator_logs:
  "logs (resolve_operator E kp) (\<lambda>r l. (\<forall>c \<in> set l. \<exists>k n m r. c = ObjectGet k n m r)
     \<and> (\<forall>opr. r = Returns (Inr opr) \<longrightarrow> kp = KPOperator opr \<or> operator_read opr (set l)))"
  unfolding resolve_operator_def Let_def mark_condition_account_do
  by (intro logs_rules logs_seq [OF resolve_owner_logs]) (auto simp: operator_read_def same_operator_def)

section \<open>Signing and pushing\<close>

definition signs_or_pushes :: "call \<Rightarrow> bool" where
  "signs_or_pushes c = (case c of JwtEncode _ _ _ \<Rightarrow> True | NatsConnect _ _ \<Rightarrow> True | NatsRequest _ _ _ _ \<Rightarrow> True | _ \<Rightarrow> False)"

definition operator_admitted :: "machinery \<Rightarrow> account \<Rightarrow> call set \<Rightarrow> bool" where
  "operator_admitted M acc X = (\<exists>k n m opr ns. ObjectGet k n m (Inr (ObjOperator opr)) \<in> X
     \<and> NamespaceGet (m_namespace (acc_meta acc)) (Inr ns) \<in> X \<and> operator_admits M opr acc ns)"

lemma operator_admitted_mono: "operator_admitted M acc X \<Longrightarrow> X \<subseteq> Y \<Longrightarrow> operator_admitted M acc Y"
  unfolding operator_admitted_def by blast

lemma operator_admits_cong:
  "same_operator a b \<Longrightarrow> operator_admits M a acc ns = operator_admits M b acc ns"
  by (simp add: same_operator_def operator_admits_def)

lemma account_admitted_emits: "emits (account_reconcile_admitted E kp opr) (\<lambda>_. True)"
  unfolding account_reconcile_admitted_def Let_def account_reconcile_labels_def
    account_ensure_signing_keys_updated_def account_reconcile_jwt_secret_def
  by (intro emits_rules create_jwt_emits emits_ensure_jwt emits_account_load emits_account_nats TrueI)

text \<open>Marking conditions leaves the metadata and the spec of the account as they are.\<close>

definition same_account :: "account \<Rightarrow> account \<Rightarrow> bool" where
  "same_account c d = (acc_meta d = acc_meta c \<and> acc_spec d = acc_spec c)"

lemma same_account_refl [simp]: "same_account c c" "same_account c (set_account_status s c)"
  by (simp_all add: same_account_def)

lemma same_operator_refl [simp]: "same_operator a a"
  by (simp add: same_operator_def)

lemma preserves_same_account [preserves_rules, simp]: "preserves (same_account c) (account_do f)"
  unfolding account_do_def by (rule preserves_on_status) (simp add: same_account_def set_account_status_def)

lemma preserves_same_account_parts:
  "preserves (same_account c) (resolve_operator E kp)"
  "preserves (same_account c) (account_ensure_signing_keys_updated E)"
  "preserves (same_account c) (account_load_issuer_seed E kp)"
  unfolding resolve_operator_def account_ensure_signing_keys_updated_def account_load_issuer_seed_def Let_def
    mark_condition_account_do
  by (intro preserves_rules)+

lemma preserves_validate [preserves_rules, simp]: "preserves I (validate_operator_selector E opr acc)"
  unfolding validate_operator_selector_def by (intro preserves_rules)

lemma account_signs_admitted:
  "does (account_reconcile_live E) c (\<lambda>r l d. guarded signs_or_pushes (operator_admitted (e_mach E) c) l)"
proof -
  let ?G = "guarded signs_or_pushes (operator_admitted (e_mach E) c)"
  have seed: "emits (reconcile_seed_secret E ob nk name opts) (\<lambda>c. \<not> signs_or_pushes c)" for ob name opts
    and nk :: "'a \<Rightarrow> (error + keypair) \<times> 'a"
    by (rule reconcile_seed_emits) (simp_all add: signs_or_pushes_def)
  have get: "\<not> signs_or_pushes (ObjectGet k n m r)" "\<not> signs_or_pushes (NamespaceGet n ns)" for k n m r ns
    by (simp_all add: signs_or_pushes_def)
  have rest: "does (account_reconcile_admitted E kp opr) d (\<lambda>r l d. ?G (p @ l))"
    if "\<forall>e \<in> set p. \<not> signs_or_pushes e" "operator_admitted (e_mach E) c (set p)" for kp opr p d
    by (rule does_emits [OF account_admitted_emits], rule guarded_after [OF guarded_none])
      (use that in \<open>auto intro: operator_admitted_mono\<close>)
  have validate: "does (bind (validate_operator_selector E opr c) (\<lambda>err. case err of
        Some e \<Rightarrow> bind (account_do (f e)) (\<lambda>_. ret (as_result (Some e)))
      | None \<Rightarrow> account_reconcile_admitted E kp opr)) d (\<lambda>r l d. ?G (p @ l))"
    if "\<forall>e \<in> set p. \<not> signs_or_pushes e"
      "operator_read opr (set p)"
    for f kp opr p d
  proof (rule does_bind_steady [OF validate_operator_logs])
    show "does (case a of Some e \<Rightarrow> bind (account_do (f e)) (\<lambda>_. ret (as_result (Some e)))
        | None \<Rightarrow> account_reconcile_admitted E kp opr) d (\<lambda>r l'. (\<lambda>l d. ?G (p @ l)) (l @ l'))"
      if "Returns a \<noteq> Panics \<and> (\<exists>b. l = [NamespaceGet (m_namespace (acc_meta c)) b]
        \<and> (Returns a = Returns None \<longleftrightarrow> (\<exists>ns. b = Inr ns \<and> operator_admits (e_mach E) opr c ns)))" for a l
    proof (cases a)
      case None
      with that obtain ns where l: "l = [NamespaceGet (m_namespace (acc_meta c)) (Inr ns)]"
        "operator_admits (e_mach E) opr c ns" by auto
      from \<open>operator_read opr _\<close> obtain k n m opr0 where o: "ObjectGet k n m (Inr (ObjOperator opr0)) \<in> set p"
        "same_operator opr opr0" unfolding operator_read_def by blast
      have "operator_admits (e_mach E) opr0 c ns" using l(2) operator_admits_cong [OF o(2)] by simp
      with o(1) l(1) have "operator_admitted (e_mach E) c (set (p @ l))"
        unfolding operator_admitted_def by (metis UnCI list.set_intros(1) set_append)
      with rest [of "p @ l"] None l(1) get \<open>\<forall>e \<in> set p. _\<close> show ?thesis by simp
    next
      case (Some e)
      with that get \<open>\<forall>e \<in> set p. _\<close> show ?thesis
        by (auto intro!: does_rules guarded_none)
    qed
  qed auto
  have validate3: "does (bind (validate_operator_selector E opr c) (\<lambda>err. case err of
        None \<Rightarrow> account_reconcile_admitted E kp opr
      | Some e \<Rightarrow> bind (account_do (f e)) (\<lambda>_. ret (as_result (Some e))))) d (\<lambda>r l d. ?G (l1 @ l2 @ l3 @ l))"
    if "\<forall>e \<in> set (l1 @ l2 @ l3). \<not> signs_or_pushes e"
      "operator_read opr (set (l1 @ l2 @ l3))"
    for f kp opr l1 l2 l3 d
    using validate [OF that] by simp
  note none = guarded_none [of _ signs_or_pushes]
  have gets: "\<not> signs_or_pushes e" if "\<forall>e \<in> set l. \<exists>k n m r. e = ObjectGet k n m r" "e \<in> set l" for e l
    using that by (auto simp: get)
  show ?thesis
    unfolding account_reconcile_live_def Let_def mark_condition_account_do
    by (intro does_rules does_bind_emits [OF seed] does_bind_steady [OF logs_conj [OF resolve_issuer_operator
        emits_logs [OF resolve_issuer_emits]]] validate3
        does_bind_keeps [OF resolve_operator_logs preserves_same_account_parts(1) [of c]])
      (auto intro!: none dest: gets simp: same_account_def)
qed

section \<open>What is pushed\<close>

text \<open>The token was read from the JWT secret of the account.\<close>

definition stored_jwt :: "account \<Rightarrow> string \<Rightarrow> call set \<Rightarrow> bool" where
  "stored_jwt c jwt X = (\<exists>got. SecretGet (m_namespace (acc_meta c)) (acc_jwt_secret_name (acc_spec c)) (Inr got) \<in> X
     \<and> fmlookup (s_data got) NatsSecretJWTKey = Some jwt)"

definition pushes :: "string \<Rightarrow> call \<Rightarrow> bool" where
  "pushes jwt e = (\<exists>conn r. e = NatsRequest conn RequestSubjectClaimsUpdate jwt r)"

definition requests :: "call \<Rightarrow> bool" where
  "requests e = (case e of NatsRequest _ _ _ _ \<Rightarrow> True | _ \<Rightarrow> False)"

lemma requests_simps [simp]:
  "\<not> requests (SecretGet n m a)" "\<not> requests (SecretCreate sec b)" "\<not> requests (SecretUpdate sec b)"
  "\<not> requests (SecretDelete sec b)" "\<not> requests (EventSent ob t u v)" "\<not> requests (JwtEncode x y z)"
  "\<not> requests (ObjectGet k n m q)" "\<not> requests (KeyCreate w)" "\<not> requests (NatsConnect u f)" "\<not> requests (NatsClose i)"
  "requests (NatsRequest i s1 s2 p)"
  by (simp_all add: requests_def)

lemma stored_jwt_mono: "stored_jwt c jwt X \<Longrightarrow> X \<subseteq> Y \<Longrightarrow> stored_jwt c jwt Y"
  unfolding stored_jwt_def by blast

lemma account_jwt_does:
  "does (account_reconcile_jwt_secret E kp) c (\<lambda>r l d. (\<forall>e \<in> set l. \<not> requests e)
     \<and> (\<forall>jwt. r = Returns (jwt, zero_result, None) \<longrightarrow> stored_jwt c jwt (set l)) \<and> d = c)"
proof -
  have ensure: "logs (ensure_jwt_secret_up_to_date E ob want got next_jwt) (\<lambda>r l. (\<forall>e \<in> set l. \<not> requests e)
      \<and> (\<forall>jwt. r = Returns (jwt, zero_result, None) \<longrightarrow> fmlookup (s_data got) NatsSecretJWTKey = Some jwt))"
    for ob want got next_jwt
    by (rule logs_mono [OF logs_conj [OF ensure_jwt_settled
        emits_logs [OF emits_ensure_jwt [where P = "\<lambda>e. \<not> requests e"]]]]) (auto simp: jwt_settled_def)
  have create: "logs (create_jwt_secret E ob jwt) (\<lambda>r l. (\<forall>e \<in> set l. \<not> requests e))" for ob jwt
    by (rule emits_logs [OF create_jwt_emits]) simp_all
  have claims: "logs (create_account_claims E c kp) (\<lambda>r l. \<forall>e \<in> set l. \<not> requests e)"
    by (rule emits_logs [OF emits_create_claims(2)]) simp
  let ?Q = "\<lambda>(r :: (string \<times> ctrl_result \<times> error option) outcome) l. (\<forall>e \<in> set l. \<not> requests e)
      \<and> (\<forall>jwt. r = Returns (jwt, zero_result, None) \<longrightarrow> stored_jwt c jwt (set l))"
  show ?thesis
    unfolding account_reconcile_jwt_secret_def
  proof (rule does_bind_get_cur, rule does_mono [OF does_logs [where Q = ?Q]], rule logs_seq [OF claims])
    fix a :: "error + account_claims \<times> string" and l :: "call list"
    assume l: "\<forall>e \<in> set l. \<not> requests e"
    show "logs (case a of
        Inl e \<Rightarrow> ret ([], zero_result, Some (fails terminal_error ReasonUnknownError
                  ''failed to create account JWT claims: %w'' [AErr e]))
      | Inr (want_claims, next_jwt) \<Rightarrow>
          bind (get_secret E (m_namespace (acc_meta c)) (acc_jwt_secret_name (acc_spec c))) (\<lambda>r.
          case r of
            Inl e \<Rightarrow>
              (if is_not_found e
               then bind (create_jwt_secret E (ObjAccount c) next_jwt) (\<lambda>err. ret (next_jwt, requeue_result, err))
               else ret ([], zero_result, Some (unknown temporary_error ReasonUnknownError
                      ''failed to get JWT secret: %w'' [AErr e])))
          | Inr got \<Rightarrow> ensure_jwt_secret_up_to_date E (ObjAccount c) (AccountClaims want_claims) got next_jwt))
      (\<lambda>r l'. ?Q r (l @ l'))"
      by (intro logs_rules logs_seq [OF create] logs_mono [OF ensure]) (use l in \<open>auto simp: stored_jwt_def\<close>)
  qed (auto intro!: preserves_rules)
qed

lemma emits_connect_requests: "emits (connect E url kp seed opts) (\<lambda>e. \<not> requests e)"
  unfolding connect_def make_temporary_user_def Let_def by (intro emits_rules) simp_all

lemma emits_load_requests:
  "emits (system_account_load E opr) (\<lambda>e. \<not> requests e)" "emits (get_nats_options E opr) (\<lambda>e. \<not> requests e)"
  unfolding system_account_load_def get_nats_options_def load_ca_file_def Let_def by (intro emits_rules; simp)+

lemma ensure_pushed_logs:
  "logs (ensure_jwt_pushed E opr kp jwt) (\<lambda>r l. (\<forall>e \<in> set l. requests e \<longrightarrow> pushes jwt e)
     \<and> (r = Returns None \<longrightarrow> (\<exists>e \<in> set l. accepted E RequestSubjectClaimsUpdate jwt e)))"
  unfolding ensure_jwt_pushed_def Let_def
  by (intro logs_rules logs_seq [OF emits_logs [OF emits_load_requests(1)]] logs_seq [OF emits_logs [OF emits_load_requests(2)]]
      logs_seq [OF emits_logs [OF emits_connect_requests]] logs_defer_close [where Q = "\<lambda>r l. (\<forall>e \<in> set l. pushes jwt e)
        \<and> (r = Returns None \<longrightarrow> (\<exists>e \<in> set l. accepted E RequestSubjectClaimsUpdate jwt e))"]
      logs_seq [OF client_push_logs])
    (auto simp: pushes_def)

lemma account_labels_does:
  "does (account_reconcile_labels E) c (\<lambda>r l d. (\<forall>e \<in> set l. \<exists>a err. e = ObjectUpdate (ObjAccount a) err)
     \<and> (\<exists>res err. r = Returns (res, err) \<and> (res = zero_result \<and> err = None \<longrightarrow> d = c)))"
  unfolding account_reconcile_labels_def update_account_def
  by (intro does_rules) (auto simp: same_account_def)

text \<open>
  What is pushed is the stored token, and a reconciliation that reports nothing has pushed it with
  success or has made no request.
\<close>

definition pushed_ok :: "'x env \<Rightarrow> account \<Rightarrow> (ctrl_result \<times> error option) outcome \<Rightarrow> call list \<Rightarrow> bool" where
  "pushed_ok E c r l = ((\<forall>jwt. guarded (pushes jwt) (stored_jwt c jwt) l)
     \<and> (\<forall>e \<in> set l. requests e \<longrightarrow> (\<exists>jwt. pushes jwt e))
     \<and> (r = Returns (zero_result, None) \<longrightarrow>
          (\<exists>jwt. stored_jwt c jwt (set l) \<and> (\<exists>e \<in> set l. accepted E RequestSubjectClaimsUpdate jwt e))
          \<or> (\<forall>e \<in> set l. \<not> requests e)))"

lemma pushes_requests: "pushes jwt e \<Longrightarrow> requests e"
  by (auto simp: pushes_def)

lemma pushed_quiet: "\<forall>e \<in> set l. \<not> requests e \<Longrightarrow> pushed_ok E c r l"
  by (auto simp: pushed_ok_def intro!: guarded_none dest: pushes_requests)

lemma pushed_stored:
  assumes "\<forall>e \<in> set l1. \<not> requests e" and "stored_jwt c jwt (set l1)"
    and "\<forall>e \<in> set l2. requests e \<longrightarrow> pushes jwt e"
    and "r = Returns (zero_result, None) \<Longrightarrow> \<exists>e \<in> set l2. accepted E RequestSubjectClaimsUpdate jwt e"
  shows "pushed_ok E c r (l1 @ l2)"
proof -
  have "guarded (pushes j) (stored_jwt c j) (l1 @ l2)" for j
  proof (rule guarded_after [OF guarded_none])
    show "stored_jwt c j (set l1) \<or> (\<forall>e \<in> set l2. \<not> pushes j e)"
      using assms(2,3) by (auto simp: pushes_def dest: pushes_requests)
  qed (use assms(1) pushes_requests in \<open>auto intro: stored_jwt_mono\<close>)
  moreover have "stored_jwt c jwt (set (l1 @ l2))" using assms(2) by (rule stored_jwt_mono) simp
  ultimately show ?thesis using assms(1,3,4) by (auto simp: pushed_ok_def)
qed

lemma stored_jwt_same: "same_account c d \<Longrightarrow> stored_jwt d = stored_jwt c"
  by (simp add: same_account_def stored_jwt_def fun_eq_iff)

lemma account_pushes_stored:
  "does (account_reconcile_admitted E kp opr) c (\<lambda>r l d. pushed_ok E c r l)"
proof -
  have keys: "emits (account_ensure_signing_keys_updated E) (\<lambda>e. \<not> requests e)"
    unfolding account_ensure_signing_keys_updated_def by (intro emits_rules) (simp_all add: requests_def)
  have load: "emits (account_load_issuer_seed E kp) (\<lambda>e. \<not> requests e)"
    by (rule emits_account_load) simp
  have jwt: "does (account_reconcile_jwt_secret E keyp) d (\<lambda>r l d'. (\<forall>e \<in> set l. \<not> requests e)
      \<and> (\<forall>jwt. r = Returns (jwt, zero_result, None) \<longrightarrow> stored_jwt c jwt (set l)))" if "same_account c d" for keyp d
    by (rule does_mono [OF account_jwt_does]) (use stored_jwt_same [OF that] in auto)
  have push: "does (bind (ensure_jwt_pushed E opr keyp jwt) (\<lambda>err. ret (zero_result, err))) d
      (\<lambda>r l d. pushed_ok E c r (l1 @ l2 @ l3 @ l4 @ l))"
    if "\<forall>e \<in> set (l1 @ l2 @ l3 @ l4). \<not> requests e" "stored_jwt c jwt (set l4)" for keyp jwt d l1 l2 l3 l4
  proof (rule does_trace [where Q = "\<lambda>r l. (\<forall>e \<in> set l. requests e \<longrightarrow> pushes jwt e) \<and>
      (r = Returns (zero_result, None) \<longrightarrow> (\<exists>e \<in> set l. accepted E RequestSubjectClaimsUpdate jwt e))"])
    have "stored_jwt c jwt (set (l1 @ l2 @ l3 @ l4))" using that(2) by (rule stored_jwt_mono) auto
    then show "pushed_ok E c r (l1 @ l2 @ l3 @ l4 @ l)"
      if "(\<forall>e \<in> set l. requests e \<longrightarrow> pushes jwt e) \<and>
        (r = Returns (zero_result, None) \<longrightarrow> (\<exists>e \<in> set l. accepted E RequestSubjectClaimsUpdate jwt e))" for r l
      using pushed_stored [of "l1 @ l2 @ l3 @ l4" c jwt l r E] that \<open>\<forall>e \<in> set (l1 @ _). _\<close> by auto
  qed (auto intro!: logs_seq [OF ensure_pushed_logs] logs_ret)
  have labels: "does (account_reconcile_labels E) d (\<lambda>r l d'. r \<noteq> Panics \<and> (\<forall>e \<in> set l. \<not> requests e)
      \<and> (r = Returns (zero_result, None) \<longrightarrow> same_account c d'))" if "same_account c d" for d
    by (rule does_mono [OF account_labels_does]) (use that in \<open>auto simp: requests_def\<close>)
  show ?thesis
    unfolding account_reconcile_admitted_def Let_def mark_condition_account_do
    by (intro does_rules does_seq [OF labels]
        does_bind_keeps [OF emits_logs [OF keys] preserves_same_account_parts(2) [of c]]
        does_bind_keeps [OF emits_logs [OF load] preserves_same_account_parts(3) [of c]]
        does_seq [OF jwt] push)
      (simp_all add: pushed_quiet ball_Un)
qed

lemma pushed_prefix: "pushed_ok E c r l \<Longrightarrow> \<forall>e \<in> set p. \<not> requests e \<Longrightarrow> pushed_ok E c r (p @ l)"
  by (auto simp: pushed_ok_def intro!: guarded_prefix dest: pushes_requests intro: stored_jwt_mono)

lemma pushed_same: "same_account c d \<Longrightarrow> pushed_ok E d = pushed_ok E c"
  by (simp add: pushed_ok_def stored_jwt_same fun_eq_iff)

lemma account_live_pushes: "does (account_reconcile_live E) c (\<lambda>r l d. pushed_ok E c r l)"
proof -
  have seed: "emits (reconcile_seed_secret E ob nk name opts) (\<lambda>c. \<not> requests c)" for ob name opts
    and nk :: "'a \<Rightarrow> (error + keypair) \<times> 'a"
    by (rule reconcile_seed_emits) simp_all
  have issuer: "emits (resolve_issuer E issuer ns) (\<lambda>c. \<not> requests c)" for issuer ns
    by (rule emits_mono [OF resolve_issuer_emits]) auto
  have operator: "emits (resolve_operator E kp) (\<lambda>c. \<not> requests c)" for kp
    by (rule emits_resolve_operator) simp
  have validate: "emits (validate_operator_selector E opr c) (\<lambda>c. \<not> requests c)" for opr
    unfolding validate_operator_selector_def by (intro emits_rules) (simp_all add: requests_def)
  have rest: "does (account_reconcile_admitted E kp opr) d (\<lambda>r l d. pushed_ok E c r (l1 @ l2 @ l3 @ l4 @ l))"
    if "\<forall>e \<in> set (l1 @ l2 @ l3 @ l4). \<not> requests e" "same_account c d" for kp opr d l1 l2 l3 l4
    by (rule does_mono [OF account_pushes_stored])
      (use that(1) pushed_prefix [of E c _ _ "l1 @ l2 @ l3 @ l4"] in \<open>simp add: pushed_same [OF that(2)]\<close>)
  show ?thesis
    unfolding account_reconcile_live_def Let_def mark_condition_account_do
    by (intro does_rules does_bind_emits [OF seed] does_bind_emits [OF issuer]
        does_bind_keeps [OF emits_logs [OF operator] preserves_same_account_parts(1) [of c]]
        does_bind_emits [OF validate] rest)
      (simp_all add: pushed_quiet ball_Un)
qed

section \<open>Properties\<close>

text \<open>C2: an account's JWT is signed, and the server is contacted, only after an operator was read that
  admits the account: its namespace selector matches the namespace that was read for the account (or,
  without a selector, the account is in the operator's namespace) and its account selector the labels.\<close>

theorem account_signed_if_admitted:
  assumes "account_reconcile_live E s = (r, s')"
  shows "\<exists>l. trace s' = trace s @ l \<and> guarded signs_or_pushes (operator_admitted (e_mach E) (cur s)) l"
  using doesD [OF account_signs_admitted assms refl] by blast

lemma pushing_outcome:
  obtains s' where "account_reconcile_live push_env (start push_account) = (Returns (zero_result, None), s')"
    "pushed_call \<in> set (trace s')"
  using pushing_run by (cases "account_reconcile_live push_env (start push_account)") (auto simp: wp_run)

theorem account_signed_if_admitted_witness:
  "\<exists>l. trace (snd (account_reconcile_live push_env (start push_account))) = l
     \<and> guarded signs_or_pushes (operator_admitted plain_machinery push_account) l
     \<and> pushed_call \<in> set l \<and> signs_or_pushes pushed_call"
proof -
  obtain s' where run: "account_reconcile_live push_env (start push_account) = (Returns (zero_result, None), s')"
    "pushed_call \<in> set (trace s')" by (rule pushing_outcome)
  from account_signed_if_admitted [OF run(1)] run show ?thesis
    by (simp add: start_def signs_or_pushes_def pushed_call_def)
qed

text \<open>C1: the server only ever gets the token that is stored in the account's JWT secret: a push comes
  after the secret was read with this token in it. A reconciliation that ends without an error and
  without asking for another one has pushed it and the server has accepted it, or it has made no
  request to the server at all; so a failed push is never taken for a finished one.\<close>

theorem account_push_is_stored:
  assumes "account_reconcile_live E s = (r, s')"
  shows "\<exists>l. trace s' = trace s @ l \<and> pushed_ok E (cur s) r l"
  using doesD [OF account_live_pushes assms refl] by blast

theorem account_push_is_stored_witness:
  "\<exists>jwt l. trace (snd (account_reconcile_live push_env (start push_account))) = l
     \<and> pushed_ok push_env push_account (Returns (zero_result, None)) l \<and> pushed_call \<in> set l
     \<and> stored_jwt push_account jwt (set l) \<and> (\<exists>e \<in> set l. accepted push_env RequestSubjectClaimsUpdate jwt e)"
proof -
  obtain s' where run: "account_reconcile_live push_env (start push_account) = (Returns (zero_result, None), s')"
    "pushed_call \<in> set (trace s')" by (rule pushing_outcome)
  from account_push_is_stored [OF run(1)] have ok: "pushed_ok push_env push_account (Returns (zero_result, None)) (trace s')"
    by (simp add: start_def)
  moreover have "requests pushed_call" by (simp add: pushed_call_def requests_def)
  ultimately have "\<exists>jwt. stored_jwt push_account jwt (set (trace s'))
      \<and> (\<exists>e \<in> set (trace s'). accepted push_env RequestSubjectClaimsUpdate jwt e)"
    using run(2) by (auto simp: pushed_ok_def)
  with ok run show ?thesis by auto
qed

end
