(* ===== verification/User_Properties.thy ===== *)
theory User_Properties
  imports User_Reconciler Account_Signing
begin

text \<open>
  The properties of the reconciler of Users, on its runs from any state: when it signs a JWT, what
  its credentials are made of, the status it writes, and when the CA file makes it panic.
\<close>

section \<open>The account's permission\<close>

text \<open>An account admits the users of the namespaces and with the labels its selectors match.\<close>

definition account_admits :: "machinery \<Rightarrow> account \<Rightarrow> user \<Rightarrow> k8s_namespace \<Rightarrow> bool" where
  "account_admits M acc usr ns =
     (match_namespace_selector M (acc_meta acc) ns (users_namespace_selector (acc_spec acc)) = Inr True
      \<and> (case users_selector (acc_spec acc) of
           None \<Rightarrow> True
         | Some sel \<Rightarrow> (case label_selector_as_selector M sel of
             Inl _ \<Rightarrow> False
           | Inr s \<Rightarrow> sel_matches s (m_labels (usr_meta usr)))))"

lemma validate_account_logs:
  "logs (validate_account_selector E acc usr) (\<lambda>r l. r \<noteq> Panics
     \<and> (\<exists>a. l = [NamespaceGet (m_namespace (usr_meta usr)) a]
        \<and> (r = Returns None \<longleftrightarrow> (\<exists>ns. a = Inr ns \<and> account_admits (e_mach E) acc usr ns))))"
  unfolding validate_account_selector_def
  by (rule logsI) (auto simp: get_namespace_def account_admits_def split: prod.split sum.split option.split)

text \<open>The account of an issuer was read from the cluster.\<close>

definition account_read :: "account \<Rightarrow> call set \<Rightarrow> bool" where
  "account_read acc X = (\<exists>k n m acc0. ObjectGet k n m (Inr (ObjAccount acc0)) \<in> X \<and> same_account acc0 acc)"

lemma account_read_Un [simp]: "account_read acc (X \<union> Y) \<longleftrightarrow> account_read acc X \<or> account_read acc Y"
  by (auto simp: account_read_def)

lemma set_status_account:
  "set_status s kp = KPAccount v \<longleftrightarrow>
     (\<exists>v0. kp = KPAccount v0 \<and> v = v0\<lparr>acc_status := (acc_status v0)\<lparr>accs_status := s\<rparr>\<rparr>)"
  by (cases kp) auto

lemma as_key_pairable_account: "as_key_pairable obj = Some (KPAccount v) \<longleftrightarrow> obj = ObjAccount v"
  by (cases obj) auto

lemma resolve_issuer_account:
  "logs (resolve_issuer E issuer ns) (\<lambda>r l. \<forall>v. r = Returns (Inr (KPAccount v)) \<longrightarrow> account_read v (set l))"
  unfolding resolve_issuer_def key_pairable_initialize_conditions_def Let_def account_read_def
  by (intro logs_rules) (auto simp: set_status_account as_key_pairable_account same_account_def)

lemma resolve_account_logs:
  "logs (resolve_account E kp) (\<lambda>r l. (\<forall>c \<in> set l. \<exists>k n m r. c = ObjectGet k n m r)
     \<and> (\<forall>acc. r = Returns (Inr acc) \<longrightarrow> kp = KPAccount acc \<or> account_read acc (set l)))"
  unfolding resolve_account_def Let_def mark_condition_user_do
  by (intro logs_rules logs_seq [OF resolve_owner_logs]) (auto simp: account_read_def same_account_def)

text \<open>Marking conditions leaves the metadata and the spec of the user as they are.\<close>

definition same_user :: "user \<Rightarrow> user \<Rightarrow> bool" where
  "same_user c d = (usr_meta d = usr_meta c \<and> usr_spec d = usr_spec c)"

lemma same_user_refl [simp]: "same_user c c" "same_user c (set_user_status s c)"
  by (simp_all add: same_user_def)

lemma same_user_trans: "same_user c d \<Longrightarrow> same_user d e \<Longrightarrow> same_user c e"
  by (simp add: same_user_def)

lemma preserves_same_user [preserves_rules, simp]: "preserves (same_user c) (user_do f)"
  unfolding user_do_def by (rule preserves_on_status) (simp add: same_user_def set_user_status_def)

lemma preserves_same_user_parts:
  "preserves (same_user c) (resolve_account E kp)"
  "preserves (same_user c) (get_ca_if_exists E acc)"
  unfolding resolve_account_def get_ca_if_exists_def Let_def mark_condition_user_do
  by (intro preserves_rules)+

lemma preserves_validate_account [preserves_rules, simp]: "preserves I (validate_account_selector E acc usr)"
  unfolding validate_account_selector_def by (intro preserves_rules)

section \<open>Signing\<close>

definition signs :: "call \<Rightarrow> bool" where
  "signs c = (case c of JwtEncode _ _ _ \<Rightarrow> True | _ \<Rightarrow> False)"

lemma signs_simps [simp]:
  "\<not> signs (SecretGet n m a)" "\<not> signs (SecretCreate sec b)" "\<not> signs (SecretUpdate sec b)"
  "\<not> signs (EventSent ob t u v)" "\<not> signs (ObjectGet k n m q)" "\<not> signs (KeyCreate w)" "\<not> signs (NamespaceGet n ns)"
  by (simp_all add: signs_def)

definition account_admitted :: "machinery \<Rightarrow> user \<Rightarrow> call set \<Rightarrow> bool" where
  "account_admitted M usr X = (\<exists>k n m acc ns. ObjectGet k n m (Inr (ObjAccount acc)) \<in> X
     \<and> NamespaceGet (m_namespace (usr_meta usr)) (Inr ns) \<in> X \<and> account_admits M acc usr ns)"

lemma account_admitted_mono: "account_admitted M usr X \<Longrightarrow> X \<subseteq> Y \<Longrightarrow> account_admitted M usr Y"
  unfolding account_admitted_def by blast

lemma account_admits_cong: "same_account a b \<Longrightarrow> account_admits M b usr ns = account_admits M a usr ns"
  by (simp add: same_account_def account_admits_def)

lemma user_admitted_emits: "emits (user_reconcile_admitted E acc kp seed) (\<lambda>_. True)"
  unfolding user_reconcile_admitted_def user_finish_jwt_def user_finish_credentials_def Let_def user_reconcile_labels_def user_reconcile_jwt_secret_def
    reconcile_user_credential_secret_def get_ca_if_exists_def create_credentials_secret_def
    ensure_credentials_secret_up_to_date_def
  by (intro emits_rules create_jwt_emits emits_ensure_jwt emits_mono [OF load_issuer_seed_emits] TrueI)

text \<open>
  The steps in front of the admitted part, for any requirement on the calls: it is enough that the
  admitted part meets it after calls without a \<open>B\<close>, among them the read of the account, of the
  namespace and of the seed.
\<close>

definition seed_read :: "user \<Rightarrow> string \<Rightarrow> call set \<Rightarrow> bool" where
  "seed_read usr seed X = (\<exists>got. SecretGet (m_namespace (usr_meta usr)) (usr_seed_secret_name (usr_spec usr)) (Inr got) \<in> X
     \<and> fmlookup (s_data got) NatsSecretSeedKey = Some seed)"

lemma user_body_front:
  fixes E :: "'x env"
  assumes seed: "emits (reconcile_seed_secret E (ObjUser c) (create_user_key (e_nkeys E))
      (usr_seed_secret_name (usr_spec c)) [] :: (('x, user) st, _) go) (\<lambda>e. \<not> B e)"
    and get: "\<And>k n m r. \<not> B (ObjectGet k n m r)" "\<And>n r. \<not> B (NamespaceGet n r)"
    and admitted: "\<And>acc kp seed d p. \<forall>e \<in> set p. \<not> B e \<Longrightarrow> account_admitted (e_mach E) c (set p) \<Longrightarrow> seed_read c seed (set p)
      \<Longrightarrow> same_user c d \<Longrightarrow> does (user_reconcile_admitted E acc kp seed) d (\<lambda>r l d'. guarded B W (p @ l))"
  shows "does (user_reconcile_body E) c (\<lambda>r l d. guarded B W l)"
proof -
  note none = guarded_none [of _ B]
  have gets: "\<not> B e" if "\<forall>e \<in> set l. \<exists>k n m r. e = ObjectGet k n m r" "e \<in> set l" for e l
    using that by (auto simp: get)
  have validate: "does (bind (validate_account_selector E acc c) (\<lambda>err. case err of
        Some e \<Rightarrow> bind (user_do (f e)) (\<lambda>_. ret (as_result (Some e)))
      | None \<Rightarrow> user_reconcile_admitted E acc kp sd)) d (\<lambda>r l d. guarded B W (p @ l))"
    if p: "\<forall>e \<in> set p. \<not> B e" "account_read acc (set p)" "seed_read c sd (set p)" "same_user c d"
    for f acc kp sd p d
  proof (rule does_bind_keeps [where I = "same_user c", OF validate_account_logs])
    show "does (case a of Some e \<Rightarrow> bind (user_do (f e)) (\<lambda>_. ret (as_result (Some e)))
        | None \<Rightarrow> user_reconcile_admitted E acc kp sd) d (\<lambda>r l'. (\<lambda>l d. guarded B W (p @ l)) (l @ l'))"
      if v: "Returns a \<noteq> Panics \<and> (\<exists>b. l = [NamespaceGet (m_namespace (usr_meta c)) b]
        \<and> (Returns a = Returns None \<longleftrightarrow> (\<exists>ns. b = Inr ns \<and> account_admits (e_mach E) acc c ns)))" and d: "same_user c d" for a l d
    proof (cases a)
      case None
      with v obtain ns where l: "l = [NamespaceGet (m_namespace (usr_meta c)) (Inr ns)]"
        "account_admits (e_mach E) acc c ns" by auto
      from p(2) obtain k n m acc0 where o: "ObjectGet k n m (Inr (ObjAccount acc0)) \<in> set p"
        "same_account acc0 acc" unfolding account_read_def by blast
      have "account_admits (e_mach E) acc0 c ns" using l(2) account_admits_cong [OF o(2)] by simp
      with o(1) l(1) have "account_admitted (e_mach E) c (set (p @ l))"
        unfolding account_admitted_def by (metis UnCI list.set_intros(1) set_append)
      moreover have "seed_read c sd (set (p @ l))" using p(3) by (auto simp: seed_read_def)
      moreover have "\<forall>e \<in> set (p @ l). \<not> B e" using p(1) l(1) get by auto
      ultimately show ?thesis using admitted [of "p @ l" sd d acc kp] d None by simp
    next
      case (Some e)
      with v p(1) get show ?thesis by (auto intro!: does_rules none)
    qed
  qed (use p get in \<open>auto intro!: none\<close>)
  have validate3: "does (bind (validate_account_selector E acc c) (\<lambda>err. case err of
        None \<Rightarrow> user_reconcile_admitted E acc kp sd
      | Some e \<Rightarrow> bind (user_do (f e)) (\<lambda>_. ret (as_result (Some e))))) d (\<lambda>r l d. guarded B W (l1 @ l2 @ l3 @ l))"
    if "\<forall>e \<in> set (l1 @ l2 @ l3). \<not> B e" "account_read acc (set (l1 @ l2 @ l3))"
      "seed_read c sd (set (l1 @ l2 @ l3))" "same_user c d"
    for f acc kp sd l1 l2 l3 d
    using validate [OF that] by simp
  show ?thesis
    unfolding user_reconcile_body_def Let_def mark_condition_user_do
    by (intro does_rules does_bind_steady [OF logs_conj [OF reconcile_seed_settled emits_logs [OF seed]]]
        does_bind_steady [OF logs_conj [OF resolve_issuer_account emits_logs [OF resolve_issuer_emits]]] validate3
        does_bind_keeps [OF resolve_account_logs preserves_same_user_parts(1) [of c]])
      (auto intro!: none dest: gets simp: same_user_def seed_read_def result_is_zero_def get)
qed

lemma user_signs_admitted:
  "does (user_reconcile_body E) c (\<lambda>r l d. guarded signs (account_admitted (e_mach E) c) l)"
proof (rule user_body_front)
  show "emits (reconcile_seed_secret E (ObjUser c) (create_user_key (e_nkeys E)) (usr_seed_secret_name (usr_spec c)) [])
      (\<lambda>e. \<not> signs e)"
    by (rule reconcile_seed_emits) simp_all
  show "does (user_reconcile_admitted E acc kp seed) d (\<lambda>r l d'. guarded signs (account_admitted (e_mach E) c) (p @ l))"
    if "\<forall>e \<in> set p. \<not> signs e" "account_admitted (e_mach E) c (set p)" for acc kp seed d p
    by (rule does_emits [OF user_admitted_emits], rule guarded_after [OF guarded_none])
      (use that in \<open>auto intro: account_admitted_mono\<close>)
qed simp_all

section \<open>The credentials\<close>

definition writes :: "secret \<Rightarrow> call \<Rightarrow> bool" where
  "writes sec e = (\<exists>r. e = SecretCreate sec r \<or> e = SecretUpdate sec r)"

lemma writes_simps [simp]:
  "\<not> writes sec (SecretGet n m a)" "\<not> writes sec (EventSent ob t u v)" "\<not> writes sec (ObjectGet k n m q)"
  "\<not> writes sec (KeyCreate w)" "\<not> writes sec (NamespaceGet n ns)" "\<not> writes sec (JwtEncode x y z)"
  "\<not> writes sec (ObjectUpdate ob err)" "\<not> writes sec (SecretDelete s2 err)"
  "writes sec (SecretCreate s2 r) \<longleftrightarrow> s2 = sec" "writes sec (SecretUpdate s2 r) \<longleftrightarrow> s2 = sec"
  by (auto simp: writes_def)

definition is_credentials :: "secret \<Rightarrow> bool" where
  "is_credentials sec = (secret_label sec LabelSecretType = Some LabelSecretTypeCredentials)"

lemma other_secrets:
  "key_pair_secret_meant ob kp sec \<Longrightarrow> \<not> is_credentials sec" "jwt_secret_meant ob jwt sec \<Longrightarrow> \<not> is_credentials sec"
  by (auto simp: key_pair_secret_meant_def jwt_secret_meant_def is_credentials_def label_defs)

text \<open>
  Keeping the credentials secret: whatever is written is the secret meant for the token and the
  seed, and without an error and another reconciliation the secret that was read is that secret.
\<close>

definition credentials_kept ::
  "'x env \<Rightarrow> user \<Rightarrow> string \<Rightarrow> string \<Rightarrow> (ctrl_result \<times> error option) outcome \<Rightarrow> call list \<Rightarrow> bool" where
  "credentials_kept E usr jwt seed r l =
     ((\<forall>e \<in> set l. \<forall>sec. writes sec e \<longrightarrow> (\<exists>ca. credential_secret_meant E usr jwt seed ca sec))
      \<and> (\<forall>e \<in> set l. \<forall>sec a. e \<noteq> SecretDelete sec a)
      \<and> (r = Returns (zero_result, None) \<longrightarrow> (\<exists>got ca.
           SecretGet (m_namespace (usr_meta usr)) (usr_credentials_secret_name (usr_spec usr)) (Inr got) \<in> set l
           \<and> credential_secret_meant E usr jwt seed ca got \<and> (\<forall>e \<in> set l. \<forall>sec. \<not> writes sec e))))"

lemma credentials_build:
  "user_credential_secret_build E (new_user_credential_secret_builder ca) usr jwt seed = Inr sec \<Longrightarrow>
     credential_secret_meant E usr jwt seed ca sec"
  "user_credential_secret_build E (new_user_credential_secret_builder_from_secret got ca) usr jwt seed = Inr sec \<Longrightarrow>
     credential_secret_meant E usr jwt seed ca sec"
  using credential_builder.build_meant [of E empty_secret ca usr jwt seed sec]
    credential_builder.build_meant [of E got ca usr jwt seed sec]
  by (simp_all add: new_user_credential_secret_builder_def new_user_credential_secret_builder_from_secret_def)

text \<open>The calls that write nothing but the credentials meant.\<close>

definition credential_call :: "'x env \<Rightarrow> user \<Rightarrow> string \<Rightarrow> string \<Rightarrow> call \<Rightarrow> bool" where
  "credential_call E usr jwt seed e = ((\<forall>sec. writes sec e \<longrightarrow> (\<exists>ca. credential_secret_meant E usr jwt seed ca sec))
     \<and> (\<forall>sec a. e \<noteq> SecretDelete sec a))"

lemma credential_call_simps [simp]:
  "credential_call E usr jwt seed (SecretGet n m a)" "credential_call E usr jwt seed (EventSent ob t u v)"
  "credential_call E usr jwt seed (ObjectGet k n m q)"
  "credential_call E usr jwt seed (SecretCreate sec r) \<longleftrightarrow> (\<exists>ca. credential_secret_meant E usr jwt seed ca sec)"
  "credential_call E usr jwt seed (SecretUpdate sec r) \<longleftrightarrow> (\<exists>ca. credential_secret_meant E usr jwt seed ca sec)"
  by (auto simp: credential_call_def)

lemma ca_emits: "emits (get_ca_if_exists E acc) (\<lambda>e. (\<forall>sec. \<not> writes sec e) \<and> (\<forall>usr jwt seed. credential_call E usr jwt seed e))"
  unfolding get_ca_if_exists_def by (intro emits_rules) simp_all

lemma ca_steady: "preserves (\<lambda>d. d = c) (get_ca_if_exists E acc)"
  unfolding get_ca_if_exists_def by (intro preserves_rules)

lemma create_credentials_does:
  "does (create_credentials_secret E jwt seed ca) c (\<lambda>r l d. \<forall>e \<in> set l. credential_call E c jwt seed e)"
  unfolding create_credentials_secret_def Let_def
  by (intro does_rules) (auto dest: credentials_build)

lemma ensure_credentials_does:
  "does (ensure_credentials_secret_up_to_date E jwt seed got ca) c (\<lambda>r l d. (\<forall>e \<in> set l. credential_call E c jwt seed e)
     \<and> (r = Returns (zero_result, None) \<longrightarrow> credential_secret_meant E c jwt seed ca got \<and> l = []))"
  unfolding ensure_credentials_secret_up_to_date_def Let_def
  by (intro does_rules) (auto dest: credentials_build simp: requeue_result_def zero_result_def)

lemma credentials_kept_def':
  "credentials_kept E usr jwt seed r l = ((\<forall>e \<in> set l. credential_call E usr jwt seed e)
      \<and> (r = Returns (zero_result, None) \<longrightarrow> (\<exists>got ca.
           SecretGet (m_namespace (usr_meta usr)) (usr_credentials_secret_name (usr_spec usr)) (Inr got) \<in> set l
           \<and> credential_secret_meant E usr jwt seed ca got \<and> (\<forall>e \<in> set l. \<forall>sec. \<not> writes sec e))))"
  by (auto simp: credentials_kept_def credential_call_def)

lemma credentials_does:
  "does (reconcile_user_credential_secret E acc jwt seed) c (\<lambda>r l d. credentials_kept E c jwt seed r l)"
  unfolding reconcile_user_credential_secret_def Let_def credentials_kept_def'
  by (intro does_bind_emits [OF ca_emits ca_steady] does_rules does_seq [OF create_credentials_does]
      does_mono [OF ensure_credentials_does])
    (auto simp: requeue_result_def zero_result_def)

text \<open>The token was read from the JWT secret of the user.\<close>

definition stored_user_jwt :: "user \<Rightarrow> string \<Rightarrow> call set \<Rightarrow> bool" where
  "stored_user_jwt c jwt X = (\<exists>got. SecretGet (m_namespace (usr_meta c)) (usr_jwt_secret_name (usr_spec c)) (Inr got) \<in> X
     \<and> fmlookup (s_data got) NatsSecretJWTKey = Some jwt)"

definition no_credentials :: "call \<Rightarrow> bool" where
  "no_credentials e = (\<forall>sec. is_credentials sec \<longrightarrow> \<not> writes sec e)"

lemma no_credentials_simps [simp]:
  "no_credentials (SecretGet n m a)" "no_credentials (EventSent ob t u v)" "no_credentials (ObjectGet k n m q)"
  "no_credentials (KeyCreate w)" "no_credentials (JwtEncode x y z)" "no_credentials (NamespaceGet n ns)"
  "no_credentials (ObjectUpdate ob err)" "no_credentials (SecretDelete s2 err)"
  "no_credentials (SecretCreate sec r) \<longleftrightarrow> \<not> is_credentials sec" "no_credentials (SecretUpdate sec r) \<longleftrightarrow> \<not> is_credentials sec"
  by (auto simp: no_credentials_def)

lemma user_jwt_does:
  "does (user_reconcile_jwt_secret E acc kp) c (\<lambda>r l d. (\<forall>e \<in> set l. no_credentials e)
     \<and> (\<forall>jwt. r = Returns (jwt, zero_result, None) \<longrightarrow> stored_user_jwt c jwt (set l)) \<and> same_user c d)"
proof -
  have ensure: "logs (ensure_jwt_secret_up_to_date E ob want got next_jwt) (\<lambda>r l. (\<forall>e \<in> set l. no_credentials e)
      \<and> (\<forall>jwt. r = Returns (jwt, zero_result, None) \<longrightarrow> fmlookup (s_data got) NatsSecretJWTKey = Some jwt))"
    for ob want got next_jwt
  proof -
    have "emits (ensure_jwt_secret_up_to_date E ob want got next_jwt) no_credentials"
      by (rule emits_mono [OF ensure_jwt_writes]) (auto simp: jwt_write_ok_def other_secrets split: call.splits)
    from logs_conj [OF ensure_jwt_settled emits_logs [OF this]] show ?thesis
      by (rule logs_mono) (auto simp: jwt_settled_def)
  qed
  have create: "logs (create_jwt_secret E ob jwt) (\<lambda>r l. \<forall>e \<in> set l. no_credentials e)" for ob jwt
    by (rule emits_logs [OF create_jwt_emits]) (simp_all add: other_secrets)
  have claims: "logs (create_user_claims E usr acc issuer) (\<lambda>r l. \<forall>e \<in> set l. no_credentials e)" for usr issuer
    by (rule emits_logs [OF emits_create_claims(3)]) simp
  have load: "emits (load_issuer_seed E kp prefix) no_credentials" for prefix
    by (rule emits_mono [OF load_issuer_seed_emits]) auto
  let ?Q = "\<lambda>(r :: (string \<times> ctrl_result \<times> error option) outcome) l. (\<forall>e \<in> set l. no_credentials e)
      \<and> (\<forall>jwt. r = Returns (jwt, zero_result, None) \<longrightarrow> stored_user_jwt c jwt (set l))"
  have rest: "does (bind (create_user_claims E usr acc issuer) (\<lambda>r. case r of
        Inl e \<Rightarrow> ret ([], zero_result, Some (fails terminal_error ReasonUnknownError
                  ''failed to create user JWT claims: %w'' [AErr e]))
      | Inr (want_claims, next_jwt) \<Rightarrow>
          bind (get_secret E (m_namespace (usr_meta usr)) (usr_jwt_secret_name (usr_spec usr))) (\<lambda>r.
          case r of
            Inl e \<Rightarrow>
              (if is_not_found e
               then bind (create_jwt_secret E (ObjUser usr) next_jwt) (\<lambda>err. ret (next_jwt, requeue_result, err))
               else ret ([], zero_result, Some (unknown temporary_error ReasonUnknownError
                      ''failed to get JWT secret: %w'' [AErr e])))
          | Inr got \<Rightarrow> ensure_jwt_secret_up_to_date E (ObjUser usr) (UserClaims want_claims) got next_jwt))) d
      (\<lambda>r l' d'. ?Q r (l @ l') \<and> same_user c d')"
    if "same_user c usr" "same_user c d" "\<forall>e \<in> set l. no_credentials e" for usr d issuer l
  proof (rule does_mono [OF does_keeps [where I = "same_user c" and Q = "\<lambda>r l'. ?Q r (l @ l')"]], rule logs_seq [OF claims])
    fix a :: "error + user_claims \<times> string" and l1 :: "call list"
    assume l1: "\<forall>e \<in> set l1. no_credentials e"
    show "logs (case a of
        Inl e \<Rightarrow> ret ([], zero_result, Some (fails terminal_error ReasonUnknownError
                  ''failed to create user JWT claims: %w'' [AErr e]))
      | Inr (want_claims, next_jwt) \<Rightarrow>
          bind (get_secret E (m_namespace (usr_meta usr)) (usr_jwt_secret_name (usr_spec usr))) (\<lambda>r.
          case r of
            Inl e \<Rightarrow>
              (if is_not_found e
               then bind (create_jwt_secret E (ObjUser usr) next_jwt) (\<lambda>err. ret (next_jwt, requeue_result, err))
               else ret ([], zero_result, Some (unknown temporary_error ReasonUnknownError
                      ''failed to get JWT secret: %w'' [AErr e])))
          | Inr got \<Rightarrow> ensure_jwt_secret_up_to_date E (ObjUser usr) (UserClaims want_claims) got next_jwt))
      (\<lambda>r l'. ?Q r (l @ l1 @ l'))"
      using \<open>same_user c usr\<close>
      by (intro logs_rules logs_seq [OF create] logs_mono [OF ensure])
        (use l1 that(3) in \<open>auto simp: stored_user_jwt_def same_user_def\<close>)
  qed (use that in \<open>auto intro!: preserves_rules\<close>)
  show ?thesis
    unfolding user_reconcile_jwt_secret_def Let_def mark_condition_user_do
    by (intro does_bind_emits [OF load] does_rules does_mono [OF rest]) auto
qed

lemma user_labels_does:
  "does (user_reconcile_labels E) c (\<lambda>r l d. (\<forall>e \<in> set l. no_credentials e)
     \<and> (\<exists>res err. r = Returns (res, err) \<and> (res = zero_result \<and> err = None \<longrightarrow> d = c)))"
  unfolding user_reconcile_labels_def update_user_def
  by (intro does_rules) auto

text \<open>What the credentials are made of: the stored token and the stored seed of the user.\<close>

definition made_of_stored :: "'x env \<Rightarrow> user \<Rightarrow> secret \<Rightarrow> call set \<Rightarrow> bool" where
  "made_of_stored E c sec X = (\<exists>jwt seed ca. stored_user_jwt c jwt X \<and> seed_read c seed X
     \<and> credential_secret_meant E c jwt seed ca sec)"

lemma made_of_stored_mono: "made_of_stored E c sec X \<Longrightarrow> X \<subseteq> Y \<Longrightarrow> made_of_stored E c sec Y"
  unfolding made_of_stored_def stored_user_jwt_def seed_read_def by blast

lemma stored_user_jwt_mono: "stored_user_jwt c jwt X \<Longrightarrow> X \<subseteq> Y \<Longrightarrow> stored_user_jwt c jwt Y"
  unfolding stored_user_jwt_def by blast

lemma seed_read_mono: "seed_read c seed X \<Longrightarrow> X \<subseteq> Y \<Longrightarrow> seed_read c seed Y"
  unfolding seed_read_def by blast

lemma same_user_cong:
  assumes "same_user c d"
  shows "credential_secret_meant E d = credential_secret_meant E c" "stored_user_jwt d = stored_user_jwt c"
  using assms by (simp_all add: same_user_def fun_eq_iff credential_secret_meant_def stored_user_jwt_def)

lemma no_credentials_writes:
  "\<forall>e \<in> set l. no_credentials e \<Longrightarrow> is_credentials sec \<Longrightarrow> \<forall>e \<in> set l. \<not> writes sec e"
  by (auto simp: no_credentials_def)

lemma credentials_guarded:
  assumes "\<forall>e \<in> set p. \<not> writes sec e" and "stored_user_jwt c jwt (set p)" and "seed_read c seed (set p)"
    and "is_credentials sec" and "\<forall>e \<in> set l. credential_call E c jwt seed e"
  shows "guarded (writes sec) (made_of_stored E c sec) (p @ l)"
proof (rule guarded_after [OF guarded_none [OF assms(1)]])
  show "made_of_stored E c sec (set p) \<or> (\<forall>e \<in> set l. \<not> writes sec e)"
    using assms(2,3,5) unfolding made_of_stored_def credential_call_def by blast
qed (rule made_of_stored_mono)

lemma credentials_calls:
  assumes "same_user c d"
  shows "does (reconcile_user_credential_secret E acc jwt seed) d (\<lambda>r l d'. \<forall>e \<in> set l. credential_call E c jwt seed e)"
proof -
  have "credential_call E d jwt seed = credential_call E c jwt seed"
    by (simp add: credential_call_def fun_eq_iff same_user_cong [OF assms])
  then show ?thesis by (intro does_mono [OF credentials_does]) (simp add: credentials_kept_def')
qed

lemma finish_credentials_guarded:
  assumes "is_credentials sec" "same_user c d"
    and "\<forall>e \<in> set p. \<not> writes sec e" "seed_read c seed (set p)" "stored_user_jwt c jwt (set p)"
  shows "does (user_finish_credentials E acc jwt seed) d (\<lambda>r l d'. guarded (writes sec) (made_of_stored E c sec) (p @ l))"
  unfolding user_finish_credentials_def
  by (intro does_seq [OF credentials_calls [OF assms(2)]])
    (auto intro!: does_rules credentials_guarded [OF assms(3,5,4,1)])

lemma finish_jwt_guarded:
  assumes sec: "is_credentials sec" and d: "same_user c d"
    and p: "\<forall>e \<in> set p. \<not> writes sec e" "seed_read c seed (set p)"
  shows "does (user_finish_jwt E acc kp seed) d (\<lambda>r l d'. guarded (writes sec) (made_of_stored E c sec) (p @ l))"
  unfolding user_finish_jwt_def Let_def mark_condition_user_do
proof (rule does_seq [OF user_jwt_does])
  fix a :: "string \<times> ctrl_result \<times> error option" and l d1
  let ?R = "\<lambda>l. guarded (writes sec) (made_of_stored E c sec) (p @ l)"
  assume j: "(\<forall>e \<in> set l. no_credentials e) \<and> (\<forall>jwt. Returns a = Returns (jwt, zero_result, None)
      \<longrightarrow> stored_user_jwt d jwt (set l)) \<and> same_user d d1"
  have same: "same_user c (set_user_status s d1)" for s
    using j d by (auto simp: same_user_def)
  have quiet: "\<forall>e \<in> set (p @ l). \<not> writes sec e" using j p(1) no_credentials_writes [OF _ sec, of l] by auto
  have all: "?R l" by (rule guarded_none [OF quiet])
  have seed: "seed_read c seed (set (p @ l))" by (rule seed_read_mono [OF p(2)]) simp
  have stored: "stored_user_jwt c jwt (set (p @ l))" if "a = (jwt, zero_result, None)" for jwt
    by (rule stored_user_jwt_mono [of c jwt "set l"])
      (use j that same_user_cong(2) [OF d] in auto)
  note last = finish_credentials_guarded [OF sec same quiet seed stored]
  show "does (case a of (ujwt, result, err) \<Rightarrow> (case err of
        Some e \<Rightarrow> bind (user_do (g e)) (\<lambda>_. ret (as_result (Some e)))
      | None \<Rightarrow> bind (user_do h) (\<lambda>_. if \<not> result_is_zero result then ret (result, None)
          else user_finish_credentials E acc ujwt seed))) d1 (\<lambda>r l'. (\<lambda>l d'. ?R l) (l @ l'))" for g h
    by (intro does_rules last [simplified]) (use all in \<open>auto simp: result_is_zero_def\<close>)
qed (use p(1) sec in \<open>auto intro!: guarded_none simp: no_credentials_def\<close>)

lemma user_admitted_credentials:
  assumes sec: "is_credentials sec" and p: "\<forall>e \<in> set p. \<not> writes sec e" "seed_read c seed (set p)" "same_user c d"
  shows "does (user_reconcile_admitted E acc kp seed) d (\<lambda>r l d'. guarded (writes sec) (made_of_stored E c sec) (p @ l))"
proof -
  let ?R = "\<lambda>l. guarded (writes sec) (made_of_stored E c sec) (p @ l)"
  have labels: "does (bind (user_reconcile_labels E) (\<lambda>(result, err).
      if \<not> result_is_zero result \<or> err \<noteq> None then ret (result, err) else user_finish_jwt E acc kp seed)) d'
      (\<lambda>r l d'. ?R l)" if d': "same_user c d'" for d'
  proof (rule does_seq [OF user_labels_does])
    fix a :: "ctrl_result \<times> error option" and l d1
    assume j: "(\<forall>e \<in> set l. no_credentials e) \<and> (\<exists>res err. Returns a = Returns (res, err)
        \<and> (res = zero_result \<and> err = None \<longrightarrow> d1 = d'))"
    then have quiet: "\<forall>e \<in> set (p @ l). \<not> writes sec e" using p(1) no_credentials_writes [OF _ sec, of l] by auto
    have "seed_read c seed (set (p @ l))" by (rule seed_read_mono [OF p(2)]) simp
    note next_step = finish_jwt_guarded [OF sec d' quiet this, of E acc kp, simplified]
    show "does (case a of (result, err) \<Rightarrow>
      (if \<not> result_is_zero result \<or> err \<noteq> None then ret (result, err) else user_finish_jwt E acc kp seed)) d1
      (\<lambda>r l'. (\<lambda>l d'. ?R l) (l @ l'))"
      by (intro does_prod does_if does_ret)
        (use j guarded_none [OF quiet] next_step in \<open>auto simp: result_is_zero_def\<close>)
  qed auto
  show ?thesis
    unfolding user_reconcile_admitted_def by (intro does_user_do labels) (use p(3) in \<open>simp add: same_user_def\<close>)
qed

lemma user_credentials_made:
  assumes sec: "is_credentials sec"
  shows "does (user_reconcile_body E) c (\<lambda>r l d. guarded (writes sec) (made_of_stored E c sec) l)"
proof (rule user_body_front)
  show "emits (reconcile_seed_secret E (ObjUser c) (create_user_key (e_nkeys E)) (usr_seed_secret_name (usr_spec c)) [])
      (\<lambda>e. \<not> writes sec e)"
    by (rule reconcile_seed_emits) (use sec in \<open>auto dest: other_secrets\<close>)
qed (simp_all add: user_admitted_credentials [OF sec])

section \<open>Properties\<close>

text \<open>C13: a user's JWT is signed only after an account was read that admits the user: its namespace
  selector matches the namespace that was read for the user (or, without a selector, the user is in
  the account's namespace) and its user selector the labels.\<close>

theorem user_signed_if_admitted:
  assumes "user_reconcile_body E s = (r, s')"
  shows "\<exists>l. trace s' = trace s @ l \<and> guarded signs (account_admitted (e_mach E) (cur s)) l"
  using doesD [OF user_signs_admitted assms refl] by blast

text \<open>C16: a user's credentials are made of what is stored. Every secret of the type credentials that a
  reconciliation writes is the one meant for a token and a seed that it has read before, the token
  from the user's JWT secret and the seed from the user's seed secret.\<close>

theorem user_credentials_from_stored:
  assumes "user_reconcile_body E s = (r, s')" and "is_credentials sec"
  shows "\<exists>l. trace s' = trace s @ l \<and> guarded (writes sec) (made_of_stored E (cur s) sec) l"
  using doesD [OF user_credentials_made [OF assms(2)] assms(1) refl] by blast

text \<open>Keeping the credentials secret. Whatever happens, it is never deleted and only ever written as
  the secret meant for the token and the seed: name, namespace, labels, subject, and the credentials
  file that the library formats. When nothing is reported and no other reconciliation is asked for,
  the secret that was read is that secret and nothing was written.\<close>

theorem user_credentials_settled:
  assumes "reconcile_user_credential_secret E acc jwt seed s = (r, s')"
  shows "\<exists>l. trace s' = trace s @ l \<and> credentials_kept E (cur s) jwt seed r l"
  using doesD [OF credentials_does assms refl] by blast

text \<open>The CA file in a user's credentials. Reading it panics exactly when the account has an operator
  that could be read, with a TLS configuration that has no CA file: the field is optional and is
  dereferenced without a test (the account controller reports this configuration as an error).\<close>

theorem get_ca_panics:
  "fst (get_ca_if_exists E acc s) = Panics \<longleftrightarrow>
     (\<exists>ref opr tls. accs_operator_ref (acc_status acc) = Some ref
        \<and> fst (cs_get_operator (e_kube E) (ior_namespace ref) (ior_name ref) (ext s)) = Inr opr
        \<and> op_tls_config (op_spec opr) = Some tls \<and> ca_file tls = None)"
proof (cases "accs_operator_ref (acc_status acc)")
  case (Some ref)
  then show ?thesis
    by (auto simp: get_ca_if_exists_def clientset_get_operator_def get_secret_def external_def bind_def ret_def
        deref_def panic_def split: prod.splits sum.splits option.splits)
qed (simp add: get_ca_if_exists_def ret_def)

section \<open>The status\<close>

lemma user_prepare_run:
  assumes "user_known (time_now (e_kube E)) (usr_status (cur t))"
  shows "wp (user_do (user_initialize_conditions (time_now (e_kube E))))
    (\<lambda>r t'. user_run (time_now (e_kube E)) (usr_status (cur t'))) t"
  using assms
  by (auto simp: user_do_def user_known_def user_run_def set_user_status_def split: prod.split)
    (metis fst_conv lifecycle_run.created lifecycle_run.initialized)+

text \<open>The status of a user. A reconciliation of a user whose status is new or was written by this
  controller writes the status at most once, as its last call, and exactly when the status differs
  from the one that was read; what it writes is a new status or a state of the lifecycle. A conflict
  without another error asks for another attempt after one second, any other failure is added to the
  error.\<close>

theorem user_status_written:
  assumes "get_user E ns name s = (Returns (Inr usr), s1)"
    and "user_known (time_now (e_kube E)) (usr_status usr)"
    and "user_update_law E"
    and "user_reconcile E ns name s = (r, s')"
  shows "\<exists>front end. (\<forall>c \<in> set front. \<not> status_write c) \<and> user_known (time_now (e_kube E)) (usr_status end)
    \<and> (trace s' = trace s1 @ front \<and> user_status_equal (usr_status usr) (usr_status end)
       \<or> (\<exists>answer br. trace s' = trace s1 @ front @ [StatusUpdate (ObjUser end) answer]
            \<and> \<not> user_status_equal (usr_status usr) (usr_status end)
            \<and> r = deferral_outcome id br answer))"
proof -
  have "wp (user_do (user_initialize_conditions (time_now (e_kube E))))
      (\<lambda>r t'. user_run (time_now (e_kube E)) (usr_status (cur t'))) t" if "cur t = usr" for t
    using that assms(2) by (intro user_prepare_run) simp
  from user_frame.frame [OF assms(1) this user_body_leads [OF assms(3)]] assms(4)
  show ?thesis by (auto simp: wp_run)
qed

section \<open>Concrete runs\<close>

definition sample_user :: user where
  "sample_user = \<lparr>usr_gvk = group_version_with_kind ''User'',
     usr_meta = empty_meta\<lparr>m_name := ''usr'', m_namespace := ''ns'', m_uid := ''u3''\<rparr>,
     usr_spec = sample_spec, usr_status = new_user_status\<rparr>"

lemma sample_user_sel [simp]:
  "m_namespace (usr_meta sample_user) = ''ns''" "m_name (usr_meta sample_user) = ''usr''"
  "usr_credentials_secret_name (usr_spec sample_user) = ''c''" "usr_seed_secret_name (usr_spec sample_user) = ''s''"
  "usr_status sample_user = new_user_status"
  by (simp_all add: sample_user_def sample_spec_def)

lemma sample_env_sel [simp]:
  "e_mach sample_env = plain_machinery" "e_kube sample_env = sample_kube" "e_jwt sample_env = sample_jwt"
  "cs_get_secret sample_kube = (\<lambda>ns name x. (Inl missing, x))" "cl_create_secret sample_kube = (\<lambda>s x. ((None, s), x))"
  by (simp_all add: sample_env_def sample_kube_def)

lemma sample_credentials:
  obtains sec where "user_credential_secret_build sample_env (new_user_credential_secret_builder []) sample_user ''jwt'' ''U'' = Inr sec"
  by (simp add: user_credential_secret_build_def finish_secret_def plain_machinery_def sample_jwt_def Let_def)

text \<open>Without a secret the credentials are created.\<close>

lemma sample_credentials_created:
  assumes sec: "user_credential_secret_build sample_env (new_user_credential_secret_builder []) sample_user ''jwt'' ''U'' = Inr sec"
    and run: "reconcile_user_credential_secret sample_env sample_account ''jwt'' ''U'' (start sample_user) = (r, s')"
  shows "SecretCreate sec None \<in> set (trace s')"
proof -
  have "wp (reconcile_user_credential_secret sample_env sample_account ''jwt'' ''U'')
      (\<lambda>r s'. SecretCreate sec None \<in> set (trace s')) (start sample_user)"
    using sec by (simp add: reconcile_user_credential_secret_def get_ca_if_exists_def create_credentials_secret_def Let_def
        start_def sample_account_def get_secret_def create_secret_def user_do_def
        eventf_def split: prod.split)
  with run show ?thesis by (simp add: wp_run)
qed

theorem user_credentials_settled_witness:
  "\<exists>sec ca. SecretCreate sec None \<in> set (trace (snd (reconcile_user_credential_secret sample_env sample_account
      ''jwt'' ''U'' (start sample_user))))
     \<and> credential_secret_meant sample_env sample_user ''jwt'' ''U'' ca sec"
proof -
  obtain sec where sec: "user_credential_secret_build sample_env (new_user_credential_secret_builder []) sample_user
      ''jwt'' ''U'' = Inr sec" by (rule sample_credentials)
  obtain r s' where run: "reconcile_user_credential_secret sample_env sample_account ''jwt'' ''U'' (start sample_user) = (r, s')"
    by fastforce
  have created: "SecretCreate sec None \<in> set (trace s')" by (rule sample_credentials_created [OF sec run])
  from user_credentials_settled [OF run] have "credentials_kept sample_env sample_user ''jwt'' ''U'' r (trace s')"
    by (simp add: start_def)
  with created have "\<exists>ca. credential_secret_meant sample_env sample_user ''jwt'' ''U'' ca sec"
    unfolding credentials_kept_def by (metis writes_simps(9))
  with created run show ?thesis by auto
qed

text \<open>A cluster in which the one user is there.\<close>

definition with_user :: "user \<Rightarrow> unit env \<Rightarrow> unit env" where
  "with_user u E = E\<lparr>e_kube := (e_kube E)\<lparr>cl_get_user := (\<lambda>ns name x. (Inr u, x)),
     cl_update_user := (\<lambda>u x. ((None, u), x))\<rparr>\<rparr>"

theorem user_status_written_witness:
  "\<exists>front end. (trace (snd (user_reconcile (with_user sample_user sample_env) ''ns'' ''usr'' (start sample_user)))
        = ObjectGet KindUser ''ns'' ''usr'' (Inr (ObjUser sample_user)) # front
          \<and> user_status_equal new_user_status (usr_status end)
      \<or> (\<exists>answer. trace (snd (user_reconcile (with_user sample_user sample_env) ''ns'' ''usr'' (start sample_user)))
        = ObjectGet KindUser ''ns'' ''usr'' (Inr (ObjUser sample_user)) # front @ [StatusUpdate (ObjUser end) answer]
          \<and> \<not> user_status_equal new_user_status (usr_status end)))
     \<and> user_known (time_now sample_kube) (usr_status end)"
proof -
  let ?E = "with_user sample_user sample_env"
  obtain r s' where run: "user_reconcile ?E ''ns'' ''usr'' (start sample_user) = (r, s')" by fastforce
  have now: "time_now (e_kube ?E) = time_now sample_kube" by (simp add: with_user_def)
  have law: "user_update_law ?E"
    by (simp add: user_update_law_def with_user_def user_run_known)
  have get: "get_user ?E ''ns'' ''usr'' (start sample_user) = (Returns (Inr sample_user),
      (start sample_user)\<lparr>trace := [ObjectGet KindUser ''ns'' ''usr'' (Inr (ObjUser sample_user))]\<rparr>)"
    by (simp add: get_user_def external_def with_user_def start_def)
  have known: "user_known (time_now (e_kube ?E)) (usr_status sample_user)"
    by (simp add: user_known_def fresh_status_def new_user_status_def user_get_conditions_def user_backed_def)
  from user_status_written [OF get known law run] run show ?thesis
    by (simp add: now) blast
qed

end
