(* ===== verification/Signing_Key_Reconciler.thy ===== *)
theory Signing_Key_Reconciler
  imports Behaviour
begin

text \<open>
  internal/controller/accounts/signingkey_controller.go: the reconciler of SigningKeys. A signing
  key belongs to an Operator or an Account of its namespace whose selector admits it; its seed
  secret is created once and afterwards only read.
\<close>

section \<open>Operations\<close>

definition set_signing_key_status :: "signing_key_status \<Rightarrow> signing_key \<Rightarrow> signing_key" where
  "set_signing_key_status s k = k\<lparr>sk_status := s\<rparr>"

definition signing_key_do ::
  "(signing_key_status \<times> 'x \<Rightarrow> signing_key_status \<times> 'x) \<Rightarrow> (('x, signing_key) st, unit) go" where
  "signing_key_do f = on_status sk_status set_signing_key_status f"

definition signing_key_status_equal :: "signing_key_status \<Rightarrow> signing_key_status \<Rightarrow> bool" where
  "signing_key_status_equal a b =
     (conditions_semantic_equal (signing_key_get_conditions a) (signing_key_get_conditions b)
      \<and> sks_key_pair a = sks_key_pair b \<and> sks_owner_ref a = sks_owner_ref b)"

text \<open>The secret with a new key, before its owner reference is set.\<close>

definition signing_key_secret :: "signing_key \<Rightarrow> string \<Rightarrow> string \<Rightarrow> secret" where
  "signing_key_secret sk seed pubkey =
     new_secret (sk_seed_secret_name (sk_spec sk)) (m_namespace (sk_meta sk))
       [with_immutable True,
        with_labels (fmupd ''secret-type'' NatsSecretTypeSKey
          (fmupd ''operator-name'' (sko_name (sk_owner_ref (sk_spec sk))) fmempty)),
        with_data (fmupd NatsSecretPublicKeyKey pubkey (fmupd NatsSecretSeedKey seed fmempty))]"

text \<open>The key is created by the kind in the spec; another kind is an error before any key exists.\<close>

definition new_signing_key_pair :: "'x env \<Rightarrow> string \<Rightarrow> (('x, 'o) st, error + keypair) go" where
  "new_signing_key_pair E kind =
     (if kind = SigningKeyTypeAccount then create_key (create_account_key (e_nkeys E))
      else if kind = SigningKeyTypeOperator then create_key (create_operator_key (e_nkeys E))
      else ret (Inl (StatusError BadRequest (sprintf ''unknown owner kind: %s'' [AStr kind]))))"

definition ensure_key_pair :: "'x env \<Rightarrow> (('x, signing_key) st, ctrl_result \<times> error option) go" where
  "ensure_key_pair E = (let now = time_now (e_kube E) in
     bind get_cur (\<lambda>sk.
     bind (get_secret E (m_namespace (sk_meta sk)) (sk_seed_secret_name (sk_spec sk))) (\<lambda>r.
     case r of
       Inr sec \<Rightarrow>
         bind (signing_key_do (signing_key_mark_seed_secret_ready now
                 (secret_bytes sec NatsSecretPublicKeyKey) (sk_seed_secret_name (sk_spec sk)))) (\<lambda>_.
         ret (zero_result, None))
     | Inl e \<Rightarrow>
         (if \<not> is_not_found e then ret (zero_result, Some e)
          else
            bind (new_signing_key_pair E (sko_kind (sk_owner_ref (sk_spec sk)))) (\<lambda>r.
            case r of
              Inl e \<Rightarrow> ret (zero_result, Some e)
            | Inr kp \<Rightarrow> (case kp_seed kp of
                Inl e \<Rightarrow> ret (zero_result, Some e)
              | Inr seed \<Rightarrow> (case kp_public_key kp of
                  Inl e \<Rightarrow> ret (zero_result, Some e)
                | Inr pubkey \<Rightarrow>
                    (let sec = signing_key_secret sk seed pubkey
                     in case set_controller_reference (e_mach E) (ObjSigningKey sk) (s_meta sec) of
                       Inl e \<Rightarrow> ret (zero_result, Some e)
                     | Inr refs \<Rightarrow>
                         bind (clientset_create_secret E (m_namespace (sk_meta sk))
                                 (sec\<lparr>s_meta := (s_meta sec)\<lparr>m_owner_references := refs\<rparr>\<rparr>)) (\<lambda>err.
                         case err of
                           Some e \<Rightarrow> ret (zero_result, Some e)
                         | None \<Rightarrow>
                             bind (signing_key_do (signing_key_mark_seed_secret_ready now pubkey
                                     (sk_seed_secret_name (sk_spec sk)))) (\<lambda>_.
                             ret (requeue_result, None)))))))))))"

definition validate_owner_requirements :: "machinery \<Rightarrow> client_object \<Rightarrow> signing_key \<Rightarrow> error option" where
  "validate_owner_requirements M owner sk =
     (if m_namespace (object_get_meta owner) \<noteq> m_namespace (sk_meta sk)
      then Some (errorf ''owner namespace %q does not match signing key namespace %q''
             [AStr (m_namespace (object_get_meta owner)), AStr (m_namespace (sk_meta sk))])
      else case (case owner of
            ObjOperator o' \<Rightarrow> Some (op_signing_keys_selector (op_spec o'))
          | ObjAccount a \<Rightarrow> Some (acc_signing_keys_selector (acc_spec a))
          | _ \<Rightarrow> None) of
        None \<Rightarrow> Some (errorf ''unsupported owner kind evaluating owner requirements: %T'' [AObj (object_type owner)])
      | Some None \<Rightarrow> None
      | Some (Some sel) \<Rightarrow> (case label_selector_as_selector M sel of
          Inl e \<Rightarrow> Some (errorf ''failed to parse signing key label selector: %w'' [AErr e])
        | Inr s \<Rightarrow>
            (if \<not> sel_matches s (m_labels (sk_meta sk))
             then Some (errorf ''signing key does not match selector requirements'' [])
             else None)))"

definition supported_owner :: "machinery \<Rightarrow> gvk \<Rightarrow> object_kind option" where
  "supported_owner M g = (case scheme_new M g of
       Inr (NewObject KindAccount) \<Rightarrow> Some KindAccount
     | Inr (NewObject KindOperator) \<Rightarrow> Some KindOperator
     | _ \<Rightarrow> None)"

definition ensure_owner_resolved :: "'x env \<Rightarrow> (('x, signing_key) st, error option) go" where
  "ensure_owner_resolved E = (let now = time_now (e_kube E) in
     bind get_cur (\<lambda>sk.
     let ref = sk_owner_ref (sk_spec sk);
         owner_gvk = from_api_version_and_kind (e_mach E) (sko_api_version ref) (sko_kind ref)
     in case supported_owner (e_mach E) owner_gvk of
       None \<Rightarrow>
         bind (signing_key_do (signing_key_mark_owner_resolve_failed now ''UnsupportedOwnerKind''
                 ''owner must be one of Account or Operator'' [])) (\<lambda>_.
         ret None)
     | Some k \<Rightarrow>
         bind (get_object E k (m_namespace (sk_meta sk)) (sko_name ref)) (\<lambda>r.
         case r of
           Inl e \<Rightarrow>
             (if is_not_found e
              then
                bind (signing_key_do (signing_key_mark_owner_resolve_failed now ReasonNotFound ''%s, %s/%s: not found''
                        [AStr (gvk_string (e_mach E) owner_gvk), AStr (m_namespace (sk_meta sk)), AStr (sko_name ref)])) (\<lambda>_.
                ret (Some e))
              else
                bind (signing_key_do (signing_key_mark_owner_resolve_unknown now ReasonUnknownError
                        ''failed to resolve owner reference: %s'' [AStr (error_text e)])) (\<lambda>_.
                ret (Some e)))
         | Inr owner \<Rightarrow>
             (case validate_owner_requirements (e_mach E) owner sk of
                Some e \<Rightarrow>
                  bind (signing_key_do (signing_key_mark_owner_resolve_failed now ReasonNotAllowed
                          ''SigningKey does not match selector requirements: %w'' [AErr e])) (\<lambda>_.
                  ret (Some (terminal_error e)))
              | None \<Rightarrow>
                  (case to_api_version_and_kind (e_mach E) (object_get_gvk owner) of (owner_api_version, owner_kind) \<Rightarrow>
                   bind (signing_key_do (signing_key_mark_owner_resolved now
                           \<lparr>tor_api_version = owner_api_version, tor_kind = owner_kind,
                            tor_name = m_name (object_get_meta owner), tor_namespace = m_namespace (object_get_meta owner),
                            tor_uid = m_uid (object_get_meta owner)\<rparr>)) (\<lambda>_.
                   ret None))))))"

text \<open>The label of the owner that is missing or outdated.\<close>

definition owner_label :: "typed_object_reference \<Rightarrow> string option" where
  "owner_label r = (if tor_kind r = ''Operator'' then Some LabelOperatorName
     else if tor_kind r = ''Account'' then Some LabelAccountName else None)"

definition signing_key_reconcile_labels :: "'x env \<Rightarrow> (('x, signing_key) st, ctrl_result \<times> error option) go" where
  "signing_key_reconcile_labels E =
     bind get_cur (\<lambda>sk.
     case sks_owner_ref (sk_status sk) of
       None \<Rightarrow> ret (zero_result, None)
     | Some r \<Rightarrow> (case owner_label r of
         None \<Rightarrow> ret (zero_result, None)
       | Some l \<Rightarrow>
           (if label_value (sk_meta sk) l \<noteq> tor_name r
            then
              bind (modify_cur (\<lambda>k. k\<lparr>sk_meta := put_label l (tor_name r) (sk_meta k)\<rparr>)) (\<lambda>_.
              bind (update_signing_key E) (\<lambda>err.
              case err of
                Some e \<Rightarrow> ret (zero_result, Some e)
              | None \<Rightarrow> ret (requeue_result, None)))
            else ret (zero_result, None))))"

section \<open>Reconcile\<close>

definition signing_key_reconcile_body :: "'x env \<Rightarrow> (('x, signing_key) st, ctrl_result \<times> error option) go" where
  "signing_key_reconcile_body E =
     bind (ensure_owner_resolved E) (\<lambda>err.
     case err of
       Some e \<Rightarrow>
         bind (signing_key_do (signing_key_mark_owner_resolve_failed (time_now (e_kube E)) ReasonUnknownError
                 ''failed to resolve owner: %s'' [AStr (error_text e)])) (\<lambda>_.
         ret (as_result (Some e)))
     | None \<Rightarrow>
         bind (signing_key_reconcile_labels E) (\<lambda>(result, err).
         if \<not> result_is_zero result \<or> err \<noteq> None then ret (result, err)
         else
           bind (ensure_key_pair E) (\<lambda>(result, err).
           case err of
             Some e \<Rightarrow> ret (zero_result, Some (errorf ''failed to ensure key pair: %w'' [AErr e]))
           | None \<Rightarrow> ret (result, None))))"

definition signing_key_status_error :: "error \<Rightarrow> error" where
  "signing_key_status_error e = errorf ''failed to update signing key status: %w'' [AErr e]"

definition signing_key_reconcile ::
  "'x env \<Rightarrow> string \<Rightarrow> string \<Rightarrow> (('x, signing_key) st, ctrl_result \<times> error option) go" where
  "signing_key_reconcile E ns name =
     bind (get_signing_key E ns name) (\<lambda>r.
     case r of
       Inl e \<Rightarrow> ret (zero_result, ignore_not_found e)
     | Inr sk \<Rightarrow>
         bind (set_cur sk) (\<lambda>_.
         bind (signing_key_do (signing_key_initialize_conditions (time_now (e_kube E)))) (\<lambda>_.
         with_status_deferral sk_status signing_key_status_equal (update_signing_key_status E) signing_key_status_error
           (sk_status sk) (signing_key_reconcile_body E))))"

section \<open>The contract of the frame\<close>

lemma emits_signing_key_do [emits_rules, simp]: "emits (signing_key_do f) P"
  by (simp add: signing_key_do_def)

lemma logs_bind_signing_key_do [logs_rules]: "logs (k ()) R \<Longrightarrow> logs (bind (signing_key_do f) k) R"
  unfolding signing_key_do_def by (rule logs_bind_on_status)

lemma total_signing_key_do [total_rules, simp]: "total now A (signing_key_do f)"
  by (simp add: signing_key_do_def)

lemma does_signing_key_do [does_rules]:
  "(\<And>x. does (k ()) (set_signing_key_status (fst (f (sk_status c, x))) c) R) \<Longrightarrow> does (bind (signing_key_do f) k) c R"
  unfolding signing_key_do_def by (rule does_bind_on_status)

lemma set_signing_key_status_sel [simp]:
  "sk_meta (set_signing_key_status s k) = sk_meta k" "sk_spec (set_signing_key_status s k) = sk_spec k"
  "sk_gvk (set_signing_key_status s k) = sk_gvk k" "sk_status (set_signing_key_status s k) = s"
  "set_signing_key_status s (set_signing_key_status t k) = set_signing_key_status s k"
  by (simp_all add: set_signing_key_status_def)

lemma emits_update_signing_key [emits_rules]:
  "(\<And>k err. P (ObjectUpdate (ObjSigningKey k) err)) \<Longrightarrow> emits (update_signing_key E) P"
  unfolding update_signing_key_def by (intro emits_rules)

text \<open>
  The only secret the reconciler writes is a new one; it updates and deletes none, so a seed that
  exists is never touched.
\<close>

definition signing_key_call_ok :: "call \<Rightarrow> bool" where
  "signing_key_call_ok c = (case c of
       SecretGet _ _ _ \<Rightarrow> True | SecretCreate _ _ \<Rightarrow> True | ObjectGet k _ _ _ \<Rightarrow> k = KindOperator \<or> k = KindAccount
     | ObjectUpdate (ObjSigningKey _) _ \<Rightarrow> True | KeyCreate _ \<Rightarrow> True | _ \<Rightarrow> False)"

lemma supported_owner_kinds: "supported_owner M g = Some k \<Longrightarrow> k = KindOperator \<or> k = KindAccount"
  by (auto simp: supported_owner_def split: sum.splits scheme_object.splits object_kind.splits)

lemma signing_key_body_emits: "emits (signing_key_reconcile_body E) signing_key_call_ok"
  unfolding signing_key_reconcile_body_def ensure_owner_resolved_def signing_key_reconcile_labels_def
    ensure_key_pair_def new_signing_key_pair_def Let_def
  by (intro emits_rules) (auto simp: signing_key_call_ok_def dest: supported_owner_kinds)

interpretation signing_key_frame: status_reconciler "get_signing_key E"
  "\<lambda>ns name r. ObjectGet KindSigningKey ns name (map_sum id ObjSigningKey r)"
  sk_status signing_key_status_equal "signing_key_do (signing_key_initialize_conditions (time_now (e_kube E)))"
  "signing_key_reconcile_body E" "cl_status_signing_key (e_kube E)" "\<lambda>k. StatusUpdate (ObjSigningKey k)"
  signing_key_status_error "signing_key_reconcile E"
  for E :: "'x env"
proof
  show "emits (signing_key_reconcile_body E) (\<lambda>c. \<not> status_write c)"
    by (rule emits_mono [OF signing_key_body_emits])
      (auto simp: signing_key_call_ok_def status_write_def split: call.splits)
qed (unfold signing_key_reconcile_def update_signing_key_status_def get_signing_key_def signing_key_do_def,
    auto intro!: logs_external logsI split: prod.split)

section \<open>The status the reconciler writes\<close>

lemma preserves_signing_key_do:
  "f = signing_key_call now m \<Longrightarrow> preserves (\<lambda>k. signing_key_run now (sk_status k)) (signing_key_do f)"
  unfolding signing_key_do_def signing_key_run_def
  by (rule preserves_on_status) (simp add: set_signing_key_status_def lifecycle_run.called)

lemmas preserves_signing_key_marks = signing_key_call.simps [symmetric, THEN preserves_signing_key_do]

definition signing_key_update_law :: "'x env \<Rightarrow> bool" where
  "signing_key_update_law E = (\<forall>k x. signing_key_run (time_now (e_kube E)) (sk_status k) \<longrightarrow>
     signing_key_known (time_now (e_kube E)) (sk_status (snd (fst (cl_update_signing_key (e_kube E) k x)))))"

lemma signing_key_run_known: "signing_key_run now s \<Longrightarrow> signing_key_known now s"
  by (simp add: signing_key_known_def)

lemma preserves_signing_key_parts:
  "preserves (\<lambda>k. signing_key_run (time_now (e_kube E)) (sk_status k)) (ensure_owner_resolved E)"
  "preserves (\<lambda>k. signing_key_run (time_now (e_kube E)) (sk_status k)) (ensure_key_pair E)"
  unfolding ensure_owner_resolved_def ensure_key_pair_def new_signing_key_pair_def Let_def
  by (intro preserves_rules preserves_signing_key_marks; simp)+

lemma leads_signing_key_labels:
  assumes "signing_key_update_law E"
    and "leads (\<lambda>k. signing_key_run (time_now (e_kube E)) (sk_status k))
      (\<lambda>k. signing_key_known (time_now (e_kube E)) (sk_status k)) m"
  shows "leads (\<lambda>k. signing_key_run (time_now (e_kube E)) (sk_status k))
    (\<lambda>k. signing_key_known (time_now (e_kube E)) (sk_status k))
    (bind (signing_key_reconcile_labels E) (\<lambda>(result, err).
       if \<not> result_is_zero result \<or> err \<noteq> None then ret (result, err) else m))"
  unfolding leads_def
proof (intro allI impI)
  fix s :: "('a, signing_key) st"
  let ?K = "\<lambda>r (s' :: ('a, signing_key) st). signing_key_known (time_now (e_kube E)) (sk_status (cur s'))"
  assume run: "signing_key_run (time_now (e_kube E)) (sk_status (cur s))"
  have m: "wp m ?K s" using assms(2) run by (simp add: leads_def)
  have "signing_key_known (time_now (e_kube E)) (sk_status (snd (fst (cl_update_signing_key (e_kube E)
      ((cur s)\<lparr>sk_meta := t\<rparr>) (ext s)))))" for t
    using assms(1) run by (simp add: signing_key_update_law_def)
  then show "wp (bind (signing_key_reconcile_labels E) (\<lambda>(result, err).
       if \<not> result_is_zero result \<or> err \<noteq> None then ret (result, err) else m)) ?K s"
    using m signing_key_run_known [OF run]
    by (auto simp: signing_key_reconcile_labels_def update_signing_key_def write_cur_def split: option.split prod.split)
      (metis fst_conv snd_conv)+
qed

lemma signing_key_body_leads:
  assumes "signing_key_update_law E"
  shows "leads (\<lambda>k. signing_key_run (time_now (e_kube E)) (sk_status k))
    (\<lambda>k. signing_key_known (time_now (e_kube E)) (sk_status k)) (signing_key_reconcile_body E)"
  unfolding signing_key_reconcile_body_def
  by (intro leads_signing_key_labels [OF assms] leads_rules leads_bind [OF _ signing_key_run_known]
      preserves_rules preserves_signing_key_parts preserves_signing_key_marks signing_key_run_known)

lemma signing_key_body_total: "total now A (signing_key_reconcile_body E)"
  unfolding signing_key_reconcile_body_def ensure_owner_resolved_def signing_key_reconcile_labels_def
    ensure_key_pair_def new_signing_key_pair_def update_signing_key_def Let_def
  by (intro total_rules)

end
