(* ===== verification/Signing_Key_Properties.thy ===== *)
theory Signing_Key_Properties
  imports Signing_Key_Reconciler Base_Properties
begin

text \<open>
  The properties of the reconciler of SigningKeys, on its runs from any state: which owner it
  records, when it creates a key, the status it writes, and that it does not panic.
\<close>

section \<open>The owner's permission\<close>

text \<open>An owner admits the signing keys of its namespace with the labels its selector matches.\<close>

definition key_selector :: "client_object \<Rightarrow> label_selector option option" where
  "key_selector owner = (case owner of
       ObjOperator o' \<Rightarrow> Some (op_signing_keys_selector (op_spec o'))
     | ObjAccount a \<Rightarrow> Some (acc_signing_keys_selector (acc_spec a))
     | _ \<Rightarrow> None)"

definition owner_admits_key :: "machinery \<Rightarrow> client_object \<Rightarrow> signing_key \<Rightarrow> bool" where
  "owner_admits_key M owner sk =
     (m_namespace (object_get_meta owner) = m_namespace (sk_meta sk)
      \<and> (case key_selector owner of
           None \<Rightarrow> False
         | Some None \<Rightarrow> True
         | Some (Some sel) \<Rightarrow> (case label_selector_as_selector M sel of
             Inl _ \<Rightarrow> False
           | Inr s \<Rightarrow> sel_matches s (m_labels (sk_meta sk)))))"

lemma validate_owner_iff:
  "validate_owner_requirements M owner sk = None \<longleftrightarrow> owner_admits_key M owner sk"
  by (auto simp: validate_owner_requirements_def owner_admits_key_def key_selector_def
      split: client_object.split option.split sum.split)

section \<open>The owner that is recorded\<close>

lemma signing_key_owner_marks [simp]:
  "sks_owner_ref (fst (signing_key_mark_owner_resolved now v st)) = Some v"
  "sks_owner_ref (fst (signing_key_mark_owner_resolve_failed now reason f as st)) = None"
  "sks_owner_ref (fst (signing_key_mark_owner_resolve_unknown now reason f as st)) = None"
  by (cases st; simp add: signing_key_method_defs manage_def signing_key_set_conditions_def split: prod.split)+

definition owner_gvk_of :: "machinery \<Rightarrow> signing_key \<Rightarrow> gvk" where
  "owner_gvk_of M sk = from_api_version_and_kind M (sko_api_version (sk_owner_ref (sk_spec sk)))
     (sko_kind (sk_owner_ref (sk_spec sk)))"

definition owner_get :: "signing_key \<Rightarrow> object_kind \<Rightarrow> (error + client_object) \<Rightarrow> call" where
  "owner_get sk k a = ObjectGet k (m_namespace (sk_meta sk)) (sko_name (sk_owner_ref (sk_spec sk))) a"

definition reference_to :: "machinery \<Rightarrow> client_object \<Rightarrow> typed_object_reference" where
  "reference_to M owner =
     (case to_api_version_and_kind M (object_get_gvk owner) of (v, k) \<Rightarrow>
        \<lparr>tor_api_version = v, tor_kind = k, tor_name = m_name (object_get_meta owner),
         tor_namespace = m_namespace (object_get_meta owner), tor_uid = m_uid (object_get_meta owner)\<rparr>)"

text \<open>What \<open>ensureOwnerResolved\<close> does, as a table: the kind, the answer, the result, the reference.\<close>

definition owner_decided ::
  "machinery \<Rightarrow> signing_key \<Rightarrow> error option outcome \<Rightarrow> call list \<Rightarrow> typed_object_reference option \<Rightarrow> bool" where
  "owner_decided M sk r l ref = (case supported_owner M (owner_gvk_of M sk) of
       None \<Rightarrow> l = [] \<and> r = Returns None \<and> ref = None
     | Some k \<Rightarrow> (\<exists>a. l = [owner_get sk k a] \<and> (case a of
           Inl e \<Rightarrow> r = Returns (Some e) \<and> ref = None
         | Inr owner \<Rightarrow>
             (if owner_admits_key M owner sk then r = Returns None \<and> ref = Some (reference_to M owner)
              else (\<exists>e. r = Returns (Some (terminal_error e))) \<and> ref = None))))"

lemma ensure_owner_does:
  "does (ensure_owner_resolved E) c (\<lambda>r l d.
     owner_decided (e_mach E) c r l (sks_owner_ref (sk_status d)) \<and> sk_spec d = sk_spec c \<and> sk_meta d = sk_meta c)"
  unfolding ensure_owner_resolved_def Let_def
  by (intro does_rules)
    (auto simp: owner_decided_def owner_gvk_of_def [symmetric] owner_get_def validate_owner_iff [symmetric]
      reference_to_def split: prod.split)

section \<open>When a key is created\<close>

definition creates_secret :: "call \<Rightarrow> bool" where
  "creates_secret c = (case c of SecretCreate _ _ \<Rightarrow> True | _ \<Rightarrow> False)"

lemma creates_secret_simps [simp]:
  "creates_secret (SecretCreate sec err)" "\<not> creates_secret (SecretGet ns n a)" "\<not> creates_secret (ObjectGet k ns n b)"
  "\<not> creates_secret (KeyCreate q)" "\<not> creates_secret (ObjectUpdate x err)" "\<not> creates_secret (owner_get sk k b)"
  by (simp_all add: creates_secret_def owner_get_def)

definition seed_absent :: "signing_key \<Rightarrow> call set \<Rightarrow> bool" where
  "seed_absent sk X = (\<exists>e. SecretGet (m_namespace (sk_meta sk)) (sk_seed_secret_name (sk_spec sk)) (Inl e) \<in> X \<and> is_not_found e)"

definition owner_settled :: "machinery \<Rightarrow> signing_key \<Rightarrow> call set \<Rightarrow> bool" where
  "owner_settled M sk X = (supported_owner M (owner_gvk_of M sk) = None
     \<or> (\<exists>k owner. owner_get sk k (Inr owner) \<in> X \<and> owner_admits_key M owner sk))"

definition key_pair_from :: "signing_key \<Rightarrow> call set \<Rightarrow> key_pair option \<Rightarrow> bool" where
  "key_pair_from sk X kp = (\<exists>sec. SecretGet (m_namespace (sk_meta sk)) (sk_seed_secret_name (sk_spec sk)) (Inr sec) \<in> X
     \<and> kp = Some \<lparr>public_key = secret_bytes sec NatsSecretPublicKeyKey,
                   seed_secret_name = sk_seed_secret_name (sk_spec sk)\<rparr>)"

lemma signing_key_seed_mark [simp]:
  "sks_key_pair (fst (signing_key_mark_seed_secret_ready now pk name st)) = Some \<lparr>public_key = pk, seed_secret_name = name\<rparr>"
  by (cases st) (simp add: signing_key_method_defs manage_def signing_key_set_conditions_def split: prod.split)

text \<open>
  The protocol of a reconciliation: a secret is created only when the secret of that name was not
  found and the owner, of a supported kind, was read and admits the key; when nothing is left to do
  and there is an owner the status has the public key of the secret that was read. (A refused key
  ends without an error as well: its error is terminal.)
\<close>

definition key_protocol ::
  "machinery \<Rightarrow> signing_key \<Rightarrow> (ctrl_result \<times> error option) outcome \<Rightarrow> call list \<Rightarrow> signing_key \<Rightarrow> bool" where
  "key_protocol M c r l d =
     (guarded creates_secret (\<lambda>X. seed_absent c X \<and> owner_settled M c X) l
      \<and> (\<forall>e \<in> set l. signing_key_call_ok e)
      \<and> (r = Returns (zero_result, None) \<and> sks_owner_ref (sk_status d) \<noteq> None
          \<longrightarrow> key_pair_from c (set l) (sks_key_pair (sk_status d))))"

lemma ensure_key_pair_does:
  "does (ensure_key_pair E) c (\<lambda>r l d. guarded creates_secret (seed_absent c) l
     \<and> (r = Returns (zero_result, None) \<and> sks_owner_ref (sk_status d) \<noteq> None
          \<longrightarrow> key_pair_from c (set l) (sks_key_pair (sk_status d))))"
  unfolding ensure_key_pair_def new_signing_key_pair_def Let_def
  by (intro does_rules)
    (auto simp: key_pair_from_def seed_absent_def guarded_def Cons_eq_append_conv requeue_result_def zero_result_def)

lemma requeue_not_zero [simp]: "requeue_result \<noteq> zero_result" "zero_result \<noteq> requeue_result"
  by (simp_all add: requeue_result_def zero_result_def)

lemma seed_absent_mono: "seed_absent c X \<Longrightarrow> X \<subseteq> Y \<Longrightarrow> seed_absent c Y"
  unfolding seed_absent_def by blast

lemma owner_settled_mono: "owner_settled M c X \<Longrightarrow> X \<subseteq> Y \<Longrightarrow> owner_settled M c Y"
  unfolding owner_settled_def by blast

lemma key_pair_from_mono: "key_pair_from c X kp \<Longrightarrow> X \<subseteq> Y \<Longrightarrow> key_pair_from c Y kp"
  unfolding key_pair_from_def by blast

lemma same_key:
  assumes "sk_spec d = sk_spec c" and "sk_meta d = sk_meta c"
  shows "seed_absent d = seed_absent c" "key_pair_from d = key_pair_from c"
  using assms by (simp_all add: fun_eq_iff seed_absent_def key_pair_from_def)

text \<open>After the labels were in order the key is as it was.\<close>

lemma signing_key_labels_does:
  "does (signing_key_reconcile_labels E) c (\<lambda>r l d. (\<forall>e \<in> set l. \<exists>k err. e = ObjectUpdate (ObjSigningKey k) err)
     \<and> (\<exists>res err. r = Returns (res, err) \<and> (res = zero_result \<and> err = None \<longrightarrow> d = c)))"
  unfolding signing_key_reconcile_labels_def update_signing_key_def
  by (intro does_rules) auto

lemma key_reconcile_does:
  "does (signing_key_reconcile_body E) c (key_protocol (e_mach E) c)"
proof -
  let ?W = "\<lambda>X. seed_absent c X \<and> owner_settled (e_mach E) c X"
  let ?R = "\<lambda>(r :: (ctrl_result \<times> error option) outcome) l d. guarded creates_secret ?W l
     \<and> (r = Returns (zero_result, None) \<and> sks_owner_ref (sk_status d) \<noteq> None
          \<longrightarrow> key_pair_from c (set l) (sks_key_pair (sk_status d)))"
  have ensure: "does (ensure_key_pair E) d (\<lambda>r l d'. ?R r (p @ l) d')"
    if "\<forall>e \<in> set p. \<not> creates_secret e" "owner_settled (e_mach E) c (set p)"
      "sk_spec d = sk_spec c" "sk_meta d = sk_meta c" for p d
    by (rule does_mono [OF ensure_key_pair_does [of E d, unfolded same_key [OF that(3,4)]]])
      (use that(1,2) guarded_both [where W = "seed_absent c" and W' = "owner_settled (e_mach E) c" and p = p]
        in \<open>auto intro: seed_absent_mono owner_settled_mono key_pair_from_mono\<close>)
  have quiet: "\<not> creates_secret e" if "\<exists>k err. e = ObjectUpdate (ObjSigningKey k) err" for e
    using that by auto
  have decided: "(\<forall>e \<in> set l. \<not> creates_secret e) \<and> (r = Returns None \<longrightarrow> owner_settled (e_mach E) c (set l)) \<and> r \<noteq> Panics"
    if "owner_decided (e_mach E) c r l ref" for r l ref
  proof (cases "supported_owner (e_mach E) (owner_gvk_of (e_mach E) c)")
    case (Some k)
    with that obtain a where "l = [owner_get c k a]" and "case a of Inl e \<Rightarrow> r = Returns (Some e) \<and> ref = None
        | Inr owner \<Rightarrow> (if owner_admits_key (e_mach E) owner c then r = Returns None \<and> ref = Some (reference_to (e_mach E) owner)
              else (\<exists>e. r = Returns (Some (terminal_error e))) \<and> ref = None)"
      by (auto simp: owner_decided_def)
    then show ?thesis by (cases a) (auto simp: owner_settled_def split: if_splits)
  qed (use that in \<open>auto simp: owner_decided_def owner_settled_def\<close>)
  have pair: "does (bind (ensure_key_pair E) (\<lambda>(result, err). case err of
        Some e \<Rightarrow> ret (zero_result, Some (errorf f [AErr e])) | None \<Rightarrow> ret (result, None))) d (\<lambda>r l d'. ?R r (p @ l) d')"
    if "\<forall>e \<in> set p. \<not> creates_secret e" "owner_settled (e_mach E) c (set p)"
      "sk_spec d = sk_spec c" "sk_meta d = sk_meta c" for p d f
    by (rule does_seq [OF ensure [OF that]]) (auto intro!: does_rules)
  have labels: "does (bind (signing_key_reconcile_labels E) (\<lambda>(result, err).
      if \<not> result_is_zero result \<or> err \<noteq> None then ret (result, err)
      else bind (ensure_key_pair E) (\<lambda>(result, err). case err of
        Some e \<Rightarrow> ret (zero_result, Some (errorf f [AErr e])) | None \<Rightarrow> ret (result, None)))) d (\<lambda>r l d'. ?R r (p @ l) d')"
    if "\<forall>e \<in> set p. \<not> creates_secret e" "owner_settled (e_mach E) c (set p)"
      "sk_spec d = sk_spec c" "sk_meta d = sk_meta c" for p d f
  proof (rule does_seq [OF signing_key_labels_does])
    show "does (case a of (result, err) \<Rightarrow> if \<not> result_is_zero result \<or> err \<noteq> None then ret (result, err)
        else bind (ensure_key_pair E) (\<lambda>(result, err). case err of
          Some e \<Rightarrow> ret (zero_result, Some (errorf f [AErr e])) | None \<Rightarrow> ret (result, None))) d'
        (\<lambda>r l'. (\<lambda>l d'. ?R r (p @ l) d') (l @ l'))"
      if l: "(\<forall>e \<in> set l. \<exists>k err. e = ObjectUpdate (ObjSigningKey k) err)
        \<and> (\<exists>res err. Returns a = Returns (res, err) \<and> (res = zero_result \<and> err = None \<longrightarrow> d' = d))" for a l d'
    proof -
      obtain res err where a: "a = (res, err)" by (cases a)
      have q: "\<forall>e \<in> set (p @ l). \<not> creates_secret e" using l \<open>\<forall>e \<in> set p. _\<close> quiet by auto
      show ?thesis
      proof (cases "res = zero_result \<and> err = None")
        case True
        with l a have "d' = d" by simp
        moreover have "owner_settled (e_mach E) c (set (p @ l))"
          by (rule owner_settled_mono [OF \<open>owner_settled (e_mach E) c (set p)\<close>]) simp
        ultimately show ?thesis using pair [OF q, of d f] True \<open>sk_spec d = _\<close> \<open>sk_meta d = _\<close>
          by (simp add: a result_is_zero_def)
      qed (use q in \<open>auto simp: a result_is_zero_def intro!: does_rules guarded_none\<close>)
    qed
  qed auto
  have "does (signing_key_reconcile_body E) c ?R"
    unfolding signing_key_reconcile_body_def
  proof (rule does_seq [OF ensure_owner_does])
    show "does (case err of
        Some e \<Rightarrow> bind (signing_key_do (signing_key_mark_owner_resolve_failed now q f (as e))) (\<lambda>_. ret (as_result (Some e)))
      | None \<Rightarrow> bind (signing_key_reconcile_labels E) (\<lambda>(result, err).
          if \<not> result_is_zero result \<or> err \<noteq> None then ret (result, err)
          else bind (ensure_key_pair E) (\<lambda>(result, err). case err of
            Some e \<Rightarrow> ret (zero_result, Some (errorf g [AErr e])) | None \<Rightarrow> ret (result, None)))) d
        (\<lambda>r l'. ?R r (l @ l'))"
      if "owner_decided (e_mach E) c (Returns err) l (sks_owner_ref (sk_status d)) \<and> sk_spec d = sk_spec c
        \<and> sk_meta d = sk_meta c" for err l d f g q as now
    proof (cases err)
      case None
      with that decided [of "Returns err" l] have "\<forall>e \<in> set l. \<not> creates_secret e" "owner_settled (e_mach E) c (set l)"
        by blast+
      from labels [OF this, of d g] that None show ?thesis by simp
    next
      case (Some e)
      with that decided [of "Returns err" l] have "\<forall>e \<in> set l. \<not> creates_secret e" by blast
      then have "guarded creates_secret ?W l" by (rule guarded_none)
      then show ?thesis using Some by (auto intro!: does_rules)
    qed
  qed (use decided in blast)
  moreover have "does (signing_key_reconcile_body E) c (\<lambda>r l d. \<forall>e \<in> set l. signing_key_call_ok e)"
    by (rule does_emits [OF signing_key_body_emits])
  ultimately show ?thesis
    by (rule does_mono [OF does_conj]) (simp add: key_protocol_def)
qed

section \<open>Properties\<close>

text \<open>The owner of a signing key. For a kind that is neither Operator nor Account nothing is read and
  no owner is recorded. Otherwise the object of that kind and name in the key's own namespace is read
  once, and the status has a reference to it exactly when it was found and admits the key: its
  selector matches the key's labels, or it has none. A refusal is a terminal error, a failed read is
  handed on.\<close>

theorem signing_key_owner_recorded:
  assumes "ensure_owner_resolved E s = (r, s')"
  shows "\<exists>l. trace s' = trace s @ l \<and> owner_decided (e_mach E) (cur s) r l (sks_owner_ref (sk_status (cur s')))"
  using doesD [OF ensure_owner_does assms refl] by blast


text \<open>An account in the namespace of the key, which has no selector for signing keys.\<close>

definition key_of_account :: signing_key where
  "key_of_account = (sample_signing_key ''k'')\<lparr>sk_meta := empty_meta\<lparr>m_name := ''k'', m_namespace := ''ns''\<rparr>,
     sk_status := new_signing_key_status\<rparr>"

lemma sample_account_admits:
  "supported_owner plain_machinery (owner_gvk_of plain_machinery key_of_account) = Some KindAccount"
  "owner_admits_key plain_machinery (ObjAccount sample_account) key_of_account"
  by (simp_all add: supported_owner_def owner_gvk_of_def key_of_account_def sample_signing_key_def plain_machinery_def
      sample_scheme_def owner_admits_key_def key_selector_def sample_account_def empty_meta_def)

definition account_there :: "unit env" where
  "account_there = with_account sample_account sample_env"

lemma account_there_sel [simp]:
  "e_mach account_there = plain_machinery" "cl_get_account (e_kube account_there) = (\<lambda>ns name x. (Inr sample_account, x))"
  "cs_get_secret (e_kube account_there) = (\<lambda>ns name x. (Inl missing, x))"
  by (simp_all add: account_there_def with_account_def sample_env_def sample_kube_def)

lemma account_there_reads:
  assumes "ensure_owner_resolved account_there (start key_of_account) = (r, s')"
  shows "trace s' = [owner_get key_of_account KindAccount (Inr (ObjAccount sample_account))]"
proof -
  have "wp (ensure_owner_resolved account_there)
      (\<lambda>r t. trace t = [owner_get key_of_account KindAccount (Inr (ObjAccount sample_account))]) (start key_of_account)"
    using sample_account_admits validate_owner_iff [of plain_machinery "ObjAccount sample_account" key_of_account]
    by (simp add: ensure_owner_resolved_def Let_def start_def owner_gvk_of_def get_object_def get_account_def
        signing_key_do_def owner_get_def split: prod.split)
  with assms show ?thesis by (simp add: wp_run)
qed

theorem signing_key_owner_recorded_witness:
  "sks_owner_ref (sk_status (cur (snd (ensure_owner_resolved account_there (start key_of_account)))))
     = Some (reference_to plain_machinery (ObjAccount sample_account))"
proof -
  obtain r s' where run: "ensure_owner_resolved account_there (start key_of_account) = (r, s')" by fastforce
  from signing_key_owner_recorded [OF run] account_there_reads [OF run]
  have "owner_decided plain_machinery key_of_account r
      [owner_get key_of_account KindAccount (Inr (ObjAccount sample_account))] (sks_owner_ref (sk_status (cur s')))"
    by (simp add: start_def)
  with sample_account_admits run show ?thesis by (simp add: owner_decided_def owner_get_def)
qed


section \<open>The status, and panics\<close>

lemma signing_key_prepare_run:
  assumes "signing_key_known (time_now (e_kube E)) (sk_status (cur t))"
  shows "wp (signing_key_do (signing_key_initialize_conditions (time_now (e_kube E))))
    (\<lambda>r t'. signing_key_run (time_now (e_kube E)) (sk_status (cur t'))) t"
  using assms
  by (auto simp: signing_key_do_def signing_key_known_def signing_key_run_def set_signing_key_status_def split: prod.split)
    (metis fst_conv lifecycle_run.created lifecycle_run.initialized)+

text \<open>The status of a signing key. A reconciliation of a key whose status is new or was written by
  this controller writes the status at most once, as its last call, and exactly when the status
  differs from the one that was read; what it writes is a new status or a state of the lifecycle. A
  conflict without another error asks for another attempt after one second, any other failure is
  added to the error.\<close>

theorem signing_key_status_written:
  assumes "get_signing_key E ns name s = (Returns (Inr sk), s1)"
    and "signing_key_known (time_now (e_kube E)) (sk_status sk)"
    and "signing_key_update_law E"
    and "signing_key_reconcile E ns name s = (r, s')"
  shows "\<exists>front end. (\<forall>c \<in> set front. \<not> status_write c) \<and> signing_key_known (time_now (e_kube E)) (sk_status end)
    \<and> (trace s' = trace s1 @ front \<and> signing_key_status_equal (sk_status sk) (sk_status end)
       \<or> (\<exists>answer br. trace s' = trace s1 @ front @ [StatusUpdate (ObjSigningKey end) answer]
            \<and> \<not> signing_key_status_equal (sk_status sk) (sk_status end)
            \<and> r = deferral_outcome signing_key_status_error br answer))"
proof -
  have "wp (signing_key_do (signing_key_initialize_conditions (time_now (e_kube E))))
      (\<lambda>r t'. signing_key_run (time_now (e_kube E)) (sk_status (cur t'))) t" if "cur t = sk" for t
    using that assms(2) by (intro signing_key_prepare_run) simp
  from signing_key_frame.frame [OF assms(1) this signing_key_body_leads [OF assms(3)]] assms(4)
  show ?thesis by (auto simp: wp_run)
qed

text \<open>A cluster in which the one signing key is there.\<close>

definition with_signing_key :: "signing_key \<Rightarrow> unit env \<Rightarrow> unit env" where
  "with_signing_key k E = E\<lparr>e_kube := (e_kube E)\<lparr>cl_get_signing_key := (\<lambda>ns name x. (Inr k, x)),
     cl_update_signing_key := (\<lambda>k x. ((None, k), x))\<rparr>\<rparr>"

theorem signing_key_status_written_witness:
  "\<exists>front end. (trace (snd (signing_key_reconcile (with_signing_key key_of_account sample_env) ''ns'' ''k'' (start key_of_account)))
        = ObjectGet KindSigningKey ''ns'' ''k'' (Inr (ObjSigningKey key_of_account)) # front
          \<and> signing_key_status_equal new_signing_key_status (sk_status end)
      \<or> (\<exists>answer. trace (snd (signing_key_reconcile (with_signing_key key_of_account sample_env) ''ns'' ''k'' (start key_of_account)))
        = ObjectGet KindSigningKey ''ns'' ''k'' (Inr (ObjSigningKey key_of_account)) # front @ [StatusUpdate (ObjSigningKey end) answer]
          \<and> \<not> signing_key_status_equal new_signing_key_status (sk_status end)))
     \<and> signing_key_known (time_now sample_kube) (sk_status end)"
proof -
  let ?E = "with_signing_key key_of_account sample_env"
  obtain r s' where run: "signing_key_reconcile ?E ''ns'' ''k'' (start key_of_account) = (r, s')" by fastforce
  have now: "time_now (e_kube ?E) = time_now sample_kube" by (simp add: with_signing_key_def sample_env_def)
  have law: "signing_key_update_law ?E"
    by (simp add: signing_key_update_law_def with_signing_key_def signing_key_run_known)
  have get: "get_signing_key ?E ''ns'' ''k'' (start key_of_account) = (Returns (Inr key_of_account),
      (start key_of_account)\<lparr>trace := [ObjectGet KindSigningKey ''ns'' ''k'' (Inr (ObjSigningKey key_of_account))]\<rparr>)"
    by (simp add: get_signing_key_def external_def with_signing_key_def start_def)
  have status: "sk_status key_of_account = new_signing_key_status" by (simp add: key_of_account_def)
  have known: "signing_key_known (time_now (e_kube ?E)) (sk_status key_of_account)"
    by (simp add: status signing_key_known_def new_signing_key_status_fresh)
  from signing_key_status_written [OF get known law run] run show ?thesis
    by (simp add: now status) blast
qed

lemma new_signing_key_pair_returns: "logs (new_signing_key_pair E kind) (\<lambda>r l. r \<noteq> Panics)"
  unfolding new_signing_key_pair_def create_key_def by (intro logs_rules) simp_all

lemma signing_key_parts_return:
  "logs (ensure_owner_resolved E) (\<lambda>r l. r \<noteq> Panics)"
  "logs (signing_key_reconcile_labels E) (\<lambda>r l. r \<noteq> Panics)"
  "logs (ensure_key_pair E) (\<lambda>r l. r \<noteq> Panics)"
  unfolding ensure_owner_resolved_def signing_key_reconcile_labels_def ensure_key_pair_def update_signing_key_def Let_def
  by (intro logs_rules logs_seq [OF new_signing_key_pair_returns]; simp)+

lemma signing_key_body_returns: "logs (signing_key_reconcile_body E) (\<lambda>r l. r \<noteq> Panics)"
  unfolding signing_key_reconcile_body_def
  by (intro logs_rules logs_seq [OF signing_key_parts_return(1)] logs_seq [OF signing_key_parts_return(2)]
      logs_seq [OF signing_key_parts_return(3)]) simp_all

text \<open>C35: the reconciler of signing keys never panics, whatever the cluster answers and whatever is in the
  objects it reads.\<close>

theorem signing_key_never_panics:
  "fst (signing_key_reconcile E ns name s) \<noteq> Panics"
proof -
  have "logs (signing_key_reconcile E ns name) (\<lambda>r l. r \<noteq> Panics)"
    unfolding signing_key_reconcile_def get_signing_key_def update_signing_key_status_def
    by (intro logs_rules returns_with_status_deferral signing_key_body_returns) simp_all
  then show ?thesis by (cases "signing_key_reconcile E ns name s") (auto dest: logsD)
qed

end
