(* ===== verification/Account_Finalizer.thy ===== *)
theory Account_Finalizer
  imports Account_Signing
begin

text \<open>
  The finalizer of the accounts: what a finalization without an error means, the protocol the
  finalizer follows, and the status a reconciliation writes.
\<close>

section \<open>The finalizer\<close>

text \<open>A format without an error argument gives an error that wraps nothing.\<close>

lemma do_format_errors:
  "\<forall>a \<in> set as. \<forall>e. a \<noteq> AErr e \<Longrightarrow> do_format w f as = (t, left, es) \<Longrightarrow> es = []"
  by (induction w f as arbitrary: t left es rule: do_format.induct)
    (auto split: if_splits list.splits prod.splits fmt_arg.splits)

lemma not_found_errorf:
  assumes "\<forall>a \<in> set as. \<forall>e. a \<noteq> AErr e"
  shows "\<not> is_not_found (errorf f as)"
proof -
  obtain t left es where f: "do_format True f as = (t, left, es)" by (cases "do_format True f as") auto
  from do_format_errors [OF assms f] show ?thesis
    by (simp add: errorf_def format_all_def f is_not_found_def)
qed

definition answered_gone :: "call \<Rightarrow> bool" where
  "answered_gone c = (case c of
       ObjectGet _ _ _ (Inl e) \<Rightarrow> is_not_found e
     | SecretGet _ _ (Inl e) \<Rightarrow> is_not_found e
     | _ \<Rightarrow> False)"

lemma answered_gone_simps [simp]:
  "answered_gone (ObjectGet k n m (Inl e)) = is_not_found e" "answered_gone (SecretGet n m (Inl e)) = is_not_found e"
  by (simp_all add: answered_gone_def)

lemma system_account_gone:
  "logs (system_account_load E opr) (\<lambda>r l. r \<noteq> Panics
     \<and> (\<forall>e. r = Returns (Inl e) \<and> is_not_found e \<longrightarrow> (\<exists>c \<in> set l. answered_gone c)))"
  unfolding system_account_load_def
  by (intro logs_rules) (auto simp: not_found_errorf)

text \<open>
  What a finalization without an error means: there was nothing on the server (the status never had
  both conditions), the operator or its system account does not exist any more, or the server has
  accepted the deletion.
\<close>

definition finalized :: "'x env \<Rightarrow> account \<Rightarrow> call list \<Rightarrow> bool" where
  "finalized E c l =
     (\<not> is_true (account_get_condition AccountConditionJWTSecretReady (acc_status c))
      \<or> \<not> is_true (account_get_condition AccountConditionJWTPushed (acc_status c))
      \<or> (\<exists>e \<in> set l. answered_gone e)
      \<or> (\<exists>payload. \<exists>e \<in> set l. accepted E RequestSubjectClaimsDelete payload e))"

lemma finalized_append: "finalized E c l \<Longrightarrow> finalized E c (l @ l')"
  by (auto simp: finalized_def)

lemma finalize_none:
  "does (finalize_account E) c (\<lambda>r l d. r = Returns None \<longrightarrow> finalized E c l)"
proof -
  have options: "emits (get_nats_options E opr) (\<lambda>e. True)" for opr
    unfolding get_nats_options_def load_ca_file_def Let_def by (intro emits_rules TrueI)
  have conn: "emits (connect E url kp seed opts) (\<lambda>e. True)" for url kp seed opts
    by (rule emits_mono [OF connect_emits]) simp
  have keeps: "preserves I (get_nats_options E opr)" for I :: "account \<Rightarrow> bool" and opr
    unfolding get_nats_options_def load_ca_file_def Let_def by (intro preserves_rules)
  have delete: "does (bind get_cur (\<lambda>acc. bind (deref (accs_key_pair (acc_status acc))) (\<lambda>acc_kp.
      bind (client_delete E client (public_key acc_kp)) (\<lambda>err. case err of None \<Rightarrow> ret None | Some e \<Rightarrow> ret (Some e))))) d
      (\<lambda>r l d. r = Returns None \<longrightarrow> (\<exists>payload. \<exists>e \<in> set l. accepted E RequestSubjectClaimsDelete payload e))"
    for client d
    by (intro does_rules does_bind_steady [OF client_delete_logs]) auto
  show ?thesis
    unfolding finalize_account_def Let_def
    by (intro does_rules does_bind_steady [OF system_account_gone] does_bind_emits [OF options keeps]
        does_bind_emits [OF conn] does_defer_close [OF delete])
      (auto simp: finalized_def)
qed

lemma preserves_same_finalize: "preserves (same_account c) (finalize_account E)"
  unfolding finalize_account_def Let_def get_nats_options_def load_ca_file_def by (intro preserves_rules)

lemma finalize_does:
  "does (finalize_account E) c (\<lambda>r l d. (r = Returns None \<longrightarrow> finalized E c l) \<and> (\<forall>e \<in> set l. nats_call e) \<and> same_account c d)"
  by (rule does_conj [OF finalize_none does_keeps [OF emits_logs [OF emits_finalize_account]
      preserves_same_finalize]]) auto

definition has_finalizer :: "machinery \<Rightarrow> account \<Rightarrow> bool" where
  "has_finalizer M a = contains_finalizer M (m_finalizers (acc_meta a)) AccountFinalizer"

text \<open>The calls of a reconciliation outside its live part, by the state of the account.\<close>

definition finalizer_protocol ::
  "'x env \<Rightarrow> account \<Rightarrow> 'a outcome \<Rightarrow> call list \<Rightarrow> bool" where
  "finalizer_protocol E c r l =
     (if not_deleted (acc_meta c)
      then \<not> has_finalizer (e_mach E) c \<longrightarrow> (\<exists>a err. l = [ObjectUpdate (ObjAccount a) err]
          \<and> m_finalizers (acc_meta a) = add_finalizer (e_mach E) (m_finalizers (acc_meta c)) AccountFinalizer)
      else if has_finalizer (e_mach E) c
      then (\<exists>front ending. l = front @ ending \<and> (\<forall>e \<in> set front. nats_call e)
          \<and> ((\<exists>ob msg. ending = [EventSent ob EventTypeWarning ''FinalizeFailed'' msg])
             \<or> (r = Panics \<and> ending = [])
             \<or> (\<exists>a err. ending = [ObjectUpdate (ObjAccount a) err] \<and> finalized E c front
                  \<and> m_finalizers (acc_meta a) = remove_finalizer (e_mach E) (m_finalizers (acc_meta c)) AccountFinalizer)))
      else l = [])"

lemma finalizer_ends:
  assumes "\<not> not_deleted (acc_meta c)" "has_finalizer (e_mach E) c" "\<forall>e \<in> set front. nats_call e"
    and "(\<exists>ob msg. ending = [EventSent ob EventTypeWarning ''FinalizeFailed'' msg]) \<or> (r = Panics \<and> ending = [])
      \<or> (\<exists>a err. ending = [ObjectUpdate (ObjAccount a) err] \<and> finalized E c front
           \<and> m_finalizers (acc_meta a) = remove_finalizer (e_mach E) (m_finalizers (acc_meta c)) AccountFinalizer)"
  shows "finalizer_protocol E c r (front @ ending)"
  using assms unfolding finalizer_protocol_def by simp blast

lemma account_body_finalizer:
  "does (account_reconcile_body E) c (\<lambda>r l d. finalizer_protocol E c r l)"
proof -
  have live: "does (account_reconcile_live E) c (\<lambda>r l d. finalizer_protocol E c r l)"
    if "not_deleted (acc_meta c)" "has_finalizer (e_mach E) c"
    by (rule does_emits [OF account_live_emits]) (simp add: that finalizer_protocol_def)
  have update: "finalizer_protocol E c r (l @ [ObjectUpdate (ObjAccount a) err])"
    if "\<not> not_deleted (acc_meta c)" "has_finalizer (e_mach E) c" "\<forall>e \<in> set l. nats_call e" "finalized E c l"
      "m_finalizers (acc_meta a) = remove_finalizer (e_mach E) (m_finalizers (acc_meta c)) AccountFinalizer" for l a err
    and r :: "(ctrl_result \<times> error option) outcome"
    by (rule finalizer_ends) (use that in auto)
  have failed: "finalizer_protocol E c r (l @ [EventSent ob EventTypeWarning ''FinalizeFailed'' msg])"
    if "\<not> not_deleted (acc_meta c)" "has_finalizer (e_mach E) c" "\<forall>e \<in> set l. nats_call e" for l ob msg
    and r :: "(ctrl_result \<times> error option) outcome"
    by (rule finalizer_ends) (use that in auto)
  have panicked: "finalizer_protocol E c (Panics :: (ctrl_result \<times> error option) outcome) l"
    if "\<not> not_deleted (acc_meta c)" "has_finalizer (e_mach E) c" "\<forall>e \<in> set l. nats_call e" for l
    using finalizer_ends [where ending = "[]" and front = l and r = "Panics :: (ctrl_result \<times> error option) outcome"] that by simp
  have single: "finalizer_protocol E c r [ObjectUpdate (ObjAccount a) err]"
    if "not_deleted (acc_meta c)" "\<not> has_finalizer (e_mach E) c"
      "m_finalizers (acc_meta a) = add_finalizer (e_mach E) (m_finalizers (acc_meta c)) AccountFinalizer" for a err
    and r :: "(ctrl_result \<times> error option) outcome"
    using that by (simp add: finalizer_protocol_def)
  have none: "finalizer_protocol E c r []" if "\<not> not_deleted (acc_meta c)" "\<not> has_finalizer (e_mach E) c"
    for r :: "(ctrl_result \<times> error option) outcome"
    using that by (simp add: finalizer_protocol_def)
  note protocol = update [unfolded has_finalizer_def] failed [unfolded has_finalizer_def] single [unfolded has_finalizer_def] none [unfolded has_finalizer_def]
  show ?thesis
    unfolding account_reconcile_body_def update_account_def
    by (intro does_rules live does_seq [OF finalize_does])
      (auto simp: has_finalizer_def set_account_meta_def same_account_def intro!: protocol,
        auto simp: has_finalizer_def intro!: panicked)
qed

section \<open>Properties of the finalizer\<close>

text \<open>C3: the finalizer of an account. An account without it gets it first, before anything else is
  written. When the account is being deleted, no secret is touched, and the finalizer is taken away,
  as the last call, only after a finalization without an error: the account had not been pushed, the
  operator or its system account is gone, or the server has accepted the deletion.\<close>

theorem account_finalizer:
  assumes "account_reconcile_body E s = (r, s')"
  shows "\<exists>l. trace s' = trace s @ l \<and> finalizer_protocol E (cur s) r l"
  using doesD [OF account_body_finalizer assms refl] by blast

definition deleted_account :: account where
  "deleted_account = sample_account\<lparr>acc_meta := (acc_meta sample_account)
     \<lparr>m_deletion_timestamp := Some 5, m_finalizers := [AccountFinalizer]\<rparr>\<rparr>"

theorem account_finalizer_witness:
  "\<exists>a. trace (snd (account_reconcile_body sample_env (start deleted_account))) = [ObjectUpdate (ObjAccount a) None]
     \<and> m_finalizers (acc_meta a) = []"
proof -
  let ?m = "account_reconcile_body sample_env (start deleted_account)"
  have state: "\<not> not_deleted (acc_meta deleted_account)" "has_finalizer (e_mach sample_env) deleted_account"
    "\<not> is_true (account_get_condition AccountConditionJWTSecretReady (acc_status deleted_account))"
    by (simp_all add: deleted_account_def sample_account_def not_deleted_def zero_time_def has_finalizer_def sample_env_def
        plain_machinery_def account_get_condition_def account_get_conditions_def get_conditions_def get_condition_def)
  obtain r s' where run: "?m = (r, s')" by fastforce
  have "finalize_account sample_env (start deleted_account) = (Returns None, start deleted_account)"
    using state(3) by (simp add: finalize_account_def get_cur_def gets_def bind_def ret_def start_def)
  then obtain a where "trace s' = [ObjectUpdate (ObjAccount a) None]"
    using run state(1,2)
    by (auto simp: account_reconcile_body_def has_finalizer_def bind_def get_cur_def gets_def start_def modify_cur_def
        set_cur_def modify_def update_account_def write_cur_def external_def ret_def sample_env_def sample_kube_def)
  moreover from account_finalizer [OF run] state calculation have "m_finalizers (acc_meta a) = []"
    by (auto simp: finalizer_protocol_def start_def has_finalizer_def sample_env_def plain_machinery_def
        deleted_account_def Cons_eq_append_conv nats_call_def)
  ultimately show ?thesis using run by simp
qed

section \<open>The status\<close>

lemma account_prepare_run:
  assumes "account_known (time_now (e_kube E)) (acc_status (cur t))"
  shows "wp (account_do (account_initialize_conditions (time_now (e_kube E))))
    (\<lambda>r t'. account_run (time_now (e_kube E)) (acc_status (cur t'))) t"
  using assms
  by (auto simp: account_do_def account_known_def account_run_def set_account_status_def split: prod.split)
    (metis fst_conv lifecycle_run.created lifecycle_run.initialized)+

text \<open>The status of an account. A reconciliation of an account whose status is new or was written by
  this controller writes the status at most once, as its last call, and exactly when the status
  differs from the one that was read; what it writes is a new status or a state of the lifecycle, also
  after the account itself was updated and the answer of the server replaced it. A conflict without
  another error asks for another attempt after one second, any other failure is added to the error.\<close>

theorem account_status_written:
  assumes "get_account E ns name s = (Returns (Inr acc), s1)"
    and "account_known (time_now (e_kube E)) (acc_status acc)"
    and "account_update_law E"
    and "account_reconcile E ns name s = (r, s')"
  shows "\<exists>front end. (\<forall>c \<in> set front. \<not> status_write c) \<and> account_known (time_now (e_kube E)) (acc_status end)
    \<and> (trace s' = trace s1 @ front \<and> account_status_equal (acc_status acc) (acc_status end)
       \<or> (\<exists>answer br. trace s' = trace s1 @ front @ [StatusUpdate (ObjAccount end) answer]
            \<and> \<not> account_status_equal (acc_status acc) (acc_status end)
            \<and> r = deferral_outcome id br answer))"
proof -
  have "wp (account_do (account_initialize_conditions (time_now (e_kube E))))
      (\<lambda>r t'. account_run (time_now (e_kube E)) (acc_status (cur t'))) t" if "cur t = acc" for t
    using that assms(2) by (intro account_prepare_run) simp
  from account_frame.frame [OF assms(1) this account_body_leads [OF assms(3)]] assms(4)
  show ?thesis by (auto simp: wp_run)
qed

lemma with_account_law: "account_update_law (with_account a sample_env)"
  by (simp add: account_update_law_def with_account_def account_run_known)

definition new_account :: account where
  "new_account = sample_account\<lparr>acc_status := new_account_status\<rparr>"

lemma new_account_status_known: "account_known now new_account_status"
  by (simp add: account_known_def fresh_status_def new_account_status_def account_get_conditions_def
      get_conditions_def account_backed_def)

section \<open>The finalizer can be stuck\<close>

lemma finalize_panics:
  assumes "is_true (account_get_condition AccountConditionJWTSecretReady (acc_status (cur s)))"
    and "is_true (account_get_condition AccountConditionJWTPushed (acc_status (cur s)))"
    and "accs_operator_ref (acc_status (cur s)) = None"
  shows "finalize_account E s = (Panics, s)"
  using assms by (simp add: finalize_account_def Let_def bind_def get_cur_def gets_def deref_def panic_def)

text \<open>C5: an account whose JWT was pushed and whose operator does not admit it any more (or whose
  operator could not be resolved in the last reconciliation) cannot be deleted: the status has both
  JWT conditions and no operator reference, \<open>finalizeAccount\<close> dereferences the nil pointer, and the
  reconciliation panics before it has called anything. So the finalizer stays, whatever the
  cluster answers.\<close>

theorem account_finalizer_stuck:
  assumes "account_run now (acc_status (cur s))"
    and "is_true (account_get_condition AccountConditionJWTSecretReady (acc_status (cur s)))"
    and "is_true (account_get_condition AccountConditionJWTPushed (acc_status (cur s)))"
    and "\<not> is_true (account_get_condition AccountConditionOperatorResolved (acc_status (cur s)))"
    and "\<not> not_deleted (acc_meta (cur s))" and "has_finalizer (e_mach E) (cur s)"
  shows "account_reconcile_body E s = (Panics, s)"
proof -
  have "accs_operator_ref (acc_status (cur s)) = None" using account_run_fields(2) [OF assms(1)] assms(4) by blast
  then have "finalize_account E s = (Panics, s)" using assms(2,3) by (intro finalize_panics)
  then show ?thesis
    using assms(5,6) by (simp add: account_reconcile_body_def bind_def get_cur_def gets_def has_finalizer_def)
qed

text \<open>A run of the lifecycle, call by call.\<close>

definition account_calls :: "account_method list \<Rightarrow> account_status \<times> int \<Rightarrow> account_status \<times> int" where
  "account_calls ms st = fold (account_call tick) ms st"

lemma account_calls_run: "account_run tick (fst st) \<Longrightarrow> account_run tick (fst (account_calls ms st))"
proof (induction ms arbitrary: st)
  case (Cons m ms)
  have "account_run tick (fst (account_call tick m (fst st, snd st)))"
    using Cons.prems unfolding account_run_def by (rule lifecycle_run.called)
  with Cons.IH show ?case by (simp add: account_calls_def)
qed (simp add: account_calls_def)

text \<open>The account was pushed, then its labels stopped matching.\<close>

definition unadmitted_status :: account_status where
  "unadmitted_status = fst (account_calls
     [AccountMarkSeedSecretReady \<lparr>public_key = ''A'', seed_secret_name = ''seed''\<rparr>,
      AccountMarkOperatorResolved \<lparr>ior_namespace = ''ns'', ior_name = ''op''\<rparr>, AccountMarkIssuerResolved,
      AccountMarkSigningKeysUpdated [], AccountMarkJwtSecretReady, AccountMarkJwtPushed,
      AccountMarkOperatorResolveFailed ReasonNotAllowed [] []]
     (account_initialize_conditions tick (new_account_status, 0)))"

lemma unadmitted_status_run: "account_run tick unadmitted_status"
  unfolding unadmitted_status_def
  by (rule account_calls_run, unfold account_run_def, rule lifecycle_run.created)
    (simp add: fresh_status_def new_account_status_def account_get_conditions_def get_conditions_def account_backed_def account_backs_def)

lemma unadmitted_status_conditions:
  "is_true (account_get_condition AccountConditionJWTSecretReady unadmitted_status)
     \<and> is_true (account_get_condition AccountConditionJWTPushed unadmitted_status)
     \<and> \<not> is_true (account_get_condition AccountConditionOperatorResolved unadmitted_status)"
  by code_simp

theorem account_finalizer_stuck_witness:
  "account_reconcile_body sample_env (start (deleted_account\<lparr>acc_status := unadmitted_status\<rparr>)) =
     (Panics, start (deleted_account\<lparr>acc_status := unadmitted_status\<rparr>))"
  by (rule account_finalizer_stuck [where now = tick])
    (simp_all add: start_def unadmitted_status_run unadmitted_status_conditions deleted_account_def sample_account_def
      not_deleted_def zero_time_def has_finalizer_def sample_env_def plain_machinery_def)

end
