(* ===== verification/Settling.thy ===== *)
theory Settling
  imports User_Properties Signing_Key_Properties Account_Finalizer
begin

text \<open>
  Reconciliation comes to rest: what a reconciliation writes is found in order by the next one. A
  secret that was built for a new key is read back as that key, and a stored JWT is kept as long as
  the claims are the same.
\<close>

section \<open>Secrets are read back as they were built\<close>

text \<open>A new seed comes back. The secret that is built for a new key pair, read again, gives the key
  pair's public key and is left as it is: no call is made and no other reconciliation is asked for.
  The hypotheses are what nkeys documents (the key pair of a seed is the one the seed came from) and
  what controllerutil documents.\<close>

theorem seed_secret_roundtrip:
  assumes "machinery_laws (e_mach E)" and "opts \<in> program_options (e_mach E)"
    and "kp_seed kp = Inr seed" and "kp_public_key kp = Inr pk" and "from_seed (e_nkeys E) seed = Inr kp"
    and "key_pair_secret_build (e_mach E) new_key_pair_secret_builder owner kp opts = Inr sec"
  shows "ensure_seed_secret_up_to_date E owner sec opts s =
    (Returns (Some \<lparr>public_key = pk, seed_secret_name = m_name (s_meta sec)\<rparr>, zero_result, None), s)"
proof -
  have seed: "fmlookup (s_data sec) NatsSecretSeedKey = Some seed"
    by (rule key_pair_secret_seed [OF assms(6,3)])
  have "key_pair_secret_build (e_mach E) sec owner kp opts = Inr sec"
    by (rule key_pair_builder.build_again [OF _ assms(6)]) (simp add: assms(1,2))
  then show ?thesis
    by (simp add: ensure_seed_secret_up_to_date_def seed assms(4,5) new_key_pair_secret_builder_from_secret_def ret_def)
qed

theorem seed_secret_roundtrip_witness:
  "\<exists>sec. key_pair_secret_build plain_machinery new_key_pair_secret_builder (ObjAccount sample_account) (key_of_seed ''A'')
        [immutable, with_deletion_prevention plain_machinery] = Inr sec
     \<and> fst (ensure_seed_secret_up_to_date sample_env (ObjAccount sample_account) sec
          [immutable, with_deletion_prevention plain_machinery] (start sample_account))
        = Returns (Some \<lparr>public_key = ''pub-A'', seed_secret_name = m_name (s_meta sec)\<rparr>, zero_result, None)"
proof -
  obtain sec where sec: "key_pair_secret_build plain_machinery new_key_pair_secret_builder (ObjAccount sample_account)
      (key_of_seed ''A'') [immutable, with_deletion_prevention plain_machinery] = Inr sec"
    by (simp add: key_pair_secret_build_def immutable_def with_deletion_prevention_def finish_secret_def
        plain_machinery_def Let_def)
  have "from_seed (e_nkeys sample_env) ''A'' = Inr (key_of_seed ''A'')" by (simp add: sample_env_def sample_nkeys_def)
  with seed_secret_roundtrip [of sample_env "[immutable, with_deletion_prevention plain_machinery]" "key_of_seed ''A''"
      "''A''" "''pub-A''" "ObjAccount sample_account" sec "start sample_account"] sec
  show ?thesis by (simp add: plain_machinery_laws program_options_def)
qed

text \<open>C25: credentials come back. The credentials secret that is built for a token and a seed is found in
  order the next time, with the same CA: the status is marked and nothing is written.\<close>

theorem credentials_secret_roundtrip:
  assumes "machinery_laws (e_mach E)"
    and "user_credential_secret_build E (new_user_credential_secret_builder ca) (cur s) jwt seed = Inr sec"
    and "ensure_credentials_secret_up_to_date E jwt seed sec ca s = (r, s')"
  shows "r = Returns (zero_result, None) \<and> trace s' = trace s"
proof -
  have "user_credential_secret_build E (new_user_credential_secret_builder_from_secret sec ca) (cur s) jwt seed = Inr sec"
    by (rule credential_builder.build_again [OF assms(1)])
      (use assms(2) in \<open>simp add: new_user_credential_secret_builder_def new_user_credential_secret_builder_from_secret_def\<close>)
  then have "wp (ensure_credentials_secret_up_to_date E jwt seed sec ca)
      (\<lambda>r s'. r = Returns (zero_result, None) \<and> trace s' = trace s) s"
    by (simp add: ensure_credentials_secret_up_to_date_def Let_def user_do_def split: prod.split)
  with assms(3) show ?thesis by (simp add: wp_run)
qed

theorem credentials_secret_roundtrip_witness:
  "\<exists>sec. user_credential_secret_build sample_env (new_user_credential_secret_builder []) sample_user ''jwt'' ''U'' = Inr sec
     \<and> trace (snd (ensure_credentials_secret_up_to_date sample_env ''jwt'' ''U'' sec [] (start sample_user))) = []"
proof -
  obtain sec where sec: "user_credential_secret_build sample_env (new_user_credential_secret_builder []) sample_user
      ''jwt'' ''U'' = Inr sec" by (rule sample_credentials)
  obtain r s' where run: "ensure_credentials_secret_up_to_date sample_env ''jwt'' ''U'' sec [] (start sample_user) = (r, s')"
    by fastforce
  have "trace s' = []"
    using credentials_secret_roundtrip [OF _ _ run] sec by (simp add: plain_machinery_laws start_def)
  with sec run show ?thesis by auto
qed

section \<open>A stored JWT is kept\<close>

text \<open>
  What the jwt library documents of encoding: the claims that come back are those that went in with
  the issuer, the ID and the time filled in, so two encodings differ in the ID and the time only.
\<close>

definition encoding_law :: "'x env \<Rightarrow> bool" where
  "encoding_law E = (\<forall>c kp x y c1 t1 c2 t2. fst (encode_account (e_jwt E) c kp x) = Inr (c1, t1)
     \<and> fst (encode_account (e_jwt E) c kp y) = Inr (c2, t2) \<longrightarrow> claims_equal (AccountClaims c1) (AccountClaims c2))"

lemma create_account_claims_encoded:
  assumes "create_account_claims E acc issuer s = (Returns (Inr (c, token)), s')"
  shows "\<exists>kp. accs_key_pair (acc_status acc) = Some kp \<and>
    fst (encode_account (e_jwt E) (account_claims_of (e_jwt E) acc kp) issuer (ext s)) = Inr (c, token)"
  using assms
  by (auto simp: create_account_claims_def bind_def deref_def external_def ret_def panic_def
      split: option.splits prod.splits sum.splits)

lemma claims_equal_sym: "claims_equal a b \<Longrightarrow> claims_equal b a"
  by (simp add: claims_equal_normal)

text \<open>C26: a stored JWT is kept. When the token of an earlier encoding of the account's claims is found in
  the JWT secret, it decodes to those claims, and the account is the same, the reconciliation returns
  the stored token although it encodes a new one: it encodes, reads the secret and writes nothing.\<close>

theorem account_jwt_stable:
  assumes "encoding_law E" and "jwt_decode (e_jwt E) token = Inr (AccountClaims c0)"
    and "create_account_claims E (cur s) issuer s0 = (Returns (Inr (c0, token)), s0')"
    and "create_account_claims E (cur s) issuer s = (Returns (Inr (c, token')), s1)"
    and "get_secret E (m_namespace (acc_meta (cur s))) (acc_jwt_secret_name (acc_spec (cur s))) s1
           = (Returns (Inr got), s2)"
    and "fmlookup (s_data got) NatsSecretJWTKey = Some token"
  shows "account_reconcile_jwt_secret E issuer s = (Returns (token, zero_result, None), s2)"
proof -
  obtain kp where "fst (encode_account (e_jwt E) (account_claims_of (e_jwt E) (cur s) kp) issuer (ext s0)) = Inr (c0, token)"
      "fst (encode_account (e_jwt E) (account_claims_of (e_jwt E) (cur s) kp) issuer (ext s)) = Inr (c, token')"
    using create_account_claims_encoded [OF assms(3)] create_account_claims_encoded [OF assms(4)] by auto
  with assms(1) have "claims_equal (AccountClaims c0) (AccountClaims c)"
    unfolding encoding_law_def by blast
  then show ?thesis
    using assms(2,4,5,6)
    by (simp add: account_reconcile_jwt_secret_def bind_def get_cur_def gets_def ret_def ensure_jwt_secret_up_to_date_def)
qed

definition keyed_account :: account where
  "keyed_account = sample_account\<lparr>acc_status :=
     new_account_status\<lparr>accs_key_pair := Some \<lparr>public_key = ''pub-A'', seed_secret_name = ''seed''\<rparr>\<rparr>\<rparr>"

theorem account_jwt_stable_witness:
  "\<exists>c0 token sec E. encode_account (e_jwt E) c0 (key_of_seed ''O'') () = (Inr (c0, token), ())
     \<and> (\<forall>ns nm. cs_get_secret (e_kube E) ns nm () = (Inr sec, ())) \<and> fmlookup (s_data sec) NatsSecretJWTKey = Some token
     \<and> fst (account_reconcile_jwt_secret E (key_of_seed ''O'') (start keyed_account)) = Returns (token, zero_result, None)"
proof -
  define kp where "kp = \<lparr>public_key = ''pub-A'', seed_secret_name = ''seed''\<rparr>"
  define c0 where "c0 = account_claims_of sample_jwt keyed_account kp"
  define token where "token = ''jwt-'' @ cd_subject (ac_data c0)"
  define sec where "sec = empty_secret\<lparr>s_data := fmupd NatsSecretJWTKey token fmempty\<rparr>"
  define E where "E = sample_env\<lparr>e_jwt := sample_jwt\<lparr>jwt_decode := (\<lambda>_. Inr (AccountClaims c0))\<rparr>,
      e_kube := sample_kube\<lparr>cs_get_secret := (\<lambda>_ _ x. (Inr sec, x))\<rparr>\<rparr>"
  have same: "account_claims_of (sample_jwt\<lparr>jwt_decode := d\<rparr>) a k = account_claims_of sample_jwt a k" for d a k
    by (simp add: account_claims_of_def convert_to_nats_imports_def Let_def)
  have enc: "encode_account (e_jwt E) c k x = (Inr (c, ''jwt-'' @ cd_subject (ac_data c)), x)" for c k x
    by (simp add: E_def sample_jwt_def)
  have law: "encoding_law E" by (simp add: encoding_law_def enc claims_equal_normal)
  have dec: "jwt_decode (e_jwt E) token = Inr (AccountClaims c0)" by (simp add: E_def)
  have start_sel: "cur (start a) = a" for a :: account by (simp add: start_def)
  have create: "create_account_claims E keyed_account i s = (Returns (Inr (c0, token)),
      s\<lparr>trace := trace s @ [JwtEncode ''pub-A'' i (Inr token)]\<rparr>)" for i and s :: "(unit, account) st"
    by (simp add: create_account_claims_def bind_def external_def ret_def enc keyed_account_def c0_def token_def kp_def)
      (simp add: E_def same)
  have get: "get_secret E ns nm s = (Returns (Inr sec), s\<lparr>trace := trace s @ [SecretGet ns nm (Inr sec)]\<rparr>)"
    for ns nm and s :: "(unit, account) st"
    by (simp add: get_secret_def external_def E_def)
  have "fst (account_reconcile_jwt_secret E (key_of_seed ''O'') (start keyed_account)) = Returns (token, zero_result, None)"
    by (subst account_jwt_stable [OF law dec, of "start keyed_account", unfolded start_sel, OF create create get])
      (simp_all add: sec_def)
  moreover have "encode_account (e_jwt E) c0 (key_of_seed ''O'') () = (Inr (c0, token), ())"
    unfolding token_def by (rule enc)
  moreover have "fmlookup (s_data sec) NatsSecretJWTKey = Some token" by (simp add: sec_def)
  moreover have "\<forall>ns nm. cs_get_secret (e_kube E) ns nm () = (Inr sec, ())" by (simp add: E_def)
  ultimately show ?thesis by blast
qed

end
