(* ===== verification/Connections.thy ===== *)
theory Connections
  imports Account_Finalizer
begin

text \<open>
  Connections to the NATS server: both users of the client, the push of an account's JWT and the
  finalizer, close what they opened, also when they panic in between (\<open>defer nscClient.Close()\<close>).
\<close>

section \<open>The protocol of a connection\<close>

text \<open>
  The calls of code that uses the server: either no connection was made, no request and no close,
  or one connection was made, all requests come after it and go over it, it is closed once, after
  the requests, and what follows does not use the server any more.
\<close>

fun of_connection :: "nat \<Rightarrow> call \<Rightarrow> bool" where
  "of_connection conn (NatsRequest c _ _ _) = (c = conn)"
| "of_connection conn (NatsConnect _ _) = False"
| "of_connection conn (NatsClose _) = False"
| "of_connection conn _ = True"

fun unconnected :: "call \<Rightarrow> bool" where
  "unconnected (NatsRequest _ _ _ _) = False"
| "unconnected (NatsConnect _ r) = (case r of Inl _ \<Rightarrow> True | Inr _ \<Rightarrow> False)"
| "unconnected (NatsClose _) = False"
| "unconnected _ = True"

definition connection_closed :: "call list \<Rightarrow> bool" where
  "connection_closed l = ((\<forall>c \<in> set l. unconnected c)
     \<or> (\<exists>front url conn use rest.
          l = front @ [NatsConnect url (Inr conn)] @ use @ [NatsClose conn] @ rest
          \<and> (\<forall>c \<in> set front. unconnected c) \<and> (\<forall>c \<in> set use. of_connection conn c)
          \<and> (\<forall>c \<in> set rest. unconnected c)))"

lemma unconnected_closed: "\<forall>c \<in> set l. unconnected c \<Longrightarrow> connection_closed l"
  by (simp add: connection_closed_def)

lemma connection_closed_around:
  assumes "\<forall>c \<in> set p. unconnected c" and "connection_closed l" and "\<forall>c \<in> set q. unconnected c"
  shows "connection_closed (p @ l @ q)"
proof (cases "\<forall>c \<in> set l. unconnected c")
  case True
  with assms show ?thesis by (intro unconnected_closed) auto
next
  case False
  then obtain front url conn use rest where
    l: "l = front @ [NatsConnect url (Inr conn)] @ use @ [NatsClose conn] @ rest"
      "\<forall>c \<in> set front. unconnected c" "\<forall>c \<in> set use. of_connection conn c" "\<forall>c \<in> set rest. unconnected c"
    using assms(2) unfolding connection_closed_def by auto
  show ?thesis
    unfolding connection_closed_def
    by (intro disjI2 exI [of _ "p @ front"] exI [of _ url] exI [of _ conn] exI [of _ use] exI [of _ "rest @ q"])
      (use l assms(1,3) in auto)
qed

lemma connection_closed_use:
  assumes "\<forall>c \<in> set front. unconnected c" and "\<forall>c \<in> set use. of_connection conn c"
  shows "connection_closed (front @ [NatsConnect url (Inr conn)] @ use @ [NatsClose conn])"
  unfolding connection_closed_def
  by (intro disjI2 exI [of _ front] exI [of _ url] exI [of _ conn] exI [of _ use] exI [of _ "[]"]) (use assms in auto)

section \<open>Code that closes its connection\<close>

definition closes :: "(('x, 'o) st, 'a) go \<Rightarrow> bool" where
  "closes m = logs m (\<lambda>_. connection_closed)"

named_theorems closes_rules \<open>rules for the judgement closes\<close>

lemma closes_emits: "emits m unconnected \<Longrightarrow> closes m"
  unfolding closes_def by (rule logs_mono [OF emits_logs unconnected_closed])

lemma closes_after:
  assumes "emits m unconnected" and "\<And>a. closes (k a)"
  shows "closes (bind m k)"
  unfolding closes_def
proof (rule logs_seq [OF emits_logs [OF assms(1)]])
  show "logs (k a) (\<lambda>r l'. connection_closed (l @ l'))" if "\<forall>c \<in> set l. unconnected c" for a l
    using assms(2) [of a] connection_closed_around [OF that, where q = "[]"]
    unfolding closes_def by (auto elim!: logs_mono)
qed (auto intro: unconnected_closed)

lemma closes_before:
  assumes "closes m" and "\<And>a. emits (k a) unconnected"
  shows "closes (bind m k)"
  unfolding closes_def
proof (rule logs_seq [OF assms(1) [unfolded closes_def]])
  show "logs (k a) (\<lambda>r l'. connection_closed (l @ l'))" if "connection_closed l" for a l
    by (rule logs_mono [OF emits_logs [OF assms(2)]]) (use that connection_closed_around [where p = "[]"] in auto)
qed

lemma closes_branches [closes_rules]:
  "(b \<Longrightarrow> closes m) \<Longrightarrow> (\<not> b \<Longrightarrow> closes n) \<Longrightarrow> closes (if b then m else n)"
  "(x = None \<Longrightarrow> closes m1) \<Longrightarrow> (\<And>a. x = Some a \<Longrightarrow> closes (k1 a)) \<Longrightarrow>
     closes (case x of None \<Rightarrow> m1 | Some a \<Rightarrow> k1 a)"
  "(\<And>e. y = Inl e \<Longrightarrow> closes (m2 e)) \<Longrightarrow> (\<And>a. y = Inr a \<Longrightarrow> closes (k2 a)) \<Longrightarrow>
     closes (case y of Inl e \<Rightarrow> m2 e | Inr a \<Rightarrow> k2 a)"
  "(\<And>a b. z = (a, b) \<Longrightarrow> closes (k3 a b)) \<Longrightarrow> closes (case z of (a, b) \<Rightarrow> k3 a b)"
  by (auto split: option.split sum.split prod.split)

section \<open>The client\<close>

lemma make_temporary_user_unconnected: "emits (make_temporary_user E seed) unconnected"
  unfolding make_temporary_user_def by (intro emits_rules) simp_all

lemma system_account_unconnected: "emits (system_account_load E opr) unconnected"
  unfolding system_account_load_def by (intro emits_rules) simp_all

lemma nats_options_unconnected: "emits (get_nats_options E opr) unconnected"
  unfolding get_nats_options_def load_ca_file_def by (intro emits_rules) simp_all

lemma client_of_connection:
  "emits (client_push E c jwt) (of_connection (nc_conn c))"
  "emits (client_delete E c subject) (of_connection (nc_conn c))"
  unfolding client_push_def client_delete_def client_do_def by (intro emits_rules; simp)+

lemma connect_logs:
  "logs (connect E url kp seed opts) (\<lambda>r l.
     case r of
       Returns (Inr client) \<Rightarrow>
         (\<exists>front. l = front @ [NatsConnect url (Inr (nc_conn client))] \<and> (\<forall>c \<in> set front. unconnected c))
     | _ \<Rightarrow> \<forall>c \<in> set l. unconnected c)"
  unfolding connect_def
  by (intro logs_seq [OF emits_logs [OF make_temporary_user_unconnected]])
    (auto intro!: logs_rules split: sum.split prod.split)

text \<open>The client is closed by the \<open>defer\<close> that follows \<open>connect\<close>.\<close>

lemma closes_connect:
  assumes "\<And>e. emits (failed e) unconnected" and "\<And>client. emits (body client) (of_connection (nc_conn client))"
  shows "closes (bind (connect E url kp seed opts) (\<lambda>r. case r of
      Inl e \<Rightarrow> failed e | Inr client \<Rightarrow> defer_close E client (body client)))"
  unfolding closes_def
proof (rule logs_seq [OF connect_logs])
  fix a :: "error + nats_client" and l
  assume l: "case Returns a of
       Returns (Inr client) \<Rightarrow>
         (\<exists>front. l = front @ [NatsConnect url (Inr (nc_conn client))] \<and> (\<forall>c \<in> set front. unconnected c))
     | _ \<Rightarrow> \<forall>c \<in> set l. unconnected c"
  show "logs (case a of Inl e \<Rightarrow> failed e | Inr client \<Rightarrow> defer_close E client (body client))
      (\<lambda>r l'. connection_closed (l @ l'))"
  proof (cases a)
    case (Inl e)
    have "logs (failed e) (\<lambda>r l'. connection_closed (l @ l'))"
      by (rule logs_mono [OF emits_logs [OF assms(1)]]) (use l Inl in \<open>auto intro!: unconnected_closed\<close>)
    with Inl show ?thesis by simp
  next
    case (Inr client)
    with l obtain front where front: "l = front @ [NatsConnect url (Inr (nc_conn client))]" "\<forall>c \<in> set front. unconnected c"
      by auto
    have "logs (defer_close E client (body client)) (\<lambda>r l'. connection_closed (l @ l'))"
      by (rule logs_defer_close [OF emits_logs [OF assms(2)]]) (use connection_closed_use [OF front(2)] front(1) in simp)
    with Inr show ?thesis by simp
  qed
qed (auto intro: unconnected_closed)

lemma ensure_jwt_pushed_closes: "closes (ensure_jwt_pushed E opr issuer ajwt)"
proof -
  let ?failed = "\<lambda>reason e. bind (account_do (account_mark_jwt_push_failed (time_now (e_kube E)) reason (error_text e) []))
      (\<lambda>_. ret (Some e))"
  have failed: "emits (?failed reason e) P" for reason e P unfolding account_do_def by (intro emits_rules)
  show ?thesis
    unfolding ensure_jwt_pushed_def Let_def
    by (intro closes_after [OF system_account_unconnected] closes_after [OF nats_options_unconnected]
        closes_rules closes_connect; (rule closes_emits)?; intro failed client_of_connection emits_rules;
        (rule failed client_of_connection)?)
qed

lemma finalize_account_closes: "closes (finalize_account E)"
  unfolding finalize_account_def Let_def clientset_get_operator_def get_secret_def account_do_def
  by (intro closes_rules closes_after [OF system_account_unconnected] closes_after [OF nats_options_unconnected]
      closes_connect closes_after [OF emits_get_cur] closes_after [OF emits_deref] closes_after [OF emits_external];
      (rule closes_emits)?; (intro client_of_connection emits_rules)?) simp_all

section \<open>The reconciliation\<close>

lemma account_parts_unconnected:
  "emits (account_reconcile_labels E) unconnected"
  "emits (account_ensure_signing_keys_updated E) unconnected"
  "emits (account_reconcile_jwt_secret E kp) unconnected"
  "emits (account_load_issuer_seed E kpr) unconnected"
  "emits (validate_operator_selector E opr acc) unconnected"
  "emits (resolve_operator E kpr) unconnected"
  "emits (resolve_issuer E issuer ns) unconnected"
  unfolding account_reconcile_labels_def account_ensure_signing_keys_updated_def account_reconcile_jwt_secret_def
    validate_operator_selector_def
  by (intro emits_rules create_jwt_emits emits_ensure_jwt emits_account_load emits_resolve_operator
      emits_mono [OF resolve_issuer_emits]; auto)+

lemma account_do_unconnected: "emits (account_do f) unconnected"
  by (simp add: account_do_def)

lemma account_admitted_closes: "closes (account_reconcile_admitted E kp opr)"
  unfolding account_reconcile_admitted_def Let_def
  by (intro closes_rules closes_after [OF account_do_unconnected] closes_after [OF account_parts_unconnected(1)]
      closes_after [OF account_parts_unconnected(2)] closes_after [OF account_parts_unconnected(3)]
      closes_after [OF account_parts_unconnected(4)] closes_after [OF emits_deref]
      closes_before [OF ensure_jwt_pushed_closes];
      (rule closes_emits)?; (intro emits_rules)?)

lemma account_live_closes: "closes (account_reconcile_live E)"
  unfolding account_reconcile_live_def Let_def
  by (intro closes_rules closes_after [OF emits_get_cur] closes_after [OF emits_deref]
      closes_after [OF account_do_unconnected] closes_after [OF account_parts_unconnected(5)]
      closes_after [OF account_parts_unconnected(6)] closes_after [OF account_parts_unconnected(7)]
      closes_after [OF reconcile_seed_emits] account_admitted_closes;
      (rule closes_emits)?; (intro emits_rules account_do_unconnected)?) simp_all

lemma account_body_closes: "closes (account_reconcile_body E)"
  unfolding account_reconcile_body_def
  by (intro closes_rules closes_after [OF emits_get_cur] account_live_closes closes_before [OF finalize_account_closes];
      (rule closes_emits)?; (intro emits_rules)?) simp_all

lemma closes_with_status_deferral:
  assumes "closes body" and "\<And>a err. unconnected (written a err)"
  shows "closes (with_status_deferral status_of equal (write_cur writer written) wrap original body)"
  unfolding closes_def logs_def wp_with_status_deferral
proof
  fix s :: "('a, 'b) st"
  have "wp body (\<lambda>r s'. \<exists>l. trace s' = trace s @ l \<and> connection_closed l) s"
    using assms(1) by (simp add: closes_def logs_def)
  then show "wp body (\<lambda>r s1.
       if equal original (status_of (cur s1))
       then \<exists>l. trace s1 = trace s @ l \<and> connection_closed l
       else (case writer (cur s1) (ext s1) of ((answer, obj), x) \<Rightarrow>
         \<exists>l. trace (s1\<lparr>ext := x, trace := trace s1 @ [written (cur s1) answer], cur := obj\<rparr>) = trace s @ l
           \<and> connection_closed l)) s"
    by (rule wp_mono)
      (use connection_closed_around [where p = "[]" and q = "[written a err]" for a err] assms(2) in
        \<open>auto split: prod.split\<close>)
qed

lemma account_reconcile_closes: "closes (account_reconcile E ns name)"
  unfolding account_reconcile_def get_account_def update_account_status_def
  by (intro closes_rules closes_after [OF emits_external] closes_after [OF emits_set_cur]
      closes_after [OF account_do_unconnected] closes_with_status_deferral account_body_closes;
      (rule closes_emits)?; (intro emits_rules)?) simp_all

section \<open>An account whose finalizer connects\<close>

definition pushed_status :: account_status where
  "pushed_status = fst (account_calls
     [AccountMarkSeedSecretReady \<lparr>public_key = ''A'', seed_secret_name = ''seed''\<rparr>,
      AccountMarkOperatorResolved \<lparr>ior_namespace = ''ns'', ior_name = ''op''\<rparr>, AccountMarkIssuerResolved,
      AccountMarkSigningKeysUpdated [], AccountMarkJwtSecretReady, AccountMarkJwtPushed]
     (account_initialize_conditions tick (new_account_status, 0)))"

definition pushed_account :: account where
  "pushed_account = deleted_account\<lparr>acc_status := pushed_status\<rparr>"

definition serving_operator :: operator where
  "serving_operator = sample_operator\<lparr>op_status := (op_status sample_operator)\<lparr>
     ops_resolved_system_account := Some \<lparr>kpr_ref = \<lparr>ior_namespace = ''ns'', ior_name = ''sys''\<rparr>,
       kpr_public_key = ''pub-A''\<rparr>\<rparr>\<rparr>"

definition serving_env :: "unit env" where
  "serving_env = sample_env\<lparr>e_kube := sample_kube\<lparr>
     cl_get_account := (\<lambda>ns name x. (Inr pushed_account, x)),
     cs_get_account := (\<lambda>ns name x. (Inr pushed_account, x)),
     cs_get_operator := (\<lambda>ns name x. (Inr serving_operator, x)),
     cs_get_secret := (\<lambda>ns name x. (Inr (empty_secret\<lparr>s_data := fmupd NatsSecretSeedKey ''O'' fmempty\<rparr>), x))\<rparr>\<rparr>"


lemma pushed_conditions:
  "is_true (account_get_condition AccountConditionJWTSecretReady (fst (account_initialize_conditions (time_now sample_kube) (pushed_status, ()))))
   \<and> is_true (account_get_condition AccountConditionJWTPushed (fst (account_initialize_conditions (time_now sample_kube) (pushed_status, ()))))
   \<and> accs_operator_ref (fst (account_initialize_conditions (time_now sample_kube) (pushed_status, ()))) =
      Some \<lparr>ior_namespace = ''ns'', ior_name = ''op''\<rparr>
   \<and> accs_key_pair (fst (account_initialize_conditions (time_now sample_kube) (pushed_status, ()))) =
      Some \<lparr>public_key = ''A'', seed_secret_name = ''seed''\<rparr>
   \<and> accs_key_pair pushed_status = Some \<lparr>public_key = ''A'', seed_secret_name = ''seed''\<rparr>"
  by code_simp

lemma finalize_connects:
  assumes "is_true (account_get_condition AccountConditionJWTSecretReady (acc_status (cur s)))"
    and "is_true (account_get_condition AccountConditionJWTPushed (acc_status (cur s)))"
    and "accs_operator_ref (acc_status (cur s)) = Some \<lparr>ior_namespace = ''ns'', ior_name = ''op''\<rparr>"
    and "accs_key_pair (acc_status (cur s)) = Some \<lparr>public_key = ''A'', seed_secret_name = ''seed''\<rparr>"
    and "finalize_account serving_env s = (r, s')"
  shows "r = Returns None \<and> NatsConnect ''nats://server'' (Inr 0) \<in> set (trace s')"
  using assms pushed_conditions
  by (auto simp: finalize_account_def bind_def get_cur_def gets_def ret_def clientset_get_operator_def external_def
     get_secret_def system_account_load_def clientset_get_account_def get_nats_options_def connect_def make_temporary_user_def
     create_key_def defer_close_def deferred_def client_delete_def client_do_def client_close_def Let_def
     serving_env_def serving_operator_def sample_operator_def sample_env_def sample_kube_def sample_nkeys_def sample_jwt_def sample_nats_def
     pushed_account_def deleted_account_def)

lemma body_connects:
  assumes "acc_status (cur s) = fst (account_initialize_conditions (time_now sample_kube) (pushed_status, ()))"
    and "acc_meta (cur s) = acc_meta deleted_account"
    and "account_reconcile_body serving_env s = (r, s')"
  shows "NatsConnect ''nats://server'' (Inr 0) \<in> set (trace s')"
proof -
  obtain r1 s1 where run: "finalize_account serving_env s = (r1, s1)" by fastforce
  have "r1 = Returns None \<and> NatsConnect ''nats://server'' (Inr 0) \<in> set (trace s1)"
    by (rule finalize_connects [OF _ _ _ _ run]) (simp_all add: assms(1) pushed_conditions)
  with run assms(2,3) show ?thesis
    by (auto simp: account_reconcile_body_def bind_def get_cur_def gets_def modify_cur_def update_account_def write_cur_def
        external_def set_cur_def modify_def ret_def deleted_account_def not_deleted_def zero_time_def
        serving_env_def sample_env_def sample_kube_def plain_machinery_def)
qed

section \<open>The connection is closed\<close>

text \<open>C4: a reconciliation of an account closes the connection it makes. It connects at most once; all
  its requests go over that connection, after it was made and before it is closed; it is closed
  exactly once, whatever the requests answer, also when the reconciliation panics in between; and
  after a connection that failed no request is made.\<close>

theorem account_connection_closed:
  assumes "account_reconcile E ns name s = (r, s')"
  shows "\<exists>l. trace s' = trace s @ l \<and> connection_closed l"
  using logsD [OF account_reconcile_closes [unfolded closes_def] assms] by blast

theorem account_connection_closed_witness:
  "\<exists>l. trace (snd (account_reconcile serving_env ''ns'' ''acc'' (start pushed_account))) = l \<and> connection_closed l
     \<and> NatsConnect ''nats://server'' (Inr 0) \<in> set l"
proof -
  let ?m = "account_reconcile serving_env ''ns'' ''acc''" and ?c = "NatsConnect ''nats://server'' (Inr 0)"
  obtain r s' where run: "?m (start pushed_account) = (r, s')" by fastforce
  have body: "wp (account_reconcile_body serving_env) (\<lambda>_ s'. ?c \<in> set (trace s')) s"
    if "acc_status (cur s) = fst (account_initialize_conditions (time_now sample_kube) (pushed_status, ()))"
      "acc_meta (cur s) = acc_meta deleted_account" for s
    using body_connects [OF that] by (simp add: wp_def split: prod.split)
  have "wp ?m (\<lambda>_ s'. ?c \<in> set (trace s')) (start pushed_account)"
    unfolding account_reconcile_def update_account_status_def
    by (auto simp: get_account_def wp_with_status_deferral account_do_def serving_env_def [THEN arg_cong, of e_kube]
        pushed_account_def set_account_status_def sample_kube_def [THEN arg_cong, of time_now] start_def
        split: prod.split intro!: wp_mono [OF body])
  with run account_connection_closed [OF run] show ?thesis by (auto simp: wp_def start_def)
qed

end
