(* ===== verification/Operator_Reconciler.thy ===== *)
theory Operator_Reconciler
  imports Reconciler
begin

text \<open>
  internal/controller/accounts/operator_controller.go: the reconciler of Operators. An operator
  gets a seed secret, the public key of its system account, the list of its signing keys and a JWT
  signed with its own key. \<open>SetupWithManager\<close> is in the theory of the watchers.
\<close>

section \<open>Operations\<close>

definition set_operator_status :: "operator_status \<Rightarrow> operator \<Rightarrow> operator" where
  "set_operator_status s o' = o'\<lparr>op_status := s\<rparr>"

definition operator_do ::
  "(operator_status \<times> 'x \<Rightarrow> operator_status \<times> 'x) \<Rightarrow> (('x, operator) st, unit) go" where
  "operator_do f = on_status op_status set_operator_status f"

text \<open>\<open>equality.Semantic.DeepEqual\<close> on two operator statuses.\<close>

definition operator_status_equal :: "operator_status \<Rightarrow> operator_status \<Rightarrow> bool" where
  "operator_status_equal a b =
     (conditions_semantic_equal (operator_get_conditions a) (operator_get_conditions b)
      \<and> ops_key_pair a = ops_key_pair b \<and> ops_signing_keys a = ops_signing_keys b
      \<and> ops_resolved_system_account a = ops_resolved_system_account b)"

definition operator_reconcile_jwt_secret ::
  "'x env \<Rightarrow> string \<Rightarrow> (('x, operator) st, ctrl_result \<times> error option) go" where
  "operator_reconcile_jwt_secret E seed =
     bind get_cur (\<lambda>operator.
     case from_seed (e_nkeys E) seed of
       Inl e \<Rightarrow> ret (zero_result, Some (fails terminal_error ReasonUnknownError
                 ''failed to get signing key from seed: %w'' [AErr e]))
     | Inr signing_key \<Rightarrow>
         bind (create_operator_claims E operator signing_key) (\<lambda>r.
         case r of
           Inl e \<Rightarrow> ret (zero_result, Some (fails terminal_error ReasonUnknownError
                     ''failed to create account JWT claims: %w'' [AErr e]))
         | Inr (want_claims, next_jwt) \<Rightarrow>
             bind (get_secret E (m_namespace (op_meta operator)) (op_jwt_secret_name (op_spec operator))) (\<lambda>r.
             case r of
               Inl e \<Rightarrow>
                 (if is_not_found e
                  then bind (create_jwt_secret E (ObjOperator operator) next_jwt) (\<lambda>err.
                       ret (requeue_result, err))
                  else ret (zero_result, Some (unknown temporary_error ReasonUnknownError
                         ''failed to get JWT secret: %w'' [AErr e])))
             | Inr got \<Rightarrow>
                 bind (ensure_jwt_secret_up_to_date E (ObjOperator operator) (OperatorClaims want_claims) got next_jwt)
                   (\<lambda>(_, result, err). ret (result, err)))))"

text \<open>The loop over the listed signing keys.\<close>

fun operator_signing_keys ::
  "operator \<Rightarrow> signing_key list \<Rightarrow> signing_key_embedded_status list outcome" where
  "operator_signing_keys opr [] = Returns []"
| "operator_signing_keys opr (sk # sks) =
     (if \<not> signing_key_is_ready (sk_status sk) then operator_signing_keys opr sks
      else case sks_owner_ref (sk_status sk) of
        None \<Rightarrow> Panics
      | Some r \<Rightarrow>
          (if tor_namespace r = m_namespace (op_meta opr) \<and> tor_name r = m_name (op_meta opr)
           then (case sks_key_pair (sk_status sk) of
               None \<Rightarrow> Panics
             | Some kp \<Rightarrow> (case operator_signing_keys opr sks of
                 Panics \<Rightarrow> Panics
               | Returns rest \<Rightarrow> Returns (\<lparr>ske_name = m_name (sk_meta sk), ske_key_pair = kp\<rparr> # rest)))
           else operator_signing_keys opr sks))"

text \<open>The generated client never returns a nil list without an error.\<close>

definition operator_ensure_signing_keys_updated :: "'x env \<Rightarrow> (('x, operator) st, error option) go" where
  "operator_ensure_signing_keys_updated E =
     bind get_cur (\<lambda>operator.
     bind (list_signing_keys E (m_namespace (op_meta operator)) []) (\<lambda>r.
     case r of
       Inl e \<Rightarrow> ret (Some e)
     | Inr items \<Rightarrow>
         bind (of_outcome (operator_signing_keys operator items)) (\<lambda>signing_keys.
         bind (operator_do (operator_mark_signing_keys_updated (time_now (e_kube E)) signing_keys)) (\<lambda>_.
         ret None))))"

definition ensure_system_account_resolved :: "'x env \<Rightarrow> (('x, operator) st, error option) go" where
  "ensure_system_account_resolved E =
     bind get_cur (\<lambda>operator.
     bind (get_account E (m_namespace (op_meta operator)) (system_account_ref (op_spec operator))) (\<lambda>r.
     case r of
       Inl e \<Rightarrow> ret (Some (condition_failed ReasonNotFound ''failed to get system account, %q: %w''
                 [AStr (system_account_ref (op_spec operator)), AErr e]))
     | Inr sys_acc \<Rightarrow>
         (if \<not> is_true (account_get_condition KeyPairableConditionSeedSecretReady (acc_status sys_acc))
          then ret (Some (condition_failed ReasonNotReady ''system account KeyPair not ready'' []))
          else
            bind (deref (accs_key_pair (acc_status sys_acc))) (\<lambda>kp.
            bind (operator_do (operator_mark_system_account_resolved (time_now (e_kube E))
                    \<lparr>kpr_ref = \<lparr>ior_namespace = m_namespace (acc_meta sys_acc), ior_name = m_name (acc_meta sys_acc)\<rparr>,
                     kpr_public_key = public_key kp\<rparr>)) (\<lambda>_.
            ret None)))))"

text \<open>Nothing calls this method.\<close>

definition update_operator_jwt_signing_keys ::
  "'x env \<Rightarrow> string \<Rightarrow> secret \<Rightarrow> string list \<Rightarrow> (('x, operator) st, error option) go" where
  "update_operator_jwt_signing_keys E operator_seed jwt_secret s_keys =
     (case decode_operator_claims (e_jwt E) (secret_bytes jwt_secret NatsSecretJWTKey) of
        Inl e \<Rightarrow> ret (Some e)
      | Inr op_claims \<Rightarrow>
          (if is_equal_unordered (jop_signing_keys (oc_operator op_claims)) s_keys then ret None
           else
             (let op_claims = op_claims\<lparr>oc_operator := (oc_operator op_claims)\<lparr>jop_signing_keys := s_keys\<rparr>\<rparr>
              in case parse_decorated_nkey (e_nkeys E) operator_seed of
                Inl e \<Rightarrow> ret (Some e)
              | Inr k_pair \<Rightarrow>
                  bind (external (encode_operator (e_jwt E) op_claims k_pair)
                         (\<lambda>r. JwtEncode (cd_subject (oc_data op_claims)) k_pair (map_sum id snd r))) (\<lambda>r.
                  case r of
                    Inl e \<Rightarrow> ret (Some e)
                  | Inr (_, ojwt) \<Rightarrow>
                      clientset_update_secret E (m_namespace (s_meta jwt_secret))
                        (jwt_secret\<lparr>s_data := fmupd NatsSecretJWTKey ojwt (s_data jwt_secret)\<rparr>)))))"

section \<open>Reconcile\<close>

definition operator_reconcile_body :: "'x env \<Rightarrow> (('x, operator) st, ctrl_result \<times> error option) go" where
  "operator_reconcile_body E = (let now = time_now (e_kube E) in
     bind get_cur (\<lambda>operator.
     bind (reconcile_seed_secret E (ObjOperator operator) (create_operator_key (e_nkeys E))
             (op_seed_secret_name (op_spec operator)) [immutable, with_deletion_prevention (e_mach E)])
       (\<lambda>(kp, seed, result, err).
     case err of
       Some e \<Rightarrow>
         bind (mark_condition e
                (\<lambda>reason f as. operator_do (operator_mark_seed_secret_failed now reason f as))
                (\<lambda>reason f as. operator_do (operator_mark_seed_secret_unknown now reason f as))) (\<lambda>_.
         ret (as_result (Some e)))
     | None \<Rightarrow>
         bind (deref kp) (\<lambda>kp.
         bind (operator_do (operator_mark_seed_secret_ready now kp)) (\<lambda>_.
         if \<not> result_is_zero result then ret (result, None)
         else
           bind (ensure_system_account_resolved E) (\<lambda>err.
           case err of
             Some e \<Rightarrow>
               bind (mark_condition e
                      (\<lambda>reason f as. operator_do (operator_mark_system_account_resolve_failed now reason f as))
                      (\<lambda>reason f as. operator_do (operator_mark_system_account_resolve_unknown now reason f as))) (\<lambda>_.
               ret (as_result (Some e)))
           | None \<Rightarrow>
               bind (operator_ensure_signing_keys_updated E) (\<lambda>err.
               case err of
                 Some e \<Rightarrow>
                   (if is_not_found e then ret (result\<lparr>requeue_after := 30 * second\<rparr>, None)
                    else ret (zero_result, Some e))
               | None \<Rightarrow>
                   bind (operator_reconcile_jwt_secret E seed) (\<lambda>(result, err).
                   case err of
                     Some e \<Rightarrow>
                       bind (mark_condition e
                              (\<lambda>reason f as. operator_do (operator_mark_jwt_secret_failed now reason f as))
                              (\<lambda>reason f as. operator_do (operator_mark_jwt_secret_unknown now reason f as))) (\<lambda>_.
                       ret (as_result (Some e)))
                   | None \<Rightarrow>
                       bind (operator_do (operator_mark_jwt_secret_ready now)) (\<lambda>_.
                       ret (result, None))))))))))"

definition operator_status_error :: "error \<Rightarrow> error" where
  "operator_status_error e = errorf ''failed to update operator status: %w'' [AErr e]"

definition operator_reconcile ::
  "'x env \<Rightarrow> string \<Rightarrow> string \<Rightarrow> (('x, operator) st, ctrl_result \<times> error option) go" where
  "operator_reconcile E ns name =
     bind (get_operator E ns name) (\<lambda>r.
     case r of
       Inl e \<Rightarrow> ret (zero_result, ignore_not_found e)
     | Inr operator \<Rightarrow>
         bind (set_cur operator) (\<lambda>_.
         bind (operator_do (operator_initialize_conditions (time_now (e_kube E)))) (\<lambda>_.
         with_status_deferral op_status operator_status_equal (update_operator_status E) operator_status_error
           (op_status operator) (operator_reconcile_body E))))"

section \<open>The contract of the frame\<close>

lemma emits_operator_do [emits_rules, simp]: "emits (operator_do f) P"
  by (simp add: operator_do_def)

lemma logs_bind_operator_do [logs_rules]: "logs (k ()) R \<Longrightarrow> logs (bind (operator_do f) k) R"
  unfolding operator_do_def by (rule logs_bind_on_status)

text \<open>The calls of a reconciliation of an operator, whatever the cluster answers.\<close>

definition operator_call_ok :: "call \<Rightarrow> bool" where
  "operator_call_ok c = (case c of
       SecretGet _ _ _ \<Rightarrow> True | SecretCreate _ _ \<Rightarrow> True | SecretUpdate _ _ \<Rightarrow> True | SecretDelete _ _ \<Rightarrow> True
     | ObjectGet KindAccount _ _ _ \<Rightarrow> True | SigningKeysList _ _ _ \<Rightarrow> True | EventSent _ _ _ _ \<Rightarrow> True
     | KeyCreate _ \<Rightarrow> True | JwtEncode _ _ _ \<Rightarrow> True | _ \<Rightarrow> False)"

lemma operator_body_emits: "emits (operator_reconcile_body E) operator_call_ok"
proof -
  have jwt: "emits (ensure_jwt_secret_up_to_date E ob want got next_jwt) operator_call_ok" for ob want got next_jwt
    by (rule emits_mono [OF ensure_jwt_writes]) (auto simp: jwt_write_ok_def operator_call_ok_def split: call.splits)
  show ?thesis
    unfolding operator_reconcile_body_def Let_def ensure_system_account_resolved_def
      operator_ensure_signing_keys_updated_def operator_reconcile_jwt_secret_def
    by (intro emits_rules reconcile_seed_emits create_jwt_emits jwt) (simp_all add: operator_call_ok_def)
qed

interpretation operator_frame: status_reconciler "get_operator E"
  "\<lambda>ns name r. ObjectGet KindOperator ns name (map_sum id ObjOperator r)"
  op_status operator_status_equal "operator_do (operator_initialize_conditions (time_now (e_kube E)))"
  "operator_reconcile_body E" "cl_status_operator (e_kube E)" "\<lambda>o'. StatusUpdate (ObjOperator o')"
  operator_status_error "operator_reconcile E"
  for E :: "'x env"
proof
  show "emits (operator_reconcile_body E) (\<lambda>c. \<not> status_write c)"
    by (rule emits_mono [OF operator_body_emits])
      (auto simp: operator_call_ok_def status_write_def split: call.splits)
qed (unfold operator_reconcile_def update_operator_status_def get_operator_def operator_do_def,
    auto intro!: logs_external logsI split: prod.split)

section \<open>The status the reconciler writes\<close>

text \<open>
  The controller changes the status only through the lifecycle methods, so every status it writes
  is a state of \<open>operator_run\<close>, and the consequences proved for those hold in the cluster.
\<close>

lemma preserves_operator_do:
  "f = operator_call now m \<Longrightarrow> preserves (\<lambda>o'. operator_run now (op_status o')) (operator_do f)"
  unfolding operator_do_def operator_run_def
  by (rule preserves_on_status) (simp add: set_operator_status_def lifecycle_run.called)

lemmas preserves_operator_marks = operator_call.simps [symmetric, THEN preserves_operator_do]

lemma operator_body_preserves:
  "preserves (\<lambda>o'. operator_run (time_now (e_kube E)) (op_status o')) (operator_reconcile_body E)"
  unfolding operator_reconcile_body_def Let_def ensure_system_account_resolved_def
    operator_ensure_signing_keys_updated_def operator_reconcile_jwt_secret_def
  by (intro preserves_rules preserves_mark_condition preserves_operator_marks)

lemma operator_prepare_run:
  assumes "operator_known (time_now (e_kube E)) (op_status (cur t))"
  shows "wp (operator_do (operator_initialize_conditions (time_now (e_kube E))))
    (\<lambda>r t'. operator_run (time_now (e_kube E)) (op_status (cur t'))) t"
  using assms
  by (auto simp: operator_do_def operator_known_def operator_run_def set_operator_status_def split: prod.split)
    (metis fst_conv lifecycle_run.created lifecycle_run.initialized)+

section \<open>No panic\<close>

lemma operator_signing_keys_returns:
  "\<forall>sk \<in> set sks. known_object now (ObjSigningKey sk) \<Longrightarrow> operator_signing_keys opr sks \<noteq> Panics"
proof (induction sks)
  case (Cons sk sks)
  then have "signing_key_is_ready (sk_status sk) \<Longrightarrow>
      sks_key_pair (sk_status sk) \<noteq> None \<and> sks_owner_ref (sk_status sk) \<noteq> None"
    using known_signing_key_ready [of now sk] by (simp del: known_object.simps)
  with Cons show ?case by (auto split: option.split outcome.split)
qed simp

lemma total_operator_do [total_rules, simp]: "total now A (operator_do f)"
  by (simp add: operator_do_def)

lemma ensure_system_account_total: "total now A (ensure_system_account_resolved E)"
  unfolding ensure_system_account_resolved_def
  by (intro total_rules) (use known_account_seed in auto)

lemma operator_ensure_signing_keys_total: "total now A (operator_ensure_signing_keys_updated E)"
  unfolding operator_ensure_signing_keys_updated_def
  by (intro total_rules) (use operator_signing_keys_returns in auto)

lemma operator_reconcile_jwt_total: "total now A (operator_reconcile_jwt_secret E seed)"
  unfolding operator_reconcile_jwt_secret_def by (intro total_rules)

lemma operator_body_total: "total now A (operator_reconcile_body E)"
  unfolding operator_reconcile_body_def Let_def
  by (intro total_rules ensure_system_account_total operator_ensure_signing_keys_total
      operator_reconcile_jwt_total total_bind_seed) (auto intro!: total_rules)

end
