(* ===== verification/Watchers.thy ===== *)
theory Watchers
  imports Account_Facts User_Reconciler Signing_Key_Reconciler Operator_Reconciler
begin

text \<open>
  The event handlers the four \<open>SetupWithManager\<close> methods register: from an object that changed to
  the objects to reconcile. The registration itself is controller-runtime's.
\<close>

record request =
  rq_namespace :: string
  rq_name :: string

definition request_for :: "object_meta \<Rightarrow> request" where
  "request_for m = \<lparr>rq_namespace = m_namespace m, rq_name = m_name m\<rparr>"

section \<open>Lists\<close>

definition matching_label :: "string \<Rightarrow> string \<Rightarrow> labels" where
  "matching_label k v = fmupd k v fmempty"

definition list_accounts :: "'x env \<Rightarrow> string option \<Rightarrow> labels \<Rightarrow> (('x, 'o) st, error + account list) go" where
  "list_accounts E ns ls = external (cl_list_accounts (e_kube E) ns ls) (\<lambda>_. ObjectsList KindAccount ns ls)"

definition list_signing_key_objects ::
  "'x env \<Rightarrow> string option \<Rightarrow> labels \<Rightarrow> (('x, 'o) st, error + signing_key list) go" where
  "list_signing_key_objects E ns ls =
     external (cl_list_signing_keys (e_kube E) ns ls) (\<lambda>_. ObjectsList KindSigningKey ns ls)"

definition list_users :: "'x env \<Rightarrow> string option \<Rightarrow> labels \<Rightarrow> (('x, 'o) st, error + user list) go" where
  "list_users E ns ls = external (cl_list_users (e_kube E) ns ls) (\<lambda>_. ObjectsList KindUser ns ls)"

section \<open>The operator's watchers\<close>

definition operator_account_watcher :: "client_object \<Rightarrow> request list" where
  "operator_account_watcher obj = (case obj of
       ObjAccount acc \<Rightarrow> (case accs_operator_ref (acc_status acc) of
           None \<Rightarrow> []
         | Some r \<Rightarrow> [\<lparr>rq_namespace = ior_namespace r, rq_name = ior_name r\<rparr>])
     | _ \<Rightarrow> [])"

text \<open>The two watchers of signing keys differ in the kind of the owner they ask for.\<close>

definition owner_requests :: "machinery \<Rightarrow> string \<Rightarrow> client_object \<Rightarrow> request list" where
  "owner_requests M kind obj = (case obj of
       ObjSigningKey sk \<Rightarrow> (case sks_owner_ref (sk_status sk) of
           None \<Rightarrow> []
         | Some r \<Rightarrow>
             (if group_version_with_kind kind \<noteq> get_group_version_kind M r then []
              else [\<lparr>rq_namespace = tor_namespace r, rq_name = tor_name r\<rparr>]))
     | _ \<Rightarrow> [])"

definition operator_signing_key_watcher :: "machinery \<Rightarrow> client_object \<Rightarrow> request list" where
  "operator_signing_key_watcher M obj = owner_requests M ''Operator'' obj"

definition account_signing_key_watcher :: "machinery \<Rightarrow> client_object \<Rightarrow> request list" where
  "account_signing_key_watcher M obj = owner_requests M ''Account'' obj"

section \<open>The watchers that list\<close>

definition account_operator_watcher :: "'x env \<Rightarrow> client_object \<Rightarrow> (('x, 'o) st, request list) go" where
  "account_operator_watcher E obj = (case obj of
       ObjOperator opr \<Rightarrow>
         bind (list_accounts E None (matching_label LabelOperatorName (m_name (op_meta opr)))) (\<lambda>r.
         case r of
           Inl e \<Rightarrow> ret []
         | Inr items \<Rightarrow> ret (map (\<lambda>a. request_for (acc_meta a)) items))
     | _ \<Rightarrow> ret [])"

definition signing_key_operator_watcher :: "'x env \<Rightarrow> client_object \<Rightarrow> (('x, 'o) st, request list) go" where
  "signing_key_operator_watcher E obj = (case obj of
       ObjOperator opr \<Rightarrow>
         bind (list_signing_key_objects E (Some (m_namespace (op_meta opr)))
                 (matching_label LabelOperatorName (m_name (op_meta opr)))) (\<lambda>r.
         case r of
           Inl e \<Rightarrow> ret []
         | Inr items \<Rightarrow> ret (map (\<lambda>k. request_for (sk_meta k)) items))
     | _ \<Rightarrow> ret [])"

definition signing_key_account_watcher :: "'x env \<Rightarrow> client_object \<Rightarrow> (('x, 'o) st, request list) go" where
  "signing_key_account_watcher E obj = (case obj of
       ObjAccount acc \<Rightarrow>
         bind (list_signing_key_objects E (Some (m_namespace (acc_meta acc)))
                 (matching_label LabelAccountName (m_name (acc_meta acc)))) (\<lambda>r.
         case r of
           Inl e \<Rightarrow> ret []
         | Inr items \<Rightarrow> ret (map (\<lambda>k. request_for (sk_meta k)) items))
     | _ \<Rightarrow> ret [])"

definition user_account_watcher :: "'x env \<Rightarrow> client_object \<Rightarrow> (('x, 'o) st, request list) go" where
  "user_account_watcher E obj = (case obj of
       ObjAccount acc \<Rightarrow>
         bind (list_users E None (matching_label LabelAccountName (m_name (acc_meta acc)))) (\<lambda>r.
         case r of
           Inl e \<Rightarrow> ret []
         | Inr items \<Rightarrow> ret (map (\<lambda>u. request_for (usr_meta u)) items))
     | _ \<Rightarrow> ret [])"

end
