(* ===== verification/Watcher_Properties.thy ===== *)
theory Watcher_Properties
  imports Watchers Signing_Key_Properties
begin

text \<open>
  Changes reach the objects they matter to: a signing key wakes the owner its status records, and an
  operator or an account wakes the objects that carry its name in their labels. The labels and the
  recorded owner are what the reconcilers write.
\<close>

section \<open>The owner of a signing key is woken\<close>

text \<open>What apimachinery documents: the group, version and kind of an object come back from the two strings.\<close>

definition gvk_law :: "machinery \<Rightarrow> gvk \<Rightarrow> bool" where
  "gvk_law M g = (case to_api_version_and_kind M g of (v, k) \<Rightarrow> from_api_version_and_kind M v k = g)"

lemma reference_gvk: "gvk_law M (object_get_gvk ob) \<Longrightarrow> get_group_version_kind M (reference_to M ob) = object_get_gvk ob"
  by (auto simp: gvk_law_def get_group_version_kind_def reference_to_def split: prod.splits)

lemma reference_place:
  "tor_namespace (reference_to M ob) = m_namespace (object_get_meta ob)"
  "tor_name (reference_to M ob) = m_name (object_get_meta ob)"
  by (simp_all add: reference_to_def split: prod.split)

lemma owner_requests_reference:
  assumes "gvk_law M (object_get_gvk owner)" and "sks_owner_ref (sk_status sk) = Some (reference_to M owner)"
  shows "owner_requests M kind (ObjSigningKey sk) =
    (if object_get_gvk owner = group_version_with_kind kind then [request_for (object_get_meta owner)] else [])"
  using assms by (auto simp: owner_requests_def reference_gvk reference_place request_for_def)

text \<open>A machinery that keeps the group in the version string, as apimachinery does.\<close>

definition sample_machinery :: machinery where
  "sample_machinery = plain_machinery\<lparr>
     to_api_version_and_kind := (\<lambda>g. (gvk_group g @ ''/'' @ gvk_version g, gvk_kind g)),
     from_api_version_and_kind := (\<lambda>v k. \<lparr>gvk_group = takeWhile (\<lambda>c. c \<noteq> CHR ''/'') v,
       gvk_version = tl (dropWhile (\<lambda>c. c \<noteq> CHR ''/'') v), gvk_kind = k\<rparr>)\<rparr>"

text \<open>The owner of a signing key is woken. When the status of a key records an owner the way
  \<open>ensureOwnerResolved\<close> does, a change of the key asks for exactly one reconciliation, of that owner:
  by the watcher of the operators when it is an Operator of this API, by the one of the accounts when
  it is an Account, and by no watcher when it is of another kind.\<close>

theorem owner_is_woken:
  assumes "gvk_law M (object_get_gvk owner)" and "sks_owner_ref (sk_status sk) = Some (reference_to M owner)"
  shows "operator_signing_key_watcher M (ObjSigningKey sk) =
      (if object_get_gvk owner = group_version_with_kind ''Operator'' then [request_for (object_get_meta owner)] else [])
    \<and> account_signing_key_watcher M (ObjSigningKey sk) =
      (if object_get_gvk owner = group_version_with_kind ''Account'' then [request_for (object_get_meta owner)] else [])"
  unfolding operator_signing_key_watcher_def account_signing_key_watcher_def
  by (intro conjI owner_requests_reference [OF assms])

section \<open>Labels wake\<close>

text \<open>
  What the cache documents of a list with a namespace and labels: the objects of the store that are
  in the namespace (in any, when none is given) and carry the labels.
\<close>

definition selected :: "string option \<Rightarrow> labels \<Rightarrow> object_meta \<Rightarrow> bool" where
  "selected ns ls m = ((ns = None \<or> ns = Some (m_namespace m)) \<and> ls \<subseteq>\<^sub>f m_labels m)"

definition lists_store ::
  "(string option \<Rightarrow> labels \<Rightarrow> 'x \<Rightarrow> (error + 'a list) \<times> 'x) \<Rightarrow> ('a \<Rightarrow> object_meta) \<Rightarrow> 'a list \<Rightarrow> bool" where
  "lists_store lister meta store =
     (\<forall>ns ls x. fst (lister ns ls x) = Inr (filter (\<lambda>a. selected ns ls (meta a)) store))"

definition labelled :: "string option \<Rightarrow> string \<Rightarrow> string \<Rightarrow> object_meta \<Rightarrow> bool" where
  "labelled ns k v m = ((ns = None \<or> ns = Some (m_namespace m)) \<and> fmlookup (m_labels m) k = Some v)"

lemma selected_label: "selected ns (matching_label k v) m = labelled ns k v m"
  by (auto simp: selected_def labelled_def matching_label_def fmsubset_alt_def fmpred_iff split: if_splits)

lemma listed_requests:
  assumes "lists_store lister meta store"
  shows "fst (bind (external (lister ns (matching_label k v)) call) (\<lambda>r. case r of
       Inl e \<Rightarrow> ret [] | Inr items \<Rightarrow> ret (map (\<lambda>a. request_for (meta a)) items)) s)
     = Returns (map request_for (filter (labelled ns k v) (map meta store)))"
proof -
  obtain x' where "lister ns (matching_label k v) (ext s) =
      (Inr (filter (\<lambda>a. selected ns (matching_label k v) (meta a)) store), x')"
    using assms unfolding lists_store_def by (metis prod.collapse)
  then show ?thesis by (simp add: bind_def external_def ret_def selected_label filter_map o_def)
qed

text \<open>Labels wake. A change of an operator asks for a reconciliation of exactly the accounts in any
  namespace and the signing keys in its own that carry its name in the label the reconcilers of
  accounts and of signing keys write; a change of an account wakes in the same way the signing keys
  in its namespace and the users in any. The watchers never panic.\<close>

theorem labels_wake:
  assumes "lists_store (cl_list_accounts (e_kube E)) acc_meta accs"
    and "lists_store (cl_list_signing_keys (e_kube E)) sk_meta keys"
    and "lists_store (cl_list_users (e_kube E)) usr_meta users"
  shows "fst (account_operator_watcher E (ObjOperator opr) s) = Returns (map request_for
        (filter (labelled None LabelOperatorName (m_name (op_meta opr))) (map acc_meta accs)))
    \<and> fst (signing_key_operator_watcher E (ObjOperator opr) s) = Returns (map request_for
        (filter (labelled (Some (m_namespace (op_meta opr))) LabelOperatorName (m_name (op_meta opr))) (map sk_meta keys)))
    \<and> fst (signing_key_account_watcher E (ObjAccount acc) s) = Returns (map request_for
        (filter (labelled (Some (m_namespace (acc_meta acc))) LabelAccountName (m_name (acc_meta acc))) (map sk_meta keys)))
    \<and> fst (user_account_watcher E (ObjAccount acc) s) = Returns (map request_for
        (filter (labelled None LabelAccountName (m_name (acc_meta acc))) (map usr_meta users)))"
  unfolding account_operator_watcher_def signing_key_operator_watcher_def signing_key_account_watcher_def
    user_account_watcher_def list_accounts_def list_signing_key_objects_def list_users_def
  by (simp add: listed_requests [OF assms(1)] listed_requests [OF assms(2)] listed_requests [OF assms(3)])

definition labelled_account :: account where
  "labelled_account = set_account_meta (put_label LabelOperatorName ''op'') sample_account"

definition store_kube :: "account list \<Rightarrow> unit kube" where
  "store_kube accs = sample_kube\<lparr>
     cl_list_accounts := (\<lambda>ns ls x. (Inr (filter (\<lambda>a. selected ns ls (acc_meta a)) accs), x))\<rparr>"

section \<open>Both together\<close>

definition owned_key :: signing_key where
  "owned_key = key_of_account\<lparr>sk_status := (sk_status key_of_account)\<lparr>
     sks_owner_ref := Some (reference_to sample_machinery (ObjAccount sample_account))\<rparr>\<rparr>"

text \<open>C27: a change wakes what depends on it. A change of a signing key asks for exactly one
  reconciliation, of the owner its status records the way \<open>ensureOwnerResolved\<close> does: by the watcher of
  the operators when it is an Operator of this API, by the one of the accounts when it is an Account,
  and by no watcher when it is of another kind. A change of an operator asks for a reconciliation of
  exactly the accounts in any namespace and the signing keys in its own that carry its name in the
  label the reconcilers of accounts and of signing keys write; a change of an account wakes in the same
  way the signing keys in its namespace and the users in any. The watchers never panic. The hypotheses
  are what apimachinery documents of versions as strings, and the cache of lists by labels.\<close>

theorem changes_wake:
  assumes "gvk_law (e_mach E) (object_get_gvk owner)"
    and "lists_store (cl_list_accounts (e_kube E)) acc_meta accs"
    and "lists_store (cl_list_signing_keys (e_kube E)) sk_meta keys"
    and "lists_store (cl_list_users (e_kube E)) usr_meta users"
  shows "(\<forall>sk. sks_owner_ref (sk_status sk) = Some (reference_to (e_mach E) owner) \<longrightarrow>
      operator_signing_key_watcher (e_mach E) (ObjSigningKey sk) =
        (if object_get_gvk owner = group_version_with_kind ''Operator'' then [request_for (object_get_meta owner)] else [])
      \<and> account_signing_key_watcher (e_mach E) (ObjSigningKey sk) =
        (if object_get_gvk owner = group_version_with_kind ''Account'' then [request_for (object_get_meta owner)] else []))
    \<and> (\<forall>opr. fst (account_operator_watcher E (ObjOperator opr) s) = Returns (map request_for
        (filter (labelled None LabelOperatorName (m_name (op_meta opr))) (map acc_meta accs)))
      \<and> fst (signing_key_operator_watcher E (ObjOperator opr) s) = Returns (map request_for
        (filter (labelled (Some (m_namespace (op_meta opr))) LabelOperatorName (m_name (op_meta opr))) (map sk_meta keys))))
    \<and> (\<forall>acc. fst (signing_key_account_watcher E (ObjAccount acc) s) = Returns (map request_for
        (filter (labelled (Some (m_namespace (acc_meta acc))) LabelAccountName (m_name (acc_meta acc))) (map sk_meta keys)))
      \<and> fst (user_account_watcher E (ObjAccount acc) s) = Returns (map request_for
        (filter (labelled None LabelAccountName (m_name (acc_meta acc))) (map usr_meta users))))"
  using owner_is_woken [OF assms(1)] labels_wake [OF assms(2-4)] by blast

text \<open>A store with two accounts, of which one carries the operator's label, and a key of an account.\<close>

definition waking_env :: "unit env" where
  "waking_env = sample_env\<lparr>e_kube := store_kube [labelled_account, sample_account], e_mach := sample_machinery\<rparr>"

theorem changes_wake_witness:
  "fst (account_operator_watcher waking_env (ObjOperator sample_operator) (start sample_account)) =
     Returns [\<lparr>rq_namespace = ''ns'', rq_name = ''acc''\<rparr>]
   \<and> operator_signing_key_watcher (e_mach waking_env) (ObjSigningKey owned_key) = []
   \<and> account_signing_key_watcher (e_mach waking_env) (ObjSigningKey owned_key) =
     [\<lparr>rq_namespace = ''ns'', rq_name = ''acc''\<rparr>]"
proof -
  have "gvk_law (e_mach waking_env) (object_get_gvk (ObjAccount sample_account))"
    by (simp add: gvk_law_def waking_env_def sample_machinery_def sample_account_def group_version_with_kind_def Group_def)
  moreover have "lists_store (cl_list_accounts (e_kube waking_env)) acc_meta [labelled_account, sample_account]"
    "lists_store (cl_list_signing_keys (e_kube waking_env)) sk_meta []"
    "lists_store (cl_list_users (e_kube waking_env)) usr_meta []"
    by (simp_all add: lists_store_def waking_env_def store_kube_def sample_kube_def)
  ultimately have all: "sks_owner_ref (sk_status owned_key) = Some (reference_to (e_mach waking_env) (ObjAccount sample_account)) \<Longrightarrow>
      operator_signing_key_watcher (e_mach waking_env) (ObjSigningKey owned_key) = [] \<and>
      account_signing_key_watcher (e_mach waking_env) (ObjSigningKey owned_key) = [request_for (acc_meta sample_account)]"
    "fst (account_operator_watcher waking_env (ObjOperator sample_operator) (start sample_account)) = Returns (map request_for
      (filter (labelled None LabelOperatorName (m_name (op_meta sample_operator))) (map acc_meta [labelled_account, sample_account])))"
    using changes_wake [of waking_env "ObjAccount sample_account" "[labelled_account, sample_account]" "[]" "[]"
        "start sample_account"]
    by (simp_all add: sample_account_def group_version_with_kind_def)
  have "sks_owner_ref (sk_status owned_key) = Some (reference_to (e_mach waking_env) (ObjAccount sample_account))"
    by (simp add: owned_key_def waking_env_def)
  from all(1) [OF this] all(2) show ?thesis
    by (simp add: labelled_def labelled_account_def set_account_meta_def put_label_def sample_account_def empty_meta_def
        sample_operator_def request_for_def)
qed

end
