(* ===== verification/Operator_Properties.thy ===== *)
theory Operator_Properties
  imports Operator_Reconciler Base_Properties Behaviour
begin

text \<open>
  The properties of the reconciler of Operators, on its runs from any state: the status it writes,
  that it does not panic, and which signing keys it takes.
\<close>

section \<open>The status\<close>

text \<open>The status of an operator. A reconciliation of an operator whose status is new or was written
  by this controller writes the status at most once, as its last call, and exactly when the status
  differs from the one that was read; what it writes is a state of the lifecycle. A conflict without
  another error asks for another attempt after one second, any other failure is added to the error.\<close>

theorem operator_status_written:
  assumes "get_operator E ns name s = (Returns (Inr opr), s1)"
    and "operator_known (time_now (e_kube E)) (op_status opr)"
    and "operator_reconcile E ns name s = (r, s')"
  shows "\<exists>front end. (\<forall>c \<in> set front. \<not> status_write c) \<and> operator_run (time_now (e_kube E)) (op_status end)
    \<and> (trace s' = trace s1 @ front \<and> operator_status_equal (op_status opr) (op_status end)
       \<or> (\<exists>answer br. trace s' = trace s1 @ front @ [StatusUpdate (ObjOperator end) answer]
            \<and> \<not> operator_status_equal (op_status opr) (op_status end)
            \<and> r = deferral_outcome operator_status_error br answer))"
proof -
  have "wp (operator_do (operator_initialize_conditions (time_now (e_kube E))))
      (\<lambda>r t'. operator_run (time_now (e_kube E)) (op_status (cur t'))) t" if "cur t = opr" for t
    using that assms(2) by (intro operator_prepare_run) simp
  from operator_frame.frame [OF assms(1) this operator_body_preserves [unfolded preserves_leads]] assms(3)
  show ?thesis by (auto simp: wp_run)
qed

lemma new_operator_status_known: "operator_known now new_operator_status"
  by (simp add: operator_known_def fresh_status_def new_operator_status_def operator_get_conditions_def operator_backed_def)

definition new_operator :: operator where
  "new_operator = sample_operator\<lparr>op_status := new_operator_status\<rparr>"

lemma operator_run_conditions: "operator_run now s \<Longrightarrow> operator_get_conditions s \<noteq> []"
  using operator_life.run_summary [of now s] by (auto simp: operator_run_def get_condition_def)

theorem operator_status_written_witness:
  "\<exists>r s' front end answer. operator_reconcile (with_operator new_operator sample_env) ''ns'' ''op'' (start new_operator) = (r, s')
     \<and> trace s' = ObjectGet KindOperator ''ns'' ''op'' (Inr (ObjOperator new_operator)) # front @ [StatusUpdate (ObjOperator end) answer]
     \<and> operator_run (time_now sample_kube) (op_status end) \<and> (\<forall>c \<in> set front. \<not> status_write c)"
proof -
  let ?E = "with_operator new_operator sample_env"
  obtain r s' where run: "operator_reconcile ?E ''ns'' ''op'' (start new_operator) = (r, s')" by fastforce
  have now: "time_now (e_kube ?E) = time_now sample_kube" by (simp add: with_operator_def sample_env_def)
  have get: "get_operator ?E ''ns'' ''op'' (start new_operator) = (Returns (Inr new_operator),
      (start new_operator)\<lparr>trace := [ObjectGet KindOperator ''ns'' ''op'' (Inr (ObjOperator new_operator))]\<rparr>)"
    by (simp add: get_operator_def external_def with_operator_def start_def)
  have known: "operator_known (time_now (e_kube ?E)) (op_status new_operator)"
    by (simp add: new_operator_def new_operator_status_known)
  have "\<not> operator_status_equal (op_status new_operator) st" if "operator_run now st" for now :: "unit \<Rightarrow> int \<times> unit" and st
    using operator_run_conditions [OF that]
    by (simp add: operator_status_equal_def new_operator_def new_operator_status_def operator_get_conditions_def
        conditions_semantic_equal_def)
  with operator_status_written [OF get known run] run now show ?thesis by auto
qed

section \<open>Panics\<close>

lemma operator_reconcile_total: "total now A (operator_reconcile E ns name)"
  unfolding operator_reconcile_def update_operator_status_def get_operator_def
  by (intro total_rules operator_body_total)

text \<open>The reconciler of operators never dereferences a nil pointer, as long as the accounts and the
  signing keys it reads have statuses that are new or were written by these controllers.\<close>

theorem operator_never_panics:
  assumes "operator_reconcile E ns name s = (r, s')" and "trace s' = trace s @ l"
    and "\<forall>c \<in> set l. known_answer (time_now (e_kube E)) c"
  shows "r \<noteq> Panics"
  using total_run [OF operator_reconcile_total assms] .

theorem operator_never_panics_witness:
  "fst (operator_reconcile sample_env ''ns'' ''op'' (start new_operator)) \<noteq> Panics"
proof -
  let ?E = "sample_env"
  obtain r s' where run: "operator_reconcile ?E ''ns'' ''op'' (start new_operator) = (r, s')" by fastforce
  then have "trace s' = trace (start new_operator) @ [ObjectGet KindOperator ''ns'' ''op'' (Inl missing)]"
    by (auto simp: operator_reconcile_def get_operator_def external_def bind_def ret_def sample_env_def sample_kube_def start_def)
  from operator_never_panics [OF run this] run show ?thesis by simp
qed

section \<open>Signing keys\<close>

text \<open>C36: the signing keys an operator takes from a list are those that are ready and whose owner has the
  operator's name and namespace, in the order of the list. The kind of the owner is not compared: a
  key that belongs to an account of the same name and namespace is taken as well.\<close>

theorem operator_signing_keys_taken:
  assumes "\<forall>sk \<in> set sks. known_object now (ObjSigningKey sk)"
  shows "operator_signing_keys opr sks = Returns (map embedded (filter (\<lambda>sk. signing_key_is_ready (sk_status sk)
      \<and> tor_namespace (the (sks_owner_ref (sk_status sk))) = m_namespace (op_meta opr)
      \<and> tor_name (the (sks_owner_ref (sk_status sk))) = m_name (op_meta opr)) sks))"
  using assms
proof (induction sks)
  case (Cons sk sks)
  then have "signing_key_is_ready (sk_status sk) \<Longrightarrow>
      sks_key_pair (sk_status sk) \<noteq> None \<and> sks_owner_ref (sk_status sk) \<noteq> None"
    using known_signing_key_ready [of now sk] by (simp del: known_object.simps)
  with Cons show ?case by (auto simp: embedded_def)
qed simp

text \<open>A signing key of the account ns/op, ready.\<close>

definition account_key_status :: signing_key_status where
  "account_key_status = fst (signing_key_mark_owner_resolved tick
     \<lparr>tor_api_version = ''v1'', tor_kind = ''Account'', tor_name = ''op'', tor_namespace = ''ns'', tor_uid = ''u''\<rparr>
     (fst (signing_key_mark_seed_secret_ready tick ''pub-K'' ''seed''
       (fst (signing_key_initialize_conditions tick (new_signing_key_status, 0)), 1)), 2))"

lemma account_key_status_run: "signing_key_run tick account_key_status"
proof -
  let ?f = "fst (signing_key_initialize_conditions tick (new_signing_key_status, 0))"
  have "signing_key_run tick ?f"
    unfolding signing_key_run_def by (intro lifecycle_run.created new_signing_key_status_fresh)
  then have "signing_key_run tick (fst (signing_key_call tick (SigningKeyMarkSeedSecretReady ''pub-K'' ''seed'') (?f, 1)))"
    unfolding signing_key_run_def by (rule lifecycle_run.called)
  then have "signing_key_run tick (fst (signing_key_call tick (SigningKeyMarkOwnerResolved
     \<lparr>tor_api_version = ''v1'', tor_kind = ''Account'', tor_name = ''op'', tor_namespace = ''ns'', tor_uid = ''u''\<rparr>)
     (fst (signing_key_call tick (SigningKeyMarkSeedSecretReady ''pub-K'' ''seed'') (?f, 1)), 2)))"
    unfolding signing_key_run_def by (rule lifecycle_run.called)
  then show ?thesis by (simp add: account_key_status_def)
qed

lemma account_key_status_ready: "signing_key_is_ready account_key_status"
  by code_simp

lemma account_key_status_owner: "tor_namespace (the (sks_owner_ref account_key_status)) = ''ns''
    \<and> tor_name (the (sks_owner_ref account_key_status)) = ''op''"
  by code_simp

theorem operator_signing_keys_taken_witness:
  "operator_signing_keys sample_operator [(sample_signing_key ''k'')\<lparr>sk_status := account_key_status\<rparr>] =
     Returns [embedded ((sample_signing_key ''k'')\<lparr>sk_status := account_key_status\<rparr>)]"
proof -
  have "\<forall>sk \<in> set [(sample_signing_key ''k'')\<lparr>sk_status := account_key_status\<rparr>]. known_object tick (ObjSigningKey sk)"
    by (simp add: signing_key_known_def account_key_status_run)
  from operator_signing_keys_taken [OF this, of sample_operator] show ?thesis
    by (simp add: account_key_status_ready account_key_status_owner sample_operator_def empty_meta_def)
qed

end
