(* ===== verification/Histories.thy ===== *)
theory Histories
  imports Operator_Properties User_Properties Signing_Key_Properties Account_Finalizer
begin

text \<open>
  The four reconcilers together. A stored object begins with a new status; users edit its metadata
  and its spec; and a reconciliation of any object, which reads stored objects (the latest or older
  versions, of any kind, in any order), may write its status. \<open>stored\<close> is what can be in the cluster
  after any number of reconciliations of any objects in any interleaving: the world of each is
  arbitrary, only the objects it reads have to be stored ones.
\<close>

section \<open>What a reconciliation writes\<close>

context status_reconciler
begin

lemma writes_satisfy:
  assumes run: "reconcile ns name s = (r, s')" "trace s' = trace s @ l"
    and start: "\<And>obj t. gotten ns name (Inr obj) \<in> set l \<Longrightarrow> cur t = obj \<Longrightarrow> wp prepare (\<lambda>r t'. I (cur t')) t"
    and body: "leads I J body" and wrote: "c \<in> set l" "status_write c"
  shows "\<exists>end answer. c = written end answer \<and> J end"
proof -
  obtain ra s1 where f: "fetch ns name s = (ra, s1)" by (cases "fetch ns name s")
  with logsD [OF fetch_logs f] obtain a where
    fetch: "fetch ns name s = (Returns a, s1)" "trace s1 = trace s @ [gotten ns name a]" by auto
  show ?thesis
  proof (cases a)
    case (Inl e)
    then have "trace s' = trace s1" using fetch run(1) by (simp add: shape bind_def ret_def)
    with fetch run(2) wrote gotten_no_status show ?thesis by auto
  next
    case (Inr obj)
    have "leads (\<lambda>_. True) (\<lambda>_. True) body" "wp prepare (\<lambda>_ _. True) t" for t
      by (simp_all add: leads_def wp_def split: prod.split)
    from frame [OF fetch(1) [unfolded Inr] this(2) this(1)] run(1)
    obtain rest where "trace s' = trace s1 @ rest" by (auto simp: wp_run)
    with fetch(2) run(2) Inr have "gotten ns name (Inr obj) \<in> set l" by auto
    from frame [OF fetch(1) [unfolded Inr] start [OF this] body] run(1)
    obtain front ob where front: "\<forall>c \<in> set front. \<not> status_write c" "J ob"
      and ways: "trace s' = trace s1 @ front \<or> (\<exists>answer. trace s' = trace s1 @ front @ [written ob answer])"
      by (auto simp: wp_run)
    then have "l = gotten ns name a # front \<or> (\<exists>answer. l = gotten ns name a # front @ [written ob answer])"
      using ways fetch(2) run(2) by auto
    with front(1) wrote gotten_no_status have "\<exists>answer. c = written ob answer" by auto
    with front(2) show ?thesis by blast
  qed
qed

end

section \<open>The system\<close>

text \<open>The outcome and the calls of one reconciliation, of an object of any kind, from any state of the
  world.\<close>

inductive reconciliation :: "'x env \<Rightarrow> (ctrl_result \<times> error option) outcome \<Rightarrow> call list \<Rightarrow> bool" for E where
  of_operator: "operator_reconcile E ns name s = (r, s') \<Longrightarrow> trace s' = trace s @ l \<Longrightarrow> reconciliation E r l"
| of_account: "account_reconcile E ns name t = (r, t') \<Longrightarrow> trace t' = trace t @ l \<Longrightarrow> reconciliation E r l"
| of_user: "user_reconcile E ns name u = (r, u') \<Longrightarrow> trace u' = trace u @ l \<Longrightarrow> reconciliation E r l"
| of_signing_key: "signing_key_reconcile E ns name v = (r, v') \<Longrightarrow> trace v' = trace v @ l \<Longrightarrow> reconciliation E r l"

fun fresh_object :: "client_object \<Rightarrow> bool" where
  "fresh_object (ObjOperator o') = fresh_status operator_get_conditions operator_backs operator_backed (op_status o')"
| "fresh_object (ObjAccount a) = fresh_status account_get_conditions account_backs account_backed (acc_status a)"
| "fresh_object (ObjSigningKey k) = fresh_status signing_key_get_conditions signing_key_backs signing_key_backed (sk_status k)"
| "fresh_object (ObjUser u) = fresh_status user_get_conditions user_backs user_backed (usr_status u)"
| "fresh_object (ObjOther g m) = True"

inductive same_status :: "client_object \<Rightarrow> client_object \<Rightarrow> bool" where
  "op_status a = op_status b \<Longrightarrow> same_status (ObjOperator a) (ObjOperator b)"
| "acc_status c = acc_status d \<Longrightarrow> same_status (ObjAccount c) (ObjAccount d)"
| "sk_status k = sk_status k' \<Longrightarrow> same_status (ObjSigningKey k) (ObjSigningKey k')"
| "usr_status u = usr_status v \<Longrightarrow> same_status (ObjUser u) (ObjUser v)"

inductive_cases same_statusE: "same_status ob ob'"

inductive stored :: "'x env \<Rightarrow> client_object \<Rightarrow> bool" for E where
  created: "fresh_object ob \<Longrightarrow> stored E ob"
| edited: "stored E ob \<Longrightarrow> same_status ob ob' \<Longrightarrow> stored E ob'"
| reconciled: "reconciliation E r l \<Longrightarrow> (\<And>k n m ob. ObjectGet k n m (Inr ob) \<in> set l \<Longrightarrow> stored E ob) \<Longrightarrow>
     StatusUpdate ob None \<in> set l \<Longrightarrow> stored E ob"

text \<open>
  The other write of the account, user and signing key reconcilers, of labels and finalizers, returns
  the object with the status the cluster has stored.
\<close>

definition update_laws :: "'x env \<Rightarrow> bool" where
  "update_laws E = (account_update_law E \<and> user_update_law E \<and> signing_key_update_law E)"

lemma reconciliation_writes:
  assumes "reconciliation E r l" and "update_laws E"
    and "\<And>k n m ob. ObjectGet k n m (Inr ob) \<in> set l \<Longrightarrow> known_object (time_now (e_kube E)) ob"
    and "StatusUpdate ob answer \<in> set l"
  shows "known_object (time_now (e_kube E)) ob"
  using assms(1)
proof cases
  case (of_operator ns name s s')
  have "\<exists>ob' a. StatusUpdate ob answer = StatusUpdate (ObjOperator ob') a \<and> operator_run (time_now (e_kube E)) (op_status ob')"
    by (rule operator_frame.writes_satisfy [OF of_operator _ operator_body_preserves [unfolded preserves_leads] assms(4)])
      (auto intro!: operator_prepare_run dest: assms(3))
  then show ?thesis by (auto simp: operator_known_def)
next
  case (of_account ns name s s')
  have "account_update_law E" using assms(2) by (simp add: update_laws_def)
  then have "\<exists>ob' a. StatusUpdate ob answer = StatusUpdate (ObjAccount ob') a \<and> account_known (time_now (e_kube E)) (acc_status ob')"
    by (intro account_frame.writes_satisfy [OF of_account _ account_body_leads assms(4)])
      (auto intro!: account_prepare_run dest: assms(3))
  then show ?thesis by auto
next
  case (of_user ns name s s')
  have "user_update_law E" using assms(2) by (simp add: update_laws_def)
  then have "\<exists>ob' a. StatusUpdate ob answer = StatusUpdate (ObjUser ob') a \<and> user_known (time_now (e_kube E)) (usr_status ob')"
    by (intro user_frame.writes_satisfy [OF of_user _ user_body_leads assms(4)])
      (auto intro!: user_prepare_run dest: assms(3))
  then show ?thesis by auto
next
  case (of_signing_key ns name s s')
  have "signing_key_update_law E" using assms(2) by (simp add: update_laws_def)
  then have "\<exists>ob' a. StatusUpdate ob answer = StatusUpdate (ObjSigningKey ob') a
      \<and> signing_key_known (time_now (e_kube E)) (sk_status ob')"
    by (intro signing_key_frame.writes_satisfy [OF of_signing_key _ signing_key_body_leads assms(4)])
      (auto intro!: signing_key_prepare_run dest: assms(3))
  then show ?thesis by auto
qed

lemma fresh_known: "fresh_object ob \<Longrightarrow> known_object now ob"
  by (cases ob) (simp_all add: operator_known_def account_known_def signing_key_known_def user_known_def)

lemma same_status_known: "same_status ob ob' \<Longrightarrow> known_object now ob \<Longrightarrow> known_object now ob'"
  by (auto elim: same_statusE)

lemma stored_known:
  assumes "stored E ob" and "update_laws E"
  shows "known_object (time_now (e_kube E)) ob"
  using assms(1)
proof induction
  case (created ob)
  then show ?case by (rule fresh_known)
next
  case (edited ob ob')
  then show ?case by (blast intro: same_status_known)
next
  case (reconciled r l ob)
  from reconciliation_writes [OF reconciled(1) assms(2) reconciled(4) reconciled(3)] show ?case .
qed

section \<open>What is stored is consistent\<close>

fun status_meaning :: "client_object \<Rightarrow> bool" where
  "status_meaning (ObjOperator x) = (let s = op_status x in
     (operator_is_ready s \<longleftrightarrow> (\<forall>t \<in> {OperatorConditionSeedSecretReady, OperatorConditionSystemAccountResolved,
        OperatorConditionSigningKeysUpdated, OperatorConditionJWTSecretReady}. is_true (operator_get_condition t s)))
     \<and> (ops_key_pair s \<noteq> None \<longleftrightarrow> is_true (operator_get_condition OperatorConditionSeedSecretReady s))
     \<and> (ops_resolved_system_account s \<noteq> None
        \<longleftrightarrow> is_true (operator_get_condition OperatorConditionSystemAccountResolved s)))"
| "status_meaning (ObjAccount x) = (let s = acc_status x in
     (account_is_ready s \<longleftrightarrow> (\<forall>t \<in> {KeyPairableConditionSeedSecretReady, AccountConditionOperatorResolved,
        AccountConditionIssuerResolved, AccountConditionSigningKeysUpdated, AccountConditionJWTSecretReady,
        AccountConditionJWTPushed}. is_true (account_get_condition t s)))
     \<and> (accs_key_pair s \<noteq> None \<longleftrightarrow> is_true (account_get_condition KeyPairableConditionSeedSecretReady s))
     \<and> (accs_operator_ref s \<noteq> None \<longleftrightarrow> is_true (account_get_condition AccountConditionOperatorResolved s)))"
| "status_meaning (ObjUser x) = (let s = usr_status x in
     (user_is_ready s \<longleftrightarrow> (\<forall>t \<in> {KeyPairableConditionSeedSecretReady, UserConditionAccountResolved,
        UserConditionIssuerResolved, UserConditionJWTSecretReady, UserConditionCredentialsSecretReady}.
        is_true (user_get_condition t s)))
     \<and> (usrs_key_pair s \<noteq> None \<longleftrightarrow> is_true (user_get_condition KeyPairableConditionSeedSecretReady s))
     \<and> (usrs_account_ref s \<noteq> None \<longleftrightarrow> is_true (user_get_condition UserConditionAccountResolved s)))"
| "status_meaning (ObjSigningKey x) = (let s = sk_status x in
     (signing_key_is_ready s \<longleftrightarrow> (\<forall>t \<in> {SigningKeyConditionSeedSecretReady, SigningKeyConditionOwnerResolved}.
        is_true (signing_key_get_condition t s)))
     \<and> (sks_key_pair s \<noteq> None \<longleftrightarrow> is_true (signing_key_get_condition SigningKeyConditionSeedSecretReady s))
     \<and> (sks_owner_ref s \<noteq> None \<longleftrightarrow> is_true (signing_key_get_condition SigningKeyConditionOwnerResolved s)))"
| "status_meaning (ObjOther g m) = True"

lemma fresh_meaning: "fresh_object ob \<Longrightarrow> status_meaning ob"
  by (cases ob) (simp_all add: Let_def fresh_status_def get_condition_def is_happy_def get_top_level_condition_def
      operator_backs_def operator_backed_def operator_get_condition_def operator_is_ready_def operator_condition_defs
      account_backs_def account_backed_def account_get_condition_def account_is_ready_def account_condition_defs
      user_backs_def user_backed_def user_get_condition_def user_is_ready_def user_condition_defs
      signing_key_backs_def signing_key_backed_def signing_key_get_condition_def signing_key_is_ready_def
      signing_key_condition_defs)

lemma known_meaning:
  assumes "known_object now ob"
  shows "status_meaning ob"
proof (cases "fresh_object ob")
  case False
  show ?thesis
  proof (cases ob)
    case (ObjOperator x)
    with assms False have "operator_run now (op_status x)" by (simp add: operator_known_def)
    from operator_status_consistent [OF this] show ?thesis unfolding ObjOperator status_meaning.simps Let_def .
  next
    case (ObjAccount x)
    with assms False have "account_run now (acc_status x)" by (simp add: account_known_def)
    from account_status_consistent [OF this] show ?thesis unfolding ObjAccount status_meaning.simps Let_def .
  next
    case (ObjUser x)
    with assms False have "user_run now (usr_status x)" by (simp add: user_known_def)
    from user_status_consistent [OF this] show ?thesis unfolding ObjUser status_meaning.simps Let_def .
  next
    case (ObjSigningKey x)
    with assms False have "signing_key_run now (sk_status x)" by (simp add: signing_key_known_def)
    from signing_key_status_consistent [OF this] show ?thesis unfolding ObjSigningKey status_meaning.simps Let_def by blast
  qed simp
qed (rule fresh_meaning)

text \<open>C6: what is stored is consistent. However reconciliations of operators, accounts, users and
  signing keys and the edits of their users are interleaved, and whatever old versions a
  reconciliation reads: the status of every object in the cluster is ready exactly when all its
  conditions are True, and each field that a condition promises (key pair, system account, operator,
  account and owner reference) is set exactly when that condition is True. The hypothesis is what
  Kubernetes documents of an update that is not one of the status.\<close>

theorem stored_consistent:
  assumes "stored E ob" and "update_laws E"
  shows "status_meaning ob"
  by (rule known_meaning [OF stored_known [OF assms]])

lemma with_account_update_laws: "update_laws (with_account a sample_env)"
  by (simp add: update_laws_def account_update_law_def user_update_law_def signing_key_update_law_def account_run_known
      user_run_known signing_key_run_known with_account_def sample_env_def sample_kube_def)

lemma initialized_differs:
  "\<not> account_status_equal new_account_status (fst (account_initialize_conditions (time_now sample_kube) (new_account_status, ())))"
  by code_simp

text \<open>The first reconciliation of a new account adds the finalizer and stores the new conditions.\<close>

lemma first_reconciliation:
  "\<exists>a b. trace (snd (account_reconcile (with_account new_account sample_env) ''ns'' ''acc'' (start new_account))) =
     [ObjectGet KindAccount ''ns'' ''acc'' (Inr (ObjAccount new_account)), ObjectUpdate (ObjAccount a) None,
      StatusUpdate (ObjAccount b) None]"
proof -
  let ?E = "with_account new_account sample_env" and ?s = "start new_account"
  have "wp (account_reconcile ?E ''ns'' ''acc'') (\<lambda>_ s'. \<exists>a b. trace s' =
     [ObjectGet KindAccount ''ns'' ''acc'' (Inr (ObjAccount new_account)), ObjectUpdate (ObjAccount a) None,
      StatusUpdate (ObjAccount b) None]) ?s"
    using initialized_differs
    by (simp add: account_reconcile_def account_reconcile_body_def get_account_def account_do_def with_account_def start_def
        wp_with_status_deferral update_account_def update_account_status_def modify_cur_def
        set_account_status_def set_account_meta_def new_account_def sample_account_def empty_meta_def not_deleted_def
        sample_env_def plain_machinery_def split: prod.split)
      (auto simp: write_cur_def sample_kube_def)
  then show ?thesis by (auto simp: wp_def split: prod.splits)
qed

theorem stored_consistent_witness:
  "\<exists>b. StatusUpdate (ObjAccount b) None
       \<in> set (trace (snd (account_reconcile (with_account new_account sample_env) ''ns'' ''acc'' (start new_account))))
     \<and> stored (with_account new_account sample_env) (ObjAccount b) \<and> status_meaning (ObjAccount b)"
proof -
  let ?E = "with_account new_account sample_env"
  obtain r s' where run: "account_reconcile ?E ''ns'' ''acc'' (start new_account) = (r, s')" by fastforce
  then obtain a b where l: "trace s' = trace (start new_account) @
      [ObjectGet KindAccount ''ns'' ''acc'' (Inr (ObjAccount new_account)), ObjectUpdate (ObjAccount a) None,
       StatusUpdate (ObjAccount b) None]"
    using first_reconciliation by (auto simp: start_def)
  have new: "stored ?E (ObjAccount new_account)"
    by (rule stored.created) (simp add: new_account_def new_account_status_fresh)
  have b: "stored ?E (ObjAccount b)"
    by (rule stored.reconciled [OF reconciliation.of_account [OF run l]]) (auto simp: new)
  from stored_consistent [OF b with_account_update_laws] have "status_meaning (ObjAccount b)" .
  with b run l show ?thesis by auto
qed

section \<open>Panics\<close>



end
