(* ===== verification/Progress.thy ===== *)
theory Progress
  imports Histories
begin

text \<open>
  Every write asks for another round: a reconciliation that has changed a secret or the object does
  not end as finished. So an object that is reported finished was found in order by one reconciliation
  from its seed to its last step, and all the steps ran on what was read back.
\<close>

section \<open>Writes\<close>

fun wrote :: "call \<Rightarrow> bool" where
  "wrote (SecretCreate _ r) = (r = None)"
| "wrote (SecretUpdate _ r) = (r = None)"
| "wrote (ObjectUpdate _ r) = (r = None)"
| "wrote _ = False"

definition quiet :: "call list \<Rightarrow> bool" where
  "quiet l = (\<forall>c \<in> set l. \<not> wrote c)"

lemma quiet_simps [simp]: "quiet []" "quiet (c # l) \<longleftrightarrow> \<not> wrote c \<and> quiet l" "quiet (l @ l') \<longleftrightarrow> quiet l \<and> quiet l'"
  by (auto simp: quiet_def)

text \<open>\<open>again W m\<close>: when \<open>m\<close> writes, its outcome is of the kind \<open>W\<close>.\<close>

definition again :: "('a outcome \<Rightarrow> bool) \<Rightarrow> (('x, 'o) st, 'a) go \<Rightarrow> bool" where
  "again W m = logs m (\<lambda>r l. quiet l \<or> W r)"

lemma again_quiet: "emits m (\<lambda>c. \<not> wrote c) \<Longrightarrow> again W m"
  unfolding again_def by (rule logs_mono [OF emits_logs]) (auto simp: quiet_def)

lemma again_after:
  assumes "emits m (\<lambda>c. \<not> wrote c)" and "\<And>a. again W (k a)"
  shows "again W (bind m k)"
  unfolding again_def
  by (rule logs_bind [OF emits_logs [OF assms(1)] assms(2) [unfolded again_def]]) (auto simp: quiet_def)

lemma again_bind:
  assumes "again V m" and "V Panics \<Longrightarrow> W Panics" and "\<And>a. again W (k a)"
    and "\<And>a. V (Returns a) \<Longrightarrow> logs (k a) (\<lambda>r l. W r)"
  shows "again W (bind m k)"
  unfolding again_def
proof (rule logs_seq [OF assms(1) [unfolded again_def]])
  show "logs (k a) (\<lambda>r l'. quiet (l @ l') \<or> W r)" if "quiet l \<or> V (Returns a)" for a l
  proof (cases "V (Returns a)")
    case True
    then show ?thesis by (rule logs_mono [OF assms(4)]) simp
  next
    case False
    with that show ?thesis using assms(3) [of a] unfolding again_def by (auto elim!: logs_mono)
  qed
qed (use assms(2) in auto)

lemma again_branches:
  "(b \<Longrightarrow> again W m) \<Longrightarrow> (\<not> b \<Longrightarrow> again W n) \<Longrightarrow> again W (if b then m else n)"
  "(x = None \<Longrightarrow> again W m1) \<Longrightarrow> (\<And>a. x = Some a \<Longrightarrow> again W (k1 a)) \<Longrightarrow>
     again W (case x of None \<Rightarrow> m1 | Some a \<Rightarrow> k1 a)"
  "(\<And>e. y = Inl e \<Longrightarrow> again W (m2 e)) \<Longrightarrow> (\<And>a. y = Inr a \<Longrightarrow> again W (k2 a)) \<Longrightarrow>
     again W (case y of Inl e \<Rightarrow> m2 e | Inr a \<Rightarrow> k2 a)"
  "(\<And>a b. z = (a, b) \<Longrightarrow> again W (k3 a b)) \<Longrightarrow> again W (case z of (a, b) \<Rightarrow> k3 a b)"
  by (auto split: option.split sum.split prod.split)

section \<open>The steps\<close>

lemma create_seed_again:
  "again (\<lambda>r. \<exists>kp seed. r = Returns (kp, seed, None)) (create_seed_secret E owner nk opts)"
  unfolding again_def create_seed_secret_def by (intro logs_rules) auto

lemma ensure_seed_again:
  "again (\<lambda>r. \<exists>kp. r = Returns (kp, requeue_result, None)) (ensure_seed_secret_up_to_date E owner got opts)"
  unfolding again_def ensure_seed_secret_up_to_date_def by (intro logs_rules) auto

lemma reconcile_seed_again:
  "again (\<lambda>r. \<exists>kp seed. r = Returns (kp, seed, requeue_result, None)) (reconcile_seed_secret E owner nk name opts)"
  unfolding reconcile_seed_secret_def get_secret_def
  by (intro again_after [OF emits_external] again_branches again_bind [OF create_seed_again]
      again_bind [OF ensure_seed_again])
    (auto intro!: again_quiet emits_rules logs_rules)

lemma create_jwt_again: "again (\<lambda>r. r = Returns None) (create_jwt_secret E ob jwt)"
  unfolding again_def create_jwt_secret_def by (intro logs_rules) auto

lemma create_jwt_round:
  "again (\<lambda>r. \<exists>jwt. r = Returns (jwt, requeue_result, None))
     (bind (create_jwt_secret E ob next_jwt) (\<lambda>err. ret (next_jwt, requeue_result, err)))"
  by (rule again_bind [OF create_jwt_again]) (auto intro!: again_quiet emits_rules logs_rules)

lemma ensure_jwt_again:
  "again (\<lambda>r. \<exists>jwt. r = Returns (jwt, requeue_result, None)) (ensure_jwt_secret_up_to_date E ob want got next_jwt)"
proof -
  let ?W = "\<lambda>r. \<exists>jwt. r = Returns (jwt, requeue_result, None)"
  have "again ?W (replace_jwt_secret E ob got next_jwt)"
    unfolding replace_jwt_secret_def delete_secret_def eventf_def
    by (intro again_after [OF emits_external] again_after [OF emits_log_call] again_branches create_jwt_round)
      (auto intro!: again_quiet)
  moreover have "again ?W (update_jwt_secret E ob got next_jwt)"
    unfolding update_jwt_secret_def again_def
    by (intro logs_rules logs_mono [OF create_jwt_round [unfolded again_def]]) auto
  ultimately show ?thesis
    unfolding ensure_jwt_secret_up_to_date_def by (intro again_branches) (auto intro!: again_quiet)
qed

lemma account_labels_again: "again (\<lambda>r. r = Returns (requeue_result, None)) (account_reconcile_labels E)"
  unfolding account_reconcile_labels_def update_account_def again_def by (intro logs_rules) auto

lemma account_jwt_again:
  "again (\<lambda>r. \<exists>jwt. r = Returns (jwt, requeue_result, None)) (account_reconcile_jwt_secret E kp)"
  unfolding account_reconcile_jwt_secret_def get_secret_def
proof (intro again_after [OF emits_get_cur] again_after [OF emits_create_claims(2)] again_after [OF emits_external] again_branches)
qed (auto intro: create_jwt_round ensure_jwt_again intro!: again_quiet [OF emits_ret])

section \<open>The reconciliation\<close>

definition unfinished :: "(ctrl_result \<times> error option) outcome \<Rightarrow> bool" where
  "unfinished r = (r \<noteq> Returns (zero_result, None))"

lemma account_parts_quiet:
  "emits (account_do f) (\<lambda>c. \<not> wrote c)"
  "emits (account_ensure_signing_keys_updated E) (\<lambda>c. \<not> wrote c)"
  "emits (account_load_issuer_seed E kpr) (\<lambda>c. \<not> wrote c)"
  "emits (validate_operator_selector E opr acc) (\<lambda>c. \<not> wrote c)"
  "emits (resolve_operator E kpr) (\<lambda>c. \<not> wrote c)"
  "emits (resolve_issuer E issuer ns) (\<lambda>c. \<not> wrote c)"
  "emits (ensure_jwt_pushed E opr kp jwt) (\<lambda>c. \<not> wrote c)"
  "emits (finalize_account E) (\<lambda>c. \<not> wrote c)"
  unfolding account_do_def account_ensure_signing_keys_updated_def validate_operator_selector_def
  by (intro emits_rules emits_account_load emits_resolve_operator emits_account_nats emits_finalize_account
      emits_mono [OF resolve_issuer_emits]; auto simp: nats_call_def split: call.splits)+

lemma account_admitted_again: "again unfinished (account_reconcile_admitted E kp opr)"
  unfolding account_reconcile_admitted_def Let_def
  by (intro again_after [OF account_parts_quiet(1)] again_bind [OF account_labels_again] again_branches
      again_after [OF account_parts_quiet(2)] again_after [OF account_parts_quiet(3)] again_after [OF emits_deref]
      again_bind [OF account_jwt_again])
    (auto intro!: again_quiet emits_rules account_parts_quiet logs_rules simp: unfinished_def)

lemma account_live_again: "again unfinished (account_reconcile_live E)"
  unfolding account_reconcile_live_def Let_def
  by (intro again_after [OF emits_get_cur] again_bind [OF reconcile_seed_again] again_branches
      again_after [OF account_parts_quiet(1)] again_after [OF emits_deref]
      again_after [OF account_parts_quiet(4)] again_after [OF account_parts_quiet(5)]
      again_after [OF account_parts_quiet(6)] account_admitted_again)
    (auto intro!: again_quiet emits_rules account_parts_quiet logs_rules simp: unfinished_def)

lemma account_body_again: "again unfinished (account_reconcile_body E)"
  unfolding account_reconcile_body_def update_account_def write_cur_def bind_bind
  by (intro again_after [OF emits_get_cur] again_branches account_live_again again_after [OF account_parts_quiet(8)])
    (auto intro!: again_quiet emits_rules logs_rules simp: again_def unfinished_def)

lemma unfinished_deferral: "unfinished r \<Longrightarrow> unfinished (deferral_outcome wrap r answer)"
  by (cases r; cases answer)
    (auto simp: unfinished_def multierr_append_def requeue_after_result_def zero_result_def second_def split: option.splits if_splits)

lemma again_with_status_deferral:
  assumes "again unfinished body" and "\<And>a err. \<not> wrote (written a err)"
  shows "again unfinished (with_status_deferral status_of equal (write_cur writer written) wrap original body)"
  unfolding again_def logs_def wp_with_status_deferral
proof
  fix s :: "('a, 'b) st"
  have "wp body (\<lambda>r s'. \<exists>l. trace s' = trace s @ l \<and> (quiet l \<or> unfinished r)) s"
    using assms(1) by (simp add: again_def logs_def)
  then show "wp body (\<lambda>r s1.
       if equal original (status_of (cur s1))
       then \<exists>l. trace s1 = trace s @ l \<and> (quiet l \<or> unfinished r)
       else (case writer (cur s1) (ext s1) of ((answer, obj), x) \<Rightarrow>
         \<exists>l. trace (s1\<lparr>ext := x, trace := trace s1 @ [written (cur s1) answer], cur := obj\<rparr>) = trace s @ l
           \<and> (quiet l \<or> unfinished (deferral_outcome wrap r answer)))) s"
    by (rule wp_mono) (use assms(2) in \<open>auto intro: unfinished_deferral split: prod.split\<close>)
qed

lemma account_reconcile_again: "again unfinished (account_reconcile E ns name)"
  unfolding account_reconcile_def get_account_def update_account_status_def
  by (intro again_after [OF emits_external] again_after [OF emits_set_cur] again_after [OF account_parts_quiet(1)]
      again_branches again_with_status_deferral account_body_again)
    (auto intro!: again_quiet emits_rules)

section \<open>The other reconcilers\<close>

lemma operator_parts_quiet:
  "emits (ensure_system_account_resolved E) (\<lambda>c. \<not> wrote c)"
  "emits (operator_ensure_signing_keys_updated E) (\<lambda>c. \<not> wrote c)"
  unfolding ensure_system_account_resolved_def operator_ensure_signing_keys_updated_def Let_def
  by (intro emits_rules; simp)+

lemma operator_jwt_again:
  "again (\<lambda>r. r = Returns (requeue_result, None)) (operator_reconcile_jwt_secret E seed)"
  unfolding operator_reconcile_jwt_secret_def get_secret_def
  by (intro again_after [OF emits_get_cur] again_after [OF emits_create_claims(1)] again_after [OF emits_external]
      again_branches again_bind [OF create_jwt_again] again_bind [OF ensure_jwt_again])
    (auto intro!: again_quiet emits_rules logs_rules)

lemma operator_body_again: "again unfinished (operator_reconcile_body E)"
  unfolding operator_reconcile_body_def Let_def
  by (intro again_after [OF emits_get_cur] again_bind [OF reconcile_seed_again] again_branches
      again_after [OF emits_operator_do] again_after [OF emits_deref] again_after [OF operator_parts_quiet(1)]
      again_after [OF operator_parts_quiet(2)] again_bind [OF operator_jwt_again])
    (auto intro!: again_quiet emits_rules logs_rules simp: unfinished_def)

lemma operator_reconcile_again: "again unfinished (operator_reconcile E ns name)"
  unfolding operator_reconcile_def get_operator_def update_operator_status_def
  by (intro again_after [OF emits_external] again_after [OF emits_set_cur] again_after [OF emits_operator_do]
      again_branches again_with_status_deferral operator_body_again)
    (auto intro!: again_quiet emits_rules)

lemma signing_key_labels_again: "again (\<lambda>r. r = Returns (requeue_result, None)) (signing_key_reconcile_labels E)"
  unfolding signing_key_reconcile_labels_def update_signing_key_def again_def by (intro logs_rules) auto

lemma key_pair_again: "again (\<lambda>r. r = Returns (requeue_result, None)) (ensure_key_pair E)"
proof -
  have new: "emits (new_signing_key_pair E kind) (\<lambda>c. \<not> wrote c)" for kind
    unfolding new_signing_key_pair_def by (intro emits_rules; simp)
  have get: "emits (get_secret E ns n) (\<lambda>c. \<not> wrote c)" for ns n by (intro emits_rules) simp
  show ?thesis
    unfolding ensure_key_pair_def Let_def
    by (intro again_after [OF emits_get_cur] again_after [OF get] again_after [OF new]
        again_after [OF emits_signing_key_do] again_branches)
      (auto simp: again_def intro!: logs_rules)
qed

lemma owner_quiet: "emits (ensure_owner_resolved E) (\<lambda>c. \<not> wrote c)"
  unfolding ensure_owner_resolved_def Let_def by (intro emits_rules; simp)

lemma signing_key_body_again: "again unfinished (signing_key_reconcile_body E)"
  unfolding signing_key_reconcile_body_def
  by (intro again_after [OF owner_quiet] again_after [OF emits_signing_key_do] again_branches
      again_bind [OF signing_key_labels_again] again_bind [OF key_pair_again])
    (auto intro!: again_quiet emits_rules logs_rules simp: unfinished_def)

lemma signing_key_reconcile_again: "again unfinished (signing_key_reconcile E ns name)"
  unfolding signing_key_reconcile_def get_signing_key_def update_signing_key_status_def
  by (intro again_after [OF emits_external] again_after [OF emits_set_cur] again_after [OF emits_signing_key_do]
      again_branches again_with_status_deferral signing_key_body_again)
    (auto intro!: again_quiet emits_rules)

lemma user_labels_again: "again (\<lambda>r. r = Returns (requeue_result, None)) (user_reconcile_labels E)"
  unfolding user_reconcile_labels_def update_user_def again_def by (intro logs_rules) auto

lemma user_parts_quiet:
  "emits (load_issuer_seed E kpr prefix) (\<lambda>c. \<not> wrote c)"
  "emits (resolve_account E kpr) (\<lambda>c. \<not> wrote c)"
  "emits (validate_account_selector E acc usr) (\<lambda>c. \<not> wrote c)"
  "emits (get_ca_if_exists E acc) (\<lambda>c. \<not> wrote c)"
  unfolding resolve_account_def validate_account_selector_def get_ca_if_exists_def Let_def
  by (intro emits_rules emits_mono [OF load_issuer_seed_emits] emits_mono [OF resolve_signing_key_owner_emits]; auto)+

lemma user_jwt_again:
  "again (\<lambda>r. \<exists>jwt. r = Returns (jwt, requeue_result, None)) (user_reconcile_jwt_secret E acc kpr)"
  unfolding user_reconcile_jwt_secret_def get_secret_def Let_def
  by (intro again_after [OF emits_get_cur] again_after [OF user_parts_quiet(1)] again_after [OF emits_user_do]
      again_after [OF emits_create_claims(3)] again_after [OF emits_external] again_branches;
      (rule create_jwt_round ensure_jwt_again | (rule again_quiet, intro emits_rules))?) simp_all

lemma create_credentials_again: "again (\<lambda>r. r = Returns None) (create_credentials_secret E ujwt seed ca)"
  unfolding create_credentials_secret_def Let_def again_def by (intro logs_rules) auto

lemma ensure_credentials_again:
  "again (\<lambda>r. r = Returns (requeue_result, None)) (ensure_credentials_secret_up_to_date E ujwt seed got ca)"
  unfolding ensure_credentials_secret_up_to_date_def Let_def again_def by (intro logs_rules) auto

lemma credentials_again:
  "again (\<lambda>r. r = Returns (requeue_result, None)) (reconcile_user_credential_secret E acc ujwt seed)"
  unfolding reconcile_user_credential_secret_def get_secret_def Let_def
  by (intro again_after [OF user_parts_quiet(4)] again_after [OF emits_get_cur] again_after [OF emits_external]
      again_after [OF emits_user_do] again_branches again_bind [OF create_credentials_again] ensure_credentials_again)
    (auto intro!: again_quiet emits_rules logs_rules)

lemma user_admitted_again: "again unfinished (user_reconcile_admitted E acc kpr seed)"
  unfolding user_reconcile_admitted_def user_finish_jwt_def user_finish_credentials_def Let_def
  by (intro again_after [OF emits_user_do] again_bind [OF user_labels_again] again_bind [OF user_jwt_again]
      again_bind [OF credentials_again] again_branches)
    (auto intro!: again_quiet emits_rules logs_rules simp: unfinished_def)

lemma user_body_again: "again unfinished (user_reconcile_body E)"
  unfolding user_reconcile_body_def Let_def
  by (intro again_after [OF emits_get_cur] again_bind [OF reconcile_seed_again] again_branches
      again_after [OF emits_user_do] again_after [OF emits_deref] again_after [OF account_parts_quiet(6)]
      again_after [OF user_parts_quiet(2)] again_after [OF user_parts_quiet(3)] user_admitted_again)
    (auto intro!: again_quiet emits_rules logs_rules simp: unfinished_def)

lemma user_reconcile_again: "again unfinished (user_reconcile E ns name)"
  unfolding user_reconcile_def get_user_def update_user_status_def
  by (intro again_after [OF emits_external] again_after [OF emits_set_cur] again_after [OF emits_user_do]
      again_branches again_with_status_deferral user_body_again)
    (auto intro!: again_quiet emits_rules)

section \<open>Every write asks for another round\<close>

lemma again_run:
  assumes "again unfinished m" and "m s = (r, s')" and "trace s' = trace s @ l"
  shows "quiet l \<or> unfinished r"
  using logsD [OF assms(1) [unfolded again_def] assms(2)] assms(3) by auto

text \<open>C7: every write asks for another round. A reconciliation, of an operator, an account, a user or a
  signing key, that has created or updated a secret or has updated the object itself does not end as
  finished (no error and no requeue): it asks for another reconciliation, reports an error, or panics.
  A failed update of the status does not change that.\<close>

theorem writes_ask_again:
  assumes "reconciliation E r l" and "\<exists>c \<in> set l. wrote c"
  shows "r \<noteq> Returns (zero_result, None)"
proof -
  have "quiet l \<or> unfinished r"
    using assms(1)
  proof cases
    case of_operator
    then show ?thesis by (rule again_run [OF operator_reconcile_again])
  next
    case of_account
    then show ?thesis by (rule again_run [OF account_reconcile_again])
  next
    case of_user
    then show ?thesis by (rule again_run [OF user_reconcile_again])
  next
    case of_signing_key
    then show ?thesis by (rule again_run [OF signing_key_reconcile_again])
  qed
  with assms(2) show ?thesis by (auto simp: quiet_def unfinished_def)
qed

theorem writes_ask_again_witness:
  "fst (account_reconcile (with_account new_account sample_env) ''ns'' ''acc'' (start new_account)) \<noteq> Returns (zero_result, None)"
proof -
  obtain r s' where run: "account_reconcile (with_account new_account sample_env) ''ns'' ''acc'' (start new_account) = (r, s')"
    by fastforce
  then obtain a b where "trace s' = trace (start new_account) @
      [ObjectGet KindAccount ''ns'' ''acc'' (Inr (ObjAccount new_account)), ObjectUpdate (ObjAccount a) None,
       StatusUpdate (ObjAccount b) None]"
    using first_reconciliation by (auto simp: start_def)
  from writes_ask_again [OF reconciliation.of_account [OF run this]] run show ?thesis by simp
qed

end
