(* ===== verification/Credentials_Scenario.thy ===== *)
theory Credentials_Scenario
  imports User_Properties
begin

text \<open>
  A concrete reconciliation of a user that goes all the way: seed, issuing account, labels and JWT are
  found in order, the claims are signed and the credentials are created from the stored token. It is
  the instance for the properties of users; no property depends on it.
\<close>

definition issuing_account :: account where
  "issuing_account = sample_account\<lparr>acc_status := new_account_status\<lparr>
     accs_status := \<lparr>st_conditions = [new_condition ConditionReady ConditionTrue [] [] []]\<rparr>,
     accs_key_pair := Some \<lparr>public_key = ''pub-A'', seed_secret_name = ''aseed''\<rparr>\<rparr>\<rparr>"

definition cred_user :: user where
  "cred_user = \<lparr>usr_gvk = group_version_with_kind ''User'',
     usr_meta = empty_meta\<lparr>m_name := ''usr'', m_namespace := ''ns'', m_uid := ''u3'',
       m_labels := fmupd LabelAccountName ''acc'' fmempty\<rparr>,
     usr_spec = sample_spec\<lparr>usr_issuer := \<lparr>issuer_ref = \<lparr>tor_api_version = [], tor_kind = ''Account'', tor_name = ''acc'',
         tor_namespace = [], tor_uid = []\<rparr>\<rparr>, usr_jwt_secret_name := ''jwt'', usr_seed_secret_name := ''seed'',
       usr_credentials_secret_name := ''creds''\<rparr>,
     usr_status = new_user_status\<rparr>"

definition user_seed_secret :: secret where
  "user_seed_secret = (case key_pair_secret_build plain_machinery new_key_pair_secret_builder (ObjUser cred_user)
     (key_of_seed ''U'') [] of Inr sec \<Rightarrow> sec | Inl _ \<Rightarrow> empty_secret)"

definition cred_claims :: user_claims where
  "cred_claims = user_claims_of sample_jwt cred_user issuing_account
     \<lparr>public_key = ''pub-U'', seed_secret_name = m_name (s_meta user_seed_secret)\<rparr> ''pub-A''"

definition cred_env :: "unit env" where
  "cred_env = sample_env\<lparr>e_jwt := sample_jwt\<lparr>jwt_decode := (\<lambda>_. Inr (UserClaims cred_claims))\<rparr>,
     e_kube := sample_kube\<lparr>
       cl_get_account := (\<lambda>ns name x. (Inr issuing_account, x)),
       cs_get_namespace := (\<lambda>name x. (Inr \<lparr>ns_meta = empty_meta\<lparr>m_name := ''ns''\<rparr>\<rparr>, x)),
       cs_get_secret := (\<lambda>ns name x. (
          if name = ''seed'' then Inr user_seed_secret
          else if name = ''aseed'' then Inr (empty_secret\<lparr>s_data := fmupd NatsSecretSeedKey ''A'' fmempty\<rparr>)
          else if name = ''jwt'' then Inr (empty_secret\<lparr>s_data := fmupd NatsSecretJWTKey ''stored'' fmempty\<rparr>)
          else Inl missing, x))\<rparr>\<rparr>"


lemma user_seed_secret:
  "key_pair_secret_build plain_machinery new_key_pair_secret_builder (ObjUser cred_user) (key_of_seed ''U'') [] = Inr user_seed_secret"
  by (simp add: user_seed_secret_def key_pair_secret_build_def finish_secret_def plain_machinery_def Let_def)

lemma user_seed_secret_again:
  "key_pair_secret_build plain_machinery user_seed_secret (ObjUser cred_user) (key_of_seed ''U'') [] = Inr user_seed_secret"
  by (rule key_pair_builder.build_again [OF _ user_seed_secret]) (simp add: plain_machinery_laws program_options_def)

lemma user_seed_secret_seed: "fmlookup (s_data user_seed_secret) NatsSecretSeedKey = Some ''U''"
  using key_pair_secret_seed [OF user_seed_secret] by simp

lemma cred_env_sel [simp]:
  "e_mach cred_env = plain_machinery" "e_nkeys cred_env = sample_nkeys"
  "time_now (e_kube cred_env) = time_now sample_kube"
  "cs_get_secret (e_kube cred_env) ns ''seed'' x = (Inr user_seed_secret, x)"
  by (simp_all add: cred_env_def sample_env_def)

abbreviation user_key :: key_pair where
  "user_key \<equiv> \<lparr>public_key = ''pub-U'', seed_secret_name = m_name (s_meta user_seed_secret)\<rparr>"

definition creditable :: "user \<Rightarrow> bool" where
  "creditable u = (usr_gvk u = usr_gvk cred_user \<and> usr_meta u = usr_meta cred_user \<and> usr_spec u = usr_spec cred_user
     \<and> usrs_key_pair (usr_status u) = Some user_key
     \<and> (case usrs_account_ref (usr_status u) of None \<Rightarrow> True | Some r \<Rightarrow> ior_name r = ''acc''))"

lemma wp_user_mark:
  fixes s :: "(unit, user) st"
  assumes "\<And>a x. P a \<Longrightarrow> R (set_user_status (fst (f (usr_status a, x))) a)" and "P (cur s)"
    and "\<And>t. R (cur t) \<Longrightarrow> trace t = trace s \<Longrightarrow> Q (Returns ()) t"
  shows "wp (user_do f) Q s"
  using assms(1) [OF assms(2), of "()"] assms(3) by (auto simp: user_do_def split: prod.split)

lemma creditable_marks:
  "creditable a \<Longrightarrow> creditable (set_user_status (fst (user_mark_account_resolved now
     \<lparr>ior_namespace = n, ior_name = ''acc''\<rparr> (usr_status a, k))) a)"
  "creditable a \<Longrightarrow> creditable (set_user_status (fst (user_mark_issuer_resolved now (usr_status a, k))) a)"
  "creditable a \<Longrightarrow> creditable (set_user_status (fst (user_mark_jwt_secret_ready now (usr_status a, k))) a)"
  "creditable (set_user_status (fst (user_mark_seed_secret_ready now user_key (usr_status cred_user, k))) cred_user)"
  by (auto simp: creditable_def set_user_status_def manage_def user_set_conditions_def cred_user_def
      new_user_status_def user_mark_account_resolved_def user_mark_issuer_resolved_def user_mark_jwt_secret_ready_def
      user_mark_seed_secret_ready_def split: prod.split option.splits)

lemma user_seed_step:
  assumes "\<And>t. cur t = cur s \<Longrightarrow> Q (Returns (Some user_key, ''U'', zero_result, None)) t"
  shows "wp (reconcile_seed_secret cred_env (ObjUser cred_user) nk ''seed'' []) Q s"
  using user_seed_secret_again user_seed_secret_seed
  by (auto simp: reconcile_seed_secret_def get_secret_def ensure_seed_secret_up_to_date_def
      sample_nkeys_def new_key_pair_secret_builder_from_secret_def secret_bytes_def intro!: assms)

lemma issuing_account_ready:
  "key_pairable_is_ready (set_status (fst (manage get_conditions set_conditions
     (initialize_conditions (time_now sample_kube) account_condition_set)
     (get_status (KPAccount issuing_account), ()))) (KPAccount issuing_account))"
  by code_simp

definition ready_account :: account where
  "ready_account = issuing_account\<lparr>acc_status := (acc_status issuing_account)\<lparr>accs_status :=
     fst (manage get_conditions set_conditions (initialize_conditions (time_now sample_kube) account_condition_set)
       (accs_status (acc_status issuing_account), ()))\<rparr>\<rparr>"

lemma ready_account_sel:
  "acc_meta ready_account = acc_meta sample_account" "acc_spec ready_account = acc_spec sample_account"
  "accs_operator_ref (acc_status ready_account) = None"
  "accs_key_pair (acc_status ready_account) = Some \<lparr>public_key = ''pub-A'', seed_secret_name = ''aseed''\<rparr>"
  by (simp_all add: ready_account_def issuing_account_def new_account_status_def)

lemma user_issuer_step:
  assumes "\<And>t. cur t = cur s \<Longrightarrow> Q (Returns (Inr (KPAccount ready_account))) t"
  shows "wp (resolve_issuer cred_env (usr_issuer (usr_spec cred_user)) ns) Q s"
proof -
  have "tor_kind (issuer_ref (usr_issuer (usr_spec cred_user))) = ''Account''"
    by (simp add: cred_user_def)
  then have "scheme_new plain_machinery (get_group_version_kind plain_machinery
        (issuer_ref (usr_issuer (usr_spec cred_user)))) = Inr (NewObject KindAccount)"
    by (simp add: plain_machinery_def get_group_version_kind_def sample_scheme_def)
  moreover have "cl_get_account (e_kube cred_env) n m x = (Inr issuing_account, x)" for n m x
    by (simp add: cred_env_def)
  ultimately show ?thesis
    using issuing_account_ready assms
    by (simp add: resolve_issuer_def Let_def get_object_def get_account_def
        key_pairable_initialize_conditions_def case_prod_beta ready_account_def account_get_status_def)
qed

lemma user_validate_step:
  assumes "\<And>t. cur t = cur s \<Longrightarrow> Q (Returns None) t"
  shows "wp (validate_account_selector cred_env ready_account cred_user) Q s"
  using assms
  by (auto simp: validate_account_selector_def get_namespace_def cred_env_def match_namespace_selector_def
      ready_account_sel sample_account_def cred_user_def empty_meta_def split: prod.split)

lemma user_labels_step:
  assumes "creditable (cur s)" and "\<And>t. t = s \<Longrightarrow> Q (Returns (zero_result, None)) t"
  shows "wp (user_reconcile_labels cred_env) Q s"
  using assms by (auto simp: user_reconcile_labels_def creditable_def cred_user_def label_value_def split: option.splits)

definition signed_call :: call where
  "signed_call = JwtEncode ''pub-U'' (key_of_seed ''A'') (Inr ''jwt-pub-U'')"

lemma user_jwt_step:
  assumes "creditable (cur s)"
    and "\<And>t. creditable (cur t) \<Longrightarrow> signed_call \<in> set (trace t) \<Longrightarrow> Q (Returns (''stored'', zero_result, None)) t"
  shows "wp (user_reconcile_jwt_secret cred_env ready_account (KPAccount ready_account)) Q s"
proof -
  have kp: "account_get_key_pair ready_account = Some \<lparr>public_key = ''pub-A'', seed_secret_name = ''aseed''\<rparr>"
    by (simp add: account_get_key_pair_def ready_account_sel)
  have secs: "cs_get_secret (e_kube cred_env) ns ''jwt'' x =
        (Inr (empty_secret\<lparr>s_data := fmupd NatsSecretJWTKey ''stored'' fmempty\<rparr>), x)"
      "cs_get_secret (e_kube cred_env) ns ''aseed'' x =
        (Inr (empty_secret\<lparr>s_data := fmupd NatsSecretSeedKey ''A'' fmempty\<rparr>), x)" for ns x
    by (simp_all add: cred_env_def)
  have claims: "user_claims_of (e_jwt cred_env) u ready_account user_key ''pub-A'' = cred_claims" if "creditable u" for u
    using that by (simp add: creditable_def cred_claims_def user_claims_of_def Let_def cred_env_def
        issuer_account_of_def ready_account_sel issuing_account_def)
  have enc: "encode_user (e_jwt cred_env) c k x = (Inr (c, ''jwt-'' @ cd_subject (uc_data c)), x)" for c k x
    by (simp add: cred_env_def sample_jwt_def)
  have sub: "cd_subject (uc_data cred_claims) = ''pub-U''"
    by (simp add: cred_claims_def user_claims_of_def Let_def sample_jwt_def sample_data_def set_data_name_def)
  have dec: "jwt_decode (e_jwt cred_env) t = Inr (UserClaims cred_claims)" for t
    by (simp add: cred_env_def)
  have same: "claims_equal c c" for c by (simp add: claims_equal_normal)
  have sel: "usrs_key_pair (usr_status u) = Some user_key" "usr_jwt_secret_name (usr_spec u) = ''jwt''" if "creditable u" for u
    using that by (simp_all add: creditable_def cred_user_def)
  show ?thesis
    by (simp add: user_reconcile_jwt_secret_def Let_def load_issuer_seed_def kp get_secret_def secs sample_nkeys_def,
        rule wp_user_mark [where P = creditable and R = creditable], erule creditable_marks(2), simp add: assms(1))
      (simp add: create_user_claims_def sel claims enc sub dec same secs ensure_jwt_secret_up_to_date_def signed_call_def assms(2))
qed

lemma credentials_step:
  assumes "creditable (cur s)"
    and "\<And>sec t. user_credential_secret_build cred_env (new_user_credential_secret_builder []) (cur s) ''stored'' ''U'' = Inr sec \<Longrightarrow>
      set (trace s) \<union> {SecretCreate sec None} \<subseteq> set (trace t) \<Longrightarrow> Q (Returns (requeue_result, None)) t"
  shows "wp (reconcile_user_credential_secret cred_env ready_account ''stored'' ''U'') Q s"
proof -
  have name: "usr_credentials_secret_name (usr_spec (cur s)) = ''creds''"
    using assms(1) by (simp add: creditable_def cred_user_def)
  have kube: "cs_get_secret (e_kube cred_env) ns ''creds'' x = (Inl missing, x)"
      "cl_create_secret (e_kube cred_env) sec x = ((None, sec), x)" for ns sec x
    by (simp_all add: cred_env_def sample_kube_def)
  obtain sec where sec: "user_credential_secret_build cred_env (new_user_credential_secret_builder []) (cur s) ''stored'' ''U'' = Inr sec"
    by (simp add: user_credential_secret_build_def finish_secret_def plain_machinery_def cred_env_def sample_jwt_def Let_def
        split: sum.splits)
  show ?thesis
    by (simp add: reconcile_user_credential_secret_def get_ca_if_exists_def ready_account_sel get_secret_def name kube
        create_credentials_secret_def Let_def sec create_secret_def user_do_def eventf_def split: prod.split)
      (auto intro!: assms(2) [OF sec])
qed

lemma ready_account_name: "m_name (acc_meta ready_account) = ''acc''"
  by (simp add: ready_account_sel sample_account_def)

lemma creating_admitted:
  assumes "creditable (cur s)"
  shows "wp (user_reconcile_admitted cred_env ready_account (KPAccount ready_account) ''U'')
    (\<lambda>r t. r = Returns (requeue_result, None) \<and> signed_call \<in> set (trace t)
       \<and> (\<exists>sec. is_credentials sec \<and> SecretCreate sec None \<in> set (trace t))) s"
proof -
  note mark = wp_user_mark [where P = creditable and R = creditable]
  have creds: "is_credentials sec"
    if "user_credential_secret_build cred_env (new_user_credential_secret_builder []) u ''stored'' ''U'' = Inr sec" for u sec
    using credentials_build(1) [OF that] by (auto simp: credential_secret_meant_def is_credentials_def)
  show ?thesis
    unfolding user_reconcile_admitted_def user_finish_jwt_def user_finish_credentials_def Let_def wp_bind ready_account_name
    by (rule mark [OF creditable_marks(1) assms], assumption, unfold and_then_simps wp_bind,
        rule user_labels_step, assumption, simp,
        rule user_jwt_step, assumption, simp,
        rule mark [OF creditable_marks(3)], assumption, assumption, simp,
        rule credentials_step, assumption)
      (auto intro: creds)
qed

lemma creating_run:
  "wp (user_reconcile_body cred_env)
    (\<lambda>r t. r = Returns (requeue_result, None) \<and> signed_call \<in> set (trace t)
       \<and> (\<exists>sec. is_credentials sec \<and> SecretCreate sec None \<in> set (trace t))) (start cred_user)"
proof -
  have sel: "usr_seed_secret_name (usr_spec cred_user) = ''seed''" "cur (start cred_user) = cred_user"
    by (simp_all add: cred_user_def start_def)
  show ?thesis
    unfolding user_reconcile_body_def Let_def wp_bind get_cur_def wp_gets sel cred_env_sel
    by (simp add: sel,
        rule user_seed_step, simp add: sel,
        rule wp_user_mark [where P = "\<lambda>a. a = cred_user" and R = creditable], simp add: creditable_marks(4), simp add: sel, simp,
        rule user_issuer_step, simp add: resolve_account_def,
        rule user_validate_step, simp add: creating_admitted)
qed

lemma creating_outcome:
  obtains s' sec where "user_reconcile_body cred_env (start cred_user) = (Returns (requeue_result, None), s')"
    "signed_call \<in> set (trace s')" "is_credentials sec" "SecretCreate sec None \<in> set (trace s')"
  using creating_run by (cases "user_reconcile_body cred_env (start cred_user)") (auto simp: wp_run)

section \<open>The instances\<close>

theorem user_signed_if_admitted_witness:
  "\<exists>l. trace (snd (user_reconcile_body cred_env (start cred_user))) = l
     \<and> guarded signs (account_admitted plain_machinery cred_user) l \<and> signed_call \<in> set l \<and> signs signed_call"
proof -
  obtain s' sec where run: "user_reconcile_body cred_env (start cred_user) = (Returns (requeue_result, None), s')"
    "signed_call \<in> set (trace s')" by (rule creating_outcome)
  from user_signed_if_admitted [OF run(1)] run show ?thesis
    by (simp add: start_def signs_def signed_call_def)
qed

theorem user_credentials_from_stored_witness:
  "\<exists>sec l. trace (snd (user_reconcile_body cred_env (start cred_user))) = l
     \<and> is_credentials sec \<and> guarded (writes sec) (made_of_stored cred_env cred_user sec) l \<and> SecretCreate sec None \<in> set l"
proof -
  obtain s' sec where run: "user_reconcile_body cred_env (start cred_user) = (Returns (requeue_result, None), s')"
    "is_credentials sec" "SecretCreate sec None \<in> set (trace s')" by (rule creating_outcome)
  from user_credentials_from_stored [OF run(1,2)] run show ?thesis by (auto simp: start_def)
qed

end
