(* ===== verification/Statuses.thy ===== *)
theory Statuses
  imports Operator_Properties User_Properties Signing_Key_Properties Account_Finalizer
begin

text \<open>The status updates of the four reconcilers, side by side.\<close>



end
