(* ===== verification/Memory.thy ===== *)
theory Memory
  imports Prelude "HOL-Library.Sublist" "HOL-Library.Monad_Syntax"
begin

text \<open>
  The memory the generated deep copies work on. A \<open>mem\<close> is the list of the blocks allocated so far,
  a block's address is its index, and \<open>new\<close> and \<open>make\<close> append one. A block holds an array of values
  of one Go type; the block of a \<open>new(T)\<close> has one element. A \<open>kind\<close> says how an array of one type is
  put into a cell and taken out of it. A pointer is nil or names an element of a block (its second
  component is not 0 for a pointer into an array), a slice is nil or names a block, an offset and a
  length. An access that panics (a nil pointer, a dangling address, a block of another type, an index
  out of range) is None.

  What a value in memory means is a \<open>view\<close>: a partial function that reads the blocks it needs.
  The judgement \<open>clones f view\<close> is the contract of a deep copy: \<open>f\<close> runs on every value that
  has a view, only appends blocks, and its result has the same view, read from the new blocks alone.
\<close>

type_synonym addr = nat
type_synonym 'c mem = "'c list"
type_synonym 'c store = "addr \<Rightarrow> 'c option"

datatype 'a pointer = Nil_Pointer | Ptr addr nat
datatype 'a slice = Nil_Slice | Slice addr nat nat

record ('a, 'c) kind =
  pack :: "'a list \<Rightarrow> 'c"
  unpack :: "'c \<Rightarrow> 'a list option"

type_synonym ('a, 'v, 'c) view = "'c store \<Rightarrow> 'a \<Rightarrow> 'v option"
type_synonym ('a, 'b, 'c) copier = "'a \<Rightarrow> 'c mem \<Rightarrow> ('b \<times> 'c mem) option"

definition blocks :: "'c mem \<Rightarrow> 'c store" where
  "blocks h a = (if a < length h then Some (h ! a) else None)"

text \<open>The blocks that are not among the first \<open>n\<close>.\<close>

definition since :: "nat \<Rightarrow> 'c mem \<Rightarrow> 'c store" where
  "since n h a = (if n \<le> a then blocks h a else None)"

section \<open>Reading and writing\<close>

fun load :: "('a, 'c) kind \<Rightarrow> 'c store \<Rightarrow> 'a pointer \<Rightarrow> 'a option" where
  "load k c Nil_Pointer = None"
| "load k c (Ptr a i) = do {
     b \<leftarrow> c a;
     xs \<leftarrow> unpack k b;
     if i < length xs then Some (xs ! i) else None
   }"

fun load_slice :: "('a, 'c) kind \<Rightarrow> 'c store \<Rightarrow> 'a slice \<Rightarrow> 'a list option" where
  "load_slice k c Nil_Slice = Some []"
| "load_slice k c (Slice a off n) = do {
     b \<leftarrow> c a;
     xs \<leftarrow> unpack k b;
     if off + n \<le> length xs then Some (take n (drop off xs)) else None
   }"

definition put :: "('a, 'c) kind \<Rightarrow> addr \<Rightarrow> nat \<Rightarrow> 'a \<Rightarrow> 'c mem \<Rightarrow> 'c mem option" where
  "put k a i x h = do {
     b \<leftarrow> blocks h a;
     xs \<leftarrow> unpack k b;
     if i < length xs then Some (h[a := pack k (xs[i := x])]) else None
   }"

section \<open>The statements generated deep copies are made of\<close>

text \<open>\<open>*out = *in\<close> for a type without pointers.\<close>

definition plain_copy :: "('a, 'a, 'c) copier" where
  "plain_copy x h = Some (x, h)"

text \<open>
  \<open>for i := range *in { (*in)[i].DeepCopyInto(&(*out)[i]) }\<close> from index \<open>i\<close> on, with the elements
  of \<open>*in\<close> that are left.
\<close>

fun copy_elements :: "('a, 'c) kind \<Rightarrow> ('a, 'a, 'c) copier \<Rightarrow> addr \<Rightarrow> nat \<Rightarrow> 'a list \<Rightarrow> 'c mem \<Rightarrow> 'c mem option" where
  "copy_elements k into a i [] h = Some h"
| "copy_elements k into a i (x # xs) h = do {
     (y, h) \<leftarrow> into x h;
     h \<leftarrow> put k a i y h;
     copy_elements k into a (Suc i) xs h
   }"

text \<open>
  \<open>out := new(T); in.DeepCopyInto(out)\<close>. Every \<open>DeepCopyInto\<close> starts with \<open>*out = *in\<close>; here the
  new block is allocated with that value in it. The slice below likewise.
\<close>

definition new_copy :: "('a, 'c) kind \<Rightarrow> ('a, 'a, 'c) copier \<Rightarrow> 'a \<Rightarrow> 'c mem \<Rightarrow> ('a pointer \<times> 'c mem) option" where
  "new_copy k into x h = do {
     let out = length h;
     (y, h) \<leftarrow> into x (h @ [pack k [x]]);
     h \<leftarrow> put k out 0 y h;
     Some (Ptr out 0, h)
   }"

text \<open>\<open>DeepCopy\<close>: the receiver is None for nil, otherwise what it points to.\<close>

definition deep_copy :: "('a, 'c) kind \<Rightarrow> ('a, 'a, 'c) copier \<Rightarrow> ('a option, 'a pointer, 'c) copier" where
  "deep_copy k into r h =
     (case r of None \<Rightarrow> Some (Nil_Pointer, h) | Some x \<Rightarrow> new_copy k into x h)"

text \<open>\<open>if in.F != nil { *out = new(T); (*in).DeepCopyInto(*out) }\<close>, or \<open>**out = **in\<close>.\<close>

definition copy_pointer :: "('a, 'c) kind \<Rightarrow> ('a, 'a, 'c) copier \<Rightarrow> ('a pointer, 'a pointer, 'c) copier" where
  "copy_pointer k into p h =
     (case p of
        Nil_Pointer \<Rightarrow> Some (Nil_Pointer, h)
      | Ptr a i \<Rightarrow> do { x \<leftarrow> load k (blocks h) p; new_copy k into x h })"

text \<open>\<open>if in.F != nil { *out = make([]T, len(*in)); ... }\<close>, by \<open>copy\<close> or by element.\<close>

definition copy_slice :: "('a, 'c) kind \<Rightarrow> ('a, 'a, 'c) copier \<Rightarrow> ('a slice, 'a slice, 'c) copier" where
  "copy_slice k into s h =
     (case s of
        Nil_Slice \<Rightarrow> Some (Nil_Slice, h)
      | Slice a off n \<Rightarrow> do {
          xs \<leftarrow> load_slice k (blocks h) s;
          let out = length h;
          h \<leftarrow> copy_elements k into out 0 xs (h @ [pack k xs]);
          Some (Slice out 0 n, h)
        })"

section \<open>Views\<close>

definition plain_view :: "('a, 'a, 'c) view" where
  "plain_view c x = Some x"

definition view_pointer :: "('a, 'c) kind \<Rightarrow> ('a, 'v, 'c) view \<Rightarrow> ('a pointer, 'v option, 'c) view" where
  "view_pointer k view c p =
     (case p of
        Nil_Pointer \<Rightarrow> Some None
      | Ptr a i \<Rightarrow> do { x \<leftarrow> load k c p; v \<leftarrow> view c x; Some (Some v) })"

text \<open>The receiver of a \<open>DeepCopy\<close>.\<close>

definition view_receiver :: "('a, 'v, 'c) view \<Rightarrow> ('a option, 'v option, 'c) view" where
  "view_receiver view c r = (case r of None \<Rightarrow> Some None | Some x \<Rightarrow> map_option Some (view c x))"

definition view_slice :: "('a, 'c) kind \<Rightarrow> ('a, 'v, 'c) view \<Rightarrow> ('a slice, 'v list, 'c) view" where
  "view_slice k view c s = do { xs \<leftarrow> load_slice k c s; those (map (view c) xs) }"

section \<open>The judgement\<close>

text \<open>
  \<open>copies c0 n f P\<close>: in a memory with the blocks \<open>c0\<close> and at least \<open>n\<close> blocks, \<open>f\<close> only appends
  blocks, and \<open>P\<close> holds of its result and of the blocks from \<open>n\<close> on, in every extension.
\<close>

definition copies :: "'c store \<Rightarrow> nat \<Rightarrow> ('c mem \<Rightarrow> ('b \<times> 'c mem) option) \<Rightarrow> ('c store \<Rightarrow> 'b \<Rightarrow> bool) \<Rightarrow> bool" where
  "copies c0 n f P \<longleftrightarrow>
     (\<forall>h. c0 \<subseteq>\<^sub>m blocks h \<longrightarrow> n \<le> length h \<longrightarrow>
        (\<exists>x h'. f h = Some (x, h') \<and> prefix h h' \<and> (\<forall>g. prefix h' g \<longrightarrow> P (since n g) x)))"

definition monotone_view :: "('a, 'v, 'c) view \<Rightarrow> bool" where
  "monotone_view view \<longleftrightarrow> (\<forall>c c' x v. view c x = Some v \<longrightarrow> c \<subseteq>\<^sub>m c' \<longrightarrow> view c' x = Some v)"

definition clones :: "('a, 'b, 'c) copier \<Rightarrow> ('a, 'v, 'c) view \<Rightarrow> ('b, 'v, 'c) view \<Rightarrow> bool" where
  "clones into view view' \<longleftrightarrow>
     (\<forall>c0 n x v. view c0 x = Some v \<longrightarrow> copies c0 n (into x) (\<lambda>c y. view' c y = Some v))"

section \<open>Blocks\<close>

lemma prefix_blocks: "prefix h h' \<Longrightarrow> blocks h \<subseteq>\<^sub>m blocks h'"
  by (auto simp: map_le_def blocks_def nth_append elim!: prefixE)

lemma prefix_since: "prefix h h' \<Longrightarrow> since n h \<subseteq>\<^sub>m since n h'"
  by (auto simp: map_le_def since_def blocks_def nth_append elim!: prefixE)

lemma since_le: "n \<le> m \<Longrightarrow> since m h \<subseteq>\<^sub>m since n h"
  by (auto simp: map_le_def since_def split: if_splits)

lemma since_update: "a < n \<Longrightarrow> since n (h[a := b]) = since n h"
  by (auto simp: since_def blocks_def fun_eq_iff)

lemma blocks_update: "a < length h \<Longrightarrow> blocks (h[a := b]) = (blocks h)(a \<mapsto> b)"
  by (auto simp: blocks_def fun_eq_iff)

lemma since_outside: "dom (since n h) \<inter> {..<n} = {}"
  by (auto simp: since_def dom_def split: if_splits)

lemma dom_blocks: "dom (blocks h) = {..<length h}"
  by (auto simp: blocks_def dom_def split: if_splits)

section \<open>Rules of the judgement\<close>

lemma copiesI:
  assumes "\<And>h. c0 \<subseteq>\<^sub>m blocks h \<Longrightarrow> n \<le> length h \<Longrightarrow>
      \<exists>x h'. f h = Some (x, h') \<and> prefix h h' \<and> (\<forall>g. prefix h' g \<longrightarrow> P (since n g) x)"
  shows "copies c0 n f P"
  using assms by (simp add: copies_def)

lemma copiesE:
  assumes "copies c0 n f P" and "c0 \<subseteq>\<^sub>m blocks h" and "n \<le> length h"
  obtains x h' where "f h = Some (x, h')" "prefix h h'" "\<And>g. prefix h' g \<Longrightarrow> P (since n g) x"
  using assms by (auto simp: copies_def)

lemma copies_return:
  assumes "\<And>c. P c x"
  shows "copies c0 n (\<lambda>h. Some (x, h)) P"
  using assms by (simp add: copies_def)

lemma copies_bind:
  assumes f: "copies c0 n f P"
    and g: "\<And>x. copies c0 n (g x) (\<lambda>c y. P c x \<longrightarrow> Q c y)"
  shows "copies c0 n (\<lambda>h. Option.bind (f h) (\<lambda>(x, h). g x h)) Q"
proof (rule copiesI)
  fix h :: "'a mem" assume h: "c0 \<subseteq>\<^sub>m blocks h" "n \<le> length h"
  obtain x h1 where 1: "f h = Some (x, h1)" "prefix h h1" "\<And>g. prefix h1 g \<Longrightarrow> P (since n g) x"
    using copiesE [OF f h] by blast
  have c0: "c0 \<subseteq>\<^sub>m blocks h1" by (rule map_le_trans [OF h(1) prefix_blocks [OF 1(2)]])
  have n: "n \<le> length h1" using h(2) prefix_length_le [OF 1(2)] by simp
  obtain y h2 where 2: "g x h1 = Some (y, h2)" "prefix h1 h2"
      "\<And>g. prefix h2 g \<Longrightarrow> P (since n g) x \<longrightarrow> Q (since n g) y"
    by (rule copiesE [OF g c0 n]) (rule that)
  show "\<exists>y h'. Option.bind (f h) (\<lambda>(x, h). g x h) = Some (y, h') \<and> prefix h h' \<and> (\<forall>g. prefix h' g \<longrightarrow> Q (since n g) y)"
    using 1 2 by (auto intro: prefix_order.trans)
qed

lemma copies_clone:
  assumes "clones into view view'" and "view c0 x = Some v"
  shows "copies c0 n (into x) (\<lambda>c y. view' c y = Some v)"
  using assms by (simp add: clones_def)

lemma clonesI:
  assumes "\<And>c0 n x v. view c0 x = Some v \<Longrightarrow> copies c0 n (into x) (\<lambda>c y. view' c y = Some v)"
  shows "clones into view view'"
  using assms by (simp add: clones_def)

text \<open>
  The views are compositions of reads that, once they give a value, give it in every memory with
  more blocks.
\<close>

named_theorems reads_intros
named_theorems clones_intros

definition reads :: "('c store \<Rightarrow> 'v option) \<Rightarrow> bool" where
  "reads f \<longleftrightarrow> (\<forall>c c' v. f c = Some v \<longrightarrow> c \<subseteq>\<^sub>m c' \<longrightarrow> f c' = Some v)"

lemma readsI: "(\<And>c c' v. f c = Some v \<Longrightarrow> c \<subseteq>\<^sub>m c' \<Longrightarrow> f c' = Some v) \<Longrightarrow> reads f"
  unfolding reads_def by blast

lemma readsD: "reads f \<Longrightarrow> f c = Some v \<Longrightarrow> c \<subseteq>\<^sub>m c' \<Longrightarrow> f c' = Some v"
  unfolding reads_def by blast

lemma reads_return [reads_intros]: "reads (\<lambda>c. Some v)"
  by (simp add: reads_def)

lemma reads_bind [reads_intros]:
  assumes "reads f" and "\<And>x. reads (g x)"
  shows "reads (\<lambda>c. Option.bind (f c) (\<lambda>x. g x c))"
proof (rule readsI)
  fix c c' v assume *: "Option.bind (f c) (\<lambda>x. g x c) = Some v" "c \<subseteq>\<^sub>m c'"
  then obtain x where "f c = Some x" "g x c = Some v" by (auto simp: bind_eq_Some_conv)
  with readsD [OF assms(1) _ *(2)] readsD [OF assms(2) _ *(2)]
  show "Option.bind (f c') (\<lambda>x. g x c') = Some v" by auto
qed

lemma monotoneD: "monotone_view view \<Longrightarrow> view c x = Some v \<Longrightarrow> c \<subseteq>\<^sub>m c' \<Longrightarrow> view c' x = Some v"
  unfolding monotone_view_def by blast

lemma monotoneI:
  assumes "\<And>c c' x v. view c x = Some v \<Longrightarrow> c \<subseteq>\<^sub>m c' \<Longrightarrow> view c' x = Some v"
  shows "monotone_view view"
  unfolding monotone_view_def using assms by blast

lemma monotone_readsI [reads_intros]: "(\<And>x. reads (\<lambda>c. view c x)) \<Longrightarrow> monotone_view view"
  by (rule monotoneI) (rule readsD)

lemma monotone_reads: "monotone_view view \<Longrightarrow> reads (\<lambda>c. view c x)"
  by (rule readsI) (rule monotoneD)

lemma plain_monotone [simp, reads_intros]: "monotone_view plain_view"
  by (simp add: monotone_view_def plain_view_def)

lemma plain_clones [simp, clones_intros]: "clones plain_copy plain_view plain_view"
  by (simp add: clones_def copies_def plain_copy_def plain_view_def)

lemma those_map_Some: "those (map f xs) = Some vs \<longleftrightarrow> list_all2 (\<lambda>x v. f x = Some v) xs vs"
proof (induction xs arbitrary: vs)
  case (Cons x xs)
  show ?case by (cases "f x"; cases vs) (auto simp: Cons.IH)
qed auto

text \<open>The law a kind keeps: what was put into a cell is what is taken out of it.\<close>

locale cell_kind =
  fixes k :: "('a, 'c) kind"
  assumes unpack_pack [simp]: "unpack k (pack k xs) = Some xs"
begin

lemma load_block: "c a = Some (pack k xs) \<Longrightarrow> i < length xs \<Longrightarrow> load k c (Ptr a i) = Some (xs ! i)"
  by simp

lemma load_mono:
  assumes "load k c p = Some x" and "c \<subseteq>\<^sub>m c'"
  shows "load k c' p = Some x"
  using assms by (cases p) (auto simp: bind_eq_Some_conv map_le_def dom_def split: if_splits)

lemma load_slice_mono:
  assumes "load_slice k c s = Some xs" and "c \<subseteq>\<^sub>m c'"
  shows "load_slice k c' s = Some xs"
  using assms by (cases s) (auto simp: bind_eq_Some_conv map_le_def dom_def split: if_splits)

lemma view_pointer_mono:
  assumes "monotone_view view"
  shows "monotone_view (view_pointer k view)"
proof (rule monotoneI)
  fix c c' p v assume "view_pointer k view c p = Some v" "c \<subseteq>\<^sub>m c'"
  then show "view_pointer k view c' p = Some v"
    by (auto simp: view_pointer_def bind_eq_Some_conv simp del: load.simps split: pointer.splits
        intro: load_mono monotoneD [OF assms])
qed

lemmas reads_pointer = view_pointer_mono [THEN monotone_reads]

lemma view_slice_Some:
  "view_slice k view c s = Some vs \<longleftrightarrow>
     (\<exists>xs. load_slice k c s = Some xs \<and> list_all2 (\<lambda>x v. view c x = Some v) xs vs)"
  by (auto simp: view_slice_def bind_eq_Some_conv those_map_Some)

lemma view_slice_mono:
  assumes "monotone_view view"
  shows "monotone_view (view_slice k view)"
proof (rule monotoneI)
  fix c c' s vs assume *: "view_slice k view c s = Some vs" "c \<subseteq>\<^sub>m c'"
  then obtain xs where xs: "load_slice k c s = Some xs" "list_all2 (\<lambda>x v. view c x = Some v) xs vs"
    by (auto simp: view_slice_Some)
  have "list_all2 (\<lambda>x v. view c' x = Some v) xs vs"
    by (rule list.rel_mono_strong [OF xs(2)]) (blast intro: monotoneD [OF assms] *(2))
  with load_slice_mono [OF xs(1) *(2)] show "view_slice k view c' s = Some vs"
    by (auto simp: view_slice_Some)
qed

lemmas reads_slice = view_slice_mono [THEN monotone_reads]

text \<open>
  One turn of the loop: the element is copied behind the block \<open>a\<close> and written into it. Nothing
  else changes, so the invariant needs no more than the block's contents.
\<close>

lemma put_block:
  assumes "a < length h" and "h ! a = pack k ys" and "i < length ys"
  shows "put k a i y h = Some (h[a := pack k (ys[i := y])])"
  using assms by (simp add: put_def blocks_def)

lemma copy_elements_copies:
  assumes clones: "clones into view view'"
    and "list_all2 (\<lambda>x v. view c0 x = Some v) xs vs"
    and "c0 \<subseteq>\<^sub>m blocks h" "c0 a = None" "a < length h" "h ! a = pack k ys" "i + length xs \<le> length ys"
  shows "\<exists>ys' h'. copy_elements k into a i xs h = Some h' \<and> length h \<le> length h'
      \<and> (\<forall>b < length h. b \<noteq> a \<longrightarrow> h' ! b = h ! b)
      \<and> h' ! a = pack k (take i ys @ ys' @ drop (i + length xs) ys)
      \<and> (\<forall>g. prefix h' g \<longrightarrow> list_all2 (\<lambda>y v. view' (since (Suc a) g) y = Some v) ys' vs)"
  using assms(2-)
proof (induction xs arbitrary: vs i h ys)
  case Nil
  then show ?case by (intro exI [of _ "[]"] exI [of _ h]) auto
next
  case (Cons x xs)
  obtain v vs' where vs: "vs = v # vs'" "view c0 x = Some v" "list_all2 (\<lambda>x v. view c0 x = Some v) xs vs'"
    using Cons.prems(1) by (cases vs) auto
  have "copies c0 (Suc a) (into x) (\<lambda>c y. view' c y = Some v)" by (rule copies_clone [OF clones vs(2)])
  then obtain y h1 where 1: "into x h = Some (y, h1)" "prefix h h1"
      "\<And>g. prefix h1 g \<Longrightarrow> view' (since (Suc a) g) y = Some v"
    by (rule copiesE) (use Cons.prems in auto)
  have len: "length h \<le> length h1" and same: "\<forall>b < length h. h1 ! b = h ! b"
    using 1(2) by (auto simp: nth_append elim!: prefixE)
  define h2 where "h2 = h1[a := pack k (ys[i := y])]"
  have put: "put k a i y h1 = Some h2"
    unfolding h2_def by (rule put_block) (use Cons.prems len same in auto)
  have c0: "c0 \<subseteq>\<^sub>m blocks h2"
    using map_le_trans [OF Cons.prems(2) prefix_blocks [OF 1(2)]] Cons.prems(3,4) len
    by (auto simp: h2_def blocks_update map_le_def)
  obtain ys' h' where IH: "copy_elements k into a (Suc i) xs h2 = Some h'" "length h2 \<le> length h'"
      "\<forall>b < length h2. b \<noteq> a \<longrightarrow> h' ! b = h2 ! b"
      "h' ! a = pack k (take (Suc i) (ys[i := y]) @ ys' @ drop (Suc i + length xs) (ys[i := y]))"
      "\<forall>g. prefix h' g \<longrightarrow> list_all2 (\<lambda>y v. view' (since (Suc a) g) y = Some v) ys' vs'"
    using Cons.IH [OF vs(3) c0 Cons.prems(3), of "ys[i := y]" "Suc i"] Cons.prems(4,6) len
    by (auto simp: h2_def)
  have first: "view' (since (Suc a) g) y = Some v" if "prefix h' g" for g
  proof -
    define g' where "g' = g[a := h1 ! a]"
    have "prefix h1 g'"
    proof -
      have "length h1 \<le> length g" and "\<forall>b < length h1. b \<noteq> a \<longrightarrow> g ! b = h1 ! b"
        using IH(2,3) that by (auto simp: h2_def nth_append elim!: prefixE)
      then have "take (length h1) g' = h1"
        using Cons.prems(4) len by (intro nth_equalityI) (auto simp: g'_def nth_list_update)
      then show ?thesis by (metis take_is_prefix)
    qed
    from 1(3) [OF this] show ?thesis by (simp add: g'_def since_update)
  qed
  show ?case
  proof (intro exI conjI)
    show "copy_elements k into a i (x # xs) h = Some h'" using 1(1) put IH(1) by simp
    show "length h \<le> length h'" using len IH(2) by (simp add: h2_def)
    show "\<forall>b < length h. b \<noteq> a \<longrightarrow> h' ! b = h ! b" using IH(3) same len by (auto simp: h2_def)
    show "h' ! a = pack k (take i ys @ (y # ys') @ drop (i + length (x # xs)) ys)"
      using IH(4) Cons.prems(6) by (simp add: take_Suc_conv_app_nth)
    show "\<forall>g. prefix h' g \<longrightarrow> list_all2 (\<lambda>y v. view' (since (Suc a) g) y = Some v) (y # ys') vs"
      using first IH(5) vs(1) by simp
  qed
qed

text \<open>\<open>new\<close> followed by \<open>DeepCopyInto\<close> is the loop over an array of one element.\<close>

lemma new_copy_elements:
  "new_copy k into x h =
     Option.bind (copy_elements k into (length h) 0 [x] (h @ [pack k [x]])) (\<lambda>h'. Some (Ptr (length h) 0, h'))"
  by (auto simp: new_copy_def Let_def split: bind_splits)

lemma array_copies:
  assumes clones: "clones into view view'" and mono: "monotone_view view'"
    and vs: "list_all2 (\<lambda>x v. view c0 x = Some v) xs vs"
    and c0: "c0 \<subseteq>\<^sub>m blocks h" and n: "n \<le> length h"
  shows "\<exists>ys h'. copy_elements k into (length h) 0 xs (h @ [pack k xs]) = Some h' \<and> prefix h h'
      \<and> (\<forall>g. prefix h' g \<longrightarrow> since n g (length h) = Some (pack k ys)
            \<and> list_all2 (\<lambda>y v. view' (since n g) y = Some v) ys vs)"
proof -
  let ?a = "length h"
  have 1: "c0 \<subseteq>\<^sub>m blocks (h @ [pack k xs])"
    by (rule map_le_trans [OF c0 prefix_blocks]) simp
  have 2: "c0 ?a = None"
    using c0 by (metis (no_types, lifting) blocks_def domIff less_irrefl map_le_def)
  obtain ys h' where *: "copy_elements k into ?a 0 xs (h @ [pack k xs]) = Some h'"
      "length (h @ [pack k xs]) \<le> length h'" "\<forall>b < length (h @ [pack k xs]). b \<noteq> ?a \<longrightarrow> h' ! b = (h @ [pack k xs]) ! b"
      "h' ! ?a = pack k (take 0 xs @ ys @ drop (0 + length xs) xs)"
      "\<forall>g. prefix h' g \<longrightarrow> list_all2 (\<lambda>y v. view' (since (Suc ?a) g) y = Some v) ys vs"
    using copy_elements_copies [OF clones vs 1 2, of xs 0] by auto
  have "take (length h) h' = h"
    using *(2,3) by (intro nth_equalityI) (auto simp: nth_append)
  then have pre: "prefix h h'" by (metis take_is_prefix)
  have block: "since n g ?a = Some (pack k ys)" if "prefix h' g" for g
    using that *(2,4) n by (auto simp: since_def blocks_def nth_append elim!: prefixE)
  have later: "since (Suc ?a) g \<subseteq>\<^sub>m since n g" for g :: "'c mem" using n by (intro since_le) simp
  have elems: "list_all2 (\<lambda>y v. view' (since n g) y = Some v) ys vs" if "prefix h' g" for g
    by (rule list.rel_mono_strong [of "\<lambda>y v. view' (since (Suc ?a) g) y = Some v"])
      (use *(5) that in \<open>blast intro: monotoneD [OF mono _ later]\<close>)+
  show ?thesis using *(1) pre block elems by blast
qed

lemma new_copy_copies:
  assumes "clones into view view'" and "monotone_view view'" and "view c0 x = Some v"
  shows "copies c0 n (new_copy k into x) (\<lambda>c q. view_pointer k view' c q = Some (Some v))"
proof (rule copiesI)
  fix h assume h: "c0 \<subseteq>\<^sub>m blocks h" "n \<le> length h"
  have vs: "list_all2 (\<lambda>x v. view c0 x = Some v) [x] [v]" using assms(3) by simp
  obtain ys h' where *: "copy_elements k into (length h) 0 [x] (h @ [pack k [x]]) = Some h'" "prefix h h'"
      "\<forall>g. prefix h' g \<longrightarrow> since n g (length h) = Some (pack k ys)
            \<and> list_all2 (\<lambda>y v. view' (since n g) y = Some v) ys [v]"
    using array_copies [OF assms(1,2) vs h] by blast
  have "view_pointer k view' (since n g) (Ptr (length h) 0) = Some (Some v)" if "prefix h' g" for g
    using *(3) that by (auto simp: view_pointer_def list_all2_Cons2)
  then show "\<exists>q h'. new_copy k into x h = Some (q, h') \<and> prefix h h'
      \<and> (\<forall>g. prefix h' g \<longrightarrow> view_pointer k view' (since n g) q = Some (Some v))"
    using *(1,2) by (auto simp: new_copy_elements simp del: copy_elements.simps)
qed

lemma copy_slice_clones:
  assumes clones: "clones into view view'" and mono: "monotone_view view'"
  shows "clones (copy_slice k into) (view_slice k view) (view_slice k view')"
proof (rule clonesI, rule copiesI)
  fix c0 n s vs h
  assume v: "view_slice k view c0 s = Some vs" and h: "c0 \<subseteq>\<^sub>m blocks h" "n \<le> length h"
  show "\<exists>t h'. copy_slice k into s h = Some (t, h') \<and> prefix h h'
      \<and> (\<forall>g. prefix h' g \<longrightarrow> view_slice k view' (since n g) t = Some vs)"
  proof (cases s)
    case Nil_Slice
    with v show ?thesis by (auto simp: copy_slice_def view_slice_def)
  next
    case (Slice a off m)
    from v obtain xs where xs: "load_slice k c0 s = Some xs" "list_all2 (\<lambda>x v. view c0 x = Some v) xs vs"
      by (auto simp: view_slice_Some)
    then have m: "length xs = m"
      using Slice by (auto simp: bind_eq_Some_conv split: if_splits)
    obtain ys h' where *: "copy_elements k into (length h) 0 xs (h @ [pack k xs]) = Some h'" "prefix h h'"
        "\<forall>g. prefix h' g \<longrightarrow> since n g (length h) = Some (pack k ys)
              \<and> list_all2 (\<lambda>y v. view' (since n g) y = Some v) ys vs"
      using array_copies [OF clones mono xs(2) h] by blast
    have "view_slice k view' (since n g) (Slice (length h) 0 m) = Some vs" if "prefix h' g" for g
    proof -
      have "length ys = m" using *(3) that m list_all2_lengthD [OF xs(2)] by (metis list_all2_lengthD)
      then show ?thesis using *(3) that by (auto simp: view_slice_Some)
    qed
    then show ?thesis
      using Slice * load_slice_mono [OF xs(1) h(1)] by (auto simp: copy_slice_def Let_def simp del: load_slice.simps)
  qed
qed

lemma copy_pointer_clones:
  assumes clones: "clones into view view'" and mono: "monotone_view view'"
  shows "clones (copy_pointer k into) (view_pointer k view) (view_pointer k view')"
proof (rule clonesI, rule copiesI)
  fix c0 n p v h
  assume v: "view_pointer k view c0 p = Some v" and c0: "c0 \<subseteq>\<^sub>m blocks h" and n: "n \<le> length h"
  show "\<exists>q h'. copy_pointer k into p h = Some (q, h') \<and> prefix h h'
      \<and> (\<forall>g. prefix h' g \<longrightarrow> view_pointer k view' (since n g) q = Some v)"
  proof (cases p)
    case Nil_Pointer
    with v show ?thesis by (auto simp: copy_pointer_def view_pointer_def)
  next
    case (Ptr a i)
    with v obtain x w where x: "load k c0 p = Some x" "view c0 x = Some w" "v = Some w"
      by (auto simp: view_pointer_def bind_eq_Some_conv simp del: load.simps)
    obtain q h' where "new_copy k into x h = Some (q, h')" "prefix h h'"
        "\<forall>g. prefix h' g \<longrightarrow> view_pointer k view' (since n g) q = Some (Some w)"
      using copiesE [OF new_copy_copies [OF clones mono x(2)] c0 n] by blast
    with Ptr x(3) load_mono [OF x(1) c0] show ?thesis
      by (auto simp: copy_pointer_def simp del: load.simps)
  qed
qed

lemma deep_copy_clones:
  assumes "clones into view view'" and "monotone_view view'"
  shows "clones (deep_copy k into) (view_receiver view) (view_pointer k view')"
proof (rule clonesI)
  fix c0 n r v assume v: "view_receiver view c0 r = Some v"
  show "copies c0 n (deep_copy k into r) (\<lambda>c q. view_pointer k view' c q = Some v)"
  proof (cases r)
    case None
    with v show ?thesis
      by (auto simp: deep_copy_def view_receiver_def view_pointer_def copies_def)
  next
    case (Some x)
    with v obtain w where "view c0 x = Some w" "v = Some w" by (auto simp: view_receiver_def)
    with new_copy_copies [OF assms] Some show ?thesis by (simp add: deep_copy_def [abs_def])
  qed
qed

end

section \<open>What a deep copy is for\<close>

text \<open>
  In memory \<open>g\<close> the copy still means \<open>v\<close> when the blocks allocated for it are as they were left, and
  the original still means \<open>v\<close> when the blocks it was read from are: no write through the one is
  seen through the other.
\<close>

definition independent :: "nat \<Rightarrow> 'c mem \<Rightarrow> ('b, 'v, 'c) view \<Rightarrow> 'b \<Rightarrow> ('a, 'v, 'c) view \<Rightarrow> 'a \<Rightarrow> 'v \<Rightarrow> bool" where
  "independent n h view' y view x v \<longleftrightarrow>
     (\<forall>g. (\<forall>a. n \<le> a \<and> a < length h \<longrightarrow> g a = blocks h a) \<longrightarrow> view' g y = Some v) \<and>
     (\<forall>g. (\<forall>a < n. g a = blocks h a) \<longrightarrow> view g x = Some v)"

lemma clones_independent:
  assumes "clones into view view'" and "monotone_view view" and "monotone_view view'"
    and v: "view (blocks h) x = Some v"
  shows "\<exists>y h'. into x h = Some (y, h') \<and> prefix h h' \<and> independent (length h) h' view' y view x v"
proof -
  have "copies (blocks h) (length h) (into x) (\<lambda>c y. view' c y = Some v)"
    by (rule copies_clone [OF assms(1) v])
  then obtain y h' where y: "into x h = Some (y, h')" "prefix h h'"
      "\<And>g. prefix h' g \<Longrightarrow> view' (since (length h) g) y = Some v"
    by (rule copiesE) auto
  have "view' g y = Some v" if "\<forall>a. length h \<le> a \<and> a < length h' \<longrightarrow> g a = blocks h' a" for g
  proof (rule monotoneD [OF assms(3) y(3) [OF prefix_order.refl]])
    show "since (length h) h' \<subseteq>\<^sub>m g"
      using that by (auto simp: map_le_def since_def blocks_def split: if_splits)
  qed
  moreover have "view g x = Some v" if "\<forall>a < length h. g a = blocks h' a" for g
  proof (rule monotoneD [OF assms(2) v])
    show "blocks h \<subseteq>\<^sub>m g"
      using that y(2) by (auto simp: map_le_def blocks_def nth_append split: if_splits elim!: prefixE)
  qed
  ultimately show ?thesis using y(1,2) by (auto simp: independent_def)
qed

lemma receiver_monotone:
  assumes "monotone_view view"
  shows "monotone_view (view_receiver view)"
proof (rule monotoneI)
  fix c c' r v assume "view_receiver view c r = Some v" "c \<subseteq>\<^sub>m c'"
  then show "view_receiver view c' r = Some v"
    by (cases r) (auto simp: view_receiver_def intro: monotoneD [OF assms])
qed

end
