(* ===== verification/Memory_Types.thy ===== *)
theory Memory_Types
  imports Memory Api_Types
begin

text \<open>
  The Go structs of api/accounts/v1alpha1 and pkg/apis as they lie in memory. A record \<open>T_mem\<close> has
  the fields of the struct \<open>T\<close>, pointers as \<open>pointer\<close>s and slices as \<open>slice\<close> headers; the structs
  without pointers are the records of Api_Types themselves. A \<open>cell\<close> is a block of one of the
  types, and every type has its \<open>kind\<close>. \<open>view_T\<close> reads a struct in memory as the value of Api_Types
  the other theories work with.

  The structs of Kubernetes' own packages (\<open>metav1.ObjectMeta\<close>, \<open>ListMeta\<close>, \<open>LabelSelector\<close> and
  \<open>Time\<close>, \<open>corev1.SecretKeySelector\<close>) are values of a type \<open>'l\<close>, of which only what their
  \<open>DeepCopyInto\<close> does and how they are read is given, by a \<open>library\<close>.
\<close>

section \<open>Structs in memory\<close>

record 'l volatile_time_mem =
  vtm_inner :: "'l"

record 'l condition_mem =
  cm_type :: condition_type
  cm_status :: condition_status
  cm_severity :: string
  cm_last_transition_time :: "'l volatile_time_mem"
  cm_reason :: string
  cm_message :: string

record 'l status_mem =
  sm_conditions :: "'l condition_mem slice"

record account_export_mem =
  em_name :: string
  em_subject :: string
  em_type :: string
  em_token_req :: bool
  em_response_type :: string
  em_service_latency :: "account_service_latency pointer"
  em_account_token_position :: nat

record nats_limits_mem =
  nlm_subs :: "int pointer"
  nlm_data :: "int pointer"
  nlm_payload :: "int pointer"

record account_limits_mem =
  alm_imports :: "int pointer"
  alm_exports :: "int pointer"
  alm_wildcard_exports :: "bool pointer"
  alm_disallow_bearer :: bool
  alm_conn :: "int pointer"
  alm_leaf_node_conn :: "int pointer"

record operator_limits_mem =
  olm_nats :: nats_limits_mem
  olm_account :: account_limits_mem
  olm_jetstream :: jetstream_limits

record 'l account_spec_mem =
  asm_issuer :: issuer_reference
  asm_users_namespace_selector :: "'l pointer"
  asm_users_selector :: "'l pointer"
  asm_jwt_secret_name :: string
  asm_seed_secret_name :: string
  asm_signing_keys_selector :: "'l pointer"
  asm_imports :: "account_import slice"
  asm_exports :: "account_export_mem slice"
  asm_limits :: "operator_limits_mem pointer"

record 'l account_status_mem =
  accm_status :: "'l status_mem"
  accm_key_pair :: "key_pair pointer"
  accm_signing_keys :: "signing_key_embedded_status slice"
  accm_operator_ref :: "inferred_object_reference pointer"

record 'l account_mem =
  am_gvk :: gvk
  am_meta :: "'l"
  am_spec :: "'l account_spec_mem"
  am_status :: "'l account_status_mem"

record 'l tls_config_mem =
  tm_ca_file :: "'l pointer"

record 'l operator_spec_mem =
  osm_jwt_secret_name :: string
  osm_seed_secret_name :: string
  osm_accounts_namespace_selector :: "'l pointer"
  osm_accounts_selector :: "'l pointer"
  osm_signing_keys_selector :: "'l pointer"
  osm_system_account_ref :: string
  osm_tls_config :: "'l tls_config_mem pointer"
  osm_account_server_url :: string
  osm_operator_service_urls :: "string slice"

record 'l operator_status_mem =
  opsm_status :: "'l status_mem"
  opsm_key_pair :: "key_pair pointer"
  opsm_signing_keys :: "signing_key_embedded_status slice"
  opsm_resolved_system_account :: "key_pair_reference pointer"

record 'l operator_mem =
  om_gvk :: gvk
  om_meta :: "'l"
  om_spec :: "'l operator_spec_mem"
  om_status :: "'l operator_status_mem"

record 'l signing_key_status_mem =
  sksm_status :: "'l status_mem"
  sksm_key_pair :: "key_pair pointer"
  sksm_owner_ref :: "typed_object_reference pointer"

record 'l signing_key_mem =
  skm_gvk :: gvk
  skm_meta :: "'l"
  skm_spec :: signing_key_spec
  skm_status :: "'l signing_key_status_mem"

record permission_mem =
  pm_allow :: "string slice"
  pm_deny :: "string slice"

record user_permissions_mem =
  upm_pub :: permission_mem
  upm_sub :: permission_mem
  upm_resp :: "resp_permission pointer"

record user_limits_mem =
  ulm_nats_limits :: nats_limits_mem
  ulm_src :: "string slice"
  ulm_times :: "start_end_time slice"
  ulm_locale :: string

record user_spec_mem =
  usm_issuer :: issuer_reference
  usm_jwt_secret_name :: string
  usm_seed_secret_name :: string
  usm_credentials_secret_name :: string
  usm_permissions :: "user_permissions_mem pointer"
  usm_limits :: user_limits_mem
  usm_bearer_token :: "bool pointer"

record 'l user_status_mem =
  usrm_status :: "'l status_mem"
  usrm_key_pair :: "key_pair pointer"
  usrm_account_ref :: "inferred_object_reference pointer"

record 'l user_mem =
  um_gvk :: gvk
  um_meta :: "'l"
  um_spec :: user_spec_mem
  um_status :: "'l user_status_mem"

record 'l account_list_mem =
  alistm_gvk :: gvk
  alistm_meta :: "'l"
  alistm_items :: "'l account_mem slice"

record 'l operator_list_mem =
  olistm_gvk :: gvk
  olistm_meta :: "'l"
  olistm_items :: "'l operator_mem slice"

record 'l signing_key_list_mem =
  sklistm_gvk :: gvk
  sklistm_meta :: "'l"
  sklistm_items :: "'l signing_key_mem slice"

record 'l user_list_mem =
  ulistm_gvk :: gvk
  ulistm_meta :: "'l"
  ulistm_items :: "'l user_mem slice"

text \<open>\<open>pkg/apis.Conditions\<close> is a slice of conditions.\<close>

type_synonym 'l conditions_mem = "'l condition_mem slice"

section \<open>Cells\<close>

datatype value_block =
    Int64Block "int list"
  | BoolBlock "bool list"
  | StringBlock "string list"
  | AccountImportBlock "account_import list"
  | AccountServiceLatencyBlock "account_service_latency list"
  | IdentityBlock "identity list"
  | InferredObjectReferenceBlock "inferred_object_reference list"
  | IssuerReferenceBlock "issuer_reference list"
  | JetStreamLimitsBlock "jetstream_limits list"
  | KeyPairBlock "key_pair list"
  | KeyPairReferenceBlock "key_pair_reference list"
  | OperatorRefBlock "operator_ref list"
  | RespPermissionBlock "resp_permission list"
  | SigningKeyEmbeddedStatusBlock "signing_key_embedded_status list"
  | SigningKeyOwnerReferenceBlock "signing_key_owner_reference list"
  | SigningKeySpecBlock "signing_key_spec list"
  | StartEndTimeBlock "start_end_time list"
  | TypedObjectReferenceBlock "typed_object_reference list"

datatype 'l common_block =
    LibraryBlock "'l list"
  | VolatileTimeBlock "'l volatile_time_mem list"
  | ConditionBlock "'l condition_mem list"
  | StatusBlock "'l status_mem list"
  | SigningKeyStatusBlock "'l signing_key_status_mem list"
  | SigningKeyBlock "'l signing_key_mem list"
  | SigningKeyListBlock "'l signing_key_list_mem list"
  | ConditionsBlock "'l conditions_mem list"

datatype 'l account_block =
    AccountExportBlock "account_export_mem list"
  | NatsLimitsBlock "nats_limits_mem list"
  | AccountLimitsBlock "account_limits_mem list"
  | OperatorLimitsBlock "operator_limits_mem list"
  | AccountSpecBlock "'l account_spec_mem list"
  | AccountStatusBlock "'l account_status_mem list"
  | AccountBlock "'l account_mem list"
  | AccountListBlock "'l account_list_mem list"

datatype 'l operator_block =
    TLSConfigBlock "'l tls_config_mem list"
  | OperatorSpecBlock "'l operator_spec_mem list"
  | OperatorStatusBlock "'l operator_status_mem list"
  | OperatorBlock "'l operator_mem list"
  | OperatorListBlock "'l operator_list_mem list"

datatype 'l user_block =
    PermissionBlock "permission_mem list"
  | UserPermissionsBlock "user_permissions_mem list"
  | UserLimitsBlock "user_limits_mem list"
  | UserSpecBlock "user_spec_mem list"
  | UserStatusBlock "'l user_status_mem list"
  | UserBlock "'l user_mem list"
  | UserListBlock "'l user_list_mem list"

datatype 'l cell =
    ValueCell "value_block"
  | CommonCell "'l common_block"
  | AccountCell "'l account_block"
  | OperatorCell "'l operator_block"
  | UserCell "'l user_block"

definition int64_kind :: "(int, 'l cell) kind" where
  "int64_kind =
     \<lparr>pack = \<lambda>xs. ValueCell (Int64Block xs), unpack = \<lambda>b. case b of ValueCell (Int64Block xs) \<Rightarrow> Some xs | _ \<Rightarrow> None\<rparr>"

definition bool_kind :: "(bool, 'l cell) kind" where
  "bool_kind =
     \<lparr>pack = \<lambda>xs. ValueCell (BoolBlock xs), unpack = \<lambda>b. case b of ValueCell (BoolBlock xs) \<Rightarrow> Some xs | _ \<Rightarrow> None\<rparr>"

definition string_kind :: "(string, 'l cell) kind" where
  "string_kind =
     \<lparr>pack = \<lambda>xs. ValueCell (StringBlock xs), unpack = \<lambda>b. case b of ValueCell (StringBlock xs) \<Rightarrow> Some xs | _ \<Rightarrow> None\<rparr>"

definition account_import_kind :: "(account_import, 'l cell) kind" where
  "account_import_kind =
     \<lparr>pack = \<lambda>xs. ValueCell (AccountImportBlock xs), unpack = \<lambda>b. case b of ValueCell (AccountImportBlock xs) \<Rightarrow> Some xs | _ \<Rightarrow> None\<rparr>"

definition account_service_latency_kind :: "(account_service_latency, 'l cell) kind" where
  "account_service_latency_kind =
     \<lparr>pack = \<lambda>xs. ValueCell (AccountServiceLatencyBlock xs), unpack = \<lambda>b. case b of ValueCell (AccountServiceLatencyBlock xs) \<Rightarrow> Some xs | _ \<Rightarrow> None\<rparr>"

definition identity_kind :: "(identity, 'l cell) kind" where
  "identity_kind =
     \<lparr>pack = \<lambda>xs. ValueCell (IdentityBlock xs), unpack = \<lambda>b. case b of ValueCell (IdentityBlock xs) \<Rightarrow> Some xs | _ \<Rightarrow> None\<rparr>"

definition inferred_object_reference_kind :: "(inferred_object_reference, 'l cell) kind" where
  "inferred_object_reference_kind =
     \<lparr>pack = \<lambda>xs. ValueCell (InferredObjectReferenceBlock xs), unpack = \<lambda>b. case b of ValueCell (InferredObjectReferenceBlock xs) \<Rightarrow> Some xs | _ \<Rightarrow> None\<rparr>"

definition issuer_reference_kind :: "(issuer_reference, 'l cell) kind" where
  "issuer_reference_kind =
     \<lparr>pack = \<lambda>xs. ValueCell (IssuerReferenceBlock xs), unpack = \<lambda>b. case b of ValueCell (IssuerReferenceBlock xs) \<Rightarrow> Some xs | _ \<Rightarrow> None\<rparr>"

definition jetstream_limits_kind :: "(jetstream_limits, 'l cell) kind" where
  "jetstream_limits_kind =
     \<lparr>pack = \<lambda>xs. ValueCell (JetStreamLimitsBlock xs), unpack = \<lambda>b. case b of ValueCell (JetStreamLimitsBlock xs) \<Rightarrow> Some xs | _ \<Rightarrow> None\<rparr>"

definition key_pair_kind :: "(key_pair, 'l cell) kind" where
  "key_pair_kind =
     \<lparr>pack = \<lambda>xs. ValueCell (KeyPairBlock xs), unpack = \<lambda>b. case b of ValueCell (KeyPairBlock xs) \<Rightarrow> Some xs | _ \<Rightarrow> None\<rparr>"

definition key_pair_reference_kind :: "(key_pair_reference, 'l cell) kind" where
  "key_pair_reference_kind =
     \<lparr>pack = \<lambda>xs. ValueCell (KeyPairReferenceBlock xs), unpack = \<lambda>b. case b of ValueCell (KeyPairReferenceBlock xs) \<Rightarrow> Some xs | _ \<Rightarrow> None\<rparr>"

definition operator_ref_kind :: "(operator_ref, 'l cell) kind" where
  "operator_ref_kind =
     \<lparr>pack = \<lambda>xs. ValueCell (OperatorRefBlock xs), unpack = \<lambda>b. case b of ValueCell (OperatorRefBlock xs) \<Rightarrow> Some xs | _ \<Rightarrow> None\<rparr>"

definition resp_permission_kind :: "(resp_permission, 'l cell) kind" where
  "resp_permission_kind =
     \<lparr>pack = \<lambda>xs. ValueCell (RespPermissionBlock xs), unpack = \<lambda>b. case b of ValueCell (RespPermissionBlock xs) \<Rightarrow> Some xs | _ \<Rightarrow> None\<rparr>"

definition signing_key_embedded_status_kind :: "(signing_key_embedded_status, 'l cell) kind" where
  "signing_key_embedded_status_kind =
     \<lparr>pack = \<lambda>xs. ValueCell (SigningKeyEmbeddedStatusBlock xs), unpack = \<lambda>b. case b of ValueCell (SigningKeyEmbeddedStatusBlock xs) \<Rightarrow> Some xs | _ \<Rightarrow> None\<rparr>"

definition signing_key_owner_reference_kind :: "(signing_key_owner_reference, 'l cell) kind" where
  "signing_key_owner_reference_kind =
     \<lparr>pack = \<lambda>xs. ValueCell (SigningKeyOwnerReferenceBlock xs), unpack = \<lambda>b. case b of ValueCell (SigningKeyOwnerReferenceBlock xs) \<Rightarrow> Some xs | _ \<Rightarrow> None\<rparr>"

definition signing_key_spec_kind :: "(signing_key_spec, 'l cell) kind" where
  "signing_key_spec_kind =
     \<lparr>pack = \<lambda>xs. ValueCell (SigningKeySpecBlock xs), unpack = \<lambda>b. case b of ValueCell (SigningKeySpecBlock xs) \<Rightarrow> Some xs | _ \<Rightarrow> None\<rparr>"

definition start_end_time_kind :: "(start_end_time, 'l cell) kind" where
  "start_end_time_kind =
     \<lparr>pack = \<lambda>xs. ValueCell (StartEndTimeBlock xs), unpack = \<lambda>b. case b of ValueCell (StartEndTimeBlock xs) \<Rightarrow> Some xs | _ \<Rightarrow> None\<rparr>"

definition typed_object_reference_kind :: "(typed_object_reference, 'l cell) kind" where
  "typed_object_reference_kind =
     \<lparr>pack = \<lambda>xs. ValueCell (TypedObjectReferenceBlock xs), unpack = \<lambda>b. case b of ValueCell (TypedObjectReferenceBlock xs) \<Rightarrow> Some xs | _ \<Rightarrow> None\<rparr>"

definition library_kind :: "('l, 'l cell) kind" where
  "library_kind =
     \<lparr>pack = \<lambda>xs. CommonCell (LibraryBlock xs), unpack = \<lambda>b. case b of CommonCell (LibraryBlock xs) \<Rightarrow> Some xs | _ \<Rightarrow> None\<rparr>"

definition volatile_time_kind :: "('l volatile_time_mem, 'l cell) kind" where
  "volatile_time_kind =
     \<lparr>pack = \<lambda>xs. CommonCell (VolatileTimeBlock xs), unpack = \<lambda>b. case b of CommonCell (VolatileTimeBlock xs) \<Rightarrow> Some xs | _ \<Rightarrow> None\<rparr>"

definition condition_kind :: "('l condition_mem, 'l cell) kind" where
  "condition_kind =
     \<lparr>pack = \<lambda>xs. CommonCell (ConditionBlock xs), unpack = \<lambda>b. case b of CommonCell (ConditionBlock xs) \<Rightarrow> Some xs | _ \<Rightarrow> None\<rparr>"

definition status_kind :: "('l status_mem, 'l cell) kind" where
  "status_kind =
     \<lparr>pack = \<lambda>xs. CommonCell (StatusBlock xs), unpack = \<lambda>b. case b of CommonCell (StatusBlock xs) \<Rightarrow> Some xs | _ \<Rightarrow> None\<rparr>"

definition signing_key_status_kind :: "('l signing_key_status_mem, 'l cell) kind" where
  "signing_key_status_kind =
     \<lparr>pack = \<lambda>xs. CommonCell (SigningKeyStatusBlock xs), unpack = \<lambda>b. case b of CommonCell (SigningKeyStatusBlock xs) \<Rightarrow> Some xs | _ \<Rightarrow> None\<rparr>"

definition signing_key_kind :: "('l signing_key_mem, 'l cell) kind" where
  "signing_key_kind =
     \<lparr>pack = \<lambda>xs. CommonCell (SigningKeyBlock xs), unpack = \<lambda>b. case b of CommonCell (SigningKeyBlock xs) \<Rightarrow> Some xs | _ \<Rightarrow> None\<rparr>"

definition signing_key_list_kind :: "('l signing_key_list_mem, 'l cell) kind" where
  "signing_key_list_kind =
     \<lparr>pack = \<lambda>xs. CommonCell (SigningKeyListBlock xs), unpack = \<lambda>b. case b of CommonCell (SigningKeyListBlock xs) \<Rightarrow> Some xs | _ \<Rightarrow> None\<rparr>"

definition conditions_kind :: "('l conditions_mem, 'l cell) kind" where
  "conditions_kind =
     \<lparr>pack = \<lambda>xs. CommonCell (ConditionsBlock xs), unpack = \<lambda>b. case b of CommonCell (ConditionsBlock xs) \<Rightarrow> Some xs | _ \<Rightarrow> None\<rparr>"

definition account_export_kind :: "(account_export_mem, 'l cell) kind" where
  "account_export_kind =
     \<lparr>pack = \<lambda>xs. AccountCell (AccountExportBlock xs), unpack = \<lambda>b. case b of AccountCell (AccountExportBlock xs) \<Rightarrow> Some xs | _ \<Rightarrow> None\<rparr>"

definition nats_limits_kind :: "(nats_limits_mem, 'l cell) kind" where
  "nats_limits_kind =
     \<lparr>pack = \<lambda>xs. AccountCell (NatsLimitsBlock xs), unpack = \<lambda>b. case b of AccountCell (NatsLimitsBlock xs) \<Rightarrow> Some xs | _ \<Rightarrow> None\<rparr>"

definition account_limits_kind :: "(account_limits_mem, 'l cell) kind" where
  "account_limits_kind =
     \<lparr>pack = \<lambda>xs. AccountCell (AccountLimitsBlock xs), unpack = \<lambda>b. case b of AccountCell (AccountLimitsBlock xs) \<Rightarrow> Some xs | _ \<Rightarrow> None\<rparr>"

definition operator_limits_kind :: "(operator_limits_mem, 'l cell) kind" where
  "operator_limits_kind =
     \<lparr>pack = \<lambda>xs. AccountCell (OperatorLimitsBlock xs), unpack = \<lambda>b. case b of AccountCell (OperatorLimitsBlock xs) \<Rightarrow> Some xs | _ \<Rightarrow> None\<rparr>"

definition account_spec_kind :: "('l account_spec_mem, 'l cell) kind" where
  "account_spec_kind =
     \<lparr>pack = \<lambda>xs. AccountCell (AccountSpecBlock xs), unpack = \<lambda>b. case b of AccountCell (AccountSpecBlock xs) \<Rightarrow> Some xs | _ \<Rightarrow> None\<rparr>"

definition account_status_kind :: "('l account_status_mem, 'l cell) kind" where
  "account_status_kind =
     \<lparr>pack = \<lambda>xs. AccountCell (AccountStatusBlock xs), unpack = \<lambda>b. case b of AccountCell (AccountStatusBlock xs) \<Rightarrow> Some xs | _ \<Rightarrow> None\<rparr>"

definition account_kind :: "('l account_mem, 'l cell) kind" where
  "account_kind =
     \<lparr>pack = \<lambda>xs. AccountCell (AccountBlock xs), unpack = \<lambda>b. case b of AccountCell (AccountBlock xs) \<Rightarrow> Some xs | _ \<Rightarrow> None\<rparr>"

definition account_list_kind :: "('l account_list_mem, 'l cell) kind" where
  "account_list_kind =
     \<lparr>pack = \<lambda>xs. AccountCell (AccountListBlock xs), unpack = \<lambda>b. case b of AccountCell (AccountListBlock xs) \<Rightarrow> Some xs | _ \<Rightarrow> None\<rparr>"

definition tls_config_kind :: "('l tls_config_mem, 'l cell) kind" where
  "tls_config_kind =
     \<lparr>pack = \<lambda>xs. OperatorCell (TLSConfigBlock xs), unpack = \<lambda>b. case b of OperatorCell (TLSConfigBlock xs) \<Rightarrow> Some xs | _ \<Rightarrow> None\<rparr>"

definition operator_spec_kind :: "('l operator_spec_mem, 'l cell) kind" where
  "operator_spec_kind =
     \<lparr>pack = \<lambda>xs. OperatorCell (OperatorSpecBlock xs), unpack = \<lambda>b. case b of OperatorCell (OperatorSpecBlock xs) \<Rightarrow> Some xs | _ \<Rightarrow> None\<rparr>"

definition operator_status_kind :: "('l operator_status_mem, 'l cell) kind" where
  "operator_status_kind =
     \<lparr>pack = \<lambda>xs. OperatorCell (OperatorStatusBlock xs), unpack = \<lambda>b. case b of OperatorCell (OperatorStatusBlock xs) \<Rightarrow> Some xs | _ \<Rightarrow> None\<rparr>"

definition operator_kind :: "('l operator_mem, 'l cell) kind" where
  "operator_kind =
     \<lparr>pack = \<lambda>xs. OperatorCell (OperatorBlock xs), unpack = \<lambda>b. case b of OperatorCell (OperatorBlock xs) \<Rightarrow> Some xs | _ \<Rightarrow> None\<rparr>"

definition operator_list_kind :: "('l operator_list_mem, 'l cell) kind" where
  "operator_list_kind =
     \<lparr>pack = \<lambda>xs. OperatorCell (OperatorListBlock xs), unpack = \<lambda>b. case b of OperatorCell (OperatorListBlock xs) \<Rightarrow> Some xs | _ \<Rightarrow> None\<rparr>"

definition permission_kind :: "(permission_mem, 'l cell) kind" where
  "permission_kind =
     \<lparr>pack = \<lambda>xs. UserCell (PermissionBlock xs), unpack = \<lambda>b. case b of UserCell (PermissionBlock xs) \<Rightarrow> Some xs | _ \<Rightarrow> None\<rparr>"

definition user_permissions_kind :: "(user_permissions_mem, 'l cell) kind" where
  "user_permissions_kind =
     \<lparr>pack = \<lambda>xs. UserCell (UserPermissionsBlock xs), unpack = \<lambda>b. case b of UserCell (UserPermissionsBlock xs) \<Rightarrow> Some xs | _ \<Rightarrow> None\<rparr>"

definition user_limits_kind :: "(user_limits_mem, 'l cell) kind" where
  "user_limits_kind =
     \<lparr>pack = \<lambda>xs. UserCell (UserLimitsBlock xs), unpack = \<lambda>b. case b of UserCell (UserLimitsBlock xs) \<Rightarrow> Some xs | _ \<Rightarrow> None\<rparr>"

definition user_spec_kind :: "(user_spec_mem, 'l cell) kind" where
  "user_spec_kind =
     \<lparr>pack = \<lambda>xs. UserCell (UserSpecBlock xs), unpack = \<lambda>b. case b of UserCell (UserSpecBlock xs) \<Rightarrow> Some xs | _ \<Rightarrow> None\<rparr>"

definition user_status_kind :: "('l user_status_mem, 'l cell) kind" where
  "user_status_kind =
     \<lparr>pack = \<lambda>xs. UserCell (UserStatusBlock xs), unpack = \<lambda>b. case b of UserCell (UserStatusBlock xs) \<Rightarrow> Some xs | _ \<Rightarrow> None\<rparr>"

definition user_kind :: "('l user_mem, 'l cell) kind" where
  "user_kind =
     \<lparr>pack = \<lambda>xs. UserCell (UserBlock xs), unpack = \<lambda>b. case b of UserCell (UserBlock xs) \<Rightarrow> Some xs | _ \<Rightarrow> None\<rparr>"

definition user_list_kind :: "('l user_list_mem, 'l cell) kind" where
  "user_list_kind =
     \<lparr>pack = \<lambda>xs. UserCell (UserListBlock xs), unpack = \<lambda>b. case b of UserCell (UserListBlock xs) \<Rightarrow> Some xs | _ \<Rightarrow> None\<rparr>"

interpretation int64_kind: cell_kind "int64_kind :: (int, 'l cell) kind"
  by unfold_locales (simp add: int64_kind_def)

interpretation bool_kind: cell_kind "bool_kind :: (bool, 'l cell) kind"
  by unfold_locales (simp add: bool_kind_def)

interpretation string_kind: cell_kind "string_kind :: (string, 'l cell) kind"
  by unfold_locales (simp add: string_kind_def)

interpretation library_kind: cell_kind "library_kind :: ('l, 'l cell) kind"
  by unfold_locales (simp add: library_kind_def)

interpretation account_import_kind: cell_kind "account_import_kind :: (account_import, 'l cell) kind"
  by unfold_locales (simp add: account_import_kind_def)

interpretation account_service_latency_kind: cell_kind "account_service_latency_kind :: (account_service_latency, 'l cell) kind"
  by unfold_locales (simp add: account_service_latency_kind_def)

interpretation identity_kind: cell_kind "identity_kind :: (identity, 'l cell) kind"
  by unfold_locales (simp add: identity_kind_def)

interpretation inferred_object_reference_kind: cell_kind "inferred_object_reference_kind :: (inferred_object_reference, 'l cell) kind"
  by unfold_locales (simp add: inferred_object_reference_kind_def)

interpretation issuer_reference_kind: cell_kind "issuer_reference_kind :: (issuer_reference, 'l cell) kind"
  by unfold_locales (simp add: issuer_reference_kind_def)

interpretation jetstream_limits_kind: cell_kind "jetstream_limits_kind :: (jetstream_limits, 'l cell) kind"
  by unfold_locales (simp add: jetstream_limits_kind_def)

interpretation key_pair_kind: cell_kind "key_pair_kind :: (key_pair, 'l cell) kind"
  by unfold_locales (simp add: key_pair_kind_def)

interpretation key_pair_reference_kind: cell_kind "key_pair_reference_kind :: (key_pair_reference, 'l cell) kind"
  by unfold_locales (simp add: key_pair_reference_kind_def)

interpretation operator_ref_kind: cell_kind "operator_ref_kind :: (operator_ref, 'l cell) kind"
  by unfold_locales (simp add: operator_ref_kind_def)

interpretation resp_permission_kind: cell_kind "resp_permission_kind :: (resp_permission, 'l cell) kind"
  by unfold_locales (simp add: resp_permission_kind_def)

interpretation signing_key_embedded_status_kind: cell_kind "signing_key_embedded_status_kind :: (signing_key_embedded_status, 'l cell) kind"
  by unfold_locales (simp add: signing_key_embedded_status_kind_def)

interpretation signing_key_owner_reference_kind: cell_kind "signing_key_owner_reference_kind :: (signing_key_owner_reference, 'l cell) kind"
  by unfold_locales (simp add: signing_key_owner_reference_kind_def)

interpretation signing_key_spec_kind: cell_kind "signing_key_spec_kind :: (signing_key_spec, 'l cell) kind"
  by unfold_locales (simp add: signing_key_spec_kind_def)

interpretation start_end_time_kind: cell_kind "start_end_time_kind :: (start_end_time, 'l cell) kind"
  by unfold_locales (simp add: start_end_time_kind_def)

interpretation typed_object_reference_kind: cell_kind "typed_object_reference_kind :: (typed_object_reference, 'l cell) kind"
  by unfold_locales (simp add: typed_object_reference_kind_def)

interpretation volatile_time_kind: cell_kind "volatile_time_kind :: ('l volatile_time_mem, 'l cell) kind"
  by unfold_locales (simp add: volatile_time_kind_def)

interpretation condition_kind: cell_kind "condition_kind :: ('l condition_mem, 'l cell) kind"
  by unfold_locales (simp add: condition_kind_def)

interpretation status_kind: cell_kind "status_kind :: ('l status_mem, 'l cell) kind"
  by unfold_locales (simp add: status_kind_def)

interpretation account_export_kind: cell_kind "account_export_kind :: (account_export_mem, 'l cell) kind"
  by unfold_locales (simp add: account_export_kind_def)

interpretation nats_limits_kind: cell_kind "nats_limits_kind :: (nats_limits_mem, 'l cell) kind"
  by unfold_locales (simp add: nats_limits_kind_def)

interpretation account_limits_kind: cell_kind "account_limits_kind :: (account_limits_mem, 'l cell) kind"
  by unfold_locales (simp add: account_limits_kind_def)

interpretation operator_limits_kind: cell_kind "operator_limits_kind :: (operator_limits_mem, 'l cell) kind"
  by unfold_locales (simp add: operator_limits_kind_def)

interpretation account_spec_kind: cell_kind "account_spec_kind :: ('l account_spec_mem, 'l cell) kind"
  by unfold_locales (simp add: account_spec_kind_def)

interpretation account_status_kind: cell_kind "account_status_kind :: ('l account_status_mem, 'l cell) kind"
  by unfold_locales (simp add: account_status_kind_def)

interpretation account_kind: cell_kind "account_kind :: ('l account_mem, 'l cell) kind"
  by unfold_locales (simp add: account_kind_def)

interpretation tls_config_kind: cell_kind "tls_config_kind :: ('l tls_config_mem, 'l cell) kind"
  by unfold_locales (simp add: tls_config_kind_def)

interpretation operator_spec_kind: cell_kind "operator_spec_kind :: ('l operator_spec_mem, 'l cell) kind"
  by unfold_locales (simp add: operator_spec_kind_def)

interpretation operator_status_kind: cell_kind "operator_status_kind :: ('l operator_status_mem, 'l cell) kind"
  by unfold_locales (simp add: operator_status_kind_def)

interpretation operator_kind: cell_kind "operator_kind :: ('l operator_mem, 'l cell) kind"
  by unfold_locales (simp add: operator_kind_def)

interpretation signing_key_status_kind: cell_kind "signing_key_status_kind :: ('l signing_key_status_mem, 'l cell) kind"
  by unfold_locales (simp add: signing_key_status_kind_def)

interpretation signing_key_kind: cell_kind "signing_key_kind :: ('l signing_key_mem, 'l cell) kind"
  by unfold_locales (simp add: signing_key_kind_def)

interpretation permission_kind: cell_kind "permission_kind :: (permission_mem, 'l cell) kind"
  by unfold_locales (simp add: permission_kind_def)

interpretation user_permissions_kind: cell_kind "user_permissions_kind :: (user_permissions_mem, 'l cell) kind"
  by unfold_locales (simp add: user_permissions_kind_def)

interpretation user_limits_kind: cell_kind "user_limits_kind :: (user_limits_mem, 'l cell) kind"
  by unfold_locales (simp add: user_limits_kind_def)

interpretation user_spec_kind: cell_kind "user_spec_kind :: (user_spec_mem, 'l cell) kind"
  by unfold_locales (simp add: user_spec_kind_def)

interpretation user_status_kind: cell_kind "user_status_kind :: ('l user_status_mem, 'l cell) kind"
  by unfold_locales (simp add: user_status_kind_def)

interpretation user_kind: cell_kind "user_kind :: ('l user_mem, 'l cell) kind"
  by unfold_locales (simp add: user_kind_def)

interpretation account_list_kind: cell_kind "account_list_kind :: ('l account_list_mem, 'l cell) kind"
  by unfold_locales (simp add: account_list_kind_def)

interpretation operator_list_kind: cell_kind "operator_list_kind :: ('l operator_list_mem, 'l cell) kind"
  by unfold_locales (simp add: operator_list_kind_def)

interpretation signing_key_list_kind: cell_kind "signing_key_list_kind :: ('l signing_key_list_mem, 'l cell) kind"
  by unfold_locales (simp add: signing_key_list_kind_def)

interpretation user_list_kind: cell_kind "user_list_kind :: ('l user_list_mem, 'l cell) kind"
  by unfold_locales (simp add: user_list_kind_def)

interpretation conditions_kind: cell_kind "conditions_kind :: ('l conditions_mem, 'l cell) kind"
  by unfold_locales (simp add: conditions_kind_def)

lemmas kinds_reads [reads_intros] =
  int64_kind.reads_pointer bool_kind.reads_pointer library_kind.reads_pointer
  account_service_latency_kind.reads_pointer inferred_object_reference_kind.reads_pointer
  key_pair_kind.reads_pointer key_pair_reference_kind.reads_pointer
  resp_permission_kind.reads_pointer typed_object_reference_kind.reads_pointer
  operator_limits_kind.reads_pointer tls_config_kind.reads_pointer
  user_permissions_kind.reads_pointer string_kind.reads_slice account_import_kind.reads_slice
  signing_key_embedded_status_kind.reads_slice start_end_time_kind.reads_slice
  condition_kind.reads_slice account_export_kind.reads_slice account_kind.reads_slice
  operator_kind.reads_slice signing_key_kind.reads_slice user_kind.reads_slice

lemmas kinds_clones [clones_intros] =
  int64_kind.copy_pointer_clones bool_kind.copy_pointer_clones library_kind.copy_pointer_clones
  account_service_latency_kind.copy_pointer_clones
  inferred_object_reference_kind.copy_pointer_clones key_pair_kind.copy_pointer_clones
  key_pair_reference_kind.copy_pointer_clones resp_permission_kind.copy_pointer_clones
  typed_object_reference_kind.copy_pointer_clones operator_limits_kind.copy_pointer_clones
  tls_config_kind.copy_pointer_clones user_permissions_kind.copy_pointer_clones
  string_kind.copy_slice_clones account_import_kind.copy_slice_clones
  signing_key_embedded_status_kind.copy_slice_clones start_end_time_kind.copy_slice_clones
  condition_kind.copy_slice_clones account_export_kind.copy_slice_clones
  account_kind.copy_slice_clones operator_kind.copy_slice_clones signing_key_kind.copy_slice_clones
  user_kind.copy_slice_clones

section \<open>The structs of Kubernetes' packages\<close>

record 'l library =
  copy_object_meta :: "('l, 'l, 'l cell) copier"
  view_object_meta :: "('l, object_meta, 'l cell) view"
  copy_list_meta :: "('l, 'l, 'l cell) copier"
  view_list_meta :: "('l, list_meta, 'l cell) view"
  copy_label_selector :: "('l, 'l, 'l cell) copier"
  view_label_selector :: "('l, label_selector, 'l cell) view"
  copy_secret_key_selector :: "('l, 'l, 'l cell) copier"
  view_secret_key_selector :: "('l, secret_key_selector, 'l cell) view"
  copy_time :: "('l, 'l, 'l cell) copier"
  view_time :: "('l, int, 'l cell) view"

text \<open>
  What their documentation says of the five: reading one depends only on the blocks it refers to,
  and \<open>DeepCopyInto\<close> is a deep copy.
\<close>

definition deep_copying :: "'l library \<Rightarrow> bool" where
  "deep_copying L \<longleftrightarrow>
     monotone_view (view_object_meta L) \<and>
     clones (copy_object_meta L) (view_object_meta L) (view_object_meta L) \<and>
     monotone_view (view_list_meta L) \<and>
     clones (copy_list_meta L) (view_list_meta L) (view_list_meta L) \<and>
     monotone_view (view_label_selector L) \<and>
     clones (copy_label_selector L) (view_label_selector L) (view_label_selector L) \<and>
     monotone_view (view_secret_key_selector L) \<and>
     clones (copy_secret_key_selector L) (view_secret_key_selector L) (view_secret_key_selector L) \<and>
     monotone_view (view_time L) \<and>
     clones (copy_time L) (view_time L) (view_time L)"

section \<open>Views\<close>

definition view_volatile_time :: "'l library \<Rightarrow> ('l volatile_time_mem, int, 'l cell) view" where
  "view_volatile_time L c m = view_time L c (vtm_inner m)"

definition view_condition :: "'l library \<Rightarrow> ('l condition_mem, condition, 'l cell) view" where
  "view_condition L c m = do {
     last_transition_time \<leftarrow> view_volatile_time L c (cm_last_transition_time m);
     Some \<lparr>cond_type = cm_type m, cond_status = cm_status m, cond_severity = cm_severity m,
       last_transition_time = last_transition_time, cond_reason = cm_reason m,
       cond_message = cm_message m\<rparr>
   }"

definition view_status :: "'l library \<Rightarrow> ('l status_mem, status, 'l cell) view" where
  "view_status L c m = do {
     conditions \<leftarrow> view_slice condition_kind (view_condition L) c (sm_conditions m);
     Some \<lparr>st_conditions = conditions\<rparr>
   }"

definition view_account_export :: "(account_export_mem, account_export, 'l cell) view" where
  "view_account_export c m = do {
     service_latency \<leftarrow> view_pointer account_service_latency_kind plain_view c (em_service_latency m);
     Some \<lparr>exp_name = em_name m, exp_subject = em_subject m, exp_type = em_type m,
       exp_token_req = em_token_req m, exp_response_type = em_response_type m,
       exp_service_latency = service_latency,
       exp_account_token_position = em_account_token_position m\<rparr>
   }"

definition view_nats_limits :: "(nats_limits_mem, nats_limits, 'l cell) view" where
  "view_nats_limits c m = do {
     subs \<leftarrow> view_pointer int64_kind plain_view c (nlm_subs m);
     data \<leftarrow> view_pointer int64_kind plain_view c (nlm_data m);
     payload \<leftarrow> view_pointer int64_kind plain_view c (nlm_payload m);
     Some \<lparr>nl_subs = subs, nl_data = data, nl_payload = payload\<rparr>
   }"

definition view_account_limits :: "(account_limits_mem, account_limits, 'l cell) view" where
  "view_account_limits c m = do {
     imports \<leftarrow> view_pointer int64_kind plain_view c (alm_imports m);
     exports \<leftarrow> view_pointer int64_kind plain_view c (alm_exports m);
     wildcard_exports \<leftarrow> view_pointer bool_kind plain_view c (alm_wildcard_exports m);
     conn \<leftarrow> view_pointer int64_kind plain_view c (alm_conn m);
     leaf_node_conn \<leftarrow> view_pointer int64_kind plain_view c (alm_leaf_node_conn m);
     Some \<lparr>al_imports = imports, al_exports = exports, al_wildcard_exports = wildcard_exports,
       al_disallow_bearer = alm_disallow_bearer m, al_conn = conn,
       al_leaf_node_conn = leaf_node_conn\<rparr>
   }"

definition view_operator_limits :: "(operator_limits_mem, operator_limits, 'l cell) view" where
  "view_operator_limits c m = do {
     nats \<leftarrow> view_nats_limits c (olm_nats m);
     account \<leftarrow> view_account_limits c (olm_account m);
     Some \<lparr>ol_nats = nats, ol_account = account, ol_jetstream = olm_jetstream m\<rparr>
   }"

definition view_account_spec :: "'l library \<Rightarrow> ('l account_spec_mem, account_spec, 'l cell) view" where
  "view_account_spec L c m = do {
     users_namespace_selector \<leftarrow> view_pointer library_kind (view_label_selector L) c (asm_users_namespace_selector m);
     users_selector \<leftarrow> view_pointer library_kind (view_label_selector L) c (asm_users_selector m);
     signing_keys_selector \<leftarrow> view_pointer library_kind (view_label_selector L) c (asm_signing_keys_selector m);
     imports \<leftarrow> view_slice account_import_kind plain_view c (asm_imports m);
     exports \<leftarrow> view_slice account_export_kind view_account_export c (asm_exports m);
     limits \<leftarrow> view_pointer operator_limits_kind view_operator_limits c (asm_limits m);
     Some \<lparr>acc_issuer = asm_issuer m, users_namespace_selector = users_namespace_selector,
       users_selector = users_selector, acc_jwt_secret_name = asm_jwt_secret_name m,
       acc_seed_secret_name = asm_seed_secret_name m,
       acc_signing_keys_selector = signing_keys_selector, acc_imports = imports,
       acc_exports = exports, acc_limits = limits\<rparr>
   }"

definition view_account_status :: "'l library \<Rightarrow> ('l account_status_mem, account_status, 'l cell) view" where
  "view_account_status L c m = do {
     status \<leftarrow> view_status L c (accm_status m);
     key_pair \<leftarrow> view_pointer key_pair_kind plain_view c (accm_key_pair m);
     signing_keys \<leftarrow> view_slice signing_key_embedded_status_kind plain_view c (accm_signing_keys m);
     operator_ref \<leftarrow> view_pointer inferred_object_reference_kind plain_view c (accm_operator_ref m);
     Some \<lparr>accs_status = status, accs_key_pair = key_pair, accs_signing_keys = signing_keys,
       accs_operator_ref = operator_ref\<rparr>
   }"

definition view_account :: "'l library \<Rightarrow> ('l account_mem, account, 'l cell) view" where
  "view_account L c m = do {
     meta \<leftarrow> view_object_meta L c (am_meta m);
     spec \<leftarrow> view_account_spec L c (am_spec m);
     status \<leftarrow> view_account_status L c (am_status m);
     Some \<lparr>acc_gvk = am_gvk m, acc_meta = meta, acc_spec = spec, acc_status = status\<rparr>
   }"

definition view_tls_config :: "'l library \<Rightarrow> ('l tls_config_mem, tls_config, 'l cell) view" where
  "view_tls_config L c m = do {
     ca_file \<leftarrow> view_pointer library_kind (view_secret_key_selector L) c (tm_ca_file m);
     Some \<lparr>ca_file = ca_file\<rparr>
   }"

definition view_operator_spec :: "'l library \<Rightarrow> ('l operator_spec_mem, operator_spec, 'l cell) view" where
  "view_operator_spec L c m = do {
     accounts_namespace_selector \<leftarrow> view_pointer library_kind (view_label_selector L) c (osm_accounts_namespace_selector m);
     accounts_selector \<leftarrow> view_pointer library_kind (view_label_selector L) c (osm_accounts_selector m);
     signing_keys_selector \<leftarrow> view_pointer library_kind (view_label_selector L) c (osm_signing_keys_selector m);
     tls_config \<leftarrow> view_pointer tls_config_kind (view_tls_config L) c (osm_tls_config m);
     operator_service_urls \<leftarrow> view_slice string_kind plain_view c (osm_operator_service_urls m);
     Some \<lparr>op_jwt_secret_name = osm_jwt_secret_name m, op_seed_secret_name = osm_seed_secret_name m,
       accounts_namespace_selector = accounts_namespace_selector,
       accounts_selector = accounts_selector, op_signing_keys_selector = signing_keys_selector,
       system_account_ref = osm_system_account_ref m, op_tls_config = tls_config,
       account_server_url = osm_account_server_url m, operator_service_urls = operator_service_urls\<rparr>
   }"

definition view_operator_status :: "'l library \<Rightarrow> ('l operator_status_mem, operator_status, 'l cell) view" where
  "view_operator_status L c m = do {
     status \<leftarrow> view_status L c (opsm_status m);
     key_pair \<leftarrow> view_pointer key_pair_kind plain_view c (opsm_key_pair m);
     signing_keys \<leftarrow> view_slice signing_key_embedded_status_kind plain_view c (opsm_signing_keys m);
     resolved_system_account \<leftarrow> view_pointer key_pair_reference_kind plain_view c (opsm_resolved_system_account m);
     Some \<lparr>ops_status = status, ops_key_pair = key_pair, ops_signing_keys = signing_keys,
       ops_resolved_system_account = resolved_system_account\<rparr>
   }"

definition view_operator :: "'l library \<Rightarrow> ('l operator_mem, operator, 'l cell) view" where
  "view_operator L c m = do {
     meta \<leftarrow> view_object_meta L c (om_meta m);
     spec \<leftarrow> view_operator_spec L c (om_spec m);
     status \<leftarrow> view_operator_status L c (om_status m);
     Some \<lparr>op_gvk = om_gvk m, op_meta = meta, op_spec = spec, op_status = status\<rparr>
   }"

definition view_signing_key_status :: "'l library \<Rightarrow> ('l signing_key_status_mem, signing_key_status, 'l cell) view" where
  "view_signing_key_status L c m = do {
     status \<leftarrow> view_status L c (sksm_status m);
     key_pair \<leftarrow> view_pointer key_pair_kind plain_view c (sksm_key_pair m);
     owner_ref \<leftarrow> view_pointer typed_object_reference_kind plain_view c (sksm_owner_ref m);
     Some \<lparr>sks_status = status, sks_key_pair = key_pair, sks_owner_ref = owner_ref\<rparr>
   }"

definition view_signing_key :: "'l library \<Rightarrow> ('l signing_key_mem, signing_key, 'l cell) view" where
  "view_signing_key L c m = do {
     meta \<leftarrow> view_object_meta L c (skm_meta m);
     status \<leftarrow> view_signing_key_status L c (skm_status m);
     Some \<lparr>sk_gvk = skm_gvk m, sk_meta = meta, sk_spec = skm_spec m, sk_status = status\<rparr>
   }"

definition view_permission :: "(permission_mem, permission, 'l cell) view" where
  "view_permission c m = do {
     allow \<leftarrow> view_slice string_kind plain_view c (pm_allow m);
     deny \<leftarrow> view_slice string_kind plain_view c (pm_deny m);
     Some \<lparr>perm_allow = allow, perm_deny = deny\<rparr>
   }"

definition view_user_permissions :: "(user_permissions_mem, user_permissions, 'l cell) view" where
  "view_user_permissions c m = do {
     pub \<leftarrow> view_permission c (upm_pub m);
     sub \<leftarrow> view_permission c (upm_sub m);
     resp \<leftarrow> view_pointer resp_permission_kind plain_view c (upm_resp m);
     Some \<lparr>up_pub = pub, up_sub = sub, up_resp = resp\<rparr>
   }"

definition view_user_limits :: "(user_limits_mem, user_limits, 'l cell) view" where
  "view_user_limits c m = do {
     nats_limits \<leftarrow> view_nats_limits c (ulm_nats_limits m);
     src \<leftarrow> view_slice string_kind plain_view c (ulm_src m);
     times \<leftarrow> view_slice start_end_time_kind plain_view c (ulm_times m);
     Some \<lparr>ul_nats_limits = nats_limits, ul_src = src, ul_times = times, ul_locale = ulm_locale m\<rparr>
   }"

definition view_user_spec :: "(user_spec_mem, user_spec, 'l cell) view" where
  "view_user_spec c m = do {
     permissions \<leftarrow> view_pointer user_permissions_kind view_user_permissions c (usm_permissions m);
     limits \<leftarrow> view_user_limits c (usm_limits m);
     bearer_token \<leftarrow> view_pointer bool_kind plain_view c (usm_bearer_token m);
     Some \<lparr>usr_issuer = usm_issuer m, usr_jwt_secret_name = usm_jwt_secret_name m,
       usr_seed_secret_name = usm_seed_secret_name m,
       usr_credentials_secret_name = usm_credentials_secret_name m, usr_permissions = permissions,
       usr_limits = limits, usr_bearer_token = bearer_token\<rparr>
   }"

definition view_user_status :: "'l library \<Rightarrow> ('l user_status_mem, user_status, 'l cell) view" where
  "view_user_status L c m = do {
     status \<leftarrow> view_status L c (usrm_status m);
     key_pair \<leftarrow> view_pointer key_pair_kind plain_view c (usrm_key_pair m);
     account_ref \<leftarrow> view_pointer inferred_object_reference_kind plain_view c (usrm_account_ref m);
     Some \<lparr>usrs_status = status, usrs_key_pair = key_pair, usrs_account_ref = account_ref\<rparr>
   }"

definition view_user :: "'l library \<Rightarrow> ('l user_mem, user, 'l cell) view" where
  "view_user L c m = do {
     meta \<leftarrow> view_object_meta L c (um_meta m);
     spec \<leftarrow> view_user_spec c (um_spec m);
     status \<leftarrow> view_user_status L c (um_status m);
     Some \<lparr>usr_gvk = um_gvk m, usr_meta = meta, usr_spec = spec, usr_status = status\<rparr>
   }"

definition view_account_list :: "'l library \<Rightarrow> ('l account_list_mem, account_list, 'l cell) view" where
  "view_account_list L c m = do {
     meta \<leftarrow> view_list_meta L c (alistm_meta m);
     items \<leftarrow> view_slice account_kind (view_account L) c (alistm_items m);
     Some \<lparr>rl_gvk = alistm_gvk m, rl_meta = meta, rl_items = items\<rparr>
   }"

definition view_operator_list :: "'l library \<Rightarrow> ('l operator_list_mem, operator_list, 'l cell) view" where
  "view_operator_list L c m = do {
     meta \<leftarrow> view_list_meta L c (olistm_meta m);
     items \<leftarrow> view_slice operator_kind (view_operator L) c (olistm_items m);
     Some \<lparr>rl_gvk = olistm_gvk m, rl_meta = meta, rl_items = items\<rparr>
   }"

definition view_signing_key_list :: "'l library \<Rightarrow> ('l signing_key_list_mem, signing_key_list, 'l cell) view" where
  "view_signing_key_list L c m = do {
     meta \<leftarrow> view_list_meta L c (sklistm_meta m);
     items \<leftarrow> view_slice signing_key_kind (view_signing_key L) c (sklistm_items m);
     Some \<lparr>rl_gvk = sklistm_gvk m, rl_meta = meta, rl_items = items\<rparr>
   }"

definition view_user_list :: "'l library \<Rightarrow> ('l user_list_mem, user_list, 'l cell) view" where
  "view_user_list L c m = do {
     meta \<leftarrow> view_list_meta L c (ulistm_meta m);
     items \<leftarrow> view_slice user_kind (view_user L) c (ulistm_items m);
     Some \<lparr>rl_gvk = ulistm_gvk m, rl_meta = meta, rl_items = items\<rparr>
   }"

definition view_conditions :: "'l library \<Rightarrow> ('l conditions_mem, conditions, 'l cell) view" where
  "view_conditions L = view_slice condition_kind (view_condition L)"

end
