(* ===== verification/Deep_Copies.thy ===== *)
theory Deep_Copies
  imports Memory_Types
begin

text \<open>
  api/accounts/v1alpha1/zz_generated.deepcopy.go and pkg/apis/zz_generated.deepcopy.go, function by
  function, on the memory of Memory_Types. \<open>T_deep_copy_into\<close> is \<open>DeepCopyInto\<close>: it takes what
  \<open>in\<close> points to and returns what it leaves in \<open>*out\<close>, with the blocks it allocated on the way.
  \<open>T_deep_copy\<close> is \<open>DeepCopy\<close>, \<open>T_deep_copy_object\<close> is \<open>DeepCopyObject\<close>. None is a panic.
\<close>

section \<open>Structs without pointers\<close>

definition account_import_deep_copy_into :: "(account_import, account_import, 'l cell) copier" where
  "account_import_deep_copy_into m h = Some (m, h)"

definition account_import_deep_copy :: "(account_import option, account_import pointer, 'l cell) copier" where
  "account_import_deep_copy = deep_copy account_import_kind account_import_deep_copy_into"

definition account_service_latency_deep_copy_into :: "(account_service_latency, account_service_latency, 'l cell) copier" where
  "account_service_latency_deep_copy_into m h = Some (m, h)"

definition account_service_latency_deep_copy :: "(account_service_latency option, account_service_latency pointer, 'l cell) copier" where
  "account_service_latency_deep_copy = deep_copy account_service_latency_kind account_service_latency_deep_copy_into"

definition identity_deep_copy_into :: "(identity, identity, 'l cell) copier" where
  "identity_deep_copy_into m h = Some (m, h)"

definition identity_deep_copy :: "(identity option, identity pointer, 'l cell) copier" where
  "identity_deep_copy = deep_copy identity_kind identity_deep_copy_into"

definition inferred_object_reference_deep_copy_into :: "(inferred_object_reference, inferred_object_reference, 'l cell) copier" where
  "inferred_object_reference_deep_copy_into m h = Some (m, h)"

definition inferred_object_reference_deep_copy :: "(inferred_object_reference option, inferred_object_reference pointer, 'l cell) copier" where
  "inferred_object_reference_deep_copy = deep_copy inferred_object_reference_kind inferred_object_reference_deep_copy_into"

definition issuer_reference_deep_copy_into :: "(issuer_reference, issuer_reference, 'l cell) copier" where
  "issuer_reference_deep_copy_into m h = Some (m\<lparr>issuer_ref := issuer_ref m\<rparr>, h)"

definition issuer_reference_deep_copy :: "(issuer_reference option, issuer_reference pointer, 'l cell) copier" where
  "issuer_reference_deep_copy = deep_copy issuer_reference_kind issuer_reference_deep_copy_into"

definition jetstream_limits_deep_copy_into :: "(jetstream_limits, jetstream_limits, 'l cell) copier" where
  "jetstream_limits_deep_copy_into m h = Some (m, h)"

definition jetstream_limits_deep_copy :: "(jetstream_limits option, jetstream_limits pointer, 'l cell) copier" where
  "jetstream_limits_deep_copy = deep_copy jetstream_limits_kind jetstream_limits_deep_copy_into"

definition key_pair_deep_copy_into :: "(key_pair, key_pair, 'l cell) copier" where
  "key_pair_deep_copy_into m h = Some (m, h)"

definition key_pair_deep_copy :: "(key_pair option, key_pair pointer, 'l cell) copier" where
  "key_pair_deep_copy = deep_copy key_pair_kind key_pair_deep_copy_into"

definition key_pair_reference_deep_copy_into :: "(key_pair_reference, key_pair_reference, 'l cell) copier" where
  "key_pair_reference_deep_copy_into m h = Some (m\<lparr>kpr_ref := kpr_ref m\<rparr>, h)"

definition key_pair_reference_deep_copy :: "(key_pair_reference option, key_pair_reference pointer, 'l cell) copier" where
  "key_pair_reference_deep_copy = deep_copy key_pair_reference_kind key_pair_reference_deep_copy_into"

definition operator_ref_deep_copy_into :: "(operator_ref, operator_ref, 'l cell) copier" where
  "operator_ref_deep_copy_into m h = Some (m, h)"

definition operator_ref_deep_copy :: "(operator_ref option, operator_ref pointer, 'l cell) copier" where
  "operator_ref_deep_copy = deep_copy operator_ref_kind operator_ref_deep_copy_into"

definition resp_permission_deep_copy_into :: "(resp_permission, resp_permission, 'l cell) copier" where
  "resp_permission_deep_copy_into m h = Some (m\<lparr>resp_ttl := resp_ttl m\<rparr>, h)"

definition resp_permission_deep_copy :: "(resp_permission option, resp_permission pointer, 'l cell) copier" where
  "resp_permission_deep_copy = deep_copy resp_permission_kind resp_permission_deep_copy_into"

definition signing_key_embedded_status_deep_copy_into :: "(signing_key_embedded_status, signing_key_embedded_status, 'l cell) copier" where
  "signing_key_embedded_status_deep_copy_into m h = Some (m\<lparr>ske_key_pair := ske_key_pair m\<rparr>, h)"

definition signing_key_embedded_status_deep_copy :: "(signing_key_embedded_status option, signing_key_embedded_status pointer, 'l cell) copier" where
  "signing_key_embedded_status_deep_copy = deep_copy signing_key_embedded_status_kind signing_key_embedded_status_deep_copy_into"

definition signing_key_owner_reference_deep_copy_into :: "(signing_key_owner_reference, signing_key_owner_reference, 'l cell) copier" where
  "signing_key_owner_reference_deep_copy_into m h = Some (m, h)"

definition signing_key_owner_reference_deep_copy :: "(signing_key_owner_reference option, signing_key_owner_reference pointer, 'l cell) copier" where
  "signing_key_owner_reference_deep_copy = deep_copy signing_key_owner_reference_kind signing_key_owner_reference_deep_copy_into"

definition signing_key_spec_deep_copy_into :: "(signing_key_spec, signing_key_spec, 'l cell) copier" where
  "signing_key_spec_deep_copy_into m h = Some (m\<lparr>sk_owner_ref := sk_owner_ref m\<rparr>, h)"

definition signing_key_spec_deep_copy :: "(signing_key_spec option, signing_key_spec pointer, 'l cell) copier" where
  "signing_key_spec_deep_copy = deep_copy signing_key_spec_kind signing_key_spec_deep_copy_into"

definition start_end_time_deep_copy_into :: "(start_end_time, start_end_time, 'l cell) copier" where
  "start_end_time_deep_copy_into m h = Some (m, h)"

definition start_end_time_deep_copy :: "(start_end_time option, start_end_time pointer, 'l cell) copier" where
  "start_end_time_deep_copy = deep_copy start_end_time_kind start_end_time_deep_copy_into"

definition typed_object_reference_deep_copy_into :: "(typed_object_reference, typed_object_reference, 'l cell) copier" where
  "typed_object_reference_deep_copy_into m h = Some (m, h)"

definition typed_object_reference_deep_copy :: "(typed_object_reference option, typed_object_reference pointer, 'l cell) copier" where
  "typed_object_reference_deep_copy = deep_copy typed_object_reference_kind typed_object_reference_deep_copy_into"

section \<open>pkg/apis\<close>

definition volatile_time_deep_copy_into :: "'l library \<Rightarrow> ('l volatile_time_mem, 'l volatile_time_mem, 'l cell) copier" where
  "volatile_time_deep_copy_into L m h = do {
     (inner, h) \<leftarrow> copy_time L (vtm_inner m) h;
     Some (m\<lparr>vtm_inner := inner\<rparr>, h)
   }"

definition volatile_time_deep_copy :: "'l library \<Rightarrow> ('l volatile_time_mem option, 'l volatile_time_mem pointer, 'l cell) copier" where
  "volatile_time_deep_copy L = deep_copy volatile_time_kind (volatile_time_deep_copy_into L)"

definition condition_deep_copy_into :: "'l library \<Rightarrow> ('l condition_mem, 'l condition_mem, 'l cell) copier" where
  "condition_deep_copy_into L m h = do {
     (last_transition_time, h) \<leftarrow> volatile_time_deep_copy_into L (cm_last_transition_time m) h;
     Some (m\<lparr>cm_last_transition_time := last_transition_time\<rparr>, h)
   }"

definition condition_deep_copy :: "'l library \<Rightarrow> ('l condition_mem option, 'l condition_mem pointer, 'l cell) copier" where
  "condition_deep_copy L = deep_copy condition_kind (condition_deep_copy_into L)"

text \<open>
  The receiver of \<open>Conditions\<close> is the slice itself. \<open>DeepCopyInto\<close> makes an array also for a nil
  slice; \<open>DeepCopy\<close> does not call it for one, and returns what its own \<open>new(Conditions)\<close> holds.
\<close>

definition conditions_deep_copy_into :: "'l library \<Rightarrow> ('l conditions_mem, 'l conditions_mem, 'l cell) copier" where
  "conditions_deep_copy_into L s h = do {
     xs \<leftarrow> load_slice condition_kind (blocks h) s;
     let out = length h;
     h \<leftarrow> copy_elements condition_kind (condition_deep_copy_into L) out 0 xs (h @ [pack condition_kind xs]);
     Some (Slice out 0 (length xs), h)
   }"

definition conditions_deep_copy :: "'l library \<Rightarrow> ('l conditions_mem, 'l conditions_mem, 'l cell) copier" where
  "conditions_deep_copy L s h =
     (if s = Nil_Slice then Some (Nil_Slice, h)
      else do {
        (out, h) \<leftarrow> new_copy conditions_kind (conditions_deep_copy_into L) s h;
        t \<leftarrow> load conditions_kind (blocks h) out;
        Some (t, h)
      })"

section \<open>api/accounts/v1alpha1\<close>

definition status_deep_copy_into :: "'l library \<Rightarrow> ('l status_mem, 'l status_mem, 'l cell) copier" where
  "status_deep_copy_into L m h = do {
     (conditions, h) \<leftarrow> copy_slice condition_kind (condition_deep_copy_into L) (sm_conditions m) h;
     Some (m\<lparr>sm_conditions := conditions\<rparr>, h)
   }"

definition status_deep_copy :: "'l library \<Rightarrow> ('l status_mem option, 'l status_mem pointer, 'l cell) copier" where
  "status_deep_copy L = deep_copy status_kind (status_deep_copy_into L)"

definition account_export_deep_copy_into :: "(account_export_mem, account_export_mem, 'l cell) copier" where
  "account_export_deep_copy_into m h = do {
     (service_latency, h) \<leftarrow> copy_pointer account_service_latency_kind plain_copy (em_service_latency m) h;
     Some (m\<lparr>em_service_latency := service_latency\<rparr>, h)
   }"

definition account_export_deep_copy :: "(account_export_mem option, account_export_mem pointer, 'l cell) copier" where
  "account_export_deep_copy = deep_copy account_export_kind account_export_deep_copy_into"

definition nats_limits_deep_copy_into :: "(nats_limits_mem, nats_limits_mem, 'l cell) copier" where
  "nats_limits_deep_copy_into m h = do {
     (subs, h) \<leftarrow> copy_pointer int64_kind plain_copy (nlm_subs m) h;
     (data, h) \<leftarrow> copy_pointer int64_kind plain_copy (nlm_data m) h;
     (payload, h) \<leftarrow> copy_pointer int64_kind plain_copy (nlm_payload m) h;
     Some (m\<lparr>nlm_subs := subs, nlm_data := data, nlm_payload := payload\<rparr>, h)
   }"

definition nats_limits_deep_copy :: "(nats_limits_mem option, nats_limits_mem pointer, 'l cell) copier" where
  "nats_limits_deep_copy = deep_copy nats_limits_kind nats_limits_deep_copy_into"

definition account_limits_deep_copy_into :: "(account_limits_mem, account_limits_mem, 'l cell) copier" where
  "account_limits_deep_copy_into m h = do {
     (imports, h) \<leftarrow> copy_pointer int64_kind plain_copy (alm_imports m) h;
     (exports, h) \<leftarrow> copy_pointer int64_kind plain_copy (alm_exports m) h;
     (wildcard_exports, h) \<leftarrow> copy_pointer bool_kind plain_copy (alm_wildcard_exports m) h;
     (conn, h) \<leftarrow> copy_pointer int64_kind plain_copy (alm_conn m) h;
     (leaf_node_conn, h) \<leftarrow> copy_pointer int64_kind plain_copy (alm_leaf_node_conn m) h;
     Some (m\<lparr>alm_imports := imports, alm_exports := exports, alm_wildcard_exports := wildcard_exports,
       alm_conn := conn, alm_leaf_node_conn := leaf_node_conn\<rparr>, h)
   }"

definition account_limits_deep_copy :: "(account_limits_mem option, account_limits_mem pointer, 'l cell) copier" where
  "account_limits_deep_copy = deep_copy account_limits_kind account_limits_deep_copy_into"

definition operator_limits_deep_copy_into :: "(operator_limits_mem, operator_limits_mem, 'l cell) copier" where
  "operator_limits_deep_copy_into m h = do {
     (nats, h) \<leftarrow> nats_limits_deep_copy_into (olm_nats m) h;
     (account, h) \<leftarrow> account_limits_deep_copy_into (olm_account m) h;
     Some (m\<lparr>olm_nats := nats, olm_account := account, olm_jetstream := olm_jetstream m\<rparr>, h)
   }"

definition operator_limits_deep_copy :: "(operator_limits_mem option, operator_limits_mem pointer, 'l cell) copier" where
  "operator_limits_deep_copy = deep_copy operator_limits_kind operator_limits_deep_copy_into"

definition account_spec_deep_copy_into :: "'l library \<Rightarrow> ('l account_spec_mem, 'l account_spec_mem, 'l cell) copier" where
  "account_spec_deep_copy_into L m h = do {
     (users_namespace_selector, h) \<leftarrow> copy_pointer library_kind (copy_label_selector L) (asm_users_namespace_selector m) h;
     (users_selector, h) \<leftarrow> copy_pointer library_kind (copy_label_selector L) (asm_users_selector m) h;
     (signing_keys_selector, h) \<leftarrow> copy_pointer library_kind (copy_label_selector L) (asm_signing_keys_selector m) h;
     (imports, h) \<leftarrow> copy_slice account_import_kind plain_copy (asm_imports m) h;
     (exports, h) \<leftarrow> copy_slice account_export_kind account_export_deep_copy_into (asm_exports m) h;
     (limits, h) \<leftarrow> copy_pointer operator_limits_kind operator_limits_deep_copy_into (asm_limits m) h;
     Some (m\<lparr>asm_issuer := asm_issuer m, asm_users_namespace_selector := users_namespace_selector,
       asm_users_selector := users_selector, asm_signing_keys_selector := signing_keys_selector,
       asm_imports := imports, asm_exports := exports, asm_limits := limits\<rparr>, h)
   }"

definition account_spec_deep_copy :: "'l library \<Rightarrow> ('l account_spec_mem option, 'l account_spec_mem pointer, 'l cell) copier" where
  "account_spec_deep_copy L = deep_copy account_spec_kind (account_spec_deep_copy_into L)"

definition account_status_deep_copy_into :: "'l library \<Rightarrow> ('l account_status_mem, 'l account_status_mem, 'l cell) copier" where
  "account_status_deep_copy_into L m h = do {
     (status, h) \<leftarrow> status_deep_copy_into L (accm_status m) h;
     (key_pair, h) \<leftarrow> copy_pointer key_pair_kind plain_copy (accm_key_pair m) h;
     (signing_keys, h) \<leftarrow> copy_slice signing_key_embedded_status_kind plain_copy (accm_signing_keys m) h;
     (operator_ref, h) \<leftarrow> copy_pointer inferred_object_reference_kind plain_copy (accm_operator_ref m) h;
     Some (m\<lparr>accm_status := status, accm_key_pair := key_pair, accm_signing_keys := signing_keys,
       accm_operator_ref := operator_ref\<rparr>, h)
   }"

definition account_status_deep_copy :: "'l library \<Rightarrow> ('l account_status_mem option, 'l account_status_mem pointer, 'l cell) copier" where
  "account_status_deep_copy L = deep_copy account_status_kind (account_status_deep_copy_into L)"

definition account_deep_copy_into :: "'l library \<Rightarrow> ('l account_mem, 'l account_mem, 'l cell) copier" where
  "account_deep_copy_into L m h = do {
     (meta, h) \<leftarrow> copy_object_meta L (am_meta m) h;
     (spec, h) \<leftarrow> account_spec_deep_copy_into L (am_spec m) h;
     (status, h) \<leftarrow> account_status_deep_copy_into L (am_status m) h;
     Some (m\<lparr>am_gvk := am_gvk m, am_meta := meta, am_spec := spec, am_status := status\<rparr>, h)
   }"

definition account_deep_copy :: "'l library \<Rightarrow> ('l account_mem option, 'l account_mem pointer, 'l cell) copier" where
  "account_deep_copy L = deep_copy account_kind (account_deep_copy_into L)"

definition tls_config_deep_copy_into :: "'l library \<Rightarrow> ('l tls_config_mem, 'l tls_config_mem, 'l cell) copier" where
  "tls_config_deep_copy_into L m h = do {
     (ca_file, h) \<leftarrow> copy_pointer library_kind (copy_secret_key_selector L) (tm_ca_file m) h;
     Some (m\<lparr>tm_ca_file := ca_file\<rparr>, h)
   }"

definition tls_config_deep_copy :: "'l library \<Rightarrow> ('l tls_config_mem option, 'l tls_config_mem pointer, 'l cell) copier" where
  "tls_config_deep_copy L = deep_copy tls_config_kind (tls_config_deep_copy_into L)"

definition operator_spec_deep_copy_into :: "'l library \<Rightarrow> ('l operator_spec_mem, 'l operator_spec_mem, 'l cell) copier" where
  "operator_spec_deep_copy_into L m h = do {
     (accounts_namespace_selector, h) \<leftarrow> copy_pointer library_kind (copy_label_selector L) (osm_accounts_namespace_selector m) h;
     (accounts_selector, h) \<leftarrow> copy_pointer library_kind (copy_label_selector L) (osm_accounts_selector m) h;
     (signing_keys_selector, h) \<leftarrow> copy_pointer library_kind (copy_label_selector L) (osm_signing_keys_selector m) h;
     (tls_config, h) \<leftarrow> copy_pointer tls_config_kind (tls_config_deep_copy_into L) (osm_tls_config m) h;
     (operator_service_urls, h) \<leftarrow> copy_slice string_kind plain_copy (osm_operator_service_urls m) h;
     Some (m\<lparr>osm_accounts_namespace_selector := accounts_namespace_selector,
       osm_accounts_selector := accounts_selector,
       osm_signing_keys_selector := signing_keys_selector,
       osm_system_account_ref := osm_system_account_ref m, osm_tls_config := tls_config,
       osm_operator_service_urls := operator_service_urls\<rparr>, h)
   }"

definition operator_spec_deep_copy :: "'l library \<Rightarrow> ('l operator_spec_mem option, 'l operator_spec_mem pointer, 'l cell) copier" where
  "operator_spec_deep_copy L = deep_copy operator_spec_kind (operator_spec_deep_copy_into L)"

definition operator_status_deep_copy_into :: "'l library \<Rightarrow> ('l operator_status_mem, 'l operator_status_mem, 'l cell) copier" where
  "operator_status_deep_copy_into L m h = do {
     (status, h) \<leftarrow> status_deep_copy_into L (opsm_status m) h;
     (key_pair, h) \<leftarrow> copy_pointer key_pair_kind plain_copy (opsm_key_pair m) h;
     (signing_keys, h) \<leftarrow> copy_slice signing_key_embedded_status_kind plain_copy (opsm_signing_keys m) h;
     (resolved_system_account, h) \<leftarrow> copy_pointer key_pair_reference_kind plain_copy (opsm_resolved_system_account m) h;
     Some (m\<lparr>opsm_status := status, opsm_key_pair := key_pair, opsm_signing_keys := signing_keys,
       opsm_resolved_system_account := resolved_system_account\<rparr>, h)
   }"

definition operator_status_deep_copy :: "'l library \<Rightarrow> ('l operator_status_mem option, 'l operator_status_mem pointer, 'l cell) copier" where
  "operator_status_deep_copy L = deep_copy operator_status_kind (operator_status_deep_copy_into L)"

definition operator_deep_copy_into :: "'l library \<Rightarrow> ('l operator_mem, 'l operator_mem, 'l cell) copier" where
  "operator_deep_copy_into L m h = do {
     (meta, h) \<leftarrow> copy_object_meta L (om_meta m) h;
     (spec, h) \<leftarrow> operator_spec_deep_copy_into L (om_spec m) h;
     (status, h) \<leftarrow> operator_status_deep_copy_into L (om_status m) h;
     Some (m\<lparr>om_gvk := om_gvk m, om_meta := meta, om_spec := spec, om_status := status\<rparr>, h)
   }"

definition operator_deep_copy :: "'l library \<Rightarrow> ('l operator_mem option, 'l operator_mem pointer, 'l cell) copier" where
  "operator_deep_copy L = deep_copy operator_kind (operator_deep_copy_into L)"

definition signing_key_status_deep_copy_into :: "'l library \<Rightarrow> ('l signing_key_status_mem, 'l signing_key_status_mem, 'l cell) copier" where
  "signing_key_status_deep_copy_into L m h = do {
     (status, h) \<leftarrow> status_deep_copy_into L (sksm_status m) h;
     (key_pair, h) \<leftarrow> copy_pointer key_pair_kind plain_copy (sksm_key_pair m) h;
     (owner_ref, h) \<leftarrow> copy_pointer typed_object_reference_kind plain_copy (sksm_owner_ref m) h;
     Some (m\<lparr>sksm_status := status, sksm_key_pair := key_pair, sksm_owner_ref := owner_ref\<rparr>, h)
   }"

definition signing_key_status_deep_copy :: "'l library \<Rightarrow> ('l signing_key_status_mem option, 'l signing_key_status_mem pointer, 'l cell) copier" where
  "signing_key_status_deep_copy L = deep_copy signing_key_status_kind (signing_key_status_deep_copy_into L)"

definition signing_key_deep_copy_into :: "'l library \<Rightarrow> ('l signing_key_mem, 'l signing_key_mem, 'l cell) copier" where
  "signing_key_deep_copy_into L m h = do {
     (meta, h) \<leftarrow> copy_object_meta L (skm_meta m) h;
     (status, h) \<leftarrow> signing_key_status_deep_copy_into L (skm_status m) h;
     Some (m\<lparr>skm_gvk := skm_gvk m, skm_meta := meta, skm_spec := skm_spec m, skm_status := status\<rparr>, h)
   }"

definition signing_key_deep_copy :: "'l library \<Rightarrow> ('l signing_key_mem option, 'l signing_key_mem pointer, 'l cell) copier" where
  "signing_key_deep_copy L = deep_copy signing_key_kind (signing_key_deep_copy_into L)"

definition permission_deep_copy_into :: "(permission_mem, permission_mem, 'l cell) copier" where
  "permission_deep_copy_into m h = do {
     (allow, h) \<leftarrow> copy_slice string_kind plain_copy (pm_allow m) h;
     (deny, h) \<leftarrow> copy_slice string_kind plain_copy (pm_deny m) h;
     Some (m\<lparr>pm_allow := allow, pm_deny := deny\<rparr>, h)
   }"

definition permission_deep_copy :: "(permission_mem option, permission_mem pointer, 'l cell) copier" where
  "permission_deep_copy = deep_copy permission_kind permission_deep_copy_into"

definition user_permissions_deep_copy_into :: "(user_permissions_mem, user_permissions_mem, 'l cell) copier" where
  "user_permissions_deep_copy_into m h = do {
     (pub, h) \<leftarrow> permission_deep_copy_into (upm_pub m) h;
     (sub, h) \<leftarrow> permission_deep_copy_into (upm_sub m) h;
     (resp, h) \<leftarrow> copy_pointer resp_permission_kind plain_copy (upm_resp m) h;
     Some (m\<lparr>upm_pub := pub, upm_sub := sub, upm_resp := resp\<rparr>, h)
   }"

definition user_permissions_deep_copy :: "(user_permissions_mem option, user_permissions_mem pointer, 'l cell) copier" where
  "user_permissions_deep_copy = deep_copy user_permissions_kind user_permissions_deep_copy_into"

definition user_limits_deep_copy_into :: "(user_limits_mem, user_limits_mem, 'l cell) copier" where
  "user_limits_deep_copy_into m h = do {
     (nats_limits, h) \<leftarrow> nats_limits_deep_copy_into (ulm_nats_limits m) h;
     (src, h) \<leftarrow> copy_slice string_kind plain_copy (ulm_src m) h;
     (times, h) \<leftarrow> copy_slice start_end_time_kind plain_copy (ulm_times m) h;
     Some (m\<lparr>ulm_nats_limits := nats_limits, ulm_src := src, ulm_times := times\<rparr>, h)
   }"

definition user_limits_deep_copy :: "(user_limits_mem option, user_limits_mem pointer, 'l cell) copier" where
  "user_limits_deep_copy = deep_copy user_limits_kind user_limits_deep_copy_into"

definition user_spec_deep_copy_into :: "(user_spec_mem, user_spec_mem, 'l cell) copier" where
  "user_spec_deep_copy_into m h = do {
     (permissions, h) \<leftarrow> copy_pointer user_permissions_kind user_permissions_deep_copy_into (usm_permissions m) h;
     (limits, h) \<leftarrow> user_limits_deep_copy_into (usm_limits m) h;
     (bearer_token, h) \<leftarrow> copy_pointer bool_kind plain_copy (usm_bearer_token m) h;
     Some (m\<lparr>usm_issuer := usm_issuer m, usm_permissions := permissions, usm_limits := limits,
       usm_bearer_token := bearer_token\<rparr>, h)
   }"

definition user_spec_deep_copy :: "(user_spec_mem option, user_spec_mem pointer, 'l cell) copier" where
  "user_spec_deep_copy = deep_copy user_spec_kind user_spec_deep_copy_into"

definition user_status_deep_copy_into :: "'l library \<Rightarrow> ('l user_status_mem, 'l user_status_mem, 'l cell) copier" where
  "user_status_deep_copy_into L m h = do {
     (status, h) \<leftarrow> status_deep_copy_into L (usrm_status m) h;
     (key_pair, h) \<leftarrow> copy_pointer key_pair_kind plain_copy (usrm_key_pair m) h;
     (account_ref, h) \<leftarrow> copy_pointer inferred_object_reference_kind plain_copy (usrm_account_ref m) h;
     Some (m\<lparr>usrm_status := status, usrm_key_pair := key_pair, usrm_account_ref := account_ref\<rparr>, h)
   }"

definition user_status_deep_copy :: "'l library \<Rightarrow> ('l user_status_mem option, 'l user_status_mem pointer, 'l cell) copier" where
  "user_status_deep_copy L = deep_copy user_status_kind (user_status_deep_copy_into L)"

definition user_deep_copy_into :: "'l library \<Rightarrow> ('l user_mem, 'l user_mem, 'l cell) copier" where
  "user_deep_copy_into L m h = do {
     (meta, h) \<leftarrow> copy_object_meta L (um_meta m) h;
     (spec, h) \<leftarrow> user_spec_deep_copy_into (um_spec m) h;
     (status, h) \<leftarrow> user_status_deep_copy_into L (um_status m) h;
     Some (m\<lparr>um_gvk := um_gvk m, um_meta := meta, um_spec := spec, um_status := status\<rparr>, h)
   }"

definition user_deep_copy :: "'l library \<Rightarrow> ('l user_mem option, 'l user_mem pointer, 'l cell) copier" where
  "user_deep_copy L = deep_copy user_kind (user_deep_copy_into L)"

definition account_list_deep_copy_into :: "'l library \<Rightarrow> ('l account_list_mem, 'l account_list_mem, 'l cell) copier" where
  "account_list_deep_copy_into L m h = do {
     (meta, h) \<leftarrow> copy_list_meta L (alistm_meta m) h;
     (items, h) \<leftarrow> copy_slice account_kind (account_deep_copy_into L) (alistm_items m) h;
     Some (m\<lparr>alistm_gvk := alistm_gvk m, alistm_meta := meta, alistm_items := items\<rparr>, h)
   }"

definition account_list_deep_copy :: "'l library \<Rightarrow> ('l account_list_mem option, 'l account_list_mem pointer, 'l cell) copier" where
  "account_list_deep_copy L = deep_copy account_list_kind (account_list_deep_copy_into L)"

definition operator_list_deep_copy_into :: "'l library \<Rightarrow> ('l operator_list_mem, 'l operator_list_mem, 'l cell) copier" where
  "operator_list_deep_copy_into L m h = do {
     (meta, h) \<leftarrow> copy_list_meta L (olistm_meta m) h;
     (items, h) \<leftarrow> copy_slice operator_kind (operator_deep_copy_into L) (olistm_items m) h;
     Some (m\<lparr>olistm_gvk := olistm_gvk m, olistm_meta := meta, olistm_items := items\<rparr>, h)
   }"

definition operator_list_deep_copy :: "'l library \<Rightarrow> ('l operator_list_mem option, 'l operator_list_mem pointer, 'l cell) copier" where
  "operator_list_deep_copy L = deep_copy operator_list_kind (operator_list_deep_copy_into L)"

definition signing_key_list_deep_copy_into :: "'l library \<Rightarrow> ('l signing_key_list_mem, 'l signing_key_list_mem, 'l cell) copier" where
  "signing_key_list_deep_copy_into L m h = do {
     (meta, h) \<leftarrow> copy_list_meta L (sklistm_meta m) h;
     (items, h) \<leftarrow> copy_slice signing_key_kind (signing_key_deep_copy_into L) (sklistm_items m) h;
     Some (m\<lparr>sklistm_gvk := sklistm_gvk m, sklistm_meta := meta, sklistm_items := items\<rparr>, h)
   }"

definition signing_key_list_deep_copy :: "'l library \<Rightarrow> ('l signing_key_list_mem option, 'l signing_key_list_mem pointer, 'l cell) copier" where
  "signing_key_list_deep_copy L = deep_copy signing_key_list_kind (signing_key_list_deep_copy_into L)"

definition user_list_deep_copy_into :: "'l library \<Rightarrow> ('l user_list_mem, 'l user_list_mem, 'l cell) copier" where
  "user_list_deep_copy_into L m h = do {
     (meta, h) \<leftarrow> copy_list_meta L (ulistm_meta m) h;
     (items, h) \<leftarrow> copy_slice user_kind (user_deep_copy_into L) (ulistm_items m) h;
     Some (m\<lparr>ulistm_gvk := ulistm_gvk m, ulistm_meta := meta, ulistm_items := items\<rparr>, h)
   }"

definition user_list_deep_copy :: "'l library \<Rightarrow> ('l user_list_mem option, 'l user_list_mem pointer, 'l cell) copier" where
  "user_list_deep_copy L = deep_copy user_list_kind (user_list_deep_copy_into L)"

section \<open>Runtime objects\<close>

text \<open>The interface \<open>runtime.Object\<close>: a pointer to one of the registered types; nil is None.\<close>

datatype 'l runtime_object =
    AccountObject "'l account_mem pointer"
  | OperatorObject "'l operator_mem pointer"
  | SigningKeyObject "'l signing_key_mem pointer"
  | UserObject "'l user_mem pointer"
  | AccountListObject "'l account_list_mem pointer"
  | OperatorListObject "'l operator_list_mem pointer"
  | SigningKeyListObject "'l signing_key_list_mem pointer"
  | UserListObject "'l user_list_mem pointer"

definition account_deep_copy_object :: "'l library \<Rightarrow> ('l account_mem option, 'l runtime_object option, 'l cell) copier" where
  "account_deep_copy_object L r h = do {
     (c, h) \<leftarrow> account_deep_copy L r h;
     Some (if c \<noteq> Nil_Pointer then Some (AccountObject c) else None, h)
   }"

definition operator_deep_copy_object :: "'l library \<Rightarrow> ('l operator_mem option, 'l runtime_object option, 'l cell) copier" where
  "operator_deep_copy_object L r h = do {
     (c, h) \<leftarrow> operator_deep_copy L r h;
     Some (if c \<noteq> Nil_Pointer then Some (OperatorObject c) else None, h)
   }"

definition signing_key_deep_copy_object :: "'l library \<Rightarrow> ('l signing_key_mem option, 'l runtime_object option, 'l cell) copier" where
  "signing_key_deep_copy_object L r h = do {
     (c, h) \<leftarrow> signing_key_deep_copy L r h;
     Some (if c \<noteq> Nil_Pointer then Some (SigningKeyObject c) else None, h)
   }"

definition user_deep_copy_object :: "'l library \<Rightarrow> ('l user_mem option, 'l runtime_object option, 'l cell) copier" where
  "user_deep_copy_object L r h = do {
     (c, h) \<leftarrow> user_deep_copy L r h;
     Some (if c \<noteq> Nil_Pointer then Some (UserObject c) else None, h)
   }"

definition account_list_deep_copy_object :: "'l library \<Rightarrow> ('l account_list_mem option, 'l runtime_object option, 'l cell) copier" where
  "account_list_deep_copy_object L r h = do {
     (c, h) \<leftarrow> account_list_deep_copy L r h;
     Some (if c \<noteq> Nil_Pointer then Some (AccountListObject c) else None, h)
   }"

definition operator_list_deep_copy_object :: "'l library \<Rightarrow> ('l operator_list_mem option, 'l runtime_object option, 'l cell) copier" where
  "operator_list_deep_copy_object L r h = do {
     (c, h) \<leftarrow> operator_list_deep_copy L r h;
     Some (if c \<noteq> Nil_Pointer then Some (OperatorListObject c) else None, h)
   }"

definition signing_key_list_deep_copy_object :: "'l library \<Rightarrow> ('l signing_key_list_mem option, 'l runtime_object option, 'l cell) copier" where
  "signing_key_list_deep_copy_object L r h = do {
     (c, h) \<leftarrow> signing_key_list_deep_copy L r h;
     Some (if c \<noteq> Nil_Pointer then Some (SigningKeyListObject c) else None, h)
   }"

definition user_list_deep_copy_object :: "'l library \<Rightarrow> ('l user_list_mem option, 'l runtime_object option, 'l cell) copier" where
  "user_list_deep_copy_object L r h = do {
     (c, h) \<leftarrow> user_list_deep_copy L r h;
     Some (if c \<noteq> Nil_Pointer then Some (UserListObject c) else None, h)
   }"

end
