(* ===== verification/Deep_Copy_Laws.thy ===== *)
theory Deep_Copy_Laws
  imports Deep_Copies
begin

text \<open>
  Every generated deep copy keeps the contract of Memory: the laws of each type follow from those
  of its fields, by the rules in \<open>reads_intros\<close> and \<open>clones_intros\<close>, in the order in which the
  generated functions call each other. What Kubernetes' own deep copies do is assumed
  (\<open>deep_copying\<close>).
\<close>

lemma library_reads [reads_intros]:
  assumes "deep_copying L"
  shows "reads (\<lambda>c. view_object_meta L c x)" "reads (\<lambda>c. view_list_meta L c x)"
    "reads (\<lambda>c. view_label_selector L c x)" "reads (\<lambda>c. view_secret_key_selector L c x)"
    "reads (\<lambda>c. view_time L c x)"
  using assms by (simp_all add: deep_copying_def monotone_reads)

lemma library_clones [clones_intros]:
  assumes "deep_copying L"
  shows "clones (copy_object_meta L) (view_object_meta L) (view_object_meta L)"
    "clones (copy_list_meta L) (view_list_meta L) (view_list_meta L)"
    "clones (copy_label_selector L) (view_label_selector L) (view_label_selector L)"
    "clones (copy_secret_key_selector L) (view_secret_key_selector L) (view_secret_key_selector L)"
    "clones (copy_time L) (view_time L) (view_time L)"
  using assms by (simp_all add: deep_copying_def)

section \<open>Structs without pointers\<close>

lemma plain_deep_copies:
  "account_import_deep_copy_into = plain_copy"
  "account_service_latency_deep_copy_into = plain_copy"
  "identity_deep_copy_into = plain_copy"
  "inferred_object_reference_deep_copy_into = plain_copy"
  "issuer_reference_deep_copy_into = plain_copy"
  "jetstream_limits_deep_copy_into = plain_copy"
  "key_pair_deep_copy_into = plain_copy"
  "key_pair_reference_deep_copy_into = plain_copy"
  "operator_ref_deep_copy_into = plain_copy"
  "resp_permission_deep_copy_into = plain_copy"
  "signing_key_embedded_status_deep_copy_into = plain_copy"
  "signing_key_owner_reference_deep_copy_into = plain_copy"
  "signing_key_spec_deep_copy_into = plain_copy"
  "start_end_time_deep_copy_into = plain_copy"
  "typed_object_reference_deep_copy_into = plain_copy"
  by (simp_all add: fun_eq_iff plain_copy_def
    account_import_deep_copy_into_def account_service_latency_deep_copy_into_def
    identity_deep_copy_into_def inferred_object_reference_deep_copy_into_def
    issuer_reference_deep_copy_into_def jetstream_limits_deep_copy_into_def
    key_pair_deep_copy_into_def key_pair_reference_deep_copy_into_def
    operator_ref_deep_copy_into_def resp_permission_deep_copy_into_def
    signing_key_embedded_status_deep_copy_into_def signing_key_owner_reference_deep_copy_into_def
    signing_key_spec_deep_copy_into_def start_end_time_deep_copy_into_def
    typed_object_reference_deep_copy_into_def)

section \<open>Structs with pointers\<close>

lemma view_volatile_time_reads [reads_intros]: "deep_copying L \<Longrightarrow> reads (\<lambda>c. view_volatile_time L c m)"
  unfolding view_volatile_time_def by (intro reads_intros)

lemma volatile_time_clones [clones_intros]:
  "deep_copying L \<Longrightarrow> clones (volatile_time_deep_copy_into L) (view_volatile_time L) (view_volatile_time L)"
  by (rule clonesI, clarsimp simp: view_volatile_time_def bind_eq_Some_conv, unfold volatile_time_deep_copy_into_def)
    ((rule copies_bind | rule copies_return | rule copies_clone | rule clones_intros | intro reads_intros | assumption)+;
      simp add: view_volatile_time_def)

lemma view_condition_reads [reads_intros]: "deep_copying L \<Longrightarrow> reads (\<lambda>c. view_condition L c m)"
  unfolding view_condition_def by (intro reads_intros)

lemma condition_clones [clones_intros]:
  "deep_copying L \<Longrightarrow> clones (condition_deep_copy_into L) (view_condition L) (view_condition L)"
  by (rule clonesI, clarsimp simp: view_condition_def bind_eq_Some_conv, unfold condition_deep_copy_into_def)
    ((rule copies_bind | rule copies_return | rule copies_clone | rule clones_intros | intro reads_intros | assumption)+;
      simp add: view_condition_def)

lemma view_status_reads [reads_intros]: "deep_copying L \<Longrightarrow> reads (\<lambda>c. view_status L c m)"
  unfolding view_status_def by (intro reads_intros)

lemma status_clones [clones_intros]:
  "deep_copying L \<Longrightarrow> clones (status_deep_copy_into L) (view_status L) (view_status L)"
  by (rule clonesI, clarsimp simp: view_status_def bind_eq_Some_conv, unfold status_deep_copy_into_def)
    ((rule copies_bind | rule copies_return | rule copies_clone | rule clones_intros | intro reads_intros | assumption)+;
      simp add: view_status_def)

lemma view_account_export_reads [reads_intros]: "reads (\<lambda>c. view_account_export c m)"
  unfolding view_account_export_def by (intro reads_intros)

lemma account_export_clones [clones_intros]:
  "clones account_export_deep_copy_into view_account_export view_account_export"
  by (rule clonesI, clarsimp simp: view_account_export_def bind_eq_Some_conv, unfold account_export_deep_copy_into_def)
    ((rule copies_bind | rule copies_return | rule copies_clone | rule clones_intros | intro reads_intros | assumption)+;
      simp add: view_account_export_def)

lemma view_nats_limits_reads [reads_intros]: "reads (\<lambda>c. view_nats_limits c m)"
  unfolding view_nats_limits_def by (intro reads_intros)

lemma nats_limits_clones [clones_intros]:
  "clones nats_limits_deep_copy_into view_nats_limits view_nats_limits"
  by (rule clonesI, clarsimp simp: view_nats_limits_def bind_eq_Some_conv, unfold nats_limits_deep_copy_into_def)
    ((rule copies_bind | rule copies_return | rule copies_clone | rule clones_intros | intro reads_intros | assumption)+;
      simp add: view_nats_limits_def)

lemma view_account_limits_reads [reads_intros]: "reads (\<lambda>c. view_account_limits c m)"
  unfolding view_account_limits_def by (intro reads_intros)

lemma account_limits_clones [clones_intros]:
  "clones account_limits_deep_copy_into view_account_limits view_account_limits"
  by (rule clonesI, clarsimp simp: view_account_limits_def bind_eq_Some_conv, unfold account_limits_deep_copy_into_def)
    ((rule copies_bind | rule copies_return | rule copies_clone | rule clones_intros | intro reads_intros | assumption)+;
      simp add: view_account_limits_def)

lemma view_operator_limits_reads [reads_intros]: "reads (\<lambda>c. view_operator_limits c m)"
  unfolding view_operator_limits_def by (intro reads_intros)

lemma operator_limits_clones [clones_intros]:
  "clones operator_limits_deep_copy_into view_operator_limits view_operator_limits"
  by (rule clonesI, clarsimp simp: view_operator_limits_def bind_eq_Some_conv, unfold operator_limits_deep_copy_into_def)
    ((rule copies_bind | rule copies_return | rule copies_clone | rule clones_intros | intro reads_intros | assumption)+;
      simp add: view_operator_limits_def)

lemma view_account_spec_reads [reads_intros]: "deep_copying L \<Longrightarrow> reads (\<lambda>c. view_account_spec L c m)"
  unfolding view_account_spec_def by (intro reads_intros)

lemma account_spec_clones [clones_intros]:
  "deep_copying L \<Longrightarrow> clones (account_spec_deep_copy_into L) (view_account_spec L) (view_account_spec L)"
  by (rule clonesI, clarsimp simp: view_account_spec_def bind_eq_Some_conv, unfold account_spec_deep_copy_into_def)
    ((rule copies_bind | rule copies_return | rule copies_clone | rule clones_intros | intro reads_intros | assumption)+;
      simp add: view_account_spec_def)

lemma view_account_status_reads [reads_intros]: "deep_copying L \<Longrightarrow> reads (\<lambda>c. view_account_status L c m)"
  unfolding view_account_status_def by (intro reads_intros)

lemma account_status_clones [clones_intros]:
  "deep_copying L \<Longrightarrow> clones (account_status_deep_copy_into L) (view_account_status L) (view_account_status L)"
  by (rule clonesI, clarsimp simp: view_account_status_def bind_eq_Some_conv, unfold account_status_deep_copy_into_def)
    ((rule copies_bind | rule copies_return | rule copies_clone | rule clones_intros | intro reads_intros | assumption)+;
      simp add: view_account_status_def)

lemma view_account_reads [reads_intros]: "deep_copying L \<Longrightarrow> reads (\<lambda>c. view_account L c m)"
  unfolding view_account_def by (intro reads_intros)

lemma account_clones [clones_intros]:
  "deep_copying L \<Longrightarrow> clones (account_deep_copy_into L) (view_account L) (view_account L)"
  by (rule clonesI, clarsimp simp: view_account_def bind_eq_Some_conv, unfold account_deep_copy_into_def)
    ((rule copies_bind | rule copies_return | rule copies_clone | rule clones_intros | intro reads_intros | assumption)+;
      simp add: view_account_def)

lemma view_tls_config_reads [reads_intros]: "deep_copying L \<Longrightarrow> reads (\<lambda>c. view_tls_config L c m)"
  unfolding view_tls_config_def by (intro reads_intros)

lemma tls_config_clones [clones_intros]:
  "deep_copying L \<Longrightarrow> clones (tls_config_deep_copy_into L) (view_tls_config L) (view_tls_config L)"
  by (rule clonesI, clarsimp simp: view_tls_config_def bind_eq_Some_conv, unfold tls_config_deep_copy_into_def)
    ((rule copies_bind | rule copies_return | rule copies_clone | rule clones_intros | intro reads_intros | assumption)+;
      simp add: view_tls_config_def)

lemma view_operator_spec_reads [reads_intros]: "deep_copying L \<Longrightarrow> reads (\<lambda>c. view_operator_spec L c m)"
  unfolding view_operator_spec_def by (intro reads_intros)

lemma operator_spec_clones [clones_intros]:
  "deep_copying L \<Longrightarrow> clones (operator_spec_deep_copy_into L) (view_operator_spec L) (view_operator_spec L)"
  by (rule clonesI, clarsimp simp: view_operator_spec_def bind_eq_Some_conv, unfold operator_spec_deep_copy_into_def)
    ((rule copies_bind | rule copies_return | rule copies_clone | rule clones_intros | intro reads_intros | assumption)+;
      simp add: view_operator_spec_def)

lemma view_operator_status_reads [reads_intros]: "deep_copying L \<Longrightarrow> reads (\<lambda>c. view_operator_status L c m)"
  unfolding view_operator_status_def by (intro reads_intros)

lemma operator_status_clones [clones_intros]:
  "deep_copying L \<Longrightarrow> clones (operator_status_deep_copy_into L) (view_operator_status L) (view_operator_status L)"
  by (rule clonesI, clarsimp simp: view_operator_status_def bind_eq_Some_conv, unfold operator_status_deep_copy_into_def)
    ((rule copies_bind | rule copies_return | rule copies_clone | rule clones_intros | intro reads_intros | assumption)+;
      simp add: view_operator_status_def)

lemma view_operator_reads [reads_intros]: "deep_copying L \<Longrightarrow> reads (\<lambda>c. view_operator L c m)"
  unfolding view_operator_def by (intro reads_intros)

lemma operator_clones [clones_intros]:
  "deep_copying L \<Longrightarrow> clones (operator_deep_copy_into L) (view_operator L) (view_operator L)"
  by (rule clonesI, clarsimp simp: view_operator_def bind_eq_Some_conv, unfold operator_deep_copy_into_def)
    ((rule copies_bind | rule copies_return | rule copies_clone | rule clones_intros | intro reads_intros | assumption)+;
      simp add: view_operator_def)

lemma view_signing_key_status_reads [reads_intros]: "deep_copying L \<Longrightarrow> reads (\<lambda>c. view_signing_key_status L c m)"
  unfolding view_signing_key_status_def by (intro reads_intros)

lemma signing_key_status_clones [clones_intros]:
  "deep_copying L \<Longrightarrow> clones (signing_key_status_deep_copy_into L) (view_signing_key_status L) (view_signing_key_status L)"
  by (rule clonesI, clarsimp simp: view_signing_key_status_def bind_eq_Some_conv, unfold signing_key_status_deep_copy_into_def)
    ((rule copies_bind | rule copies_return | rule copies_clone | rule clones_intros | intro reads_intros | assumption)+;
      simp add: view_signing_key_status_def)

lemma view_signing_key_reads [reads_intros]: "deep_copying L \<Longrightarrow> reads (\<lambda>c. view_signing_key L c m)"
  unfolding view_signing_key_def by (intro reads_intros)

lemma signing_key_clones [clones_intros]:
  "deep_copying L \<Longrightarrow> clones (signing_key_deep_copy_into L) (view_signing_key L) (view_signing_key L)"
  by (rule clonesI, clarsimp simp: view_signing_key_def bind_eq_Some_conv, unfold signing_key_deep_copy_into_def)
    ((rule copies_bind | rule copies_return | rule copies_clone | rule clones_intros | intro reads_intros | assumption)+;
      simp add: view_signing_key_def)

lemma view_permission_reads [reads_intros]: "reads (\<lambda>c. view_permission c m)"
  unfolding view_permission_def by (intro reads_intros)

lemma permission_clones [clones_intros]:
  "clones permission_deep_copy_into view_permission view_permission"
  by (rule clonesI, clarsimp simp: view_permission_def bind_eq_Some_conv, unfold permission_deep_copy_into_def)
    ((rule copies_bind | rule copies_return | rule copies_clone | rule clones_intros | intro reads_intros | assumption)+;
      simp add: view_permission_def)

lemma view_user_permissions_reads [reads_intros]: "reads (\<lambda>c. view_user_permissions c m)"
  unfolding view_user_permissions_def by (intro reads_intros)

lemma user_permissions_clones [clones_intros]:
  "clones user_permissions_deep_copy_into view_user_permissions view_user_permissions"
  by (rule clonesI, clarsimp simp: view_user_permissions_def bind_eq_Some_conv, unfold user_permissions_deep_copy_into_def)
    ((rule copies_bind | rule copies_return | rule copies_clone | rule clones_intros | intro reads_intros | assumption)+;
      simp add: view_user_permissions_def)

lemma view_user_limits_reads [reads_intros]: "reads (\<lambda>c. view_user_limits c m)"
  unfolding view_user_limits_def by (intro reads_intros)

lemma user_limits_clones [clones_intros]:
  "clones user_limits_deep_copy_into view_user_limits view_user_limits"
  by (rule clonesI, clarsimp simp: view_user_limits_def bind_eq_Some_conv, unfold user_limits_deep_copy_into_def)
    ((rule copies_bind | rule copies_return | rule copies_clone | rule clones_intros | intro reads_intros | assumption)+;
      simp add: view_user_limits_def)

lemma view_user_spec_reads [reads_intros]: "reads (\<lambda>c. view_user_spec c m)"
  unfolding view_user_spec_def by (intro reads_intros)

lemma user_spec_clones [clones_intros]:
  "clones user_spec_deep_copy_into view_user_spec view_user_spec"
  by (rule clonesI, clarsimp simp: view_user_spec_def bind_eq_Some_conv, unfold user_spec_deep_copy_into_def)
    ((rule copies_bind | rule copies_return | rule copies_clone | rule clones_intros | intro reads_intros | assumption)+;
      simp add: view_user_spec_def)

lemma view_user_status_reads [reads_intros]: "deep_copying L \<Longrightarrow> reads (\<lambda>c. view_user_status L c m)"
  unfolding view_user_status_def by (intro reads_intros)

lemma user_status_clones [clones_intros]:
  "deep_copying L \<Longrightarrow> clones (user_status_deep_copy_into L) (view_user_status L) (view_user_status L)"
  by (rule clonesI, clarsimp simp: view_user_status_def bind_eq_Some_conv, unfold user_status_deep_copy_into_def)
    ((rule copies_bind | rule copies_return | rule copies_clone | rule clones_intros | intro reads_intros | assumption)+;
      simp add: view_user_status_def)

lemma view_user_reads [reads_intros]: "deep_copying L \<Longrightarrow> reads (\<lambda>c. view_user L c m)"
  unfolding view_user_def by (intro reads_intros)

lemma user_clones [clones_intros]:
  "deep_copying L \<Longrightarrow> clones (user_deep_copy_into L) (view_user L) (view_user L)"
  by (rule clonesI, clarsimp simp: view_user_def bind_eq_Some_conv, unfold user_deep_copy_into_def)
    ((rule copies_bind | rule copies_return | rule copies_clone | rule clones_intros | intro reads_intros | assumption)+;
      simp add: view_user_def)

lemma view_account_list_reads [reads_intros]: "deep_copying L \<Longrightarrow> reads (\<lambda>c. view_account_list L c m)"
  unfolding view_account_list_def by (intro reads_intros)

lemma account_list_clones [clones_intros]:
  "deep_copying L \<Longrightarrow> clones (account_list_deep_copy_into L) (view_account_list L) (view_account_list L)"
  by (rule clonesI, clarsimp simp: view_account_list_def bind_eq_Some_conv, unfold account_list_deep_copy_into_def)
    ((rule copies_bind | rule copies_return | rule copies_clone | rule clones_intros | intro reads_intros | assumption)+;
      simp add: view_account_list_def)

lemma view_operator_list_reads [reads_intros]: "deep_copying L \<Longrightarrow> reads (\<lambda>c. view_operator_list L c m)"
  unfolding view_operator_list_def by (intro reads_intros)

lemma operator_list_clones [clones_intros]:
  "deep_copying L \<Longrightarrow> clones (operator_list_deep_copy_into L) (view_operator_list L) (view_operator_list L)"
  by (rule clonesI, clarsimp simp: view_operator_list_def bind_eq_Some_conv, unfold operator_list_deep_copy_into_def)
    ((rule copies_bind | rule copies_return | rule copies_clone | rule clones_intros | intro reads_intros | assumption)+;
      simp add: view_operator_list_def)

lemma view_signing_key_list_reads [reads_intros]: "deep_copying L \<Longrightarrow> reads (\<lambda>c. view_signing_key_list L c m)"
  unfolding view_signing_key_list_def by (intro reads_intros)

lemma signing_key_list_clones [clones_intros]:
  "deep_copying L \<Longrightarrow> clones (signing_key_list_deep_copy_into L) (view_signing_key_list L) (view_signing_key_list L)"
  by (rule clonesI, clarsimp simp: view_signing_key_list_def bind_eq_Some_conv, unfold signing_key_list_deep_copy_into_def)
    ((rule copies_bind | rule copies_return | rule copies_clone | rule clones_intros | intro reads_intros | assumption)+;
      simp add: view_signing_key_list_def)

lemma view_user_list_reads [reads_intros]: "deep_copying L \<Longrightarrow> reads (\<lambda>c. view_user_list L c m)"
  unfolding view_user_list_def by (intro reads_intros)

lemma user_list_clones [clones_intros]:
  "deep_copying L \<Longrightarrow> clones (user_list_deep_copy_into L) (view_user_list L) (view_user_list L)"
  by (rule clonesI, clarsimp simp: view_user_list_def bind_eq_Some_conv, unfold user_list_deep_copy_into_def)
    ((rule copies_bind | rule copies_return | rule copies_clone | rule clones_intros | intro reads_intros | assumption)+;
      simp add: view_user_list_def)

end
