(* ===== verification/Deep_Copy_Properties.thy ===== *)
theory Deep_Copy_Properties
  imports Deep_Copy_Laws
begin

text \<open>
  What the deep copies of the four resources promise their callers, with a concrete library and a
  concrete memory as witness, and the snapshot of the status that every \<open>Reconcile\<close> takes
  (\<open>originalStatus := acc.Status.DeepCopy()\<close>): the other theories treat it as a value, which is what
  \<open>status_snapshots\<close> justifies.
\<close>

section \<open>Conditions\<close>

lemma view_conditions_reads: "deep_copying L \<Longrightarrow> reads (\<lambda>c. view_conditions L c s)"
  unfolding view_conditions_def by (intro reads_intros)

lemma conditions_into_clones:
  assumes L: "deep_copying L"
  shows "clones (conditions_deep_copy_into L) (view_conditions L) (view_conditions L)"
proof (rule clonesI, rule copiesI)
  fix c0 n s vs h
  assume v: "view_conditions L c0 s = Some vs" and h: "c0 \<subseteq>\<^sub>m blocks h" "n \<le> length h"
  then obtain xs where xs: "load_slice condition_kind c0 s = Some xs"
      "list_all2 (\<lambda>x v. view_condition L c0 x = Some v) xs vs"
    by (auto simp: view_conditions_def condition_kind.view_slice_Some)
  obtain ys h' where *: "copy_elements condition_kind (condition_deep_copy_into L) (length h) 0 xs
        (h @ [pack condition_kind xs]) = Some h'" "prefix h h'"
      "\<forall>g. prefix h' g \<longrightarrow> since n g (length h) = Some (pack condition_kind ys)
          \<and> list_all2 (\<lambda>y v. view_condition L (since n g) y = Some v) ys vs"
    using condition_kind.array_copies [OF condition_clones [OF L] monotone_readsI [OF view_condition_reads [OF L]] xs(2) h]
    by blast
  have "view_conditions L (since n g) (Slice (length h) 0 (length xs)) = Some vs" if "prefix h' g" for g
  proof -
    have "length ys = length xs" using *(3) that list_all2_lengthD [OF xs(2)] by (metis list_all2_lengthD)
    then show ?thesis using *(3) that by (auto simp: view_conditions_def condition_kind.view_slice_Some)
  qed
  then show "\<exists>t h'. conditions_deep_copy_into L s h = Some (t, h') \<and> prefix h h'
      \<and> (\<forall>g. prefix h' g \<longrightarrow> view_conditions L (since n g) t = Some vs)"
    using * condition_kind.load_slice_mono [OF xs(1) h(1)]
    by (auto simp: conditions_deep_copy_into_def Let_def simp del: load_slice.simps)
qed

lemma conditions_clones:
  assumes L: "deep_copying L"
  shows "clones (conditions_deep_copy L) (view_conditions L) (view_conditions L)"
proof (rule clonesI, rule copiesI)
  fix c0 n s vs h
  assume v: "view_conditions L c0 s = Some vs" and h: "c0 \<subseteq>\<^sub>m blocks h" "n \<le> length h"
  show "\<exists>t h'. conditions_deep_copy L s h = Some (t, h') \<and> prefix h h'
      \<and> (\<forall>g. prefix h' g \<longrightarrow> view_conditions L (since n g) t = Some vs)"
  proof (cases "s = Nil_Slice")
    case True
    with v show ?thesis by (auto simp: conditions_deep_copy_def view_conditions_def view_slice_def)
  next
    case False
    obtain out h' where *: "new_copy conditions_kind (conditions_deep_copy_into L) s h = Some (out, h')"
        "prefix h h'" "\<And>g. prefix h' g \<Longrightarrow>
            view_pointer conditions_kind (view_conditions L) (since n g) out = Some (Some vs)"
      using copiesE [OF conditions_kind.new_copy_copies [OF conditions_into_clones [OF L]
            monotone_readsI [OF view_conditions_reads [OF L]] v] h] by blast
    obtain t where t: "load conditions_kind (since n h') out = Some t" 
      using *(3) [OF prefix_order.refl]
      by (auto simp: view_pointer_def bind_eq_Some_conv simp del: load.simps split: pointer.splits)
    have load: "load conditions_kind (since n g) out = Some t" if "prefix h' g" for g
      by (rule conditions_kind.load_mono [OF t prefix_since [OF that]])
    have "blocks h' = since 0 h'" by (simp add: since_def fun_eq_iff)
    then have "load conditions_kind (blocks h') out = Some t"
      using conditions_kind.load_mono [OF t since_le [of 0 n h']] by simp
    moreover have "view_conditions L (since n g) t = Some vs" if "prefix h' g" for g
      using *(3) [OF that] load [OF that]
      by (auto simp: view_pointer_def bind_eq_Some_conv simp del: load.simps split: pointer.splits)
    ultimately show ?thesis
      using False *(1,2) by (auto simp: conditions_deep_copy_def simp del: load.simps)
  qed
qed

section \<open>The four resources\<close>

lemmas views_monotone = monotone_readsI [OF view_account_reads] monotone_readsI [OF view_operator_reads]
  monotone_readsI [OF view_signing_key_reads] monotone_readsI [OF view_user_reads]

text \<open>\<open>DeepCopy\<close> of a struct that can be read, as the laws give it.\<close>

context cell_kind begin

lemma deep_copy_independent:
  assumes "clones into v v" and "monotone_view v" and "v (blocks h) x = Some w"
  shows "\<exists>q h'. deep_copy k into (Some x) h = Some (q, h') \<and> q \<noteq> Nil_Pointer \<and> prefix h h'
      \<and> independent (length h) h' (view_pointer k v) q (view_receiver v) (Some x) (Some w)"
proof -
  have "view_receiver v (blocks h) (Some x) = Some (Some w)" using assms(3) by (simp add: view_receiver_def)
  from clones_independent [where view = "view_receiver v",
      OF deep_copy_clones [OF assms(1,2)] receiver_monotone [OF assms(2)] view_pointer_mono [OF assms(2)] this]
  show ?thesis by (auto simp: independent_def view_pointer_def split: pointer.splits)
qed

lemma deep_copy_reads:
  assumes "clones into v v" and "monotone_view v" and "v (blocks h) x = Some w"
  shows "\<exists>q h'. deep_copy k into (Some x) h = Some (q, h') \<and> q \<noteq> Nil_Pointer
      \<and> view_pointer k v (blocks h') q = Some (Some w)"
  using deep_copy_independent [OF assms] by (auto simp: independent_def)

end

text \<open>C18: \<open>DeepCopy\<close> of an Account, an Operator, a SigningKey or a User that memory holds allocates a
  copy that means the same and is independent of the original: whatever is written later to the
  blocks the original was made of, the copy still means what the original meant then, and no
  write to the blocks of the copy changes the original. So no pointer, slice or map is shared,
  at any depth. Existing blocks are not written.\<close>

theorem resources_deep_copied:
  assumes "deep_copying L"
  shows
    "(\<forall>a va. view_account L (blocks h) a = Some va \<longrightarrow>
      (\<exists>q h'. account_deep_copy L (Some a) h = Some (q, h') \<and> prefix h h' \<and>
         independent (length h) h' (view_pointer account_kind (view_account L)) q
             (view_receiver (view_account L)) (Some a) (Some va))) \<and>
     (\<forall>ob vo. view_operator L (blocks h) ob = Some vo \<longrightarrow>
      (\<exists>q h'. operator_deep_copy L (Some ob) h = Some (q, h') \<and> prefix h h' \<and>
         independent (length h) h' (view_pointer operator_kind (view_operator L)) q
             (view_receiver (view_operator L)) (Some ob) (Some vo))) \<and>
     (\<forall>s vs. view_signing_key L (blocks h) s = Some vs \<longrightarrow>
      (\<exists>q h'. signing_key_deep_copy L (Some s) h = Some (q, h') \<and> prefix h h' \<and>
         independent (length h) h' (view_pointer signing_key_kind (view_signing_key L)) q
             (view_receiver (view_signing_key L)) (Some s) (Some vs))) \<and>
     (\<forall>u vu. view_user L (blocks h) u = Some vu \<longrightarrow>
      (\<exists>q h'. user_deep_copy L (Some u) h = Some (q, h') \<and> prefix h h' \<and>
         independent (length h) h' (view_pointer user_kind (view_user L)) q
             (view_receiver (view_user L)) (Some u) (Some vu)))"
  unfolding account_deep_copy_def operator_deep_copy_def signing_key_deep_copy_def user_deep_copy_def
  using account_kind.deep_copy_independent [OF account_clones [OF assms] monotone_readsI [OF view_account_reads [OF assms]]]
    operator_kind.deep_copy_independent [OF operator_clones [OF assms] monotone_readsI [OF view_operator_reads [OF assms]]]
    signing_key_kind.deep_copy_independent [OF signing_key_clones [OF assms] monotone_readsI [OF view_signing_key_reads [OF assms]]]
    user_kind.deep_copy_independent [OF user_clones [OF assms] monotone_readsI [OF view_user_reads [OF assms]]]
  by blast

section \<open>The snapshot of the status\<close>

lemma view_account_status_part:
  "view_account L c m = Some v \<Longrightarrow> view_account_status L c (am_status m) = Some (acc_status v)"
  by (auto simp: view_account_def bind_eq_Some_conv)

lemma view_operator_status_part:
  "view_operator L c m = Some v \<Longrightarrow> view_operator_status L c (om_status m) = Some (op_status v)"
  by (auto simp: view_operator_def bind_eq_Some_conv)

lemma view_signing_key_status_part:
  "view_signing_key L c m = Some v \<Longrightarrow> view_signing_key_status L c (skm_status m) = Some (sk_status v)"
  by (auto simp: view_signing_key_def bind_eq_Some_conv)

lemma view_user_status_part:
  "view_user L c m = Some v \<Longrightarrow> view_user_status L c (um_status m) = Some (usr_status v)"
  by (auto simp: view_user_def bind_eq_Some_conv)

lemma snapshot_account:
  assumes "deep_copying L" and "view_account_status L (blocks h) m = Some v"
  shows "\<exists>original h'. account_status_deep_copy L (Some m) h = Some (original, h') \<and> prefix h h' \<and>
      (\<forall>g. (\<forall>b. length h \<le> b \<and> b < length h' \<longrightarrow> g b = blocks h' b) \<longrightarrow>
         view_pointer account_status_kind (view_account_status L) g original = Some (Some v))"
  using account_status_kind.deep_copy_independent [OF account_status_clones [OF assms(1)]
      monotone_readsI [OF view_account_status_reads [OF assms(1)]] assms(2)]
  unfolding account_status_deep_copy_def independent_def by blast

lemma snapshot_operator:
  assumes "deep_copying L" and "view_operator_status L (blocks h) m = Some v"
  shows "\<exists>original h'. operator_status_deep_copy L (Some m) h = Some (original, h') \<and> prefix h h' \<and>
      (\<forall>g. (\<forall>b. length h \<le> b \<and> b < length h' \<longrightarrow> g b = blocks h' b) \<longrightarrow>
         view_pointer operator_status_kind (view_operator_status L) g original = Some (Some v))"
  using operator_status_kind.deep_copy_independent [OF operator_status_clones [OF assms(1)]
      monotone_readsI [OF view_operator_status_reads [OF assms(1)]] assms(2)]
  unfolding operator_status_deep_copy_def independent_def by blast

lemma snapshot_signing_key:
  assumes "deep_copying L" and "view_signing_key_status L (blocks h) m = Some v"
  shows "\<exists>original h'. signing_key_status_deep_copy L (Some m) h = Some (original, h') \<and> prefix h h' \<and>
      (\<forall>g. (\<forall>b. length h \<le> b \<and> b < length h' \<longrightarrow> g b = blocks h' b) \<longrightarrow>
         view_pointer signing_key_status_kind (view_signing_key_status L) g original = Some (Some v))"
  using signing_key_status_kind.deep_copy_independent [OF signing_key_status_clones [OF assms(1)]
      monotone_readsI [OF view_signing_key_status_reads [OF assms(1)]] assms(2)]
  unfolding signing_key_status_deep_copy_def independent_def by blast

lemma snapshot_user:
  assumes "deep_copying L" and "view_user_status L (blocks h) m = Some v"
  shows "\<exists>original h'. user_status_deep_copy L (Some m) h = Some (original, h') \<and> prefix h h' \<and>
      (\<forall>g. (\<forall>b. length h \<le> b \<and> b < length h' \<longrightarrow> g b = blocks h' b) \<longrightarrow>
         view_pointer user_status_kind (view_user_status L) g original = Some (Some v))"
  using user_status_kind.deep_copy_independent [OF user_status_clones [OF assms(1)]
      monotone_readsI [OF view_user_status_reads [OF assms(1)]] assms(2)]
  unfolding user_status_deep_copy_def independent_def by blast

text \<open>C19: The \<open>originalStatus\<close> that \<open>Reconcile\<close> takes with \<open>Status.DeepCopy()\<close> before it works on a
  resource stays the status as it was read: in every later memory in which the snapshot's own
  blocks are untouched, whatever became of the resource and its status, the snapshot reads as the
  status the resource had. For all four resources.\<close>

theorem status_snapshots:
  assumes "deep_copying L"
  shows
    "(\<forall>a va. view_account L (blocks h) a = Some va \<longrightarrow>
      (\<exists>original h'. account_status_deep_copy L (Some (am_status a)) h = Some (original, h') \<and> prefix h h' \<and>
         (\<forall>g. (\<forall>b. length h \<le> b \<and> b < length h' \<longrightarrow> g b = blocks h' b) \<longrightarrow>
            view_pointer account_status_kind (view_account_status L) g original = Some (Some (acc_status va))))) \<and>
     (\<forall>ob vo. view_operator L (blocks h) ob = Some vo \<longrightarrow>
      (\<exists>original h'. operator_status_deep_copy L (Some (om_status ob)) h = Some (original, h') \<and> prefix h h' \<and>
         (\<forall>g. (\<forall>b. length h \<le> b \<and> b < length h' \<longrightarrow> g b = blocks h' b) \<longrightarrow>
            view_pointer operator_status_kind (view_operator_status L) g original = Some (Some (op_status vo))))) \<and>
     (\<forall>s vs. view_signing_key L (blocks h) s = Some vs \<longrightarrow>
      (\<exists>original h'. signing_key_status_deep_copy L (Some (skm_status s)) h = Some (original, h') \<and> prefix h h' \<and>
         (\<forall>g. (\<forall>b. length h \<le> b \<and> b < length h' \<longrightarrow> g b = blocks h' b) \<longrightarrow>
            view_pointer signing_key_status_kind (view_signing_key_status L) g original = Some (Some (sk_status vs))))) \<and>
     (\<forall>u vu. view_user L (blocks h) u = Some vu \<longrightarrow>
      (\<exists>original h'. user_status_deep_copy L (Some (um_status u)) h = Some (original, h') \<and> prefix h h' \<and>
         (\<forall>g. (\<forall>b. length h \<le> b \<and> b < length h' \<longrightarrow> g b = blocks h' b) \<longrightarrow>
            view_pointer user_status_kind (view_user_status L) g original = Some (Some (usr_status vu)))))"
proof (intro conjI allI impI)
  fix a va assume "view_account L (blocks h) a = Some va"
  from snapshot_account [OF assms view_account_status_part [OF this]]
  show "\<exists>original h'. account_status_deep_copy L (Some (am_status a)) h = Some (original, h') \<and> prefix h h' \<and>
         (\<forall>g. (\<forall>b. length h \<le> b \<and> b < length h' \<longrightarrow> g b = blocks h' b) \<longrightarrow>
            view_pointer account_status_kind (view_account_status L) g original = Some (Some (acc_status va)))"
    .
next
  fix ob vo assume "view_operator L (blocks h) ob = Some vo"
  from snapshot_operator [OF assms view_operator_status_part [OF this]]
  show "\<exists>original h'. operator_status_deep_copy L (Some (om_status ob)) h = Some (original, h') \<and> prefix h h' \<and>
         (\<forall>g. (\<forall>b. length h \<le> b \<and> b < length h' \<longrightarrow> g b = blocks h' b) \<longrightarrow>
            view_pointer operator_status_kind (view_operator_status L) g original = Some (Some (op_status vo)))"
    .
next
  fix s vs assume "view_signing_key L (blocks h) s = Some vs"
  from snapshot_signing_key [OF assms view_signing_key_status_part [OF this]]
  show "\<exists>original h'. signing_key_status_deep_copy L (Some (skm_status s)) h = Some (original, h') \<and> prefix h h' \<and>
         (\<forall>g. (\<forall>b. length h \<le> b \<and> b < length h' \<longrightarrow> g b = blocks h' b) \<longrightarrow>
            view_pointer signing_key_status_kind (view_signing_key_status L) g original = Some (Some (sk_status vs)))"
    .
next
  fix u vu assume "view_user L (blocks h) u = Some vu"
  from snapshot_user [OF assms view_user_status_part [OF this]]
  show "\<exists>original h'. user_status_deep_copy L (Some (um_status u)) h = Some (original, h') \<and> prefix h h' \<and>
         (\<forall>g. (\<forall>b. length h \<le> b \<and> b < length h' \<longrightarrow> g b = blocks h' b) \<longrightarrow>
            view_pointer user_status_kind (view_user_status L) g original = Some (Some (usr_status vu)))"
    .
qed

section \<open>Runtime objects\<close>

lemma account_object:
  assumes "deep_copying L" and "view_account L (blocks h) a = Some v"
  shows "\<exists>q h'. account_deep_copy_object L (Some a) h = Some (Some (AccountObject q), h')
      \<and> view_pointer account_kind (view_account L) (blocks h') q = Some (Some v)"
  using account_kind.deep_copy_reads [OF account_clones [OF assms(1)]
      monotone_readsI [OF view_account_reads [OF assms(1)]] assms(2)]
  by (auto simp: account_deep_copy_object_def account_deep_copy_def)

lemma operator_object:
  assumes "deep_copying L" and "view_operator L (blocks h) ob = Some v"
  shows "\<exists>q h'. operator_deep_copy_object L (Some ob) h = Some (Some (OperatorObject q), h')
      \<and> view_pointer operator_kind (view_operator L) (blocks h') q = Some (Some v)"
  using operator_kind.deep_copy_reads [OF operator_clones [OF assms(1)]
      monotone_readsI [OF view_operator_reads [OF assms(1)]] assms(2)]
  by (auto simp: operator_deep_copy_object_def operator_deep_copy_def)

lemma signing_key_object:
  assumes "deep_copying L" and "view_signing_key L (blocks h) s = Some v"
  shows "\<exists>q h'. signing_key_deep_copy_object L (Some s) h = Some (Some (SigningKeyObject q), h')
      \<and> view_pointer signing_key_kind (view_signing_key L) (blocks h') q = Some (Some v)"
  using signing_key_kind.deep_copy_reads [OF signing_key_clones [OF assms(1)]
      monotone_readsI [OF view_signing_key_reads [OF assms(1)]] assms(2)]
  by (auto simp: signing_key_deep_copy_object_def signing_key_deep_copy_def)

lemma user_object:
  assumes "deep_copying L" and "view_user L (blocks h) u = Some v"
  shows "\<exists>q h'. user_deep_copy_object L (Some u) h = Some (Some (UserObject q), h')
      \<and> view_pointer user_kind (view_user L) (blocks h') q = Some (Some v)"
  using user_kind.deep_copy_reads [OF user_clones [OF assms(1)]
      monotone_readsI [OF view_user_reads [OF assms(1)]] assms(2)]
  by (auto simp: user_deep_copy_object_def user_deep_copy_def)

lemma account_list_object:
  assumes "deep_copying L" and "view_account_list L (blocks h) al = Some v"
  shows "\<exists>q h'. account_list_deep_copy_object L (Some al) h = Some (Some (AccountListObject q), h')
      \<and> view_pointer account_list_kind (view_account_list L) (blocks h') q = Some (Some v)"
  using account_list_kind.deep_copy_reads [OF account_list_clones [OF assms(1)]
      monotone_readsI [OF view_account_list_reads [OF assms(1)]] assms(2)]
  by (auto simp: account_list_deep_copy_object_def account_list_deep_copy_def)

lemma operator_list_object:
  assumes "deep_copying L" and "view_operator_list L (blocks h) ol = Some v"
  shows "\<exists>q h'. operator_list_deep_copy_object L (Some ol) h = Some (Some (OperatorListObject q), h')
      \<and> view_pointer operator_list_kind (view_operator_list L) (blocks h') q = Some (Some v)"
  using operator_list_kind.deep_copy_reads [OF operator_list_clones [OF assms(1)]
      monotone_readsI [OF view_operator_list_reads [OF assms(1)]] assms(2)]
  by (auto simp: operator_list_deep_copy_object_def operator_list_deep_copy_def)

lemma signing_key_list_object:
  assumes "deep_copying L" and "view_signing_key_list L (blocks h) sl = Some v"
  shows "\<exists>q h'. signing_key_list_deep_copy_object L (Some sl) h = Some (Some (SigningKeyListObject q), h')
      \<and> view_pointer signing_key_list_kind (view_signing_key_list L) (blocks h') q = Some (Some v)"
  using signing_key_list_kind.deep_copy_reads [OF signing_key_list_clones [OF assms(1)]
      monotone_readsI [OF view_signing_key_list_reads [OF assms(1)]] assms(2)]
  by (auto simp: signing_key_list_deep_copy_object_def signing_key_list_deep_copy_def)

lemma user_list_object:
  assumes "deep_copying L" and "view_user_list L (blocks h) ul = Some v"
  shows "\<exists>q h'. user_list_deep_copy_object L (Some ul) h = Some (Some (UserListObject q), h')
      \<and> view_pointer user_list_kind (view_user_list L) (blocks h') q = Some (Some v)"
  using user_list_kind.deep_copy_reads [OF user_list_clones [OF assms(1)]
      monotone_readsI [OF view_user_list_reads [OF assms(1)]] assms(2)]
  by (auto simp: user_list_deep_copy_object_def user_list_deep_copy_def)

lemma nil_objects:
  "account_deep_copy_object L None h = Some (None, h)"
  "operator_deep_copy_object L None h = Some (None, h)"
  "signing_key_deep_copy_object L None h = Some (None, h)"
  "user_deep_copy_object L None h = Some (None, h)"
  "account_list_deep_copy_object L None h = Some (None, h)"
  "operator_list_deep_copy_object L None h = Some (None, h)"
  "signing_key_list_deep_copy_object L None h = Some (None, h)"
  "user_list_deep_copy_object L None h = Some (None, h)"
  by (simp_all add: deep_copy_def
    account_deep_copy_object_def account_deep_copy_def
    operator_deep_copy_object_def operator_deep_copy_def
    signing_key_deep_copy_object_def signing_key_deep_copy_def
    user_deep_copy_object_def user_deep_copy_def
    account_list_deep_copy_object_def account_list_deep_copy_def
    operator_list_deep_copy_object_def operator_list_deep_copy_def
    signing_key_list_deep_copy_object_def signing_key_list_deep_copy_def
    user_list_deep_copy_object_def user_list_deep_copy_def)

text \<open>C31: \<open>DeepCopyObject\<close> of each of the eight registered types runs on every object memory holds and
  returns a \<open>runtime.Object\<close> of the same dynamic type that points to an equal object; of a nil receiver
  it returns the nil interface, never an interface that holds a nil pointer.\<close>

theorem deep_copy_objects_typed:
  assumes "deep_copying L"
  shows
    "(\<forall>a v. view_account L (blocks h) a = Some v \<longrightarrow>
      (\<exists>q h'. account_deep_copy_object L (Some a) h = Some (Some (AccountObject q), h') \<and>
         view_pointer account_kind (view_account L) (blocks h') q = Some (Some v))) \<and>
     account_deep_copy_object L None h = Some (None, h) \<and>
     (\<forall>ob v. view_operator L (blocks h) ob = Some v \<longrightarrow>
      (\<exists>q h'. operator_deep_copy_object L (Some ob) h = Some (Some (OperatorObject q), h') \<and>
         view_pointer operator_kind (view_operator L) (blocks h') q = Some (Some v))) \<and>
     operator_deep_copy_object L None h = Some (None, h) \<and>
     (\<forall>s v. view_signing_key L (blocks h) s = Some v \<longrightarrow>
      (\<exists>q h'. signing_key_deep_copy_object L (Some s) h = Some (Some (SigningKeyObject q), h') \<and>
         view_pointer signing_key_kind (view_signing_key L) (blocks h') q = Some (Some v))) \<and>
     signing_key_deep_copy_object L None h = Some (None, h) \<and>
     (\<forall>u v. view_user L (blocks h) u = Some v \<longrightarrow>
      (\<exists>q h'. user_deep_copy_object L (Some u) h = Some (Some (UserObject q), h') \<and>
         view_pointer user_kind (view_user L) (blocks h') q = Some (Some v))) \<and>
     user_deep_copy_object L None h = Some (None, h) \<and>
     (\<forall>al v. view_account_list L (blocks h) al = Some v \<longrightarrow>
      (\<exists>q h'. account_list_deep_copy_object L (Some al) h = Some (Some (AccountListObject q), h') \<and>
         view_pointer account_list_kind (view_account_list L) (blocks h') q = Some (Some v))) \<and>
     account_list_deep_copy_object L None h = Some (None, h) \<and>
     (\<forall>ol v. view_operator_list L (blocks h) ol = Some v \<longrightarrow>
      (\<exists>q h'. operator_list_deep_copy_object L (Some ol) h = Some (Some (OperatorListObject q), h') \<and>
         view_pointer operator_list_kind (view_operator_list L) (blocks h') q = Some (Some v))) \<and>
     operator_list_deep_copy_object L None h = Some (None, h) \<and>
     (\<forall>sl v. view_signing_key_list L (blocks h) sl = Some v \<longrightarrow>
      (\<exists>q h'. signing_key_list_deep_copy_object L (Some sl) h = Some (Some (SigningKeyListObject q), h') \<and>
         view_pointer signing_key_list_kind (view_signing_key_list L) (blocks h') q = Some (Some v))) \<and>
     signing_key_list_deep_copy_object L None h = Some (None, h) \<and>
     (\<forall>ul v. view_user_list L (blocks h) ul = Some v \<longrightarrow>
      (\<exists>q h'. user_list_deep_copy_object L (Some ul) h = Some (Some (UserListObject q), h') \<and>
         view_pointer user_list_kind (view_user_list L) (blocks h') q = Some (Some v))) \<and>
     user_list_deep_copy_object L None h = Some (None, h)"
  by (intro conjI allI impI)
    (simp_all add: nil_objects account_object [OF assms] operator_object [OF assms] signing_key_object [OF assms] user_object [OF assms] account_list_object [OF assms] operator_list_object [OF assms] signing_key_list_object [OF assms] user_list_object [OF assms])

section \<open>A library and a memory\<close>

text \<open>
  A library that keeps its contract, with an \<open>ObjectMeta\<close> that refers to a block of its own, and a
  memory with an Account in it: its metadata in block 0, its key pair in block 1, its conditions in
  block 2 and its export with a pointer of its own in blocks 3 and 4.
\<close>

datatype library_value =
    Meta_At addr
  | Meta object_meta
  | List_Meta list_meta
  | Label_Selector label_selector
  | Key_Selector secret_key_selector
  | Time int

fun read_meta :: "(library_value, object_meta, library_value cell) view" where
  "read_meta c (Meta m) = Some m"
| "read_meta c _ = None"

fun sample_view_meta :: "(library_value, object_meta, library_value cell) view" where
  "sample_view_meta c (Meta_At a) = do { x \<leftarrow> load library_kind c (Ptr a 0); read_meta c x }"
| "sample_view_meta c _ = None"

fun sample_copy_meta :: "(library_value, library_value, library_value cell) copier" where
  "sample_copy_meta (Meta_At a) h = do {
     x \<leftarrow> load library_kind (blocks h) (Ptr a 0);
     Some (Meta_At (length h), h @ [pack library_kind [x]])
   }"
| "sample_copy_meta _ h = None"

definition sample_library :: "library_value library" where
  "sample_library =
     \<lparr>copy_object_meta = sample_copy_meta, view_object_meta = sample_view_meta,
      copy_list_meta = plain_copy, view_list_meta = \<lambda>c x. case x of List_Meta m \<Rightarrow> Some m | _ \<Rightarrow> None,
      copy_label_selector = plain_copy,
      view_label_selector = \<lambda>c x. case x of Label_Selector s \<Rightarrow> Some s | _ \<Rightarrow> None,
      copy_secret_key_selector = plain_copy,
      view_secret_key_selector = \<lambda>c x. case x of Key_Selector s \<Rightarrow> Some s | _ \<Rightarrow> None,
      copy_time = plain_copy, view_time = \<lambda>c x. case x of Time t \<Rightarrow> Some t | _ \<Rightarrow> None\<rparr>"

lemma plain_copy_clones: "(\<And>c c'. v c = v c') \<Longrightarrow> clones plain_copy v v"
  unfolding clones_def copies_def plain_copy_def by (metis prefix_order.refl option.inject)

lemma monotone_const: "(\<And>c c'. v c = v c') \<Longrightarrow> monotone_view v"
  unfolding monotone_view_def by metis

lemma read_meta_const: "read_meta c x = read_meta c' x"
  by (cases x) auto

lemma sample_meta_monotone: "monotone_view sample_view_meta"
proof (rule monotoneI)
  fix c c' :: "library_value cell store" and x v
  assume *: "sample_view_meta c x = Some v" "c \<subseteq>\<^sub>m c'"
  then show "sample_view_meta c' x = Some v"
    by (cases x) (auto simp: bind_eq_Some_conv read_meta_const [of c' _ c] simp del: load.simps
        intro: library_kind.load_mono)
qed

lemma sample_meta_clones: "clones sample_copy_meta sample_view_meta sample_view_meta"
proof (rule clonesI, rule copiesI)
  fix c0 n x v h
  assume v: "sample_view_meta c0 x = Some v" and h: "c0 \<subseteq>\<^sub>m blocks h" "n \<le> length h"
  then obtain a y where a: "x = Meta_At a" "load library_kind c0 (Ptr a 0) = Some y" "read_meta c0 y = Some v"
    by (cases x) (auto simp: bind_eq_Some_conv simp del: load.simps)
  have m: "read_meta c y = Some v" for c using a(3) read_meta_const [of c y c0] by simp
  have "sample_view_meta (since n g) (Meta_At (length h)) = Some v"
    if "prefix (h @ [pack library_kind [y]]) g" for g
    using that h(2) by (auto simp: since_def blocks_def nth_append m elim!: prefixE)
  then show "\<exists>z h'. sample_copy_meta x h = Some (z, h') \<and> prefix h h'
      \<and> (\<forall>g. prefix h' g \<longrightarrow> sample_view_meta (since n g) z = Some v)"
    using a(1) library_kind.load_mono [OF a(2) h(1)] by (auto simp del: load.simps)
qed

lemma sample_deep_copying: "deep_copying sample_library"
  by (simp add: deep_copying_def sample_library_def sample_meta_monotone sample_meta_clones
      plain_copy_clones monotone_const)

definition sample_memory :: "library_value cell mem" where
  "sample_memory =
     [CommonCell (LibraryBlock [Meta (empty_meta\<lparr>m_name := ''acc''\<rparr>)]),
      ValueCell (KeyPairBlock [\<lparr>public_key = ''A1'', seed_secret_name = ''seed''\<rparr>]),
      CommonCell (ConditionBlock
        [\<lparr>cm_type = ConditionReady, cm_status = ConditionTrue, cm_severity = ConditionSeverityError,
          cm_last_transition_time = \<lparr>vtm_inner = Time 7\<rparr>, cm_reason = [], cm_message = []\<rparr>]),
      AccountCell (AccountExportBlock
        [\<lparr>em_name = ''e'', em_subject = ''s'', em_type = ImportExportTypeService, em_token_req = False,
          em_response_type = ResponseTypeSingleton, em_service_latency = Ptr 4 0,
          em_account_token_position = 0\<rparr>]),
      ValueCell (AccountServiceLatencyBlock [\<lparr>asl_sampling = 10, asl_results = ''r''\<rparr>])]"

definition account_in_memory :: "library_value account_mem" where
  "account_in_memory =
     \<lparr>am_gvk = group_version_with_kind ''Account'', am_meta = Meta_At 0,
      am_spec =
        \<lparr>asm_issuer = \<lparr>issuer_ref = \<lparr>tor_api_version = [], tor_kind = ''Operator'', tor_name = ''op'',
           tor_namespace = [], tor_uid = []\<rparr>\<rparr>,
         asm_users_namespace_selector = Nil_Pointer, asm_users_selector = Nil_Pointer,
         asm_jwt_secret_name = ''jwt'', asm_seed_secret_name = ''seed'',
         asm_signing_keys_selector = Nil_Pointer, asm_imports = Nil_Slice, asm_exports = Slice 3 0 1,
         asm_limits = Nil_Pointer\<rparr>,
      am_status = \<lparr>accm_status = \<lparr>sm_conditions = Slice 2 0 1\<rparr>, accm_key_pair = Ptr 1 0,
        accm_signing_keys = Nil_Slice, accm_operator_ref = Nil_Pointer\<rparr>\<rparr>"

definition account_as_value :: account where
  "account_as_value =
     \<lparr>acc_gvk = group_version_with_kind ''Account'', acc_meta = empty_meta\<lparr>m_name := ''acc''\<rparr>,
      acc_spec =
        \<lparr>acc_issuer = \<lparr>issuer_ref = \<lparr>tor_api_version = [], tor_kind = ''Operator'', tor_name = ''op'',
           tor_namespace = [], tor_uid = []\<rparr>\<rparr>,
         users_namespace_selector = None, users_selector = None,
         acc_jwt_secret_name = ''jwt'', acc_seed_secret_name = ''seed'',
         acc_signing_keys_selector = None, acc_imports = [],
         acc_exports = [\<lparr>exp_name = ''e'', exp_subject = ''s'', exp_type = ImportExportTypeService,
           exp_token_req = False, exp_response_type = ResponseTypeSingleton,
           exp_service_latency = Some \<lparr>asl_sampling = 10, asl_results = ''r''\<rparr>,
           exp_account_token_position = 0\<rparr>],
         acc_limits = None\<rparr>,
      acc_status =
        \<lparr>accs_status = \<lparr>st_conditions = [\<lparr>cond_type = ConditionReady, cond_status = ConditionTrue,
           cond_severity = ConditionSeverityError, last_transition_time = 7, cond_reason = [], cond_message = []\<rparr>]\<rparr>,
         accs_key_pair = Some \<lparr>public_key = ''A1'', seed_secret_name = ''seed''\<rparr>,
         accs_signing_keys = [], accs_operator_ref = None\<rparr>\<rparr>"

lemma account_in_memory_read:
  "view_account sample_library (blocks sample_memory) account_in_memory = Some account_as_value"
  by (simp add: sample_memory_def account_in_memory_def account_as_value_def blocks_def sample_library_def
      view_account_def view_account_spec_def view_account_status_def view_status_def view_condition_def
      view_volatile_time_def view_account_export_def view_pointer_def view_slice_def plain_view_def
      library_kind_def key_pair_kind_def condition_kind_def account_export_kind_def
      account_service_latency_kind_def)

theorem resources_deep_copied_witness:
  "\<exists>q h'. account_deep_copy sample_library (Some account_in_memory) sample_memory = Some (q, h') \<and>
     prefix sample_memory h' \<and>
     independent (length sample_memory) h' (view_pointer account_kind (view_account sample_library)) q
       (view_receiver (view_account sample_library)) (Some account_in_memory) (Some account_as_value)"
  using resources_deep_copied [OF sample_deep_copying, of sample_memory] account_in_memory_read by blast

text \<open>Another key is written into the key pair of the original; its copy keeps the old one.\<close>

theorem status_snapshots_witness:
  "\<exists>original h'.
     account_status_deep_copy sample_library (Some (am_status account_in_memory)) sample_memory = Some (original, h') \<and>
     view_pointer account_status_kind (view_account_status sample_library)
       (blocks (h'[1 := ValueCell (KeyPairBlock [\<lparr>public_key = ''A2'', seed_secret_name = ''other''\<rparr>])])) original =
     Some (Some (acc_status account_as_value))"
proof -
  obtain original h' where *: "account_status_deep_copy sample_library (Some (am_status account_in_memory)) sample_memory
        = Some (original, h')"
      "\<And>g. \<forall>b. length sample_memory \<le> b \<and> b < length h' \<longrightarrow> g b = blocks h' b \<Longrightarrow>
         view_pointer account_status_kind (view_account_status sample_library) g original =
         Some (Some (acc_status account_as_value))"
    using status_snapshots [OF sample_deep_copying, of sample_memory] account_in_memory_read by blast
  show ?thesis
    by (intro exI conjI, rule *(1), rule *(2)) (simp add: sample_memory_def blocks_def)
qed

theorem deep_copy_objects_typed_witness:
  "\<exists>q h'. account_deep_copy_object sample_library (Some account_in_memory) sample_memory =
       Some (Some (AccountObject q), h') \<and>
     view_pointer account_kind (view_account sample_library) (blocks h') q = Some (Some account_as_value)"
  using deep_copy_objects_typed [OF sample_deep_copying, of sample_memory] account_in_memory_read by blast

end
