(* ===== verification/Typed_Clients.thy ===== *)
theory Typed_Clients
  imports Api_Types Go_Errors "HOL-Library.Word"
begin

text \<open>
  The generated typed clients, pkg/generated/clientset/versioned/typed/accounts/v1alpha1
  (account.go, operator.go, signingkey.go, user.go, accounts_client.go).

  A method of a typed client is a chain of calls on a \<open>rest.Request\<close>, sent by \<open>Do\<close> or \<open>Watch\<close>.
  What a request does with the calls is client-go's; here a request is its verb and the list of the
  calls made on it, in order, and a \<open>rest\<close> client says what sending one does to the world \<open>'w\<close>.
  \<open>Into\<close> is given the object it decodes into and returns what it left there, which the methods
  return together with the error. Options are passed on unread (\<open>'p\<close>), but for the fields of
  \<open>ListOptions\<close> the methods use; \<open>'i\<close> is client-go's \<open>watch.Interface\<close>. The four files are the
  same text for four types, so each method is one definition over a \<open>resource_type\<close> and its instance
  for each type. Contexts are left out.
\<close>

section \<open>Requests\<close>

text \<open>\<open>int64\<close> and \<open>time.Duration\<close>, in nanoseconds.\<close>

type_synonym int64 = "64 word"

record 'p list_options =
  lo_timeout_seconds :: "int64 option"
  lo_watch :: bool
  lo_rest :: 'p

datatype verb = Verb_Get | Verb_Post | Verb_Put | Verb_Delete | Verb_Patch string

datatype ('t, 'p) rest_call =
    Call_Namespace string
  | Call_Resource string
  | Call_Name string
  | Call_Sub_Resource "string list"
  | Call_Versioned_Params 'p
  | Call_Versioned_List_Params "'p list_options"
  | Call_Timeout int64
  | Call_Body 't
  | Call_Body_Options 'p
  | Call_Body_Data string

record ('t, 'p) rest_request =
  req_verb :: verb
  req_calls :: "('t, 'p) rest_call list"

text \<open>
  \<open>Do(ctx).Into(result)\<close>, \<open>Do(ctx).Error()\<close> and \<open>Watch(ctx)\<close> of a \<open>rest.Interface\<close>, at one type of
  objects and its type of lists.
\<close>

record ('w, 't, 'p, 'i) rest =
  do_into :: "('t, 'p) rest_request \<Rightarrow> 't \<Rightarrow> 'w \<Rightarrow> ('t \<times> error option) \<times> 'w"
  do_list_into :: "('t, 'p) rest_request \<Rightarrow> 't resource_list \<Rightarrow> 'w \<Rightarrow> ('t resource_list \<times> error option) \<times> 'w"
  do_error :: "('t, 'p) rest_request \<Rightarrow> 'w \<Rightarrow> error option \<times> 'w"
  do_watch :: "('t, 'p) rest_request \<Rightarrow> 'w \<Rightarrow> ('i option \<times> error option) \<times> 'w"

section \<open>The methods\<close>

text \<open>What differs between the four files: the resource's name, the field \<open>Name\<close>, the empty object.\<close>

record 't resource_type =
  rt_resource :: string
  rt_name :: "'t \<Rightarrow> string"
  rt_zero :: 't

record ('w, 't, 'p, 'i) typed_client =
  tc_client :: "('w, 't, 'p, 'i) rest"
  tc_ns :: string

definition second_duration :: int64 where
  "second_duration = 1000000000"

text \<open>\<open>time.Duration(*opts.TimeoutSeconds) * time.Second\<close>, which wraps around.\<close>

definition list_timeout :: "'p list_options \<Rightarrow> int64" where
  "list_timeout opts =
     (case lo_timeout_seconds opts of None \<Rightarrow> 0 | Some s \<Rightarrow> s * second_duration)"

definition client_get :: "'t resource_type \<Rightarrow> ('w, 't, 'p, 'i) typed_client \<Rightarrow> string \<Rightarrow> 'p \<Rightarrow> 'w \<Rightarrow> ('t \<times> error option) \<times> 'w" where
  "client_get T c name options =
     do_into (tc_client c)
       \<lparr>req_verb = Verb_Get,
        req_calls =
          [Call_Namespace (tc_ns c), Call_Resource (rt_resource T), Call_Name name, Call_Versioned_Params options]\<rparr>
       (rt_zero T)"

definition client_list :: "'t resource_type \<Rightarrow> ('w, 't, 'p, 'i) typed_client \<Rightarrow> 'p list_options \<Rightarrow> 'w \<Rightarrow> ('t resource_list \<times> error option) \<times> 'w" where
  "client_list T c opts =
     do_list_into (tc_client c)
       \<lparr>req_verb = Verb_Get,
        req_calls =
          [Call_Namespace (tc_ns c), Call_Resource (rt_resource T), Call_Versioned_List_Params opts,
           Call_Timeout (list_timeout opts)]\<rparr>
       zero_list"

definition client_watch :: "'t resource_type \<Rightarrow> ('w, 't, 'p, 'i) typed_client \<Rightarrow> 'p list_options \<Rightarrow> 'w \<Rightarrow> ('i option \<times> error option) \<times> 'w" where
  "client_watch T c opts =
     do_watch (tc_client c)
       \<lparr>req_verb = Verb_Get,
        req_calls =
          [Call_Namespace (tc_ns c), Call_Resource (rt_resource T),
           Call_Versioned_List_Params (opts\<lparr>lo_watch := True\<rparr>), Call_Timeout (list_timeout opts)]\<rparr>"

definition client_create :: "'t resource_type \<Rightarrow> ('w, 't, 'p, 'i) typed_client \<Rightarrow> 't \<Rightarrow> 'p \<Rightarrow> 'w \<Rightarrow> ('t \<times> error option) \<times> 'w" where
  "client_create T c x opts =
     do_into (tc_client c)
       \<lparr>req_verb = Verb_Post,
        req_calls =
          [Call_Namespace (tc_ns c), Call_Resource (rt_resource T), Call_Versioned_Params opts, Call_Body x]\<rparr>
       (rt_zero T)"

definition client_update :: "'t resource_type \<Rightarrow> ('w, 't, 'p, 'i) typed_client \<Rightarrow> 't \<Rightarrow> 'p \<Rightarrow> 'w \<Rightarrow> ('t \<times> error option) \<times> 'w" where
  "client_update T c x opts =
     do_into (tc_client c)
       \<lparr>req_verb = Verb_Put,
        req_calls =
          [Call_Namespace (tc_ns c), Call_Resource (rt_resource T), Call_Name (rt_name T x),
           Call_Versioned_Params opts, Call_Body x]\<rparr>
       (rt_zero T)"

definition client_update_status :: "'t resource_type \<Rightarrow> ('w, 't, 'p, 'i) typed_client \<Rightarrow> 't \<Rightarrow> 'p \<Rightarrow> 'w \<Rightarrow> ('t \<times> error option) \<times> 'w" where
  "client_update_status T c x opts =
     do_into (tc_client c)
       \<lparr>req_verb = Verb_Put,
        req_calls =
          [Call_Namespace (tc_ns c), Call_Resource (rt_resource T), Call_Name (rt_name T x),
           Call_Sub_Resource [''status''], Call_Versioned_Params opts, Call_Body x]\<rparr>
       (rt_zero T)"

definition client_delete :: "'t resource_type \<Rightarrow> ('w, 't, 'p, 'i) typed_client \<Rightarrow> string \<Rightarrow> 'p \<Rightarrow> 'w \<Rightarrow> error option \<times> 'w" where
  "client_delete T c name opts =
     do_error (tc_client c)
       \<lparr>req_verb = Verb_Delete,
        req_calls =
          [Call_Namespace (tc_ns c), Call_Resource (rt_resource T), Call_Name name, Call_Body_Options opts]\<rparr>"

definition client_delete_collection :: "'t resource_type \<Rightarrow> ('w, 't, 'p, 'i) typed_client \<Rightarrow> 'p \<Rightarrow> 'p list_options \<Rightarrow> 'w \<Rightarrow> error option \<times> 'w" where
  "client_delete_collection T c opts list_opts =
     do_error (tc_client c)
       \<lparr>req_verb = Verb_Delete,
        req_calls =
          [Call_Namespace (tc_ns c), Call_Resource (rt_resource T),
           Call_Versioned_List_Params list_opts, Call_Timeout (list_timeout list_opts), Call_Body_Options opts]\<rparr>"

definition client_patch :: "'t resource_type \<Rightarrow> ('w, 't, 'p, 'i) typed_client \<Rightarrow> string \<Rightarrow> string \<Rightarrow> string \<Rightarrow> 'p \<Rightarrow> string list \<Rightarrow> 'w \<Rightarrow> ('t \<times> error option) \<times> 'w" where
  "client_patch T c name pt data opts subresources =
     do_into (tc_client c)
       \<lparr>req_verb = (Verb_Patch pt),
        req_calls =
          [Call_Namespace (tc_ns c), Call_Resource (rt_resource T), Call_Name name,
           Call_Sub_Resource subresources, Call_Versioned_Params opts, Call_Body_Data data]\<rparr>
       (rt_zero T)"

text \<open>\<open>SchemeGroupVersion.WithResource\<close>.\<close>

record gvr =
  gvr_group :: string
  gvr_version :: string
  gvr_resource :: string

definition with_resource :: "string \<Rightarrow> gvr" where
  "with_resource r = \<lparr>gvr_group = Group, gvr_version = Version, gvr_resource = r\<rparr>"

section \<open>The four types\<close>

definition account_type :: "account resource_type" where
  "account_type = \<lparr>rt_resource = ''accounts'', rt_name = \<lambda>x. m_name (acc_meta x), rt_zero = zero_account\<rparr>"

definition operator_type :: "operator resource_type" where
  "operator_type = \<lparr>rt_resource = ''operators'', rt_name = \<lambda>x. m_name (op_meta x), rt_zero = zero_operator\<rparr>"

definition signing_key_type :: "signing_key resource_type" where
  "signing_key_type = \<lparr>rt_resource = ''signingkeys'', rt_name = \<lambda>x. m_name (sk_meta x), rt_zero = zero_signing_key\<rparr>"

definition user_type :: "user resource_type" where
  "user_type = \<lparr>rt_resource = ''users'', rt_name = \<lambda>x. m_name (usr_meta x), rt_zero = zero_user\<rparr>"

text \<open>\<open>AccountsV1alpha1Client\<close>: a REST client, which serves all four types.\<close>

record ('w, 'p, 'i) rest_interface =
  rest_accounts :: "('w, account, 'p, 'i) rest"
  rest_operators :: "('w, operator, 'p, 'i) rest"
  rest_signing_keys :: "('w, signing_key, 'p, 'i) rest"
  rest_users :: "('w, user, 'p, 'i) rest"

record ('w, 'p, 'i) group_client =
  gc_rest :: "('w, 'p, 'i) rest_interface"

definition group_client_of :: "('w, 'p, 'i) rest_interface \<Rightarrow> ('w, 'p, 'i) group_client" where
  "group_client_of c = \<lparr>gc_rest = c\<rparr>"

text \<open>\<open>RESTClient\<close>; the receiver may be nil.\<close>

definition rest_client :: "('w, 'p, 'i) group_client option \<Rightarrow> ('w, 'p, 'i) rest_interface option" where
  "rest_client c = (case c of None \<Rightarrow> None | Some c \<Rightarrow> Some (gc_rest c))"

definition new_accounts_client :: "('w, 'p, 'i) group_client \<Rightarrow> string \<Rightarrow> ('w, account, 'p, 'i) typed_client" where
  "new_accounts_client c namespace = \<lparr>tc_client = rest_accounts (gc_rest c), tc_ns = namespace\<rparr>"

definition accounts_client :: "('w, 'p, 'i) group_client \<Rightarrow> string \<Rightarrow> ('w, account, 'p, 'i) typed_client" where
  "accounts_client c namespace = new_accounts_client c namespace"

definition new_operators_client :: "('w, 'p, 'i) group_client \<Rightarrow> string \<Rightarrow> ('w, operator, 'p, 'i) typed_client" where
  "new_operators_client c namespace = \<lparr>tc_client = rest_operators (gc_rest c), tc_ns = namespace\<rparr>"

definition operators_client :: "('w, 'p, 'i) group_client \<Rightarrow> string \<Rightarrow> ('w, operator, 'p, 'i) typed_client" where
  "operators_client c namespace = new_operators_client c namespace"

definition new_signing_keys_client :: "('w, 'p, 'i) group_client \<Rightarrow> string \<Rightarrow> ('w, signing_key, 'p, 'i) typed_client" where
  "new_signing_keys_client c namespace = \<lparr>tc_client = rest_signing_keys (gc_rest c), tc_ns = namespace\<rparr>"

definition signing_keys_client :: "('w, 'p, 'i) group_client \<Rightarrow> string \<Rightarrow> ('w, signing_key, 'p, 'i) typed_client" where
  "signing_keys_client c namespace = new_signing_keys_client c namespace"

definition new_users_client :: "('w, 'p, 'i) group_client \<Rightarrow> string \<Rightarrow> ('w, user, 'p, 'i) typed_client" where
  "new_users_client c namespace = \<lparr>tc_client = rest_users (gc_rest c), tc_ns = namespace\<rparr>"

definition users_client :: "('w, 'p, 'i) group_client \<Rightarrow> string \<Rightarrow> ('w, user, 'p, 'i) typed_client" where
  "users_client c namespace = new_users_client c namespace"

subsection \<open>Account\<close>

definition accounts_get ::
  "('w, account, 'p, 'i) typed_client \<Rightarrow> string \<Rightarrow> 'p \<Rightarrow> 'w \<Rightarrow> (account \<times> error option) \<times> 'w" where
  "accounts_get = client_get account_type"

definition accounts_list ::
  "('w, account, 'p, 'i) typed_client \<Rightarrow> 'p list_options \<Rightarrow> 'w \<Rightarrow> (account_list \<times> error option) \<times> 'w" where
  "accounts_list = client_list account_type"

definition accounts_watch ::
  "('w, account, 'p, 'i) typed_client \<Rightarrow> 'p list_options \<Rightarrow> 'w \<Rightarrow> ('i option \<times> error option) \<times> 'w" where
  "accounts_watch = client_watch account_type"

definition accounts_create ::
  "('w, account, 'p, 'i) typed_client \<Rightarrow> account \<Rightarrow> 'p \<Rightarrow> 'w \<Rightarrow> (account \<times> error option) \<times> 'w" where
  "accounts_create = client_create account_type"

definition accounts_update ::
  "('w, account, 'p, 'i) typed_client \<Rightarrow> account \<Rightarrow> 'p \<Rightarrow> 'w \<Rightarrow> (account \<times> error option) \<times> 'w" where
  "accounts_update = client_update account_type"

definition accounts_update_status ::
  "('w, account, 'p, 'i) typed_client \<Rightarrow> account \<Rightarrow> 'p \<Rightarrow> 'w \<Rightarrow> (account \<times> error option) \<times> 'w" where
  "accounts_update_status = client_update_status account_type"

definition accounts_delete ::
  "('w, account, 'p, 'i) typed_client \<Rightarrow> string \<Rightarrow> 'p \<Rightarrow> 'w \<Rightarrow> error option \<times> 'w" where
  "accounts_delete = client_delete account_type"

definition accounts_delete_collection ::
  "('w, account, 'p, 'i) typed_client \<Rightarrow> 'p \<Rightarrow> 'p list_options \<Rightarrow> 'w \<Rightarrow> error option \<times> 'w" where
  "accounts_delete_collection = client_delete_collection account_type"

definition accounts_patch ::
  "('w, account, 'p, 'i) typed_client \<Rightarrow> string \<Rightarrow> string \<Rightarrow> string \<Rightarrow> 'p \<Rightarrow> string list \<Rightarrow> 'w \<Rightarrow> (account \<times> error option) \<times> 'w" where
  "accounts_patch = client_patch account_type"

subsection \<open>Operator\<close>

definition operators_get ::
  "('w, operator, 'p, 'i) typed_client \<Rightarrow> string \<Rightarrow> 'p \<Rightarrow> 'w \<Rightarrow> (operator \<times> error option) \<times> 'w" where
  "operators_get = client_get operator_type"

definition operators_list ::
  "('w, operator, 'p, 'i) typed_client \<Rightarrow> 'p list_options \<Rightarrow> 'w \<Rightarrow> (operator_list \<times> error option) \<times> 'w" where
  "operators_list = client_list operator_type"

definition operators_watch ::
  "('w, operator, 'p, 'i) typed_client \<Rightarrow> 'p list_options \<Rightarrow> 'w \<Rightarrow> ('i option \<times> error option) \<times> 'w" where
  "operators_watch = client_watch operator_type"

definition operators_create ::
  "('w, operator, 'p, 'i) typed_client \<Rightarrow> operator \<Rightarrow> 'p \<Rightarrow> 'w \<Rightarrow> (operator \<times> error option) \<times> 'w" where
  "operators_create = client_create operator_type"

definition operators_update ::
  "('w, operator, 'p, 'i) typed_client \<Rightarrow> operator \<Rightarrow> 'p \<Rightarrow> 'w \<Rightarrow> (operator \<times> error option) \<times> 'w" where
  "operators_update = client_update operator_type"

definition operators_update_status ::
  "('w, operator, 'p, 'i) typed_client \<Rightarrow> operator \<Rightarrow> 'p \<Rightarrow> 'w \<Rightarrow> (operator \<times> error option) \<times> 'w" where
  "operators_update_status = client_update_status operator_type"

definition operators_delete ::
  "('w, operator, 'p, 'i) typed_client \<Rightarrow> string \<Rightarrow> 'p \<Rightarrow> 'w \<Rightarrow> error option \<times> 'w" where
  "operators_delete = client_delete operator_type"

definition operators_delete_collection ::
  "('w, operator, 'p, 'i) typed_client \<Rightarrow> 'p \<Rightarrow> 'p list_options \<Rightarrow> 'w \<Rightarrow> error option \<times> 'w" where
  "operators_delete_collection = client_delete_collection operator_type"

definition operators_patch ::
  "('w, operator, 'p, 'i) typed_client \<Rightarrow> string \<Rightarrow> string \<Rightarrow> string \<Rightarrow> 'p \<Rightarrow> string list \<Rightarrow> 'w \<Rightarrow> (operator \<times> error option) \<times> 'w" where
  "operators_patch = client_patch operator_type"

subsection \<open>SigningKey\<close>

definition signing_keys_get ::
  "('w, signing_key, 'p, 'i) typed_client \<Rightarrow> string \<Rightarrow> 'p \<Rightarrow> 'w \<Rightarrow> (signing_key \<times> error option) \<times> 'w" where
  "signing_keys_get = client_get signing_key_type"

definition signing_keys_list ::
  "('w, signing_key, 'p, 'i) typed_client \<Rightarrow> 'p list_options \<Rightarrow> 'w \<Rightarrow> (signing_key_list \<times> error option) \<times> 'w" where
  "signing_keys_list = client_list signing_key_type"

definition signing_keys_watch ::
  "('w, signing_key, 'p, 'i) typed_client \<Rightarrow> 'p list_options \<Rightarrow> 'w \<Rightarrow> ('i option \<times> error option) \<times> 'w" where
  "signing_keys_watch = client_watch signing_key_type"

definition signing_keys_create ::
  "('w, signing_key, 'p, 'i) typed_client \<Rightarrow> signing_key \<Rightarrow> 'p \<Rightarrow> 'w \<Rightarrow> (signing_key \<times> error option) \<times> 'w" where
  "signing_keys_create = client_create signing_key_type"

definition signing_keys_update ::
  "('w, signing_key, 'p, 'i) typed_client \<Rightarrow> signing_key \<Rightarrow> 'p \<Rightarrow> 'w \<Rightarrow> (signing_key \<times> error option) \<times> 'w" where
  "signing_keys_update = client_update signing_key_type"

definition signing_keys_update_status ::
  "('w, signing_key, 'p, 'i) typed_client \<Rightarrow> signing_key \<Rightarrow> 'p \<Rightarrow> 'w \<Rightarrow> (signing_key \<times> error option) \<times> 'w" where
  "signing_keys_update_status = client_update_status signing_key_type"

definition signing_keys_delete ::
  "('w, signing_key, 'p, 'i) typed_client \<Rightarrow> string \<Rightarrow> 'p \<Rightarrow> 'w \<Rightarrow> error option \<times> 'w" where
  "signing_keys_delete = client_delete signing_key_type"

definition signing_keys_delete_collection ::
  "('w, signing_key, 'p, 'i) typed_client \<Rightarrow> 'p \<Rightarrow> 'p list_options \<Rightarrow> 'w \<Rightarrow> error option \<times> 'w" where
  "signing_keys_delete_collection = client_delete_collection signing_key_type"

definition signing_keys_patch ::
  "('w, signing_key, 'p, 'i) typed_client \<Rightarrow> string \<Rightarrow> string \<Rightarrow> string \<Rightarrow> 'p \<Rightarrow> string list \<Rightarrow> 'w \<Rightarrow> (signing_key \<times> error option) \<times> 'w" where
  "signing_keys_patch = client_patch signing_key_type"

subsection \<open>User\<close>

definition users_get ::
  "('w, user, 'p, 'i) typed_client \<Rightarrow> string \<Rightarrow> 'p \<Rightarrow> 'w \<Rightarrow> (user \<times> error option) \<times> 'w" where
  "users_get = client_get user_type"

definition users_list ::
  "('w, user, 'p, 'i) typed_client \<Rightarrow> 'p list_options \<Rightarrow> 'w \<Rightarrow> (user_list \<times> error option) \<times> 'w" where
  "users_list = client_list user_type"

definition users_watch ::
  "('w, user, 'p, 'i) typed_client \<Rightarrow> 'p list_options \<Rightarrow> 'w \<Rightarrow> ('i option \<times> error option) \<times> 'w" where
  "users_watch = client_watch user_type"

definition users_create ::
  "('w, user, 'p, 'i) typed_client \<Rightarrow> user \<Rightarrow> 'p \<Rightarrow> 'w \<Rightarrow> (user \<times> error option) \<times> 'w" where
  "users_create = client_create user_type"

definition users_update ::
  "('w, user, 'p, 'i) typed_client \<Rightarrow> user \<Rightarrow> 'p \<Rightarrow> 'w \<Rightarrow> (user \<times> error option) \<times> 'w" where
  "users_update = client_update user_type"

definition users_update_status ::
  "('w, user, 'p, 'i) typed_client \<Rightarrow> user \<Rightarrow> 'p \<Rightarrow> 'w \<Rightarrow> (user \<times> error option) \<times> 'w" where
  "users_update_status = client_update_status user_type"

definition users_delete ::
  "('w, user, 'p, 'i) typed_client \<Rightarrow> string \<Rightarrow> 'p \<Rightarrow> 'w \<Rightarrow> error option \<times> 'w" where
  "users_delete = client_delete user_type"

definition users_delete_collection ::
  "('w, user, 'p, 'i) typed_client \<Rightarrow> 'p \<Rightarrow> 'p list_options \<Rightarrow> 'w \<Rightarrow> error option \<times> 'w" where
  "users_delete_collection = client_delete_collection user_type"

definition users_patch ::
  "('w, user, 'p, 'i) typed_client \<Rightarrow> string \<Rightarrow> string \<Rightarrow> string \<Rightarrow> 'p \<Rightarrow> string list \<Rightarrow> 'w \<Rightarrow> (user \<times> error option) \<times> 'w" where
  "users_patch = client_patch user_type"

end
