(* ===== verification/Clientsets.thy ===== *)
theory Clientsets
  imports Typed_Clients
begin

text \<open>
  How the generated clientset is made from a configuration: NewForConfig and its variants in
  pkg/generated/clientset/versioned/clientset.go and in
  typed/accounts/v1alpha1/accounts_client.go. A \<open>rest.Config\<close> has the fields the functions read or
  write; they work on a copy of the caller's. The constructors of client-go are a parameter
  \<open>client_go\<close>. A panic is None.
\<close>

section \<open>Configurations\<close>

record ('l, 'c) rest_config =
  cfg_group_version :: "(string \<times> string) option"
  cfg_api_path :: string
  cfg_negotiated_serializer :: string
  cfg_user_agent :: string
  cfg_rate_limiter :: "'l option"
  cfg_qps :: rat
  cfg_burst :: int
  cfg_rest :: 'c

record ('w, 'p, 'i, 'l, 'c, 'h, 'd) client_go =
  default_kubernetes_user_agent :: string
  codecs_without_conversion :: string
  http_client_for :: "('l, 'c) rest_config \<Rightarrow> error + 'h"
  rest_client_for_config_and_client :: "('l, 'c) rest_config \<Rightarrow> 'h \<Rightarrow> error + ('w, 'p, 'i) rest_interface"
  new_token_bucket_rate_limiter :: "rat \<Rightarrow> int \<Rightarrow> 'l"
  new_discovery_client_for_config_and_client :: "('l, 'c) rest_config \<Rightarrow> 'h \<Rightarrow> error + 'd"
  new_discovery_client :: "('w, 'p, 'i) rest_interface \<Rightarrow> 'd"

section \<open>The client of the group\<close>

definition set_config_defaults ::
  "('w, 'p, 'i, 'l, 'c, 'h, 'd) client_go \<Rightarrow> ('l, 'c) rest_config \<Rightarrow> ('l, 'c) rest_config \<times> error option" where
  "set_config_defaults G config =
     (let config = config\<lparr>cfg_group_version := Some (Group, Version), cfg_api_path := ''/apis'',
        cfg_negotiated_serializer := codecs_without_conversion G\<rparr>
      in (if cfg_user_agent config = []
          then config\<lparr>cfg_user_agent := default_kubernetes_user_agent G\<rparr> else config,
          None))"

definition group_new_for_config_and_client ::
  "('w, 'p, 'i, 'l, 'c, 'h, 'd) client_go \<Rightarrow> ('l, 'c) rest_config \<Rightarrow> 'h \<Rightarrow> error + ('w, 'p, 'i) group_client" where
  "group_new_for_config_and_client G c h =
     (case set_config_defaults G c of
        (config, Some e) \<Rightarrow> Inl e
      | (config, None) \<Rightarrow>
          (case rest_client_for_config_and_client G config h of
             Inl e \<Rightarrow> Inl e
           | Inr client \<Rightarrow> Inr \<lparr>gc_rest = client\<rparr>))"

definition group_new_for_config ::
  "('w, 'p, 'i, 'l, 'c, 'h, 'd) client_go \<Rightarrow> ('l, 'c) rest_config \<Rightarrow> error + ('w, 'p, 'i) group_client" where
  "group_new_for_config G c =
     (case set_config_defaults G c of
        (config, Some e) \<Rightarrow> Inl e
      | (config, None) \<Rightarrow>
          (case http_client_for G config of
             Inl e \<Rightarrow> Inl e
           | Inr http_client \<Rightarrow> group_new_for_config_and_client G config http_client))"

definition group_new_for_config_or_die ::
  "('w, 'p, 'i, 'l, 'c, 'h, 'd) client_go \<Rightarrow> ('l, 'c) rest_config \<Rightarrow> ('w, 'p, 'i) group_client option" where
  "group_new_for_config_or_die G c =
     (case group_new_for_config G c of Inl e \<Rightarrow> None | Inr client \<Rightarrow> Some client)"

section \<open>The clientset\<close>

record ('w, 'p, 'i, 'd) clientset =
  cs_discovery_client :: 'd
  cs_accounts_v1alpha1 :: "('w, 'p, 'i) group_client"

definition accounts_v1alpha1 :: "('w, 'p, 'i, 'd) clientset \<Rightarrow> ('w, 'p, 'i) group_client" where
  "accounts_v1alpha1 c = cs_accounts_v1alpha1 c"

definition clientset_discovery :: "('w, 'p, 'i, 'd) clientset option \<Rightarrow> 'd option" where
  "clientset_discovery c = (case c of None \<Rightarrow> None | Some c \<Rightarrow> Some (cs_discovery_client c))"

definition burst_required :: error where
  "burst_required = ErrorString
     ''burst is required to be greater than 0 when RateLimiter is not set and QPS is set to greater than 0''"

text \<open>The rate limiter of the copied configuration, or the error that there can be none.\<close>

definition with_rate_limiter ::
  "('w, 'p, 'i, 'l, 'c, 'h, 'd) client_go \<Rightarrow> ('l, 'c) rest_config \<Rightarrow> error + ('l, 'c) rest_config" where
  "with_rate_limiter G c =
     (if cfg_rate_limiter c = None \<and> 0 < cfg_qps c
      then if cfg_burst c \<le> 0 then Inl burst_required
        else Inr (c\<lparr>cfg_rate_limiter := Some (new_token_bucket_rate_limiter G (cfg_qps c) (cfg_burst c))\<rparr>)
      else Inr c)"

definition clientset_new_for_config_and_client ::
  "('w, 'p, 'i, 'l, 'c, 'h, 'd) client_go \<Rightarrow> ('l, 'c) rest_config \<Rightarrow> 'h \<Rightarrow> error + ('w, 'p, 'i, 'd) clientset" where
  "clientset_new_for_config_and_client G c http_client =
     (case with_rate_limiter G c of
        Inl e \<Rightarrow> Inl e
      | Inr config \<Rightarrow>
          (case group_new_for_config_and_client G config http_client of
             Inl e \<Rightarrow> Inl e
           | Inr accounts \<Rightarrow>
               (case new_discovery_client_for_config_and_client G config http_client of
                  Inl e \<Rightarrow> Inl e
                | Inr discovery \<Rightarrow> Inr \<lparr>cs_discovery_client = discovery, cs_accounts_v1alpha1 = accounts\<rparr>)))"

definition clientset_new_for_config ::
  "('w, 'p, 'i, 'l, 'c, 'h, 'd) client_go \<Rightarrow> ('l, 'c) rest_config \<Rightarrow> error + ('w, 'p, 'i, 'd) clientset" where
  "clientset_new_for_config G c =
     (let config = (if cfg_user_agent c = []
        then c\<lparr>cfg_user_agent := default_kubernetes_user_agent G\<rparr> else c)
      in case http_client_for G config of
           Inl e \<Rightarrow> Inl e
         | Inr http_client \<Rightarrow> clientset_new_for_config_and_client G config http_client)"

definition clientset_new_for_config_or_die ::
  "('w, 'p, 'i, 'l, 'c, 'h, 'd) client_go \<Rightarrow> ('l, 'c) rest_config \<Rightarrow> ('w, 'p, 'i, 'd) clientset option" where
  "clientset_new_for_config_or_die G c =
     (case clientset_new_for_config G c of Inl e \<Rightarrow> None | Inr cs \<Rightarrow> Some cs)"

definition clientset_new ::
  "('w, 'p, 'i, 'l, 'c, 'h, 'd) client_go \<Rightarrow> ('w, 'p, 'i) rest_interface \<Rightarrow> ('w, 'p, 'i, 'd) clientset" where
  "clientset_new G c =
     \<lparr>cs_discovery_client = new_discovery_client G c, cs_accounts_v1alpha1 = group_client_of c\<rparr>"

section \<open>What they promise\<close>

lemma set_config_defaults_ok [simp]: "snd (set_config_defaults G c) = None"
  by (simp add: set_config_defaults_def Let_def)

lemma set_config_defaults_idem:
  "set_config_defaults G (fst (set_config_defaults G c)) = set_config_defaults G c"
  by (auto simp: set_config_defaults_def Let_def)

text \<open>
  NewForConfig is documented as equivalent to NewForConfigAndClient with a client generated with
  HTTPClientFor: it is, with the client of the configuration whose defaults are set.
\<close>

lemma new_for_config_equivalent:
  "group_new_for_config G c =
     (case http_client_for G (fst (set_config_defaults G c)) of
        Inl e \<Rightarrow> Inl e
      | Inr h \<Rightarrow> group_new_for_config_and_client G c h)"
proof -
  obtain d where d: "set_config_defaults G c = (d, None)" by (metis set_config_defaults_ok prod.collapse)
  with set_config_defaults_idem [of G c] have "set_config_defaults G d = (d, None)" by simp
  with d show ?thesis
    by (simp add: group_new_for_config_def group_new_for_config_and_client_def split: sum.splits)
qed

lemma with_rate_limiter_none:
  assumes "with_rate_limiter G c = Inr d" and "0 < cfg_qps c"
  shows "cfg_rate_limiter d \<noteq> None"
  using assms by (auto simp: with_rate_limiter_def split: if_splits)

end
