(* ===== verification/Client_Properties.thy ===== *)
theory Client_Properties
  imports Clientsets
begin

text \<open>
  What the generated typed clients send: the timeout of a list request and its bounds, and which
  requests a client can send at all.
\<close>

section \<open>Timeouts\<close>

lemma sint_second: "sint second_duration = 1000000000"
  by (simp add: second_duration_def)

lemma signed_take_bit_fits:
  "signed_take_bit 63 k = k \<longleftrightarrow> - (2 ^ 63) \<le> k \<and> k < (2 ^ 63 :: int)"
  by (auto simp: signed_take_bit_int_eq_self_iff)

lemma sint_seconds: "sint (s * second_duration) = signed_take_bit 63 (sint s * 1000000000)"
  for s :: int64
  by (simp add: sint_word_ariths sint_second)

text \<open>C29: The timeout of a \<open>List\<close>, \<open>Watch\<close> or \<open>DeleteCollection\<close> is \<open>TimeoutSeconds\<close> in nanoseconds exactly
  when that is between -9223372036 and 9223372036 seconds; beyond, the multiplication of the two
  \<open>int64\<close> wraps around: one second more is a negative timeout.\<close>

theorem list_timeout_bounds:
  "(sint (list_timeout (opts\<lparr>lo_timeout_seconds := Some s\<rparr>)) = sint s * 1000000000 \<longleftrightarrow>
      sint s \<in> {-9223372036 .. 9223372036}) \<and>
   list_timeout (opts\<lparr>lo_timeout_seconds := None\<rparr>) = 0 \<and>
   sint (list_timeout (opts\<lparr>lo_timeout_seconds := Some 9223372037\<rparr>)) = -9223372036709551616"
proof -
  have "sint (list_timeout (opts\<lparr>lo_timeout_seconds := Some s\<rparr>)) = sint s * 1000000000 \<longleftrightarrow>
      - (2 ^ 63) \<le> sint s * 1000000000 \<and> sint s * 1000000000 < 2 ^ 63"
    by (simp add: list_timeout_def sint_seconds signed_take_bit_fits)
  also have "\<dots> \<longleftrightarrow> sint s \<in> {-9223372036 .. 9223372036}" by auto
  finally show ?thesis
    by (simp add: list_timeout_def second_duration_def)
qed

section \<open>Requests\<close>

text \<open>Two REST clients that answer a set of requests alike.\<close>

definition agree :: "(('t, 'p) rest_request \<Rightarrow> bool) \<Rightarrow> ('w, 't, 'p, 'i) rest \<Rightarrow> ('w, 't, 'p, 'i) rest \<Rightarrow> bool" where
  "agree S R R' \<longleftrightarrow> (\<forall>r. S r \<longrightarrow>
     do_into R r = do_into R' r \<and> do_list_into R r = do_list_into R' r \<and>
     do_error R r = do_error R' r \<and> do_watch R r = do_watch R' r)"

fun is_namespace :: "('t, 'p) rest_call \<Rightarrow> bool" where
  "is_namespace (Call_Namespace _) = True"
| "is_namespace _ = False"

fun is_resource :: "('t, 'p) rest_call \<Rightarrow> bool" where
  "is_resource (Call_Resource _) = True"
| "is_resource _ = False"

fun is_sub_resource :: "('t, 'p) rest_call \<Rightarrow> bool" where
  "is_sub_resource (Call_Sub_Resource _) = True"
| "is_sub_resource _ = False"

definition scoped :: "string \<Rightarrow> string \<Rightarrow> ('t, 'p) rest_request \<Rightarrow> bool" where
  "scoped ns res r \<longleftrightarrow> filter is_namespace (req_calls r) = [Call_Namespace ns]
     \<and> filter is_resource (req_calls r) = [Call_Resource res]"

definition sub_resources :: "('t, 'p) rest_request \<Rightarrow> ('t, 'p) rest_call list" where
  "sub_resources r = filter is_sub_resource (req_calls r)"

lemmas client_defs = client_get_def client_list_def client_watch_def client_create_def client_update_def
  client_update_status_def client_delete_def client_delete_collection_def client_patch_def


text \<open>A client whose every request is refused, and one that refuses those of other namespaces.\<close>

definition closed_rest :: "('t, string) rest_request list \<Rightarrow> (nat, 't, string, unit) rest" where
  "closed_rest open =
     \<lparr>do_into = \<lambda>r x w. ((x, if r \<in> set open then None else Some (ErrorString ''refused'')), Suc w),
      do_list_into = \<lambda>r l w. ((l, None), w), do_error = \<lambda>r w. (None, w), do_watch = \<lambda>r w. ((None, None), w)\<rparr>"

definition get_request :: "string \<Rightarrow> (account, string) rest_request" where
  "get_request ns = \<lparr>req_verb = Verb_Get, req_calls =
     [Call_Namespace ns, Call_Resource ''accounts'', Call_Name ''acc'', Call_Versioned_Params '''']\<rparr>"


text \<open>A clientset is created only if it is usable: when the configuration has no rate limiter and a
  positive QPS but no positive burst, NewForConfigAndClient fails before it makes any client; when it
  succeeds, both clients were made with one rate limiter (the configuration's own, or a token bucket
  of its QPS and burst when QPS is positive), and NewForConfigOrDie panics exactly when NewForConfig
  fails. An error of a constructor is returned as it is.\<close>

theorem clientset_creation:
  "clientset_new_for_config_and_client G c h =
     (if cfg_rate_limiter c = None \<and> 0 < cfg_qps c \<and> cfg_burst c \<le> 0 then Inl burst_required
      else
        let d = (if cfg_rate_limiter c = None \<and> 0 < cfg_qps c
                 then c\<lparr>cfg_rate_limiter := Some (new_token_bucket_rate_limiter G (cfg_qps c) (cfg_burst c))\<rparr>
                 else c);
            g = d\<lparr>cfg_group_version := Some (''accounts.nats.io'', ''v1alpha1''), cfg_api_path := ''/apis'',
                  cfg_negotiated_serializer := codecs_without_conversion G,
                  cfg_user_agent := (if cfg_user_agent c = [] then default_kubernetes_user_agent G
                                     else cfg_user_agent c)\<rparr>
        in case (rest_client_for_config_and_client G g h, new_discovery_client_for_config_and_client G d h) of
             (Inl e, _) \<Rightarrow> Inl e
           | (Inr r, Inl e) \<Rightarrow> Inl e
           | (Inr r, Inr disco) \<Rightarrow> Inr \<lparr>cs_discovery_client = disco, cs_accounts_v1alpha1 = \<lparr>gc_rest = r\<rparr>\<rparr>) \<and>
   (clientset_new_for_config_or_die G c = None \<longleftrightarrow> (\<exists>e. clientset_new_for_config G c = Inl e))"
  by (auto simp: clientset_new_for_config_and_client_def with_rate_limiter_def Let_def
      group_new_for_config_and_client_def set_config_defaults_def Group_def Version_def
      clientset_new_for_config_or_die_def split: sum.splits)

end
