(* ===== verification/Listers.thy ===== *)
theory Listers
  imports Env
begin

text \<open>
  The generated listers, pkg/generated/listers/accounts/v1alpha1. A lister reads a
  \<open>cache.Indexer\<close>, which is client-go's: a parameter, given by the objects \<open>cache.ListAll\<close> and
  \<open>cache.ListAllByNamespace\<close> pass to the function they are called with, in order, and by what
  \<open>GetByKey\<close> returns. The objects have the type \<open>interface{}\<close>; a lister asserts its own type of
  each, and None is the panic of a type assertion that fails. A pair of a pointer and an error is a sum.
\<close>

record indexer =
  ix_list_all :: "selector \<Rightarrow> client_object list \<times> error option"
  ix_list_all_by_namespace :: "string \<Rightarrow> selector \<Rightarrow> client_object list \<times> error option"
  ix_get_by_key :: "string \<Rightarrow> client_object \<times> bool \<times> error option"

text \<open>The type assertions \<open>m.(*v1alpha1.Account)\<close>.\<close>

fun as_account :: "client_object \<Rightarrow> account option" where
  "as_account (ObjAccount x) = Some x"
| "as_account _ = None"

fun as_operator :: "client_object \<Rightarrow> operator option" where
  "as_operator (ObjOperator x) = Some x"
| "as_operator _ = None"

fun as_signing_key :: "client_object \<Rightarrow> signing_key option" where
  "as_signing_key (ObjSigningKey x) = Some x"
| "as_signing_key _ = None"

fun as_user :: "client_object \<Rightarrow> user option" where
  "as_user (ObjUser x) = Some x"
| "as_user _ = None"

text \<open>The function the objects are passed to: \<open>ret = append(ret, m.(*v1alpha1.Account))\<close>.\<close>

fun append_all :: "('o \<Rightarrow> 't option) \<Rightarrow> 'o list \<Rightarrow> 't list \<Rightarrow> 't list option" where
  "append_all as [] acc = Some acc"
| "append_all as (m # ms) acc = (case as m of None \<Rightarrow> None | Some x \<Rightarrow> append_all as ms (acc @ [x]))"

definition lister_list ::
  "(client_object \<Rightarrow> 't option) \<Rightarrow> client_object list \<times> error option \<Rightarrow> ('t list \<times> error option) option" where
  "lister_list as r = (case r of (ms, err) \<Rightarrow> map_option (\<lambda>xs. (xs, err)) (append_all as ms []))"

text \<open>\<open>errors.NewNotFound(v1alpha1.Resource(resource), name)\<close>.\<close>

definition not_found :: "string \<Rightarrow> string \<Rightarrow> error" where
  "not_found resource name =
     StatusError NotFound (resource @ ''.'' @ Group @ '' '' @ quote name @ '' not found'')"

definition lister_get ::
  "(client_object \<Rightarrow> 't option) \<Rightarrow> string \<Rightarrow> indexer \<Rightarrow> string \<Rightarrow> string \<Rightarrow> (error + 't) option" where
  "lister_get as resource ix namespace name =
     (case ix_get_by_key ix (namespace @ ''/'' @ name) of
        (obj, exists, err) \<Rightarrow>
          (case err of
             Some e \<Rightarrow> Some (Inl e)
           | None \<Rightarrow>
               (if \<not> exists then Some (Inl (not_found resource name))
                else map_option Inr (as obj))))"

section \<open>The four listers\<close>

record account_lister =
  accountl_indexer :: indexer

definition new_account_lister :: "indexer \<Rightarrow> account_lister" where
  "new_account_lister ix = \<lparr>accountl_indexer = ix\<rparr>"

definition account_lister_list :: "account_lister \<Rightarrow> selector \<Rightarrow> (account list \<times> error option) option" where
  "account_lister_list s sel = lister_list as_account (ix_list_all (accountl_indexer s) sel)"

record account_namespace_lister =
  accountnl_indexer :: indexer
  accountnl_namespace :: string

definition account_lister_accounts :: "account_lister \<Rightarrow> string \<Rightarrow> account_namespace_lister" where
  "account_lister_accounts s namespace = \<lparr>accountnl_indexer = accountl_indexer s, accountnl_namespace = namespace\<rparr>"

definition account_namespace_lister_list ::
  "account_namespace_lister \<Rightarrow> selector \<Rightarrow> (account list \<times> error option) option" where
  "account_namespace_lister_list s sel =
     lister_list as_account (ix_list_all_by_namespace (accountnl_indexer s) (accountnl_namespace s) sel)"

definition account_namespace_lister_get :: "account_namespace_lister \<Rightarrow> string \<Rightarrow> (error + account) option" where
  "account_namespace_lister_get s name =
     lister_get as_account ''account'' (accountnl_indexer s) (accountnl_namespace s) name"

record operator_lister =
  operatorl_indexer :: indexer

definition new_operator_lister :: "indexer \<Rightarrow> operator_lister" where
  "new_operator_lister ix = \<lparr>operatorl_indexer = ix\<rparr>"

definition operator_lister_list :: "operator_lister \<Rightarrow> selector \<Rightarrow> (operator list \<times> error option) option" where
  "operator_lister_list s sel = lister_list as_operator (ix_list_all (operatorl_indexer s) sel)"

record operator_namespace_lister =
  operatornl_indexer :: indexer
  operatornl_namespace :: string

definition operator_lister_operators :: "operator_lister \<Rightarrow> string \<Rightarrow> operator_namespace_lister" where
  "operator_lister_operators s namespace = \<lparr>operatornl_indexer = operatorl_indexer s, operatornl_namespace = namespace\<rparr>"

definition operator_namespace_lister_list ::
  "operator_namespace_lister \<Rightarrow> selector \<Rightarrow> (operator list \<times> error option) option" where
  "operator_namespace_lister_list s sel =
     lister_list as_operator (ix_list_all_by_namespace (operatornl_indexer s) (operatornl_namespace s) sel)"

definition operator_namespace_lister_get :: "operator_namespace_lister \<Rightarrow> string \<Rightarrow> (error + operator) option" where
  "operator_namespace_lister_get s name =
     lister_get as_operator ''operator'' (operatornl_indexer s) (operatornl_namespace s) name"

record signing_key_lister =
  signing_keyl_indexer :: indexer

definition new_signing_key_lister :: "indexer \<Rightarrow> signing_key_lister" where
  "new_signing_key_lister ix = \<lparr>signing_keyl_indexer = ix\<rparr>"

definition signing_key_lister_list :: "signing_key_lister \<Rightarrow> selector \<Rightarrow> (signing_key list \<times> error option) option" where
  "signing_key_lister_list s sel = lister_list as_signing_key (ix_list_all (signing_keyl_indexer s) sel)"

record signing_key_namespace_lister =
  signing_keynl_indexer :: indexer
  signing_keynl_namespace :: string

definition signing_key_lister_signing_keys :: "signing_key_lister \<Rightarrow> string \<Rightarrow> signing_key_namespace_lister" where
  "signing_key_lister_signing_keys s namespace = \<lparr>signing_keynl_indexer = signing_keyl_indexer s, signing_keynl_namespace = namespace\<rparr>"

definition signing_key_namespace_lister_list ::
  "signing_key_namespace_lister \<Rightarrow> selector \<Rightarrow> (signing_key list \<times> error option) option" where
  "signing_key_namespace_lister_list s sel =
     lister_list as_signing_key (ix_list_all_by_namespace (signing_keynl_indexer s) (signing_keynl_namespace s) sel)"

definition signing_key_namespace_lister_get :: "signing_key_namespace_lister \<Rightarrow> string \<Rightarrow> (error + signing_key) option" where
  "signing_key_namespace_lister_get s name =
     lister_get as_signing_key ''signingkey'' (signing_keynl_indexer s) (signing_keynl_namespace s) name"

record user_lister =
  userl_indexer :: indexer

definition new_user_lister :: "indexer \<Rightarrow> user_lister" where
  "new_user_lister ix = \<lparr>userl_indexer = ix\<rparr>"

definition user_lister_list :: "user_lister \<Rightarrow> selector \<Rightarrow> (user list \<times> error option) option" where
  "user_lister_list s sel = lister_list as_user (ix_list_all (userl_indexer s) sel)"

record user_namespace_lister =
  usernl_indexer :: indexer
  usernl_namespace :: string

definition user_lister_users :: "user_lister \<Rightarrow> string \<Rightarrow> user_namespace_lister" where
  "user_lister_users s namespace = \<lparr>usernl_indexer = userl_indexer s, usernl_namespace = namespace\<rparr>"

definition user_namespace_lister_list ::
  "user_namespace_lister \<Rightarrow> selector \<Rightarrow> (user list \<times> error option) option" where
  "user_namespace_lister_list s sel =
     lister_list as_user (ix_list_all_by_namespace (usernl_indexer s) (usernl_namespace s) sel)"

definition user_namespace_lister_get :: "user_namespace_lister \<Rightarrow> string \<Rightarrow> (error + user) option" where
  "user_namespace_lister_get s name =
     lister_get as_user ''user'' (usernl_indexer s) (usernl_namespace s) name"

end
