(* ===== verification/Lister_Properties.thy ===== *)
theory Lister_Properties
  imports Listers
begin

text \<open>
  What the listers return when the indexer holds objects of one type, as the cache of an informer
  does. \<open>serves ix os\<close> is client-go's documentation of an indexer with the objects \<open>os\<close>: the lists
  are filtered by namespace (all of them for the empty one) and selector, and \<open>GetByKey\<close> finds by
  \<open>MetaNamespaceKeyFunc\<close>. The locale \<open>object_type\<close> is what the four types share.
\<close>

definition object_key :: "object_meta \<Rightarrow> string" where
  "object_key m = (if m_namespace m = [] then m_name m else m_namespace m @ ''/'' @ m_name m)"

definition serves :: "indexer \<Rightarrow> client_object list \<Rightarrow> bool" where
  "serves ix os \<longleftrightarrow>
     (\<forall>sel. ix_list_all ix sel = (filter (\<lambda>m. sel_matches sel (m_labels (object_get_meta m))) os, None)) \<and>
     (\<forall>ns sel. ix_list_all_by_namespace ix ns sel =
        (filter (\<lambda>m. (ns = [] \<or> m_namespace (object_get_meta m) = ns)
           \<and> sel_matches sel (m_labels (object_get_meta m))) os, None)) \<and>
     (\<forall>k. case find (\<lambda>m. object_key (object_get_meta m) = k) os of
         Some m \<Rightarrow> ix_get_by_key ix k = (m, True, None)
       | None \<Rightarrow> snd (ix_get_by_key ix k) = (False, None))"

text \<open>Kubernetes' names are DNS names.\<close>

definition dns_name :: "string \<Rightarrow> bool" where
  "dns_name s \<longleftrightarrow> CHR ''/'' \<notin> set s"

definition dns_meta :: "object_meta \<Rightarrow> bool" where
  "dns_meta m \<longleftrightarrow> dns_name (m_namespace m) \<and> dns_name (m_name m)"

lemma object_key_eq:
  assumes "dns_meta m" and "dns_name ns" "dns_name n"
  shows "object_key m = ns @ ''/'' @ n \<longleftrightarrow> m_namespace m \<noteq> [] \<and> m_namespace m = ns \<and> m_name m = n"
proof (cases "m_namespace m = []")
  case True
  have "CHR ''/'' \<notin> set (m_name m)" using assms(1) by (simp add: dns_meta_def dns_name_def)
  then have "m_name m \<noteq> ns @ ''/'' @ n" by (metis append_Cons in_set_conv_decomp)
  with True show ?thesis by (simp add: object_key_def)
next
  case False
  with assms show ?thesis
    by (auto simp: object_key_def dns_meta_def dns_name_def append_Cons_eq_iff)
qed

lemma find_map: "find P (map f xs) = map_option f (find (P \<circ> f) xs)"
  by (induction xs) auto

lemma find_cong_set: "(\<And>x. x \<in> set xs \<Longrightarrow> P x = Q x) \<Longrightarrow> find P xs = find Q xs"
  by (induction xs) auto

locale object_type =
  fixes as :: "client_object \<Rightarrow> 't option"
    and wrap :: "'t \<Rightarrow> client_object"
    and meta :: "'t \<Rightarrow> object_meta"
  assumes as_wrap [simp]: "as (wrap x) = Some x"
    and meta_wrap [simp]: "object_get_meta (wrap x) = meta x"
begin

lemma append_all_wrapped: "append_all as (map wrap xs) acc = Some (acc @ xs)"
  by (induction xs arbitrary: acc) auto

lemma filter_wrapped: "filter P (map wrap xs) = map wrap (filter (P \<circ> wrap) xs)"
  by (simp add: filter_map)

lemma list_all_objects:
  assumes "serves ix (map wrap xs)"
  shows "lister_list as (ix_list_all ix sel) =
    Some (filter (\<lambda>x. sel_matches sel (m_labels (meta x))) xs, None)"
proof -
  have "ix_list_all ix sel = (map wrap (filter (\<lambda>x. sel_matches sel (m_labels (meta x))) xs), None)"
    using assms by (simp add: serves_def filter_wrapped comp_def)
  then show ?thesis by (simp add: lister_list_def append_all_wrapped)
qed

lemma list_namespace_objects:
  assumes "serves ix (map wrap xs)"
  shows "lister_list as (ix_list_all_by_namespace ix ns sel) =
    Some (filter (\<lambda>x. (ns = [] \<or> m_namespace (meta x) = ns) \<and> sel_matches sel (m_labels (meta x))) xs, None)"
proof -
  have "ix_list_all_by_namespace ix ns sel =
      (map wrap (filter (\<lambda>x. (ns = [] \<or> m_namespace (meta x) = ns) \<and> sel_matches sel (m_labels (meta x))) xs), None)"
    using assms by (simp add: serves_def filter_wrapped comp_def)
  then show ?thesis by (simp add: lister_list_def append_all_wrapped)
qed

lemma list_namespace_named:
  assumes "serves ix (map wrap xs)" and "ns \<noteq> []"
  shows "lister_list as (ix_list_all_by_namespace ix ns sel) =
    Some (filter (\<lambda>x. m_namespace (meta x) = ns \<and> sel_matches sel (m_labels (meta x))) xs, None)"
  using list_namespace_objects [OF assms(1), of ns sel] assms(2) by simp

lemma get_object:
  assumes ix: "serves ix (map wrap xs)"
    and dns: "\<forall>x \<in> set xs. dns_meta (meta x)" "dns_name ns" "dns_name n" and ns: "ns \<noteq> []"
  shows "lister_get as resource ix ns n =
    Some (case find (\<lambda>x. m_namespace (meta x) = ns \<and> m_name (meta x) = n) xs of
            Some x \<Rightarrow> Inr x | None \<Rightarrow> Inl (not_found resource n))"
proof -
  let ?k = "ns @ ''/'' @ n" and ?P = "\<lambda>x. m_namespace (meta x) = ns \<and> m_name (meta x) = n"
  have "find (\<lambda>m. object_key (object_get_meta m) = ?k) (map wrap xs) =
      map_option wrap (find (\<lambda>x. object_key (meta x) = ?k) xs)"
    by (simp add: find_map comp_def)
  also have "find (\<lambda>x. object_key (meta x) = ?k) xs = find ?P xs"
    by (rule find_cong_set) (use dns ns object_key_eq in auto)
  finally have key: "find (\<lambda>m. object_key (object_get_meta m) = ?k) (map wrap xs) = map_option wrap (find ?P xs)" .
  have get: "case map_option wrap (find ?P xs) of
        Some m \<Rightarrow> ix_get_by_key ix ?k = (m, True, None)
      | None \<Rightarrow> snd (ix_get_by_key ix ?k) = (False, None)"
    using ix unfolding serves_def key [symmetric] by blast
  show ?thesis
    using get by (cases "find ?P xs"; cases "ix_get_by_key ix ?k") (auto simp: lister_get_def)
qed

end


interpretation account_objects: object_type as_account ObjAccount acc_meta
  by unfold_locales simp_all

interpretation operator_objects: object_type as_operator ObjOperator op_meta
  by unfold_locales simp_all

interpretation signing_key_objects: object_type as_signing_key ObjSigningKey sk_meta
  by unfold_locales simp_all

interpretation user_objects: object_type as_user ObjUser usr_meta
  by unfold_locales simp_all

text \<open>C22: On a cache that holds objects of its own type, each of the four listers never fails a type
  assertion; \<open>List\<close> returns exactly the objects the selector matches, \<open>List\<close> of a namespace those of
  the namespace, both in the cache's order, and \<open>Get\<close> the object of that namespace and name, or
  NotFound when there is none: the key it looks up is unambiguous because DNS names have no slash.\<close>

theorem listers_agree:
  assumes "dns_name ns" "dns_name n" "ns \<noteq> []"
  shows
    "(\<forall>as. serves ix (map ObjAccount as) \<and> (\<forall>x \<in> set as. dns_meta (acc_meta x)) \<longrightarrow>
       account_lister_list (new_account_lister ix) sel = Some (filter (\<lambda>x. sel_matches sel (m_labels (acc_meta x))) as, None) \<and>
       account_namespace_lister_list (account_lister_accounts (new_account_lister ix) ns) sel =
         Some (filter (\<lambda>x. m_namespace (acc_meta x) = ns \<and> sel_matches sel (m_labels (acc_meta x))) as, None) \<and>
       account_namespace_lister_get (account_lister_accounts (new_account_lister ix) ns) n =
         Some (case find (\<lambda>x. m_namespace (acc_meta x) = ns \<and> m_name (acc_meta x) = n) as of
                 Some x \<Rightarrow> Inr x | None \<Rightarrow> Inl (not_found ''account'' n))) \<and>
     (\<forall>ops. serves ix (map ObjOperator ops) \<and> (\<forall>x \<in> set ops. dns_meta (op_meta x)) \<longrightarrow>
       operator_lister_list (new_operator_lister ix) sel = Some (filter (\<lambda>x. sel_matches sel (m_labels (op_meta x))) ops, None) \<and>
       operator_namespace_lister_list (operator_lister_operators (new_operator_lister ix) ns) sel =
         Some (filter (\<lambda>x. m_namespace (op_meta x) = ns \<and> sel_matches sel (m_labels (op_meta x))) ops, None) \<and>
       operator_namespace_lister_get (operator_lister_operators (new_operator_lister ix) ns) n =
         Some (case find (\<lambda>x. m_namespace (op_meta x) = ns \<and> m_name (op_meta x) = n) ops of
                 Some x \<Rightarrow> Inr x | None \<Rightarrow> Inl (not_found ''operator'' n))) \<and>
     (\<forall>sks. serves ix (map ObjSigningKey sks) \<and> (\<forall>x \<in> set sks. dns_meta (sk_meta x)) \<longrightarrow>
       signing_key_lister_list (new_signing_key_lister ix) sel = Some (filter (\<lambda>x. sel_matches sel (m_labels (sk_meta x))) sks, None) \<and>
       signing_key_namespace_lister_list (signing_key_lister_signing_keys (new_signing_key_lister ix) ns) sel =
         Some (filter (\<lambda>x. m_namespace (sk_meta x) = ns \<and> sel_matches sel (m_labels (sk_meta x))) sks, None) \<and>
       signing_key_namespace_lister_get (signing_key_lister_signing_keys (new_signing_key_lister ix) ns) n =
         Some (case find (\<lambda>x. m_namespace (sk_meta x) = ns \<and> m_name (sk_meta x) = n) sks of
                 Some x \<Rightarrow> Inr x | None \<Rightarrow> Inl (not_found ''signingkey'' n))) \<and>
     (\<forall>us. serves ix (map ObjUser us) \<and> (\<forall>x \<in> set us. dns_meta (usr_meta x)) \<longrightarrow>
       user_lister_list (new_user_lister ix) sel = Some (filter (\<lambda>x. sel_matches sel (m_labels (usr_meta x))) us, None) \<and>
       user_namespace_lister_list (user_lister_users (new_user_lister ix) ns) sel =
         Some (filter (\<lambda>x. m_namespace (usr_meta x) = ns \<and> sel_matches sel (m_labels (usr_meta x))) us, None) \<and>
       user_namespace_lister_get (user_lister_users (new_user_lister ix) ns) n =
         Some (case find (\<lambda>x. m_namespace (usr_meta x) = ns \<and> m_name (usr_meta x) = n) us of
                 Some x \<Rightarrow> Inr x | None \<Rightarrow> Inl (not_found ''user'' n)))"
  using assms
  by (intro conjI allI impI)
    (simp_all add: new_account_lister_def account_lister_list_def account_lister_accounts_def
      account_namespace_lister_list_def account_namespace_lister_get_def
      account_objects.list_all_objects account_objects.list_namespace_named account_objects.get_object
      new_operator_lister_def operator_lister_list_def operator_lister_operators_def
      operator_namespace_lister_list_def operator_namespace_lister_get_def
      operator_objects.list_all_objects operator_objects.list_namespace_named operator_objects.get_object
      new_signing_key_lister_def signing_key_lister_list_def signing_key_lister_signing_keys_def
      signing_key_namespace_lister_list_def signing_key_namespace_lister_get_def
      signing_key_objects.list_all_objects signing_key_objects.list_namespace_named signing_key_objects.get_object
      new_user_lister_def user_lister_list_def user_lister_users_def
      user_namespace_lister_list_def user_namespace_lister_get_def
      user_objects.list_all_objects user_objects.list_namespace_named user_objects.get_object)

text \<open>An indexer as client-go's store makes it, with two accounts of one name in two namespaces.\<close>

definition cache_of :: "client_object list \<Rightarrow> indexer" where
  "cache_of os =
     \<lparr>ix_list_all = \<lambda>sel. (filter (\<lambda>m. sel_matches sel (m_labels (object_get_meta m))) os, None),
      ix_list_all_by_namespace = \<lambda>ns sel.
        (filter (\<lambda>m. (ns = [] \<or> m_namespace (object_get_meta m) = ns)
           \<and> sel_matches sel (m_labels (object_get_meta m))) os, None),
      ix_get_by_key = \<lambda>k. case find (\<lambda>m. object_key (object_get_meta m) = k) os of
          Some m \<Rightarrow> (m, True, None)
        | None \<Rightarrow> (ObjOther zero_gvk empty_meta, False, None)\<rparr>"

lemma cache_serves: "serves (cache_of os) os"
  by (simp add: serves_def cache_of_def split: option.splits)

definition account_named :: "string \<Rightarrow> string \<Rightarrow> account" where
  "account_named ns n = zero_account\<lparr>acc_meta := empty_meta\<lparr>m_name := n, m_namespace := ns\<rparr>\<rparr>"

theorem listers_agree_witness:
  "account_namespace_lister_get
     (account_lister_accounts
        (new_account_lister (cache_of (map ObjAccount [account_named ''a'' ''x'', account_named ''b'' ''x'']))) ''b'') ''x'' =
   Some (Inr (account_named ''b'' ''x''))"
proof -
  let ?os = "[account_named ''a'' ''x'', account_named ''b'' ''x'']"
  have "serves (cache_of (map ObjAccount ?os)) (map ObjAccount ?os) \<and> (\<forall>x \<in> set ?os. dns_meta (acc_meta x))"
    using cache_serves by (simp add: account_named_def dns_meta_def dns_name_def)
  moreover have "dns_name ''b''" "dns_name ''x''" "''b'' \<noteq> []" by (simp_all add: dns_name_def)
  ultimately have "account_namespace_lister_get (account_lister_accounts (new_account_lister (cache_of (map ObjAccount ?os))) ''b'') ''x'' =
     Some (case find (\<lambda>x. m_namespace (acc_meta x) = ''b'' \<and> m_name (acc_meta x) = ''x'') ?os of
             Some x \<Rightarrow> Inr x | None \<Rightarrow> Inl (not_found ''account'' ''x''))"
    by (intro listers_agree [THEN conjunct1, THEN spec, THEN mp, THEN conjunct2, THEN conjunct2])
  then show ?thesis by (simp add: account_named_def)
qed

end
