(* ===== verification/Informers.thy ===== *)
theory Informers
  imports Clientsets Listers
begin

text \<open>
  The generated informers, pkg/generated/informer/externalversions: the informers of the four types
  (accounts/v1alpha1), the accessors that lead to them (accounts, generic.go) and the shared
  informer factory (factory.go) with its state.

  A \<open>cache.SharedIndexInformer\<close> is client-go's; here it is what it was made with, and the indexer
  behind it is a parameter \<open>get_indexer\<close>. Types (\<open>reflect.Type\<close>) are \<open>object_kind\<close>s. The map of
  informers is a list in the order of registration: Go ranges over it in any order, and what the
  loops do does not depend on it. The lock makes every method of the factory one step; the
  goroutines it starts are listed in \<open>fa_running\<close> (the wait group counts them).
\<close>

section \<open>Informers\<close>

type_synonym 'p tweak = "'p list_options \<Rightarrow> 'p list_options"

record ('w, 'p, 'i) list_watch =
  lw_list :: "'p list_options \<Rightarrow> 'w \<Rightarrow> (client_object resource_list \<times> error option) \<times> 'w"
  lw_watch :: "'p list_options \<Rightarrow> 'w \<Rightarrow> ('i option \<times> error option) \<times> 'w"

record ('w, 'p, 'i, 'f) informer =
  inf_list_watch :: "('w, 'p, 'i) list_watch"
  inf_object :: object_kind
  inf_resync :: int64
  inf_indexers :: "string list"
  inf_transform :: "'f option"

definition tweaked :: "'p tweak option \<Rightarrow> 'p list_options \<Rightarrow> 'p list_options" where
  "tweaked tweak options = (case tweak of None \<Rightarrow> options | Some f \<Rightarrow> f options)"

text \<open>A list of one type as the \<open>runtime.Object\<close> it is returned as.\<close>

definition as_objects :: "('t \<Rightarrow> client_object) \<Rightarrow> 't resource_list \<Rightarrow> client_object resource_list" where
  "as_objects wrap l = \<lparr>rl_gvk = rl_gvk l, rl_meta = rl_meta l, rl_items = map wrap (rl_items l)\<rparr>"

definition object_list_result ::
  "('t \<Rightarrow> client_object) \<Rightarrow> ('t resource_list \<times> error option) \<times> 'w \<Rightarrow> (client_object resource_list \<times> error option) \<times> 'w" where
  "object_list_result wrap r = (case r of ((l, err), x) \<Rightarrow> ((as_objects wrap l, err), x))"

definition new_filtered_account_informer ::
  "('w, 'p, 'i, 'd) clientset \<Rightarrow> string \<Rightarrow> int64 \<Rightarrow> string list \<Rightarrow> 'p tweak option \<Rightarrow> ('w, 'p, 'i, 'f) informer" where
  "new_filtered_account_informer client namespace resync_period indexers tweak =
     \<lparr>inf_list_watch =
        \<lparr>lw_list = \<lambda>options x. object_list_result ObjAccount
           (accounts_list (accounts_client (accounts_v1alpha1 client) namespace) (tweaked tweak options) x),
         lw_watch = \<lambda>options x.
           accounts_watch (accounts_client (accounts_v1alpha1 client) namespace) (tweaked tweak options) x\<rparr>,
      inf_object = KindAccount, inf_resync = resync_period, inf_indexers = indexers, inf_transform = None\<rparr>"

definition new_account_informer :: "('w, 'p, 'i, 'd) clientset \<Rightarrow> string \<Rightarrow> int64 \<Rightarrow> string list \<Rightarrow> ('w, 'p, 'i, 'f) informer" where
  "new_account_informer client namespace resync_period indexers =
     new_filtered_account_informer client namespace resync_period indexers None"

definition new_filtered_operator_informer ::
  "('w, 'p, 'i, 'd) clientset \<Rightarrow> string \<Rightarrow> int64 \<Rightarrow> string list \<Rightarrow> 'p tweak option \<Rightarrow> ('w, 'p, 'i, 'f) informer" where
  "new_filtered_operator_informer client namespace resync_period indexers tweak =
     \<lparr>inf_list_watch =
        \<lparr>lw_list = \<lambda>options x. object_list_result ObjOperator
           (operators_list (operators_client (accounts_v1alpha1 client) namespace) (tweaked tweak options) x),
         lw_watch = \<lambda>options x.
           operators_watch (operators_client (accounts_v1alpha1 client) namespace) (tweaked tweak options) x\<rparr>,
      inf_object = KindOperator, inf_resync = resync_period, inf_indexers = indexers, inf_transform = None\<rparr>"

definition new_operator_informer :: "('w, 'p, 'i, 'd) clientset \<Rightarrow> string \<Rightarrow> int64 \<Rightarrow> string list \<Rightarrow> ('w, 'p, 'i, 'f) informer" where
  "new_operator_informer client namespace resync_period indexers =
     new_filtered_operator_informer client namespace resync_period indexers None"

definition new_filtered_signing_key_informer ::
  "('w, 'p, 'i, 'd) clientset \<Rightarrow> string \<Rightarrow> int64 \<Rightarrow> string list \<Rightarrow> 'p tweak option \<Rightarrow> ('w, 'p, 'i, 'f) informer" where
  "new_filtered_signing_key_informer client namespace resync_period indexers tweak =
     \<lparr>inf_list_watch =
        \<lparr>lw_list = \<lambda>options x. object_list_result ObjSigningKey
           (signing_keys_list (signing_keys_client (accounts_v1alpha1 client) namespace) (tweaked tweak options) x),
         lw_watch = \<lambda>options x.
           signing_keys_watch (signing_keys_client (accounts_v1alpha1 client) namespace) (tweaked tweak options) x\<rparr>,
      inf_object = KindSigningKey, inf_resync = resync_period, inf_indexers = indexers, inf_transform = None\<rparr>"

definition new_signing_key_informer :: "('w, 'p, 'i, 'd) clientset \<Rightarrow> string \<Rightarrow> int64 \<Rightarrow> string list \<Rightarrow> ('w, 'p, 'i, 'f) informer" where
  "new_signing_key_informer client namespace resync_period indexers =
     new_filtered_signing_key_informer client namespace resync_period indexers None"

definition new_filtered_user_informer ::
  "('w, 'p, 'i, 'd) clientset \<Rightarrow> string \<Rightarrow> int64 \<Rightarrow> string list \<Rightarrow> 'p tweak option \<Rightarrow> ('w, 'p, 'i, 'f) informer" where
  "new_filtered_user_informer client namespace resync_period indexers tweak =
     \<lparr>inf_list_watch =
        \<lparr>lw_list = \<lambda>options x. object_list_result ObjUser
           (users_list (users_client (accounts_v1alpha1 client) namespace) (tweaked tweak options) x),
         lw_watch = \<lambda>options x.
           users_watch (users_client (accounts_v1alpha1 client) namespace) (tweaked tweak options) x\<rparr>,
      inf_object = KindUser, inf_resync = resync_period, inf_indexers = indexers, inf_transform = None\<rparr>"

definition new_user_informer :: "('w, 'p, 'i, 'd) clientset \<Rightarrow> string \<Rightarrow> int64 \<Rightarrow> string list \<Rightarrow> ('w, 'p, 'i, 'f) informer" where
  "new_user_informer client namespace resync_period indexers =
     new_filtered_user_informer client namespace resync_period indexers None"

section \<open>The shared informer factory\<close>

record ('w, 'p, 'i, 'd, 'f) factory =
  fa_client :: "('w, 'p, 'i, 'd) clientset"
  fa_namespace :: string
  fa_tweak :: "'p tweak option"
  fa_default_resync :: int64
  fa_custom_resync :: "object_kind \<Rightarrow> int64 option"
  fa_transform :: "'f option"
  fa_informers :: "(object_kind \<times> ('w, 'p, 'i, 'f) informer) list"
  fa_started :: "object_kind \<Rightarrow> bool"
  fa_shutting_down :: bool
  fa_running :: "object_kind list"

type_synonym ('w, 'p, 'i, 'd, 'f) factory_option =
  "('w, 'p, 'i, 'd, 'f) factory \<Rightarrow> ('w, 'p, 'i, 'd, 'f) factory"

text \<open>The configuration is a map; the list is the order in which it is ranged over.\<close>

definition with_custom_resync_config ::
  "(object_kind \<times> int64) list \<Rightarrow> ('w, 'p, 'i, 'd, 'f) factory_option" where
  "with_custom_resync_config config f =
     foldl (\<lambda>f (k, v). f\<lparr>fa_custom_resync := (fa_custom_resync f)(k \<mapsto> v)\<rparr>) f config"

definition with_tweak_list_options :: "'p tweak option \<Rightarrow> ('w, 'p, 'i, 'd, 'f) factory_option" where
  "with_tweak_list_options tweak f = f\<lparr>fa_tweak := tweak\<rparr>"

definition with_namespace :: "string \<Rightarrow> ('w, 'p, 'i, 'd, 'f) factory_option" where
  "with_namespace namespace f = f\<lparr>fa_namespace := namespace\<rparr>"

definition with_transform :: "'f option \<Rightarrow> ('w, 'p, 'i, 'd, 'f) factory_option" where
  "with_transform transform f = f\<lparr>fa_transform := transform\<rparr>"

definition new_shared_informer_factory_with_options ::
  "('w, 'p, 'i, 'd) clientset \<Rightarrow> int64 \<Rightarrow> ('w, 'p, 'i, 'd, 'f) factory_option list \<Rightarrow> ('w, 'p, 'i, 'd, 'f) factory" where
  "new_shared_informer_factory_with_options client default_resync options =
     foldl (\<lambda>f opt. opt f)
       \<lparr>fa_client = client, fa_namespace = [], fa_tweak = None, fa_default_resync = default_resync,
        fa_custom_resync = Map.empty, fa_transform = None, fa_informers = [], fa_started = \<lambda>_. False,
        fa_shutting_down = False, fa_running = []\<rparr> options"

definition new_shared_informer_factory ::
  "('w, 'p, 'i, 'd) clientset \<Rightarrow> int64 \<Rightarrow> ('w, 'p, 'i, 'd, 'f) factory" where
  "new_shared_informer_factory client default_resync =
     new_shared_informer_factory_with_options client default_resync []"

definition new_filtered_shared_informer_factory ::
  "('w, 'p, 'i, 'd) clientset \<Rightarrow> int64 \<Rightarrow> string \<Rightarrow> 'p tweak option \<Rightarrow> ('w, 'p, 'i, 'd, 'f) factory" where
  "new_filtered_shared_informer_factory client default_resync namespace tweak =
     new_shared_informer_factory_with_options client default_resync
       [with_namespace namespace, with_tweak_list_options tweak]"

text \<open>\<open>Start\<close>: one turn of its loop, and the loop.\<close>

definition start_informer ::
  "('w, 'p, 'i, 'd, 'f) factory \<Rightarrow> object_kind \<times> ('w, 'p, 'i, 'f) informer \<Rightarrow> ('w, 'p, 'i, 'd, 'f) factory" where
  "start_informer f entry = (case entry of (informer_type, informer) \<Rightarrow>
     if \<not> fa_started f informer_type
     then f\<lparr>fa_running := fa_running f @ [informer_type],
            fa_started := (fa_started f)(informer_type := True)\<rparr>
     else f)"

definition factory_start :: "('w, 'p, 'i, 'd, 'f) factory \<Rightarrow> ('w, 'p, 'i, 'd, 'f) factory" where
  "factory_start f = (if fa_shutting_down f then f else foldl start_informer f (fa_informers f))"

text \<open>\<open>Shutdown\<close> sets the flag and returns when no goroutine is left.\<close>

definition factory_shutdown :: "('w, 'p, 'i, 'd, 'f) factory \<Rightarrow> ('w, 'p, 'i, 'd, 'f) factory" where
  "factory_shutdown f = f\<lparr>fa_shutting_down := True\<rparr>"

definition shutdown_returns :: "('w, 'p, 'i, 'd, 'f) factory \<Rightarrow> bool" where
  "shutdown_returns f \<longleftrightarrow> fa_running f = []"

text \<open>\<open>WaitForCacheSync\<close>; what \<open>cache.WaitForCacheSync\<close> says of an informer is a parameter.\<close>

definition wait_for_cache_sync ::
  "(('w, 'p, 'i, 'f) informer \<Rightarrow> bool) \<Rightarrow> ('w, 'p, 'i, 'd, 'f) factory \<Rightarrow> (object_kind \<times> bool) list" where
  "wait_for_cache_sync synced f =
     map (\<lambda>(t, i). (t, synced i)) (filter (\<lambda>(t, i). fa_started f t) (fa_informers f))"

definition informer_for ::
  "object_kind \<Rightarrow> (('w, 'p, 'i, 'd) clientset \<Rightarrow> int64 \<Rightarrow> ('w, 'p, 'i, 'f) informer) \<Rightarrow>
   ('w, 'p, 'i, 'd, 'f) factory \<Rightarrow> ('w, 'p, 'i, 'f) informer \<times> ('w, 'p, 'i, 'd, 'f) factory" where
  "informer_for informer_type new_func f =
     (case map_of (fa_informers f) informer_type of
        Some informer \<Rightarrow> (informer, f)
      | None \<Rightarrow>
          (let resync_period =
                 (case fa_custom_resync f informer_type of Some d \<Rightarrow> d | None \<Rightarrow> fa_default_resync f);
               informer = (new_func (fa_client f) resync_period)\<lparr>inf_transform := fa_transform f\<rparr>
           in (informer, f\<lparr>fa_informers := fa_informers f @ [(informer_type, informer)]\<rparr>)))"

section \<open>Typed access\<close>

text \<open>
  The group, the version and the informer of a type hold the factory, whose state is passed along
  here, and the namespace and the tweak it had when they were made.
\<close>

record 'p accessor =
  ax_namespace :: string
  ax_tweak :: "'p tweak option"

definition new_group :: "string \<Rightarrow> 'p tweak option \<Rightarrow> 'p accessor" where
  "new_group namespace tweak = \<lparr>ax_namespace = namespace, ax_tweak = tweak\<rparr>"

definition new_version :: "string \<Rightarrow> 'p tweak option \<Rightarrow> 'p accessor" where
  "new_version namespace tweak = \<lparr>ax_namespace = namespace, ax_tweak = tweak\<rparr>"

definition factory_accounts :: "('w, 'p, 'i, 'd, 'f) factory \<Rightarrow> 'p accessor" where
  "factory_accounts f = new_group (fa_namespace f) (fa_tweak f)"

definition group_v1alpha1 :: "'p accessor \<Rightarrow> 'p accessor" where
  "group_v1alpha1 g = new_version (ax_namespace g) (ax_tweak g)"

text \<open>\<open>cache.NamespaceIndex\<close>, the one indexer of the informers.\<close>

definition namespace_index :: string where
  "namespace_index = ''namespace''"

definition version_accounts :: "'p accessor \<Rightarrow> 'p accessor" where
  "version_accounts v = \<lparr>ax_namespace = ax_namespace v, ax_tweak = ax_tweak v\<rparr>"

definition default_account_informer :: "'p accessor \<Rightarrow> ('w, 'p, 'i, 'd) clientset \<Rightarrow> int64 \<Rightarrow> ('w, 'p, 'i, 'f) informer" where
  "default_account_informer a client resync_period =
     new_filtered_account_informer client (ax_namespace a) resync_period [namespace_index] (ax_tweak a)"

definition account_informer :: "'p accessor \<Rightarrow> ('w, 'p, 'i, 'd, 'f) factory \<Rightarrow> ('w, 'p, 'i, 'f) informer \<times> ('w, 'p, 'i, 'd, 'f) factory" where
  "account_informer a f = informer_for KindAccount (default_account_informer a) f"

definition account_informer_lister ::
  "(('w, 'p, 'i, 'f) informer \<Rightarrow> indexer) \<Rightarrow> 'p accessor \<Rightarrow> ('w, 'p, 'i, 'd, 'f) factory \<Rightarrow> account_lister \<times> ('w, 'p, 'i, 'd, 'f) factory" where
  "account_informer_lister get_indexer a f =
     (case account_informer a f of (informer, f) \<Rightarrow> (new_account_lister (get_indexer informer), f))"

definition version_operators :: "'p accessor \<Rightarrow> 'p accessor" where
  "version_operators v = \<lparr>ax_namespace = ax_namespace v, ax_tweak = ax_tweak v\<rparr>"

definition default_operator_informer :: "'p accessor \<Rightarrow> ('w, 'p, 'i, 'd) clientset \<Rightarrow> int64 \<Rightarrow> ('w, 'p, 'i, 'f) informer" where
  "default_operator_informer a client resync_period =
     new_filtered_operator_informer client (ax_namespace a) resync_period [namespace_index] (ax_tweak a)"

definition operator_informer :: "'p accessor \<Rightarrow> ('w, 'p, 'i, 'd, 'f) factory \<Rightarrow> ('w, 'p, 'i, 'f) informer \<times> ('w, 'p, 'i, 'd, 'f) factory" where
  "operator_informer a f = informer_for KindOperator (default_operator_informer a) f"

definition operator_informer_lister ::
  "(('w, 'p, 'i, 'f) informer \<Rightarrow> indexer) \<Rightarrow> 'p accessor \<Rightarrow> ('w, 'p, 'i, 'd, 'f) factory \<Rightarrow> operator_lister \<times> ('w, 'p, 'i, 'd, 'f) factory" where
  "operator_informer_lister get_indexer a f =
     (case operator_informer a f of (informer, f) \<Rightarrow> (new_operator_lister (get_indexer informer), f))"

definition version_signing_keys :: "'p accessor \<Rightarrow> 'p accessor" where
  "version_signing_keys v = \<lparr>ax_namespace = ax_namespace v, ax_tweak = ax_tweak v\<rparr>"

definition default_signing_key_informer :: "'p accessor \<Rightarrow> ('w, 'p, 'i, 'd) clientset \<Rightarrow> int64 \<Rightarrow> ('w, 'p, 'i, 'f) informer" where
  "default_signing_key_informer a client resync_period =
     new_filtered_signing_key_informer client (ax_namespace a) resync_period [namespace_index] (ax_tweak a)"

definition signing_key_informer :: "'p accessor \<Rightarrow> ('w, 'p, 'i, 'd, 'f) factory \<Rightarrow> ('w, 'p, 'i, 'f) informer \<times> ('w, 'p, 'i, 'd, 'f) factory" where
  "signing_key_informer a f = informer_for KindSigningKey (default_signing_key_informer a) f"

definition signing_key_informer_lister ::
  "(('w, 'p, 'i, 'f) informer \<Rightarrow> indexer) \<Rightarrow> 'p accessor \<Rightarrow> ('w, 'p, 'i, 'd, 'f) factory \<Rightarrow> signing_key_lister \<times> ('w, 'p, 'i, 'd, 'f) factory" where
  "signing_key_informer_lister get_indexer a f =
     (case signing_key_informer a f of (informer, f) \<Rightarrow> (new_signing_key_lister (get_indexer informer), f))"

definition version_users :: "'p accessor \<Rightarrow> 'p accessor" where
  "version_users v = \<lparr>ax_namespace = ax_namespace v, ax_tweak = ax_tweak v\<rparr>"

definition default_user_informer :: "'p accessor \<Rightarrow> ('w, 'p, 'i, 'd) clientset \<Rightarrow> int64 \<Rightarrow> ('w, 'p, 'i, 'f) informer" where
  "default_user_informer a client resync_period =
     new_filtered_user_informer client (ax_namespace a) resync_period [namespace_index] (ax_tweak a)"

definition user_informer :: "'p accessor \<Rightarrow> ('w, 'p, 'i, 'd, 'f) factory \<Rightarrow> ('w, 'p, 'i, 'f) informer \<times> ('w, 'p, 'i, 'd, 'f) factory" where
  "user_informer a f = informer_for KindUser (default_user_informer a) f"

definition user_informer_lister ::
  "(('w, 'p, 'i, 'f) informer \<Rightarrow> indexer) \<Rightarrow> 'p accessor \<Rightarrow> ('w, 'p, 'i, 'd, 'f) factory \<Rightarrow> user_lister \<times> ('w, 'p, 'i, 'd, 'f) factory" where
  "user_informer_lister get_indexer a f =
     (case user_informer a f of (informer, f) \<Rightarrow> (new_user_lister (get_indexer informer), f))"

section \<open>Access by resource\<close>

record ('w, 'p, 'i, 'f) generic_informer =
  gi_informer :: "('w, 'p, 'i, 'f) informer"
  gi_resource :: "string \<times> string"

definition generic_informer_informer :: "('w, 'p, 'i, 'f) generic_informer \<Rightarrow> ('w, 'p, 'i, 'f) informer" where
  "generic_informer_informer g = gi_informer g"

text \<open>\<open>Lister\<close> hands the indexer and the resource to \<open>cache.NewGenericLister\<close>.\<close>

definition generic_informer_lister ::
  "(('w, 'p, 'i, 'f) informer \<Rightarrow> indexer) \<Rightarrow> (indexer \<Rightarrow> string \<times> string \<Rightarrow> 'g) \<Rightarrow>
   ('w, 'p, 'i, 'f) generic_informer \<Rightarrow> 'g" where
  "generic_informer_lister get_indexer new_generic_lister g =
     new_generic_lister (get_indexer (generic_informer_informer g)) (gi_resource g)"

definition no_informer :: "gvr \<Rightarrow> error" where
  "no_informer r = ErrorString (''no informer found for '' @ gvr_group r @ ''/'' @ gvr_version r
     @ '', Resource='' @ gvr_resource r)"

definition generic_of ::
  "gvr \<Rightarrow> ('w, 'p, 'i, 'f) informer \<times> ('w, 'p, 'i, 'd, 'f) factory \<Rightarrow>
   (error + ('w, 'p, 'i, 'f) generic_informer) \<times> ('w, 'p, 'i, 'd, 'f) factory" where
  "generic_of r p = (case p of (informer, f) \<Rightarrow>
     (Inr \<lparr>gi_informer = informer, gi_resource = (gvr_group r, gvr_resource r)\<rparr>, f))"

definition for_resource ::
  "gvr \<Rightarrow> ('w, 'p, 'i, 'd, 'f) factory \<Rightarrow>
   (error + ('w, 'p, 'i, 'f) generic_informer) \<times> ('w, 'p, 'i, 'd, 'f) factory" where
  "for_resource r f =
     (let v = group_v1alpha1 (factory_accounts f) in
      if r = with_resource ''accounts'' then generic_of r (account_informer (version_accounts v) f)
      else if r = with_resource ''operators'' then generic_of r (operator_informer (version_operators v) f)
      else if r = with_resource ''signingkeys'' then generic_of r (signing_key_informer (version_signing_keys v) f)
      else if r = with_resource ''users'' then generic_of r (user_informer (version_users v) f)
      else (Inl (no_informer r), f))"

end
