(* ===== verification/Idle_Client.thy ===== *)
theory Idle_Client
  imports Clientsets
begin

text \<open>
  A concrete client for the witnesses: a REST client that answers every request with the empty
  object and no error, a clientset on it and the constructors that make them.
\<close>

definition idle_rest :: "('x, 't, unit, unit) rest" where
  "idle_rest = \<lparr>do_into = \<lambda>r x w. ((x, None), w), do_list_into = \<lambda>r l w. ((l, None), w),
     do_error = \<lambda>r w. (None, w), do_watch = \<lambda>r w. ((None, None), w)\<rparr>"

text \<open>One that refuses everything but GET requests.\<close>

definition read_only_rest :: "('x, 't, unit, unit) rest" where
  "read_only_rest = \<lparr>do_into = \<lambda>r x w. ((x, if req_verb r = Verb_Get then None
       else Some (ErrorString ''refused'')), w),
     do_list_into = \<lambda>r l w. ((l, None), w),
     do_error = \<lambda>r w. (Some (ErrorString ''refused''), w), do_watch = \<lambda>r w. ((None, None), w)\<rparr>"

definition idle_interface :: "('x, unit, unit) rest_interface" where
  "idle_interface = \<lparr>rest_accounts = idle_rest, rest_operators = idle_rest, rest_signing_keys = idle_rest,
     rest_users = idle_rest\<rparr>"

definition idle_clientset :: "('x, unit, unit, unit) clientset" where
  "idle_clientset = \<lparr>cs_discovery_client = (), cs_accounts_v1alpha1 = \<lparr>gc_rest = idle_interface\<rparr>\<rparr>"

definition idle_client_go :: "('x, unit, unit, unit, unit, unit, unit) client_go" where
  "idle_client_go = \<lparr>default_kubernetes_user_agent = ''agent'', codecs_without_conversion = ''codecs'',
     http_client_for = \<lambda>c. Inr (), rest_client_for_config_and_client = \<lambda>c h. Inr idle_interface,
     new_token_bucket_rate_limiter = \<lambda>q b. (), new_discovery_client_for_config_and_client = \<lambda>c h. Inr (),
     new_discovery_client = \<lambda>r. ()\<rparr>"

definition idle_config :: "(unit, unit) rest_config" where
  "idle_config = \<lparr>cfg_group_version = None, cfg_api_path = [], cfg_negotiated_serializer = [],
     cfg_user_agent = [], cfg_rate_limiter = None, cfg_qps = 5, cfg_burst = 10, cfg_rest = ()\<rparr>"

end
