(* ===== verification/Informer_Properties.thy ===== *)
theory Informer_Properties
  imports Informers Idle_Client
begin

text \<open>
  The factory as a state machine: every call of its methods and every goroutine that ends is a step.
  \<open>factory_step f l f'\<close> also records the goroutines the step launches. In every run each informer is
  launched at most once, whatever the order and the number of calls of \<open>Start\<close>, and none after
  \<open>Shutdown\<close>; the informer of a type is made once, by the factory's settings, and stays.
\<close>

section \<open>Steps\<close>

definition launched :: "('w, 'p, 'i, 'd, 'f) factory \<Rightarrow> object_kind list" where
  "launched f = (if fa_shutting_down f then []
     else filter (\<lambda>t. \<not> fa_started f t) (map fst (fa_informers f)))"

inductive factory_step ::
  "('w, 'p, 'i, 'd, 'f) factory \<Rightarrow> object_kind list \<Rightarrow> ('w, 'p, 'i, 'd, 'f) factory \<Rightarrow> bool" where
  step_informer_for:
    "(\<And>c d. inf_object (new_func c d) = t) \<Longrightarrow> (\<And>c d. inf_resync (new_func c d) = d) \<Longrightarrow>
     factory_step f [] (snd (informer_for t new_func f))"
| step_start: "factory_step f (launched f) (factory_start f)"
| step_shutdown: "factory_step f [] (factory_shutdown f)"
| step_done: "t \<in> set (fa_running f) \<Longrightarrow> factory_step f [] (f\<lparr>fa_running := remove1 t (fa_running f)\<rparr>)"

inductive factory_run ::
  "('w, 'p, 'i, 'd, 'f) factory \<Rightarrow> object_kind list \<Rightarrow> ('w, 'p, 'i, 'd, 'f) factory \<Rightarrow> bool" where
  run_nil: "factory_run f [] f"
| run_step: "factory_run f l f' \<Longrightarrow> factory_step f' l' f'' \<Longrightarrow> factory_run f (l @ l') f''"

inductive_cases factory_stepE: "factory_step f l f'"

section \<open>Invariants\<close>

definition settings :: "('w, 'p, 'i, 'd, 'f) factory \<Rightarrow> object_kind \<Rightarrow> int64" where
  "settings f t = (case fa_custom_resync f t of Some d \<Rightarrow> d | None \<Rightarrow> fa_default_resync f)"

definition factory_wf :: "('w, 'p, 'i, 'd, 'f) factory \<Rightarrow> bool" where
  "factory_wf f \<longleftrightarrow>
     distinct (map fst (fa_informers f)) \<and>
     (\<forall>t. fa_started f t \<longrightarrow> t \<in> fst ` set (fa_informers f)) \<and>
     distinct (fa_running f) \<and> (\<forall>t \<in> set (fa_running f). fa_started f t) \<and>
     (\<forall>(t, i) \<in> set (fa_informers f).
        inf_object i = t \<and> inf_resync i = settings f t \<and> inf_transform i = fa_transform f)"

definition fixed_settings :: "('w, 'p, 'i, 'd, 'f) factory \<Rightarrow> ('w, 'p, 'i, 'd, 'f) factory \<Rightarrow> bool" where
  "fixed_settings f f' \<longleftrightarrow> fa_custom_resync f' = fa_custom_resync f \<and> fa_default_resync f' = fa_default_resync f
     \<and> fa_transform f' = fa_transform f \<and> fa_client f' = fa_client f
     \<and> fa_namespace f' = fa_namespace f \<and> fa_tweak f' = fa_tweak f"

lemma start_loop:
  assumes "distinct (map fst xs)"
  shows "foldl start_informer f xs =
    f\<lparr>fa_running := fa_running f @ filter (\<lambda>t. \<not> fa_started f t) (map fst xs),
      fa_started := \<lambda>t. fa_started f t \<or> t \<in> fst ` set xs\<rparr>"
  using assms
proof (induction xs arbitrary: f)
  case (Cons x xs)
  obtain t i where x: "x = (t, i)" by (cases x)
  have "filter (\<lambda>u. \<not> ((fa_started f)(t := True)) u) (map fst xs) = filter (\<lambda>u. \<not> fa_started f u) (map fst xs)"
    using Cons.prems x by (intro filter_cong) (auto simp: image_iff)
  moreover have "(\<lambda>u. fa_started f u \<or> u = t \<or> u \<in> fst ` set xs) = (\<lambda>u. fa_started f u \<or> u \<in> fst ` set xs)"
    if "fa_started f t" using that by auto
  moreover have "(\<lambda>u. ((fa_started f)(t := True)) u \<or> u \<in> fst ` set xs) = (\<lambda>u. fa_started f u \<or> u = t \<or> u \<in> fst ` set xs)"
    by auto
  ultimately show ?case
    using Cons x by (simp add: start_informer_def)
qed simp

lemma factory_start_eq:
  assumes "factory_wf f"
  shows "factory_start f =
    (if fa_shutting_down f then f
     else f\<lparr>fa_running := fa_running f @ launched f,
            fa_started := \<lambda>t. fa_started f t \<or> t \<in> fst ` set (fa_informers f)\<rparr>)"
  using assms start_loop [of "fa_informers f" f] by (simp add: factory_start_def factory_wf_def launched_def)

lemma informer_for_cases:
  obtains i where "map_of (fa_informers f) t = Some i" "informer_for t g f = (i, f)"
  | i where "map_of (fa_informers f) t = None" "i = (g (fa_client f) (settings f t))\<lparr>inf_transform := fa_transform f\<rparr>"
      "informer_for t g f = (i, f\<lparr>fa_informers := fa_informers f @ [(t, i)]\<rparr>)"
  by (cases "map_of (fa_informers f) t") (auto simp: informer_for_def settings_def Let_def)

lemma settings_cong:
  "fa_custom_resync f' = fa_custom_resync f \<Longrightarrow> fa_default_resync f' = fa_default_resync f \<Longrightarrow>
   settings f' = settings f"
  by (rule ext) (simp add: settings_def split: option.split)

lemma step_preserves:
  assumes "factory_step f l f'" and "factory_wf f"
  shows "factory_wf f' \<and> fixed_settings f f'
    \<and> (\<forall>t. fa_started f' t \<longleftrightarrow> fa_started f t \<or> t \<in> set l)
    \<and> distinct l \<and> (\<forall>t \<in> set l. \<not> fa_started f t)
    \<and> (fa_shutting_down f \<longrightarrow> fa_shutting_down f' \<and> l = [])
    \<and> (\<forall>t i. map_of (fa_informers f) t = Some i \<longrightarrow> map_of (fa_informers f') t = Some i)"
  using assms(1)
proof (cases rule: factory_step.cases)
  case (step_informer_for new_func t)
  show ?thesis
  proof (rule informer_for_cases [of f t new_func])
    fix i assume "map_of (fa_informers f) t = Some i" "informer_for t new_func f = (i, f)"
    with step_informer_for assms(2) show ?thesis by (simp add: fixed_settings_def)
  next
    fix i assume *: "map_of (fa_informers f) t = None"
      "i = (new_func (fa_client f) (settings f t))\<lparr>inf_transform := fa_transform f\<rparr>"
      "informer_for t new_func f = (i, f\<lparr>fa_informers := fa_informers f @ [(t, i)]\<rparr>)"
    have i: "inf_object i = t" "inf_resync i = settings f t" "inf_transform i = fa_transform f"
      using *(2) step_informer_for(3,4) by simp_all
    have f': "f' = f\<lparr>fa_informers := fa_informers f @ [(t, i)]\<rparr>" using *(3) step_informer_for(2) by simp
    have new: "t \<notin> fst ` set (fa_informers f)" using *(1) by (simp add: map_of_eq_None_iff)
    have s: "settings f' = settings f" by (rule settings_cong) (simp_all add: f')
    have "factory_wf f'"
      using assms(2) i new s unfolding factory_wf_def by (auto simp: f')
    with step_informer_for(1) show ?thesis
      by (auto simp: f' fixed_settings_def map_add_def split: option.splits)
  qed
next
  case step_start
  have s: "settings (factory_start f) = settings f"
    by (rule settings_cong) (simp_all add: factory_start_eq [OF assms(2)])
  have "factory_wf (factory_start f)"
    using assms(2) s unfolding factory_wf_def factory_start_eq [OF assms(2)]
    by (auto simp: launched_def)
  with step_start assms(2) show ?thesis
    by (auto simp: factory_start_eq [OF assms(2)] launched_def fixed_settings_def factory_wf_def)
next
  case step_shutdown
  have "settings f' = settings f" by (rule settings_cong) (simp_all add: step_shutdown factory_shutdown_def)
  with step_shutdown assms(2) show ?thesis
    by (auto simp: factory_shutdown_def factory_wf_def fixed_settings_def)
next
  case (step_done t)
  have "settings f' = settings f" by (rule settings_cong) (simp_all add: step_done)
  with step_done assms(2) show ?thesis
    by (auto simp: factory_wf_def fixed_settings_def dest: notin_set_remove1)
qed

lemma run_preserves:
  assumes "factory_run f l f'" and "factory_wf f"
  shows "factory_wf f' \<and> fixed_settings f f'
    \<and> (\<forall>t. fa_started f' t \<longleftrightarrow> fa_started f t \<or> t \<in> set l)
    \<and> distinct l \<and> (\<forall>t \<in> set l. \<not> fa_started f t)
    \<and> (fa_shutting_down f \<longrightarrow> fa_shutting_down f' \<and> l = [])
    \<and> (\<forall>t i. map_of (fa_informers f) t = Some i \<longrightarrow> map_of (fa_informers f') t = Some i)"
  using assms
proof (induction rule: factory_run.induct)
  case (run_nil f)
  then show ?case by (simp add: fixed_settings_def)
next
  case (run_step f l f' l' f'')
  note IH = run_step.IH [OF run_step.prems]
  from step_preserves [OF run_step.hyps(2)] IH show ?case
    by (auto simp: fixed_settings_def)
qed

section \<open>New factories\<close>

text \<open>The options of the package.\<close>

definition factory_options :: "('w, 'p, 'i, 'd, 'f) factory_option set" where
  "factory_options = range with_custom_resync_config \<union> range with_tweak_list_options
     \<union> range with_namespace \<union> range with_transform"

definition unused :: "('w, 'p, 'i, 'd, 'f) factory \<Rightarrow> bool" where
  "unused f \<longleftrightarrow> fa_informers f = [] \<and> (\<forall>t. \<not> fa_started f t) \<and> \<not> fa_shutting_down f \<and> fa_running f = []"

lemma custom_resync_unused: "unused f \<Longrightarrow> unused (with_custom_resync_config config f)"
proof (induction config arbitrary: f)
  case (Cons kv config)
  then have "unused (f\<lparr>fa_custom_resync := (fa_custom_resync f)(fst kv \<mapsto> snd kv)\<rparr>)" by (simp add: unused_def)
  from Cons.IH [OF this] show ?case by (simp add: with_custom_resync_config_def case_prod_beta)
qed (simp add: with_custom_resync_config_def)

lemma options_unused:
  assumes "set opts \<subseteq> factory_options" and "unused f"
  shows "unused (foldl (\<lambda>f opt. opt f) f opts)"
  using assms
proof (induction opts arbitrary: f)
  case (Cons opt opts)
  have "unused (opt f)"
    using Cons.prems custom_resync_unused
    by (auto simp: factory_options_def with_tweak_list_options_def with_namespace_def with_transform_def unused_def)
  with Cons show ?case by simp
qed simp

lemma new_factory_unused:
  assumes "set opts \<subseteq> factory_options"
  shows "unused (new_shared_informer_factory_with_options client d opts)"
  unfolding new_shared_informer_factory_with_options_def
  by (rule options_unused [OF assms]) (simp add: unused_def)

lemma unused_wf: "unused f \<Longrightarrow> factory_wf f"
  by (simp add: unused_def factory_wf_def)

lemmas new_factory_wf = new_factory_unused [THEN unused_wf]

section \<open>Properties\<close>

text \<open>C23: In every run of a shared informer factory, made with any options and driven by any sequence of
  calls of \<open>InformerFor\<close>, \<open>Start\<close> and \<open>Shutdown\<close> and of informers that stop, each informer is launched at
  most once, although \<open>Start\<close> may be called any number of times; the types marked as started are
  exactly those launched, all of them registered, and every goroutine still running is one of them.\<close>

theorem informers_run_once:
  assumes "set opts \<subseteq> factory_options"
    and "factory_run (new_shared_informer_factory_with_options client resync opts) l f"
  shows "distinct l \<and> (\<forall>t. fa_started f t \<longleftrightarrow> t \<in> set l)
    \<and> set l \<subseteq> fst ` set (fa_informers f) \<and> distinct (fa_running f) \<and> set (fa_running f) \<subseteq> set l"
  using run_preserves [OF assms(2) new_factory_wf [OF assms(1)]] new_factory_unused [OF assms(1)]
  by (auto simp: factory_wf_def unused_def)

lemma run_trans_step:
  assumes "factory_run f l f'" and "factory_step f' [] f''"
  shows "factory_run f l f''"
  using factory_run.run_step [OF assms] by simp

lemma all_stop:
  "\<exists>f'. factory_run f [] f' \<and> shutdown_returns f'"
proof (induction "length (fa_running f)" arbitrary: f)
  case 0
  then show ?case using run_nil [of f] by (auto simp: shutdown_returns_def)
next
  case (Suc n)
  then obtain t ts where ts: "fa_running f = t # ts" by (cases "fa_running f") auto
  let ?g = "f\<lparr>fa_running := remove1 t (fa_running f)\<rparr>"
  have step: "factory_step f [] ?g" by (rule step_done) (simp add: ts)
  from Suc.hyps(1) [of ?g] Suc.hyps(2) ts obtain f' where f': "factory_run ?g [] f'" "shutdown_returns f'"
    by auto
  have "factory_run f ([] @ []) f'" if "factory_run ?g l f'" "l = []" for l
    using that
  proof (induction ?g l f' rule: factory_run.induct)
    case run_nil
    with factory_run.run_step [OF factory_run.run_nil step] show ?case by simp
  next
    case (run_step l f' l' f'')
    then show ?case using factory_run.run_step [of f "[]" f' "[]" f''] by auto
  qed
  with f' show ?case by auto
qed

lemma run_after_shutdown:
  assumes "factory_run f l f'" and "factory_wf f" "fa_shutting_down f"
  shows "l = [] \<and> fa_shutting_down f' \<and> set (fa_running f') \<subseteq> set (fa_running f)"
  using assms
proof (induction rule: factory_run.induct)
  case (run_step f l f' l' f'')
  note IH = run_step.IH [OF run_step.prems]
  have wf: "factory_wf f'" using run_preserves [OF run_step.hyps(1) run_step.prems(1)] by simp
  have "set (fa_running f'') \<subseteq> set (fa_running f')"
    using run_step.hyps(2)
  proof (cases rule: factory_step.cases)
    case (step_informer_for g t)
    then show ?thesis by (auto intro: informer_for_cases [of f' t g])
  next
    case step_start
    then show ?thesis using IH by (simp add: factory_start_def)
  next
    case step_shutdown
    then show ?thesis by (simp add: factory_shutdown_def)
  next
    case (step_done t)
    then show ?thesis by (simp add: set_remove1_subset)
  qed
  with IH step_preserves [OF run_step.hyps(2) wf] show ?case by auto
qed simp

text \<open>C24: After \<open>Shutdown\<close> no informer is launched any more, whatever is registered and however often
  \<open>Start\<close> is called; the goroutines that run are among those that ran at the call, and \<open>Shutdown\<close>
  returns once they have stopped, which is always possible.\<close>

theorem shutdown_stops_informers:
  assumes "set opts \<subseteq> factory_options"
    and "factory_run (new_shared_informer_factory_with_options client resync opts) l f"
    and "factory_run (factory_shutdown f) l' f'"
  shows "l' = [] \<and> set (fa_running f') \<subseteq> set (fa_running f)
    \<and> (\<exists>f''. factory_run f' [] f'' \<and> shutdown_returns f'')"
proof -
  have "factory_wf f" using run_preserves [OF assms(2) new_factory_wf [OF assms(1)]] by simp
  then have "factory_wf (factory_shutdown f)" using step_preserves [OF step_shutdown] by blast
  from run_after_shutdown [OF assms(3) this] all_stop [of f'] show ?thesis
    by (simp add: factory_shutdown_def)
qed

text \<open>The informer of a type is made once: what \<open>InformerFor\<close> returns in a reachable state is an informer
  of that type with the factory's transform and the type's resync period, or the default one where
  none is set, and in every later state \<open>InformerFor\<close> returns the same one and changes nothing,
  whatever function it is given.\<close>

theorem informer_is_shared:
  fixes client :: "('w, 'p, 'i, 'd) clientset"
  assumes "set opts \<subseteq> factory_options"
    and "factory_run (new_shared_informer_factory_with_options client resync opts) l f"
    and "\<And>c d. inf_object (g c d) = t" "\<And>c d. inf_resync (g c d) = d"
    and "informer_for t g f = (i, f1)" and "factory_run f1 l' f2"
  shows "informer_for t g' f2 = (i, f2) \<and> inf_object i = t \<and> inf_transform i = fa_transform f
    \<and> inf_resync i = (case fa_custom_resync f t of Some d \<Rightarrow> d | None \<Rightarrow> fa_default_resync f)"
proof -
  have wf: "factory_wf f" using run_preserves [OF assms(2) new_factory_wf [OF assms(1)]] by simp
  have step: "factory_step f [] f1"
    using step_informer_for [of g t f] assms(3-5) by simp
  have wf1: "factory_wf f1" "fixed_settings f f1" using step_preserves [OF step wf] by simp_all
  have i: "map_of (fa_informers f1) t = Some i"
    using assms(5) by (rule_tac informer_for_cases [of f t g]) (auto simp: map_add_def)
  have "map_of (fa_informers f2) t = Some i"
    using run_preserves [OF assms(6) wf1(1)] i by simp
  then have "informer_for t g' f2 = (i, f2)" by (simp add: informer_for_def)
  moreover have "(t, i) \<in> set (fa_informers f1)" using i by (rule map_of_SomeD)
  then have "inf_object i = t \<and> inf_resync i = settings f1 t \<and> inf_transform i = fa_transform f1"
    using wf1(1) by (auto simp: factory_wf_def)
  moreover have "settings f1 = settings f" "fa_transform f1 = fa_transform f"
    using wf1(2) by (auto simp: fixed_settings_def intro: settings_cong)
  ultimately show ?thesis by (simp add: settings_def)
qed

section \<open>A run\<close>

definition idle_factory :: "(unit, unit, unit, unit, unit) factory" where
  "idle_factory = new_shared_informer_factory_with_options idle_clientset 0
     [with_namespace ''ns'', with_custom_resync_config [(KindUser, 60)]]"

lemma idle_options: "set [with_namespace ''ns'', with_custom_resync_config [(KindUser, 60)]] \<subseteq> factory_options"
  by (auto simp: factory_options_def)

lemma idle_wf: "factory_wf idle_factory"
  unfolding idle_factory_def by (rule new_factory_wf [OF idle_options])

definition idle_access :: "unit accessor" where
  "idle_access = group_v1alpha1 (factory_accounts idle_factory)"

text \<open>Account's informer, Start twice, User's informer, Start, the account's informer stops.\<close>

definition idle_started :: "(unit, unit, unit, unit, unit) factory" where
  "idle_started = factory_start (snd (user_informer (version_users idle_access)
     (factory_start (factory_start (snd (account_informer (version_accounts idle_access) idle_factory))))))"

lemma generated_informers:
  "inf_object (default_account_informer a c d) = KindAccount"
  "inf_resync (default_account_informer a c d) = d"
  "inf_object (default_user_informer a c d) = KindUser"
  "inf_resync (default_user_informer a c d) = d"
  by (simp_all add: default_account_informer_def new_filtered_account_informer_def
      default_user_informer_def new_filtered_user_informer_def)

lemmas idle_defs = idle_factory_def new_shared_informer_factory_with_options_def with_namespace_def
  with_custom_resync_config_def account_informer_def user_informer_def informer_for_def

lemma idle_run_fields:
  "launched (snd (account_informer a idle_factory)) = [KindAccount]"
  "launched (factory_start (snd (account_informer a idle_factory))) = []"
  "launched (snd (user_informer b (factory_start (factory_start (snd (account_informer a idle_factory)))))) = [KindUser]"
  by (simp_all add: launched_def idle_defs Let_def factory_start_def start_informer_def)

lemma idle_run: "factory_run idle_factory [KindAccount, KindUser] idle_started"
proof -
  let ?f1 = "snd (account_informer (version_accounts idle_access) idle_factory)"
  let ?f2 = "factory_start ?f1" let ?f3 = "factory_start ?f2"
  let ?f4 = "snd (user_informer (version_users idle_access) ?f3)"
  have 1: "factory_step idle_factory [] ?f1" unfolding account_informer_def
    by (rule step_informer_for) (rule generated_informers)+
  have 2: "factory_step ?f1 [KindAccount] ?f2" using step_start [of ?f1] by (simp only: idle_run_fields)
  have 3: "factory_step ?f2 [] ?f3" using step_start [of ?f2] by (simp only: idle_run_fields)
  have 4: "factory_step ?f3 [] ?f4" unfolding user_informer_def
    by (rule step_informer_for) (rule generated_informers)+
  have 5: "factory_step ?f4 [KindUser] idle_started" unfolding idle_started_def
    using step_start [of ?f4] by (simp only: idle_run_fields)
  from run_step [OF run_step [OF run_step [OF run_step [OF run_step [OF run_nil 1] 2] 3] 4] 5]
  show ?thesis by simp
qed

theorem informers_run_once_witness:
  "factory_run idle_factory [KindAccount, KindUser] idle_started \<and>
   distinct [KindAccount, KindUser] \<and> fa_started idle_started KindUser \<and> \<not> fa_started idle_started KindOperator"
  using informers_run_once [OF idle_options idle_run [unfolded idle_factory_def]] idle_run by simp

theorem shutdown_stops_informers_witness:
  "factory_run (factory_shutdown idle_started) [] (factory_start (factory_shutdown idle_started)) \<and>
   (\<exists>f. factory_run (factory_start (factory_shutdown idle_started)) [] f \<and> shutdown_returns f)"
proof -
  have l: "launched (factory_shutdown idle_started) = []" by (simp add: launched_def factory_shutdown_def)
  have run: "factory_run (factory_shutdown idle_started) [] (factory_start (factory_shutdown idle_started))"
    using run_step [OF run_nil step_start [of "factory_shutdown idle_started"]] by (simp add: l)
  from shutdown_stops_informers [OF idle_options idle_run [unfolded idle_factory_def] run] run
  show ?thesis by blast
qed

theorem informer_is_shared_witness:
  "\<exists>i f. account_informer idle_access idle_started = (i, f) \<and> inf_resync i = 0 \<and> inf_object i = KindAccount \<and>
     account_informer idle_access f = (i, f)"
proof -
  obtain i f where 1: "informer_for KindAccount (default_account_informer idle_access) idle_started = (i, f)"
    by (cases "informer_for KindAccount (default_account_informer idle_access) idle_started")
  have c: "fa_custom_resync idle_started KindAccount = None" "fa_default_resync idle_started = 0"
    using run_preserves [OF idle_run idle_wf]
    by (simp_all add: fixed_settings_def idle_factory_def new_shared_informer_factory_with_options_def
        with_namespace_def with_custom_resync_config_def)
  from informer_is_shared [OF idle_options idle_run [unfolded idle_factory_def] generated_informers(1,2) 1 run_nil,
      of "default_account_informer idle_access"] 1 c
  show ?thesis by (auto simp: account_informer_def)
qed

end
