(* ===== verification/Manager.thy ===== *)
theory Manager
  imports Watchers Clientsets
begin

text \<open>
  The program, cmd/main.go, and the registration of the controllers it calls (SetupWithManager in
  the four controller files). What controller-runtime, client-go and the flag package do is a
  parameter: \<open>main_lib\<close> gives each call's error and the world after it. The state of the run is the
  world and the calls made so far with their outcomes; \<open>Inl (n, message)\<close> is \<open>os.Exit(n)\<close> after
  \<open>setupLog.Error\<close> with that message, and a run that reaches its end returns from main.
  \<open>ctrl.GetConfigOrDie\<close>, which ends the process itself when there is no configuration, is part of
  the library's \<open>new_manager\<close>; the run starts after it.
\<close>

section \<open>Registration\<close>

text \<open>
  What a \<open>SetupWithManager\<close> hands to the builder of controller-runtime: \<open>For\<close>, \<open>Owns\<close> and \<open>Watches\<close>
  with their handlers, in order, and the name of the event recorder it asks the manager for.
\<close>

record ('x, 'o) registration =
  reg_recorder :: "string option"
  reg_for :: object_kind
  reg_owns :: "object_kind list"
  reg_watches :: "(object_kind \<times> (client_object \<Rightarrow> (('x, 'o) st, request list) go)) list"

definition KindSecret :: object_kind where
  "KindSecret = KindOther ''Secret''"

definition operator_registration :: "'x env \<Rightarrow> ('x, 'o) registration" where
  "operator_registration E =
     \<lparr>reg_recorder = Some ''operator-controller'', reg_for = KindOperator, reg_owns = [KindSecret],
      reg_watches = [(KindAccount, \<lambda>obj. ret (operator_account_watcher obj)),
        (KindSigningKey, \<lambda>obj. ret (operator_signing_key_watcher (e_mach E) obj))]\<rparr>"

definition account_registration :: "'x env \<Rightarrow> ('x, 'o) registration" where
  "account_registration E =
     \<lparr>reg_recorder = Some ''account-controller'', reg_for = KindAccount, reg_owns = [KindSecret],
      reg_watches = [(KindSigningKey, \<lambda>obj. ret (account_signing_key_watcher (e_mach E) obj)),
        (KindOperator, account_operator_watcher E)]\<rparr>"

definition user_registration :: "'x env \<Rightarrow> ('x, 'o) registration" where
  "user_registration E =
     \<lparr>reg_recorder = Some ''user-controller'', reg_for = KindUser, reg_owns = [KindSecret],
      reg_watches = [(KindAccount, user_account_watcher E)]\<rparr>"

definition signing_key_registration :: "'x env \<Rightarrow> ('x, 'o) registration" where
  "signing_key_registration E =
     \<lparr>reg_recorder = None, reg_for = KindSigningKey, reg_owns = [KindSecret],
      reg_watches = [(KindOperator, signing_key_operator_watcher E),
        (KindAccount, signing_key_account_watcher E)]\<rparr>"

section \<open>Flags and options\<close>

record flags =
  fl_metrics_addr :: string
  fl_probe_addr :: string
  fl_leader_elect :: bool
  fl_secure_metrics :: bool
  fl_enable_http2 :: bool

definition default_flags :: flags where
  "default_flags = \<lparr>fl_metrics_addr = '':8080'', fl_probe_addr = '':8081'', fl_leader_elect = False,
     fl_secure_metrics = False, fl_enable_http2 = False\<rparr>"

text \<open>The one field of crypto/tls's \<open>Config\<close> the program sets.\<close>

record crypto_tls_config =
  next_protos :: "string list"

definition disable_http2 :: "crypto_tls_config \<Rightarrow> crypto_tls_config" where
  "disable_http2 c = c\<lparr>next_protos := [''http/1.1'']\<rparr>"

definition tls_opts :: "flags \<Rightarrow> (crypto_tls_config \<Rightarrow> crypto_tls_config) list" where
  "tls_opts fl = (if \<not> fl_enable_http2 fl then [disable_http2] else [])"

record manager_options =
  mo_metrics_bind_address :: string
  mo_metrics_secure_serving :: bool
  mo_metrics_tls_opts :: "(crypto_tls_config \<Rightarrow> crypto_tls_config) list"
  mo_webhook_tls_opts :: "(crypto_tls_config \<Rightarrow> crypto_tls_config) list"
  mo_health_probe_bind_address :: string
  mo_leader_election :: bool
  mo_leader_election_id :: string

definition manager_options_of :: "flags \<Rightarrow> manager_options" where
  "manager_options_of fl =
     \<lparr>mo_metrics_bind_address = fl_metrics_addr fl, mo_metrics_secure_serving = fl_secure_metrics fl,
      mo_metrics_tls_opts = tls_opts fl, mo_webhook_tls_opts = tls_opts fl,
      mo_health_probe_bind_address = fl_probe_addr fl, mo_leader_election = fl_leader_elect fl,
      mo_leader_election_id = ''5423b76d.accounts.nats.io''\<rparr>"

section \<open>The run of main\<close>

datatype setup_step =
    NewManager manager_options
  | NewKubernetesClientset
  | NewAccountsClientset
  | SetupController object_kind
  | AddHealthzCheck string
  | AddReadyzCheck string
  | StartManager

type_synonym setup_trace = "(setup_step \<times> error option) list"

type_synonym ('x, 'a) startup = "'x \<times> setup_trace \<Rightarrow> ((nat \<times> string) + 'a) \<times> ('x \<times> setup_trace)"

definition setup_bind :: "('x, 'a) startup \<Rightarrow> ('a \<Rightarrow> ('x, 'b) startup) \<Rightarrow> ('x, 'b) startup" where
  "setup_bind m f s = (case m s of (Inl n, s) \<Rightarrow> (Inl n, s) | (Inr a, s) \<Rightarrow> f a s)"

text \<open>
  \<open>if err := call; err != nil { setupLog.Error(err, message, ...); os.Exit(1) }\<close>: a call that returns an
  error or a value.
\<close>

definition or_exit :: "setup_step \<Rightarrow> ('x \<Rightarrow> (error + 'a) \<times> 'x) \<Rightarrow> string \<Rightarrow> ('x, 'a) startup" where
  "or_exit step call message s = (case s of (x, t) \<Rightarrow>
     case call x of
       (Inl e, x) \<Rightarrow> (Inl (1, message), (x, t @ [(step, Some e)]))
     | (Inr a, x) \<Rightarrow> (Inr a, (x, t @ [(step, None)])))"

text \<open>
  A manager and a \<open>kubernetes.Clientset\<close> are values of the libraries (\<open>'m\<close>, \<open>'k\<close>). The environment of
  the controllers is built from the manager's client and scheme and the two clientsets
  (\<open>controllers_env\<close>), and \<open>Complete\<close> is given the registration of a controller.
\<close>

record ('x, 'm, 'k, 'w, 'p, 'i, 'l, 'c, 'h, 'd) main_lib =
  new_manager :: "manager_options \<Rightarrow> 'x \<Rightarrow> (error + 'm) \<times> 'x"
  mgr_config :: "'m \<Rightarrow> ('l, 'c) rest_config"
  mgr_http_client :: "'m \<Rightarrow> 'h"
  kubernetes_new_for_config_and_client :: "('l, 'c) rest_config \<Rightarrow> 'h \<Rightarrow> error + 'k"
  client_go_lib :: "('w, 'p, 'i, 'l, 'c, 'h, 'd) client_go"
  controllers_env :: "'m \<Rightarrow> 'k \<Rightarrow> ('w, 'p, 'i) group_client \<Rightarrow> 'x env"
  complete_controller :: "'m \<Rightarrow> ('x, unit) registration \<Rightarrow> 'x \<Rightarrow> (error + unit) \<times> 'x"
  add_healthz_check :: "'m \<Rightarrow> string \<Rightarrow> 'x \<Rightarrow> (error + unit) \<times> 'x"
  add_readyz_check :: "'m \<Rightarrow> string \<Rightarrow> 'x \<Rightarrow> (error + unit) \<times> 'x"
  start_manager :: "'m \<Rightarrow> 'x \<Rightarrow> (error + unit) \<times> 'x"

text \<open>The four \<open>SetupWithManager\<close>: the registration, completed.\<close>

definition operator_setup_with_manager ::
  "('x, 'm, 'k, 'w, 'p, 'i, 'l, 'c, 'h, 'd) main_lib \<Rightarrow> 'm \<Rightarrow> 'x env \<Rightarrow> 'x \<Rightarrow> (error + unit) \<times> 'x" where
  "operator_setup_with_manager L mgr E x = complete_controller L mgr (operator_registration E) x"

definition account_setup_with_manager ::
  "('x, 'm, 'k, 'w, 'p, 'i, 'l, 'c, 'h, 'd) main_lib \<Rightarrow> 'm \<Rightarrow> 'x env \<Rightarrow> 'x \<Rightarrow> (error + unit) \<times> 'x" where
  "account_setup_with_manager L mgr E x =
     (case complete_controller L mgr (account_registration E) x of
        (Inl err, x) \<Rightarrow> (Inl err, x)
      | (Inr _, x) \<Rightarrow> (Inr (), x))"

definition signing_key_setup_with_manager ::
  "('x, 'm, 'k, 'w, 'p, 'i, 'l, 'c, 'h, 'd) main_lib \<Rightarrow> 'm \<Rightarrow> 'x env \<Rightarrow> 'x \<Rightarrow> (error + unit) \<times> 'x" where
  "signing_key_setup_with_manager L mgr E x = complete_controller L mgr (signing_key_registration E) x"

definition user_setup_with_manager ::
  "('x, 'm, 'k, 'w, 'p, 'i, 'l, 'c, 'h, 'd) main_lib \<Rightarrow> 'm \<Rightarrow> 'x env \<Rightarrow> 'x \<Rightarrow> (error + unit) \<times> 'x" where
  "user_setup_with_manager L mgr E x = complete_controller L mgr (user_registration E) x"

definition setup_controllers ::
  "('x, 'm, 'k, 'w, 'p, 'i, 'l, 'c, 'h, 'd) main_lib \<Rightarrow> 'm \<Rightarrow> 'x env \<Rightarrow> ('x, unit) startup" where
  "setup_controllers L mgr E =
     setup_bind (or_exit (SetupController KindOperator) (operator_setup_with_manager L mgr E)
       ''unable to create controller'') (\<lambda>_.
     setup_bind (or_exit (SetupController KindAccount) (account_setup_with_manager L mgr E)
       ''unable to create controller'') (\<lambda>_.
     setup_bind (or_exit (SetupController KindSigningKey) (signing_key_setup_with_manager L mgr E)
       ''unable to create controller'') (\<lambda>_.
     or_exit (SetupController KindUser) (user_setup_with_manager L mgr E) ''unable to create controller'')))"

definition run_main ::
  "('x, 'm, 'k, 'w, 'p, 'i, 'l, 'c, 'h, 'd) main_lib \<Rightarrow> flags \<Rightarrow> ('x, unit) startup" where
  "run_main L fl =
     setup_bind (or_exit (NewManager (manager_options_of fl)) (new_manager L (manager_options_of fl))
       ''unable to start manager'') (\<lambda>mgr.
     setup_bind (or_exit NewKubernetesClientset
         (\<lambda>x. (kubernetes_new_for_config_and_client L (mgr_config L mgr) (mgr_http_client L mgr), x))
       ''unable to create kubernetes.Clientset'') (\<lambda>core.
     setup_bind (or_exit NewAccountsClientset
         (\<lambda>x. (clientset_new_for_config_and_client (client_go_lib L) (mgr_config L mgr) (mgr_http_client L mgr), x))
       ''unable to create accounts Clientset'') (\<lambda>accounts_cs.
     setup_bind (setup_controllers L mgr (controllers_env L mgr core (accounts_v1alpha1 accounts_cs))) (\<lambda>_.
     setup_bind (or_exit (AddHealthzCheck ''healthz'') (add_healthz_check L mgr ''healthz'')
       ''unable to set up health check'') (\<lambda>_.
     setup_bind (or_exit (AddReadyzCheck ''readyz'') (add_readyz_check L mgr ''readyz'')
       ''unable to set up ready check'') (\<lambda>_.
     or_exit StartManager (start_manager L mgr) ''problem running manager''))))))"

section \<open>The steps of a run\<close>

text \<open>
  \<open>follows m steps\<close>: whatever the world answers, \<open>m\<close> makes the calls \<open>steps\<close> in this order up to the
  first that fails; when one fails the program exits with code 1, otherwise \<open>m\<close> returns.
\<close>

fun followed :: "setup_step list \<Rightarrow> setup_trace \<Rightarrow> (nat \<times> string) + 'a \<Rightarrow> setup_trace \<Rightarrow> bool" where
  "followed steps t (Inr a) t' = (t' = t @ map (\<lambda>c. (c, None)) steps)"
| "followed steps t (Inl (n, message)) t' = (n = 1 \<and> (\<exists>k < length steps. \<exists>e.
     t' = t @ map (\<lambda>c. (c, None)) (take k steps) @ [(steps ! k, Some e)]))"

definition follows :: "('x, 'a) startup \<Rightarrow> setup_step list \<Rightarrow> bool" where
  "follows m steps \<longleftrightarrow> (\<forall>x t. followed steps t (fst (m (x, t))) (snd (snd (m (x, t)))))"

named_theorems follows_rules

lemma follows_or_exit [follows_rules]: "follows (or_exit step call message) [step]"
  by (auto simp: follows_def or_exit_def split: prod.splits sum.splits)

lemma followed_earlier:
  assumes "followed xs t (Inl e :: (nat \<times> string) + 'a) t'"
  shows "followed (xs @ ys) t (Inl e :: (nat \<times> string) + 'b) t'"
proof -
  obtain n message where e: "e = (n, message)" by (cases e)
  with assms obtain k w where k: "n = 1" "k < length xs"
      "t' = t @ map (\<lambda>c. (c, None)) (take k xs) @ [(xs ! k, Some w)]"
    by auto
  then have "k < length (xs @ ys) \<and>
      t' = t @ map (\<lambda>c. (c, None)) (take k (xs @ ys)) @ [((xs @ ys) ! k, Some w)]"
    by (simp add: nth_append)
  with k(1) show ?thesis unfolding e followed.simps by blast
qed

lemma followed_later:
  assumes "followed ys (t @ map (\<lambda>c. (c, None)) xs) r t'"
  shows "followed (xs @ ys) t r t'"
proof (cases r)
  case (Inl e)
  obtain n message where e: "e = (n, message)" by (cases e)
  with assms Inl obtain k w where k: "n = 1" "k < length ys"
      "t' = (t @ map (\<lambda>c. (c, None)) xs) @ map (\<lambda>c. (c, None)) (take k ys) @ [(ys ! k, Some w)]"
    by auto
  then have "length xs + k < length (xs @ ys) \<and>
      t' = t @ map (\<lambda>c. (c, None)) (take (length xs + k) (xs @ ys)) @ [((xs @ ys) ! (length xs + k), Some w)]"
    by (simp add: nth_append)
  with k(1) show ?thesis unfolding Inl e followed.simps by blast
qed (use assms in simp)

lemma follows_bind:
  assumes "follows m xs" and "\<And>a. follows (f a) ys"
  shows "follows (setup_bind m f) (xs @ ys)"
  unfolding follows_def
proof (intro allI)
  fix x t
  obtain r1 x1 t1 where m: "m (x, t) = (r1, (x1, t1))" by (metis prod.exhaust)
  then have 1: "followed xs t r1 t1" using assms(1) unfolding follows_def by (metis fst_conv snd_conv)
  show "followed (xs @ ys) t (fst (setup_bind m f (x, t))) (snd (snd (setup_bind m f (x, t))))"
  proof (cases r1)
    case (Inl e)
    from followed_earlier [OF 1 [unfolded Inl]] m Inl show ?thesis by (simp add: setup_bind_def)
  next
    case (Inr a)
    have "followed ys t1 (fst (f a (x1, t1))) (snd (snd (f a (x1, t1))))"
      using assms(2) unfolding follows_def by blast
    with 1 Inr have "followed (xs @ ys) t (fst (f a (x1, t1))) (snd (snd (f a (x1, t1))))"
      by (intro followed_later) simp
    with m Inr show ?thesis by (simp add: setup_bind_def)
  qed
qed

lemma follows_bind_step [follows_rules]:
  assumes "\<And>a. follows (f a) ys"
  shows "follows (setup_bind (or_exit step call message) f) (step # ys)"
proof -
  have "follows (setup_bind (or_exit step call message) f) ([step] @ ys)"
    by (rule follows_bind [OF follows_or_exit assms])
  then show ?thesis by simp
qed

definition setup_steps :: "flags \<Rightarrow> setup_step list" where
  "setup_steps fl = [NewManager (manager_options_of fl), NewKubernetesClientset, NewAccountsClientset] @
     map SetupController [KindOperator, KindAccount, KindSigningKey, KindUser] @
     [AddHealthzCheck ''healthz'', AddReadyzCheck ''readyz'', StartManager]"

lemma setup_controllers_follows:
  "follows (setup_controllers L mgr E) (map SetupController [KindOperator, KindAccount, KindSigningKey, KindUser])"
  unfolding setup_controllers_def list.map by (rule follows_rules)+

lemma run_main_follows: "follows (run_main L fl) (setup_steps fl)"
  unfolding run_main_def setup_steps_def append.simps
  by (intro follows_bind_step follows_bind [OF setup_controllers_follows] follows_rules)

end
