(* ===== verification/Manager_Properties.thy ===== *)
theory Manager_Properties
  imports Manager Idle_Client
begin

text \<open>
  What main promises: the order of its calls and its exits, the types of the handlers it registers,
  and what the clientset it builds lets the controllers do.
\<close>

section \<open>Order and exits\<close>

lemma nth_setup_steps:
  assumes "k < length (setup_steps fl)"
  shows "setup_steps fl ! k = StartManager \<longleftrightarrow> k = 9"
proof -
  have "k \<in> {0, 1, 2, 3, 4, 5, 6, 7, 8, 9}" using assms by (auto simp: setup_steps_def)
  then show ?thesis by (auto simp: setup_steps_def)
qed

text \<open>C20: main makes its ten calls in order (the manager, the two clientsets, the controllers of Operator,
  Account, SigningKey and User, the two checks, Start) and stops at the first that fails: then the
  process exits with code 1, and it returns when all succeed. So the manager is started only after
  all four controllers are registered, and no call is repeated or made after a failure.\<close>

theorem main_stops_at_failure:
  assumes "run_main L fl (x, []) = (r, (x', t))"
  shows "(r = Inr () \<and> t = map (\<lambda>c. (c, None)) (setup_steps fl) \<or>
      (\<exists>message k e. r = Inl (1, message) \<and> k < 10 \<and>
         t = map (\<lambda>c. (c, None)) (take k (setup_steps fl)) @ [(setup_steps fl ! k, Some e)]))
    \<and> (\<forall>e. (StartManager, e) \<in> set t \<longrightarrow>
         {(SetupController c, None) |c. c \<in> {KindOperator, KindAccount, KindSigningKey, KindUser}} \<subseteq> set t)"
proof -
  have len: "length (setup_steps fl) = 10" by (simp add: setup_steps_def)
  have f: "followed (setup_steps fl) [] r t"
    using run_main_follows [of L fl] assms unfolding follows_def by (metis fst_conv snd_conv)
  show ?thesis
  proof (cases r)
    case (Inr u)
    with f show ?thesis by (auto simp: setup_steps_def)
  next
    case (Inl nm)
    obtain n message where nm: "nm = (n, message)" by (cases nm)
    with f Inl len obtain k e where k: "n = 1" "k < 10"
        "t = map (\<lambda>c. (c, None)) (take k (setup_steps fl)) @ [(setup_steps fl ! k, Some e)]"
      by auto
    have "{(SetupController c, None) |c. c \<in> {KindOperator, KindAccount, KindSigningKey, KindUser}} \<subseteq> set t"
      if started: "(StartManager, e') \<in> set t" for e'
    proof -
      obtain j where j: "j \<le> k" "setup_steps fl ! j = StartManager"
      proof -
        from started k(3) have "StartManager \<in> set (take (Suc k) (setup_steps fl))"
          using k(2) len by (auto simp: take_Suc_conv_app_nth)
        then show thesis using that k(2) len by (auto simp: in_set_conv_nth less_Suc_eq_le)
      qed
      then have "j = 9" using nth_setup_steps [of j fl] k(2) len by simp
      then have "k = 9" using j(1) k(2) by simp
      with k(3) show ?thesis by (auto simp: setup_steps_def)
    qed
    with Inl nm k show ?thesis by auto
  qed
qed

section \<open>Handlers\<close>

fun object_kind_of :: "client_object \<Rightarrow> object_kind" where
  "object_kind_of (ObjOperator _) = KindOperator"
| "object_kind_of (ObjAccount _) = KindAccount"
| "object_kind_of (ObjSigningKey _) = KindSigningKey"
| "object_kind_of (ObjUser _) = KindUser"
| "object_kind_of (ObjOther g _) = KindOther (gvk_kind g)"

lemmas registration_defs = operator_registration_def account_registration_def user_registration_def
  signing_key_registration_def

lemmas watcher_defs = operator_account_watcher_def operator_signing_key_watcher_def owner_requests_def
  account_signing_key_watcher_def account_operator_watcher_def signing_key_operator_watcher_def
  signing_key_account_watcher_def user_account_watcher_def

text \<open>C32: Every handler main registers is registered for the one kind of object it handles: given an object
  of any other kind it returns no request and makes no call, and controller-runtime, which hands it
  objects of the kind it is registered for, never takes it there. Each controller owns secrets,
  reconciles one kind and watches only kinds other than that one; the four reconcile four kinds.\<close>

theorem registered_handlers_typed:
  fixes E :: "'x env" and s :: "('x, 'o) st"
  shows "\<forall>R \<in> {operator_registration E, account_registration E, user_registration E, signing_key_registration E}.
      reg_owns R = [KindOther ''Secret''] \<and> distinct (map fst (reg_watches R)) \<and>
      reg_for R \<notin> fst ` set (reg_watches R) \<and>
      (\<forall>(k, handler) \<in> set (reg_watches R). \<forall>obj. object_kind_of obj \<noteq> k \<longrightarrow> handler obj s = (Returns [], s))"
proof -
  have typed: "\<forall>(k, handler) \<in> set (reg_watches R). \<forall>obj. object_kind_of obj \<noteq> k \<longrightarrow> handler obj s = (Returns [], s)"
    if "R \<in> {operator_registration E, account_registration E, user_registration E, signing_key_registration E}"
    for R :: "('x, 'o) registration"
    using that by (auto simp: registration_defs watcher_defs ret_def split: client_object.split)
  show ?thesis using typed by (auto simp: registration_defs KindSecret_def)
qed

section \<open>HTTP/2\<close>

lemma http2_disabled:
  assumes "\<not> fl_enable_http2 fl"
  shows "next_protos (foldl (\<lambda>c f. f c) c (mo_webhook_tls_opts (manager_options_of fl))) = [''http/1.1'']"
    and "next_protos (foldl (\<lambda>c f. f c) c (mo_metrics_tls_opts (manager_options_of fl))) = [''http/1.1'']"
  using assms by (simp_all add: manager_options_of_def tls_opts_def disable_http2_def)

section \<open>The clientset in the controllers' hands\<close>

text \<open>
  \<open>AccountsV1Alpha1: accountsV1Alpha1\<close>: the three calls the controllers make through the generated
  clientset, on the world it works on. The options of a \<open>List\<close> carry a label selector as a string;
  \<open>no_options\<close> are the empty \<open>GetOptions\<close>.
\<close>

definition object_or_error :: "('t \<times> error option) \<times> 'x \<Rightarrow> (error + 't) \<times> 'x" where
  "object_or_error r = (case r of ((ob, err), x) \<Rightarrow>
     ((case err of Some e \<Rightarrow> Inl e | None \<Rightarrow> Inr ob), x))"

definition items_or_error :: "('t resource_list \<times> error option) \<times> 'x \<Rightarrow> (error + 't list) \<times> 'x" where
  "items_or_error r = (case r of ((l, err), x) \<Rightarrow>
     ((case err of Some e \<Rightarrow> Inl e | None \<Rightarrow> Inr (rl_items l)), x))"

definition with_accounts_clientset ::
  "'p \<Rightarrow> (string \<Rightarrow> 'p) \<Rightarrow> ('x, 'p, 'i) group_client \<Rightarrow> 'x env \<Rightarrow> 'x env" where
  "with_accounts_clientset no_options selector_options c E =
     E\<lparr>e_kube := (e_kube E)
       \<lparr>cs_get_operator := \<lambda>ns name x. object_or_error (operators_get (operators_client c ns) name no_options x),
        cs_get_account := \<lambda>ns name x. object_or_error (accounts_get (accounts_client c ns) name no_options x),
        cs_list_signing_keys := \<lambda>ns sel x. items_or_error (signing_keys_list (signing_keys_client c ns)
          \<lparr>lo_timeout_seconds = None, lo_watch = False, lo_rest = selector_options sel\<rparr> x)\<rparr>\<rparr>"

definition same_reads :: "('w, 't, 'p, 'i) rest \<Rightarrow> ('w, 't, 'p, 'i) rest \<Rightarrow> bool" where
  "same_reads R R' \<longleftrightarrow> (\<forall>r. req_verb r = Verb_Get \<longrightarrow> do_into R r = do_into R' r \<and> do_list_into R r = do_list_into R' r)"

lemma same_reads_get: "same_reads R R' \<Longrightarrow> client_get T \<lparr>tc_client = R, tc_ns = ns\<rparr> = client_get T \<lparr>tc_client = R', tc_ns = ns\<rparr>"
  by (simp add: same_reads_def client_get_def fun_eq_iff)

lemma same_reads_list: "same_reads R R' \<Longrightarrow> client_list T \<lparr>tc_client = R, tc_ns = ns\<rparr> = client_list T \<lparr>tc_client = R', tc_ns = ns\<rparr>"
  by (simp add: same_reads_def client_list_def fun_eq_iff)

lemma same_reads_env:
  assumes "same_reads (rest_operators (gc_rest c)) (rest_operators (gc_rest c'))"
    and "same_reads (rest_accounts (gc_rest c)) (rest_accounts (gc_rest c'))"
    and "same_reads (rest_signing_keys (gc_rest c)) (rest_signing_keys (gc_rest c'))"
  shows "with_accounts_clientset no_options selector_options c E = with_accounts_clientset no_options selector_options c' E"
  using assms
  by (simp add: with_accounts_clientset_def operators_client_def new_operators_client_def operators_get_def
      accounts_client_def new_accounts_client_def accounts_get_def signing_keys_client_def
      new_signing_keys_client_def signing_keys_list_def same_reads_get same_reads_list)


section \<open>Witnesses\<close>

text \<open>A machine on which the readiness check cannot be added.\<close>

definition sample_main_lib :: "(unit, unit, unit, unit, unit, unit, unit, unit, unit, unit) main_lib" where
  "sample_main_lib =
     \<lparr>new_manager = \<lambda>opts x. (Inr (), x), mgr_config = \<lambda>m. idle_config, mgr_http_client = \<lambda>m. (),
      kubernetes_new_for_config_and_client = \<lambda>c h. Inr (), client_go_lib = idle_client_go,
      controllers_env = \<lambda>m k c. with_accounts_clientset () (\<lambda>_. ()) c sample_env,
      complete_controller = \<lambda>m r x. (Inr (), x), add_healthz_check = \<lambda>m n x. (Inr (), x),
      add_readyz_check = \<lambda>m n x. (Inl (ErrorString ''taken''), x), start_manager = \<lambda>m x. (Inr (), x)\<rparr>"

lemma sample_main_run:
  "run_main sample_main_lib default_flags ((), []) =
     (Inl (1, ''unable to set up ready check''), ((),
      map (\<lambda>c. (c, None)) (take 8 (setup_steps default_flags)) @ [(AddReadyzCheck ''readyz'', Some (ErrorString ''taken''))]))"
  by (simp add: run_main_def setup_bind_def or_exit_def sample_main_lib_def setup_controllers_def
      operator_setup_with_manager_def account_setup_with_manager_def signing_key_setup_with_manager_def
      user_setup_with_manager_def clientset_new_for_config_and_client_def with_rate_limiter_def
      group_new_for_config_and_client_def set_config_defaults_def idle_config_def idle_client_go_def
      setup_steps_def Let_def)

theorem main_stops_at_failure_witness:
  "run_main sample_main_lib default_flags ((), []) =
     (Inl (1, ''unable to set up ready check''), ((),
      map (\<lambda>c. (c, None)) (take 8 (setup_steps default_flags)) @ [(AddReadyzCheck ''readyz'', Some (ErrorString ''taken''))]))
   \<and> (\<exists>k. k < 10 \<and> map (\<lambda>c. (c, None)) (take 8 (setup_steps default_flags)) @
        [(AddReadyzCheck ''readyz'', Some (ErrorString ''taken''))] =
      map (\<lambda>c. (c, None)) (take k (setup_steps default_flags)) @
        [(setup_steps default_flags ! k, Some (ErrorString ''taken''))])"
  using main_stops_at_failure [OF sample_main_run] sample_main_run by auto

theorem registered_handlers_typed_witness:
  "operator_registration sample_env \<in> {operator_registration sample_env, account_registration sample_env,
     user_registration sample_env, signing_key_registration sample_env} \<and>
   distinct (map fst (reg_watches (operator_registration sample_env :: (unit, unit) registration)))"
  using registered_handlers_typed [of sample_env "start ()"] by simp


end
