(* ===== verification/Fake_Clients.thy ===== *)
theory Fake_Clients
  imports Typed_Clients
begin

text \<open>
  The generated fakes, pkg/generated/clientset/versioned/typed/accounts/v1alpha1/fake and
  pkg/generated/clientset/versioned/fake/clientset_generated.go: clients for tests that hand an
  action to client-go's \<open>testing.Fake\<close>, which answers it by its reactors.

  \<open>testing.Fake\<close> is a parameter: what \<open>Invokes\<close> and \<open>InvokesWatch\<close> do to the world for an action. An
  action is the call of its constructor in client-go/testing. Objects are values of the interface
  \<open>runtime.Object\<close> that hold pointers, None for nil; the None of a method is the panic of a type
  assertion or of a nil pointer. A pointer and an error that are returned are a pair.
\<close>

section \<open>Actions and answers\<close>

datatype api_object =
    Api_Account "account option"
  | Api_Account_List "account_list option"
  | Api_Operator "operator option"
  | Api_Operator_List "operator_list option"
  | Api_Signing_Key "signing_key option"
  | Api_Signing_Key_List "signing_key_list option"
  | Api_User "user option"
  | Api_User_List "user_list option"
  | Api_Other string

datatype 'p fake_action =
    New_Get_Action gvr string string
  | New_List_Action gvr gvk string "'p list_options"
  | New_Watch_Action gvr string "'p list_options"
  | New_Create_Action gvr string api_object
  | New_Update_Action gvr string api_object
  | New_Update_Subresource_Action gvr string string api_object
  | New_Delete_Action_With_Options gvr string string 'p
  | New_Delete_Collection_Action gvr string "'p list_options"
  | New_Patch_Subresource_Action gvr string string string string "string list"

text \<open>\<open>list_label\<close> is the label selector of \<open>ExtractFromListOptions\<close>, None for nil.\<close>

record ('w, 'p, 'i) fake =
  invokes :: "'p fake_action \<Rightarrow> api_object \<Rightarrow> 'w \<Rightarrow> (api_object option \<times> error option) \<times> 'w"
  invokes_watch :: "'p fake_action \<Rightarrow> 'w \<Rightarrow> ('i option \<times> error option) \<times> 'w"
  list_label :: "'p list_options \<Rightarrow> selector option"
  every_label :: selector

text \<open>What differs between the four files.\<close>

record 't fake_type =
  ft_resource :: gvr
  ft_kind :: gvk
  ft_object :: "'t option \<Rightarrow> api_object"
  ft_list :: "'t resource_list option \<Rightarrow> api_object"
  ft_as :: "api_object \<Rightarrow> 't option option"
  ft_as_list :: "api_object \<Rightarrow> 't resource_list option option"
  ft_labels :: "'t \<Rightarrow> labels"
  ft_zero :: 't

record ('w, 'p, 'i) fake_client =
  fc_fake :: "('w, 'p, 'i) fake"
  fc_ns :: string

text \<open>\<open>if obj == nil { return nil, err }; return obj.(*T), err\<close>\<close>

definition returned :: "'t fake_type \<Rightarrow> api_object option \<times> error option \<Rightarrow> ('t option \<times> error option) option" where
  "returned T answer = (case answer of (obj, err) \<Rightarrow>
     (case obj of
        None \<Rightarrow> Some (None, err)
      | Some obj \<Rightarrow> (case ft_as T obj of None \<Rightarrow> None | Some p \<Rightarrow> Some (p, err))))"

section \<open>The methods\<close>

definition fake_invoke ::
  "'t fake_type \<Rightarrow> ('w, 'p, 'i) fake_client \<Rightarrow> 'p fake_action \<Rightarrow> 'w \<Rightarrow> ('t option \<times> error option) option \<times> 'w" where
  "fake_invoke T c action x =
     (case invokes (fc_fake c) action (ft_object T (Some (ft_zero T))) x of
        (answer, x) \<Rightarrow> (returned T answer, x))"

definition fake_get ::
  "'t fake_type \<Rightarrow> ('w, 'p, 'i) fake_client \<Rightarrow> string \<Rightarrow> 'p \<Rightarrow> 'w \<Rightarrow> ('t option \<times> error option) option \<times> 'w" where
  "fake_get T c name options = fake_invoke T c (New_Get_Action (ft_resource T) (fc_ns c) name)"

definition fake_list ::
  "'t fake_type \<Rightarrow> ('w, 'p, 'i) fake_client \<Rightarrow> 'p list_options \<Rightarrow> 'w \<Rightarrow> ('t resource_list option \<times> error option) option \<times> 'w" where
  "fake_list T c opts x =
     (case invokes (fc_fake c) (New_List_Action (ft_resource T) (ft_kind T) (fc_ns c) opts)
             (ft_list T (Some zero_list)) x of
        ((obj, err), x) \<Rightarrow>
          (case obj of
             None \<Rightarrow> (Some (None, err), x)
           | Some obj \<Rightarrow>
               (let label = (case list_label (fc_fake c) opts of None \<Rightarrow> every_label (fc_fake c) | Some l \<Rightarrow> l)
                in case ft_as_list T obj of
                     Some (Some l) \<Rightarrow>
                       (Some (Some (zero_list\<lparr>rl_meta := rl_meta l,
                          rl_items := filter (\<lambda>item. sel_matches label (ft_labels T item)) (rl_items l)\<rparr>), err), x)
                   | _ \<Rightarrow> (None, x))))"

definition fake_watch ::
  "'t fake_type \<Rightarrow> ('w, 'p, 'i) fake_client \<Rightarrow> 'p list_options \<Rightarrow> 'w \<Rightarrow> ('i option \<times> error option) \<times> 'w" where
  "fake_watch T c opts = invokes_watch (fc_fake c) (New_Watch_Action (ft_resource T) (fc_ns c) opts)"

definition fake_create ::
  "'t fake_type \<Rightarrow> ('w, 'p, 'i) fake_client \<Rightarrow> 't \<Rightarrow> 'p \<Rightarrow> 'w \<Rightarrow> ('t option \<times> error option) option \<times> 'w" where
  "fake_create T c x opts =
     fake_invoke T c (New_Create_Action (ft_resource T) (fc_ns c) (ft_object T (Some x)))"

definition fake_update ::
  "'t fake_type \<Rightarrow> ('w, 'p, 'i) fake_client \<Rightarrow> 't \<Rightarrow> 'p \<Rightarrow> 'w \<Rightarrow> ('t option \<times> error option) option \<times> 'w" where
  "fake_update T c x opts =
     fake_invoke T c (New_Update_Action (ft_resource T) (fc_ns c) (ft_object T (Some x)))"

definition fake_update_status ::
  "'t fake_type \<Rightarrow> ('w, 'p, 'i) fake_client \<Rightarrow> 't \<Rightarrow> 'p \<Rightarrow> 'w \<Rightarrow> ('t option \<times> error option) option \<times> 'w" where
  "fake_update_status T c x opts =
     fake_invoke T c (New_Update_Subresource_Action (ft_resource T) ''status'' (fc_ns c) (ft_object T (Some x)))"

definition fake_delete ::
  "'t fake_type \<Rightarrow> ('w, 'p, 'i) fake_client \<Rightarrow> string \<Rightarrow> 'p \<Rightarrow> 'w \<Rightarrow> error option \<times> 'w" where
  "fake_delete T c name opts x =
     (case invokes (fc_fake c) (New_Delete_Action_With_Options (ft_resource T) (fc_ns c) name opts)
             (ft_object T (Some (ft_zero T))) x of
        ((_, err), x) \<Rightarrow> (err, x))"

definition fake_delete_collection ::
  "'t fake_type \<Rightarrow> ('w, 'p, 'i) fake_client \<Rightarrow> 'p \<Rightarrow> 'p list_options \<Rightarrow> 'w \<Rightarrow> error option \<times> 'w" where
  "fake_delete_collection T c opts list_opts x =
     (let action = New_Delete_Collection_Action (ft_resource T) (fc_ns c) list_opts
      in case invokes (fc_fake c) action (ft_list T (Some zero_list)) x of ((_, err), x) \<Rightarrow> (err, x))"

definition fake_patch ::
  "'t fake_type \<Rightarrow> ('w, 'p, 'i) fake_client \<Rightarrow> string \<Rightarrow> string \<Rightarrow> string \<Rightarrow> 'p \<Rightarrow> string list \<Rightarrow> 'w \<Rightarrow>
     ('t option \<times> error option) option \<times> 'w" where
  "fake_patch T c name pt data opts subresources =
     fake_invoke T c (New_Patch_Subresource_Action (ft_resource T) (fc_ns c) name pt data subresources)"

section \<open>The four types\<close>

definition accounts_resource :: gvr where
  "accounts_resource = with_resource ''accounts''"

definition accounts_kind :: gvk where
  "accounts_kind = group_version_with_kind ''Account''"

fun as_account_pointer :: "api_object \<Rightarrow> account option option" where
  "as_account_pointer (Api_Account p) = Some p"
| "as_account_pointer _ = None"

fun as_account_list_pointer :: "api_object \<Rightarrow> account_list option option" where
  "as_account_list_pointer (Api_Account_List p) = Some p"
| "as_account_list_pointer _ = None"

definition fake_account_type :: "account fake_type" where
  "fake_account_type = \<lparr>ft_resource = accounts_resource, ft_kind = accounts_kind, ft_object = Api_Account,
     ft_list = Api_Account_List, ft_as = as_account_pointer, ft_as_list = as_account_list_pointer,
     ft_labels = \<lambda>x. m_labels (acc_meta x), ft_zero = zero_account\<rparr>"

definition operators_resource :: gvr where
  "operators_resource = with_resource ''operators''"

definition operators_kind :: gvk where
  "operators_kind = group_version_with_kind ''Operator''"

fun as_operator_pointer :: "api_object \<Rightarrow> operator option option" where
  "as_operator_pointer (Api_Operator p) = Some p"
| "as_operator_pointer _ = None"

fun as_operator_list_pointer :: "api_object \<Rightarrow> operator_list option option" where
  "as_operator_list_pointer (Api_Operator_List p) = Some p"
| "as_operator_list_pointer _ = None"

definition fake_operator_type :: "operator fake_type" where
  "fake_operator_type = \<lparr>ft_resource = operators_resource, ft_kind = operators_kind, ft_object = Api_Operator,
     ft_list = Api_Operator_List, ft_as = as_operator_pointer, ft_as_list = as_operator_list_pointer,
     ft_labels = \<lambda>x. m_labels (op_meta x), ft_zero = zero_operator\<rparr>"

definition signing_keys_resource :: gvr where
  "signing_keys_resource = with_resource ''signingkeys''"

definition signing_keys_kind :: gvk where
  "signing_keys_kind = group_version_with_kind ''SigningKey''"

fun as_signing_key_pointer :: "api_object \<Rightarrow> signing_key option option" where
  "as_signing_key_pointer (Api_Signing_Key p) = Some p"
| "as_signing_key_pointer _ = None"

fun as_signing_key_list_pointer :: "api_object \<Rightarrow> signing_key_list option option" where
  "as_signing_key_list_pointer (Api_Signing_Key_List p) = Some p"
| "as_signing_key_list_pointer _ = None"

definition fake_signing_key_type :: "signing_key fake_type" where
  "fake_signing_key_type = \<lparr>ft_resource = signing_keys_resource, ft_kind = signing_keys_kind, ft_object = Api_Signing_Key,
     ft_list = Api_Signing_Key_List, ft_as = as_signing_key_pointer, ft_as_list = as_signing_key_list_pointer,
     ft_labels = \<lambda>x. m_labels (sk_meta x), ft_zero = zero_signing_key\<rparr>"

definition users_resource :: gvr where
  "users_resource = with_resource ''users''"

definition users_kind :: gvk where
  "users_kind = group_version_with_kind ''User''"

fun as_user_pointer :: "api_object \<Rightarrow> user option option" where
  "as_user_pointer (Api_User p) = Some p"
| "as_user_pointer _ = None"

fun as_user_list_pointer :: "api_object \<Rightarrow> user_list option option" where
  "as_user_list_pointer (Api_User_List p) = Some p"
| "as_user_list_pointer _ = None"

definition fake_user_type :: "user fake_type" where
  "fake_user_type = \<lparr>ft_resource = users_resource, ft_kind = users_kind, ft_object = Api_User,
     ft_list = Api_User_List, ft_as = as_user_pointer, ft_as_list = as_user_list_pointer,
     ft_labels = \<lambda>x. m_labels (usr_meta x), ft_zero = zero_user\<rparr>"

text \<open>\<open>FakeAccountsV1alpha1\<close> and its clients. Its \<open>RESTClient\<close> is an interface that holds a nil pointer.\<close>

record ('w, 'p, 'i) fake_group =
  fg_fake :: "('w, 'p, 'i) fake"

definition fake_rest_client :: "('w, 'p, 'i) fake_group \<Rightarrow> ('w, 'p, 'i) rest_interface option option" where
  "fake_rest_client c = Some None"

definition fake_accounts :: "('w, 'p, 'i) fake_group \<Rightarrow> string \<Rightarrow> ('w, 'p, 'i) fake_client" where
  "fake_accounts c namespace = \<lparr>fc_fake = fg_fake c, fc_ns = namespace\<rparr>"

definition fake_operators :: "('w, 'p, 'i) fake_group \<Rightarrow> string \<Rightarrow> ('w, 'p, 'i) fake_client" where
  "fake_operators c namespace = \<lparr>fc_fake = fg_fake c, fc_ns = namespace\<rparr>"

definition fake_signing_keys :: "('w, 'p, 'i) fake_group \<Rightarrow> string \<Rightarrow> ('w, 'p, 'i) fake_client" where
  "fake_signing_keys c namespace = \<lparr>fc_fake = fg_fake c, fc_ns = namespace\<rparr>"

definition fake_users :: "('w, 'p, 'i) fake_group \<Rightarrow> string \<Rightarrow> ('w, 'p, 'i) fake_client" where
  "fake_users c namespace = \<lparr>fc_fake = fg_fake c, fc_ns = namespace\<rparr>"

subsection \<open>FakeAccounts\<close>

definition fake_accounts_get ::
  "('w, 'p, 'i) fake_client \<Rightarrow> string \<Rightarrow> 'p \<Rightarrow> 'w \<Rightarrow> (account option \<times> error option) option \<times> 'w" where
  "fake_accounts_get = fake_get fake_account_type"

definition fake_accounts_list ::
  "('w, 'p, 'i) fake_client \<Rightarrow> 'p list_options \<Rightarrow> 'w \<Rightarrow> (account_list option \<times> error option) option \<times> 'w" where
  "fake_accounts_list = fake_list fake_account_type"

definition fake_accounts_watch ::
  "('w, 'p, 'i) fake_client \<Rightarrow> 'p list_options \<Rightarrow> 'w \<Rightarrow> ('i option \<times> error option) \<times> 'w" where
  "fake_accounts_watch = fake_watch fake_account_type"

definition fake_accounts_create ::
  "('w, 'p, 'i) fake_client \<Rightarrow> account \<Rightarrow> 'p \<Rightarrow> 'w \<Rightarrow> (account option \<times> error option) option \<times> 'w" where
  "fake_accounts_create = fake_create fake_account_type"

definition fake_accounts_update ::
  "('w, 'p, 'i) fake_client \<Rightarrow> account \<Rightarrow> 'p \<Rightarrow> 'w \<Rightarrow> (account option \<times> error option) option \<times> 'w" where
  "fake_accounts_update = fake_update fake_account_type"

definition fake_accounts_update_status ::
  "('w, 'p, 'i) fake_client \<Rightarrow> account \<Rightarrow> 'p \<Rightarrow> 'w \<Rightarrow> (account option \<times> error option) option \<times> 'w" where
  "fake_accounts_update_status = fake_update_status fake_account_type"

definition fake_accounts_delete ::
  "('w, 'p, 'i) fake_client \<Rightarrow> string \<Rightarrow> 'p \<Rightarrow> 'w \<Rightarrow> error option \<times> 'w" where
  "fake_accounts_delete = fake_delete fake_account_type"

definition fake_accounts_delete_collection ::
  "('w, 'p, 'i) fake_client \<Rightarrow> 'p \<Rightarrow> 'p list_options \<Rightarrow> 'w \<Rightarrow> error option \<times> 'w" where
  "fake_accounts_delete_collection = fake_delete_collection fake_account_type"

definition fake_accounts_patch ::
  "('w, 'p, 'i) fake_client \<Rightarrow> string \<Rightarrow> string \<Rightarrow> string \<Rightarrow> 'p \<Rightarrow> string list \<Rightarrow> 'w \<Rightarrow> (account option \<times> error option) option \<times> 'w" where
  "fake_accounts_patch = fake_patch fake_account_type"

subsection \<open>FakeOperators\<close>

definition fake_operators_get ::
  "('w, 'p, 'i) fake_client \<Rightarrow> string \<Rightarrow> 'p \<Rightarrow> 'w \<Rightarrow> (operator option \<times> error option) option \<times> 'w" where
  "fake_operators_get = fake_get fake_operator_type"

definition fake_operators_list ::
  "('w, 'p, 'i) fake_client \<Rightarrow> 'p list_options \<Rightarrow> 'w \<Rightarrow> (operator_list option \<times> error option) option \<times> 'w" where
  "fake_operators_list = fake_list fake_operator_type"

definition fake_operators_watch ::
  "('w, 'p, 'i) fake_client \<Rightarrow> 'p list_options \<Rightarrow> 'w \<Rightarrow> ('i option \<times> error option) \<times> 'w" where
  "fake_operators_watch = fake_watch fake_operator_type"

definition fake_operators_create ::
  "('w, 'p, 'i) fake_client \<Rightarrow> operator \<Rightarrow> 'p \<Rightarrow> 'w \<Rightarrow> (operator option \<times> error option) option \<times> 'w" where
  "fake_operators_create = fake_create fake_operator_type"

definition fake_operators_update ::
  "('w, 'p, 'i) fake_client \<Rightarrow> operator \<Rightarrow> 'p \<Rightarrow> 'w \<Rightarrow> (operator option \<times> error option) option \<times> 'w" where
  "fake_operators_update = fake_update fake_operator_type"

definition fake_operators_update_status ::
  "('w, 'p, 'i) fake_client \<Rightarrow> operator \<Rightarrow> 'p \<Rightarrow> 'w \<Rightarrow> (operator option \<times> error option) option \<times> 'w" where
  "fake_operators_update_status = fake_update_status fake_operator_type"

definition fake_operators_delete ::
  "('w, 'p, 'i) fake_client \<Rightarrow> string \<Rightarrow> 'p \<Rightarrow> 'w \<Rightarrow> error option \<times> 'w" where
  "fake_operators_delete = fake_delete fake_operator_type"

definition fake_operators_delete_collection ::
  "('w, 'p, 'i) fake_client \<Rightarrow> 'p \<Rightarrow> 'p list_options \<Rightarrow> 'w \<Rightarrow> error option \<times> 'w" where
  "fake_operators_delete_collection = fake_delete_collection fake_operator_type"

definition fake_operators_patch ::
  "('w, 'p, 'i) fake_client \<Rightarrow> string \<Rightarrow> string \<Rightarrow> string \<Rightarrow> 'p \<Rightarrow> string list \<Rightarrow> 'w \<Rightarrow> (operator option \<times> error option) option \<times> 'w" where
  "fake_operators_patch = fake_patch fake_operator_type"

subsection \<open>FakeSigningKeys\<close>

definition fake_signing_keys_get ::
  "('w, 'p, 'i) fake_client \<Rightarrow> string \<Rightarrow> 'p \<Rightarrow> 'w \<Rightarrow> (signing_key option \<times> error option) option \<times> 'w" where
  "fake_signing_keys_get = fake_get fake_signing_key_type"

definition fake_signing_keys_list ::
  "('w, 'p, 'i) fake_client \<Rightarrow> 'p list_options \<Rightarrow> 'w \<Rightarrow> (signing_key_list option \<times> error option) option \<times> 'w" where
  "fake_signing_keys_list = fake_list fake_signing_key_type"

definition fake_signing_keys_watch ::
  "('w, 'p, 'i) fake_client \<Rightarrow> 'p list_options \<Rightarrow> 'w \<Rightarrow> ('i option \<times> error option) \<times> 'w" where
  "fake_signing_keys_watch = fake_watch fake_signing_key_type"

definition fake_signing_keys_create ::
  "('w, 'p, 'i) fake_client \<Rightarrow> signing_key \<Rightarrow> 'p \<Rightarrow> 'w \<Rightarrow> (signing_key option \<times> error option) option \<times> 'w" where
  "fake_signing_keys_create = fake_create fake_signing_key_type"

definition fake_signing_keys_update ::
  "('w, 'p, 'i) fake_client \<Rightarrow> signing_key \<Rightarrow> 'p \<Rightarrow> 'w \<Rightarrow> (signing_key option \<times> error option) option \<times> 'w" where
  "fake_signing_keys_update = fake_update fake_signing_key_type"

definition fake_signing_keys_update_status ::
  "('w, 'p, 'i) fake_client \<Rightarrow> signing_key \<Rightarrow> 'p \<Rightarrow> 'w \<Rightarrow> (signing_key option \<times> error option) option \<times> 'w" where
  "fake_signing_keys_update_status = fake_update_status fake_signing_key_type"

definition fake_signing_keys_delete ::
  "('w, 'p, 'i) fake_client \<Rightarrow> string \<Rightarrow> 'p \<Rightarrow> 'w \<Rightarrow> error option \<times> 'w" where
  "fake_signing_keys_delete = fake_delete fake_signing_key_type"

definition fake_signing_keys_delete_collection ::
  "('w, 'p, 'i) fake_client \<Rightarrow> 'p \<Rightarrow> 'p list_options \<Rightarrow> 'w \<Rightarrow> error option \<times> 'w" where
  "fake_signing_keys_delete_collection = fake_delete_collection fake_signing_key_type"

definition fake_signing_keys_patch ::
  "('w, 'p, 'i) fake_client \<Rightarrow> string \<Rightarrow> string \<Rightarrow> string \<Rightarrow> 'p \<Rightarrow> string list \<Rightarrow> 'w \<Rightarrow> (signing_key option \<times> error option) option \<times> 'w" where
  "fake_signing_keys_patch = fake_patch fake_signing_key_type"

subsection \<open>FakeUsers\<close>

definition fake_users_get ::
  "('w, 'p, 'i) fake_client \<Rightarrow> string \<Rightarrow> 'p \<Rightarrow> 'w \<Rightarrow> (user option \<times> error option) option \<times> 'w" where
  "fake_users_get = fake_get fake_user_type"

definition fake_users_list ::
  "('w, 'p, 'i) fake_client \<Rightarrow> 'p list_options \<Rightarrow> 'w \<Rightarrow> (user_list option \<times> error option) option \<times> 'w" where
  "fake_users_list = fake_list fake_user_type"

definition fake_users_watch ::
  "('w, 'p, 'i) fake_client \<Rightarrow> 'p list_options \<Rightarrow> 'w \<Rightarrow> ('i option \<times> error option) \<times> 'w" where
  "fake_users_watch = fake_watch fake_user_type"

definition fake_users_create ::
  "('w, 'p, 'i) fake_client \<Rightarrow> user \<Rightarrow> 'p \<Rightarrow> 'w \<Rightarrow> (user option \<times> error option) option \<times> 'w" where
  "fake_users_create = fake_create fake_user_type"

definition fake_users_update ::
  "('w, 'p, 'i) fake_client \<Rightarrow> user \<Rightarrow> 'p \<Rightarrow> 'w \<Rightarrow> (user option \<times> error option) option \<times> 'w" where
  "fake_users_update = fake_update fake_user_type"

definition fake_users_update_status ::
  "('w, 'p, 'i) fake_client \<Rightarrow> user \<Rightarrow> 'p \<Rightarrow> 'w \<Rightarrow> (user option \<times> error option) option \<times> 'w" where
  "fake_users_update_status = fake_update_status fake_user_type"

definition fake_users_delete ::
  "('w, 'p, 'i) fake_client \<Rightarrow> string \<Rightarrow> 'p \<Rightarrow> 'w \<Rightarrow> error option \<times> 'w" where
  "fake_users_delete = fake_delete fake_user_type"

definition fake_users_delete_collection ::
  "('w, 'p, 'i) fake_client \<Rightarrow> 'p \<Rightarrow> 'p list_options \<Rightarrow> 'w \<Rightarrow> error option \<times> 'w" where
  "fake_users_delete_collection = fake_delete_collection fake_user_type"

definition fake_users_patch ::
  "('w, 'p, 'i) fake_client \<Rightarrow> string \<Rightarrow> string \<Rightarrow> string \<Rightarrow> 'p \<Rightarrow> string list \<Rightarrow> 'w \<Rightarrow> (user option \<times> error option) option \<times> 'w" where
  "fake_users_patch = fake_patch fake_user_type"

section \<open>The fake clientset\<close>

text \<open>
  client-go's object tracker and its \<open>ObjectReaction\<close>. A reaction says whether it handled the
  action, and its answer; reactors are tried in order.
\<close>

record ('tr, 'p, 'i) tracking =
  new_object_tracker :: 'tr
  tracker_add :: "'tr \<Rightarrow> api_object \<Rightarrow> error + 'tr"
  tracker_watch :: "'tr \<Rightarrow> gvr \<Rightarrow> string \<Rightarrow> error + 'i"
  object_reaction :: "'tr \<Rightarrow> 'p fake_action \<Rightarrow> (bool \<times> api_object option \<times> error option) \<times> 'tr"

record ('tr, 'p, 'i) fake_clientset =
  fcs_tracker :: 'tr
  fcs_reactors :: "(string \<times> string \<times> ('tr \<Rightarrow> 'p fake_action \<Rightarrow> (bool \<times> api_object option \<times> error option) \<times> 'tr)) list"
  fcs_watch_reactors :: "(string \<times> ('tr \<Rightarrow> 'p fake_action \<Rightarrow> bool \<times> 'i option \<times> error option)) list"

fun action_resource :: "'p fake_action \<Rightarrow> gvr" where
  "action_resource (New_Get_Action r ns n) = r"
| "action_resource (New_List_Action r k ns opts) = r"
| "action_resource (New_Watch_Action r ns opts) = r"
| "action_resource (New_Create_Action r ns obj) = r"
| "action_resource (New_Update_Action r ns obj) = r"
| "action_resource (New_Update_Subresource_Action r sub ns obj) = r"
| "action_resource (New_Delete_Action_With_Options r ns n opts) = r"
| "action_resource (New_Delete_Collection_Action r ns opts) = r"
| "action_resource (New_Patch_Subresource_Action r ns n pt data subs) = r"

fun action_namespace :: "'p fake_action \<Rightarrow> string" where
  "action_namespace (New_Get_Action r ns n) = ns"
| "action_namespace (New_List_Action r k ns opts) = ns"
| "action_namespace (New_Watch_Action r ns opts) = ns"
| "action_namespace (New_Create_Action r ns obj) = ns"
| "action_namespace (New_Update_Action r ns obj) = ns"
| "action_namespace (New_Update_Subresource_Action r sub ns obj) = ns"
| "action_namespace (New_Delete_Action_With_Options r ns n opts) = ns"
| "action_namespace (New_Delete_Collection_Action r ns opts) = ns"
| "action_namespace (New_Patch_Subresource_Action r ns n pt data subs) = ns"

text \<open>The loop over the objects; a panic is None.\<close>

fun add_objects :: "('tr, 'p, 'i) tracking \<Rightarrow> api_object list \<Rightarrow> 'tr \<Rightarrow> 'tr option" where
  "add_objects K [] tr = Some tr"
| "add_objects K (obj # objects) tr =
     (case tracker_add K tr obj of Inl err \<Rightarrow> None | Inr tr \<Rightarrow> add_objects K objects tr)"

definition watch_reaction :: "('tr, 'p, 'i) tracking \<Rightarrow> 'tr \<Rightarrow> 'p fake_action \<Rightarrow> bool \<times> 'i option \<times> error option" where
  "watch_reaction K tr action =
     (case tracker_watch K tr (action_resource action) (action_namespace action) of
        Inl err \<Rightarrow> (False, None, Some err)
      | Inr watch \<Rightarrow> (True, Some watch, None))"

definition new_simple_clientset :: "('tr, 'p, 'i) tracking \<Rightarrow> api_object list \<Rightarrow> ('tr, 'p, 'i) fake_clientset option" where
  "new_simple_clientset K objects =
     (case add_objects K objects (new_object_tracker K) of
        None \<Rightarrow> None
      | Some tr \<Rightarrow> Some \<lparr>fcs_tracker = tr, fcs_reactors = [(''*'', ''*'', object_reaction K)],
          fcs_watch_reactors = [(''*'', watch_reaction K)]\<rparr>)"

definition fake_clientset_tracker :: "('tr, 'p, 'i) fake_clientset \<Rightarrow> 'tr" where
  "fake_clientset_tracker c = fcs_tracker c"

end
