(* ===== verification/Fake_Properties.thy ===== *)
theory Fake_Properties
  imports Fake_Clients
begin

text \<open>
  The fakes stand in for the typed clients: a fake behaves like the real client on an API server that
  answers each request the way the fake's reactors answer the action of that request.
\<close>

section \<open>A server behind a fake\<close>

text \<open>What a request names.\<close>

definition request_namespace :: "('t, 'p) rest_request \<Rightarrow> string" where
  "request_namespace r = hd [n. Call_Namespace n \<leftarrow> req_calls r]"

definition request_names :: "('t, 'p) rest_request \<Rightarrow> string list" where
  "request_names r = [n. Call_Name n \<leftarrow> req_calls r]"

definition request_sub_resources :: "('t, 'p) rest_request \<Rightarrow> string list" where
  "request_sub_resources r = concat [subs. Call_Sub_Resource subs \<leftarrow> req_calls r]"

definition request_body :: "('t, 'p) rest_request \<Rightarrow> 't" where
  "request_body r = hd [x. Call_Body x \<leftarrow> req_calls r]"

definition request_data :: "('t, 'p) rest_request \<Rightarrow> string" where
  "request_data r = hd [d. Call_Body_Data d \<leftarrow> req_calls r]"

definition request_list_options :: "('t, 'p) rest_request \<Rightarrow> 'p list_options" where
  "request_list_options r = hd [opts. Call_Versioned_List_Params opts \<leftarrow> req_calls r]"

definition request_delete_options :: "('t, 'p) rest_request \<Rightarrow> 'p" where
  "request_delete_options r = hd [opts. Call_Body_Options opts \<leftarrow> req_calls r]"

text \<open>The action of a request on one object or on a collection.\<close>

definition request_action :: "'t fake_type \<Rightarrow> ('t, 'p) rest_request \<Rightarrow> 'p fake_action" where
  "request_action T r =
     (let ns = request_namespace r; name = hd (request_names r); subs = request_sub_resources r;
          body = ft_object T (Some (request_body r))
      in case req_verb r of
           Verb_Get \<Rightarrow> New_Get_Action (ft_resource T) ns name
         | Verb_Post \<Rightarrow> New_Create_Action (ft_resource T) ns body
         | Verb_Put \<Rightarrow> (if subs = [] then New_Update_Action (ft_resource T) ns body
             else New_Update_Subresource_Action (ft_resource T) (hd subs) ns body)
         | Verb_Delete \<Rightarrow> (if request_names r = []
             then New_Delete_Collection_Action (ft_resource T) ns (request_list_options r)
             else New_Delete_Action_With_Options (ft_resource T) ns name (request_delete_options r))
         | Verb_Patch pt \<Rightarrow> New_Patch_Subresource_Action (ft_resource T) ns name pt (request_data r) subs)"

text \<open>
  The server decodes its answer into the object it is given, and leaves that alone when it has none.
  Of a list it sends the objects that the label selector matches.
\<close>

definition decoded :: "('a \<Rightarrow> 't option option) \<Rightarrow> 'a option \<Rightarrow> 't \<Rightarrow> 't" where
  "decoded as obj x = (case Option.bind obj as of Some (Some y) \<Rightarrow> y | _ \<Rightarrow> x)"

definition fake_server :: "('w, 'p, 'i) fake \<Rightarrow> 't fake_type \<Rightarrow> ('w, 't, 'p, 'i) rest" where
  "fake_server F T =
     \<lparr>do_into = \<lambda>r x w.
        (case invokes F (request_action T r) (ft_object T (Some (ft_zero T))) w of
           ((obj, err), w) \<Rightarrow> ((decoded (ft_as T) obj x, err), w)),
      do_list_into = \<lambda>r l w.
        (let opts = request_list_options r;
             label = (case list_label F opts of None \<Rightarrow> every_label F | Some s \<Rightarrow> s)
         in case invokes F (New_List_Action (ft_resource T) (ft_kind T) (request_namespace r) opts)
                   (ft_list T (Some zero_list)) w of
              ((obj, err), w) \<Rightarrow>
                ((decoded (\<lambda>obj. map_option (map_option (\<lambda>l. zero_list\<lparr>rl_meta := rl_meta l,
                     rl_items := filter (\<lambda>x. sel_matches label (ft_labels T x)) (rl_items l)\<rparr>))
                     (ft_as_list T obj)) obj l, err), w)),
      do_error = \<lambda>r w.
        (case invokes F (request_action T r)
                (if request_names r = [] then ft_list T (Some zero_list) else ft_object T (Some (ft_zero T))) w of
           ((_, err), w) \<Rightarrow> (err, w)),
      do_watch = \<lambda>r w.
        invokes_watch F (New_Watch_Action (ft_resource T) (request_namespace r) (request_list_options r)) w\<rparr>"

section \<open>Fakes and clients\<close>

text \<open>What client-go documents of a fake: it answers with an object of the type it is asked for, and the
  flag that a watch sets in its options is no part of a watch action.\<close>

definition answers_typed :: "('w, 'p, 'i) fake \<Rightarrow> ('t option \<Rightarrow> api_object) \<Rightarrow> bool" where
  "answers_typed F wrap \<longleftrightarrow> (\<forall>a x w obj err w'.
     invokes F a (wrap (Some x)) w = ((Some obj, err), w') \<longrightarrow> (\<exists>y. obj = wrap (Some y)))"

definition watch_law :: "('w, 'p, 'i) fake \<Rightarrow> bool" where
  "watch_law F \<longleftrightarrow> (\<forall>r ns opts b.
     invokes_watch F (New_Watch_Action r ns (opts\<lparr>lo_watch := b\<rparr>)) = invokes_watch F (New_Watch_Action r ns opts))"

text \<open>
  The same answer: the fake does not panic, error and world are equal, and so is the object, where the
  fake returns nil for no object and the client the empty one.
\<close>

definition same_answer :: "'t \<Rightarrow> ('t option \<times> 'e) option \<times> 'w \<Rightarrow> ('t \<times> 'e) \<times> 'w \<Rightarrow> bool" where
  "same_answer z f r \<longleftrightarrow>
     (\<exists>p err w. f = (Some (p, err), w) \<and> r = ((case p of None \<Rightarrow> z | Some x \<Rightarrow> x, err), w))"

lemmas request_defs = request_action_def request_namespace_def request_names_def request_sub_resources_def
  request_body_def request_data_def request_list_options_def request_delete_options_def

lemmas fake_defs = fake_get_def fake_list_def fake_watch_def fake_create_def fake_update_def
  fake_update_status_def fake_delete_def fake_delete_collection_def fake_patch_def

lemmas client_methods = client_get_def client_list_def client_watch_def client_create_def client_update_def
  client_update_status_def client_delete_def client_delete_collection_def client_patch_def

text \<open>The files of the fakes and of the clients are about the same type of objects.\<close>

locale fake_double =
  fixes T :: "'t fake_type" and R :: "'t resource_type"
  assumes same_zero: "rt_zero R = ft_zero T"
    and as_object: "ft_as T (ft_object T p) = Some p"
    and as_list: "ft_as_list T (ft_list T l) = Some l"
begin

lemma invoke_same:
  assumes "answers_typed F (ft_object T)"
    and "a = request_action T r"
  shows "same_answer (ft_zero T) (fake_invoke T \<lparr>fc_fake = F, fc_ns = ns\<rparr> a w)
    (do_into (fake_server F T) r (ft_zero T) w)"
proof -
  obtain obj err w' where i: "invokes F a (ft_object T (Some (ft_zero T))) w = ((obj, err), w')"
    by (metis prod.collapse)
  show ?thesis
  proof (cases obj)
    case None
    with i assms(2) show ?thesis
      by (simp add: same_answer_def fake_invoke_def returned_def fake_server_def decoded_def)
  next
    case (Some ob)
    with i assms(1) obtain y where "ob = ft_object T (Some y)"
      unfolding answers_typed_def by blast
    with Some i assms(2) show ?thesis
      by (simp add: same_answer_def fake_invoke_def returned_def fake_server_def decoded_def as_object)
  qed
qed

lemma list_same:
  assumes "answers_typed F (ft_list T)"
  shows "same_answer zero_list (fake_list T \<lparr>fc_fake = F, fc_ns = ns\<rparr> opts w)
    (client_list R \<lparr>tc_client = fake_server F T, tc_ns = ns\<rparr> opts w)"
proof -
  obtain obj err w' where i: "invokes F (New_List_Action (ft_resource T) (ft_kind T) ns opts) (ft_list T (Some zero_list)) w
      = ((obj, err), w')"
    by (metis prod.collapse)
  show ?thesis
  proof (cases obj)
    case None
    with i show ?thesis
      by (simp add: same_answer_def fake_list_def client_list_def fake_server_def request_defs decoded_def)
  next
    case (Some ob)
    with i assms obtain l where "ob = ft_list T (Some l)"
      unfolding answers_typed_def by blast
    with Some i show ?thesis
      by (cases "list_label F opts")
        (simp_all add: same_answer_def fake_list_def client_list_def fake_server_def request_defs decoded_def as_list Let_def)
  qed
qed

lemma object_methods_same:
  fixes ns :: string
  assumes "answers_typed F (ft_object T)"
  defines "f \<equiv> \<lparr>fc_fake = F, fc_ns = ns\<rparr>" and "c \<equiv> \<lparr>tc_client = fake_server F T, tc_ns = ns\<rparr>"
  shows "same_answer (ft_zero T) (fake_get T f name p w) (client_get R c name p w)"
    and "same_answer (ft_zero T) (fake_create T f x p w) (client_create R c x p w)"
    and "same_answer (ft_zero T) (fake_update T f x p w) (client_update R c x p w)"
    and "same_answer (ft_zero T) (fake_update_status T f x p w) (client_update_status R c x p w)"
    and "same_answer (ft_zero T) (fake_patch T f name pt data p subs w) (client_patch R c name pt data p subs w)"
  unfolding f_def c_def fake_defs client_methods typed_client.simps fake_client.simps same_zero
  by (rule invoke_same [OF assms(1)]; simp add: request_defs)+

lemma other_methods_same:
  fixes ns :: string
  assumes "watch_law F"
  defines "f \<equiv> \<lparr>fc_fake = F, fc_ns = ns\<rparr>" and "c \<equiv> \<lparr>tc_client = fake_server F T, tc_ns = ns\<rparr>"
  shows "fake_watch T f opts w = client_watch R c opts w"
    and "fake_delete T f name p w = client_delete R c name p w"
    and "fake_delete_collection T f p opts w = client_delete_collection R c p opts w"
  using assms(1)
  by (simp_all add: f_def c_def fake_defs client_methods fake_server_def request_defs watch_law_def Let_def)

lemmas methods_same = object_methods_same list_same other_methods_same

end

interpretation accounts_double: fake_double fake_account_type account_type
  by unfold_locales (simp_all add: fake_account_type_def account_type_def)

interpretation operators_double: fake_double fake_operator_type operator_type
  by unfold_locales (simp_all add: fake_operator_type_def operator_type_def)

interpretation signing_keys_double: fake_double fake_signing_key_type signing_key_type
  by unfold_locales (simp_all add: fake_signing_key_type_def signing_key_type_def)

interpretation users_double: fake_double fake_user_type user_type
  by unfold_locales (simp_all add: fake_user_type_def user_type_def)

text \<open>A server for all four types.\<close>

definition fake_servers :: "('w, 'p, 'i) fake \<Rightarrow> ('w, 'p, 'i) rest_interface" where
  "fake_servers F = \<lparr>rest_accounts = fake_server F fake_account_type, rest_operators = fake_server F fake_operator_type,
     rest_signing_keys = fake_server F fake_signing_key_type, rest_users = fake_server F fake_user_type\<rparr>"

lemmas fake_method_defs =
  fake_accounts_get_def accounts_get_def fake_accounts_list_def accounts_list_def
  fake_accounts_watch_def accounts_watch_def fake_accounts_create_def accounts_create_def
  fake_accounts_update_def accounts_update_def fake_accounts_update_status_def accounts_update_status_def
  fake_accounts_delete_def accounts_delete_def fake_accounts_delete_collection_def accounts_delete_collection_def
  fake_accounts_patch_def accounts_patch_def
  fake_operators_get_def operators_get_def fake_operators_list_def operators_list_def
  fake_operators_watch_def operators_watch_def fake_operators_create_def operators_create_def
  fake_operators_update_def operators_update_def fake_operators_update_status_def operators_update_status_def
  fake_operators_delete_def operators_delete_def fake_operators_delete_collection_def operators_delete_collection_def
  fake_operators_patch_def operators_patch_def
  fake_signing_keys_get_def signing_keys_get_def fake_signing_keys_list_def signing_keys_list_def
  fake_signing_keys_watch_def signing_keys_watch_def fake_signing_keys_create_def signing_keys_create_def
  fake_signing_keys_update_def signing_keys_update_def fake_signing_keys_update_status_def signing_keys_update_status_def
  fake_signing_keys_delete_def signing_keys_delete_def fake_signing_keys_delete_collection_def signing_keys_delete_collection_def
  fake_signing_keys_patch_def signing_keys_patch_def
  fake_users_get_def users_get_def fake_users_list_def users_list_def
  fake_users_watch_def users_watch_def fake_users_create_def users_create_def
  fake_users_update_def users_update_def fake_users_update_status_def users_update_status_def
  fake_users_delete_def users_delete_def fake_users_delete_collection_def users_delete_collection_def
  fake_users_patch_def users_patch_def

lemmas fake_client_defs =
  fake_accounts_def accounts_client_def new_accounts_client_def
  fake_operators_def operators_client_def new_operators_client_def
  fake_signing_keys_def signing_keys_client_def new_signing_keys_client_def
  fake_users_def users_client_def new_users_client_def
  fake_servers_def group_client_of_def

lemma fake_type_fields:
  "ft_object fake_account_type = Api_Account" "ft_list fake_account_type = Api_Account_List" "ft_zero fake_account_type = zero_account"
  "ft_object fake_operator_type = Api_Operator" "ft_list fake_operator_type = Api_Operator_List" "ft_zero fake_operator_type = zero_operator"
  "ft_object fake_signing_key_type = Api_Signing_Key" "ft_list fake_signing_key_type = Api_Signing_Key_List" "ft_zero fake_signing_key_type = zero_signing_key"
  "ft_object fake_user_type = Api_User" "ft_list fake_user_type = Api_User_List" "ft_zero fake_user_type = zero_user"
  by (simp_all add: fake_account_type_def fake_operator_type_def fake_signing_key_type_def fake_user_type_def)

text \<open>C30: the fakes are faithful doubles. On an API server that answers each request the way the fake's
  reactors answer the corresponding action, all nine methods of the real client of each of the four
  types return what the fake returns (the empty object where the fake returns nil) and leave the world
  as the fake does; the fake never panics. \<open>List\<close> returns the objects the label selector matches. The
  hypotheses are what client-go documents of its fake: it answers with objects of the type it is asked
  for, and a watch action has no watch flag.\<close>

theorem fakes_mirror_clients:
  fixes F :: "('w, 'p, 'i) fake" and ns :: string
  defines "S \<equiv> fake_servers F"
  assumes "answers_typed F Api_Account" "answers_typed F Api_Operator" "answers_typed F Api_Signing_Key"
    "answers_typed F Api_User"
    and "answers_typed F Api_Account_List" "answers_typed F Api_Operator_List" "answers_typed F Api_Signing_Key_List"
    "answers_typed F Api_User_List"
    and "watch_law F"
  shows
    "(let f = fake_accounts \<lparr>fg_fake = F\<rparr> ns; c = accounts_client (group_client_of S) ns in
      same_answer zero_account (fake_accounts_get f name p w) (accounts_get c name p w) \<and>
      same_answer zero_list (fake_accounts_list f opts w) (accounts_list c opts w) \<and>
      fake_accounts_watch f opts w = accounts_watch c opts w \<and>
      same_answer zero_account (fake_accounts_create f acc p w) (accounts_create c acc p w) \<and>
      same_answer zero_account (fake_accounts_update f acc p w) (accounts_update c acc p w) \<and>
      same_answer zero_account (fake_accounts_update_status f acc p w) (accounts_update_status c acc p w) \<and>
      fake_accounts_delete f name p w = accounts_delete c name p w \<and>
      fake_accounts_delete_collection f p opts w = accounts_delete_collection c p opts w \<and>
      same_answer zero_account (fake_accounts_patch f name pt data p subs w) (accounts_patch c name pt data p subs w)) \<and>
     (let f = fake_operators \<lparr>fg_fake = F\<rparr> ns; c = operators_client (group_client_of S) ns in
      same_answer zero_operator (fake_operators_get f name p w) (operators_get c name p w) \<and>
      same_answer zero_list (fake_operators_list f opts w) (operators_list c opts w) \<and>
      fake_operators_watch f opts w = operators_watch c opts w \<and>
      same_answer zero_operator (fake_operators_create f opr p w) (operators_create c opr p w) \<and>
      same_answer zero_operator (fake_operators_update f opr p w) (operators_update c opr p w) \<and>
      same_answer zero_operator (fake_operators_update_status f opr p w) (operators_update_status c opr p w) \<and>
      fake_operators_delete f name p w = operators_delete c name p w \<and>
      fake_operators_delete_collection f p opts w = operators_delete_collection c p opts w \<and>
      same_answer zero_operator (fake_operators_patch f name pt data p subs w) (operators_patch c name pt data p subs w)) \<and>
     (let f = fake_signing_keys \<lparr>fg_fake = F\<rparr> ns; c = signing_keys_client (group_client_of S) ns in
      same_answer zero_signing_key (fake_signing_keys_get f name p w) (signing_keys_get c name p w) \<and>
      same_answer zero_list (fake_signing_keys_list f opts w) (signing_keys_list c opts w) \<and>
      fake_signing_keys_watch f opts w = signing_keys_watch c opts w \<and>
      same_answer zero_signing_key (fake_signing_keys_create f sk p w) (signing_keys_create c sk p w) \<and>
      same_answer zero_signing_key (fake_signing_keys_update f sk p w) (signing_keys_update c sk p w) \<and>
      same_answer zero_signing_key (fake_signing_keys_update_status f sk p w) (signing_keys_update_status c sk p w) \<and>
      fake_signing_keys_delete f name p w = signing_keys_delete c name p w \<and>
      fake_signing_keys_delete_collection f p opts w = signing_keys_delete_collection c p opts w \<and>
      same_answer zero_signing_key (fake_signing_keys_patch f name pt data p subs w) (signing_keys_patch c name pt data p subs w)) \<and>
     (let f = fake_users \<lparr>fg_fake = F\<rparr> ns; c = users_client (group_client_of S) ns in
      same_answer zero_user (fake_users_get f name p w) (users_get c name p w) \<and>
      same_answer zero_list (fake_users_list f opts w) (users_list c opts w) \<and>
      fake_users_watch f opts w = users_watch c opts w \<and>
      same_answer zero_user (fake_users_create f usr p w) (users_create c usr p w) \<and>
      same_answer zero_user (fake_users_update f usr p w) (users_update c usr p w) \<and>
      same_answer zero_user (fake_users_update_status f usr p w) (users_update_status c usr p w) \<and>
      fake_users_delete f name p w = users_delete c name p w \<and>
      fake_users_delete_collection f p opts w = users_delete_collection c p opts w \<and>
      same_answer zero_user (fake_users_patch f name pt data p subs w) (users_patch c name pt data p subs w))"
  unfolding Let_def S_def fake_client_defs fake_group.simps group_client.simps rest_interface.simps fake_method_defs
  by (intro conjI;
    simp add: accounts_double.methods_same [unfolded fake_type_fields]
      operators_double.methods_same [unfolded fake_type_fields]
      signing_keys_double.methods_same [unfolded fake_type_fields]
      users_double.methods_same [unfolded fake_type_fields]
      assms)

section \<open>A fake that records\<close>

text \<open>A fake whose one reactor answers every action with the object it is given; its world is the list of
  the actions, as in client-go's \<open>Fake\<close>.\<close>

definition recording_fake :: "(unit fake_action list, unit, unit) fake" where
  "recording_fake = \<lparr>invokes = \<lambda>a obj w. ((Some obj, None), w @ [a]), invokes_watch = \<lambda>a w. ((None, None), w),
     list_label = \<lambda>opts. None, every_label = \<lparr>sel_matches = \<lambda>l. True, sel_empty = True, sel_string = []\<rparr>\<rparr>"

lemma recording_fake_laws: "answers_typed recording_fake wrap" "watch_law recording_fake"
  by (auto simp: answers_typed_def watch_law_def recording_fake_def)

theorem fakes_mirror_clients_witness:
  "same_answer zero_operator
     (Some (Some zero_operator, None),
      [New_Update_Subresource_Action operators_resource ''status'' ''ns'' (Api_Operator (Some zero_operator))])
     (operators_update_status (operators_client (group_client_of (fake_servers recording_fake)) ''ns'') zero_operator () [])"
proof -
  have "same_answer zero_operator
     (fake_operators_update_status (fake_operators \<lparr>fg_fake = recording_fake\<rparr> ''ns'') zero_operator () [])
     (operators_update_status (operators_client (group_client_of (fake_servers recording_fake)) ''ns'') zero_operator () [])"
    by (simp only: fakes_mirror_clients [OF recording_fake_laws(1) recording_fake_laws(1) recording_fake_laws(1)
      recording_fake_laws(1) recording_fake_laws(1) recording_fake_laws(1) recording_fake_laws(1) recording_fake_laws(1)
      recording_fake_laws(2), unfolded Let_def])
  then show ?thesis
    by (simp add: fake_operators_update_status_def fake_update_status_def fake_invoke_def returned_def recording_fake_def
        fake_operators_def fake_operator_type_def)
qed

end
