(* ===== verification/Steady_Conditions.thy ===== *)
theory Steady_Conditions
  imports Lifecycle_Runs
begin

text \<open>
  When a status stops changing. \<open>reached r want cs\<close>: all conditions of a set are True with the wanted
  reasons and messages; \<open>fulfilled\<close> is the case without any. In such a state the operations of a reconciliation that goes well, initialising the
  conditions and marking a dependent True, change nothing, not even a time, and do not read the
  clock; and marking every dependent True leads there. Two conditions that are semantically equal
  are fulfilled together.
\<close>

section \<open>Conditions that are fulfilled\<close>

text \<open>True with the reason and the message \<open>w\<close>; \<open>want\<close> says which a condition is to have.\<close>

definition true_as :: "string \<times> string \<Rightarrow> condition_type \<Rightarrow> conditions \<Rightarrow> bool" where
  "true_as w t cs \<longleftrightarrow> view cs t = Some (ConditionTrue, ConditionSeverityError, fst w, snd w)"

definition reached :: "condition_set \<Rightarrow> (condition_type \<Rightarrow> string \<times> string) \<Rightarrow> conditions \<Rightarrow> bool" where
  "reached r want cs \<longleftrightarrow> managed r cs \<and> (\<forall>t \<in> insert (happy r) (set (dependents r)). true_as (want t) t cs)"

abbreviation plainly_true :: "condition_type \<Rightarrow> conditions \<Rightarrow> bool" where
  "plainly_true \<equiv> true_as ([], [])"

abbreviation fulfilled :: "condition_set \<Rightarrow> conditions \<Rightarrow> bool" where
  "fulfilled r \<equiv> reached r (\<lambda>_. ([], []))"

lemma true_as_get:
  assumes "true_as w t cs"
  obtains c where "get_condition t cs = Some c" "c \<in> set cs" "cond_type c = t"
    "content c = (ConditionTrue, ConditionSeverityError, fst w, snd w)"
  using assms by (auto simp: true_as_def view_def dest: get_condition_type)

lemma true_as_is_true: "true_as w t cs \<Longrightarrow> is_true (get_condition t cs)"
  by (auto elim!: true_as_get simp: content_def)

lemma reached_happy: "reached r want cs \<Longrightarrow> is_true (get_condition (happy r) cs)"
  by (auto simp: reached_def intro: true_as_is_true)

lemma set_true_as:
  assumes "true_as (reason, msg) t cs"
  shows "set_condition now (new_condition t ConditionTrue ConditionSeverityError reason msg) (cs, k) = (cs, k)"
proof -
  from assms obtain c where c: "c \<in> set cs" "cond_type c = t"
      "content c = (ConditionTrue, ConditionSeverityError, reason, msg)"
    by (rule true_as_get) simp
  show ?thesis
    by (rule set_condition_same [OF c(1)]) (use c in \<open>cases c; simp add: new_condition_def content_def\<close>)
qed

lemma overall_true_as:
  "\<forall>t \<in> set (dependents r). true_as (want t) t cs \<Longrightarrow> overall r cs = ConditionTrue"
proof -
  assume all: "\<forall>t \<in> set (dependents r). true_as (want t) t cs"
  have "\<not> is_false (get_condition d cs) \<and> \<not> is_unknown (get_condition d cs)" if "d \<in> set (dependents r)" for d
    using all [rule_format, OF that] by (auto elim!: true_as_get simp: content_def)
  then show ?thesis by (auto simp: overall_def)
qed

lemma no_unhappy_dependent:
  assumes "set_wf r" and "managed r cs" and "\<forall>t \<in> set (dependents r). true_as (want t) t cs"
  shows "find_unhappy_dependent r cs = None"
  by (cases rule: find_unhappy_dependent_cases [OF assms(2,1)]) (use overall_true_as [OF assms(3)] in auto)

text \<open>\<open>MarkTrue\<close> is \<open>MarkTrueWithReason\<close> without reason and message.\<close>

lemma mark_true_plain: "mark_true now r t = mark_true_with_reason now r t [] [] []"
  by (simp add: fun_eq_iff mark_true_def mark_true_with_reason_def)

section \<open>Fulfilled conditions stay as they are\<close>

lemma mark_reached:
  assumes "set_wf r" and "reached r want cs" and "t \<in> set (dependents r)"
    and "want t = (reason, sprintf f as)" and "want (happy r) = ([], [])"
  shows "mark_true_with_reason now r t reason f as (cs, k) = (cs, k)"
proof -
  from assms(2) have m: "managed r cs" and all: "\<forall>t \<in> set (dependents r). true_as (want t) t cs"
      and h: "true_as ([], []) (happy r) cs"
    by (auto simp: reached_def assms(5))
  have d: "true_as (reason, sprintf f as) t cs" using all assms(3,4) by metis
  have "set_condition now (new_condition t ConditionTrue (severity r t) reason (sprintf f as)) (cs, k) = (cs, k)"
    using set_true_as [OF d, of now k] assms(3) by simp
  then show ?thesis
    using no_unhappy_dependent [OF assms(1) m all] set_true_as [OF h, of now k]
    by (simp add: mark_true_with_reason_def recompute_happiness_def)
qed

lemma mark_true_reached:
  assumes "set_wf r" and "reached r want cs" and "t \<in> set (dependents r)"
    and "want t = ([], [])" and "want (happy r) = ([], [])"
  shows "mark_true now r t (cs, k) = (cs, k)"
  unfolding mark_true_plain by (rule mark_reached [OF assms(1-3) _ assms(5)]) (simp add: assms(4))

lemma initialize_reached:
  "reached r want (fst st) \<Longrightarrow> initialize_conditions now r st = st"
  by (simp add: reached_def initialize_managed)

section \<open>How conditions become fulfilled\<close>

lemma true_as_set:
  assumes "ordered_conditions (fst st)"
  shows "true_as w t (fst (set_condition now (new_condition t' ConditionTrue ConditionSeverityError reason msg) st))
    \<longleftrightarrow> (if t = t' then w = (reason, msg) else true_as w t (fst st))"
  using assms by (cases st; cases w) (auto simp: true_as_def view_set_condition content_def)

lemma true_as_recompute:
  assumes "ordered_conditions (fst st)" and "t \<noteq> happy r"
  shows "true_as w t (fst (recompute_happiness now r t' st)) = true_as w t (fst st)"
  using recompute_other [OF assms, of now t'] by (simp add: true_as_def view_def)

lemma true_as_mark_with_reason:
  assumes "set_wf r" and "managed r cs" and "t \<in> set (dependents r)" and "d \<in> set (dependents r)"
  shows "true_as w d (fst (mark_true_with_reason now r t reason f as (cs, k)))
    \<longleftrightarrow> (if d = t then w = (reason, sprintf f as) else true_as w d cs)"
proof -
  note ord = managed_ordered [OF assms(2)]
  have "d \<noteq> happy r" using assms by (auto simp: set_wf_def)
  then show ?thesis
    unfolding mark_true_with_reason_def using assms(3) ord
    by (simp add: true_as_recompute set_condition_ordered true_as_set)
qed

lemma true_as_mark:
  assumes "set_wf r" and "managed r cs" and "t \<in> set (dependents r)" and "d \<in> set (dependents r)"
  shows "true_as w d (fst (mark_true now r t (cs, k))) \<longleftrightarrow> (if d = t then w = ([], []) else true_as w d cs)"
  unfolding mark_true_plain using true_as_mark_with_reason [OF assms, of w now "[]" "[]" "[]" k] by simp

lemma mark_last_reaches:
  assumes "set_wf r" and "managed r cs" and "t \<in> set (dependents r)"
    and "\<forall>d \<in> set (dependents r). d \<noteq> t \<longrightarrow> true_as (want d) d cs"
    and "want t = ([], [])" and "want (happy r) = ([], [])"
  shows "reached r want (fst (mark_true now r t (cs, k)))"
proof -
  let ?st = "set_condition now (new_condition t ConditionTrue (severity r t) [] []) (cs, k)"
  note ord = managed_ordered [OF assms(2)]
  have m: "managed r (fst ?st)" using assms by (intro managed_set) simp_all
  have all: "\<forall>d \<in> set (dependents r). true_as (want d) d (fst ?st)"
    using assms ord by (auto simp: true_as_set)
  have "t \<noteq> happy r" using assms by (auto simp: set_wf_def)
  then have eq: "mark_true now r t (cs, k) = set_condition now (new_condition (happy r) ConditionTrue (severity r (happy r)) [] []) ?st"
    using no_unhappy_dependent [OF assms(1) m all] by (simp add: mark_true_def recompute_happiness_def)
  have "true_as (want (happy r)) (happy r) (fst (mark_true now r t (cs, k)))"
    unfolding eq assms(6) severity_terminal(2) using true_as_set [OF managed_ordered [OF m]] by simp
  moreover have "managed r (fst (mark_true now r t (cs, k)))"
    using mark_true_settles [OF assms(1) _ assms(3), of "(cs, k)" now] assms(2) by simp
  moreover have "\<forall>d \<in> set (dependents r). true_as (want d) d (fst (mark_true now r t (cs, k)))"
    using assms(4,5) by (auto simp: true_as_mark [OF assms(1,2,3)])
  ultimately show ?thesis by (simp add: reached_def)
qed

section \<open>Semantic equality\<close>

lemma semantic_equal_types:
  "conditions_semantic_equal cs ds \<Longrightarrow> map cond_type cs = map cond_type ds"
  unfolding conditions_semantic_equal_def
  by (induction rule: list_all2_induct) (auto simp: condition_semantic_equal_def)

lemma semantic_equal_well_kept:
  "conditions_semantic_equal cs ds \<Longrightarrow> (\<forall>c \<in> set cs. well_kept c) = (\<forall>c \<in> set ds. well_kept c)"
  unfolding conditions_semantic_equal_def
  by (induction rule: list_all2_induct) (auto simp: condition_semantic_equal_def well_kept_def)

lemma semantic_equal_view: "conditions_semantic_equal cs ds \<Longrightarrow> view cs = view ds"
  unfolding conditions_semantic_equal_def
proof (induction rule: list_all2_induct)
  case (Cons c cs d ds)
  then show ?case
    by (auto simp: fun_eq_iff view_def get_condition_def condition_semantic_equal_def content_def)
qed simp

lemma semantic_equal_managed:
  assumes "conditions_semantic_equal cs ds"
  shows "managed r cs \<longleftrightarrow> managed r ds"
  using semantic_equal_types [OF assms] semantic_equal_well_kept [OF assms]
  by (simp add: managed_def ordered_conditions_def flip: set_map)

lemma semantic_equal_reached:
  "conditions_semantic_equal cs ds \<Longrightarrow> reached r want cs \<longleftrightarrow> reached r want ds"
  by (simp add: reached_def true_as_def semantic_equal_managed semantic_equal_view)

section \<open>Clocks\<close>

text \<open>Reading the clock is all that the operations do to the world.\<close>

definition clock_only :: "('c \<Rightarrow> int \<times> 'c) \<Rightarrow> ('c \<Rightarrow> 'c \<Rightarrow> bool) \<Rightarrow> bool" where
  "clock_only now R \<longleftrightarrow> (\<forall>k. R k k) \<and> (\<forall>k. R k (snd (now k))) \<and> (\<forall>a b c. R a b \<longrightarrow> R b c \<longrightarrow> R a c)"

lemma clock_set_condition: "clock_only now R \<Longrightarrow> R (snd st) (snd (set_condition now c st))"
  by (auto simp: clock_only_def set_condition_def split: prod.split option.split)
    (metis snd_conv)

lemma clock_trans: "clock_only now R \<Longrightarrow> R a b \<Longrightarrow> R b c \<Longrightarrow> R a c"
  unfolding clock_only_def by blast

lemma clock_mark_with_reason:
  assumes "clock_only now R"
  shows "R (snd st) (snd (mark_true_with_reason now r t reason f as st))"
proof -
  note c = clock_set_condition [OF assms] and tr = clock_trans [OF assms]
  show ?thesis
    unfolding mark_true_with_reason_def recompute_happiness_def
    by (auto split: option.split intro: c tr)
qed

lemmas clock_mark_true = clock_mark_with_reason [where reason = "[]" and f = "[]" and as = "[]", folded mark_true_plain]

lemma clock_initialize_terminal:
  assumes "clock_only now R"
  shows "R (snd st) (snd (initialize_terminal_condition now s t st))"
  using assms clock_set_condition [OF assms]
  by (auto simp: initialize_terminal_condition_def clock_only_def split: option.split)

lemma clock_initialize:
  assumes "clock_only now R"
  shows "R (snd st) (snd (initialize_conditions now r st))"
proof -
  note c = clock_set_condition [OF assms] and tr = clock_trans [OF assms]
  have "R (snd st) (snd (foldl (\<lambda>st t. initialize_terminal_condition now s t st) st ds))" for s ds and st :: "conditions \<times> 'a"
  proof (induction ds arbitrary: st)
    case Nil
    then show ?case using assms by (simp add: clock_only_def)
  next
    case (Cons d ds)
    show ?case by simp (rule tr [OF clock_initialize_terminal [OF assms] Cons])
  qed
  note fold = this
  show ?thesis
  proof (cases "get_condition (happy r) (fst st)")
    case None
    then show ?thesis by (simp add: initialize_conditions_def Let_def) (rule tr [OF c fold])
  next
    case (Some h)
    then show ?thesis using fold by (simp add: initialize_conditions_def Let_def)
  qed
qed

end
