(* ===== verification/Obliging_Cluster.thy ===== *)
theory Obliging_Cluster
  imports Behaviour Steady_Conditions
begin

text \<open>
  What a cluster is asked to do for reconciliations to come to an end. The cluster is seen through
  functions of the world: the object under reconciliation, \<open>K\<close>, and its secrets, \<open>S\<close>. Reads return
  what is stored and change neither; an accepted write stores what it was given.
\<close>

section \<open>Reads\<close>

definition keeps :: "('x \<Rightarrow> 'a) \<Rightarrow> ('x \<Rightarrow> 'b) \<Rightarrow> 'x \<Rightarrow> 'x \<Rightarrow> bool" where
  "keeps K S x y \<longleftrightarrow> K y = K x \<and> S y = S x"

text \<open>A call that only reads, and what it returns.\<close>

definition reads_only :: "('x \<Rightarrow> 'a) \<Rightarrow> ('x \<Rightarrow> 'b) \<Rightarrow> ('x \<Rightarrow> 'r \<times> 'x) \<Rightarrow> ('x \<Rightarrow> 'r \<Rightarrow> bool) \<Rightarrow> bool" where
  "reads_only K S f P \<longleftrightarrow> (\<forall>x. keeps K S x (snd (f x)) \<and> P x (fst (f x)))"

text \<open>The answer to a read of a secret that is there, or not.\<close>

definition found :: "secret option \<Rightarrow> error + secret \<Rightarrow> bool" where
  "found stored r = (case stored of None \<Rightarrow> \<exists>e. r = Inl e \<and> is_not_found e | Some sec \<Rightarrow> r = Inr sec)"

lemma found_simps [simp]:
  "found None r \<longleftrightarrow> (\<exists>e. r = Inl e \<and> is_not_found e)" "found (Some sec) r \<longleftrightarrow> r = Inr sec"
  by (simp_all add: found_def)

lemma keeps_refl [simp]: "keeps K S x x"
  by (simp add: keeps_def)

lemma keeps_trans [trans]: "keeps K S x y \<Longrightarrow> keeps K S y z \<Longrightarrow> keeps K S x z"
  by (simp add: keeps_def)

lemma reads_onlyE:
  assumes "reads_only K S f P"
  obtains r y where "f x = (r, y)" "keeps K S x y" "P x r"
  using assms by (metis prod.collapse reads_only_def)

lemma reads_present:
  assumes "reads_only K S f (\<lambda>x. found (g x))" and "g x = Some sec"
  obtains y where "f x = (Inr sec, y)" "keeps K S x y"
  by (rule reads_onlyE [OF assms(1), of x]) (use assms(2) that in simp)

lemma reads_absent:
  assumes "reads_only K S f (\<lambda>x. found (g x))" and "g x = None"
  obtains e y where "f x = (Inl e, y)" "is_not_found e" "keeps K S x y"
  by (rule reads_onlyE [OF assms(1), of x]) (use assms(2) that in auto)

lemma reads_value:
  assumes "reads_only K S f (\<lambda>x r. r = g x)"
  obtains y where "f x = (g x, y)" "keeps K S x y"
  by (rule reads_onlyE [OF assms, of x]) (use that in simp)

lemma reads_only_clock: "reads_only K S now P \<Longrightarrow> clock_only now (keeps K S)"
  by (simp add: reads_only_def clock_only_def keeps_def)

section \<open>Writes\<close>

text \<open>
  An object that was read in its current version is accepted. An update stores all but the status, an
  update of the status nothing else; both return what is stored, under a new resource version.
  \<open>meta_of\<close> are the metadata of the object and \<open>stamp\<close> sets the version.
\<close>

definition same_version :: "object_meta \<Rightarrow> object_meta \<Rightarrow> bool" where
  "same_version m m' \<longleftrightarrow> m_name m = m_name m' \<and> m_namespace m = m_namespace m' \<and> m_resource_version m = m_resource_version m'"

definition accepts ::
  "('k \<Rightarrow> object_meta) \<Rightarrow> (string \<Rightarrow> 'k \<Rightarrow> 'k) \<Rightarrow> ('k \<Rightarrow> 'x \<Rightarrow> (error option \<times> 'k) \<times> 'x) \<Rightarrow> ('x \<Rightarrow> 'k) \<Rightarrow> ('x \<Rightarrow> 'b) \<Rightarrow>
     ('k \<Rightarrow> 'k \<Rightarrow> 'k) \<Rightarrow> bool" where
  "accepts meta_of stamp f K S what \<longleftrightarrow> (\<forall>k x. same_version (meta_of k) (meta_of (K x)) \<longrightarrow>
     (\<exists>v x'. f k x = ((None, stamp v (what k (K x))), x') \<and> K x' = stamp v (what k (K x)) \<and> S x' = S x))"

lemma same_version_refl [simp]: "same_version m m"
  by (simp add: same_version_def)

lemma acceptsE:
  assumes "accepts meta_of stamp f K S what" and "same_version (meta_of k) (meta_of (K x))"
  obtains v y where "f k x = ((None, stamp v (what k (K x))), y)" "K y = stamp v (what k (K x))" "S y = S x"
  using assms unfolding accepts_def by blast

section \<open>Runs\<close>

lemma run_eq: "wp m (\<lambda>a b. a = r \<and> b = s') s \<Longrightarrow> m s = (r, s')"
  by (cases "m s") (simp add: wp_def)

lemma wp_known: "m s = (r, s') \<Longrightarrow> wp m Q s = Q r s'"
  by (simp add: wp_def)

lemma update_order: "s\<lparr>trace := t, ext := y, cur := c\<rparr> = s\<lparr>ext := y, cur := c, trace := t\<rparr>"
  by (cases s) simp

section \<open>Worlds\<close>

text \<open>
  A cluster and libraries that keep no state, in any world: for concrete clusters, which replace the
  functions that do keep state.
\<close>

definition as_unit :: "(unit \<Rightarrow> 'r \<times> unit) \<Rightarrow> 'x \<Rightarrow> 'r \<times> 'x" where
  "as_unit f x = (fst (f ()), x)"

lemma as_unit_simps [simp]: "as_unit (\<lambda>x. (r, x)) = (\<lambda>x. (r, x))"
  by (simp add: as_unit_def fun_eq_iff)

definition kube_as_unit :: "unit kube \<Rightarrow> 'x kube" where
  "kube_as_unit C = \<lparr>time_now = as_unit (time_now C), cl_get_operator = (\<lambda>a b. as_unit (cl_get_operator C a b)),
     cl_get_account = (\<lambda>a b. as_unit (cl_get_account C a b)), cl_get_signing_key = (\<lambda>a b. as_unit (cl_get_signing_key C a b)),
     cl_get_user = (\<lambda>a b. as_unit (cl_get_user C a b)), cl_get_other = (\<lambda>a b c. as_unit (cl_get_other C a b c)),
     cl_update_account = (\<lambda>a. as_unit (cl_update_account C a)), cl_update_signing_key = (\<lambda>a. as_unit (cl_update_signing_key C a)),
     cl_update_user = (\<lambda>a. as_unit (cl_update_user C a)), cl_status_operator = (\<lambda>a. as_unit (cl_status_operator C a)),
     cl_status_account = (\<lambda>a. as_unit (cl_status_account C a)), cl_status_signing_key = (\<lambda>a. as_unit (cl_status_signing_key C a)),
     cl_status_user = (\<lambda>a. as_unit (cl_status_user C a)), cl_create_secret = (\<lambda>a. as_unit (cl_create_secret C a)),
     cl_update_secret = (\<lambda>a. as_unit (cl_update_secret C a)), cl_delete_secret = (\<lambda>a. as_unit (cl_delete_secret C a)),
     cl_list_accounts = (\<lambda>a b. as_unit (cl_list_accounts C a b)), cl_list_signing_keys = (\<lambda>a b. as_unit (cl_list_signing_keys C a b)),
     cl_list_users = (\<lambda>a b. as_unit (cl_list_users C a b)), cs_get_secret = (\<lambda>a b. as_unit (cs_get_secret C a b)),
     cs_create_secret = (\<lambda>a b. as_unit (cs_create_secret C a b)), cs_update_secret = (\<lambda>a b. as_unit (cs_update_secret C a b)),
     cs_get_namespace = (\<lambda>a. as_unit (cs_get_namespace C a)), cs_get_operator = (\<lambda>a b. as_unit (cs_get_operator C a b)),
     cs_get_account = (\<lambda>a b. as_unit (cs_get_account C a b)), cs_list_signing_keys = (\<lambda>a b. as_unit (cs_list_signing_keys C a b))\<rparr>"

definition env_as_unit :: "'x kube \<Rightarrow> unit env \<Rightarrow> 'x env" where
  "env_as_unit C E = \<lparr>e_kube = C, e_mach = e_mach E,
     e_nkeys = \<lparr>create_operator_key = as_unit (create_operator_key (e_nkeys E)),
       create_account_key = as_unit (create_account_key (e_nkeys E)),
       create_user_key = as_unit (create_user_key (e_nkeys E)), from_seed = from_seed (e_nkeys E),
       decode_seed = decode_seed (e_nkeys E), parse_decorated_nkey = parse_decorated_nkey (e_nkeys E),
       prefix_string = prefix_string (e_nkeys E), PrefixByteOperator = PrefixByteOperator (e_nkeys E),
       PrefixByteAccount = PrefixByteAccount (e_nkeys E)\<rparr>,
     e_jwt = \<lparr>new_operator_claims = new_operator_claims (e_jwt E), new_account_claims = new_account_claims (e_jwt E),
       new_user_claims = new_user_claims (e_jwt E), new_generic_claims = new_generic_claims (e_jwt E),
       encode_operator = (\<lambda>c k. as_unit (encode_operator (e_jwt E) c k)),
       encode_account = (\<lambda>c k. as_unit (encode_account (e_jwt E) c k)),
       encode_user = (\<lambda>c k. as_unit (encode_user (e_jwt E) c k)),
       encode_generic = (\<lambda>c k. as_unit (encode_generic (e_jwt E) c k)),
       jwt_decode = jwt_decode (e_jwt E), decode_operator_claims = decode_operator_claims (e_jwt E),
       imports_add = imports_add (e_jwt E), signing_keys_add = signing_keys_add (e_jwt E),
       OperatorClaim = OperatorClaim (e_jwt E), format_user_config = format_user_config (e_jwt E)\<rparr>,
     e_nats = \<lparr>opt_user_jwt_and_seed = opt_user_jwt_and_seed (e_nats E), opt_name = opt_name (e_nats E),
       certs_from_pem = certs_from_pem (e_nats E), nats_connect = (\<lambda>u os. as_unit (nats_connect (e_nats E) u os)),
       nats_request = (\<lambda>c s d. as_unit (nats_request (e_nats E) c s d)), nats_close = (\<lambda>c x. x),
       unmarshal_update_response = unmarshal_update_response (e_nats E)\<rparr>,
     e_range = e_range E\<rparr>"

lemma env_as_unit_sel [simp]:
  "e_kube (env_as_unit C E) = C" "e_mach (env_as_unit C E) = e_mach E"
  "create_operator_key (e_nkeys (env_as_unit C E)) = as_unit (create_operator_key (e_nkeys E))"
  "create_account_key (e_nkeys (env_as_unit C E)) = as_unit (create_account_key (e_nkeys E))"
  "from_seed (e_nkeys (env_as_unit C E)) = from_seed (e_nkeys E)"
  by (simp_all add: env_as_unit_def)

text \<open>A store of one object, next to other state, that refuses an outdated version.\<close>

definition object_store ::
  "('k \<Rightarrow> object_meta) \<Rightarrow> (string \<Rightarrow> 'k \<Rightarrow> 'k) \<Rightarrow> ('k \<Rightarrow> 'k \<Rightarrow> 'k) \<Rightarrow> 'k \<Rightarrow> 'k \<times> 's \<Rightarrow> (error option \<times> 'k) \<times> 'k \<times> 's" where
  "object_store meta_of stamp what k x = (if same_version (meta_of k) (meta_of (fst x))
     then (let j = stamp (m_resource_version (meta_of (fst x)) @ ''I'') (what k (fst x)) in ((None, j), (j, snd x)))
     else ((Some (StatusError Conflict ''the object has been modified''), k), x))"

lemma accepts_object_store: "accepts meta_of stamp (object_store meta_of stamp what) fst snd what"
  by (auto simp: accepts_def object_store_def Let_def)

end
