(* ===== verification/Signing_Key_Convergence.thy ===== *)
theory Signing_Key_Convergence
  imports Signing_Key_Properties Obliging_Cluster
begin

text \<open>
  A signing key converges. In a cluster that does what it is asked, and with an owner that is there
  and admits the key, the third reconciliation of a key in any state of its lifecycle, and every later
  one, finds nothing to do: the key has the label of its owner, a seed secret and a ready status.

  The cluster is seen through two functions of the world: the stored key \<open>K\<close> and its seed secret \<open>S\<close>.
\<close>

section \<open>A cluster that does what it is asked\<close>

definition at_version :: "string \<Rightarrow> signing_key \<Rightarrow> signing_key" where
  "at_version v k = k\<lparr>sk_meta := (sk_meta k)\<lparr>m_resource_version := v\<rparr>\<rparr>"

definition serves_key :: "'x kube \<Rightarrow> ('x \<Rightarrow> signing_key) \<Rightarrow> ('x \<Rightarrow> secret option) \<Rightarrow> string \<Rightarrow> string \<Rightarrow> string \<Rightarrow> bool" where
  "serves_key C K S ns name sn \<longleftrightarrow>
     reads_only K S (time_now C) (\<lambda>_ _. True) \<and>
     reads_only K S (cl_get_signing_key C ns name) (\<lambda>x r. r = Inr (K x)) \<and>
     reads_only K S (cs_get_secret C ns sn) (\<lambda>x. found (S x)) \<and>
     accepts sk_meta at_version (cl_update_signing_key C) K S (\<lambda>k old. k\<lparr>sk_status := sk_status old\<rparr>) \<and>
     accepts sk_meta at_version (cl_status_signing_key C) K S (\<lambda>k old. old\<lparr>sk_status := sk_status k\<rparr>) \<and>
     (\<forall>sec x. S x = None \<and> m_name (s_meta sec) = sn \<longrightarrow>
        (\<exists>x' sec'. cs_create_secret C ns sec x = (None, x') \<and> K x' = K x \<and> S x' = Some sec' \<and> s_data sec' = s_data sec))"

definition serves_owner :: "'x kube \<Rightarrow> ('x \<Rightarrow> signing_key) \<Rightarrow> ('x \<Rightarrow> secret option) \<Rightarrow> string \<Rightarrow> string \<Rightarrow> client_object \<Rightarrow> bool" where
  "serves_owner C K S ns name owner \<longleftrightarrow> (case owner of
       ObjOperator opr \<Rightarrow> reads_only K S (cl_get_operator C ns name) (\<lambda>_ r. r = Inr opr)
     | ObjAccount acc \<Rightarrow> reads_only K S (cl_get_account C ns name) (\<lambda>_ r. r = Inr acc)
     | _ \<Rightarrow> False)"

definition creates_keys :: "'x nkeys_lib \<Rightarrow> ('x \<Rightarrow> signing_key) \<Rightarrow> ('x \<Rightarrow> secret option) \<Rightarrow> bool" where
  "creates_keys N K S \<longleftrightarrow> (\<forall>f \<in> {create_operator_key N, create_account_key N}.
     reads_only K S f (\<lambda>_ r. \<exists>kp seed pub. r = Inr kp \<and> kp_seed kp = Inr seed \<and> kp_public_key kp = Inr pub))"

text \<open>All of it, for the key \<open>name\<close> in \<open>ns\<close> with the owner \<open>owner\<close> and the seed secret \<open>sn\<close>.\<close>

definition obliging ::
  "'x env \<Rightarrow> ('x \<Rightarrow> signing_key) \<Rightarrow> ('x \<Rightarrow> secret option) \<Rightarrow> string \<Rightarrow> string \<Rightarrow> string \<Rightarrow> string \<Rightarrow> client_object \<Rightarrow> bool" where
  "obliging E K S ns name sn oname owner \<longleftrightarrow>
     serves_key (e_kube E) K S ns name sn \<and> serves_owner (e_kube E) K S ns oname owner \<and>
     creates_keys (e_nkeys E) K S \<and> (\<forall>ob m. \<exists>refs. set_controller_reference (e_mach E) ob m = Inr refs)"

section \<open>The key and its owner\<close>

definition owner_ref :: "'x env \<Rightarrow> client_object \<Rightarrow> typed_object_reference" where
  "owner_ref E owner = reference_to (e_mach E) owner"

definition labelled_by :: "typed_object_reference \<Rightarrow> signing_key \<Rightarrow> bool" where
  "labelled_by ref k \<longleftrightarrow> (case owner_label ref of None \<Rightarrow> True | Some l \<Rightarrow> label_value (sk_meta k) l = tor_name ref)"

definition relabelled :: "typed_object_reference \<Rightarrow> signing_key \<Rightarrow> signing_key" where
  "relabelled ref k = (case owner_label ref of None \<Rightarrow> k | Some l \<Rightarrow> k\<lparr>sk_meta := put_label l (tor_name ref) (sk_meta k)\<rparr>)"

definition owner_kind :: "client_object \<Rightarrow> object_kind" where
  "owner_kind owner = (case owner of ObjOperator _ \<Rightarrow> KindOperator | _ \<Rightarrow> KindAccount)"

text \<open>
  The key belongs to the owner, and the owner admits it with the labels it has and with the label the
  reconciler adds.
\<close>

definition belongs :: "'x env \<Rightarrow> string \<Rightarrow> string \<Rightarrow> string \<Rightarrow> client_object \<Rightarrow> signing_key \<Rightarrow> bool" where
  "belongs E ns sn oname owner k \<longleftrightarrow>
     m_namespace (sk_meta k) = ns \<and> sk_seed_secret_name (sk_spec k) = sn \<and> sko_name (sk_owner_ref (sk_spec k)) = oname \<and>
     sko_kind (sk_owner_ref (sk_spec k)) \<in> {SigningKeyTypeAccount, SigningKeyTypeOperator} \<and>
     supported_owner (e_mach E) (owner_gvk_of (e_mach E) k) = Some (owner_kind owner) \<and>
     owner_admits_key (e_mach E) owner k \<and> owner_admits_key (e_mach E) owner (relabelled (owner_ref E owner) k)"

text \<open>Nothing is left to do.\<close>

definition steady :: "typed_object_reference \<Rightarrow> secret \<Rightarrow> signing_key \<Rightarrow> bool" where
  "steady ref sec k \<longleftrightarrow>
     fulfilled signing_key_condition_set (signing_key_get_conditions (sk_status k)) \<and>
     sks_owner_ref (sk_status k) = Some ref \<and>
     sks_key_pair (sk_status k) = Some \<lparr>public_key = secret_bytes sec NatsSecretPublicKeyKey,
       seed_secret_name = sk_seed_secret_name (sk_spec k)\<rparr>"

section \<open>The status\<close>

lemma signing_key_mark_owner:
  "signing_key_mark_owner_resolved now v (s, k) =
     (case mark_true now signing_key_condition_set SigningKeyConditionOwnerResolved (signing_key_get_conditions s, k) of
        (cs, k) \<Rightarrow> (signing_key_set_conditions cs (s\<lparr>sks_owner_ref := Some v\<rparr>), k))"
  by (simp add: signing_key_mark_owner_resolved_def manage_def signing_key_get_conditions_def split: prod.split)

lemma signing_key_mark_seed:
  "signing_key_mark_seed_secret_ready now pk sn (s, k) =
     (case mark_true now signing_key_condition_set SigningKeyConditionSeedSecretReady (signing_key_get_conditions s, k) of
        (cs, k) \<Rightarrow> (signing_key_set_conditions cs (s\<lparr>sks_key_pair := Some \<lparr>public_key = pk, seed_secret_name = sn\<rparr>\<rparr>), k))"
  by (simp add: signing_key_mark_seed_secret_ready_def manage_def signing_key_get_conditions_def split: prod.split)

lemma signing_key_initialize:
  "signing_key_initialize_conditions now (s, k) =
     (case initialize_conditions now signing_key_condition_set (signing_key_get_conditions s, k) of
        (cs, k) \<Rightarrow> (signing_key_set_conditions cs s, k))"
  by (simp add: signing_key_initialize_conditions_def manage_def split: prod.split)

lemma signing_key_status_sel [simp]:
  "signing_key_get_conditions (signing_key_set_conditions cs s) = cs"
  "sks_owner_ref (signing_key_set_conditions cs s) = sks_owner_ref s"
  "sks_key_pair (signing_key_set_conditions cs s) = sks_key_pair s"
  "signing_key_set_conditions (signing_key_get_conditions s) s = s"
  "signing_key_get_conditions (s\<lparr>sks_owner_ref := p\<rparr>) = signing_key_get_conditions s"
  "signing_key_get_conditions (s\<lparr>sks_key_pair := q\<rparr>) = signing_key_get_conditions s"
  by (simp_all add: signing_key_get_conditions_def signing_key_set_conditions_def get_conditions_def set_conditions_def)

lemma signing_key_status_same:
  "sks_owner_ref s = p \<Longrightarrow> s\<lparr>sks_owner_ref := p\<rparr> = s" "sks_key_pair s = q \<Longrightarrow> s\<lparr>sks_key_pair := q\<rparr> = s"
  by auto

text \<open>A steady status is not changed by a reconciliation.\<close>

lemma status_steady:
  assumes "fulfilled signing_key_condition_set (signing_key_get_conditions s)"
  shows "signing_key_initialize_conditions now (s, k) = (s, k)"
    and "sks_owner_ref s = Some v \<Longrightarrow> signing_key_mark_owner_resolved now v (s, k) = (s, k)"
    and "sks_key_pair s = Some \<lparr>public_key = pk, seed_secret_name = sn\<rparr> \<Longrightarrow>
      signing_key_mark_seed_secret_ready now pk sn (s, k) = (s, k)"
  using assms
  by (simp_all add: signing_key_initialize signing_key_mark_owner signing_key_mark_seed signing_key_dependents
      initialize_reached mark_true_reached signing_key_status_same)

text \<open>A reconciliation that goes well makes it steady.\<close>

lemma status_becomes_steady:
  assumes "managed signing_key_condition_set (signing_key_get_conditions s)"
    and "signing_key_mark_owner_resolved now v (s, k) = (s1, k1)"
    and "signing_key_mark_seed_secret_ready now pk sn (s1, k2) = (s2, k3)"
  shows "fulfilled signing_key_condition_set (signing_key_get_conditions s2)" and "sks_owner_ref s2 = Some v"
    and "sks_key_pair s2 = Some \<lparr>public_key = pk, seed_secret_name = sn\<rparr>"
proof -
  let ?r = signing_key_condition_set and ?o = SigningKeyConditionOwnerResolved and ?s = SigningKeyConditionSeedSecretReady
  note wf = condition_sets_wf(4)
  have o: "?o \<in> set (dependents ?r)" and sd: "?s \<in> set (dependents ?r)" by (simp_all add: signing_key_dependents)
  have s1: "signing_key_get_conditions s1 = fst (mark_true now ?r ?o (signing_key_get_conditions s, k))" "sks_owner_ref s1 = Some v"
    using assms(2) by (auto simp: signing_key_mark_owner split: prod.splits)
  have m1: "managed ?r (signing_key_get_conditions s1)"
    unfolding s1 using mark_true_settles [OF wf _ o, of "(signing_key_get_conditions s, k)" now] assms(1) by simp
  have "plainly_true ?o (signing_key_get_conditions s1)"
    unfolding s1 by (simp add: true_as_mark [OF wf assms(1) o o])
  then have "\<forall>d \<in> set (dependents ?r). d \<noteq> ?s \<longrightarrow> plainly_true d (signing_key_get_conditions s1)"
    by (simp add: signing_key_dependents)
  from mark_last_reaches [OF wf m1 sd, of "\<lambda>_. ([], [])" now k2] this assms(3) s1
  show "fulfilled ?r (signing_key_get_conditions s2)" "sks_owner_ref s2 = Some v"
    "sks_key_pair s2 = Some \<lparr>public_key = pk, seed_secret_name = sn\<rparr>"
    by (auto simp: signing_key_mark_seed split: prod.splits)
qed

lemma initialized_managed:
  assumes "signing_key_known now s" and "signing_key_initialize_conditions now (s, k) = (s1, k1)"
  shows "managed signing_key_condition_set (signing_key_get_conditions s1)" and "signing_key_run now s1"
proof -
  show run: "signing_key_run now s1"
    using assms unfolding signing_key_known_def signing_key_run_def
    by (metis fst_conv lifecycle_run.created lifecycle_run.initialized)
  show "managed signing_key_condition_set (signing_key_get_conditions s1)"
    using signing_key_life.run_consistent [OF run [unfolded signing_key_run_def]]
    by (simp add: signing_key_life.consistent_def)
qed

lemma status_calls_keep:
  assumes "clock_only now R"
  shows "R k (snd (signing_key_initialize_conditions now (s, k)))"
    and "R k (snd (signing_key_mark_owner_resolved now v (s, k)))"
    and "R k (snd (signing_key_mark_seed_secret_ready now pk sn (s, k)))"
  using clock_initialize [OF assms, of "(signing_key_get_conditions s, k)"]
    clock_mark_true [OF assms, of "(signing_key_get_conditions s, k)"]
  by (simp_all add: signing_key_initialize signing_key_mark_owner signing_key_mark_seed split: prod.split)
    (metis snd_conv)+

section \<open>The steps of a reconciliation\<close>

lemma obliging_clock: "obliging E K S ns name sn oname owner \<Longrightarrow> clock_only (time_now (e_kube E)) (keeps K S)"
  by (auto simp: obliging_def serves_key_def intro: reads_only_clock)

lemma obliging_stores:
  assumes "obliging E K S ns name sn oname owner"
  shows "accepts sk_meta at_version (cl_update_signing_key (e_kube E)) K S (\<lambda>k old. set_signing_key_status (sk_status old) k)"
    and "accepts sk_meta at_version (cl_status_signing_key (e_kube E)) K S (\<lambda>k old. set_signing_key_status (sk_status k) old)"
  using assms by (simp_all add: obliging_def serves_key_def set_signing_key_status_def)

abbreviation key_clock :: "'x env \<Rightarrow> 'x \<Rightarrow> int \<times> 'x" where
  "key_clock E \<equiv> time_now (e_kube E)"

lemma owner_resolves:
  assumes o: "obliging E K S ns name sn oname owner"
    and b: "belongs E ns sn oname owner (cur s)"
  obtains st x y where
    "ensure_owner_resolved E s = (Returns None, s\<lparr>ext := y, cur := set_signing_key_status st (cur s),
       trace := trace s @ [ObjectGet (owner_kind owner) ns oname (Inr owner)]\<rparr>)"
    "keeps K S (ext s) y" "signing_key_mark_owner_resolved (key_clock E) (owner_ref E owner) (sk_status (cur s), x) = (st, y)"
proof -
  obtain x where get: "keeps K S (ext s) x"
    "get_object E (owner_kind owner) ns oname s =
       (Returns (Inr owner), s\<lparr>ext := x, trace := trace s @ [ObjectGet (owner_kind owner) ns oname (Inr owner)]\<rparr>)"
  proof (cases owner)
    case (ObjOperator p)
    with o have "reads_only K S (cl_get_operator (e_kube E) ns oname) (\<lambda>_ r. r = Inr p)"
      by (simp add: obliging_def serves_owner_def)
    from reads_onlyE [OF this, of "ext s"] obtain y where "cl_get_operator (e_kube E) ns oname (ext s) = (Inr p, y)" "keeps K S (ext s) y"
      by auto
    with ObjOperator show ?thesis
      by (intro that [of y]) (auto intro!: run_eq simp: owner_kind_def get_object_def get_operator_def)
  next
    case (ObjAccount p)
    with o have "reads_only K S (cl_get_account (e_kube E) ns oname) (\<lambda>_ r. r = Inr p)"
      by (simp add: obliging_def serves_owner_def)
    from reads_onlyE [OF this, of "ext s"] obtain y where "cl_get_account (e_kube E) ns oname (ext s) = (Inr p, y)" "keeps K S (ext s) y"
      by auto
    with ObjAccount show ?thesis
      by (intro that [of y]) (auto intro!: run_eq simp: owner_kind_def get_object_def get_account_def)
  qed (use o in \<open>simp_all add: obliging_def serves_owner_def\<close>)
  obtain st y where m: "signing_key_mark_owner_resolved (key_clock E) (owner_ref E owner) (sk_status (cur s), x) = (st, y)"
    by fastforce
  with status_calls_keep(2) [OF obliging_clock [OF o], of x "owner_ref E owner" "sk_status (cur s)"]
  have "keeps K S x y" by simp
  with get(1) have y: "keeps K S (ext s) y" by (rule keeps_trans)
  obtain av kd where to: "to_api_version_and_kind (e_mach E) (object_get_gvk owner) = (av, kd)" by fastforce
  have v: "validate_owner_requirements (e_mach E) owner (cur s) = None"
    using b by (simp add: validate_owner_iff belongs_def)
  have w: "wp (get_object E (owner_kind owner) ns oname) Q s = Q (Returns (Inr owner))
      (s\<lparr>ext := x, trace := trace s @ [ObjectGet (owner_kind owner) ns oname (Inr owner)]\<rparr>)" for Q
    using get(2) by (simp add: wp_def)
  have "ensure_owner_resolved E s = (Returns None, s\<lparr>ext := y, cur := set_signing_key_status st (cur s),
       trace := trace s @ [ObjectGet (owner_kind owner) ns oname (Inr owner)]\<rparr>)"
    by (rule run_eq)
      (use m v to b in \<open>simp add: belongs_def ensure_owner_resolved_def Let_def owner_gvk_of_def w
        signing_key_do_def owner_ref_def reference_to_def\<close>)
  from that [OF this y m] show ?thesis .
qed

lemma labels_settled:
  assumes "sks_owner_ref (sk_status (cur s)) = Some ref" and "labelled_by ref (cur s)"
  shows "signing_key_reconcile_labels E s = (Returns (zero_result, None), s)"
  by (rule run_eq) (use assms in \<open>auto simp: signing_key_reconcile_labels_def labelled_by_def split: option.split\<close>)

lemma labels_written:
  assumes o: "obliging E K S ns name sn oname owner"
    and "sks_owner_ref (sk_status (cur s)) = Some ref" and "\<not> labelled_by ref (cur s)"
    and "same_version (sk_meta (cur s)) (sk_meta (K (ext s)))"
  obtains v y k where "k = at_version v (set_signing_key_status (sk_status (K (ext s))) (relabelled ref (cur s)))"
    "signing_key_reconcile_labels E s = (Returns (requeue_result, None), s\<lparr>ext := y, cur := k,
       trace := trace s @ [ObjectUpdate (ObjSigningKey (relabelled ref (cur s))) None]\<rparr>)"
    "K y = k" "S y = S (ext s)"
proof -
  obtain l where l: "owner_label ref = Some l" "label_value (sk_meta (cur s)) l \<noteq> tor_name ref"
    using assms(3) by (auto simp: labelled_by_def split: option.splits)
  let ?k = "relabelled ref (cur s)"
  have "same_version (sk_meta ?k) (sk_meta (K (ext s)))"
    using assms(4) l by (simp add: same_version_def relabelled_def put_label_def)
  from acceptsE [OF obliging_stores(1) [OF o] this] obtain v y where u: "cl_update_signing_key (e_kube E) ?k (ext s) =
      ((None, at_version v (set_signing_key_status (sk_status (K (ext s))) ?k)), y)"
    "K y = at_version v (set_signing_key_status (sk_status (K (ext s))) ?k)" "S y = S (ext s)"
    by blast
  have "signing_key_reconcile_labels E s = (Returns (requeue_result, None),
      s\<lparr>ext := y, cur := at_version v (set_signing_key_status (sk_status (K (ext s))) ?k),
       trace := trace s @ [ObjectUpdate (ObjSigningKey ?k) None]\<rparr>)"
    by (rule run_eq)
      (use assms(2) l u in \<open>simp add: signing_key_reconcile_labels_def update_signing_key_def write_cur_def modify_cur_def
        relabelled_def\<close>)
  from that [OF refl this u(2,3)] show ?thesis .
qed

lemma key_pair_read:
  assumes o: "obliging E K S ns name sn oname owner"
    and b: "belongs E ns sn oname owner (cur s)" and "S (ext s) = Some sec"
  obtains st x y where
    "ensure_key_pair E s = (Returns (zero_result, None), s\<lparr>ext := y, cur := set_signing_key_status st (cur s),
       trace := trace s @ [SecretGet ns sn (Inr sec)]\<rparr>)"
    "keeps K S (ext s) y"
    "signing_key_mark_seed_secret_ready (key_clock E) (secret_bytes sec NatsSecretPublicKeyKey) sn (sk_status (cur s), x) = (st, y)"
proof -
  have "reads_only K S (cs_get_secret (e_kube E) ns sn) (\<lambda>x. found (S x))"
    using o by (simp add: obliging_def serves_key_def)
  from reads_onlyE [OF this, of "ext s"] assms(3) obtain x where get: "cs_get_secret (e_kube E) ns sn (ext s) = (Inr sec, x)"
    "keeps K S (ext s) x" by auto
  obtain st y where m: "signing_key_mark_seed_secret_ready (key_clock E) (secret_bytes sec NatsSecretPublicKeyKey) sn
      (sk_status (cur s), x) = (st, y)" by fastforce
  with status_calls_keep(3) [OF obliging_clock [OF o], of x "secret_bytes sec NatsSecretPublicKeyKey" sn "sk_status (cur s)"]
  have "keeps K S x y" by simp
  with get(2) have y: "keeps K S (ext s) y" by (rule keeps_trans)
  have "ensure_key_pair E s = (Returns (zero_result, None), s\<lparr>ext := y, cur := set_signing_key_status st (cur s),
       trace := trace s @ [SecretGet ns sn (Inr sec)]\<rparr>)"
    by (rule run_eq) (use m get b in \<open>simp add: belongs_def ensure_key_pair_def Let_def get_secret_def signing_key_do_def\<close>)
  from that [OF this y m] show ?thesis .
qed

lemma signing_key_secret_sel [simp]:
  "m_name (s_meta (signing_key_secret k seed pub)) = sk_seed_secret_name (sk_spec k)"
  "s_data (signing_key_secret k seed pub) = fmupd NatsSecretPublicKeyKey pub (fmupd NatsSecretSeedKey seed fmempty)"
  by (simp_all add: signing_key_secret_def new_secret_def with_data_def with_labels_def with_immutable_def)

lemma key_pair_made:
  assumes o: "obliging E K S ns name sn oname owner"
    and "kind \<in> {SigningKeyTypeAccount, SigningKeyTypeOperator}"
  obtains kp seed pub x where
    "new_signing_key_pair E kind s = (Returns (Inr kp), s\<lparr>ext := x, trace := trace s @ [KeyCreate (Inr kp)]\<rparr>)"
    "kp_seed kp = Inr seed" "kp_public_key kp = Inr pub" "keeps K S (ext s) x"
proof -
  define f where "f = (if kind = SigningKeyTypeAccount then create_account_key (e_nkeys E) else create_operator_key (e_nkeys E))"
  have "reads_only K S f (\<lambda>_ r. \<exists>kp seed pub. r = Inr kp \<and> kp_seed kp = Inr seed \<and> kp_public_key kp = Inr pub)"
    using o by (simp add: obliging_def creates_keys_def f_def)
  then obtain r x where "f (ext s) = (r, x)" "keeps K S (ext s) x"
    "\<exists>kp seed pub. r = Inr kp \<and> kp_seed kp = Inr seed \<and> kp_public_key kp = Inr pub" by (rule reads_onlyE)
  then obtain kp seed pub where
    f: "f (ext s) = (Inr kp, x)" "keeps K S (ext s) x" "kp_seed kp = Inr seed" "kp_public_key kp = Inr pub" by auto
  have "new_signing_key_pair E kind s = (Returns (Inr kp), s\<lparr>ext := x, trace := trace s @ [KeyCreate (Inr kp)]\<rparr>)"
    by (rule run_eq) (use f(1) assms(2) in \<open>auto simp: new_signing_key_pair_def create_key_def f_def split: if_splits\<close>)
  from that [OF this f(3,4,2)] show ?thesis .
qed

lemma key_pair_created:
  assumes o: "obliging E K S ns name sn oname owner"
    and b: "belongs E ns sn oname owner (cur s)" and none: "S (ext s) = None"
  obtains st x y sec l where
    "ensure_key_pair E s = (Returns (requeue_result, None), s\<lparr>ext := y, cur := set_signing_key_status st (cur s), trace := l\<rparr>)"
    "K y = K (ext s)" "S y = Some sec"
    "signing_key_mark_seed_secret_ready (key_clock E) (secret_bytes sec NatsSecretPublicKeyKey) sn (sk_status (cur s), x) = (st, y)"
proof -
  have kind: "sko_kind (sk_owner_ref (sk_spec (cur s))) \<in> {SigningKeyTypeAccount, SigningKeyTypeOperator}"
    using b by (simp add: belongs_def)
  have serves: "serves_key (e_kube E) K S ns name sn" using o by (simp add: obliging_def)
  then have "reads_only K S (cs_get_secret (e_kube E) ns sn) (\<lambda>x. found (S x))"
    by (simp add: serves_key_def)
  then obtain r x1 where "cs_get_secret (e_kube E) ns sn (ext s) = (r, x1)" "keeps K S (ext s) x1"
    "found (S (ext s)) r" by (rule reads_onlyE)
  with none obtain e where
    get: "cs_get_secret (e_kube E) ns sn (ext s) = (Inl e, x1)" "is_not_found e" "keeps K S (ext s) x1" by auto
  let ?s1 = "s\<lparr>ext := x1, trace := trace s @ [SecretGet ns sn (Inl e)]\<rparr>"
  obtain kp seed pub x2 where
    made: "new_signing_key_pair E (sko_kind (sk_owner_ref (sk_spec (cur s)))) ?s1 =
       (Returns (Inr kp), ?s1\<lparr>ext := x2, trace := trace ?s1 @ [KeyCreate (Inr kp)]\<rparr>)" and
    kp: "kp_seed kp = Inr seed" "kp_public_key kp = Inr pub" and "keeps K S (ext ?s1) x2"
    by (rule key_pair_made [OF o kind])
  with get(3) have x2: "K x2 = K (ext s)" "S x2 = None" using none by (simp_all add: keeps_def)
  let ?sec = "signing_key_secret (cur s) seed pub"
  obtain refs where refs: "set_controller_reference (e_mach E) (ObjSigningKey (cur s)) (s_meta ?sec) = Inr refs"
    using o by (auto simp: obliging_def)
  let ?new = "?sec\<lparr>s_meta := (s_meta ?sec)\<lparr>m_owner_references := refs\<rparr>\<rparr>"
  have "m_name (s_meta ?new) = sn" using b by (simp add: belongs_def)
  with serves x2(2) obtain x3 sec where
    made3: "cs_create_secret (e_kube E) ns ?new x2 = (None, x3)" "K x3 = K x2" "S x3 = Some sec" "s_data sec = s_data ?new"
    unfolding serves_key_def by blast
  have pub: "secret_bytes sec NatsSecretPublicKeyKey = pub" by (simp add: secret_bytes_def made3(4))
  obtain st y where m: "signing_key_mark_seed_secret_ready (key_clock E) pub sn (sk_status (cur s), x3) = (st, y)" by fastforce
  with status_calls_keep(3) [OF obliging_clock [OF o], of x3 pub sn "sk_status (cur s)"]
  have "keeps K S x3 y" by simp
  with made3 x2 have y: "K y = K (ext s)" "S y = Some sec" by (simp_all add: keeps_def)
  have w: "wp (new_signing_key_pair E (sko_kind (sk_owner_ref (sk_spec (cur s))))) Q ?s1 =
      Q (Returns (Inr kp)) (?s1\<lparr>ext := x2, trace := trace ?s1 @ [KeyCreate (Inr kp)]\<rparr>)" for Q
    using made by (simp add: wp_def)
  have "ensure_key_pair E s = (Returns (requeue_result, None), s\<lparr>ext := y, cur := set_signing_key_status st (cur s),
      trace := (trace s @ [SecretGet ns sn (Inl e)]) @ [KeyCreate (Inr kp)] @ [SecretCreate ?new None]\<rparr>)"
    by (rule run_eq) (use m get(1,2) w kp refs made3(1) b in
      \<open>simp add: belongs_def ensure_key_pair_def Let_def get_secret_def signing_key_do_def clientset_create_secret_def\<close>)
  from that [OF this y m [folded pub]] show ?thesis .
qed

section \<open>The body\<close>

text \<open>The owner looks at the namespace and the labels only.\<close>

lemma admits_cong:
  "m_namespace (sk_meta j) = m_namespace (sk_meta k) \<Longrightarrow> m_labels (sk_meta j) = m_labels (sk_meta k) \<Longrightarrow>
     owner_admits_key M owner j = owner_admits_key M owner k"
  by (simp add: owner_admits_key_def split: option.split sum.split)

lemma labelled_status [simp]:
  "labelled_by ref (set_signing_key_status st k) = labelled_by ref k"
  "relabelled ref (set_signing_key_status st k) = set_signing_key_status st (relabelled ref k)"
  by (simp_all add: labelled_by_def relabelled_def set_signing_key_status_def split: option.split)

lemma relabelled_sel [simp]:
  "sk_spec (relabelled ref k) = sk_spec k" "sk_status (relabelled ref k) = sk_status k"
  "m_namespace (sk_meta (relabelled ref k)) = m_namespace (sk_meta k)"
  "relabelled ref (relabelled ref k) = relabelled ref k"
  by (simp_all add: relabelled_def put_label_def split: option.split)

lemma at_version_sel [simp]:
  "sk_spec (at_version v k) = sk_spec k" "sk_status (at_version v k) = sk_status k"
  "m_namespace (sk_meta (at_version v k)) = m_namespace (sk_meta k)"
  "m_labels (sk_meta (at_version v k)) = m_labels (sk_meta k)"
  "relabelled ref (at_version v k) = at_version v (relabelled ref k)"
  by (simp_all add: at_version_def relabelled_def put_label_def split: option.split)

lemma belongs_cong:
  assumes "sk_spec j = sk_spec k" and "m_namespace (sk_meta j) = m_namespace (sk_meta k)"
    and "m_labels (sk_meta j) = m_labels (sk_meta k)"
    and "m_labels (sk_meta (relabelled (owner_ref E owner) j)) = m_labels (sk_meta (relabelled (owner_ref E owner) k))"
  shows "belongs E ns sn oname owner j = belongs E ns sn oname owner k"
  using admits_cong [of j k] admits_cong [of "relabelled (owner_ref E owner) j" "relabelled (owner_ref E owner) k"] assms
  by (simp add: belongs_def owner_gvk_of_def)

lemma belongs_status [simp]: "belongs E ns sn oname owner (set_signing_key_status st k) = belongs E ns sn oname owner k"
  by (rule belongs_cong) simp_all

lemma belongs_version [simp]: "belongs E ns sn oname owner (at_version v k) = belongs E ns sn oname owner k"
  by (rule belongs_cong) simp_all

lemma belongs_relabelled:
  "belongs E ns sn oname owner k \<Longrightarrow> belongs E ns sn oname owner (relabelled (owner_ref E owner) k)"
  by (simp add: belongs_def owner_gvk_of_def)

lemma relabelled_labelled: "labelled_by ref (at_version v (relabelled ref k))"
  by (simp add: labelled_by_def relabelled_def at_version_def put_label_def label_value_def split: option.split)

lemma body_labels:
  assumes o: "obliging E K S ns name sn oname owner" and b: "belongs E ns sn oname owner (cur s)"
    and l: "\<not> labelled_by (owner_ref E owner) (cur s)" and v: "same_version (sk_meta (cur s)) (sk_meta (K (ext s)))"
  obtains w y k l where "k = at_version w (set_signing_key_status (sk_status (K (ext s))) (relabelled (owner_ref E owner) (cur s)))"
    "signing_key_reconcile_body E s = (Returns (requeue_result, None), s\<lparr>ext := y, cur := k, trace := l\<rparr>)"
    "K y = k" "S y = S (ext s)"
proof -
  obtain st x y where owner: "ensure_owner_resolved E s = (Returns None, s\<lparr>ext := y, cur := set_signing_key_status st (cur s),
       trace := trace s @ [ObjectGet (owner_kind owner) ns oname (Inr owner)]\<rparr>)"
    "keeps K S (ext s) y" "signing_key_mark_owner_resolved (key_clock E) (owner_ref E owner) (sk_status (cur s), x) = (st, y)"
    by (rule owner_resolves [OF o b])
  let ?s = "s\<lparr>ext := y, cur := set_signing_key_status st (cur s),
       trace := trace s @ [ObjectGet (owner_kind owner) ns oname (Inr owner)]\<rparr>"
  have ref: "sks_owner_ref (sk_status (cur ?s)) = Some (owner_ref E owner)"
    using signing_key_owner_marks(1) [of "key_clock E" "owner_ref E owner" "(sk_status (cur s), x)"] owner(3) by simp
  have same: "same_version (sk_meta (cur ?s)) (sk_meta (K (ext ?s)))" "\<not> labelled_by (owner_ref E owner) (cur ?s)"
    using v l owner(2) by (simp_all add: same_version_def keeps_def)
  obtain w z k where k: "k = at_version w (set_signing_key_status (sk_status (K (ext ?s))) (relabelled (owner_ref E owner) (cur ?s)))"
    "signing_key_reconcile_labels E ?s = (Returns (requeue_result, None), ?s\<lparr>ext := z, cur := k,
       trace := trace ?s @ [ObjectUpdate (ObjSigningKey (relabelled (owner_ref E owner) (cur ?s))) None]\<rparr>)"
    "K z = k" "S z = S (ext ?s)"
    by (rule labels_written [OF o ref same(2,1)])
  have "k = at_version w (set_signing_key_status (sk_status (K (ext s))) (relabelled (owner_ref E owner) (cur s)))"
    using k(1) owner(2) by (simp add: keeps_def)
  moreover have "signing_key_reconcile_body E s = (Returns (requeue_result, None), s\<lparr>ext := z, cur := k,
      trace := trace ?s @ [ObjectUpdate (ObjSigningKey (relabelled (owner_ref E owner) (cur ?s))) None]\<rparr>)"
    by (rule run_eq)
      (simp add: signing_key_reconcile_body_def wp_known [where m = "ensure_owner_resolved E", OF owner(1)] wp_known [where m = "signing_key_reconcile_labels E", OF k(2)] result_is_zero_def)
  moreover have "S z = S (ext s)" using k(4) owner(2) by (simp add: keeps_def)
  ultimately show thesis using that k(3) by blast
qed

lemma body_labelled:
  assumes o: "obliging E K S ns name sn oname owner" and b: "belongs E ns sn oname owner (cur s)"
    and l: "labelled_by (owner_ref E owner) (cur s)"
  obtains st x y where "keeps K S (ext s) y"
    "signing_key_mark_owner_resolved (key_clock E) (owner_ref E owner) (sk_status (cur s), x) = (st, y)"
    "\<And>res s2. ensure_key_pair E (s\<lparr>ext := y, cur := set_signing_key_status st (cur s),
         trace := trace s @ [ObjectGet (owner_kind owner) ns oname (Inr owner)]\<rparr>) = (Returns (res, None), s2) \<Longrightarrow>
       signing_key_reconcile_body E s = (Returns (res, None), s2)"
proof -
  obtain st x y where owner: "ensure_owner_resolved E s = (Returns None, s\<lparr>ext := y, cur := set_signing_key_status st (cur s),
       trace := trace s @ [ObjectGet (owner_kind owner) ns oname (Inr owner)]\<rparr>)"
    "keeps K S (ext s) y" "signing_key_mark_owner_resolved (key_clock E) (owner_ref E owner) (sk_status (cur s), x) = (st, y)"
    by (rule owner_resolves [OF o b])
  let ?s = "s\<lparr>ext := y, cur := set_signing_key_status st (cur s),
       trace := trace s @ [ObjectGet (owner_kind owner) ns oname (Inr owner)]\<rparr>"
  have ref: "sks_owner_ref (sk_status (cur ?s)) = Some (owner_ref E owner)"
    using signing_key_owner_marks(1) [of "key_clock E" "owner_ref E owner" "(sk_status (cur s), x)"] owner(3) by simp
  have labels: "signing_key_reconcile_labels E ?s = (Returns (zero_result, None), ?s)"
    by (rule labels_settled [OF ref]) (simp add: l)
  have "signing_key_reconcile_body E s = (Returns (res, None), s2)"
    if "ensure_key_pair E ?s = (Returns (res, None), s2)" for res s2
    by (rule run_eq)
      (simp add: signing_key_reconcile_body_def wp_known [where m = "ensure_owner_resolved E", OF owner(1)] wp_known [where m = "signing_key_reconcile_labels E", OF labels] wp_known [where m = "ensure_key_pair E", OF that] result_is_zero_def)
  from that [OF owner(2,3) this] show thesis .
qed

text \<open>A body that finds its key labelled ends with a steady status and a secret.\<close>

lemma body_pair:
  assumes o: "obliging E K S ns name sn oname owner" and b: "belongs E ns sn oname owner (cur s)"
    and l: "labelled_by (owner_ref E owner) (cur s)"
    and m: "managed signing_key_condition_set (signing_key_get_conditions (sk_status (cur s)))"
  obtains st y res sec l where
    "signing_key_reconcile_body E s = (Returns (res, None), s\<lparr>ext := y, cur := set_signing_key_status st (cur s), trace := l\<rparr>)"
    "K y = K (ext s)" "S y = Some sec" "steady (owner_ref E owner) sec (set_signing_key_status st (cur s))"
proof -
  obtain st x y where body: "keeps K S (ext s) y"
    "signing_key_mark_owner_resolved (key_clock E) (owner_ref E owner) (sk_status (cur s), x) = (st, y)"
    "\<And>res s2. ensure_key_pair E (s\<lparr>ext := y, cur := set_signing_key_status st (cur s),
         trace := trace s @ [ObjectGet (owner_kind owner) ns oname (Inr owner)]\<rparr>) = (Returns (res, None), s2) \<Longrightarrow>
       signing_key_reconcile_body E s = (Returns (res, None), s2)"
    by (rule body_labelled [OF o b l]) blast
  let ?s = "s\<lparr>ext := y, cur := set_signing_key_status st (cur s),
       trace := trace s @ [ObjectGet (owner_kind owner) ns oname (Inr owner)]\<rparr>"
  have b': "belongs E ns sn oname owner (cur ?s)" using b by simp
  obtain st2 x2 y2 res sec l where pair:
    "ensure_key_pair E ?s = (Returns (res, None), ?s\<lparr>ext := y2, cur := set_signing_key_status st2 (cur ?s), trace := l\<rparr>)"
    "K y2 = K (ext ?s)" "S y2 = Some sec"
    "signing_key_mark_seed_secret_ready (key_clock E) (secret_bytes sec NatsSecretPublicKeyKey) sn (sk_status (cur ?s), x2) = (st2, y2)"
  proof (cases "S (ext ?s)")
    case None
    show ?thesis by (rule key_pair_created [OF o b' None]) (rule that)
  next
    case (Some sec)
    show ?thesis
      by (rule key_pair_read [OF o b' Some], rule that) (use Some in \<open>simp_all add: keeps_def\<close>)
  qed
  have "signing_key_reconcile_body E s = (Returns (res, None), s\<lparr>ext := y2, cur := set_signing_key_status st2 (cur s), trace := l\<rparr>)"
    using body(3) [OF pair(1)] by simp
  moreover have "K y2 = K (ext s)" using pair(2) body(1) by (simp add: keeps_def)
  moreover have "steady (owner_ref E owner) sec (set_signing_key_status st2 (cur s))"
    using status_becomes_steady [OF m body(2), of "secret_bytes sec NatsSecretPublicKeyKey" sn x2 st2 y2] pair(4) b
    by (simp add: steady_def belongs_def)
  ultimately show thesis using that pair(3) by blast
qed

text \<open>A body that finds everything in order changes nothing.\<close>

lemma body_steady:
  assumes o: "obliging E K S ns name sn oname owner" and b: "belongs E ns sn oname owner (cur s)"
    and l: "labelled_by (owner_ref E owner) (cur s)"
    and sec: "S (ext s) = Some sec" and st: "steady (owner_ref E owner) sec (cur s)"
  obtains y where "keeps K S (ext s) y"
    "signing_key_reconcile_body E s = (Returns (zero_result, None), s\<lparr>ext := y,
       trace := trace s @ [ObjectGet (owner_kind owner) ns oname (Inr owner), SecretGet ns sn (Inr sec)]\<rparr>)"
proof -
  have full: "fulfilled signing_key_condition_set (signing_key_get_conditions (sk_status (cur s)))"
    using st by (simp add: steady_def)
  have same: "set_signing_key_status (sk_status (cur s)) (cur s) = cur s" by (simp add: set_signing_key_status_def)
  obtain t x y where body: "keeps K S (ext s) y"
    "signing_key_mark_owner_resolved (key_clock E) (owner_ref E owner) (sk_status (cur s), x) = (t, y)"
    "\<And>res s2. ensure_key_pair E (s\<lparr>ext := y, cur := set_signing_key_status t (cur s),
         trace := trace s @ [ObjectGet (owner_kind owner) ns oname (Inr owner)]\<rparr>) = (Returns (res, None), s2) \<Longrightarrow>
       signing_key_reconcile_body E s = (Returns (res, None), s2)"
    by (rule body_labelled [OF o b l]) blast
  have t: "t = sk_status (cur s)"
    using body(2) status_steady(2) [OF full, of "owner_ref E owner" "key_clock E" x] st by (simp add: steady_def)
  let ?s = "s\<lparr>ext := y, trace := trace s @ [ObjectGet (owner_kind owner) ns oname (Inr owner)]\<rparr>"
  have there: "S (ext ?s) = Some sec" and b': "belongs E ns sn oname owner (cur ?s)"
    using sec body(1) b by (simp_all add: keeps_def)
  obtain t2 x2 y2 where pair:
    "ensure_key_pair E ?s = (Returns (zero_result, None), ?s\<lparr>ext := y2, cur := set_signing_key_status t2 (cur ?s),
       trace := trace ?s @ [SecretGet ns sn (Inr sec)]\<rparr>)" "keeps K S (ext ?s) y2"
    "signing_key_mark_seed_secret_ready (key_clock E) (secret_bytes sec NatsSecretPublicKeyKey) sn (sk_status (cur ?s), x2) = (t2, y2)"
    by (rule key_pair_read [OF o b' there])
  have t2: "t2 = sk_status (cur s)"
    using pair(3) status_steady(3) [OF full, of "secret_bytes sec NatsSecretPublicKeyKey" sn "key_clock E" x2] st b
    by (simp add: steady_def belongs_def)
  have "signing_key_reconcile_body E s = (Returns (zero_result, None), s\<lparr>ext := y2,
      trace := trace s @ [ObjectGet (owner_kind owner) ns oname (Inr owner), SecretGet ns sn (Inr sec)]\<rparr>)"
    using body(3) [unfolded t same] pair(1) by (simp add: t2 same)
  moreover have "keeps K S (ext s) y2" using body(1) pair(2) by (auto intro: keeps_trans)
  ultimately show thesis using that by blast
qed

section \<open>A reconciliation\<close>

lemma status_equal_refl: "signing_key_status_equal t t"
  by (simp add: signing_key_status_equal_def conditions_semantic_equal_def condition_semantic_equal_def
      volatile_time_equal_def list_all2_same)

lemma put_same_status [simp]: "sk_status k = t \<Longrightarrow> set_signing_key_status t k = k"
  by (auto simp: set_signing_key_status_def)

lemma status_equal_steady:
  assumes "signing_key_status_equal (sk_status k) t" and "steady ref sec (set_signing_key_status t k)"
  shows "steady ref sec k"
  using assms semantic_equal_reached [of "signing_key_get_conditions (sk_status k)" "signing_key_get_conditions t"]
  by (simp add: steady_def signing_key_status_equal_def)

abbreviation key_read :: "string \<Rightarrow> string \<Rightarrow> signing_key \<Rightarrow> call" where
  "key_read ns name k \<equiv> ObjectGet KindSigningKey ns name (Inr (ObjSigningKey k))"

text \<open>The state in which the deferred function leaves a reconciliation of a key with the status \<open>t\<close>.\<close>

definition saved :: "'x env \<Rightarrow> signing_key_status \<Rightarrow> ('x, signing_key) st \<Rightarrow> ('x, signing_key) st" where
  "saved E t s = (if signing_key_status_equal t (sk_status (cur s)) then s
     else (case cl_status_signing_key (e_kube E) (cur s) (ext s) of ((err, k), y) \<Rightarrow>
       s\<lparr>ext := y, cur := k, trace := trace s @ [StatusUpdate (ObjSigningKey (cur s)) err]\<rparr>))"

lemma run_starts:
  assumes o: "obliging E K S ns name sn oname owner"
  obtains st x1 y where "keeps K S x y" "signing_key_initialize_conditions (key_clock E) (sk_status (K x), x1) = (st, y)"
    "\<And>r s. signing_key_reconcile_body E \<lparr>ext = y, cur = set_signing_key_status st (K x), trace = [key_read ns name (K x)]\<rparr> = (r, s) \<Longrightarrow>
       same_version (sk_meta (cur s)) (sk_meta (K (ext s))) \<Longrightarrow>
       signing_key_reconcile E ns name \<lparr>ext = x, cur = c, trace = []\<rparr> = (r, saved E (sk_status (K x)) s)"
proof -
  have "reads_only K S (cl_get_signing_key (e_kube E) ns name) (\<lambda>x r. r = Inr (K x))"
    using o by (simp add: obliging_def serves_key_def)
  from reads_onlyE [OF this, of x] obtain x1 where
    get: "cl_get_signing_key (e_kube E) ns name x = (Inr (K x), x1)" "keeps K S x x1" by auto
  obtain st y where ini: "signing_key_initialize_conditions (key_clock E) (sk_status (K x), x1) = (st, y)" by fastforce
  with status_calls_keep(1) [OF obliging_clock [OF o], of x1 "sk_status (K x)"]
  have "keeps K S x1 y" by simp
  with get(2) have y: "keeps K S x y" by (rule keeps_trans)
  let ?s = "\<lparr>ext = y, cur = set_signing_key_status st (K x), trace = [key_read ns name (K x)]\<rparr>"
  have "signing_key_reconcile E ns name \<lparr>ext = x, cur = c, trace = []\<rparr> = (r, saved E (sk_status (K x)) s)"
    if body: "signing_key_reconcile_body E ?s = (r, s)" and v: "same_version (sk_meta (cur s)) (sk_meta (K (ext s)))" for r s
  proof -
    obtain w z where "cl_status_signing_key (e_kube E) (cur s) (ext s) = ((None, w), z)"
      by (rule acceptsE [OF obliging_stores(2) [OF o] v]) blast
    then show ?thesis
      by (intro run_eq)
        (simp add: signing_key_reconcile_def get_signing_key_def get(1) ini signing_key_do_def saved_def
          update_signing_key_status_def wp_with_status_deferral wp_known [where m = "signing_key_reconcile_body E", OF body])
  qed
  from that [OF y ini this] show thesis .
qed

definition signing_key_step :: "'x env \<Rightarrow> string \<Rightarrow> string \<Rightarrow> signing_key \<Rightarrow> 'x \<Rightarrow> 'x" where
  "signing_key_step E ns name c x = ext (snd (signing_key_reconcile E ns name \<lparr>ext = x, cur = c, trace = []\<rparr>))"

text \<open>A key without its label gets it, and nothing else.\<close>

lemma step_labels:
  assumes o: "obliging E K S ns name sn oname owner" and b: "belongs E ns sn oname owner (K x)"
    and l: "\<not> labelled_by (owner_ref E owner) (K x)"
  shows "\<exists>w. K (signing_key_step E ns name c x) = at_version w (relabelled (owner_ref E owner) (K x))"
    and "S (signing_key_step E ns name c x) = S x"
proof -
  obtain st x1 y where start: "keeps K S x y" "signing_key_initialize_conditions (key_clock E) (sk_status (K x), x1) = (st, y)"
    "\<And>r s. signing_key_reconcile_body E \<lparr>ext = y, cur = set_signing_key_status st (K x), trace = [key_read ns name (K x)]\<rparr> = (r, s) \<Longrightarrow>
       same_version (sk_meta (cur s)) (sk_meta (K (ext s))) \<Longrightarrow>
       signing_key_reconcile E ns name \<lparr>ext = x, cur = c, trace = []\<rparr> = (r, saved E (sk_status (K x)) s)"
    by (rule run_starts [where x = x and c = c, OF o]) (rule that, assumption+)
  let ?s = "\<lparr>ext = y, cur = set_signing_key_status st (K x), trace = [key_read ns name (K x)]\<rparr>"
  have k: "K y = K x" "S y = S x" using start(1) by (simp_all add: keeps_def)
  have b1: "belongs E ns sn oname owner (cur ?s)" and l1: "\<not> labelled_by (owner_ref E owner) (cur ?s)"
    and v1: "same_version (sk_meta (cur ?s)) (sk_meta (K (ext ?s)))" using b l by (simp_all add: k same_version_def)
  obtain w z k' tr where body: "k' = at_version w (set_signing_key_status (sk_status (K (ext ?s))) (relabelled (owner_ref E owner) (cur ?s)))"
    "signing_key_reconcile_body E ?s = (Returns (requeue_result, None), ?s\<lparr>ext := z, cur := k', trace := tr\<rparr>)"
    "K z = k'" "S z = S (ext ?s)"
    by (rule body_labels [OF o b1 l1 v1])
  have k': "k' = at_version w (relabelled (owner_ref E owner) (K x))"
    using body(1) by (simp add: k)
  have "signing_key_reconcile E ns name \<lparr>ext = x, cur = c, trace = []\<rparr> =
      (Returns (requeue_result, None), saved E (sk_status (K x)) (?s\<lparr>ext := z, cur := k', trace := tr\<rparr>))"
    by (rule start(3) [OF body(2)]) (simp add: body(3) same_version_def)
  then have "signing_key_step E ns name c x = z" by (simp add: signing_key_step_def saved_def k' status_equal_refl)
  then show "\<exists>w. K (signing_key_step E ns name c x) = at_version w (relabelled (owner_ref E owner) (K x))"
    and "S (signing_key_step E ns name c x) = S x"
    using body(3,4) k' k by auto
qed

lemma steady_sel [simp]:
  "steady ref sec (at_version v k) = steady ref sec k" "labelled_by ref (at_version v k) = labelled_by ref k"
  by (simp_all add: steady_def labelled_by_def label_value_def split: option.split)

text \<open>
  Where the key has come to rest: it is labelled, its status is steady and its secret is there.
\<close>

definition at_rest ::
  "'x env \<Rightarrow> ('x \<Rightarrow> signing_key) \<Rightarrow> ('x \<Rightarrow> secret option) \<Rightarrow> client_object \<Rightarrow> secret \<Rightarrow> 'x \<Rightarrow> bool" where
  "at_rest E K S owner sec x \<longleftrightarrow>
     S x = Some sec \<and> steady (owner_ref E owner) sec (K x) \<and> labelled_by (owner_ref E owner) (K x)"

text \<open>What a status write stores, or leaves, when it is semantically what was there.\<close>

lemma saved_steady:
  assumes o: "obliging E K S ns name sn oname owner"
    and "cur s = set_signing_key_status t k" "K (ext s) = k" "S (ext s) = Some sec"
    and st: "steady ref sec (set_signing_key_status t k)"
  shows "K (ext (saved E (sk_status k) s)) = k \<or> (\<exists>v. K (ext (saved E (sk_status k) s)) = at_version v (set_signing_key_status t k))"
    and "S (ext (saved E (sk_status k) s)) = Some sec" and "steady ref sec (K (ext (saved E (sk_status k) s)))"
proof -
  let ?z = "ext (saved E (sk_status k) s)"
  have "(K ?z = k \<or> (\<exists>v. K ?z = at_version v (set_signing_key_status t k))) \<and> S ?z = Some sec \<and> steady ref sec (K ?z)"
  proof (cases "signing_key_status_equal (sk_status k) t")
    case True
    then show ?thesis using assms status_equal_steady [OF True st] by (simp add: saved_def)
  next
    case False
    have "same_version (sk_meta (set_signing_key_status t k)) (sk_meta (K (ext s)))" using assms(3) by (simp add: same_version_def)
    from acceptsE [OF obliging_stores(2) [OF o] this] obtain v z where "cl_status_signing_key (e_kube E) (set_signing_key_status t k) (ext s) =
        ((None, at_version v (set_signing_key_status t k)), z)"
      "K z = at_version v (set_signing_key_status t k)" "S z = S (ext s)"
      using assms(3) by auto
    then show ?thesis using False assms by (auto simp: saved_def)
  qed
  then show "K ?z = k \<or> (\<exists>v. K ?z = at_version v (set_signing_key_status t k))" "S ?z = Some sec" "steady ref sec (K ?z)"
    by simp_all
qed

text \<open>A labelled key comes to rest in one reconciliation.\<close>

lemma step_pair:
  assumes o: "obliging E K S ns name sn oname owner" and b: "belongs E ns sn oname owner (K x)"
    and known: "signing_key_known (key_clock E) (sk_status (K x))" and l: "labelled_by (owner_ref E owner) (K x)"
  shows "\<exists>sec. at_rest E K S owner sec (signing_key_step E ns name c x)"
    and "belongs E ns sn oname owner (K (signing_key_step E ns name c x))"
    and "sk_spec (K (signing_key_step E ns name c x)) = sk_spec (K x)"
proof -
  let ?z = "signing_key_step E ns name c x"
  obtain st x1 y where start: "keeps K S x y" "signing_key_initialize_conditions (key_clock E) (sk_status (K x), x1) = (st, y)"
    "\<And>r s. signing_key_reconcile_body E \<lparr>ext = y, cur = set_signing_key_status st (K x), trace = [key_read ns name (K x)]\<rparr> = (r, s) \<Longrightarrow>
       same_version (sk_meta (cur s)) (sk_meta (K (ext s))) \<Longrightarrow>
       signing_key_reconcile E ns name \<lparr>ext = x, cur = c, trace = []\<rparr> = (r, saved E (sk_status (K x)) s)"
    by (rule run_starts [where x = x and c = c, OF o]) (rule that, assumption+)
  let ?s = "\<lparr>ext = y, cur = set_signing_key_status st (K x), trace = [key_read ns name (K x)]\<rparr>"
  have k: "K y = K x" using start(1) by (simp add: keeps_def)
  have b1: "belongs E ns sn oname owner (cur ?s)" and l1: "labelled_by (owner_ref E owner) (cur ?s)"
    and m1: "managed signing_key_condition_set (signing_key_get_conditions (sk_status (cur ?s)))"
    using b l initialized_managed(1) [OF known start(2)] by simp_all
  obtain t y2 res sec tr where body:
    "signing_key_reconcile_body E ?s = (Returns (res, None), ?s\<lparr>ext := y2, cur := set_signing_key_status t (cur ?s), trace := tr\<rparr>)"
    "K y2 = K (ext ?s)" "S y2 = Some sec" "steady (owner_ref E owner) sec (set_signing_key_status t (cur ?s))"
    by (rule body_pair [OF o b1 l1 m1])
  let ?t = "?s\<lparr>ext := y2, cur := set_signing_key_status t (cur ?s), trace := tr\<rparr>"
  have "signing_key_reconcile E ns name \<lparr>ext = x, cur = c, trace = []\<rparr> = (Returns (res, None), saved E (sk_status (K x)) ?t)"
    by (rule start(3) [OF body(1)]) (simp add: body(2) k same_version_def)
  then have z: "?z = ext (saved E (sk_status (K x)) ?t)" by (simp add: signing_key_step_def)
  have t: "cur ?t = set_signing_key_status t (K x)" "K (ext ?t) = K x" "S (ext ?t) = Some sec"
    and sd: "steady (owner_ref E owner) sec (set_signing_key_status t (K x))"
    using body(2-4) by (simp_all add: k)
  note stored = saved_steady [OF o t sd, folded z]
  then show "\<exists>sec. at_rest E K S owner sec ?z" "belongs E ns sn oname owner (K ?z)" "sk_spec (K ?z) = sk_spec (K x)"
    using b l by (auto simp: at_rest_def)
qed

text \<open>At rest a reconciliation reads the key, its owner and its secret, and is finished.\<close>

lemma run_at_rest:
  assumes o: "obliging E K S ns name sn oname owner" and b: "belongs E ns sn oname owner (K x)"
    and r: "at_rest E K S owner sec x"
  shows "\<exists>y. signing_key_reconcile E ns name \<lparr>ext = x, cur = c, trace = []\<rparr> =
      (Returns (zero_result, None), \<lparr>ext = y, cur = K x, trace = [key_read ns name (K x),
         ObjectGet (owner_kind owner) ns oname (Inr owner), SecretGet ns sn (Inr sec)]\<rparr>) \<and> keeps K S x y"
proof -
  from r have sec: "S x = Some sec" and st: "steady (owner_ref E owner) sec (K x)" and l: "labelled_by (owner_ref E owner) (K x)"
    by (simp_all add: at_rest_def)
  have full: "fulfilled signing_key_condition_set (signing_key_get_conditions (sk_status (K x)))"
    using st by (simp add: steady_def)
  obtain t x1 y where start: "keeps K S x y" "signing_key_initialize_conditions (key_clock E) (sk_status (K x), x1) = (t, y)"
    "\<And>r s. signing_key_reconcile_body E \<lparr>ext = y, cur = set_signing_key_status t (K x), trace = [key_read ns name (K x)]\<rparr> = (r, s) \<Longrightarrow>
       same_version (sk_meta (cur s)) (sk_meta (K (ext s))) \<Longrightarrow>
       signing_key_reconcile E ns name \<lparr>ext = x, cur = c, trace = []\<rparr> = (r, saved E (sk_status (K x)) s)"
    by (rule run_starts [where x = x and c = c, OF o]) (rule that, assumption+)
  have t: "set_signing_key_status t (K x) = K x"
    using start(2) status_steady(1) [OF full, of "key_clock E" x1] by simp
  let ?s = "\<lparr>ext = y, cur = K x, trace = [key_read ns name (K x)]\<rparr>"
  have b1: "belongs E ns sn oname owner (cur ?s)" and l1: "labelled_by (owner_ref E owner) (cur ?s)"
    and sec1: "S (ext ?s) = Some sec" and st1: "steady (owner_ref E owner) sec (cur ?s)"
    using b l sec st start(1) by (simp_all add: keeps_def)
  obtain z where body: "keeps K S (ext ?s) z"
    "signing_key_reconcile_body E ?s = (Returns (zero_result, None), ?s\<lparr>ext := z,
       trace := trace ?s @ [ObjectGet (owner_kind owner) ns oname (Inr owner), SecretGet ns sn (Inr sec)]\<rparr>)"
    by (rule body_steady [OF o b1 l1 sec1 st1])
  have z: "keeps K S x z" using start(1) body(1) by (auto intro: keeps_trans)
  have "signing_key_reconcile E ns name \<lparr>ext = x, cur = c, trace = []\<rparr> =
      (Returns (zero_result, None), saved E (sk_status (K x)) (?s\<lparr>ext := z,
       trace := trace ?s @ [ObjectGet (owner_kind owner) ns oname (Inr owner), SecretGet ns sn (Inr sec)]\<rparr>))"
    by (rule start(3) [unfolded t, OF body(2)]) (use z in \<open>simp add: keeps_def same_version_def\<close>)
  then show ?thesis using z by (simp add: saved_def status_equal_refl)
qed

lemma steady_ready: "steady ref sec k \<Longrightarrow> signing_key_is_ready (sk_status k)"
  by (auto simp: steady_def signing_key_is_ready_def is_happy_def get_top_level_condition_def intro: reached_happy)

lemma step_at_rest:
  assumes o: "obliging E K S ns name sn oname owner" and b: "belongs E ns sn oname owner (K x)"
    and r: "at_rest E K S owner sec x"
  shows "K (signing_key_step E ns name c x) = K x" and "S (signing_key_step E ns name c x) = S x"
  using run_at_rest [OF o b r, of c] by (auto simp: signing_key_step_def keeps_def)

section \<open>Convergence\<close>

lemma steps_at_rest:
  assumes o: "obliging E K S ns name sn oname owner" and b: "belongs E ns sn oname owner (K x)"
    and r: "at_rest E K S owner sec x"
  shows "K ((signing_key_step E ns name c ^^ n) x) = K x \<and> S ((signing_key_step E ns name c ^^ n) x) = S x"
proof (induction n)
  case (Suc n)
  let ?y = "(signing_key_step E ns name c ^^ n) x"
  have "belongs E ns sn oname owner (K ?y)" "at_rest E K S owner sec ?y" using Suc b r by (simp_all add: at_rest_def)
  from step_at_rest [OF o this, of c] Suc show ?case by simp
qed simp

lemma two_steps:
  assumes o: "obliging E K S ns name sn oname owner" and b: "belongs E ns sn oname owner (K x)"
    and known: "signing_key_known (key_clock E) (sk_status (K x))"
  shows "\<exists>sec. at_rest E K S owner sec ((signing_key_step E ns name c ^^ 2) x)
    \<and> belongs E ns sn oname owner (K ((signing_key_step E ns name c ^^ 2) x))
    \<and> sk_spec (K ((signing_key_step E ns name c ^^ 2) x)) = sk_spec (K x)"
proof -
  let ?f = "signing_key_step E ns name c"
  show ?thesis
  proof (cases "labelled_by (owner_ref E owner) (K x)")
    case True
    from step_pair [OF o b known True, of c] obtain sec where
      r: "at_rest E K S owner sec (?f x)" "belongs E ns sn oname owner (K (?f x))" "sk_spec (K (?f x)) = sk_spec (K x)" by blast
    from step_at_rest [OF o r(2,1), of c] r show ?thesis by (auto simp: numeral_2_eq_2 at_rest_def)
  next
    case False
    from step_labels(1) [OF o b False, of c] obtain w where
      k: "K (?f x) = at_version w (relabelled (owner_ref E owner) (K x))" by blast
    have l: "labelled_by (owner_ref E owner) (K (?f x))" unfolding k by (rule relabelled_labelled)
    have b1: "belongs E ns sn oname owner (K (?f x))" using belongs_relabelled [OF b] by (simp add: k)
    have known1: "signing_key_known (key_clock E) (sk_status (K (?f x)))" using known by (simp add: k)
    from step_pair [OF o b1 known1 l, of c] k show ?thesis by (auto simp: numeral_2_eq_2)
  qed
qed


text \<open>
  A cluster with one signing key, its account and its secret. It refuses an update of an outdated
  version; a request the reconciler of signing keys does not make is answered as in the other samples.
\<close>

definition key_kube :: "(signing_key \<times> secret option) kube" where
  "key_kube = (kube_as_unit sample_kube)\<lparr>
     cl_get_account := (\<lambda>ns n x. (if n = ''acc'' then Inr sample_account else Inl missing, x)),
     cl_get_signing_key := (\<lambda>ns n x. (if n = ''k'' then Inr (fst x) else Inl missing, x)),
     cl_update_signing_key := object_store sk_meta at_version (\<lambda>k old. k\<lparr>sk_status := sk_status old\<rparr>),
     cl_status_signing_key := object_store sk_meta at_version (\<lambda>k old. old\<lparr>sk_status := sk_status k\<rparr>),
     cs_get_secret := (\<lambda>ns n x. (case snd x of None \<Rightarrow> Inl missing | Some sec \<Rightarrow> Inr sec, x)),
     cs_create_secret := (\<lambda>ns sec x. (case snd x of
          None \<Rightarrow> (None, (fst x, Some sec))
        | Some _ \<Rightarrow> (Some (StatusError Conflict ''secret exists''), x)))\<rparr>"

definition key_env :: "(signing_key \<times> secret option) env" where
  "key_env = env_as_unit key_kube sample_env"

lemma key_env_sel [simp]:
  "e_kube key_env = key_kube" "e_mach key_env = plain_machinery"
  "create_operator_key (e_nkeys key_env) = (\<lambda>x. (Inr (key_of_seed ''O''), x))"
  "create_account_key (e_nkeys key_env) = (\<lambda>x. (Inr (key_of_seed ''A''), x))"
  by (simp_all add: key_env_def sample_env_def sample_nkeys_def)

lemma key_env_obliging:
  "obliging key_env fst snd ''ns'' ''k'' ''s'' ''acc'' (ObjAccount sample_account)"
  unfolding obliging_def serves_key_def serves_owner_def creates_keys_def reads_only_def
  by (auto simp: key_kube_def kube_as_unit_def as_unit_def accepts_object_store keeps_def plain_machinery_def split: option.split)

definition key_of_acc :: signing_key where
  "key_of_acc = key_of_account\<lparr>sk_spec := \<lparr>sk_seed_secret_name = ''s'',
     sk_owner_ref = \<lparr>sko_api_version = [], sko_kind = ''Account'', sko_name = ''acc''\<rparr>\<rparr>\<rparr>"

lemma key_of_acc_belongs:
  "belongs key_env ''ns'' ''s'' ''acc'' (ObjAccount sample_account) key_of_acc"
proof -
  have "owner_admits_key plain_machinery (ObjAccount sample_account) k" if "m_namespace (sk_meta k) = ''ns''" for k
    using that by (simp add: owner_admits_key_def key_selector_def sample_account_def)
  then show ?thesis
    by (simp add: belongs_def key_of_acc_def key_of_account_def supported_owner_def owner_gvk_of_def
        plain_machinery_def sample_scheme_def owner_kind_def SigningKeyTypeAccount_def)
qed


end
