(* ===== verification/Operator_Surroundings.thy ===== *)
theory Operator_Surroundings
  imports Operator_Properties Obliging_Cluster
begin

text \<open>
  What the convergence of operators is stated with: the secrets of an operator as the cluster stores them,
  what is asked of the cluster and the libraries, what the operator finds around it, and when its status
  stops changing.
\<close>

lemma set_operator_status_sel [simp]:
  "op_meta (set_operator_status s p) = op_meta p" "op_spec (set_operator_status s p) = op_spec p"
  "op_gvk (set_operator_status s p) = op_gvk p" "op_status (set_operator_status s p) = s"
  "set_operator_status s (set_operator_status t p) = set_operator_status s p"
  by (simp_all add: set_operator_status_def)

lemma put_same_op_status [simp]: "op_status p = s \<Longrightarrow> set_operator_status s p = p"
  by (auto simp: set_operator_status_def)

section \<open>Secrets in the cluster\<close>

text \<open>
  The server adds a version and a UID to a secret. Documented behaviour of controllerutil: the owner
  reference depends on the identity of the owner and on the references and the namespace of the secret.
\<close>

definition stamped :: "string \<Rightarrow> string \<Rightarrow> secret \<Rightarrow> secret" where
  "stamped v u s = s\<lparr>s_meta := (s_meta s)\<lparr>m_resource_version := v, m_uid := u\<rparr>\<rparr>"

definition same_object :: "client_object \<Rightarrow> client_object \<Rightarrow> bool" where
  "same_object ob ob' \<longleftrightarrow> object_type ob = object_type ob' \<and> object_get_gvk ob = object_get_gvk ob' \<and> m_name (object_get_meta ob) = m_name (object_get_meta ob')
     \<and> m_namespace (object_get_meta ob) = m_namespace (object_get_meta ob') \<and> m_uid (object_get_meta ob) = m_uid (object_get_meta ob')"

definition reference_law :: "machinery \<Rightarrow> bool" where
  "reference_law M \<longleftrightarrow> (\<forall>ob ob' m m' refs. same_object ob ob' \<and> m_namespace m = m_namespace m'
     \<and> m_owner_references m = m_owner_references m' \<and> set_controller_reference M ob m = Inr refs
     \<longrightarrow> set_controller_reference M ob' m' = Inr refs)"

lemma stamped_sel [simp]:
  "s_data (stamped v u s) = s_data s" "m_name (s_meta (stamped v u s)) = m_name (s_meta s)"
  "m_owner_references (s_meta (stamped v u s)) = m_owner_references (s_meta s)"
  "set_label k x (stamped v u s) = stamped v u (set_label k x s)" "set_name n (stamped v u s) = stamped v u (set_name n s)"
  by (simp_all add: stamped_def set_label_def set_name_def)

lemma finish_stamped:
  assumes "reference_law M" and "same_object ob ob'" and "finish_secret M ob d s = Inr w"
  shows "finish_secret M ob' d (stamped v u s) = Inr (stamped v u w)"
proof -
  let ?ns = "m_namespace (object_get_meta ob)"
  have ns: "m_namespace (object_get_meta ob') = ?ns" using assms(2) by (simp add: same_object_def)
  from assms(3) obtain refs where refs: "set_controller_reference M ob ((s_meta s)\<lparr>m_namespace := ?ns\<rparr>) = Inr refs"
    and w: "w = s\<lparr>s_meta := (s_meta s)\<lparr>m_namespace := ?ns, m_owner_references := refs\<rparr>, s_data := d\<rparr>"
    by (auto simp: finish_secret_def Let_def split: sum.splits)
  have "set_controller_reference M ob' ((s_meta (stamped v u s))\<lparr>m_namespace := ?ns\<rparr>) = Inr refs"
    by (rule assms(1) [unfolded reference_law_def, rule_format, of ob _ "(s_meta s)\<lparr>m_namespace := ?ns\<rparr>"])
      (use assms(2) refs in \<open>simp add: stamped_def\<close>)
  then show ?thesis by (simp add: finish_secret_def Let_def ns w stamped_def)
qed

lemma finish_succeeds:
  assumes "\<forall>ob m. \<exists>refs. set_controller_reference M ob m = Inr refs"
  shows "\<exists>w. finish_secret M ob d s = Inr w"
proof -
  obtain refs where "set_controller_reference M ob ((s_meta s)\<lparr>m_namespace := m_namespace (object_get_meta ob)\<rparr>) = Inr refs"
    using assms by blast
  then show ?thesis by (simp add: finish_secret_def Let_def)
qed

lemma options_stamped:
  assumes "opts \<in> program_options M" and "apply_options opts s = Inr s'"
  shows "apply_options opts (stamped v u s) = Inr (stamped v u s')"
  using assms by (auto simp: program_options_def immutable_def with_deletion_prevention_def stamped_def)

text \<open>
  The seed secret of an operator, when it is as the builder would build it again.
\<close>

definition seed_options :: "machinery \<Rightarrow> secret_option list" where
  "seed_options M = [immutable, with_deletion_prevention M]"

definition built_seed :: "machinery \<Rightarrow> keypair \<Rightarrow> operator \<Rightarrow> secret \<Rightarrow> bool" where
  "built_seed M kp p s \<longleftrightarrow> key_pair_secret_build M s (ObjOperator p) kp (seed_options M) = Inr s"

definition alike_operator :: "operator \<Rightarrow> operator \<Rightarrow> bool" where
  "alike_operator p q \<longleftrightarrow> op_gvk p = op_gvk q \<and> op_spec p = op_spec q \<and> m_name (op_meta p) = m_name (op_meta q)
     \<and> m_namespace (op_meta p) = m_namespace (op_meta q) \<and> m_uid (op_meta p) = m_uid (op_meta q)"

lemma built_stamped:
  assumes "machinery_laws M" and "reference_law M" and "alike_operator p q"
    and "key_pair_secret_build M b (ObjOperator p) kp (seed_options M) = Inr w"
  shows "built_seed M kp q (stamped v u w)"
proof -
  have opts: "seed_options M \<in> program_options M" by (simp add: seed_options_def program_options_def)
  have again: "key_pair_secret_build M w (ObjOperator p) kp (seed_options M) = Inr w"
    by (rule key_pair_builder.build_again [OF _ assms(4)]) (simp add: assms(1) opts)
  obtain s n ty key own seed pk where b: "apply_options (seed_options M) w = Inr s" "seed_owner (ObjOperator p) = Some (n, ty, key, own)"
    "kp_seed kp = Inr seed" "kp_public_key kp = Inr pk"
    "finish_secret M (ObjOperator p) (fmupd NatsSecretPublicKeyKey pk (fmupd NatsSecretSeedKey seed fmempty))
       (set_label key own (set_label LabelSecretSeedType ty (set_name n
         (set_label LabelSubject pk (set_label LabelSecretType LabelSecretTypeSeed s))))) = Inr w"
    by (rule key_pair_secret_build_Inr [OF again])
  have same: "same_object (ObjOperator p) (ObjOperator q)" and own: "seed_owner (ObjOperator q) = Some (n, ty, key, own)"
    using assms(3) b(2) by (auto simp: same_object_def alike_operator_def)
  show ?thesis
    using finish_stamped [OF assms(2) same b(5), of v u]
    by (simp add: built_seed_def key_pair_secret_build_eq [OF options_stamped [OF opts b(1)] own b(3,4)])
qed

lemma seed_built:
  assumes "\<forall>ob m. \<exists>refs. set_controller_reference M ob m = Inr refs"
    and "kp_seed kp = Inr seed" and "kp_public_key kp = Inr pk"
  shows "\<exists>w. key_pair_secret_build M b (ObjOperator p) kp (seed_options M) = Inr w"
proof -
  obtain s where "apply_options (seed_options M) b = Inr s"
    by (simp add: seed_options_def immutable_def with_deletion_prevention_def)
  then show ?thesis using finish_succeeds [OF assms(1)] by (simp add: key_pair_secret_build_eq [OF _ _ assms(2,3)])
qed

lemma jwt_built:
  assumes "\<forall>ob m. \<exists>refs. set_controller_reference M ob m = Inr refs"
  obtains w where "jwt_secret_build M b (ObjOperator p) token [] = Inr w" "m_name (s_meta w) = op_jwt_secret_name (op_spec p)"
    "fmlookup (s_data w) NatsSecretJWTKey = Some token" "m_resource_version (s_meta w) = m_resource_version (s_meta b)"
proof -
  have "\<exists>w. jwt_secret_build M b (ObjOperator p) token [] = Inr w"
    by (simp add: jwt_secret_build_eq finish_succeeds [OF assms])
  then obtain w where w: "jwt_secret_build M b (ObjOperator p) token [] = Inr w" ..
  have "m_resource_version (s_meta w) = m_resource_version (s_meta b)"
    using w by (auto simp: jwt_secret_build_eq finish_secret_def Let_def set_label_def set_name_def split: sum.splits)
  with that [OF w] jwt_builder.build_meant [OF w] show thesis
    by (auto simp: jwt_secret_meant_def owned_secret_def)
qed

section \<open>A cluster that does what it is asked\<close>

text \<open>
  What an operator finds around it: where it and its secrets are, its system account with its key pair,
  the signing keys of the namespace and those of them it takes.
\<close>

record surroundings =
  in_namespace :: string
  seed_at :: string
  jwt_at :: string
  system_at :: string
  system_account :: account
  system_pair :: key_pair
  keys_listed :: "signing_key list"
  keys_taken :: "signing_key_embedded_status list"

definition with_version :: "string \<Rightarrow> operator \<Rightarrow> operator" where
  "with_version v p = p\<lparr>op_meta := (op_meta p)\<lparr>m_resource_version := v\<rparr>\<rparr>"

text \<open>The two secrets are the pair \<open>S\<close> of the seed secret and the JWT secret.\<close>

definition serves_operator ::
  "'x kube \<Rightarrow> ('x \<Rightarrow> operator) \<Rightarrow> ('x \<Rightarrow> secret option \<times> secret option) \<Rightarrow> surroundings \<Rightarrow> string \<Rightarrow> bool" where
  "serves_operator C K S W name \<longleftrightarrow>
     reads_only K S (time_now C) (\<lambda>_ _. True) \<and>
     reads_only K S (cl_get_operator C (in_namespace W) name) (\<lambda>x r. r = Inr (K x)) \<and>
     reads_only K S (cl_get_account C (in_namespace W) (system_at W)) (\<lambda>x r. r = Inr (system_account W)) \<and>
     reads_only K S (cs_list_signing_keys C (in_namespace W) []) (\<lambda>x r. r = Inr (keys_listed W)) \<and>
     reads_only K S (cs_get_secret C (in_namespace W) (seed_at W)) (\<lambda>x. found (fst (S x))) \<and>
     reads_only K S (cs_get_secret C (in_namespace W) (jwt_at W)) (\<lambda>x. found (snd (S x))) \<and>
     accepts op_meta with_version (cl_status_operator C) K S (\<lambda>p old. old\<lparr>op_status := op_status p\<rparr>)"

definition stores_secrets ::
  "'x kube \<Rightarrow> ('x \<Rightarrow> operator) \<Rightarrow> ('x \<Rightarrow> secret option \<times> secret option) \<Rightarrow> surroundings \<Rightarrow> bool" where
  "stores_secrets C K S W \<longleftrightarrow>
     (\<forall>x sec jwt. S x = (None, jwt) \<and> m_name (s_meta sec) = seed_at W \<longrightarrow>
        (\<exists>v u y. cl_create_secret C sec x = ((None, stamped v u sec), y) \<and> K y = K x \<and> S y = (Some (stamped v u sec), jwt))) \<and>
     (\<forall>x sec seed. S x = (seed, None) \<and> m_name (s_meta sec) = jwt_at W \<longrightarrow>
        (\<exists>v u y. cl_create_secret C sec x = ((None, stamped v u sec), y) \<and> K y = K x \<and> S y = (seed, Some (stamped v u sec)))) \<and>
     (\<forall>x sec seed old. S x = (seed, Some old) \<and> m_name (s_meta sec) = jwt_at W
          \<and> m_resource_version (s_meta sec) = m_resource_version (s_meta old) \<longrightarrow>
        (\<exists>v u y. cl_update_secret C sec x = ((None, stamped v u sec), y) \<and> K y = K x \<and> S y = (seed, Some (stamped v u sec))))"

text \<open>
  The libraries: a new key is the key of its seed; what is encoded is decoded again, and two encodings of
  claims that are equal up to the ID and the time are equal up to them; owner references can be set.
\<close>

definition makes_keys :: "'x nkeys_lib \<Rightarrow> ('x \<Rightarrow> 'a) \<Rightarrow> ('x \<Rightarrow> 'b) \<Rightarrow> bool" where
  "makes_keys N K S \<longleftrightarrow> reads_only K S (create_operator_key N)
     (\<lambda>_ r. \<exists>kp seed pub. r = Inr kp \<and> kp_seed kp = Inr seed \<and> kp_public_key kp = Inr pub \<and> from_seed N seed = Inr kp)"

definition signs_operators :: "'x jwt_lib \<Rightarrow> ('x \<Rightarrow> 'a) \<Rightarrow> ('x \<Rightarrow> 'b) \<Rightarrow> bool" where
  "signs_operators J K S \<longleftrightarrow>
     (\<forall>c kp. reads_only K S (encode_operator J c kp)
        (\<lambda>_ r. \<exists>d token. r = Inr (d, token) \<and> jwt_decode J token = Inr (OperatorClaims d))) \<and>
     (\<forall>c c' kp x x' d d' t t'. claims_equal (OperatorClaims c) (OperatorClaims c')
        \<and> fst (encode_operator J c kp x) = Inr (d, t) \<and> fst (encode_operator J c' kp x') = Inr (d', t')
        \<longrightarrow> claims_equal (OperatorClaims d) (OperatorClaims d'))"

definition operator_cluster ::
  "'x env \<Rightarrow> ('x \<Rightarrow> operator) \<Rightarrow> ('x \<Rightarrow> secret option \<times> secret option) \<Rightarrow> surroundings \<Rightarrow> string \<Rightarrow> bool" where
  "operator_cluster E K S W name \<longleftrightarrow> serves_operator (e_kube E) K S W name \<and> stores_secrets (e_kube E) K S W
     \<and> makes_keys (e_nkeys E) K S \<and> signs_operators (e_jwt E) K S
     \<and> machinery_laws (e_mach E) \<and> reference_law (e_mach E)
     \<and> (\<forall>ob m. \<exists>refs. set_controller_reference (e_mach E) ob m = Inr refs)"

section \<open>The operator and its secrets\<close>

definition fits :: "surroundings \<Rightarrow> operator \<Rightarrow> bool" where
  "fits W p \<longleftrightarrow> m_namespace (op_meta p) = in_namespace W \<and> op_seed_secret_name (op_spec p) = seed_at W
     \<and> op_jwt_secret_name (op_spec p) = jwt_at W \<and> system_account_ref (op_spec p) = system_at W
     \<and> is_true (account_get_condition KeyPairableConditionSeedSecretReady (acc_status (system_account W)))
     \<and> accs_key_pair (acc_status (system_account W)) = Some (system_pair W)
     \<and> operator_signing_keys p (keys_listed W) = Returns (keys_taken W)"

definition system_reference :: "surroundings \<Rightarrow> key_pair_reference" where
  "system_reference W = \<lparr>kpr_ref = \<lparr>ior_namespace = m_namespace (acc_meta (system_account W)),
     ior_name = m_name (acc_meta (system_account W))\<rparr>, kpr_public_key = public_key (system_pair W)\<rparr>"

definition own_pair :: "surroundings \<Rightarrow> string \<Rightarrow> key_pair" where
  "own_pair W pub = \<lparr>public_key = pub, seed_secret_name = seed_at W\<rparr>"

text \<open>The seed secret is in order for the key pair \<open>kp\<close> with the public key \<open>pub\<close>.\<close>

definition seed_in_order :: "'x env \<Rightarrow> operator \<Rightarrow> keypair \<Rightarrow> string \<Rightarrow> secret \<Rightarrow> bool" where
  "seed_in_order E p kp pub sec \<longleftrightarrow> (\<exists>seed. fmlookup (s_data sec) NatsSecretSeedKey = Some seed
     \<and> from_seed (e_nkeys E) seed = Inr kp \<and> kp_public_key kp = Inr pub) \<and> built_seed (e_mach E) kp p sec"

text \<open>The JWT secret has a token with the claims that an encoding of the operator would have.\<close>

definition jwt_current :: "'x env \<Rightarrow> surroundings \<Rightarrow> operator \<Rightarrow> keypair \<Rightarrow> string \<Rightarrow> secret \<Rightarrow> bool" where
  "jwt_current E W p kp pub sec \<longleftrightarrow> (\<exists>token c. fmlookup (s_data sec) NatsSecretJWTKey = Some token
     \<and> jwt_decode (e_jwt E) token = Inr (OperatorClaims c)
     \<and> (\<forall>t x d token'. fst (encode_operator (e_jwt E) (operator_claims_of (e_jwt E) p (own_pair W pub) (system_reference W) t) kp x)
          = Inr (d, token') \<longrightarrow> claims_equal (OperatorClaims c) (OperatorClaims d)))"

text \<open>The secrets an operator may start with.\<close>

definition secrets_usable :: "'x env \<Rightarrow> operator \<Rightarrow> secret option \<times> secret option \<Rightarrow> bool" where
  "secrets_usable E p s \<longleftrightarrow> (\<forall>sec. fst s = Some sec \<longrightarrow> (\<exists>kp pub. seed_in_order E p kp pub sec))
     \<and> (\<forall>sec. snd s = Some sec \<longrightarrow> fmlookup (s_data sec) NatsSecretJWTKey \<noteq> None)"

section \<open>The status\<close>

definition wanted :: "surroundings \<Rightarrow> condition_type \<Rightarrow> string \<times> string" where
  "wanted W t = (if t = OperatorConditionSigningKeysUpdated
     then (OperatorConditionSigningKeysUpdated, sprintf ''Found %d signing keys'' [AInt (int (length (keys_taken W)))])
     else ([], []))"

definition operator_steady :: "surroundings \<Rightarrow> string \<Rightarrow> operator_status \<Rightarrow> bool" where
  "operator_steady W pub s \<longleftrightarrow> reached operator_condition_set (wanted W) (operator_get_conditions s)
     \<and> ops_key_pair s = Some (own_pair W pub) \<and> ops_signing_keys s = keys_taken W
     \<and> ops_resolved_system_account s = Some (system_reference W)"

lemma operator_marks:
  "operator_mark_seed_secret_ready now v (s, k) =
     (case mark_true now operator_condition_set KeyPairableConditionSeedSecretReady (operator_get_conditions s, k) of
        (cs, k) \<Rightarrow> (operator_set_conditions cs (s\<lparr>ops_key_pair := Some v\<rparr>), k))"
  "operator_mark_system_account_resolved now ref (s, k) =
     (case mark_true now operator_condition_set OperatorConditionSystemAccountResolved (operator_get_conditions s, k) of
        (cs, k) \<Rightarrow> (operator_set_conditions cs (s\<lparr>ops_resolved_system_account := Some ref\<rparr>), k))"
  "operator_mark_signing_keys_updated now sks (s, k) =
     (case mark_true_with_reason now operator_condition_set OperatorConditionSigningKeysUpdated
         OperatorConditionSigningKeysUpdated ''Found %d signing keys'' [AInt (int (length sks))] (operator_get_conditions s, k) of
        (cs, k) \<Rightarrow> (operator_set_conditions cs (s\<lparr>ops_signing_keys := sks\<rparr>), k))"
  "operator_mark_jwt_secret_ready now (s, k) =
     (case mark_true now operator_condition_set OperatorConditionJWTSecretReady (operator_get_conditions s, k) of
        (cs, k) \<Rightarrow> (operator_set_conditions cs s, k))"
  "operator_initialize_conditions now (s, k) =
     (case initialize_conditions now operator_condition_set (operator_get_conditions s, k) of
        (cs, k) \<Rightarrow> (operator_set_conditions cs s, k))"
  by (simp_all add: operator_method_defs operator_initialize_conditions_def manage_def operator_get_conditions_def
      OperatorConditionSeedSecretReady_def KeyPairableConditionSeedSecretReady_def split: prod.split)

lemma operator_status_sel [simp]:
  "operator_get_conditions (operator_set_conditions cs s) = cs"
  "ops_key_pair (operator_set_conditions cs s) = ops_key_pair s"
  "ops_signing_keys (operator_set_conditions cs s) = ops_signing_keys s"
  "ops_resolved_system_account (operator_set_conditions cs s) = ops_resolved_system_account s"
  "operator_set_conditions (operator_get_conditions s) s = s"
  "operator_get_conditions (s\<lparr>ops_key_pair := p\<rparr>) = operator_get_conditions s"
  "operator_get_conditions (s\<lparr>ops_signing_keys := q\<rparr>) = operator_get_conditions s"
  "operator_get_conditions (s\<lparr>ops_resolved_system_account := a\<rparr>) = operator_get_conditions s"
  by (simp_all add: operator_get_conditions_def operator_set_conditions_def get_conditions_def set_conditions_def)

lemma operator_status_same:
  "ops_key_pair s = p \<Longrightarrow> s\<lparr>ops_key_pair := p\<rparr> = s" "ops_signing_keys s = q \<Longrightarrow> s\<lparr>ops_signing_keys := q\<rparr> = s"
  "ops_resolved_system_account s = a \<Longrightarrow> s\<lparr>ops_resolved_system_account := a\<rparr> = s"
  by auto

lemma wanted_simps [simp]:
  "wanted W KeyPairableConditionSeedSecretReady = ([], [])" "wanted W OperatorConditionSystemAccountResolved = ([], [])"
  "wanted W OperatorConditionJWTSecretReady = ([], [])" "wanted W (happy operator_condition_set) = ([], [])"
  "wanted W OperatorConditionSigningKeysUpdated =
     (OperatorConditionSigningKeysUpdated, sprintf ''Found %d signing keys'' [AInt (int (length (keys_taken W)))])"
  by (simp_all add: wanted_def operator_condition_defs operator_condition_set_def new_living_condition_set_def
      new_condition_set_def ConditionReady_def)

text \<open>A steady status is not changed by a reconciliation.\<close>

lemma operator_status_steady:
  assumes "operator_steady W pub s"
  shows "operator_initialize_conditions now (s, k) = (s, k)"
    and "operator_mark_seed_secret_ready now (own_pair W pub) (s, k) = (s, k)"
    and "operator_mark_system_account_resolved now (system_reference W) (s, k) = (s, k)"
    and "operator_mark_signing_keys_updated now (keys_taken W) (s, k) = (s, k)"
    and "operator_mark_jwt_secret_ready now (s, k) = (s, k)"
proof -
  from assms have r: "reached operator_condition_set (wanted W) (operator_get_conditions s)" by (simp add: operator_steady_def)
  have "mark_true now operator_condition_set t (operator_get_conditions s, k) = (operator_get_conditions s, k)"
    if "t \<in> {KeyPairableConditionSeedSecretReady, OperatorConditionSystemAccountResolved, OperatorConditionJWTSecretReady}" for t
    by (rule mark_true_reached [OF condition_sets_wf(1) r]) (use that in \<open>auto simp: operator_dependents\<close>)
  moreover have "mark_true_with_reason now operator_condition_set OperatorConditionSigningKeysUpdated
      OperatorConditionSigningKeysUpdated ''Found %d signing keys'' [AInt (int (length (keys_taken W)))]
      (operator_get_conditions s, k) = (operator_get_conditions s, k)"
    by (rule mark_reached [OF condition_sets_wf(1) r]) (simp_all add: operator_dependents)
  ultimately show "operator_initialize_conditions now (s, k) = (s, k)"
    "operator_mark_seed_secret_ready now (own_pair W pub) (s, k) = (s, k)"
    "operator_mark_system_account_resolved now (system_reference W) (s, k) = (s, k)"
    "operator_mark_signing_keys_updated now (keys_taken W) (s, k) = (s, k)"
    "operator_mark_jwt_secret_ready now (s, k) = (s, k)"
    using assms r by (simp_all add: operator_marks operator_steady_def initialize_reached operator_status_same)
qed

text \<open>The marks of a reconciliation that goes well, in their order.\<close>

lemma operator_becomes_steady:
  assumes "managed operator_condition_set (operator_get_conditions s)"
    and "operator_mark_seed_secret_ready now (own_pair W pub) (s, k) = (s1, k1)"
    and "operator_mark_system_account_resolved now (system_reference W) (s1, k1') = (s2, k2)"
    and "operator_mark_signing_keys_updated now (keys_taken W) (s2, k2') = (s3, k3)"
    and "operator_mark_jwt_secret_ready now (s3, k3') = (s4, k4)"
  shows "operator_steady W pub s4"
proof -
  let ?r = operator_condition_set and ?c = operator_get_conditions
  note wf = condition_sets_wf(1)
  have d: "KeyPairableConditionSeedSecretReady \<in> set (dependents ?r)" "OperatorConditionSystemAccountResolved \<in> set (dependents ?r)"
    "OperatorConditionSigningKeysUpdated \<in> set (dependents ?r)" "OperatorConditionJWTSecretReady \<in> set (dependents ?r)"
    by (simp_all add: operator_dependents)
  have s1: "?c s1 = fst (mark_true now ?r KeyPairableConditionSeedSecretReady (?c s, k))" "ops_key_pair s1 = Some (own_pair W pub)"
    using assms(2) by (auto simp: operator_marks split: prod.splits)
  have m1: "managed ?r (?c s1)"
    unfolding s1 using mark_true_settles [OF wf _ d(1), of "(?c s, k)" now] assms(1) by simp
  have s2: "?c s2 = fst (mark_true now ?r OperatorConditionSystemAccountResolved (?c s1, k1'))"
    "ops_key_pair s2 = ops_key_pair s1" "ops_resolved_system_account s2 = Some (system_reference W)"
    using assms(3) by (auto simp: operator_marks split: prod.splits)
  have m2: "managed ?r (?c s2)"
    unfolding s2 using mark_true_settles [OF wf _ d(2), of "(?c s1, k1')" now] m1 by simp
  have s3: "?c s3 = fst (mark_true_with_reason now ?r OperatorConditionSigningKeysUpdated OperatorConditionSigningKeysUpdated
      ''Found %d signing keys'' [AInt (int (length (keys_taken W)))] (?c s2, k2'))"
    "ops_key_pair s3 = ops_key_pair s2" "ops_resolved_system_account s3 = ops_resolved_system_account s2"
    "ops_signing_keys s3 = keys_taken W"
    using assms(4) by (auto simp: operator_marks split: prod.splits)
  have m3: "managed ?r (?c s3)"
    unfolding s3 using mark_true_with_reason_settles [OF wf _ d(3), of "(?c s2, k2')" now] m2 by simp
  have ne: "KeyPairableConditionSeedSecretReady \<noteq> OperatorConditionSystemAccountResolved"
    "KeyPairableConditionSeedSecretReady \<noteq> OperatorConditionSigningKeysUpdated"
    "OperatorConditionSystemAccountResolved \<noteq> OperatorConditionSigningKeysUpdated"
    by (simp_all add: operator_condition_defs)
  have e1: "true_as w t (?c s1) \<longleftrightarrow> (if t = KeyPairableConditionSeedSecretReady then w = ([], []) else true_as w t (?c s))"
    if "t \<in> set (dependents ?r)" for w t
    unfolding s1(1) by (rule true_as_mark [OF wf assms(1) d(1) that])
  have e2: "true_as w t (?c s2) \<longleftrightarrow> (if t = OperatorConditionSystemAccountResolved then w = ([], []) else true_as w t (?c s1))"
    if "t \<in> set (dependents ?r)" for w t
    unfolding s2(1) by (rule true_as_mark [OF wf m1 d(2) that])
  have e3: "true_as w t (?c s3) \<longleftrightarrow> (if t = OperatorConditionSigningKeysUpdated
      then w = wanted W OperatorConditionSigningKeysUpdated else true_as w t (?c s2))"
    if "t \<in> set (dependents ?r)" for w t
    unfolding s3(1) wanted_simps by (rule true_as_mark_with_reason [OF wf m2 d(3) that])
  have "\<forall>t \<in> set (dependents ?r). t \<noteq> OperatorConditionJWTSecretReady \<longrightarrow> true_as (wanted W t) t (?c s3)"
    using e1 e2 e3 ne by (auto simp: operator_dependents)
  then have "reached ?r (wanted W) (fst (mark_true now ?r OperatorConditionJWTSecretReady (?c s3, k3')))"
    by (intro mark_last_reaches [OF wf m3 d(4)]) simp_all
  then show ?thesis
    using assms(5) s1 s2 s3 by (auto simp: operator_steady_def operator_marks split: prod.splits)
qed

lemma operator_clock:
  assumes "clock_only now R"
  shows "R k (snd (operator_initialize_conditions now (s, k)))"
    and "R k (snd (operator_mark_seed_secret_ready now v (s, k)))"
    and "R k (snd (operator_mark_system_account_resolved now ref (s, k)))"
    and "R k (snd (operator_mark_signing_keys_updated now sks (s, k)))"
    and "R k (snd (operator_mark_jwt_secret_ready now (s, k)))"
  using clock_initialize [OF assms, of "(operator_get_conditions s, k)"]
    clock_mark_true [OF assms, of "(operator_get_conditions s, k)"]
    clock_mark_with_reason [OF assms, of "(operator_get_conditions s, k)"]
  by (simp_all add: operator_marks split: prod.split) (metis snd_conv)+

end
