(* ===== verification/Operator_Convergence.thy ===== *)
theory Operator_Convergence
  imports Operator_Surroundings
begin

text \<open>
  An operator converges. In a cluster that does what it is asked, with a system account that is ready,
  two reconciliations of an operator in any state of its lifecycle, with or without its seed secret and
  with no, an outdated or a broken JWT, bring it to rest: from then on a reconciliation signs a JWT, finds
  that the stored one has the same claims, and writes nothing.
\<close>

section \<open>The steps of a reconciliation\<close>

abbreviation kube_clock :: "'x env \<Rightarrow> 'x \<Rightarrow> int \<times> 'x" where
  "kube_clock E \<equiv> time_now (e_kube E)"

lemma cluster_clock: "operator_cluster E K S W name \<Longrightarrow> clock_only (kube_clock E) (keeps K S)"
  by (auto simp: operator_cluster_def serves_operator_def intro: reads_only_clock)

lemma cluster_reads:
  assumes "operator_cluster E K S W name"
  shows "reads_only K S (cl_get_operator (e_kube E) (in_namespace W) name) (\<lambda>x r. r = Inr (K x))"
    and "reads_only K S (cl_get_account (e_kube E) (in_namespace W) (system_at W)) (\<lambda>x r. r = Inr (system_account W))"
    and "reads_only K S (cs_list_signing_keys (e_kube E) (in_namespace W) []) (\<lambda>x r. r = Inr (keys_listed W))"
    and "reads_only K S (cs_get_secret (e_kube E) (in_namespace W) (seed_at W)) (\<lambda>x. found (fst (S x)))"
    and "reads_only K S (cs_get_secret (e_kube E) (in_namespace W) (jwt_at W)) (\<lambda>x. found (snd (S x)))"
    and "reads_only K S (kube_clock E) (\<lambda>_ _. True)"
  using assms by (simp_all add: operator_cluster_def serves_operator_def)

lemma cluster_references:
  "operator_cluster E K S W name \<Longrightarrow> \<forall>ob m. \<exists>refs. set_controller_reference (e_mach E) ob m = Inr refs"
  by (simp add: operator_cluster_def)

lemma built_seed_facts:
  assumes "built_seed M kp p sec"
  shows "m_name (s_meta sec) = op_seed_secret_name (op_spec p)"
  using key_pair_builder.build_meant [OF assms [unfolded built_seed_def]]
  by (auto simp: key_pair_secret_meant_def owned_secret_def)

lemma seed_is_read:
  assumes c: "operator_cluster E K S W name" and f: "fits W (cur s)"
    and there: "fst (S (ext s)) = Some sec" and ok: "seed_in_order E (cur s) kp pub sec"
  obtains y seed where
    "reconcile_seed_secret E (ObjOperator (cur s)) nk (seed_at W) (seed_options (e_mach E)) s =
       (Returns (Some (own_pair W pub), seed, zero_result, None),
        s\<lparr>ext := y, trace := trace s @ [SecretGet (in_namespace W) (seed_at W) (Inr sec)]\<rparr>)"
    "keeps K S (ext s) y" "from_seed (e_nkeys E) seed = Inr kp"
proof -
  obtain y where get: "cs_get_secret (e_kube E) (in_namespace W) (seed_at W) (ext s) = (Inr sec, y)" "keeps K S (ext s) y"
    by (rule reads_present [OF cluster_reads(4) [OF c] there])
  from ok obtain seed where seed: "fmlookup (s_data sec) NatsSecretSeedKey = Some seed"
    "from_seed (e_nkeys E) seed = Inr kp" "kp_public_key kp = Inr pub" and built: "built_seed (e_mach E) kp (cur s) sec"
    by (auto simp: seed_in_order_def)
  have "reconcile_seed_secret E (ObjOperator (cur s)) nk (seed_at W) (seed_options (e_mach E)) s =
       (Returns (Some (own_pair W pub), seed, zero_result, None),
        s\<lparr>ext := y, trace := trace s @ [SecretGet (in_namespace W) (seed_at W) (Inr sec)]\<rparr>)"
    by (rule run_eq)
      (use get(1) seed built built_seed_facts [OF built] f in \<open>simp add: reconcile_seed_secret_def get_secret_def fits_def
        ensure_seed_secret_up_to_date_def built_seed_def new_key_pair_secret_builder_from_secret_def own_pair_def secret_bytes_def\<close>)
  from that [OF this get(2) seed(2)] show thesis .
qed

lemma seed_created:
  assumes c: "operator_cluster E K S W name" and f: "fits W (cur s)" and none: "S (ext s) = (None, jwt)"
  obtains y l sec kp pub seed where
    "reconcile_seed_secret E (ObjOperator (cur s)) (create_operator_key (e_nkeys E)) (seed_at W) (seed_options (e_mach E)) s =
       (Returns (Some (own_pair W pub), seed, requeue_result, None), s\<lparr>ext := y, trace := l\<rparr>)"
    "K y = K (ext s)" "S y = (Some sec, jwt)" "\<And>q. alike_operator (cur s) q \<Longrightarrow> seed_in_order E q kp pub sec"
proof -
  obtain e x1 where
    get: "cs_get_secret (e_kube E) (in_namespace W) (seed_at W) (ext s) = (Inl e, x1)" "is_not_found e" "keeps K S (ext s) x1"
    by (rule reads_absent [OF cluster_reads(4) [OF c], of "ext s"]) (simp_all add: none)
  have "reads_only K S (create_operator_key (e_nkeys E))
     (\<lambda>_ r. \<exists>kp seed pub. r = Inr kp \<and> kp_seed kp = Inr seed \<and> kp_public_key kp = Inr pub \<and> from_seed (e_nkeys E) seed = Inr kp)"
    using c by (simp add: operator_cluster_def makes_keys_def)
  then obtain r x2 where "create_operator_key (e_nkeys E) x1 = (r, x2)" "keeps K S x1 x2"
    "\<exists>kp seed pub. r = Inr kp \<and> kp_seed kp = Inr seed \<and> kp_public_key kp = Inr pub \<and> from_seed (e_nkeys E) seed = Inr kp"
    by (rule reads_onlyE)
  then obtain kp seed pub where key: "create_operator_key (e_nkeys E) x1 = (Inr kp, x2)" "keeps K S x1 x2"
    "kp_seed kp = Inr seed" "kp_public_key kp = Inr pub" "from_seed (e_nkeys E) seed = Inr kp" by blast
  obtain sec where built: "key_pair_secret_build (e_mach E) new_key_pair_secret_builder (ObjOperator (cur s)) kp (seed_options (e_mach E)) = Inr sec"
    using seed_built [OF cluster_references [OF c] key(3,4)] by blast
  have facts: "m_name (s_meta sec) = seed_at W" "fmlookup (s_data sec) NatsSecretSeedKey = Some seed"
    using key_pair_builder.build_meant [OF built] key(3) f
    by (auto simp: key_pair_secret_meant_def owned_secret_def fits_def)
  have x2: "K x2 = K (ext s)" "S x2 = (None, jwt)" using get(3) key(2) none by (simp_all add: keeps_def)
  from c x2(2) facts(1) obtain v u y where create: "cl_create_secret (e_kube E) sec x2 = ((None, stamped v u sec), y)"
    "K y = K x2" "S y = (Some (stamped v u sec), jwt)"
    unfolding operator_cluster_def stores_secrets_def by blast
  have run: "reconcile_seed_secret E (ObjOperator (cur s)) (create_operator_key (e_nkeys E)) (seed_at W) (seed_options (e_mach E)) s =
       (Returns (Some (own_pair W pub), seed, requeue_result, None), s\<lparr>ext := y, trace := trace s @
          [SecretGet (in_namespace W) (seed_at W) (Inl e), KeyCreate (Inr kp), SecretCreate sec None,
           EventSent (ObjOperator (cur s)) EventTypeNormal ''SeedSecretCreated'' (sprintf ''created secret: %s/%s''
             [AStr (m_namespace (s_meta (stamped v u sec))), AStr (seed_at W)])]\<rparr>)"
    by (rule run_eq)
      (use get(1,2) key built create facts(1) f in \<open>simp add: reconcile_seed_secret_def get_secret_def fits_def
        create_seed_secret_def create_key_def create_secret_def eventf_def own_pair_def\<close>)
  have ordered: "seed_in_order E q kp pub (stamped v u sec)" if "alike_operator (cur s) q" for q
    using built_stamped [OF _ _ that built] c key facts by (simp add: seed_in_order_def operator_cluster_def)
  have "K y = K (ext s)" using x2(1) create(2) by simp
  from that [OF run this create(3) ordered] show thesis .
qed

lemma system_account_resolves:
  assumes c: "operator_cluster E K S W name" and f: "fits W (cur s)"
  obtains st x y where
    "ensure_system_account_resolved E s = (Returns None, s\<lparr>ext := y, cur := set_operator_status st (cur s),
       trace := trace s @ [ObjectGet KindAccount (in_namespace W) (system_at W) (Inr (ObjAccount (system_account W)))]\<rparr>)"
    "keeps K S (ext s) y" "operator_mark_system_account_resolved (kube_clock E) (system_reference W) (op_status (cur s), x) = (st, y)"
proof -
  obtain x where get: "cl_get_account (e_kube E) (in_namespace W) (system_at W) (ext s) = (Inr (system_account W), x)" "keeps K S (ext s) x"
    by (rule reads_value [OF cluster_reads(2) [OF c]])
  obtain st y where m: "operator_mark_system_account_resolved (kube_clock E) (system_reference W) (op_status (cur s), x) = (st, y)"
    by fastforce
  with operator_clock(3) [OF cluster_clock [OF c], of x "system_reference W" "op_status (cur s)"]
  have "keeps K S x y" by simp
  with get(2) have y: "keeps K S (ext s) y" by (rule keeps_trans)
  have "ensure_system_account_resolved E s = (Returns None, s\<lparr>ext := y, cur := set_operator_status st (cur s),
       trace := trace s @ [ObjectGet KindAccount (in_namespace W) (system_at W) (Inr (ObjAccount (system_account W)))]\<rparr>)"
    by (rule run_eq) (use get(1) m f in \<open>simp add: ensure_system_account_resolved_def get_account_def fits_def
      operator_do_def system_reference_def\<close>)
  from that [OF this y m] show thesis .
qed

lemma signing_keys_taken:
  assumes c: "operator_cluster E K S W name" and f: "fits W (cur s)"
  obtains st x y where
    "operator_ensure_signing_keys_updated E s = (Returns None, s\<lparr>ext := y, cur := set_operator_status st (cur s),
       trace := trace s @ [SigningKeysList (in_namespace W) [] (Inr (keys_listed W))]\<rparr>)"
    "keeps K S (ext s) y" "operator_mark_signing_keys_updated (kube_clock E) (keys_taken W) (op_status (cur s), x) = (st, y)"
proof -
  obtain x where get: "cs_list_signing_keys (e_kube E) (in_namespace W) [] (ext s) = (Inr (keys_listed W), x)" "keeps K S (ext s) x"
    by (rule reads_value [OF cluster_reads(3) [OF c]])
  obtain st y where m: "operator_mark_signing_keys_updated (kube_clock E) (keys_taken W) (op_status (cur s), x) = (st, y)"
    by fastforce
  with operator_clock(4) [OF cluster_clock [OF c], of x "keys_taken W" "op_status (cur s)"]
  have "keeps K S x y" by simp
  with get(2) have y: "keeps K S (ext s) y" by (rule keeps_trans)
  have "operator_ensure_signing_keys_updated E s = (Returns None, s\<lparr>ext := y, cur := set_operator_status st (cur s),
       trace := trace s @ [SigningKeysList (in_namespace W) [] (Inr (keys_listed W))]\<rparr>)"
    by (rule run_eq) (use get(1) m f in \<open>simp add: operator_ensure_signing_keys_updated_def list_signing_keys_def fits_def
      operator_do_def\<close>)
  from that [OF this y m] show thesis .
qed

text \<open>Signing: what is encoded, and that other encodings for the same key have the same claims.\<close>

lemma claims_same_time:
  "claims_equal (OperatorClaims (operator_claims_of J p kp sys t)) (OperatorClaims (operator_claims_of J p kp sys t'))"
  by (simp add: operator_claims_of_def claims_data_equal_def Let_def)

lemma operator_signed:
  assumes c: "operator_cluster E K S W name"
    and "ops_key_pair (op_status p) = Some kpair" "ops_resolved_system_account (op_status p) = Some sys"
  obtains t x y d token where
    "create_operator_claims E p kp s = (Returns (Inr (d, token)), s\<lparr>ext := y,
       trace := trace s @ [JwtEncode (public_key kpair) kp (Inr token)]\<rparr>)"
    "keeps K S (ext s) y" "jwt_decode (e_jwt E) token = Inr (OperatorClaims d)"
    "encode_operator (e_jwt E) (operator_claims_of (e_jwt E) p kpair sys t) kp x = (Inr (d, token), y)"
proof -
  obtain t x where now: "kube_clock E (ext s) = (t, x)" "keeps K S (ext s) x"
    by (rule reads_onlyE [OF cluster_reads(6) [OF c], of "ext s"])
  let ?c = "operator_claims_of (e_jwt E) p kpair sys t"
  have "reads_only K S (encode_operator (e_jwt E) ?c kp)
      (\<lambda>_ r. \<exists>d token. r = Inr (d, token) \<and> jwt_decode (e_jwt E) token = Inr (OperatorClaims d))"
    using c by (simp add: operator_cluster_def signs_operators_def)
  then obtain r y where "encode_operator (e_jwt E) ?c kp x = (r, y)" "keeps K S x y"
    "\<exists>d token. r = Inr (d, token) \<and> jwt_decode (e_jwt E) token = Inr (OperatorClaims d)" by (rule reads_onlyE)
  then obtain d token where enc: "encode_operator (e_jwt E) ?c kp x = (Inr (d, token), y)" "keeps K S x y"
    "jwt_decode (e_jwt E) token = Inr (OperatorClaims d)" by blast
  have "create_operator_claims E p kp s = (Returns (Inr (d, token)), s\<lparr>ext := y,
       trace := trace s @ [JwtEncode (public_key kpair) kp (Inr token)]\<rparr>)"
    by (rule run_eq) (use assms(2,3) now(1) enc(1) in \<open>simp add: create_operator_claims_def read_clock_def\<close>)
  moreover have "keeps K S (ext s) y" using now(2) enc(2) by (rule keeps_trans)
  ultimately show thesis using that enc(1,3) by blast
qed

lemma fresh_token_current:
  assumes c: "operator_cluster E K S W name"
    and enc: "encode_operator (e_jwt E) (operator_claims_of (e_jwt E) p (own_pair W pub) (system_reference W) t) kp x = (Inr (d, token), y)"
    and "jwt_decode (e_jwt E) token' = Inr (OperatorClaims c')" and "claims_equal (OperatorClaims c') (OperatorClaims d)"
    and "fmlookup (s_data sec) NatsSecretJWTKey = Some token'"
  shows "jwt_current E W p kp pub sec"
proof -
  have law: "signs_operators (e_jwt E) K S" using c by (simp add: operator_cluster_def)
  have "claims_equal (OperatorClaims d) (OperatorClaims d')"
    if "fst (encode_operator (e_jwt E) (operator_claims_of (e_jwt E) p (own_pair W pub) (system_reference W) t') kp x') = Inr (d', tk)"
    for t' x' d' tk
  proof -
    note claims_same_time [of "e_jwt E" p "own_pair W pub" "system_reference W" t t']
    moreover have "fst (encode_operator (e_jwt E) (operator_claims_of (e_jwt E) p (own_pair W pub) (system_reference W) t) kp x)
        = Inr (d, token)" by (simp add: enc)
    ultimately show ?thesis using law that unfolding signs_operators_def by blast
  qed
  with assms(3-5) show ?thesis unfolding jwt_current_def claims_equal_normal by metis
qed

lemma jwt_secret_created:
  assumes c: "operator_cluster E K S W name" and f: "fits W (cur s)" and none: "S (ext s) = (sd, None)"
  obtains y l sec where "create_jwt_secret E (ObjOperator (cur s)) token s = (Returns None, s\<lparr>ext := y, trace := l\<rparr>)"
    "K y = K (ext s)" "S y = (sd, Some sec)" "fmlookup (s_data sec) NatsSecretJWTKey = Some token"
proof -
  obtain w where w: "jwt_secret_build (e_mach E) new_jwt_secret_builder (ObjOperator (cur s)) token [] = Inr w"
    "m_name (s_meta w) = op_jwt_secret_name (op_spec (cur s))" "fmlookup (s_data w) NatsSecretJWTKey = Some token"
    by (rule jwt_built [OF cluster_references [OF c], of new_jwt_secret_builder "cur s" token])
  have "m_name (s_meta w) = jwt_at W" using w(2) f by (simp add: fits_def)
  with c none obtain v u y where create: "cl_create_secret (e_kube E) w (ext s) = ((None, stamped v u w), y)"
    "K y = K (ext s)" "S y = (sd, Some (stamped v u w))"
    unfolding operator_cluster_def stores_secrets_def by blast
  have "create_jwt_secret E (ObjOperator (cur s)) token s = (Returns None, s\<lparr>ext := y, trace := trace s @ [SecretCreate w None,
      EventSent (ObjOperator (cur s)) EventTypeNormal ''JWTSecretCreated'' (sprintf ''created secret: %s/%s''
        [AStr (m_namespace (s_meta (stamped v u w))), AStr (m_name (s_meta w))])]\<rparr>)"
    by (rule run_eq) (use w(1) create(1) in \<open>simp add: create_jwt_secret_def create_secret_def eventf_def\<close>)
  from that [OF this create(2,3)] w(3) show thesis by simp
qed

lemma jwt_secret_updated:
  assumes c: "operator_cluster E K S W name" and f: "fits W (cur s)" and there: "S (ext s) = (sd, Some got)"
  obtains y l sec where "update_jwt_secret E (ObjOperator (cur s)) got token s =
      (Returns (token, requeue_result, None), s\<lparr>ext := y, trace := l\<rparr>)"
    "K y = K (ext s)" "S y = (sd, Some sec)" "fmlookup (s_data sec) NatsSecretJWTKey = Some token"
proof -
  obtain w where w: "jwt_secret_build (e_mach E) got (ObjOperator (cur s)) token [] = Inr w"
    "m_name (s_meta w) = op_jwt_secret_name (op_spec (cur s))" "fmlookup (s_data w) NatsSecretJWTKey = Some token"
    "m_resource_version (s_meta w) = m_resource_version (s_meta got)"
    by (rule jwt_built [OF cluster_references [OF c], of got "cur s" token])
  have "m_name (s_meta w) = jwt_at W" using w(2) f by (simp add: fits_def)
  with c there w(4) obtain v u y where update: "cl_update_secret (e_kube E) w (ext s) = ((None, stamped v u w), y)"
    "K y = K (ext s)" "S y = (sd, Some (stamped v u w))"
    unfolding operator_cluster_def stores_secrets_def by blast
  have "update_jwt_secret E (ObjOperator (cur s)) got token s = (Returns (token, requeue_result, None), s\<lparr>ext := y,
      trace := trace s @ [SecretUpdate w None, EventSent (ObjOperator (cur s)) EventTypeNormal ''JWTSecretUpdated''
        (sprintf ''updated secret: %s/%s'' [AStr (m_namespace (s_meta (stamped v u w))), AStr (m_name (s_meta w))])]\<rparr>)"
    by (rule run_eq) (use w(1) update(1) in \<open>simp add: update_jwt_secret_def new_jwt_secret_builder_from_secret_def
        update_secret_def eventf_def\<close>)
  from that [OF this update(2,3)] w(3) show thesis by simp
qed

text \<open>Whatever the JWT secret was, it has a current token afterwards.\<close>

lemma jwt_settles:
  assumes c: "operator_cluster E K S W name" and f: "fits W (cur s)" and kp: "from_seed (e_nkeys E) seed = Inr kp"
    and p: "ops_key_pair (op_status (cur s)) = Some (own_pair W pub)"
      "ops_resolved_system_account (op_status (cur s)) = Some (system_reference W)"
    and S: "S (ext s) = (sd, jwt)" and usable: "\<And>got. jwt = Some got \<Longrightarrow> fmlookup (s_data got) NatsSecretJWTKey \<noteq> None"
  obtains res y l sec where
    "operator_reconcile_jwt_secret E seed s = (Returns (res, None), s\<lparr>ext := y, trace := l\<rparr>)"
    "K y = K (ext s)" "S y = (sd, Some sec)" "jwt_current E W (cur s) kp pub sec"
proof -
  obtain t x y1 d token where signed: "create_operator_claims E (cur s) kp s = (Returns (Inr (d, token)), s\<lparr>ext := y1,
       trace := trace s @ [JwtEncode (public_key (own_pair W pub)) kp (Inr token)]\<rparr>)"
    "keeps K S (ext s) y1" "jwt_decode (e_jwt E) token = Inr (OperatorClaims d)"
    "encode_operator (e_jwt E) (operator_claims_of (e_jwt E) (cur s) (own_pair W pub) (system_reference W) t) kp x = (Inr (d, token), y1)"
    by (rule operator_signed [OF c p])
  let ?s1 = "s\<lparr>ext := y1, trace := trace s @ [JwtEncode (public_key (own_pair W pub)) kp (Inr token)]\<rparr>"
  note current = fresh_token_current [OF c signed(4)]
  have y1: "K y1 = K (ext s)" "S y1 = (sd, jwt)" using signed(2) S by (simp_all add: keeps_def)
  show thesis
  proof (cases jwt)
    case None
    obtain e y2 where get: "cs_get_secret (e_kube E) (in_namespace W) (jwt_at W) y1 = (Inl e, y2)" "is_not_found e" "keeps K S y1 y2"
      by (rule reads_absent [OF cluster_reads(5) [OF c], of y1]) (simp_all add: y1 None)
    let ?s2 = "?s1\<lparr>ext := y2, trace := trace ?s1 @ [SecretGet (in_namespace W) (jwt_at W) (Inl e)]\<rparr>"
    have "S (ext ?s2) = (sd, None)" "fits W (cur ?s2)" using get(3) y1 None f by (simp_all add: keeps_def)
    then obtain y l sec where made: "create_jwt_secret E (ObjOperator (cur ?s2)) token ?s2 = (Returns None, ?s2\<lparr>ext := y, trace := l\<rparr>)"
      "K y = K (ext ?s2)" "S y = (sd, Some sec)" "fmlookup (s_data sec) NatsSecretJWTKey = Some token"
      using jwt_secret_created [OF c, of ?s2 sd token] by blast
    have "operator_reconcile_jwt_secret E seed s = (Returns (requeue_result, None), s\<lparr>ext := y, trace := l\<rparr>)"
      by (rule run_eq) (use kp get(1,2) made(1) f in \<open>simp add: operator_reconcile_jwt_secret_def fits_def get_secret_def
          wp_known [where m = "create_operator_claims E (cur s) kp", OF signed(1)]
          wp_known [where m = "create_jwt_secret E (ObjOperator (cur s)) token"]\<close>)
    moreover have "K y = K (ext s)" using made(2) get(3) y1 by (simp add: keeps_def)
    moreover have "jwt_current E W (cur s) kp pub sec"
      by (rule current [OF signed(3) _ made(4)]) (simp add: claims_equal_normal)
    ultimately show thesis using that made(3) by blast
  next
    case (Some got)
    then obtain tok where tok: "fmlookup (s_data got) NatsSecretJWTKey = Some tok" using usable by blast
    obtain y2 where get: "cs_get_secret (e_kube E) (in_namespace W) (jwt_at W) y1 = (Inr got, y2)" "keeps K S y1 y2"
      by (rule reads_present [OF cluster_reads(5) [OF c], of y1]) (simp add: y1 Some)
    let ?s2 = "?s1\<lparr>ext := y2, trace := trace ?s1 @ [SecretGet (in_namespace W) (jwt_at W) (Inr got)]\<rparr>"
    have s2: "S (ext ?s2) = (sd, Some got)" "fits W (cur ?s2)" "K y2 = K (ext s)"
      using get(2) y1 Some f by (simp_all add: keeps_def)
    show thesis
    proof (cases "\<exists>gc. jwt_decode (e_jwt E) tok = Inr gc \<and> claims_equal gc (OperatorClaims d)")
      case True
      then obtain gc where gc: "jwt_decode (e_jwt E) tok = Inr gc" "claims_equal gc (OperatorClaims d)" by blast
      then obtain c' where "gc = OperatorClaims c'" by (cases gc) auto
      with gc have "jwt_current E W (cur s) kp pub got" by (intro current [OF _ _ tok]) simp_all
      moreover have "operator_reconcile_jwt_secret E seed s = (Returns (zero_result, None), s\<lparr>ext := y2,
          trace := trace ?s1 @ [SecretGet (in_namespace W) (jwt_at W) (Inr got)]\<rparr>)"
        by (rule run_eq) (use kp get(1) f tok gc in \<open>simp add: operator_reconcile_jwt_secret_def fits_def get_secret_def
          ensure_jwt_secret_up_to_date_def wp_known [where m = "create_operator_claims E (cur s) kp", OF signed(1)]\<close>)
      ultimately show thesis using that s2(1,3) by simp
    next
      case False
      obtain y l sec where made: "update_jwt_secret E (ObjOperator (cur ?s2)) got token ?s2 =
          (Returns (token, requeue_result, None), ?s2\<lparr>ext := y, trace := l\<rparr>)"
        "K y = K (ext ?s2)" "S y = (sd, Some sec)" "fmlookup (s_data sec) NatsSecretJWTKey = Some token"
        using jwt_secret_updated [OF c s2(2,1), of token] by blast
      have ensure: "ensure_jwt_secret_up_to_date E ob (OperatorClaims d) got token = update_jwt_secret E ob got token" for ob
        using tok False by (auto simp: ensure_jwt_secret_up_to_date_def split: sum.split)
      have "operator_reconcile_jwt_secret E seed s = (Returns (requeue_result, None), s\<lparr>ext := y, trace := l\<rparr>)"
        by (rule run_eq) (use kp get(1) made(1) f in \<open>simp add: operator_reconcile_jwt_secret_def fits_def get_secret_def ensure
          wp_known [where m = "create_operator_claims E (cur s) kp", OF signed(1)]
          wp_known [where m = "update_jwt_secret E (ObjOperator (cur s)) got token"]\<close>)
      moreover have "K y = K (ext s)" using made(2) s2(3) by simp
      moreover have "jwt_current E W (cur s) kp pub sec"
        by (rule current [OF signed(3) _ made(4)]) (simp add: claims_equal_normal)
      ultimately show thesis using that made(3) by blast
    qed
  qed
qed

text \<open>A current token is left alone.\<close>

definition only_reads :: "call \<Rightarrow> bool" where
  "only_reads call \<longleftrightarrow> (case call of ObjectGet _ _ _ _ \<Rightarrow> True | SecretGet _ _ _ \<Rightarrow> True | SigningKeysList _ _ _ \<Rightarrow> True
     | JwtEncode _ _ _ \<Rightarrow> True | _ \<Rightarrow> False)"

lemma only_reads_simps [simp]:
  "only_reads (ObjectGet k ns n r)" "only_reads (SecretGet ns n r1)" "only_reads (SigningKeysList ns sel r2)"
  "only_reads (JwtEncode sub kp r3)"
  by (simp_all add: only_reads_def)

lemma jwt_stays:
  assumes c: "operator_cluster E K S W name" and f: "fits W (cur s)" and kp: "from_seed (e_nkeys E) seed = Inr kp"
    and p: "ops_key_pair (op_status (cur s)) = Some (own_pair W pub)"
      "ops_resolved_system_account (op_status (cur s)) = Some (system_reference W)"
    and S: "S (ext s) = (sd, Some got)" and current: "jwt_current E W (cur s) kp pub got"
  obtains y l where
    "operator_reconcile_jwt_secret E seed s = (Returns (zero_result, None), s\<lparr>ext := y, trace := trace s @ l\<rparr>)"
    "keeps K S (ext s) y" "\<forall>c \<in> set l. only_reads c"
proof -
  obtain t x y1 d token where signed: "create_operator_claims E (cur s) kp s = (Returns (Inr (d, token)), s\<lparr>ext := y1,
       trace := trace s @ [JwtEncode (public_key (own_pair W pub)) kp (Inr token)]\<rparr>)"
    "keeps K S (ext s) y1"
    "encode_operator (e_jwt E) (operator_claims_of (e_jwt E) (cur s) (own_pair W pub) (system_reference W) t) kp x = (Inr (d, token), y1)"
    by (rule operator_signed [OF c p])
  have y1: "snd (S y1) = Some got" using signed(2) S by (simp add: keeps_def)
  obtain y2 where get: "cs_get_secret (e_kube E) (in_namespace W) (jwt_at W) y1 = (Inr got, y2)" "keeps K S y1 y2"
    by (rule reads_present [OF cluster_reads(5) [OF c] y1])
  obtain tok c' where tok: "fmlookup (s_data got) NatsSecretJWTKey = Some tok" "jwt_decode (e_jwt E) tok = Inr (OperatorClaims c')"
    "claims_equal (OperatorClaims c') (OperatorClaims d)"
    using current signed(3) unfolding jwt_current_def by (metis fst_conv)
  have "operator_reconcile_jwt_secret E seed s = (Returns (zero_result, None), s\<lparr>ext := y2, trace := trace s @
      [JwtEncode (public_key (own_pair W pub)) kp (Inr token), SecretGet (in_namespace W) (jwt_at W) (Inr got)]\<rparr>)"
    by (rule run_eq) (use kp get(1) f tok in \<open>simp add: operator_reconcile_jwt_secret_def fits_def get_secret_def
      ensure_jwt_secret_up_to_date_def wp_known [where m = "create_operator_claims E (cur s) kp", OF signed(1)]\<close>)
  from that [OF this keeps_trans [OF signed(2) get(2)]] show thesis by simp
qed

section \<open>The body\<close>

lemma signing_keys_same:
  "m_name (op_meta p) = m_name (op_meta q) \<Longrightarrow> m_namespace (op_meta p) = m_namespace (op_meta q) \<Longrightarrow>
     operator_signing_keys p ks = operator_signing_keys q ks"
  by (induction ks) (auto split: option.split)

lemma fits_cong:
  "op_spec p = op_spec q \<Longrightarrow> m_name (op_meta p) = m_name (op_meta q) \<Longrightarrow> m_namespace (op_meta p) = m_namespace (op_meta q) \<Longrightarrow>
     fits W p = fits W q"
  using signing_keys_same [of p q "keys_listed W"] by (simp add: fits_def)

lemma fits_sel [simp]:
  "fits W (set_operator_status st p) = fits W p" "fits W (with_version v p) = fits W p"
  by ((rule fits_cong; simp add: with_version_def), (rule fits_cong; simp add: with_version_def))

lemma alike_operator_sel [simp]:
  "alike_operator p (set_operator_status st q) = alike_operator p q" "alike_operator p (with_version v q) = alike_operator p q"
  "alike_operator (set_operator_status st p) q = alike_operator p q" "alike_operator p p"
  by (simp_all add: alike_operator_def with_version_def)

lemma seed_in_order_same:
  assumes "machinery_laws (e_mach E)" and "reference_law (e_mach E)" and "alike_operator p q" and "seed_in_order E p kp pub sec"
  shows "seed_in_order E q kp pub sec"
  using built_stamped [OF assms(1-3), of sec kp sec "m_resource_version (s_meta sec)" "m_uid (s_meta sec)"] assms(4)
  by (auto simp: seed_in_order_def built_seed_def stamped_def)

lemma jwt_current_same:
  assumes "op_spec p = op_spec q" and "m_name (op_meta p) = m_name (op_meta q)"
    and "ops_signing_keys (op_status p) = ops_signing_keys (op_status q)" and "jwt_current E W p kp pub sec"
  shows "jwt_current E W q kp pub sec"
proof -
  have "operator_claims_of J p kp sys t = operator_claims_of J q kp sys t" for J :: "'a jwt_lib" and kp sys t
    using assms(1-3) by (simp add: operator_claims_of_def Let_def)
  with assms(4) show ?thesis by (simp add: jwt_current_def)
qed

text \<open>Without a seed secret the body creates it and asks for another reconciliation.\<close>

lemma body_seeding:
  assumes c: "operator_cluster E K S W name" and f: "fits W (cur s)" and none: "S (ext s) = (None, jwt)"
    and m: "managed operator_condition_set (operator_get_conditions (op_status (cur s)))"
  obtains y l st sec kp pub where
    "operator_reconcile_body E s = (Returns (requeue_result, None), s\<lparr>ext := y, cur := set_operator_status st (cur s), trace := l\<rparr>)"
    "K y = K (ext s)" "S y = (Some sec, jwt)" "\<And>q. alike_operator (cur s) q \<Longrightarrow> seed_in_order E q kp pub sec"
    "managed operator_condition_set (operator_get_conditions st)"
proof -
  obtain y l sec kp pub seed where made:
    "reconcile_seed_secret E (ObjOperator (cur s)) (create_operator_key (e_nkeys E)) (seed_at W) (seed_options (e_mach E)) s =
       (Returns (Some (own_pair W pub), seed, requeue_result, None), s\<lparr>ext := y, trace := l\<rparr>)"
    "K y = K (ext s)" "S y = (Some sec, jwt)" "\<And>q. alike_operator (cur s) q \<Longrightarrow> seed_in_order E q kp pub sec"
    by (rule seed_created [OF c f none]) (rule that, assumption+)
  obtain st z where mark: "operator_mark_seed_secret_ready (kube_clock E) (own_pair W pub) (op_status (cur s), y) = (st, z)" by fastforce
  with operator_clock(2) [OF cluster_clock [OF c], of y "own_pair W pub" "op_status (cur s)"] have z: "keeps K S y z" by simp
  let ?cs = "operator_get_conditions (op_status (cur s))"
  have "managed operator_condition_set (fst (mark_true (kube_clock E) operator_condition_set KeyPairableConditionSeedSecretReady (?cs, y)))"
    using mark_true_settles [OF condition_sets_wf(1) _, of "(?cs, y)" KeyPairableConditionSeedSecretReady "kube_clock E"] m
    by (simp add: operator_dependents)
  then have st: "managed operator_condition_set (operator_get_conditions st)"
    using mark by (auto simp: operator_marks split: prod.splits)
  have "operator_reconcile_body E s = (Returns (requeue_result, None), s\<lparr>ext := z, cur := set_operator_status st (cur s), trace := l\<rparr>)"
    by (rule run_eq) (use f mark in \<open>simp add: operator_reconcile_body_def Let_def fits_def operator_do_def result_is_zero_def
      seed_options_def [symmetric]
      wp_known [where m = "reconcile_seed_secret E (ObjOperator (cur s)) nk sn os" for nk sn os, OF made(1)]\<close>)
  moreover have "K z = K (ext s)" "S z = (Some sec, jwt)" using z made(2,3) by (simp_all add: keeps_def)
  ultimately show thesis using that made(4) st by blast
qed

text \<open>With its seed secret in order the body comes to the JWT.\<close>

lemma body_seeded:
  assumes c: "operator_cluster E K S W name" and f: "fits W (cur s)"
    and there: "fst (S (ext s)) = Some sec" and ok: "seed_in_order E (cur s) kp pub sec"
  obtains st1 st2 st3 x1 x2 x3 y1 y2 y3 seed l where
    "operator_mark_seed_secret_ready (kube_clock E) (own_pair W pub) (op_status (cur s), x1) = (st1, y1)"
    "operator_mark_system_account_resolved (kube_clock E) (system_reference W) (st1, x2) = (st2, y2)"
    "operator_mark_signing_keys_updated (kube_clock E) (keys_taken W) (st2, x3) = (st3, y3)"
    "keeps K S (ext s) y3" "from_seed (e_nkeys E) seed = Inr kp" "\<forall>c \<in> set l. only_reads c"
    "\<And>res s4 st4 y4. operator_reconcile_jwt_secret E seed (s\<lparr>ext := y3, cur := set_operator_status st3 (cur s), trace := trace s @ l\<rparr>)
         = (Returns (res, None), s4) \<Longrightarrow>
       operator_mark_jwt_secret_ready (kube_clock E) (op_status (cur s4), ext s4) = (st4, y4) \<Longrightarrow>
       operator_reconcile_body E s = (Returns (res, None), s4\<lparr>ext := y4, cur := set_operator_status st4 (cur s4)\<rparr>)"
proof -
  obtain x1 seed where read:
    "reconcile_seed_secret E (ObjOperator (cur s)) (create_operator_key (e_nkeys E)) (seed_at W) (seed_options (e_mach E)) s =
       (Returns (Some (own_pair W pub), seed, zero_result, None),
        s\<lparr>ext := x1, trace := trace s @ [SecretGet (in_namespace W) (seed_at W) (Inr sec)]\<rparr>)"
    "keeps K S (ext s) x1" "from_seed (e_nkeys E) seed = Inr kp"
    by (rule seed_is_read [OF c f there ok])
  obtain st1 y1 where m1: "operator_mark_seed_secret_ready (kube_clock E) (own_pair W pub) (op_status (cur s), x1) = (st1, y1)" by fastforce
  with operator_clock(2) [OF cluster_clock [OF c], of x1 "own_pair W pub" "op_status (cur s)"] have y1: "keeps K S x1 y1" by simp
  let ?s1 = "s\<lparr>ext := y1, cur := set_operator_status st1 (cur s), trace := trace s @ [SecretGet (in_namespace W) (seed_at W) (Inr sec)]\<rparr>"
  have f1: "fits W (cur ?s1)" using f by simp
  obtain st2 x2 y2 where sys: "ensure_system_account_resolved E ?s1 = (Returns None, ?s1\<lparr>ext := y2, cur := set_operator_status st2 (cur ?s1),
       trace := trace ?s1 @ [ObjectGet KindAccount (in_namespace W) (system_at W) (Inr (ObjAccount (system_account W)))]\<rparr>)"
    "keeps K S (ext ?s1) y2" "operator_mark_system_account_resolved (kube_clock E) (system_reference W) (op_status (cur ?s1), x2) = (st2, y2)"
    by (rule system_account_resolves [OF c f1])
  let ?s2 = "?s1\<lparr>ext := y2, cur := set_operator_status st2 (cur ?s1),
       trace := trace ?s1 @ [ObjectGet KindAccount (in_namespace W) (system_at W) (Inr (ObjAccount (system_account W)))]\<rparr>"
  have f2: "fits W (cur ?s2)" using f by simp
  obtain st3 x3 y3 where keys: "operator_ensure_signing_keys_updated E ?s2 = (Returns None, ?s2\<lparr>ext := y3, cur := set_operator_status st3 (cur ?s2),
       trace := trace ?s2 @ [SigningKeysList (in_namespace W) [] (Inr (keys_listed W))]\<rparr>)"
    "keeps K S (ext ?s2) y3" "operator_mark_signing_keys_updated (kube_clock E) (keys_taken W) (op_status (cur ?s2), x3) = (st3, y3)"
    by (rule signing_keys_taken [OF c f2])
  let ?l = "[SecretGet (in_namespace W) (seed_at W) (Inr sec),
    ObjectGet KindAccount (in_namespace W) (system_at W) (Inr (ObjAccount (system_account W))),
    SigningKeysList (in_namespace W) [] (Inr (keys_listed W))]"
  show thesis
  proof (rule that [of x1 st1 y1 x2 st2 y2 x3 st3 y3 seed ?l])
    fix res s4 st4 y4
    assume jwt: "operator_reconcile_jwt_secret E seed (s\<lparr>ext := y3, cur := set_operator_status st3 (cur s), trace := trace s @ ?l\<rparr>)
         = (Returns (res, None), s4)"
      and m4: "operator_mark_jwt_secret_ready (kube_clock E) (op_status (cur s4), ext s4) = (st4, y4)"
    show "operator_reconcile_body E s = (Returns (res, None), s4\<lparr>ext := y4, cur := set_operator_status st4 (cur s4)\<rparr>)"
      by (rule run_eq) (use f m1 sys(1) keys(1) m4 in \<open>simp add: operator_reconcile_body_def Let_def fits_def operator_do_def
        update_order result_is_zero_def seed_options_def [symmetric]
        wp_known [where m = "reconcile_seed_secret E (ObjOperator (cur s)) nk sn os" for nk sn os, OF read(1)]
        wp_known [where m = "ensure_system_account_resolved E"] wp_known [where m = "operator_ensure_signing_keys_updated E"]
        wp_known [where m = "operator_reconcile_jwt_secret E seed", OF jwt]\<close>)
  next
    show "keeps K S (ext s) y3"
      using read(2) y1 sys(2) keys(2) by (simp add: keeps_def)
  qed (use m1 sys(3) keys(3) read(3) in simp_all)
qed

lemma body_signing:
  assumes c: "operator_cluster E K S W name" and f: "fits W (cur s)"
    and S: "S (ext s) = (Some sec, jwt)" and ok: "seed_in_order E (cur s) kp pub sec"
    and usable: "\<And>got. jwt = Some got \<Longrightarrow> fmlookup (s_data got) NatsSecretJWTKey \<noteq> None"
    and m: "managed operator_condition_set (operator_get_conditions (op_status (cur s)))"
  obtains res y l st js where
    "operator_reconcile_body E s = (Returns (res, None), s\<lparr>ext := y, cur := set_operator_status st (cur s), trace := l\<rparr>)"
    "K y = K (ext s)" "S y = (Some sec, Some js)" "operator_steady W pub st"
    "jwt_current E W (set_operator_status st (cur s)) kp pub js"
proof -
  have there: "fst (S (ext s)) = Some sec" by (simp add: S)
  obtain st1 st2 st3 x1 x2 x3 y1 y2 y3 seed l where body:
    "operator_mark_seed_secret_ready (kube_clock E) (own_pair W pub) (op_status (cur s), x1) = (st1, y1)"
    "operator_mark_system_account_resolved (kube_clock E) (system_reference W) (st1, x2) = (st2, y2)"
    "operator_mark_signing_keys_updated (kube_clock E) (keys_taken W) (st2, x3) = (st3, y3)"
    "keeps K S (ext s) y3" "from_seed (e_nkeys E) seed = Inr kp" "\<forall>c \<in> set l. only_reads c"
    "\<And>res s4 st4 y4. operator_reconcile_jwt_secret E seed (s\<lparr>ext := y3, cur := set_operator_status st3 (cur s), trace := trace s @ l\<rparr>)
         = (Returns (res, None), s4) \<Longrightarrow>
       operator_mark_jwt_secret_ready (kube_clock E) (op_status (cur s4), ext s4) = (st4, y4) \<Longrightarrow>
       operator_reconcile_body E s = (Returns (res, None), s4\<lparr>ext := y4, cur := set_operator_status st4 (cur s4)\<rparr>)"
    by (rule body_seeded [OF c f there ok]) (rule that, assumption+)
  let ?s3 = "s\<lparr>ext := y3, cur := set_operator_status st3 (cur s), trace := trace s @ l\<rparr>"
  have st3: "ops_key_pair st3 = Some (own_pair W pub)" "ops_resolved_system_account st3 = Some (system_reference W)"
    using body(1-3) by (auto simp: operator_marks split: prod.splits)
  have s3: "fits W (cur ?s3)" "S (ext ?s3) = (Some sec, jwt)" "ops_key_pair (op_status (cur ?s3)) = Some (own_pair W pub)"
    "ops_resolved_system_account (op_status (cur ?s3)) = Some (system_reference W)"
    using f body(4) S st3 by (simp_all add: keeps_def)
  obtain res y4 l4 js where jwt: "operator_reconcile_jwt_secret E seed ?s3 = (Returns (res, None), ?s3\<lparr>ext := y4, trace := l4\<rparr>)"
    "K y4 = K (ext ?s3)" "S y4 = (Some sec, Some js)" "jwt_current E W (cur ?s3) kp pub js"
    by (rule jwt_settles [OF c s3(1) body(5) s3(3,4,2) usable])
  obtain st4 y5 where m4: "operator_mark_jwt_secret_ready (kube_clock E) (st3, y4) = (st4, y5)" by fastforce
  with operator_clock(5) [OF cluster_clock [OF c], of y4 st3] have y5: "keeps K S y4 y5" by simp
  have "operator_reconcile_body E s = (Returns (res, None), s\<lparr>ext := y5, cur := set_operator_status st4 (cur s), trace := l4\<rparr>)"
    using body(7) [OF jwt(1)] m4 by simp
  moreover have "K y5 = K (ext s)" "S y5 = (Some sec, Some js)" using y5 jwt(2,3) body(4) by (simp_all add: keeps_def)
  moreover have steady: "operator_steady W pub st4" by (rule operator_becomes_steady [OF m body(1-3) m4])
  moreover have "jwt_current E W (set_operator_status st4 (cur s)) kp pub js"
  proof (rule jwt_current_same [OF _ _ _ jwt(4)])
    show "ops_signing_keys (op_status (cur ?s3)) = ops_signing_keys (op_status (set_operator_status st4 (cur s)))"
      using m4 by (auto simp: operator_marks split: prod.splits)
  qed simp_all
  ultimately show thesis using that by blast
qed

text \<open>At rest the body writes nothing.\<close>

definition operator_at_rest ::
  "'x env \<Rightarrow> ('x \<Rightarrow> operator) \<Rightarrow> ('x \<Rightarrow> secret option \<times> secret option) \<Rightarrow> surroundings \<Rightarrow> keypair \<Rightarrow> string
     \<Rightarrow> secret \<Rightarrow> secret \<Rightarrow> 'x \<Rightarrow> bool" where
  "operator_at_rest E K S W kp pub sec js x \<longleftrightarrow> fits W (K x) \<and> S x = (Some sec, Some js) \<and> seed_in_order E (K x) kp pub sec
     \<and> jwt_current E W (K x) kp pub js \<and> operator_steady W pub (op_status (K x))"

lemma body_resting:
  assumes c: "operator_cluster E K S W name" and r: "operator_at_rest E K S W kp pub sec js (ext s)" and k: "cur s = K (ext s)"
  obtains y l where "operator_reconcile_body E s = (Returns (zero_result, None), s\<lparr>ext := y, trace := trace s @ l\<rparr>)"
    "keeps K S (ext s) y" "\<forall>c \<in> set l. only_reads c"
proof -
  from r k have f: "fits W (cur s)" and S: "S (ext s) = (Some sec, Some js)" and there: "fst (S (ext s)) = Some sec"
    and ok: "seed_in_order E (cur s) kp pub sec" and cu: "jwt_current E W (cur s) kp pub js"
    and st: "operator_steady W pub (op_status (cur s))"
    by (simp_all add: operator_at_rest_def)
  obtain st1 st2 st3 x1 x2 x3 y1 y2 y3 seed l where body:
    "operator_mark_seed_secret_ready (kube_clock E) (own_pair W pub) (op_status (cur s), x1) = (st1, y1)"
    "operator_mark_system_account_resolved (kube_clock E) (system_reference W) (st1, x2) = (st2, y2)"
    "operator_mark_signing_keys_updated (kube_clock E) (keys_taken W) (st2, x3) = (st3, y3)"
    "keeps K S (ext s) y3" "from_seed (e_nkeys E) seed = Inr kp" "\<forall>c \<in> set l. only_reads c"
    "\<And>res s4 st4 y4. operator_reconcile_jwt_secret E seed (s\<lparr>ext := y3, cur := set_operator_status st3 (cur s), trace := trace s @ l\<rparr>)
         = (Returns (res, None), s4) \<Longrightarrow>
       operator_mark_jwt_secret_ready (kube_clock E) (op_status (cur s4), ext s4) = (st4, y4) \<Longrightarrow>
       operator_reconcile_body E s = (Returns (res, None), s4\<lparr>ext := y4, cur := set_operator_status st4 (cur s4)\<rparr>)"
    by (rule body_seeded [OF c f there ok]) (rule that, assumption+)
  have st1: "st1 = op_status (cur s)" using body(1) operator_status_steady(2) [OF st, of "kube_clock E" x1] by simp
  have st2: "st2 = op_status (cur s)" using body(2) operator_status_steady(3) [OF st, of "kube_clock E" x2] by (simp add: st1)
  have st3: "set_operator_status st3 (cur s) = cur s"
    using body(3) operator_status_steady(4) [OF st, of "kube_clock E" x3] by (simp add: st2)
  let ?s3 = "s\<lparr>ext := y3, trace := trace s @ l\<rparr>"
  have s3: "fits W (cur ?s3)" "S (ext ?s3) = (Some sec, Some js)" "ops_key_pair (op_status (cur ?s3)) = Some (own_pair W pub)"
    "ops_resolved_system_account (op_status (cur ?s3)) = Some (system_reference W)" "jwt_current E W (cur ?s3) kp pub js"
    using f body(4) S st cu by (simp_all add: keeps_def operator_steady_def)
  obtain y4 l4 where jwt: "operator_reconcile_jwt_secret E seed ?s3 = (Returns (zero_result, None), ?s3\<lparr>ext := y4, trace := trace ?s3 @ l4\<rparr>)"
    "keeps K S (ext ?s3) y4" "\<forall>c \<in> set l4. only_reads c"
    by (rule jwt_stays [OF c s3(1) body(5) s3(3,4,2,5)])
  have m4: "operator_mark_jwt_secret_ready (kube_clock E) (op_status (cur s), y4) = (op_status (cur s), y4)"
    by (rule operator_status_steady(5) [OF st])
  have "s\<lparr>ext := y3, cur := set_operator_status st3 (cur s), trace := trace s @ l\<rparr> = ?s3"
    unfolding st3 by (cases s) simp
  then have "operator_reconcile_body E s = (Returns (zero_result, None), s\<lparr>ext := y4, trace := trace s @ (l @ l4)\<rparr>)"
    using body(7) [of zero_result "?s3\<lparr>ext := y4, trace := trace ?s3 @ l4\<rparr>" "op_status (cur s)" y4] jwt(1) m4
    by (cases s) simp
  moreover have "keeps K S (ext s) y4" using body(4) jwt(2) by (auto intro: keeps_trans)
  ultimately show thesis using that body(6) jwt(3) by (metis Un_iff set_append)
qed

section \<open>A reconciliation\<close>

definition startable :: "('x \<Rightarrow> int \<times> 'x) \<Rightarrow> operator_status \<Rightarrow> bool" where
  "startable now s \<longleftrightarrow> operator_known now s \<or> managed operator_condition_set (operator_get_conditions s)"

lemma startable_initialized:
  assumes "startable now s" and "operator_initialize_conditions now (s, k) = (s1, k1)"
  shows "managed operator_condition_set (operator_get_conditions s1)"
proof (cases "managed operator_condition_set (operator_get_conditions s)")
  case True
  then show ?thesis using assms(2) by (simp add: operator_marks initialize_managed)
next
  case False
  then have "operator_known now s" using assms(1) by (simp add: startable_def)
  then have "operator_run now s1"
    using assms(2) unfolding operator_known_def operator_run_def
    by (metis fst_conv lifecycle_run.created lifecycle_run.initialized)
  then show ?thesis
    using operator_life.run_consistent [of now s1] by (simp add: operator_run_def operator_life.consistent_def)
qed

lemma operator_status_equal_refl: "operator_status_equal t t"
  by (simp add: operator_status_equal_def conditions_semantic_equal_def condition_semantic_equal_def
      volatile_time_equal_def list_all2_same)

lemma operator_status_equal_steady:
  assumes "operator_status_equal s t"
  shows "operator_steady W pub s = operator_steady W pub t"
  using assms semantic_equal_reached [of "operator_get_conditions s" "operator_get_conditions t"]
  by (simp add: operator_steady_def operator_status_equal_def)

abbreviation read_of_operator :: "surroundings \<Rightarrow> string \<Rightarrow> operator \<Rightarrow> call" where
  "read_of_operator W name p \<equiv> ObjectGet KindOperator (in_namespace W) name (Inr (ObjOperator p))"

definition operator_saved :: "'x env \<Rightarrow> operator_status \<Rightarrow> ('x, operator) st \<Rightarrow> ('x, operator) st" where
  "operator_saved E t s = (if operator_status_equal t (op_status (cur s)) then s
     else (case cl_status_operator (e_kube E) (cur s) (ext s) of ((err, p), y) \<Rightarrow>
       s\<lparr>ext := y, cur := p, trace := trace s @ [StatusUpdate (ObjOperator (cur s)) err]\<rparr>))"

lemma cluster_stores:
  "operator_cluster E K S W name \<Longrightarrow>
     accepts op_meta with_version (cl_status_operator (e_kube E)) K S (\<lambda>p old. set_operator_status (op_status p) old)"
  by (simp add: operator_cluster_def serves_operator_def set_operator_status_def)

lemma operator_starts:
  assumes c: "operator_cluster E K S W name"
  obtains st x1 y where "keeps K S x y" "operator_initialize_conditions (kube_clock E) (op_status (K x), x1) = (st, y)"
    "\<And>r s. operator_reconcile_body E \<lparr>ext = y, cur = set_operator_status st (K x), trace = [read_of_operator W name (K x)]\<rparr> = (r, s) \<Longrightarrow>
       same_version (op_meta (cur s)) (op_meta (K (ext s))) \<Longrightarrow>
       operator_reconcile E (in_namespace W) name \<lparr>ext = x, cur = p, trace = []\<rparr> = (r, operator_saved E (op_status (K x)) s)"
proof -
  obtain x1 where get: "cl_get_operator (e_kube E) (in_namespace W) name x = (Inr (K x), x1)" "keeps K S x x1"
    by (rule reads_value [OF cluster_reads(1) [OF c]])
  obtain st y where ini: "operator_initialize_conditions (kube_clock E) (op_status (K x), x1) = (st, y)" by fastforce
  with operator_clock(1) [OF cluster_clock [OF c], of x1 "op_status (K x)"] have "keeps K S x1 y" by simp
  with get(2) have y: "keeps K S x y" by (rule keeps_trans)
  let ?s = "\<lparr>ext = y, cur = set_operator_status st (K x), trace = [read_of_operator W name (K x)]\<rparr>"
  have "operator_reconcile E (in_namespace W) name \<lparr>ext = x, cur = p, trace = []\<rparr> = (r, operator_saved E (op_status (K x)) s)"
    if body: "operator_reconcile_body E ?s = (r, s)" and v: "same_version (op_meta (cur s)) (op_meta (K (ext s)))" for r s
  proof -
    obtain w z where "cl_status_operator (e_kube E) (cur s) (ext s) = ((None, w), z)"
      by (rule acceptsE [OF cluster_stores [OF c] v]) blast
    then show ?thesis
      by (intro run_eq)
        (simp add: operator_reconcile_def get_operator_def get(1) ini operator_do_def operator_saved_def
          update_operator_status_def wp_with_status_deferral wp_known [where m = "operator_reconcile_body E", OF body])
  qed
  from that [OF y ini this] show thesis .
qed

lemma saved_operator:
  assumes c: "operator_cluster E K S W name" and "cur s = set_operator_status t p" "K (ext s) = p"
  shows "K (ext (operator_saved E (op_status p) s)) = p \<and> operator_status_equal (op_status p) t
      \<or> (\<exists>v. K (ext (operator_saved E (op_status p) s)) = with_version v (set_operator_status t p))"
    and "S (ext (operator_saved E (op_status p) s)) = S (ext s)"
proof -
  let ?z = "ext (operator_saved E (op_status p) s)"
  have "(K ?z = p \<and> operator_status_equal (op_status p) t \<or> (\<exists>v. K ?z = with_version v (set_operator_status t p))) \<and> S ?z = S (ext s)"
  proof (cases "operator_status_equal (op_status p) t")
    case True
    then show ?thesis using assms by (simp add: operator_saved_def)
  next
    case False
    have "same_version (op_meta (set_operator_status t p)) (op_meta (K (ext s)))" using assms(3) by simp
    from acceptsE [OF cluster_stores [OF c] this] obtain v z where
      "cl_status_operator (e_kube E) (set_operator_status t p) (ext s) = ((None, with_version v (set_operator_status t p)), z)"
      "K z = with_version v (set_operator_status t p)" "S z = S (ext s)"
      using assms(3) by auto
    then show ?thesis using False assms by (auto simp: operator_saved_def)
  qed
  then show "K ?z = p \<and> operator_status_equal (op_status p) t \<or> (\<exists>v. K ?z = with_version v (set_operator_status t p))"
    "S ?z = S (ext s)" by simp_all
qed

definition operator_step :: "'x env \<Rightarrow> string \<Rightarrow> string \<Rightarrow> operator \<Rightarrow> 'x \<Rightarrow> 'x" where
  "operator_step E ns name p x = ext (snd (operator_reconcile E ns name \<lparr>ext = x, cur = p, trace = []\<rparr>))"

lemma with_version_sel [simp]:
  "op_spec (with_version v p) = op_spec p" "op_status (with_version v p) = op_status p"
  "m_name (op_meta (with_version v p)) = m_name (op_meta p)" "m_namespace (op_meta (with_version v p)) = m_namespace (op_meta p)"
  by (simp_all add: with_version_def)

text \<open>The first reconciliation of an operator without a seed secret.\<close>

lemma step_seeds:
  assumes c: "operator_cluster E K S W name" and f: "fits W (K x)" and st: "startable (kube_clock E) (op_status (K x))"
    and S: "S x = (None, jwt)"
  shows "\<exists>sec kp pub. S (operator_step E (in_namespace W) name p x) = (Some sec, jwt)
      \<and> seed_in_order E (K (operator_step E (in_namespace W) name p x)) kp pub sec
      \<and> fits W (K (operator_step E (in_namespace W) name p x))
      \<and> startable (kube_clock E) (op_status (K (operator_step E (in_namespace W) name p x)))
      \<and> op_spec (K (operator_step E (in_namespace W) name p x)) = op_spec (K x)"
proof -
  obtain t x1 y where start: "keeps K S x y" "operator_initialize_conditions (kube_clock E) (op_status (K x), x1) = (t, y)"
    "\<And>r s. operator_reconcile_body E \<lparr>ext = y, cur = set_operator_status t (K x), trace = [read_of_operator W name (K x)]\<rparr> = (r, s) \<Longrightarrow>
       same_version (op_meta (cur s)) (op_meta (K (ext s))) \<Longrightarrow>
       operator_reconcile E (in_namespace W) name \<lparr>ext = x, cur = p, trace = []\<rparr> = (r, operator_saved E (op_status (K x)) s)"
    by (rule operator_starts [where x = x and p = p, OF c]) (rule that, assumption+)
  let ?s = "\<lparr>ext = y, cur = set_operator_status t (K x), trace = [read_of_operator W name (K x)]\<rparr>"
  have k: "K y = K x" and f1: "fits W (cur ?s)" and S1: "S (ext ?s) = (None, jwt)"
    and m1: "managed operator_condition_set (operator_get_conditions (op_status (cur ?s)))"
    using start(1) f S startable_initialized [OF st start(2)] by (simp_all add: keeps_def)
  obtain z l t2 sec kp pub where body:
    "operator_reconcile_body E ?s = (Returns (requeue_result, None), ?s\<lparr>ext := z, cur := set_operator_status t2 (cur ?s), trace := l\<rparr>)"
    "K z = K (ext ?s)" "S z = (Some sec, jwt)" "\<And>q. alike_operator (cur ?s) q \<Longrightarrow> seed_in_order E q kp pub sec"
    "managed operator_condition_set (operator_get_conditions t2)"
    by (rule body_seeding [OF c f1 S1 m1]) (rule that, assumption+)
  let ?t = "?s\<lparr>ext := z, cur := set_operator_status t2 (cur ?s), trace := l\<rparr>"
  have "operator_reconcile E (in_namespace W) name \<lparr>ext = x, cur = p, trace = []\<rparr> =
      (Returns (requeue_result, None), operator_saved E (op_status (K x)) ?t)"
    by (rule start(3) [OF body(1)]) (simp add: body(2) k)
  then have z: "operator_step E (in_namespace W) name p x = ext (operator_saved E (op_status (K x)) ?t)"
    by (simp add: operator_step_def)
  have t: "cur ?t = set_operator_status t2 (K x)" "K (ext ?t) = K x" using body(2) by (simp_all add: k)
  note saved = saved_operator [OF c t, folded z]
  have "startable (kube_clock E) t2" using body(5) by (simp add: startable_def)
  then have "fits W (K (operator_step E (in_namespace W) name p x))
      \<and> startable (kube_clock E) (op_status (K (operator_step E (in_namespace W) name p x)))
      \<and> alike_operator (K x) (K (operator_step E (in_namespace W) name p x))"
    using saved(1) f st by auto
  then show ?thesis
    using body(3) saved(2) body(4) by (auto simp: alike_operator_def)
qed

text \<open>A reconciliation of an operator with its seed secret.\<close>

lemma step_signs:
  assumes c: "operator_cluster E K S W name" and f: "fits W (K x)" and st: "startable (kube_clock E) (op_status (K x))"
    and S: "S x = (Some sec, jwt)" and ok: "seed_in_order E (K x) kp pub sec"
    and usable: "\<And>got. jwt = Some got \<Longrightarrow> fmlookup (s_data got) NatsSecretJWTKey \<noteq> None"
  shows "\<exists>js. operator_at_rest E K S W kp pub sec js (operator_step E (in_namespace W) name p x)
      \<and> op_spec (K (operator_step E (in_namespace W) name p x)) = op_spec (K x)"
proof -
  let ?z = "operator_step E (in_namespace W) name p x"
  have laws: "machinery_laws (e_mach E)" "reference_law (e_mach E)" using c by (simp_all add: operator_cluster_def)
  obtain t x1 y where start: "keeps K S x y" "operator_initialize_conditions (kube_clock E) (op_status (K x), x1) = (t, y)"
    "\<And>r s. operator_reconcile_body E \<lparr>ext = y, cur = set_operator_status t (K x), trace = [read_of_operator W name (K x)]\<rparr> = (r, s) \<Longrightarrow>
       same_version (op_meta (cur s)) (op_meta (K (ext s))) \<Longrightarrow>
       operator_reconcile E (in_namespace W) name \<lparr>ext = x, cur = p, trace = []\<rparr> = (r, operator_saved E (op_status (K x)) s)"
    by (rule operator_starts [where x = x and p = p, OF c]) (rule that, assumption+)
  let ?s = "\<lparr>ext = y, cur = set_operator_status t (K x), trace = [read_of_operator W name (K x)]\<rparr>"
  have k: "K y = K x" and f1: "fits W (cur ?s)" and S1: "S (ext ?s) = (Some sec, jwt)"
    and m1: "managed operator_condition_set (operator_get_conditions (op_status (cur ?s)))"
    and ok1: "seed_in_order E (cur ?s) kp pub sec"
    using start(1) f S startable_initialized [OF st start(2)] seed_in_order_same [OF laws _ ok, of "cur ?s"]
    by (simp_all add: keeps_def)
  obtain res z l t2 js where body:
    "operator_reconcile_body E ?s = (Returns (res, None), ?s\<lparr>ext := z, cur := set_operator_status t2 (cur ?s), trace := l\<rparr>)"
    "K z = K (ext ?s)" "S z = (Some sec, Some js)" "operator_steady W pub t2"
    "jwt_current E W (set_operator_status t2 (cur ?s)) kp pub js"
    by (rule body_signing [OF c f1 S1 ok1 usable m1])
  let ?t = "?s\<lparr>ext := z, cur := set_operator_status t2 (cur ?s), trace := l\<rparr>"
  have "operator_reconcile E (in_namespace W) name \<lparr>ext = x, cur = p, trace = []\<rparr> =
      (Returns (res, None), operator_saved E (op_status (K x)) ?t)"
    by (rule start(3) [OF body(1)]) (simp add: body(2) k)
  then have z: "?z = ext (operator_saved E (op_status (K x)) ?t)"
    by (simp add: operator_step_def)
  have t: "cur ?t = set_operator_status t2 (K x)" "K (ext ?t) = K x" using body(2) by (simp_all add: k)
  note saved = saved_operator [OF c t, folded z]
  have same: "alike_operator (K x) (K ?z)" and fz: "fits W (K ?z)" using saved(1) f by auto
  have steady: "operator_steady W pub (op_status (K ?z))"
    using saved(1) body(4) operator_status_equal_steady by auto
  have "ops_signing_keys (op_status (set_operator_status t2 (cur ?s))) = ops_signing_keys (op_status (K ?z))"
    using steady body(4) by (simp add: operator_steady_def)
  then have "jwt_current E W (K ?z) kp pub js"
    by (intro jwt_current_same [OF _ _ _ body(5)]) (use same in \<open>simp_all add: alike_operator_def\<close>)
  moreover have "seed_in_order E (K ?z) kp pub sec" by (rule seed_in_order_same [OF laws same ok])
  ultimately show ?thesis
    using saved(2) body(3) fz steady same by (auto simp: operator_at_rest_def alike_operator_def)
qed

lemma operator_run_at_rest:
  assumes c: "operator_cluster E K S W name" and r: "operator_at_rest E K S W kp pub sec js x"
  shows "\<exists>y l. operator_reconcile E (in_namespace W) name \<lparr>ext = x, cur = p, trace = []\<rparr> =
      (Returns (zero_result, None), \<lparr>ext = y, cur = K x, trace = l\<rparr>) \<and> keeps K S x y \<and> (\<forall>c \<in> set l. only_reads c)"
proof -
  have st: "operator_steady W pub (op_status (K x))" using r by (simp add: operator_at_rest_def)
  obtain t x1 y where start: "keeps K S x y" "operator_initialize_conditions (kube_clock E) (op_status (K x), x1) = (t, y)"
    "\<And>r s. operator_reconcile_body E \<lparr>ext = y, cur = set_operator_status t (K x), trace = [read_of_operator W name (K x)]\<rparr> = (r, s) \<Longrightarrow>
       same_version (op_meta (cur s)) (op_meta (K (ext s))) \<Longrightarrow>
       operator_reconcile E (in_namespace W) name \<lparr>ext = x, cur = p, trace = []\<rparr> = (r, operator_saved E (op_status (K x)) s)"
    by (rule operator_starts [where x = x and p = p, OF c]) (rule that, assumption+)
  have t: "set_operator_status t (K x) = K x"
    using start(2) operator_status_steady(1) [OF st, of "kube_clock E" x1] by simp
  let ?s = "\<lparr>ext = y, cur = K x, trace = [read_of_operator W name (K x)]\<rparr>"
  have r1: "operator_at_rest E K S W kp pub sec js (ext ?s)" and k: "cur ?s = K (ext ?s)"
    using r start(1) by (simp_all add: operator_at_rest_def keeps_def)
  obtain z l where body: "operator_reconcile_body E ?s = (Returns (zero_result, None), ?s\<lparr>ext := z, trace := trace ?s @ l\<rparr>)"
    "keeps K S (ext ?s) z" "\<forall>c \<in> set l. only_reads c"
    by (rule body_resting [OF c r1 k])
  have z: "keeps K S x z" using start(1) body(2) by (auto intro: keeps_trans)
  have "operator_reconcile E (in_namespace W) name \<lparr>ext = x, cur = p, trace = []\<rparr> =
      (Returns (zero_result, None), operator_saved E (op_status (K x)) (?s\<lparr>ext := z, trace := trace ?s @ l\<rparr>))"
    by (rule start(3) [unfolded t, OF body(1)]) (use z in \<open>simp add: keeps_def\<close>)
  then show ?thesis using z body(3) by (auto simp: operator_saved_def operator_status_equal_refl)
qed

lemma operator_step_at_rest:
  assumes c: "operator_cluster E K S W name" and r: "operator_at_rest E K S W kp pub sec js x"
  shows "K (operator_step E (in_namespace W) name p x) = K x" and "S (operator_step E (in_namespace W) name p x) = S x"
  using operator_run_at_rest [OF c r, of p] by (auto simp: operator_step_def keeps_def)

section \<open>Convergence\<close>

lemma operator_steps_at_rest:
  assumes c: "operator_cluster E K S W name" and r: "operator_at_rest E K S W kp pub sec js x"
  shows "K ((operator_step E (in_namespace W) name p ^^ n) x) = K x \<and> S ((operator_step E (in_namespace W) name p ^^ n) x) = S x"
proof (induction n)
  case (Suc n)
  let ?y = "(operator_step E (in_namespace W) name p ^^ n) x"
  have "operator_at_rest E K S W kp pub sec js ?y" using Suc r by (simp add: operator_at_rest_def)
  from operator_step_at_rest [OF c this, of p] Suc show ?case by simp
qed simp

lemma operator_two_steps:
  assumes c: "operator_cluster E K S W name" and f: "fits W (K x)" and known: "operator_known (kube_clock E) (op_status (K x))"
    and usable: "secrets_usable E (K x) (S x)"
  shows "\<exists>kp pub sec js. operator_at_rest E K S W kp pub sec js ((operator_step E (in_namespace W) name p ^^ 2) x)
    \<and> op_spec (K ((operator_step E (in_namespace W) name p ^^ 2) x)) = op_spec (K x)"
proof -
  let ?f = "operator_step E (in_namespace W) name p"
  obtain seed jwt where S: "S x = (seed, jwt)" by fastforce
  have st: "startable (kube_clock E) (op_status (K x))" using known by (simp add: startable_def)
  have jwt: "fmlookup (s_data got) NatsSecretJWTKey \<noteq> None" if "jwt = Some got" for got
    using usable that by (simp add: secrets_usable_def S)
  show ?thesis
  proof (cases seed)
    case None
    from step_seeds [OF c f st, of jwt p] obtain sec kp pub where
      y: "S (?f x) = (Some sec, jwt)" "seed_in_order E (K (?f x)) kp pub sec" "fits W (K (?f x))"
        "startable (kube_clock E) (op_status (K (?f x)))" "op_spec (K (?f x)) = op_spec (K x)"
      by (auto simp: S None)
    from step_signs [OF c y(3,4,1,2) jwt, of p] y(5) show ?thesis by (auto simp: numeral_2_eq_2)
  next
    case (Some sec)
    then obtain kp pub where ok: "seed_in_order E (K x) kp pub sec" using usable by (auto simp: secrets_usable_def S)
    from step_signs [OF c f st S [unfolded Some] ok jwt, of p] obtain js where
      r: "operator_at_rest E K S W kp pub sec js (?f x)" "op_spec (K (?f x)) = op_spec (K x)" by blast
    from operator_step_at_rest [OF c r(1), of p] r show ?thesis
      by (auto simp: numeral_2_eq_2 operator_at_rest_def)
  qed
qed

lemma operator_steady_ready: "operator_steady W pub s \<Longrightarrow> operator_is_ready s"
  by (auto simp: operator_steady_def operator_is_ready_def is_happy_def get_top_level_condition_def intro: reached_happy)

lemma seed_in_order_public:
  "seed_in_order E p kp pub sec \<Longrightarrow> secret_bytes sec NatsSecretPublicKeyKey = pub"
  using key_pair_builder.build_meant [of "e_mach E" sec "ObjOperator p" kp "seed_options (e_mach E)" sec]
  by (auto simp: seed_in_order_def built_seed_def key_pair_secret_meant_def secret_bytes_def)


section \<open>An operator from scratch\<close>

text \<open>
  A cluster with one operator, its system account and its two secrets, and a JWT library that keeps of the
  claims of an operator only the subject.
\<close>

definition ready_system_account :: account where
  "ready_system_account = sample_account\<lparr>acc_status :=
     \<lparr>accs_status = \<lparr>st_conditions = [new_condition KeyPairableConditionSeedSecretReady ConditionTrue [] [] []]\<rparr>,
      accs_key_pair = Some \<lparr>public_key = ''pub-A'', seed_secret_name = ''seed''\<rparr>, accs_signing_keys = [], accs_operator_ref = None\<rparr>\<rparr>"

definition create_in :: "secret \<Rightarrow> operator \<times> secret option \<times> secret option \<Rightarrow>
    (error option \<times> secret) \<times> operator \<times> secret option \<times> secret option" where
  "create_in sec x = (let new = stamped ''1'' ''id'' sec in case x of (p, seed, jwt) \<Rightarrow>
     if m_name (s_meta sec) = ''oseed'' \<and> seed = None then ((None, new), (p, Some new, jwt))
     else if m_name (s_meta sec) = ''ojwt'' \<and> jwt = None then ((None, new), (p, seed, Some new))
     else ((Some (StatusError Conflict ''secret exists''), sec), x))"

definition update_in :: "secret \<Rightarrow> operator \<times> secret option \<times> secret option \<Rightarrow>
    (error option \<times> secret) \<times> operator \<times> secret option \<times> secret option" where
  "update_in sec x = (case x of
       (p, seed, Some old) \<Rightarrow>
         (if m_name (s_meta sec) = ''ojwt'' \<and> m_resource_version (s_meta sec) = m_resource_version (s_meta old)
          then (let new = stamped (m_resource_version (s_meta old) @ ''I'') ''id'' sec in ((None, new), (p, seed, Some new)))
          else ((Some (StatusError Conflict ''secret was modified''), sec), x))
     | _ \<Rightarrow> ((Some missing, sec), x))"

definition operator_kube :: "(operator \<times> secret option \<times> secret option) kube" where
  "operator_kube = (kube_as_unit sample_kube)\<lparr>
     cl_get_operator := (\<lambda>ns n x. (if n = ''op'' then Inr (fst x) else Inl missing, x)),
     cl_get_account := (\<lambda>ns n x. (if n = ''sys'' then Inr ready_system_account else Inl missing, x)),
     cl_status_operator := object_store op_meta with_version (\<lambda>p old. old\<lparr>op_status := op_status p\<rparr>),
     cs_get_secret := (\<lambda>ns n x. (case if n = ''oseed'' then fst (snd x) else if n = ''ojwt'' then snd (snd x) else None of
        None \<Rightarrow> Inl missing | Some sec \<Rightarrow> Inr sec, x)),
     cl_create_secret := create_in, cl_update_secret := update_in\<rparr>"

definition operator_env :: "(operator \<times> secret option \<times> secret option) env" where
  "operator_env = (let E = env_as_unit operator_kube sample_env in E\<lparr>e_jwt := (e_jwt E)\<lparr>
     encode_operator := (\<lambda>c k x. (Inr (new_operator_claims sample_jwt (cd_subject (oc_data c)), cd_subject (oc_data c)), x)),
     jwt_decode := (\<lambda>token. Inr (OperatorClaims (new_operator_claims sample_jwt token)))\<rparr>\<rparr>)"

definition operator_surroundings :: surroundings where
  "operator_surroundings = \<lparr>in_namespace = ''ns'', seed_at = ''oseed'', jwt_at = ''ojwt'', system_at = ''sys'',
     system_account = ready_system_account, system_pair = \<lparr>public_key = ''pub-A'', seed_secret_name = ''seed''\<rparr>,
     keys_listed = [], keys_taken = []\<rparr>"

lemma operator_env_sel [simp]:
  "e_kube operator_env = operator_kube" "e_mach operator_env = plain_machinery"
  "create_operator_key (e_nkeys operator_env) = (\<lambda>x. (Inr (key_of_seed ''O''), x))"
  "from_seed (e_nkeys operator_env) = (\<lambda>s. Inr (key_of_seed s))"
  "encode_operator (e_jwt operator_env) = (\<lambda>c k x. (Inr (new_operator_claims sample_jwt (cd_subject (oc_data c)), cd_subject (oc_data c)), x))"
  "jwt_decode (e_jwt operator_env) = (\<lambda>token. Inr (OperatorClaims (new_operator_claims sample_jwt token)))"
  by (simp_all add: operator_env_def Let_def sample_env_def sample_nkeys_def)

lemma surroundings_sel [simp]:
  "in_namespace operator_surroundings = ''ns''" "seed_at operator_surroundings = ''oseed''" "jwt_at operator_surroundings = ''ojwt''"
  "system_at operator_surroundings = ''sys''" "system_account operator_surroundings = ready_system_account"
  "keys_listed operator_surroundings = []" "keys_taken operator_surroundings = []"
  "system_pair operator_surroundings = \<lparr>public_key = ''pub-A'', seed_secret_name = ''seed''\<rparr>"
  by (simp_all add: operator_surroundings_def)

lemma claims_equal_subject: "claims_data_equal a b \<Longrightarrow> cd_subject a = cd_subject b"
  by (cases a; cases b) (simp add: claims_data_equal_def)

lemma claims_data_equal_refl: "claims_data_equal a a"
  by (simp add: claims_data_equal_def)

lemma operator_env_cluster: "operator_cluster operator_env fst snd operator_surroundings ''op''"
  unfolding operator_cluster_def
proof (intro conjI)
  show "serves_operator (e_kube operator_env) fst snd operator_surroundings ''op''"
    unfolding serves_operator_def reads_only_def
    by (auto simp: operator_kube_def kube_as_unit_def as_unit_def sample_kube_def keeps_def accepts_object_store split: option.split)
  show "stores_secrets (e_kube operator_env) fst snd operator_surroundings"
    by (auto simp: stores_secrets_def operator_kube_def create_in_def update_in_def Let_def)
  show "makes_keys (e_nkeys operator_env) fst snd"
    by (simp add: makes_keys_def reads_only_def keeps_def)
  show "signs_operators (e_jwt operator_env) fst snd"
    by (auto simp: signs_operators_def reads_only_def keeps_def claims_data_equal_refl dest!: claims_equal_subject)
  show "reference_law (e_mach operator_env)"
    by (auto simp: reference_law_def plain_machinery_def same_object_def)
qed (simp_all add: plain_machinery_laws, simp add: plain_machinery_def)


end
