(* ===== verification/Spec2Isabelle.thy ===== *)
theory Spec2Isabelle
  imports Settling Connections Watcher_Properties Progress Credentials_Scenario Statuses
    Deep_Copy_Properties Client_Properties Lister_Properties Informer_Properties Manager_Properties
    Fake_Properties Signing_Key_Convergence Operator_Convergence
begin

text \<open>
  The NATS account operator: a Kubernetes operator that manages the seeds, JWTs and credentials of
  NATS operators, accounts, signing keys and users as custom resources.

  \<^bold>\<open>The program.\<close> Four reconcilers (internal/controller/accounts), one for each resource, are called
  with the name of an object whenever it, or an object it depends on, changes. Each fetches the
  object, works through a fixed sequence of steps (seed secret, issuer, owner, labels, signing keys,
  JWT secret, push to the NATS server or credentials secret) that stops at the first error or the
  first write, records what it found in the conditions of the object's status, and writes the status
  in a deferred function when it has changed. The reconcilers share the steps on seeds, JWTs and
  issuers (base_controller.go), the builders of the secrets (resources), the way an error becomes a
  result and a condition (errors.go), the condition manager (pkg/apis), the helpers (pkg/helpers)
  and the NATS client with the claims of the JWTs (pkg/nsc). They do not call each other: they
  interact through the cluster, by the labels and references they write and by the watchers that
  turn a change of one object into reconciliations of others. The program itself (cmd/main.go) builds
  the manager and the clientsets and registers the reconcilers with their watchers. Code generators
  add the deep copies of the resources and the clientset, listers and informers of their types
  (pkg/generated), of which the reconcilers use the deep copies of the status and the clientset.

  \<^bold>\<open>How it is modelled.\<close> A Go call is a function \<open>('s, 'a) go\<close> from a state to an outcome, which is a
  value or a panic (a nil dereference), and a state (theory Prelude). The state of the controllers
  (theory Env) is the external world, the object under reconciliation, to which the Go code holds a
  pointer, and the trace of all external calls with their answers. Kubernetes, its client machinery,
  nkeys, jwt and nats.go are not part of the repository: they are a record of functions \<open>E\<close>, a
  parameter of every definition that uses them, and the world they act on is of an arbitrary type.
  So a property holds whatever the cluster, the server and the libraries answer, also when others
  write in between; where it needs documented behaviour of a library, that is a named hypothesis.
  Errors are values (theory Go_Errors): chains that \<open>errors.As\<close> searches, with the wrappers of
  errors.go as constructors. Time is an unbounded integer that the world provides. The loops of the
  program range over slices and maps, so all definitions are structurally recursive and total; there
  is no fuel and no bound on any input. Resources are values in the reconcilers. The deep copies, which
  are about sharing, work on an explicit memory instead: blocks that only grow in number, pointers
  and slices into them, one record \<open>*_mem\<close> for each struct, and \<open>view_*\<close>, the value of Api_Types
  that a struct in memory stands for. The timeouts of the clients are 64-bit words.

  \<^bold>\<open>Where the parts are.\<close>
  \<^item> Prelude: outcomes, the monad, weakest preconditions, \<open>sort.Slice\<close> and its contract.
  \<^item> Go_Errors, Result_Errors: error values, fmt and multierr; errors.go and utils.go
    (\<open>as_result\<close>, \<open>mark_condition\<close>, \<open>is_equal_unordered\<close>).
  \<^item> Conditions, Happiness: pkg/apis (condition_set.go, condition_types.go, volatile_time.go);
    \<open>set_condition\<close>, \<open>recompute_happiness\<close>, the \<open>mark_*\<close> methods.
  \<^item> Api_Types, Lifecycle, Lifecycle_Runs: api/accounts/v1alpha1, the resources as records and
    the lifecycle methods of the four statuses (\<open>*_lifecycle.go\<close>).
  \<^item> Env, Cluster: the libraries and the cluster, the external calls, and the judgements \<open>emits\<close>
    and \<open>logs\<close> about the calls of a piece of code.
  \<^item> Secrets: the builders of internal/controller/accounts/resources and secrets.go.
  \<^item> Helpers: pkg/helpers. Claims, Nats_Client: pkg/nsc.
  \<^item> Base_Reconciler: base_controller.go. Reconciler: the deferred status update of the four
    \<open>Reconcile\<close> methods. Operator_Reconciler, Account_Reconciler, User_Reconciler,
    Signing_Key_Reconciler: the controllers of the same names. Watchers: the event handlers of
    their \<open>SetupWithManager\<close> methods.
  \<^item> Behaviour: the judgement \<open>does\<close>, which relates outcome, calls and object, and
    \<open>guarded\<close>, calls that need an earlier call.
  \<^item> Manager: cmd/main.go and the registrations of the four \<open>SetupWithManager\<close> methods.
  \<^item> Memory, Memory_Types, Deep_Copies: the statements deep copies are made of, the structs in memory,
    and the two zz_generated.deepcopy.go.
  \<^item> Typed_Clients, Clientsets: pkg/generated/clientset/versioned, the typed clients as the requests
    they make of a REST client (\<open>client_get\<close> and so on for any type, \<open>accounts_get\<close> and so on for the
    four), and the constructors. Listers: pkg/generated/listers. Informers: pkg/generated/informer,
    the shared factory, its options and the informers of the four types. Fake_Clients: the fake
    directories of the clientset.
  \<^item> Samples, Pushing_Scenario, Credentials_Scenario, Idle_Client: concrete libraries, a concrete cluster, and
    two reconciliations that go all the way, for the witnesses.

  \<^bold>\<open>Interfaces.\<close> \<open>slice_sort\<close> (the contract of \<open>sort.Slice\<close>), \<open>conditions_accessor\<close> and
  \<open>status_lifecycle\<close> (a status with its conditions and the fields they back), \<open>secret_builder\<close> (what
  a builder promises to the comparison with the stored secret) and \<open>status_reconciler\<close> (the frame of
  a \<open>Reconcile\<close> method), \<open>cell_kind\<close> (a type that can be kept in a block of memory), \<open>object_type\<close>
  (a type of objects in a cache) and \<open>fake_double\<close> (a fake and a client of one type) are locales, interpreted on the sorts, the four statuses, the three
  builders, the four reconcilers, all structs of the API and the four resources of the program.

  \<^bold>\<open>What is shown.\<close>
  \<^item> Conditions and Happiness: \<open>SetCondition\<close> refines a map update, and the happy condition is the
    summary of the dependents in every state the manager's operations reach.
  \<^item> Lifecycle_Runs: in every state of a status the fields are set exactly when the conditions that
    promise them are True.
  \<^item> Result_Errors: which result and which condition an error leads to.
  \<^item> Secrets, Settling: a built secret is what is meant, and is found in order when it is read again;
    a stored JWT with the same claims is kept.
  \<^item> Steady_Conditions: conditions that are True with their reasons and messages are left alone by a
    reconciliation that goes well. Obliging_Cluster: what is asked of a cluster for reconciliations to
    come to an end.
  \<^item> Signing_Key_Convergence: with an owner that admits the key (\<open>belongs\<close>), two reconciliations of a signing
    key in any state bring it to rest (\<open>at_rest\<close>), and later ones only read.
  \<^item> Operator_Surroundings, Operator_Convergence: the same for an operator whose system account is ready
    (\<open>fits\<close>, \<open>operator_at_rest\<close>), from any state of its status and of its two secrets that
    \<open>secrets_usable\<close> allows.
  \<^item> Helpers, Claims: the next signing keys, the namespaces a selector admits, the claims made from
    a spec and their comparison.
  \<^item> Base_Properties: a seed is never replaced, a JWT secret is only ever written with the next JWT,
    an issuer is used only when it is ready, an issuer's seed only when it is the right one.
  \<^item> Account_Facts, Account_Signing, Account_Finalizer, Connections: an account's JWT is signed only
    for an operator that admits the account, the server only gets the stored token, the protocol of
    the finalizer and of the connection, and how the finalizer can be stuck.
  \<^item> Operator_Properties, User_Properties, Signing_Key_Properties: the same questions for the other
    reconcilers, and that those of operators and signing keys never panic.
  \<^item> Statuses: each reconciler writes the status at most once, as its last call, exactly when it has changed,
    and what it writes is a status of the lifecycle.
  \<^item> Histories: the system as a step relation. \<open>stored\<close> is what can be in the cluster after any
    interleaving of reconciliations of the four kinds, each in an arbitrary world, and edits of the
    users; every stored status is consistent, and on stored objects the operators' reconciler
    returns.
  \<^item> Progress: a reconciliation of any kind that writes asks for another one.
  \<^item> Watcher_Properties: a change wakes exactly the recorded owner and the labelled objects.
  \<^item> Deep_Copy_Laws, Deep_Copy_Properties: every deep copy is a value equal to the original in blocks
    of its own, so neither is changed by writes to the other; hence the original status a reconciler
    keeps for its deferred comparison stays the one that was read, and values are a faithful model of
    the reconcilers' objects.
  \<^item> Client_Properties: which requests a typed client can make, the bounds of its timeouts, and when a
    clientset is created. Fake_Properties: the fakes are faithful doubles of the clients. Lister_Properties: what the listers return of a cache. Informer_Properties:
    in every run of a factory each informer is launched once, and none after \<open>Shutdown\<close>.
  \<^item> Manager_Properties: main stops at the first call that fails, every event handler is registered for
    the kind it handles, and the reconcilers only read through the generated clientset.

  \<^bold>\<open>Hypotheses about libraries.\<close> \<open>machinery_laws\<close> (controllerutil: setting the owner and the finalizer
  again changes nothing), \<open>seed_law\<close> and \<open>seed_decode_law\<close> (nkeys), \<open>encoding_law\<close> (jwt: encoding sets
  the ID and the time), the \<open>*_update_law\<close>s (an update returns the object
  with a status the controllers wrote; \<open>update_laws\<close> is this for three kinds), \<open>obliging\<close> and
  \<open>operator_cluster\<close> (reads return what is stored, an accepted update stores all but the status and an
  accepted status update the status only; a new key is the key of its seed, and an encoded JWT is decoded
  again), \<open>reference_law\<close> (an owner reference depends on the identity of the owner), \<open>gvk_law\<close> and \<open>lists_store\<close> (group, version and
  kind as strings; label selectors of lists), \<open>deep_copying\<close> (the deep copies of the types of
  Kubernetes copy), \<open>serves\<close> (an indexer looks objects up by namespace and name), \<open>answers_typed\<close> and \<open>watch_law\<close> (client-go's
  fake). Each is used by name, and a witness shows an instance.

  \<^bold>\<open>Not modelled.\<close> RBAC markers and the registration of types with schemes are comments and calls
  of apimachinery. The tests are not part of the program. Logging and contexts have no effect on
  the state. Annotations of secrets (\<open>WithAnnotations\<close>) are never set by the program. Cancellation
  and concurrent reconciliations of one object do not occur in controller-runtime; concurrent changes
  by others are answers of the world. The mutex of the informer factory makes each of its operations
  one step.
\<close>

end
